(* ===== verification/Prelude.thy ===== *)
theory Prelude
  imports Main "HOL-Library.Word" "HOL-Library.Sublist" "HOL-Library.Char_ord"
    "HOL-Library.List_Lexorder" "HOL-Library.AList"
begin

text \<open>
  Shared vocabulary of the development: the result type of fallible Rust code and its
  \<open>?\<close> operator, byte strings with the string functions of the Rust standard library the
  program calls, ordered maps (\<open>BTreeMap\<close>), ordered sets (\<open>BTreeSet\<close>), stable
  de-duplication, and the record of third-party operations (calendar arithmetic of the
  \<open>time\<close> crate, \<open>uuid\<close> printing and parsing, SHA-256) that the definitions take as an
  argument together with the documented laws that theorems may assume of them.
\<close>

named_theorems res_simps \<open>rewriting of results built with the early-return operators\<close>
named_theorems rust_simps \<open>evaluation of the modelled standard-library functions\<close>

section \<open>Results and early returns\<close>

fun bind_res :: "'e + 'a \<Rightarrow> ('a \<Rightarrow> 'e + 'b) \<Rightarrow> 'e + 'b" where
  "bind_res (Inl e) f = Inl e"
| "bind_res (Inr x) f = f x"

definition reject_when :: "bool \<Rightarrow> 'e \<Rightarrow> 'e + unit" where
  "reject_when c e = (if c then Inl e else Inr ())"

definition ok_or :: "'e \<Rightarrow> 'a option \<Rightarrow> 'e + 'a" where
  "ok_or e x = (case x of None \<Rightarrow> Inl e | Some y \<Rightarrow> Inr y)"

definition map_err :: "('e \<Rightarrow> 'f) \<Rightarrow> 'e + 'a \<Rightarrow> 'f + 'a" where
  "map_err f r = (case r of Inl e \<Rightarrow> Inl (f e) | Inr x \<Rightarrow> Inr x)"

definition is_ok :: "'e + 'a \<Rightarrow> bool" where
  "is_ok r = (case r of Inl _ \<Rightarrow> False | Inr _ \<Rightarrow> True)"

lemma bind_res_Inr_iff [res_simps]:
  "bind_res m f = Inr y \<longleftrightarrow> (\<exists>x. m = Inr x \<and> f x = Inr y)"
  by (cases m) auto

lemma bind_res_Inl_iff [res_simps]:
  "bind_res m f = Inl e \<longleftrightarrow> m = Inl e \<or> (\<exists>x. m = Inr x \<and> f x = Inl e)"
  by (cases m) auto

lemma bind_res_unit_Inr:
  "bind_res (m :: 'e + unit) f = Inr y \<longleftrightarrow> m = Inr () \<and> f () = Inr y"
  by (cases m) auto

lemma if_else_ok_Inr: "(if c then m else Inr ()) = Inr () \<longleftrightarrow> (c \<longrightarrow> m = Inr ())"
  by simp

lemma reject_when_Inr [simp]: "reject_when c e = Inr u \<longleftrightarrow> \<not> c"
  by (simp add: reject_when_def)

lemma reject_when_Inl [simp]: "reject_when c e = Inl e' \<longleftrightarrow> c \<and> e' = e"
  by (auto simp: reject_when_def)

lemma reject_when_True [simp]: "reject_when True e = Inl e"
  by (simp add: reject_when_def)

lemma reject_when_False [simp]: "reject_when False e = Inr ()"
  by (simp add: reject_when_def)

lemma ok_or_Inr [simp]: "ok_or e x = Inr y \<longleftrightarrow> x = Some y"
  by (cases x) (auto simp: ok_or_def)

lemma ok_or_Inl [simp]: "ok_or e x = Inl e' \<longleftrightarrow> x = None \<and> e' = e"
  by (cases x) (auto simp: ok_or_def)

lemma ok_or_simps [simp]: "ok_or e None = Inl e" "ok_or e (Some y) = Inr y"
  by (simp_all add: ok_or_def)

lemma map_err_Inr [simp]: "map_err f r = Inr y \<longleftrightarrow> r = Inr y"
  by (cases r) (auto simp: map_err_def)

lemma map_err_Inl [simp]: "map_err f r = Inl e \<longleftrightarrow> (\<exists>e'. r = Inl e' \<and> e = f e')"
  by (cases r) (auto simp: map_err_def)

lemma map_err_simps [simp]: "map_err f (Inl e) = Inl (f e)" "map_err f (Inr y) = Inr y"
  by (simp_all add: map_err_def)

lemma is_ok_simps [simp]: "is_ok (Inr y)" "\<not> is_ok (Inl e)"
  by (simp_all add: is_ok_def)

lemma is_ok_iff: "is_ok r \<longleftrightarrow> (\<exists>y. r = Inr y)"
  by (cases r) auto

text \<open>A \<open>for\<close> loop whose body may return an error: the first error wins.\<close>

fun for_each :: "('a \<Rightarrow> 'e + unit) \<Rightarrow> 'a list \<Rightarrow> 'e + unit" where
  "for_each f [] = Inr ()"
| "for_each f (x # xs) = bind_res (f x) (\<lambda>_. for_each f xs)"

lemma for_each_Inr [simp]: "for_each f xs = Inr u \<longleftrightarrow> (\<forall>x \<in> set xs. f x = Inr ())"
  by (induction xs) (auto simp: res_simps)

lemma for_each_Inl: "for_each f xs = Inl e \<Longrightarrow> \<exists>x \<in> set xs. f x = Inl e"
  by (induction xs) (auto simp: res_simps)

section \<open>Option helpers\<close>

definition is_some_and :: "('a \<Rightarrow> bool) \<Rightarrow> 'a option \<Rightarrow> bool" where
  "is_some_and p x = (case x of None \<Rightarrow> False | Some y \<Rightarrow> p y)"

definition is_none_or :: "('a \<Rightarrow> bool) \<Rightarrow> 'a option \<Rightarrow> bool" where
  "is_none_or p x = (case x of None \<Rightarrow> True | Some y \<Rightarrow> p y)"

definition filter_option :: "('a \<Rightarrow> bool) \<Rightarrow> 'a option \<Rightarrow> 'a option" where
  "filter_option p x = (case x of None \<Rightarrow> None | Some y \<Rightarrow> if p y then Some y else None)"

lemma option_helper_simps [simp]:
  "is_some_and p (Some y) = p y" "\<not> is_some_and p None"
  "is_none_or p (Some y) = p y" "is_none_or p None"
  "filter_option p None = None"
  "filter_option p (Some y) = (if p y then Some y else None)"
  by (simp_all add: is_some_and_def is_none_or_def filter_option_def)

lemma is_some_and_iff: "is_some_and p x \<longleftrightarrow> (\<exists>y. x = Some y \<and> p y)"
  by (cases x) auto

lemma is_none_or_iff: "is_none_or p x \<longleftrightarrow> (\<forall>y. x = Some y \<longrightarrow> p y)"
  by (cases x) auto

lemma filter_option_Some [simp]: "filter_option p x = Some y \<longleftrightarrow> x = Some y \<and> p y"
  by (cases x) auto

lemma filter_option_None: "filter_option p x = None \<longleftrightarrow> (\<forall>y. x = Some y \<longrightarrow> \<not> p y)"
  by (cases x) auto

section \<open>Machine integers\<close>

type_synonym u32 = "32 word"
type_synonym u64 = "64 word"

definition sat_add :: "'a::len word \<Rightarrow> 'a word \<Rightarrow> 'a word" where
  "sat_add a b = (if unat a + unat b < 2 ^ LENGTH('a) then a + b else - 1)"

definition sat_sub :: "'a::len word \<Rightarrow> 'a word \<Rightarrow> 'a word" where
  "sat_sub a b = (if b \<le> a then a - b else 0)"

definition I32_MAX :: int where "I32_MAX = 2147483647"
definition I64_MAX :: int where "I64_MAX = 9223372036854775807"
definition I64_MIN :: int where "I64_MIN = - 9223372036854775808"

definition is_i64 :: "int \<Rightarrow> bool" where
  "is_i64 x \<longleftrightarrow> I64_MIN \<le> x \<and> x \<le> I64_MAX"

text \<open>\<open>i64::checked_add\<close> and \<open>checked_sub\<close>: the exact result, or nothing when it does not fit.\<close>

definition checked_i64 :: "int \<Rightarrow> int option" where
  "checked_i64 x = (if is_i64 x then Some x else None)"

definition sat_i32 :: "int \<Rightarrow> int" where
  "sat_i32 x = max (- 2147483648) (min I32_MAX x)"

definition sat_i64 :: "int \<Rightarrow> int" where
  "sat_i64 x = max I64_MIN (min I64_MAX x)"

lemma unat_minus_one: "unat (- 1 :: 'a::len word) = 2 ^ LENGTH('a) - 1"
  by (simp add: unsigned_minus_1_eq_mask mask_eq_exp_minus_1)

lemma unat_sat_add:
  "unat (sat_add a (b :: 'a::len word)) = min (unat a + unat b) (2 ^ LENGTH('a) - 1)"
proof (cases "unat a + unat b < 2 ^ LENGTH('a)")
  case True
  then show ?thesis by (simp add: sat_add_def unat_word_ariths)
next
  case False
  then show ?thesis by (simp add: sat_add_def unat_minus_one)
qed

lemma unat_sat_sub: "unat (sat_sub a b) = unat a - unat b"
  by (auto simp: sat_sub_def unat_sub word_le_nat_alt)


section \<open>Strings\<close>

text \<open>
  A Rust \<open>String\<close> is its UTF-8 byte sequence: a list of 8-bit characters, so \<open>length\<close>
  is \<open>str::len\<close>. Functions on bytes are the standard library's ASCII functions. The
  Unicode \<open>White_Space\<close> characters are listed by their UTF-8 encodings; a lead byte
  occurs nowhere else in well-formed UTF-8, so matching an encoding at a byte position
  is matching the character there.
\<close>

definition ord :: "char \<Rightarrow> nat" where
  "ord c = of_char c"

definition is_ascii_digit :: "char \<Rightarrow> bool" where
  "is_ascii_digit c \<longleftrightarrow> 48 \<le> ord c \<and> ord c \<le> 57"

definition is_ascii_upper :: "char \<Rightarrow> bool" where
  "is_ascii_upper c \<longleftrightarrow> 65 \<le> ord c \<and> ord c \<le> 90"

definition is_ascii_lower :: "char \<Rightarrow> bool" where
  "is_ascii_lower c \<longleftrightarrow> 97 \<le> ord c \<and> ord c \<le> 122"

definition is_ascii_alphanumeric :: "char \<Rightarrow> bool" where
  "is_ascii_alphanumeric c \<longleftrightarrow> is_ascii_digit c \<or> is_ascii_upper c \<or> is_ascii_lower c"

definition is_ascii_whitespace :: "char \<Rightarrow> bool" where
  "is_ascii_whitespace c \<longleftrightarrow> ord c \<in> {9, 10, 12, 13, 32}"

definition is_ascii_control :: "char \<Rightarrow> bool" where
  "is_ascii_control c \<longleftrightarrow> ord c < 32 \<or> ord c = 127"

text \<open>A string with a control character (general category Cc): the ASCII ones and the two-byte
  encodings of U+0080 to U+009F.\<close>

fun contains_control :: "string \<Rightarrow> bool" where
  "contains_control [] = False"
| "contains_control (c # cs) =
     (is_ascii_control c \<or>
      (ord c = 0xC2 \<and> (case cs of [] \<Rightarrow> False | d # _ \<Rightarrow> 0x80 \<le> ord d \<and> ord d \<le> 0x9F)) \<or>
      contains_control cs)"

declare contains_control.simps(2) [simp del]

text \<open>Printable ASCII without the space: the alphabet of header tokens and JWTs.\<close>

definition is_ascii_graphic :: "char \<Rightarrow> bool" where
  "is_ascii_graphic c \<longleftrightarrow> 33 \<le> ord c \<and> ord c \<le> 126"

definition to_lower :: "char \<Rightarrow> char" where
  "to_lower c = (if is_ascii_upper c then char_of (ord c + 32) else c)"

definition to_ascii_lowercase :: "string \<Rightarrow> string" where
  "to_ascii_lowercase s = map to_lower s"

definition eq_ignore_ascii_case :: "string \<Rightarrow> string \<Rightarrow> bool" where
  "eq_ignore_ascii_case s t \<longleftrightarrow> to_ascii_lowercase s = to_ascii_lowercase t"

definition unicode_whitespace :: "string list" where
  "unicode_whitespace =
     [[CHR 0x09], [CHR 0x0A], [CHR 0x0B], [CHR 0x0C], [CHR 0x0D], [CHR 0x20],
      [CHR 0xC2, CHR 0x85], [CHR 0xC2, CHR 0xA0], [CHR 0xE1, CHR 0x9A, CHR 0x80],
      [CHR 0xE2, CHR 0x80, CHR 0x80], [CHR 0xE2, CHR 0x80, CHR 0x81],
      [CHR 0xE2, CHR 0x80, CHR 0x82], [CHR 0xE2, CHR 0x80, CHR 0x83],
      [CHR 0xE2, CHR 0x80, CHR 0x84], [CHR 0xE2, CHR 0x80, CHR 0x85],
      [CHR 0xE2, CHR 0x80, CHR 0x86], [CHR 0xE2, CHR 0x80, CHR 0x87],
      [CHR 0xE2, CHR 0x80, CHR 0x88], [CHR 0xE2, CHR 0x80, CHR 0x89],
      [CHR 0xE2, CHR 0x80, CHR 0x8A], [CHR 0xE2, CHR 0x80, CHR 0xA8],
      [CHR 0xE2, CHR 0x80, CHR 0xA9], [CHR 0xE2, CHR 0x80, CHR 0xAF],
      [CHR 0xE2, CHR 0x81, CHR 0x9F], [CHR 0xE3, CHR 0x80, CHR 0x80]]"

text \<open>The whitespace character a byte string starts with, if any.\<close>

definition lead_ws :: "string \<Rightarrow> string option" where
  "lead_ws s = find (\<lambda>w. prefix w s) unicode_whitespace"

definition trail_ws :: "string \<Rightarrow> string option" where
  "trail_ws s = find (\<lambda>w. suffix w s) unicode_whitespace"

lemma unicode_whitespace_nonempty: "w \<in> set unicode_whitespace \<Longrightarrow> w \<noteq> []"
  by (auto simp: unicode_whitespace_def)

lemma lead_ws_SomeD: "lead_ws s = Some w \<Longrightarrow> w \<noteq> [] \<and> prefix w s"
  by (auto simp: lead_ws_def find_Some_iff unicode_whitespace_nonempty)

lemma trail_ws_SomeD: "trail_ws s = Some w \<Longrightarrow> w \<noteq> [] \<and> suffix w s"
  by (auto simp: trail_ws_def find_Some_iff unicode_whitespace_nonempty)

function trim_start :: "string \<Rightarrow> string" where
  "trim_start s = (case lead_ws s of None \<Rightarrow> s | Some w \<Rightarrow> trim_start (drop (length w) s))"
  by pat_completeness auto
termination
proof (relation "measure length")
  fix s w assume "lead_ws s = Some w"
  then have "w \<noteq> []" "prefix w s" by (simp_all add: lead_ws_SomeD)
  then show "(drop (length w) s, s) \<in> measure length"
    by (cases s) auto
qed simp

function trim_end :: "string \<Rightarrow> string" where
  "trim_end s = (case trail_ws s of None \<Rightarrow> s
                 | Some w \<Rightarrow> trim_end (take (length s - length w) s))"
  by pat_completeness auto
termination
proof (relation "measure length")
  fix s w assume "trail_ws s = Some w"
  then have "w \<noteq> []" "suffix w s" by (simp_all add: trail_ws_SomeD)
  then show "(take (length s - length w) s, s) \<in> measure length"
    by (cases s) auto
qed simp

declare trim_start.simps [simp del] trim_end.simps [simp del]

definition trim :: "string \<Rightarrow> string" where
  "trim s = trim_end (trim_start s)"

definition blank :: "string \<Rightarrow> bool" where
  "blank s \<longleftrightarrow> trim s = []"

text \<open>\<open>split_once(char::is_whitespace)\<close>: the text before and after the first whitespace
  character; \<open>split_whitespace().count()\<close>: the number of maximal non-whitespace runs.\<close>

function split_once_ws :: "string \<Rightarrow> (string \<times> string) option" where
  "split_once_ws s =
     (case lead_ws s of
        Some w \<Rightarrow> Some ([], drop (length w) s)
      | None \<Rightarrow> (case s of [] \<Rightarrow> None
               | c # cs \<Rightarrow> map_option (\<lambda>(a, b). (c # a, b)) (split_once_ws cs)))"
  by pat_completeness auto
termination by (relation "measure length") auto

declare split_once_ws.simps [simp del]

definition single_word :: "string \<Rightarrow> bool" where
  "single_word s \<longleftrightarrow> trim s \<noteq> [] \<and> split_once_ws (trim s) = None"

definition contains_ws :: "string \<Rightarrow> bool" where
  "contains_ws s \<longleftrightarrow> split_once_ws s \<noteq> None"

definition strip_prefix :: "string \<Rightarrow> string \<Rightarrow> string option" where
  "strip_prefix p s = (if prefix p s then Some (drop (length p) s) else None)"

text \<open>\<open>str::split\<close> with the UTF-8 encoding of one character as its pattern.\<close>

function split_str :: "string \<Rightarrow> string \<Rightarrow> string list" where
  "split_str sep s =
     (if s = [] then [[]]
      else if sep \<noteq> [] \<and> prefix sep s then [] # split_str sep (drop (length sep) s)
      else (case split_str sep (tl s) of [] \<Rightarrow> [[hd s]] | w # ws \<Rightarrow> (hd s # w) # ws))"
  by pat_completeness auto
termination
  by (relation "measure (\<lambda>(sep, s). length s)") (auto simp: length_greater_0_conv)

declare split_str.simps [simp del]

fun join_str :: "string \<Rightarrow> string list \<Rightarrow> string" where
  "join_str sep [] = []"
| "join_str sep [w] = w"
| "join_str sep (w # v # ws) = w @ sep @ join_str sep (v # ws)"


subsection \<open>Facts about strings\<close>

lemma whitespace_head_not_graphic:
  "w \<in> set unicode_whitespace \<Longrightarrow> \<not> is_ascii_graphic (hd w) \<and> \<not> is_ascii_graphic (last w)"
  by (auto simp: unicode_whitespace_def is_ascii_graphic_def ord_def)

lemma lead_ws_graphic: "is_ascii_graphic c \<Longrightarrow> lead_ws (c # cs) = None"
  using whitespace_head_not_graphic unicode_whitespace_nonempty
  by (fastforce simp: lead_ws_def find_None_iff prefix_Cons)

lemma lead_ws_Nil [simp]: "lead_ws [] = None"
  using unicode_whitespace_nonempty by (auto simp: lead_ws_def find_None_iff)

lemma trail_ws_Nil [simp]: "trail_ws [] = None"
  using unicode_whitespace_nonempty by (auto simp: trail_ws_def find_None_iff)

lemma trail_ws_graphic:
  assumes "is_ascii_graphic c" shows "trail_ws (cs @ [c]) = None"
proof -
  have "\<not> suffix w (cs @ [c])" if "w \<in> set unicode_whitespace" for w
  proof
    assume "suffix w (cs @ [c])"
    with unicode_whitespace_nonempty [OF that] have "last w = c"
      by (metis last_appendR last_snoc suffix_def)
    with whitespace_head_not_graphic [OF that] assms show False by simp
  qed
  then show ?thesis by (simp add: trail_ws_def find_None_iff)
qed

lemma trim_start_Nil [simp]: "trim_start [] = []"
  by (simp add: trim_start.simps)

lemma trim_end_Nil [simp]: "trim_end [] = []"
  by (simp add: trim_end.simps)

lemma trim_Nil [simp]: "trim [] = []"
  by (simp add: trim_def)

lemma blank_Nil [simp]: "blank []"
  by (simp add: blank_def)

lemma trim_end_graphic: "s \<noteq> [] \<Longrightarrow> is_ascii_graphic (last s) \<Longrightarrow> trim_end s = s"
  using trail_ws_graphic [of "last s" "butlast s"] by (simp add: trim_end.simps)

lemma trim_start_graphic: "s \<noteq> [] \<Longrightarrow> is_ascii_graphic (hd s) \<Longrightarrow> trim_start s = s"
  using lead_ws_graphic [of "hd s" "tl s"] by (cases s) (simp_all add: trim_start.simps)

lemma trim_graphic:
  "s \<noteq> [] \<Longrightarrow> is_ascii_graphic (hd s) \<Longrightarrow> is_ascii_graphic (last s) \<Longrightarrow> trim s = s"
  by (simp add: trim_def trim_start_graphic trim_end_graphic)

lemma not_blank_graphic:
  "s \<noteq> [] \<Longrightarrow> is_ascii_graphic (hd s) \<Longrightarrow> is_ascii_graphic (last s) \<Longrightarrow> \<not> blank s"
  by (simp add: blank_def trim_graphic)

lemma split_once_ws_graphic: "list_all is_ascii_graphic s \<Longrightarrow> split_once_ws s = None"
  by (induction s) (simp_all add: split_once_ws.simps [of "[]"] lead_ws_graphic split_once_ws.simps [of "_ # _"])

lemma split_once_ws_space:
  "list_all is_ascii_graphic s \<Longrightarrow> split_once_ws (s @ CHR '' '' # t) = Some (s, t)"
proof (induction s)
  case Nil
  have "lead_ws (CHR '' '' # t) = Some '' ''"
    by (simp add: lead_ws_def unicode_whitespace_def prefix_Cons)
  then show ?case by (simp add: split_once_ws.simps)
next
  case (Cons c s)
  then show ?case
    by (simp add: split_once_ws.simps [of "c # _"] lead_ws_graphic)
qed

lemma trim_length: "length (trim_start s) \<le> length s" "length (trim_end s) \<le> length s"
proof -
  show "length (trim_start s) \<le> length s"
  proof (induction s rule: trim_start.induct)
    case (1 s)
    show ?case
      using 1 by (auto simp: trim_start.simps [of s] split: option.splits)
  qed
  show "length (trim_end s) \<le> length s"
  proof (induction s rule: trim_end.induct)
    case (1 s)
    show ?case
      using 1 by (auto simp: trim_end.simps [of s] split: option.splits)
  qed
qed

lemma length_trim: "length (trim s) \<le> length s"
  using trim_length(2) [of "trim_start s"] trim_length(1) [of s] by (simp add: trim_def)

lemma split_str_ne_Nil [simp]: "split_str sep s \<noteq> []"
  by (subst split_str.simps) (auto split: list.splits)

lemma join_str_Cons: "ws \<noteq> [] \<Longrightarrow> join_str sep (w # ws) = w @ sep @ join_str sep ws"
  by (cases ws) auto

lemma join_str_prepend: "join_str sep ((c # w) # ws) = c # join_str sep (w # ws)"
  by (cases ws) auto

lemma join_split_str: "join_str sep (split_str sep s) = s"
proof (induction sep s rule: split_str.induct)
  case (1 sep s)
  consider "s = []" | "s \<noteq> []" "sep \<noteq> [] \<and> prefix sep s" | "s \<noteq> []" "\<not> (sep \<noteq> [] \<and> prefix sep s)"
    by blast
  then show ?case
  proof cases
    case 1
    then show ?thesis by (simp add: split_str.simps)
  next
    case 2
    with "1.IH"(1) have IH: "join_str sep (split_str sep (drop (length sep) s)) = drop (length sep) s"
      by blast
    from 2 have "sep @ drop (length sep) s = s"
      by (auto elim: prefixE)
    with 2 IH show ?thesis
      by (subst split_str.simps) (simp add: join_str_Cons)
  next
    case 3
    with "1.IH"(2) have "join_str sep (split_str sep (tl s)) = tl s" by blast
    with 3 show ?thesis
      by (subst split_str.simps) (auto split: list.splits simp: join_str_prepend)
  qed
qed

lemma split_str_single:
  "sep = [c] \<Longrightarrow> c \<notin> set s \<Longrightarrow> split_str sep s = [s]"
proof (induction s)
  case Nil
  then show ?case by (simp add: split_str.simps)
next
  case (Cons a s)
  then show ?case by (subst split_str.simps) auto
qed

lemma split_str_append_sep:
  "sep = [c] \<Longrightarrow> c \<notin> set s \<Longrightarrow> split_str sep (s @ sep @ t) = s # split_str sep t"
proof (induction s)
  case Nil
  then show ?case by (subst split_str.simps) simp
next
  case (Cons a s)
  then show ?case by (subst split_str.simps) auto
qed

lemma split_join_str:
  "sep = [c] \<Longrightarrow> ws \<noteq> [] \<Longrightarrow> \<forall>w \<in> set ws. c \<notin> set w \<Longrightarrow> split_str sep (join_str sep ws) = ws"
proof (induction sep ws rule: join_str.induct)
  case (1 sep)
  then show ?case by simp
next
  case (2 sep w)
  then show ?case by (simp add: split_str_single)
next
  case (3 sep w v ws)
  have "split_str sep (w @ sep @ join_str sep (v # ws)) = w # split_str sep (join_str sep (v # ws))"
    using 3 by (intro split_str_append_sep) auto
  with 3 show ?case by simp
qed

lemma length_join_str:
  "ws \<noteq> [] \<Longrightarrow> length (join_str sep ws) = sum_list (map length ws) + length sep * (length ws - 1)"
  by (induction sep ws rule: join_str.induct) auto

section \<open>Ordered maps, ordered sets and stable de-duplication\<close>

text \<open>A \<open>BTreeMap\<close> is its key-sorted association list, a \<open>BTreeSet\<close> its sorted
  repetition-free list, a \<open>HashMap\<close> an association list with distinct keys.\<close>

fun btm_insert :: "'k::linorder \<Rightarrow> 'v \<Rightarrow> ('k \<times> 'v) list \<Rightarrow> ('k \<times> 'v) list" where
  "btm_insert k v [] = [(k, v)]"
| "btm_insert k v ((k', v') # m) =
     (if k < k' then (k, v) # (k', v') # m
      else if k = k' then (k, v) # m
      else (k', v') # btm_insert k v m)"

definition btm_wf :: "('k::linorder \<times> 'v) list \<Rightarrow> bool" where
  "btm_wf m \<longleftrightarrow> sorted_wrt (<) (map fst m)"

definition btree_set :: "'a::linorder list \<Rightarrow> 'a list" where
  "btree_set xs = sort (remdups xs)"

fun dedupe_from :: "'a set \<Rightarrow> 'a list \<Rightarrow> 'a list" where
  "dedupe_from seen [] = []"
| "dedupe_from seen (x # xs) =
     (if x \<in> seen then dedupe_from seen xs else x # dedupe_from (insert x seen) xs)"

lemma fst_btm_insert: "fst ` set (btm_insert k v m) = insert k (fst ` set m)"
  by (induction k v m rule: btm_insert.induct) auto

lemma btm_insert_wf [simp]: "btm_wf m \<Longrightarrow> btm_wf (btm_insert k v m)"
proof (induction k v m rule: btm_insert.induct)
  case (1 k v)
  then show ?case by (simp add: btm_wf_def)
next
  case (2 k v k' v' m)
  then have "btm_wf m" by (simp add: btm_wf_def)
  with 2 have IH: "k' < k \<Longrightarrow> btm_wf (btm_insert k v m)" by simp
  from 2 IH show ?case
    using fst_btm_insert [of k v m]
    by (auto simp: btm_wf_def set_map [symmetric] simp del: set_map dest: less_trans)
qed

lemma btm_wf_simps [simp]: "btm_wf []"
  by (simp add: btm_wf_def)

lemma map_of_btm_insert: "btm_wf m \<Longrightarrow> map_of (btm_insert k v m) = (map_of m)(k \<mapsto> v)"
  by (induction k v m rule: btm_insert.induct) (auto simp: btm_wf_def fun_upd_twist)

lemma btm_wf_distinct: "btm_wf m \<Longrightarrow> distinct (map fst m)"
  by (simp add: btm_wf_def strict_sorted_iff)

lemma btree_set_props [simp]:
  "set (btree_set xs) = set xs" "sorted (btree_set xs)" "distinct (btree_set xs)"
  by (simp_all add: btree_set_def)

lemma dedupe_from_props:
  "set (dedupe_from seen xs) = set xs - seen \<and> distinct (dedupe_from seen xs)"
  by (induction seen xs rule: dedupe_from.induct) auto

lemma set_dedupe_from [simp]: "set (dedupe_from seen xs) = set xs - seen"
  by (simp add: dedupe_from_props)

lemma distinct_dedupe_from [simp]: "distinct (dedupe_from seen xs)"
  by (simp add: dedupe_from_props)

lemma dedupe_from_id: "distinct xs \<Longrightarrow> set xs \<inter> seen = {} \<Longrightarrow> dedupe_from seen xs = xs"
  by (induction seen xs rule: dedupe_from.induct) auto

section \<open>JSON values\<close>

text \<open>The \<open>serde_json::Value\<close> type; a number is its decimal text, an object is the
  association list of its entries.\<close>

datatype JsonValue =
    JNull
  | JBool bool
  | JNumber string
  | JString string
  | JArray "JsonValue list"
  | JObject "(string \<times> JsonValue) list"

fun as_str :: "JsonValue \<Rightarrow> string option" where
  "as_str (JString s) = Some s"
| "as_str _ = None"

fun as_object :: "JsonValue \<Rightarrow> (string \<times> JsonValue) list option" where
  "as_object (JObject m) = Some m"
| "as_object _ = None"

section \<open>Third-party operations\<close>

text \<open>
  An \<open>OffsetDateTime\<close> is the instant it denotes, in nanoseconds since the epoch, and a
  \<open>Duration\<close> its length in nanoseconds; comparison and difference are those of the
  integers. What the \<open>time\<close>, \<open>uuid\<close>, \<open>sha2\<close>, \<open>hmac\<close>, \<open>data_encoding\<close> and
  \<open>base64\<close> crates compute is a parameter.
\<close>

type_synonym time = int
type_synonym duration = int
type_synonym uuid = "128 word"
type_synonym bytes = "8 word list"

definition seconds :: "int \<Rightarrow> duration" where
  "seconds n = n * 1000000000"

text \<open>\<open>Duration::whole_seconds\<close> truncates towards zero.\<close>

definition whole_seconds :: "duration \<Rightarrow> int" where
  "whole_seconds d = (if d < 0 then - (- d div seconds 1) else d div seconds 1)"

record ext =
  time_checked_add :: "time \<Rightarrow> duration \<Rightarrow> time option"
  time_checked_sub :: "time \<Rightarrow> duration \<Rightarrow> time option"
  unix_timestamp :: "time \<Rightarrow> int"
  from_unix_timestamp :: "int \<Rightarrow> time option"
  duration_checked_mul :: "duration \<Rightarrow> int \<Rightarrow> duration option"
  uuid_to_string :: "uuid \<Rightarrow> string"
  uuid_parse_str :: "string \<Rightarrow> uuid option"
  sha256 :: "string \<Rightarrow> bytes"
  hmac_sha1 :: "bytes \<Rightarrow> bytes \<Rightarrow> bytes option"
  base32_nopad_decode :: "string \<Rightarrow> bytes option"
  base64url_encode :: "bytes \<Rightarrow> string"

text \<open>Decimal printing of a natural number, and with leading zeros to a given width.\<close>

fun show_nat :: "nat \<Rightarrow> string" where
  "show_nat n = (if n < 10 then [char_of (48 + n)]
                 else show_nat (n div 10) @ [char_of (48 + n mod 10)])"

definition show_padded :: "nat \<Rightarrow> nat \<Rightarrow> string" where
  "show_padded w n = (let d = show_nat n in replicate (w - length d) CHR ''0'' @ d)"

definition show_int :: "int \<Rightarrow> string" where
  "show_int i = (if i < 0 then CHR ''-'' # show_nat (nat (- i)) else show_nat (nat i))"

fun read_nat :: "string \<Rightarrow> nat" where
  "read_nat s = foldl (\<lambda>a c. 10 * a + (ord c - 48)) 0 s"

declare show_nat.simps [simp del] read_nat.simps [simp del]

lemma ord_digit: "n < 10 \<Longrightarrow> ord (char_of (48 + n)) = 48 + n"
  by (simp add: ord_def)

lemma show_nat_ne_Nil [simp]: "show_nat n \<noteq> []"
  by (subst show_nat.simps) simp

lemma show_nat_digits: "list_all is_ascii_digit (show_nat n)"
proof (induction n rule: show_nat.induct)
  case (1 n)
  have "is_ascii_digit (char_of (48 + k))" if "k < 10" for k :: nat
    using that by (simp add: is_ascii_digit_def ord_digit)
  with 1 show ?case by (subst show_nat.simps) simp
qed

lemma read_nat_snoc: "read_nat (s @ [c]) = 10 * read_nat s + (ord c - 48)"
  by (simp add: read_nat.simps)

lemma read_show_nat: "read_nat (show_nat n) = n"
proof (induction n rule: show_nat.induct)
  case (1 n)
  show ?case
  proof (cases "n < 10")
    case True
    then show ?thesis by (subst show_nat.simps) (simp add: read_nat.simps ord_digit)
  next
    case False
    with 1 show ?thesis by (subst show_nat.simps) (simp add: read_nat_snoc ord_digit)
  qed
qed

lemma read_nat_zeros: "read_nat (replicate k CHR ''0'' @ s) = read_nat s"
proof -
  have "foldl (\<lambda>a c. 10 * a + (ord c - 48)) 0 (replicate k CHR ''0'') = 0"
    by (induction k) (simp_all add: ord_def)
  then show ?thesis by (simp add: read_nat.simps)
qed

lemma read_show_padded: "read_nat (show_padded w n) = n"
  by (simp add: show_padded_def Let_def read_nat_zeros read_show_nat)

lemma length_show_nat_le: "n < 10 ^ w \<Longrightarrow> 0 < w \<Longrightarrow> length (show_nat n) \<le> w"
proof (induction n arbitrary: w rule: show_nat.induct)
  case (1 n)
  show ?case
  proof (cases "n < 10")
    case True
    with 1 show ?thesis by (subst show_nat.simps) simp
  next
    case False
    with "1.prems" have w: "1 < w"
      by (cases "w = 1") auto
    then obtain v where v: "w = Suc v" "0 < v" by (cases w) auto
    with "1.prems" have "n div 10 < 10 ^ v" by (auto intro: less_mult_imp_div_less)
    with 1 False v have "length (show_nat (n div 10)) \<le> v" by blast
    with False v show ?thesis by (subst show_nat.simps) simp
  qed
qed

lemma length_show_padded: "n < 10 ^ w \<Longrightarrow> 0 < w \<Longrightarrow> length (show_padded w n) = w"
  using length_show_nat_le [of n w] by (simp add: show_padded_def Let_def)

lemma show_padded_digits: "list_all is_ascii_digit (show_padded w n)"
  using show_nat_digits [of n]
  by (auto simp: show_padded_def Let_def list_all_iff is_ascii_digit_def ord_def)

text \<open>The documented behaviour theorems may assume of them.\<close>

definition DURATION_MAX :: duration where "DURATION_MAX = seconds I64_MAX + 999999999"
definition DURATION_MIN :: duration where "DURATION_MIN = seconds I64_MIN - 999999999"

definition time_laws :: "ext \<Rightarrow> bool" where
  "time_laws E \<longleftrightarrow>
     (\<forall>t d t'. time_checked_add E t d = Some t' \<longrightarrow> t' = t + d) \<and>
     (\<forall>t d t'. time_checked_sub E t d = Some t' \<longrightarrow> t' = t - d) \<and>
     (\<forall>t. unix_timestamp E t = t div seconds 1) \<and>
     (\<forall>s t. from_unix_timestamp E s = Some t \<longrightarrow> t = seconds s) \<and>
     (\<forall>d k d'. duration_checked_mul E d k = Some d' \<longrightarrow> d' = d * k) \<and>
     (\<forall>d k. duration_checked_mul E d k = None \<longrightarrow> d * k < DURATION_MIN \<or> DURATION_MAX < d * k)"

definition uuid_laws :: "ext \<Rightarrow> bool" where
  "uuid_laws E \<longleftrightarrow> (\<forall>u. uuid_parse_str E (uuid_to_string E u) = Some u)"

definition codec_laws :: "ext \<Rightarrow> bool" where
  "codec_laws E \<longleftrightarrow>
     (\<forall>k m d. hmac_sha1 E k m = Some d \<longrightarrow> length d = 20) \<and>
     (\<forall>b. list_all is_ascii_graphic (base64url_encode E b)) \<and> inj (base64url_encode E)"

text \<open>A concrete instance: the calendar range of the \<open>time\<close> crate (years -9999 to 9999),
  the 64-bit seconds range of its durations, an injective printing of identifiers and a
  length-prefix digest.\<close>

definition MIN_TIME :: time where "MIN_TIME = seconds (- 377705116800)"
definition MAX_TIME :: time where "MAX_TIME = seconds 253402300800 - 1"

definition in_time_range :: "time \<Rightarrow> bool" where
  "in_time_range t \<longleftrightarrow> MIN_TIME \<le> t \<and> t \<le> MAX_TIME"

definition byte_letters :: "8 word \<Rightarrow> string" where
  "byte_letters b = [char_of (65 + unat b div 16), char_of (65 + unat b mod 16)]"

definition std_ext :: ext where
  "std_ext = \<lparr>
     time_checked_add = (\<lambda>t d. if in_time_range (t + d) then Some (t + d) else None),
     time_checked_sub = (\<lambda>t d. if in_time_range (t - d) then Some (t - d) else None),
     unix_timestamp = (\<lambda>t. t div seconds 1),
     from_unix_timestamp = (\<lambda>s. if in_time_range (seconds s) then Some (seconds s) else None),
     duration_checked_mul =
       (\<lambda>d k. if DURATION_MIN \<le> d * k \<and> d * k \<le> DURATION_MAX then Some (d * k) else None),
     uuid_to_string = (\<lambda>u. replicate (unat u) CHR ''u''),
     uuid_parse_str = (\<lambda>s. if list_all (\<lambda>c. c = CHR ''u'') s \<and> length s < 2 ^ 128
                           then Some (of_nat (length s)) else None),
     sha256 = (\<lambda>s. of_nat (length s) # map (\<lambda>c. of_nat (of_char c)) s),
     hmac_sha1 = (\<lambda>k m. Some (map (\<lambda>i. of_nat (i + length k) + sum_list m) [0..<20])),
     base32_nopad_decode = (\<lambda>s. if list_all is_ascii_alphanumeric s
                                then Some (map (\<lambda>c. of_nat (of_char c)) s) else None),
     base64url_encode = (\<lambda>b. concat (map byte_letters b)) \<rparr>"

lemma std_ext_simps:
  "time_checked_add std_ext t d = (if in_time_range (t + d) then Some (t + d) else None)"
  "time_checked_sub std_ext t d = (if in_time_range (t - d) then Some (t - d) else None)"
  "unix_timestamp std_ext t = t div seconds 1"
  "from_unix_timestamp std_ext s = (if in_time_range (seconds s) then Some (seconds s) else None)"
  "uuid_to_string std_ext u = replicate (unat u) CHR ''u''"
  "uuid_parse_str std_ext str = (if list_all (\<lambda>c. c = CHR ''u'') str \<and> length str < 2 ^ 128
                                then Some (of_nat (length str)) else None)"
  by (simp_all add: std_ext_def)

lemma std_ext_time_laws: "time_laws std_ext"
  by (auto simp: time_laws_def std_ext_def split: if_splits)

lemma std_ext_uuid_laws: "uuid_laws std_ext"
proof -
  have "unat (u :: uuid) < 2 ^ 128" for u
    using unsigned_less [of u] by simp
  then show ?thesis
    by (simp add: uuid_laws_def std_ext_def list_all_iff)
qed

lemma ord_byte_letters:
  "map ord (byte_letters b) = [65 + unat b div 16, 65 + unat b mod 16]"
  "unat b div 16 < 16"
proof -
  have b: "unat b < 256" using unsigned_less [of b] by simp
  then show "unat b div 16 < 16" by (simp add: less_mult_imp_div_less)
  with b show "map ord (byte_letters b) = [65 + unat b div 16, 65 + unat b mod 16]"
    by (simp add: byte_letters_def ord_def take_bit_eq_mod)
qed

lemma byte_letters_inj: "byte_letters a = byte_letters b \<Longrightarrow> a = b"
proof -
  assume "byte_letters a = byte_letters b"
  then have "map ord (byte_letters a) = map ord (byte_letters b)" by simp
  then have "unat a div 16 = unat b div 16" "unat a mod 16 = unat b mod 16"
    by (simp_all add: ord_byte_letters)
  then have "unat a = unat b" by (metis div_mult_mod_eq)
  then show "a = b" by (simp add: unsigned_word_eqI)
qed

lemma byte_letters_concat_inj: "concat (map byte_letters a) = concat (map byte_letters b) \<Longrightarrow> a = b"
proof (induction a arbitrary: b)
  case Nil
  then show ?case by (cases b) (auto simp: byte_letters_def)
next
  case (Cons x a)
  then obtain y b' where b: "b = y # b'"
    by (cases b) (auto simp: byte_letters_def)
  have len: "length (byte_letters x) = length (byte_letters y)"
    by (simp add: byte_letters_def)
  from Cons.prems b have "byte_letters x @ concat (map byte_letters a) =
      byte_letters y @ concat (map byte_letters b')"
    by simp
  then have "byte_letters x = byte_letters y"
    and "concat (map byte_letters a) = concat (map byte_letters b')"
    using len by (auto simp: append_eq_append_conv)
  with Cons.IH b show ?case using byte_letters_inj by blast
qed

lemma byte_letters_graphic: "list_all is_ascii_graphic (byte_letters b)"
proof -
  have "\<forall>k \<in> set (map ord (byte_letters b)). 33 \<le> k \<and> k \<le> 126"
    using ord_byte_letters [of b] by simp
  then show ?thesis
    by (simp add: is_ascii_graphic_def list_all_iff)
qed

lemma std_ext_codec_laws: "codec_laws std_ext"
proof -
  have "list_all is_ascii_graphic (concat (map byte_letters b))" for b
    using byte_letters_graphic by (induction b) auto
  then show ?thesis
    using byte_letters_concat_inj
    by (auto simp: codec_laws_def std_ext_def inj_def)
qed

lemma time_lawsD:
  assumes "time_laws E"
  shows "time_checked_add E t d = Some t' \<Longrightarrow> t' = t + d"
    and "time_checked_sub E t d = Some t' \<Longrightarrow> t' = t - d"
    and "unix_timestamp E t = t div seconds 1"
    and "from_unix_timestamp E s = Some t \<Longrightarrow> t = seconds s"
    and "duration_checked_mul E d k = Some d' \<Longrightarrow> d' = d * k"
    and "duration_checked_mul E d k = None \<Longrightarrow> d * k < DURATION_MIN \<or> DURATION_MAX < d * k"
  using assms by (auto simp: time_laws_def)

end
