(* ===== verification/Errors.thy ===== *)
theory Errors
  imports Prelude
begin

text \<open>
  The error type of the crate (\<open>src/errors.rs\<close>): the variants of \<open>AuthError\<close>, the public
  code and message a client sees, the internal diagnostic detail, and the GraphQL error
  that \<open>extend\<close> builds from them.
\<close>

datatype (plugins only: code size) AuthError =
    InvalidCredentials
  | Unauthenticated
  | Forbidden
  | InvalidBearerToken
  | InvalidAccessToken
  | AccessTokenExpired
  | TokenRevoked
  | InvalidPurposeToken
  | PurposeTokenExpired
  | InvalidApiToken
  | ApiTokenExpired
  | ApiTokenRevoked
  | InvalidRefreshToken
  | RefreshTokenExpired
  | RefreshTokenReplayDetected
  | UserDisabled
  | AuthThrottled int
  | AuthLocked int
  | InvalidPasswordResetToken
  | PasswordResetTokenExpired
  | PasswordResetTokenReplayed
  | InvalidLoginChallenge
  | LoginChallengeExpired
  | LoginChallengeReplayed
  | LoginChallengeAttemptsExhausted
  | InvalidLoginCode
  | InvalidTotpCode
  | TotpCodeReplayed
  | InvalidTotpSecret
  | InvalidOAuthState
  | OAuthStateExpired
  | OAuthStateReplayed
  | OidcDiscovery string
  | OidcTokenExchange string
  | OidcCallback string
  | InvalidOidcAuthorizationOptions string
  | OidcTokenValidation string
  | OAuthProviderError
  | OAuthCallback string
  | OAuthTokenExchange string
  | OAuthUserInfo string
  | OAuthMissingSubject
  | ExternalLoginRejected string
  | JwksUnsupported
  | InvalidConfiguration string
  | MissingAuthorizationData
  | MissingConnectionInitAuth
  | TokenCreation string
  | PasswordHashing string
  | Store string
  | AuthServiceUnavailable
  | Config string

type_synonym 'a AuthResult = "AuthError + 'a"

primrec public_code :: "AuthError \<Rightarrow> string" where
  "public_code InvalidCredentials = ''INVALID_CREDENTIALS''"
| "public_code Unauthenticated = ''UNAUTHENTICATED''"
| "public_code Forbidden = ''FORBIDDEN''"
| "public_code InvalidBearerToken = ''INVALID_BEARER_TOKEN''"
| "public_code InvalidAccessToken = ''INVALID_ACCESS_TOKEN''"
| "public_code AccessTokenExpired = ''ACCESS_TOKEN_EXPIRED''"
| "public_code TokenRevoked = ''TOKEN_REVOKED''"
| "public_code InvalidPurposeToken = ''INVALID_PURPOSE_TOKEN''"
| "public_code PurposeTokenExpired = ''PURPOSE_TOKEN_EXPIRED''"
| "public_code InvalidApiToken = ''INVALID_API_TOKEN''"
| "public_code ApiTokenExpired = ''API_TOKEN_EXPIRED''"
| "public_code ApiTokenRevoked = ''TOKEN_REVOKED''"
| "public_code InvalidRefreshToken = ''INVALID_REFRESH_TOKEN''"
| "public_code RefreshTokenExpired = ''REFRESH_TOKEN_EXPIRED''"
| "public_code RefreshTokenReplayDetected = ''REFRESH_TOKEN_REPLAY_DETECTED''"
| "public_code UserDisabled = ''USER_DISABLED''"
| "public_code (AuthThrottled _) = ''RATE_LIMITED''"
| "public_code (AuthLocked _) = ''RATE_LIMITED''"
| "public_code InvalidPasswordResetToken = ''INVALID_PASSWORD_RESET_TOKEN''"
| "public_code PasswordResetTokenExpired = ''PASSWORD_RESET_TOKEN_EXPIRED''"
| "public_code PasswordResetTokenReplayed = ''PASSWORD_RESET_TOKEN_REPLAYED''"
| "public_code InvalidLoginChallenge = ''INVALID_LOGIN_CHALLENGE''"
| "public_code LoginChallengeExpired = ''LOGIN_CHALLENGE_EXPIRED''"
| "public_code LoginChallengeReplayed = ''LOGIN_CHALLENGE_REPLAYED''"
| "public_code LoginChallengeAttemptsExhausted = ''LOGIN_CHALLENGE_ATTEMPTS_EXHAUSTED''"
| "public_code InvalidLoginCode = ''INVALID_LOGIN_CODE''"
| "public_code InvalidTotpCode = ''INVALID_TOTP_CODE''"
| "public_code TotpCodeReplayed = ''TOTP_CODE_REPLAYED''"
| "public_code InvalidTotpSecret = ''INVALID_TOTP_SECRET''"
| "public_code InvalidOAuthState = ''INVALID_OAUTH_STATE''"
| "public_code OAuthStateExpired = ''OAUTH_STATE_EXPIRED''"
| "public_code OAuthStateReplayed = ''OAUTH_STATE_REPLAYED''"
| "public_code (OidcDiscovery _) = ''AUTH_SERVICE_UNAVAILABLE''"
| "public_code (OidcTokenExchange _) = ''AUTH_SERVICE_UNAVAILABLE''"
| "public_code (OidcCallback _) = ''UNAUTHENTICATED''"
| "public_code (InvalidOidcAuthorizationOptions _) = ''INVALID_CONFIGURATION''"
| "public_code (OidcTokenValidation _) = ''UNAUTHENTICATED''"
| "public_code OAuthProviderError = ''UNAUTHENTICATED''"
| "public_code (OAuthCallback _) = ''UNAUTHENTICATED''"
| "public_code (OAuthTokenExchange _) = ''AUTH_SERVICE_UNAVAILABLE''"
| "public_code (OAuthUserInfo _) = ''AUTH_SERVICE_UNAVAILABLE''"
| "public_code OAuthMissingSubject = ''UNAUTHENTICATED''"
| "public_code (ExternalLoginRejected _) = ''FORBIDDEN''"
| "public_code JwksUnsupported = ''INVALID_CONFIGURATION''"
| "public_code (InvalidConfiguration _) = ''INVALID_CONFIGURATION''"
| "public_code MissingAuthorizationData = ''UNAUTHENTICATED''"
| "public_code MissingConnectionInitAuth = ''UNAUTHENTICATED''"
| "public_code (TokenCreation _) = ''AUTH_SERVICE_UNAVAILABLE''"
| "public_code (PasswordHashing _) = ''AUTH_SERVICE_UNAVAILABLE''"
| "public_code (Store _) = ''AUTH_SERVICE_UNAVAILABLE''"
| "public_code AuthServiceUnavailable = ''AUTH_SERVICE_UNAVAILABLE''"
| "public_code (Config _) = ''INVALID_CONFIGURATION''"

primrec public_message :: "AuthError \<Rightarrow> string" where
  "public_message InvalidCredentials = ''invalid credentials''"
| "public_message Unauthenticated = ''unauthenticated''"
| "public_message Forbidden = ''forbidden''"
| "public_message InvalidBearerToken = ''invalid bearer token''"
| "public_message InvalidAccessToken = ''invalid access token''"
| "public_message AccessTokenExpired = ''access token expired''"
| "public_message TokenRevoked = ''token revoked''"
| "public_message InvalidPurposeToken = ''invalid purpose token''"
| "public_message PurposeTokenExpired = ''purpose token expired''"
| "public_message InvalidApiToken = ''invalid api token''"
| "public_message ApiTokenExpired = ''api token expired''"
| "public_message ApiTokenRevoked = ''token revoked''"
| "public_message InvalidRefreshToken = ''invalid refresh token''"
| "public_message RefreshTokenExpired = ''refresh token expired''"
| "public_message RefreshTokenReplayDetected = ''refresh token replay detected''"
| "public_message UserDisabled = ''user is disabled''"
| "public_message (AuthThrottled _) = ''rate limited''"
| "public_message (AuthLocked _) = ''rate limited''"
| "public_message InvalidPasswordResetToken = ''invalid password reset token''"
| "public_message PasswordResetTokenExpired = ''password reset token expired''"
| "public_message PasswordResetTokenReplayed = ''password reset token replay detected''"
| "public_message InvalidLoginChallenge = ''invalid login challenge''"
| "public_message LoginChallengeExpired = ''login challenge expired''"
| "public_message LoginChallengeReplayed = ''login challenge replay detected''"
| "public_message LoginChallengeAttemptsExhausted = ''login challenge attempts exhausted''"
| "public_message InvalidLoginCode = ''invalid login challenge code''"
| "public_message InvalidTotpCode = ''invalid totp code''"
| "public_message TotpCodeReplayed = ''totp code replay detected''"
| "public_message InvalidTotpSecret = ''invalid totp secret''"
| "public_message InvalidOAuthState = ''invalid oauth state''"
| "public_message OAuthStateExpired = ''oauth state expired''"
| "public_message OAuthStateReplayed = ''oauth state replay detected''"
| "public_message (OidcDiscovery _) = ''authentication service unavailable''"
| "public_message (OidcTokenExchange _) = ''authentication service unavailable''"
| "public_message (OidcCallback _) = ''unauthenticated''"
| "public_message (InvalidOidcAuthorizationOptions _) = ''invalid configuration''"
| "public_message (OidcTokenValidation _) = ''unauthenticated''"
| "public_message OAuthProviderError = ''unauthenticated''"
| "public_message (OAuthCallback _) = ''unauthenticated''"
| "public_message (OAuthTokenExchange _) = ''authentication service unavailable''"
| "public_message (OAuthUserInfo _) = ''authentication service unavailable''"
| "public_message OAuthMissingSubject = ''unauthenticated''"
| "public_message (ExternalLoginRejected _) = ''forbidden''"
| "public_message JwksUnsupported = ''invalid configuration''"
| "public_message (InvalidConfiguration _) = ''invalid configuration''"
| "public_message MissingAuthorizationData = ''unauthenticated''"
| "public_message MissingConnectionInitAuth = ''unauthenticated''"
| "public_message (TokenCreation _) = ''authentication service unavailable''"
| "public_message (PasswordHashing _) = ''authentication service unavailable''"
| "public_message (Store _) = ''authentication service unavailable''"
| "public_message AuthServiceUnavailable = ''authentication service unavailable''"
| "public_message (Config _) = ''invalid configuration''"

text \<open>The server-side text of an error (\<open>Display\<close>).\<close>

primrec to_string :: "AuthError \<Rightarrow> string" where
  "to_string InvalidCredentials = ''invalid credentials''"
| "to_string Unauthenticated = ''unauthenticated''"
| "to_string Forbidden = ''forbidden''"
| "to_string InvalidBearerToken = ''invalid bearer token''"
| "to_string InvalidAccessToken = ''invalid access token''"
| "to_string AccessTokenExpired = ''access token expired''"
| "to_string TokenRevoked = ''token revoked''"
| "to_string InvalidPurposeToken = ''invalid purpose token''"
| "to_string PurposeTokenExpired = ''purpose token expired''"
| "to_string InvalidApiToken = ''invalid api token''"
| "to_string ApiTokenExpired = ''api token expired''"
| "to_string ApiTokenRevoked = ''api token revoked''"
| "to_string InvalidRefreshToken = ''invalid refresh token''"
| "to_string RefreshTokenExpired = ''refresh token expired''"
| "to_string RefreshTokenReplayDetected = ''refresh token replay detected''"
| "to_string UserDisabled = ''user is disabled''"
| "to_string (AuthThrottled _) = ''authentication flow is temporarily throttled''"
| "to_string (AuthLocked _) = ''authentication flow is temporarily locked''"
| "to_string InvalidPasswordResetToken = ''invalid password reset token''"
| "to_string PasswordResetTokenExpired = ''password reset token expired''"
| "to_string PasswordResetTokenReplayed = ''password reset token replay detected''"
| "to_string InvalidLoginChallenge = ''invalid login challenge''"
| "to_string LoginChallengeExpired = ''login challenge expired''"
| "to_string LoginChallengeReplayed = ''login challenge replay detected''"
| "to_string LoginChallengeAttemptsExhausted = ''login challenge attempts exhausted''"
| "to_string InvalidLoginCode = ''invalid login challenge code''"
| "to_string InvalidTotpCode = ''invalid totp code''"
| "to_string TotpCodeReplayed = ''totp code replay detected''"
| "to_string InvalidTotpSecret = ''invalid totp secret''"
| "to_string InvalidOAuthState = ''invalid oauth state''"
| "to_string OAuthStateExpired = ''oauth state expired''"
| "to_string OAuthStateReplayed = ''oauth state replay detected''"
| "to_string (OidcDiscovery detail) = ''oidc discovery failed: '' @ detail"
| "to_string (OidcTokenExchange detail) = ''oidc token exchange failed: '' @ detail"
| "to_string (OidcCallback detail) = ''oidc callback failed: '' @ detail"
| "to_string (InvalidOidcAuthorizationOptions detail) = ''invalid oidc authorization options: '' @ detail"
| "to_string (OidcTokenValidation detail) = ''oidc token validation failed: '' @ detail"
| "to_string OAuthProviderError = ''oauth provider returned an authorization error''"
| "to_string (OAuthCallback detail) = ''oauth callback failed: '' @ detail"
| "to_string (OAuthTokenExchange detail) = ''oauth token exchange failed: '' @ detail"
| "to_string (OAuthUserInfo detail) = ''oauth userinfo request failed: '' @ detail"
| "to_string OAuthMissingSubject = ''oauth profile is missing a usable subject''"
| "to_string (ExternalLoginRejected detail) = ''external login rejected: '' @ detail"
| "to_string JwksUnsupported = ''JWKS export is unsupported for the configured JWT signing mode''"
| "to_string (InvalidConfiguration detail) = ''invalid configuration: '' @ detail"
| "to_string MissingAuthorizationData = ''missing authorization data''"
| "to_string MissingConnectionInitAuth = ''missing websocket authorization payload''"
| "to_string (TokenCreation detail) = ''token creation failed: '' @ detail"
| "to_string (PasswordHashing detail) = ''password hashing failed: '' @ detail"
| "to_string (Store detail) = ''storage error: '' @ detail"
| "to_string AuthServiceUnavailable = ''authentication service unavailable''"
| "to_string (Config detail) = ''configuration error: '' @ detail"

definition internal_detail :: "AuthError \<Rightarrow> string option" where
  "internal_detail e = (case e of
       OidcDiscovery detail \<Rightarrow> Some detail
     | OidcTokenExchange detail \<Rightarrow> Some detail
     | OidcCallback detail \<Rightarrow> Some detail
     | OidcTokenValidation detail \<Rightarrow> Some detail
     | OAuthCallback detail \<Rightarrow> Some detail
     | OAuthTokenExchange detail \<Rightarrow> Some detail
     | OAuthUserInfo detail \<Rightarrow> Some detail
     | ExternalLoginRejected detail \<Rightarrow> Some detail
     | InvalidConfiguration detail \<Rightarrow> Some detail
     | TokenCreation detail \<Rightarrow> Some detail
     | PasswordHashing detail \<Rightarrow> Some detail
     | Store detail \<Rightarrow> Some detail
     | Config detail \<Rightarrow> Some detail
     | _ \<Rightarrow> None)"

text \<open>An \<open>async_graphql::Error\<close>: its message and the extension entries set on it.\<close>

record GraphqlError =
  ge_message :: string
  ge_code :: string
  ge_retry_after_seconds :: "int option"

definition extend :: "AuthError \<Rightarrow> GraphqlError" where
  "extend e =
     \<lparr> ge_message = public_message e, ge_code = public_code e,
       ge_retry_after_seconds =
         (case e of
            AuthThrottled retry_after_seconds \<Rightarrow> Some retry_after_seconds
          | AuthLocked retry_after_seconds \<Rightarrow> Some retry_after_seconds
          | _ \<Rightarrow> None) \<rparr>"

section \<open>What clients can learn from an error\<close>

text \<open>An error with its diagnostic string erased.\<close>

definition redact :: "AuthError \<Rightarrow> AuthError" where
  "redact e = (case e of
       OidcDiscovery _ \<Rightarrow> OidcDiscovery []
     | OidcTokenExchange _ \<Rightarrow> OidcTokenExchange []
     | OidcCallback _ \<Rightarrow> OidcCallback []
     | InvalidOidcAuthorizationOptions _ \<Rightarrow> InvalidOidcAuthorizationOptions []
     | OidcTokenValidation _ \<Rightarrow> OidcTokenValidation []
     | OAuthCallback _ \<Rightarrow> OAuthCallback []
     | OAuthTokenExchange _ \<Rightarrow> OAuthTokenExchange []
     | OAuthUserInfo _ \<Rightarrow> OAuthUserInfo []
     | ExternalLoginRejected _ \<Rightarrow> ExternalLoginRejected []
     | InvalidConfiguration _ \<Rightarrow> InvalidConfiguration []
     | TokenCreation _ \<Rightarrow> TokenCreation []
     | PasswordHashing _ \<Rightarrow> PasswordHashing []
     | Store _ \<Rightarrow> Store []
     | Config _ \<Rightarrow> Config []
     | _ \<Rightarrow> e)"

text \<open>The GraphQL error sent to a client is a function of the error variant (and of the
  retry delay of a throttled or locked flow) alone: erasing the internal diagnostic text of
  an error changes nothing of what the client receives, and the text is what
  \<open>internal_detail\<close> hands to server-side tracing, except for invalid OIDC authorization
  options, whose text is handed out by neither.\<close>

theorem extend_hides_detail:
  "extend (redact e) = extend e \<and>
   (redact e = e \<or> internal_detail (redact e) = Some [] \<and> internal_detail e \<noteq> None
      \<or> (\<exists>s. e = InvalidOidcAuthorizationOptions s \<and> internal_detail e = None))"
  by (cases e) (simp_all add: extend_def redact_def internal_detail_def)

end
