(* ===== verification/Util.thy ===== *)
theory Util
  imports Errors "HOL-Library.Signed_Division"
begin

text \<open>
  The shared helpers of \<open>src/util.rs\<close>: checked expiries, bearer-header and WebSocket
  connection-init parsing, decode-error mapping, numeric codes, opaque-token hashing and
  the RFC 6238 code computation. Calendar, digest and encoding crates are the argument
  \<open>E :: ext\<close>; the operating system's random bytes are a stream argument.
\<close>

section \<open>Expiries\<close>

definition checked_expiry :: "ext \<Rightarrow> time \<Rightarrow> duration \<Rightarrow> string \<Rightarrow> time AuthResult" where
  "checked_expiry E now ttl name =
     (if ttl \<le> 0 then Inl (InvalidConfiguration (name @ '' must be positive''))
      else ok_or (InvalidConfiguration (name @ '' exceeds the supported timestamp range''))
             (time_checked_add E now ttl))"

definition checked_jwt_expiry :: "ext \<Rightarrow> time \<Rightarrow> duration \<Rightarrow> string \<Rightarrow> time AuthResult" where
  "checked_jwt_expiry E now ttl name =
     bind_res (checked_expiry E now ttl name) (\<lambda>expiry.
       if unix_timestamp E expiry \<le> unix_timestamp E now
       then Inl (InvalidConfiguration (name @ '' expires within the issuance second''))
       else Inr expiry)"

lemma checked_expiry_Inr:
  "time_laws E \<Longrightarrow> checked_expiry E now ttl name = Inr t \<Longrightarrow> 0 < ttl \<and> t = now + ttl"
  by (auto simp: checked_expiry_def time_lawsD split: if_splits)

lemma checked_jwt_expiry_Inr:
  "time_laws E \<Longrightarrow> checked_jwt_expiry E now ttl name = Inr t \<Longrightarrow>
   0 < ttl \<and> t = now + ttl \<and> unix_timestamp E now < unix_timestamp E t"
  by (auto simp: checked_jwt_expiry_def res_simps dest: checked_expiry_Inr split: if_splits)

section \<open>Bearer credentials\<close>

datatype BearerParseMode = BearerOrRaw | RequireBearer

definition strip_bearer_prefix_with_mode :: "string \<Rightarrow> BearerParseMode \<Rightarrow> string AuthResult" where
  "strip_bearer_prefix_with_mode input mode =
     (let trimmed = trim input in
      if trimmed = [] then Inl InvalidBearerToken
      else if eq_ignore_ascii_case trimmed ''Bearer'' then Inl InvalidBearerToken
      else (case split_once_ws trimmed of
              None \<Rightarrow> (case mode of BearerOrRaw \<Rightarrow> Inr trimmed
                                 | RequireBearer \<Rightarrow> Inl InvalidBearerToken)
            | Some (scheme, rest) \<Rightarrow>
                if \<not> eq_ignore_ascii_case scheme ''Bearer'' then Inl InvalidBearerToken
                else let token = trim rest in
                  if token = [] \<or> \<not> single_word token then Inl InvalidBearerToken
                  else Inr token))"

definition strip_bearer_prefix :: "string \<Rightarrow> string AuthResult" where
  "strip_bearer_prefix input = strip_bearer_prefix_with_mode input BearerOrRaw"

fun first_str_key :: "(string \<times> JsonValue) list \<Rightarrow> string list \<Rightarrow> string option" where
  "first_str_key obj [] = None"
| "first_str_key obj (key # keys) =
     (case Option.bind (map_of obj key) as_str of
        Some raw \<Rightarrow> Some raw
      | None \<Rightarrow> first_str_key obj keys)"

definition extract_connection_init_token :: "JsonValue \<Rightarrow> string AuthResult" where
  "extract_connection_init_token value =
     (case as_object value of
        None \<Rightarrow> Inl MissingConnectionInitAuth
      | Some obj \<Rightarrow>
          ok_or MissingConnectionInitAuth
            (first_str_key obj
               [''authorization'', ''Authorization'', ''access_token'', ''accessToken'']))"

section \<open>Decode errors of the JWT crate\<close>

datatype JwtErrorKind = ExpiredSignature | OtherJwtErrorKind

definition map_access_token_decode_error :: "JwtErrorKind \<Rightarrow> AuthError" where
  "map_access_token_decode_error k =
     (case k of ExpiredSignature \<Rightarrow> AccessTokenExpired | _ \<Rightarrow> InvalidAccessToken)"

definition map_password_reset_decode_error :: "JwtErrorKind \<Rightarrow> AuthError" where
  "map_password_reset_decode_error k =
     (case k of ExpiredSignature \<Rightarrow> PasswordResetTokenExpired | _ \<Rightarrow> InvalidPasswordResetToken)"

definition map_purpose_token_decode_error :: "JwtErrorKind \<Rightarrow> AuthError" where
  "map_purpose_token_decode_error k =
     (case k of ExpiredSignature \<Rightarrow> PurposeTokenExpired | _ \<Rightarrow> InvalidPurposeToken)"

section \<open>Numeric codes\<close>

text \<open>The inner \<open>for\<close> loop over one 32-byte block of random bytes, and the outer
  \<open>while\<close> loop over the blocks \<open>rnd 0, rnd 1, ...\<close>. The loop has no bound in the source;
  not returning is \<open>None\<close>.\<close>

fun push_digits :: "nat \<Rightarrow> string \<Rightarrow> bytes \<Rightarrow> string" where
  "push_digits n out [] = out"
| "push_digits n out (b # bs) =
     (if b < 250 then
        let out' = out @ [char_of (48 + unat (b mod 10))] in
        if length out' = n then out' else push_digits n out' bs
      else push_digits n out bs)"

partial_function (option) numeric_code_loop ::
  "(nat \<Rightarrow> bytes) \<Rightarrow> nat \<Rightarrow> nat \<Rightarrow> string \<Rightarrow> string option" where
  "numeric_code_loop rnd n i out =
     (if length out < n then numeric_code_loop rnd n (Suc i) (push_digits n out (rnd i))
      else Some out)"

definition generate_numeric_code :: "(nat \<Rightarrow> bytes) \<Rightarrow> nat \<Rightarrow> string option" where
  "generate_numeric_code rnd n = numeric_code_loop rnd n 0 []"

section \<open>Opaque tokens and their digests\<close>

definition generate_opaque_token :: "ext \<Rightarrow> bytes \<Rightarrow> string" where
  "generate_opaque_token E bytes48 = base64url_encode E bytes48"

definition hex_digit :: "nat \<Rightarrow> char" where
  "hex_digit n = (if n < 10 then char_of (48 + n) else char_of (87 + n))"

definition encode_hex :: "bytes \<Rightarrow> string" where
  "encode_hex bs = concat (map (\<lambda>b. [hex_digit (unat b div 16), hex_digit (unat b mod 16)]) bs)"

definition hash_opaque_token :: "ext \<Rightarrow> string \<Rightarrow> string" where
  "hash_opaque_token E token = encode_hex (sha256 E token)"

definition hash_refresh_token :: "ext \<Rightarrow> string \<Rightarrow> string" where
  "hash_refresh_token E token = hash_opaque_token E token"

definition hash_api_token :: "ext \<Rightarrow> string \<Rightarrow> string" where
  "hash_api_token E token = hash_opaque_token E token"

definition hash_rate_limit_value :: "ext \<Rightarrow> string \<Rightarrow> string" where
  "hash_rate_limit_value E v = hash_opaque_token E v"

section \<open>Time-based one-time passwords\<close>

text \<open>Rust's \<open>/\<close> on \<open>i64\<close> truncates toward zero. A zero period, on which it would
  panic, is excluded by the callers' \<open>validate_totp_options\<close>.\<close>

definition totp_step :: "ext \<Rightarrow> time \<Rightarrow> u64 \<Rightarrow> int AuthResult" where
  "totp_step E now period_seconds =
     (if uint period_seconds > I64_MAX
      then Inl (InvalidConfiguration ''totp period is too large'')
      else Inr (unix_timestamp E now sdiv uint period_seconds))"

definition to_be_bytes :: "u64 \<Rightarrow> bytes" where
  "to_be_bytes w = map (\<lambda>i. ucast (drop_bit (8 * (7 - i)) w)) [0..<8]"

definition u32_checked_pow10 :: "u32 \<Rightarrow> u32 option" where
  "u32_checked_pow10 n =
     (if (10 :: nat) ^ unat n < 2 ^ 32 then Some (of_nat (10 ^ unat n)) else None)"

unbundle bit_operations_syntax

definition generate_totp_code_for_step :: "ext \<Rightarrow> bytes \<Rightarrow> u64 \<Rightarrow> u32 \<Rightarrow> string AuthResult" where
  "generate_totp_code_for_step E secret step digits =
     bind_res (ok_or InvalidTotpSecret (hmac_sha1 E secret (to_be_bytes step))) (\<lambda>digest.
       let offset = unat ((digest ! 19) AND 0x0f);
           binary = push_bit 24 (ucast (digest ! offset) AND 0x7f)
                 OR push_bit 16 (ucast (digest ! (offset + 1)))
                 OR push_bit 8 (ucast (digest ! (offset + 2)))
                 OR (ucast (digest ! (offset + 3)) :: u32)
       in bind_res (ok_or (InvalidConfiguration ''invalid totp digits'')
                      (u32_checked_pow10 digits)) (\<lambda>modulo.
            Inr (show_padded (unat digits) (unat (binary mod modulo)))))"

definition decode_base32_secret :: "ext \<Rightarrow> string \<Rightarrow> bytes AuthResult" where
  "decode_base32_secret E s = ok_or InvalidTotpSecret (base32_nopad_decode E s)"

section \<open>Properties of the helpers\<close>

subsection \<open>Trimming\<close>

lemma trim_end_prefix: "prefix (trim_end s) s"
proof (induction s rule: trim_end.induct)
  case (1 s)
  show ?case
  proof (cases "trail_ws s")
    case None
    then show ?thesis by (simp add: trim_end.simps [of s])
  next
    case (Some w)
    with 1 have "prefix (trim_end (take (length s - length w) s)) (take (length s - length w) s)"
      by blast
    with Some show ?thesis
      by (simp add: trim_end.simps [of s]) (meson prefix_order.trans take_is_prefix)
  qed
qed

lemma trail_ws_trim_end: "trail_ws (trim_end s) = None"
  by (induction s rule: trim_end.induct) (subst trim_end.simps, auto split: option.splits)

lemma lead_ws_trim_start: "lead_ws (trim_start s) = None"
  by (induction s rule: trim_start.induct) (subst trim_start.simps, auto split: option.splits)

lemma lead_ws_prefix: "lead_ws t = None \<Longrightarrow> prefix s t \<Longrightarrow> lead_ws s = None"
  by (auto simp: lead_ws_def find_None_iff dest: prefix_order.trans)

lemma trim_idem [simp]: "trim (trim s) = trim s"
proof -
  have "lead_ws (trim s) = None"
    unfolding trim_def using lead_ws_trim_start trim_end_prefix by (rule lead_ws_prefix)
  then have "trim_start (trim s) = trim s" by (simp add: trim_start.simps)
  moreover have "trim_end (trim s) = trim s"
    by (simp add: trim_def trim_end.simps [of "trim_end _"] trail_ws_trim_end)
  ultimately show ?thesis by (simp add: trim_def [of "trim s"])
qed

lemma single_word_trim: "single_word (trim s) \<longleftrightarrow> trim s \<noteq> [] \<and> \<not> contains_ws (trim s)"
  by (cases "split_once_ws (trim s)") (auto simp: single_word_def contains_ws_def)

subsection \<open>Bearer credentials\<close>

lemma strip_bearer_Inr:
  assumes "strip_bearer_prefix_with_mode input mode = Inr token"
  shows "token \<noteq> [] \<and> \<not> contains_ws token"
  using assms
  by (auto simp: strip_bearer_prefix_with_mode_def Let_def single_word_trim contains_ws_def
        split: if_splits option.splits BearerParseMode.splits)

lemma last_append_graphic:
  "t \<noteq> [] \<Longrightarrow> list_all is_ascii_graphic t \<Longrightarrow> is_ascii_graphic (last (s @ CHR '' '' # t))"
  by (simp add: list_all_iff)

lemma strip_bearer_header:
  assumes scheme: "eq_ignore_ascii_case scheme ''Bearer''" "list_all is_ascii_graphic scheme"
    and token: "token \<noteq> []" "list_all is_ascii_graphic token"
  shows "strip_bearer_prefix_with_mode (scheme @ '' '' @ token) mode = Inr token"
proof -
  have "scheme \<noteq> []" using scheme(1) by (auto simp: eq_ignore_ascii_case_def to_ascii_lowercase_def)
  then obtain c cs where s: "scheme = c # cs" by (cases scheme) auto
  have trimmed: "trim (scheme @ CHR '' '' # token) = scheme @ CHR '' '' # token"
    using scheme(2) last_append_graphic [OF token, of scheme] by (intro trim_graphic) (auto simp: s)
  have len: "length (scheme @ CHR '' '' # token) \<noteq> length ''Bearer''"
  proof -
    have "length scheme = length ''Bearer''"
      using scheme(1) unfolding eq_ignore_ascii_case_def to_ascii_lowercase_def
      by (metis length_map)
    then show ?thesis by simp
  qed
  have "\<not> eq_ignore_ascii_case (scheme @ CHR '' '' # token) ''Bearer''"
    using len unfolding eq_ignore_ascii_case_def to_ascii_lowercase_def by (metis length_map)
  moreover have "trim token = token"
    using token by (intro trim_graphic) (auto simp: list_all_iff)
  moreover have "split_once_ws token = None"
    using token(2) by (rule split_once_ws_graphic)
  ultimately show ?thesis
    using trimmed split_once_ws_space [OF scheme(2), of token] scheme(1) token(1)
    by (simp add: strip_bearer_prefix_with_mode_def Let_def single_word_def)
qed

text \<open>bearer parsing. Whatever header value is presented, an accepted credential is a
  single non-empty word without white space, and under \<open>RequireBearer\<close> the header was the
  word \<open>Bearer\<close> in some letter case, a white-space character and that credential;
  conversely a header consisting of the scheme, a space and a printable credential is
  accepted in both modes and yields exactly that credential.\<close>

theorem strip_bearer_prefix_correct:
  "(\<forall>input mode token. strip_bearer_prefix_with_mode input mode = Inr token \<longrightarrow>
      token \<noteq> [] \<and> \<not> contains_ws token \<and>
      (mode = RequireBearer \<longrightarrow>
        (\<exists>scheme rest. split_once_ws (trim input) = Some (scheme, rest) \<and>
           eq_ignore_ascii_case scheme ''Bearer'' \<and> token = trim rest))) \<and>
   (\<forall>scheme token mode. eq_ignore_ascii_case scheme ''Bearer'' \<longrightarrow>
      list_all is_ascii_graphic scheme \<longrightarrow> token \<noteq> [] \<longrightarrow> list_all is_ascii_graphic token \<longrightarrow>
      strip_bearer_prefix_with_mode (scheme @ '' '' @ token) mode = Inr token)"
proof (intro conjI allI impI)
  fix input mode token assume *: "strip_bearer_prefix_with_mode input mode = Inr token"
  show "token \<noteq> []" "\<not> contains_ws token"
    using strip_bearer_Inr [OF *] by simp_all
  assume "mode = RequireBearer"
  with * show "\<exists>scheme rest. split_once_ws (trim input) = Some (scheme, rest) \<and>
      eq_ignore_ascii_case scheme ''Bearer'' \<and> token = trim rest"
    by (auto simp: strip_bearer_prefix_with_mode_def Let_def
        split: if_splits option.splits prod.splits)
next
  fix scheme token mode
  assume "eq_ignore_ascii_case scheme ''Bearer''" "list_all is_ascii_graphic scheme"
    "token \<noteq> []" "list_all is_ascii_graphic token"
  then show "strip_bearer_prefix_with_mode (scheme @ '' '' @ token) mode = Inr token"
    by (rule strip_bearer_header)
qed

lemma strip_bearer_prefix_correct_witness:
  "strip_bearer_prefix_with_mode ''bEARER abc.def'' RequireBearer = Inr ''abc.def'' \<and>
   \<not> contains_ws ''abc.def''"
proof -
  have "eq_ignore_ascii_case ''bEARER'' ''Bearer''"
    by code_simp
  then have "strip_bearer_prefix_with_mode ''bEARER abc.def'' RequireBearer = Inr ''abc.def''"
    using strip_bearer_prefix_correct
      [THEN conjunct2, rule_format, of "''bEARER''" "''abc.def''" RequireBearer]
    by (simp add: is_ascii_graphic_def ord_def)
  then show ?thesis
    using strip_bearer_prefix_correct [THEN conjunct1, rule_format] by blast
qed

subsection \<open>Numeric codes\<close>

lemma push_digits_props:
  assumes "list_all is_ascii_digit out" "length out < n"
  shows "list_all is_ascii_digit (push_digits n out bs) \<and>
         length (push_digits n out bs) =
           min n (length out + length (filter (\<lambda>b. b < 250) bs))"
  using assms
proof (induction n out bs rule: push_digits.induct)
  case (1 n out)
  then show ?case by simp
next
  case (2 n out b bs)
  have d: "unat (b mod 10) < 10"
    by (simp add: unat_mod)
  have dig: "is_ascii_digit (char_of (48 + unat (b mod 10)))"
    using d by (simp add: is_ascii_digit_def ord_digit)
  show ?case
  proof (cases "b < 250")
    case True
    with 2 dig show ?thesis by (auto simp: Let_def)
  next
    case False
    with 2 show ?thesis by simp
  qed
qed

lemma numeric_code_loop_terminates:
  assumes "list_all is_ascii_digit out" "length out \<le> n"
    and "n \<le> length out + (\<Sum>j < k. length (filter (\<lambda>b. b < 250) (rnd (i + j))))"
  shows "\<exists>code. numeric_code_loop rnd n i out = Some code \<and> length code = n \<and>
           list_all is_ascii_digit code"
  using assms
proof (induction k arbitrary: i out)
  case 0
  then show ?case by (subst numeric_code_loop.simps) auto
next
  case (Suc k)
  show ?case
  proof (cases "length out < n")
    case True
    let ?out = "push_digits n out (rnd i)"
    have p: "list_all is_ascii_digit ?out"
      "length ?out = min n (length out + length (filter (\<lambda>b. b < 250) (rnd i)))"
      using push_digits_props [OF Suc.prems(1) True] by simp_all
    have "n \<le> length ?out + (\<Sum>j < k. length (filter (\<lambda>b. b < 250) (rnd (Suc i + j))))"
      using Suc.prems(3) p(2) by (simp add: sum.lessThan_Suc_shift del: sum.lessThan_Suc)
    with Suc.IH [of ?out "Suc i"] p have
      "\<exists>code. numeric_code_loop rnd n (Suc i) ?out = Some code \<and> length code = n \<and>
         list_all is_ascii_digit code" by simp
    with True show ?thesis by (subst numeric_code_loop.simps) simp
  next
    case False
    with Suc.prems show ?thesis by (subst numeric_code_loop.simps) simp
  qed
qed

text \<open>C24: the rejection-sampling loop that draws login codes returns, with a code of exactly
  the requested number of decimal digits, as soon as the random source has delivered that
  many bytes below 250 (each of which is one digit, without modulo bias).\<close>

theorem generate_numeric_code_returns:
  assumes "n \<le> (\<Sum>j < k. length (filter (\<lambda>b. b < 250) (rnd j)))"
  shows "\<exists>code. generate_numeric_code rnd n = Some code \<and> length code = n \<and>
           list_all is_ascii_digit code"
  using numeric_code_loop_terminates [of "[]" n rnd 0 k] assms
  by (simp add: generate_numeric_code_def)

lemma generate_numeric_code_returns_witness:
  "\<exists>code. generate_numeric_code (\<lambda>i. [255, 250, of_nat i]) 3 = Some code \<and> length code = 3 \<and>
     list_all is_ascii_digit code"
  by (rule generate_numeric_code_returns [where k = 3]) (simp add: numeral_3_eq_3)

subsection \<open>Time-based one-time passwords\<close>

lemma or_low_bits: "y < 2 ^ k \<Longrightarrow> push_bit k x OR y = x * 2 ^ k + (y :: nat)"
proof -
  assume "y < 2 ^ k"
  then have "\<not> bit (push_bit k x) n \<or> \<not> bit y n" for n
    by (metis bit_push_bit_iff_nat bit_take_bit_iff not_le take_bit_nat_eq_self_iff)
  then have "push_bit k x AND y = 0"
    by (auto simp: bit_eq_iff bit_and_iff)
  then have "push_bit k x OR y = push_bit k x + y"
    by (simp add: disjunctive_add_eq_or)
  then show ?thesis by (simp add: push_bit_eq_mult)
qed

text \<open>Dynamic truncation as RFC 4226 states it: a 31-bit big-endian integer at the offset
  given by the low four bits of the last digest byte.\<close>

definition dynamic_truncation :: "bytes \<Rightarrow> nat" where
  "dynamic_truncation digest =
     (let off = unat (digest ! 19) mod 16 in
      (unat (digest ! off) mod 128) * 2 ^ 24 + unat (digest ! (off + 1)) * 2 ^ 16
        + unat (digest ! (off + 2)) * 2 ^ 8 + unat (digest ! (off + 3)))"

lemma unat_byte: "unat (b :: 8 word) < 256"
  using unsigned_less [of b] by simp

lemma nat_and_masks: "x AND 127 = x mod (128 :: nat)" "x AND 15 = x mod (16 :: nat)"
  using take_bit_eq_mask [of 7 x] take_bit_eq_mask [of 4 x]
  by (simp_all add: take_bit_eq_mod mask_eq_exp_minus_1)

lemma truncation_word:
  fixes a b c d :: "8 word"
  shows "unat (push_bit 24 (ucast a AND 0x7f) OR push_bit 16 (ucast b) OR push_bit 8 (ucast c)
            OR (ucast d :: u32))
         = (unat a mod 128) * 2 ^ 24 + unat b * 2 ^ 16 + unat c * 2 ^ 8 + unat d"
proof -
  have u: "unat (push_bit 24 (ucast a AND 0x7f :: u32)) = push_bit 24 (unat a mod 128)"
    "unat (push_bit 16 (ucast b :: u32)) = push_bit 16 (unat b)"
    "unat (push_bit 8 (ucast c :: u32)) = push_bit 8 (unat c)"
    "unat (ucast d :: u32) = unat d"
    using unat_byte [of a] unat_byte [of b] unat_byte [of c] unat_byte [of d]
    unfolding unsigned_push_bit_eq unsigned_and_eq unsigned_ucast_eq
    by (simp_all add: take_bit_eq_mod push_bit_eq_mult nat_and_masks)
  show ?thesis
    unfolding unsigned_or_eq u
    using unat_byte [of a] unat_byte [of b] unat_byte [of c] unat_byte [of d]
    by (simp add: or_low_bits)
qed

lemma u32_checked_pow10_Some:
  "u32_checked_pow10 n = Some m \<Longrightarrow> unat m = 10 ^ unat n"
proof -
  assume "u32_checked_pow10 n = Some m"
  then have "(10 :: nat) ^ unat n < 2 ^ 32" "m = of_nat (10 ^ unat n)"
    by (simp_all only: u32_checked_pow10_def option.inject option.distinct split: if_splits)
  moreover have "unat (of_nat x :: u32) = x" if "x < 2 ^ 32" for x
    using that by (simp add: unat_of_nat)
  ultimately show ?thesis by blast
qed

text \<open>A one-time code computed for a step has exactly the configured number of decimal
  digits, and its value is the RFC 4226 dynamic truncation of the HMAC-SHA-1 of the
  big-endian step, modulo the power of ten.\<close>

theorem generate_totp_code_rfc4226:
  assumes code: "generate_totp_code_for_step E secret step digits = Inr code" and "0 < digits"
  shows "length code = unat digits \<and> list_all is_ascii_digit code \<and>
    (\<exists>digest. hmac_sha1 E secret (to_be_bytes step) = Some digest \<and>
       read_nat code = dynamic_truncation digest mod 10 ^ unat digits)"
proof -
  obtain digest m where d: "hmac_sha1 E secret (to_be_bytes step) = Some digest"
    and m: "u32_checked_pow10 digits = Some m"
    using code by (auto simp: generate_totp_code_for_step_def res_simps Let_def)
  have off: "unat ((digest ! 19) AND 0x0f) = unat (digest ! 19) mod 16"
    by (simp add: unsigned_and_eq nat_and_masks)
  have c: "code = show_padded (unat digits) (dynamic_truncation digest mod 10 ^ unat digits)"
    using code
    unfolding generate_totp_code_for_step_def d m ok_or_simps bind_res.simps Let_def unat_mod
      truncation_word off dynamic_truncation_def u32_checked_pow10_Some [OF m] sum.inject
    by (rule sym)
  moreover from assms(2) have "0 < unat digits"
    by (simp add: word_less_nat_alt)
  ultimately show ?thesis
    using d by (simp add: length_show_padded show_padded_digits read_show_padded)
qed

lemma generate_totp_code_rfc4226_witness:
  "\<exists>code. generate_totp_code_for_step std_ext [1, 2] 5 6 = Inr code \<and> length code = 6"
proof -
  have "\<exists>code. generate_totp_code_for_step std_ext [1, 2] 5 6 = Inr code"
    by (simp add: generate_totp_code_for_step_def std_ext_def u32_checked_pow10_def Let_def)
  then obtain code where "generate_totp_code_for_step std_ext [1, 2] 5 6 = Inr code" ..
  with generate_totp_code_rfc4226 [OF this] show ?thesis by simp
qed

end
