(* ===== verification/Jwt.thy ===== *)
theory Jwt
  imports Util
begin

text \<open>
  The interface of the \<open>jsonwebtoken\<close> crate as the program uses it. Headers, keys and the
  \<open>Validation\<close> settings are the crate's public data; what \<open>encode\<close>, \<open>decode\<close> and
  \<open>decode_header\<close> compute is a parameter (a codec for each claims type), constrained where a
  theorem needs it by the documented laws \<open>jwt_laws\<close>. A finite table of issued tokens
  (\<open>table_codec\<close>) is a concrete codec that satisfies the laws.
\<close>

datatype Algorithm =
    HS256 | HS384 | HS512 | ES256 | ES384 | RS256 | RS384 | RS512 | PS256 | PS384 | PS512 | EdDSA

record Header =
  hd_alg :: Algorithm
  hd_kid :: "string option"

definition Header_new :: "Algorithm \<Rightarrow> Header" where
  "Header_new alg = \<lparr> hd_alg = alg, hd_kid = None \<rparr>"

datatype EncodingKey = EncodingSecret string | EncodingRsaPem string | EncodingEcPem string
datatype DecodingKey = DecodingSecret string | DecodingRsaPem string
  | DecodingRsaComponents string string

record Validation =
  va_algorithms :: "Algorithm list"
  va_iss :: "string list option"
  va_aud :: "string list option"
  va_required_spec_claims :: "string list"
  va_leeway :: nat
  va_validate_exp :: bool
  va_validate_nbf :: bool
  va_validate_aud :: bool

definition Validation_new :: "Algorithm \<Rightarrow> Validation" where
  "Validation_new alg =
     \<lparr> va_algorithms = [alg], va_iss = None, va_aud = None, va_required_spec_claims = [''exp''],
       va_leeway = 60, va_validate_exp = True, va_validate_nbf = False, va_validate_aud = True \<rparr>"

text \<open>A codec: \<open>encode\<close>, \<open>decode\<close> at a reading of the system clock, \<open>decode_header\<close>.\<close>

record 'c jwt_codec =
  jwt_encode :: "Header \<Rightarrow> 'c \<Rightarrow> EncodingKey \<Rightarrow> string + string"
  jwt_decode :: "time \<Rightarrow> string \<Rightarrow> DecodingKey \<Rightarrow> Validation \<Rightarrow> JwtErrorKind + 'c"
  jwt_decode_header :: "string \<Rightarrow> JwtErrorKind + Header"

section \<open>Documented laws\<close>

definition issuer_accepted :: "Validation \<Rightarrow> string \<Rightarrow> bool" where
  "issuer_accepted v iss \<longleftrightarrow> is_none_or (\<lambda>allowed. iss \<in> set allowed) (va_iss v)"

definition audience_accepted :: "Validation \<Rightarrow> JsonValue \<Rightarrow> bool" where
  "audience_accepted v aud \<longleftrightarrow>
     (va_validate_aud v \<longrightarrow>
      is_some_and (\<lambda>allowed. case aud of
          JString s \<Rightarrow> s \<in> set allowed
        | JArray xs \<Rightarrow> list_ex (\<lambda>x. is_some_and (\<lambda>s. s \<in> set allowed) (as_str x)) xs
        | _ \<Rightarrow> False) (va_aud v))"

text \<open>
  \<open>wfc\<close> marks the claims whose serialised form parses back to them, \<open>iss\<close>, \<open>aud\<close> and \<open>exp\<close>
  read the registered claims, \<open>pair\<close> relates a signing key to its verification key. The library
  accepts a list of algorithms only when all of them are of the family of the key.
\<close>

datatype AlgorithmFamily = Hmac | Rsa | Ec | Ed

fun algorithm_family :: "Algorithm \<Rightarrow> AlgorithmFamily" where
  "algorithm_family HS256 = Hmac" | "algorithm_family HS384 = Hmac" | "algorithm_family HS512 = Hmac"
| "algorithm_family ES256 = Ec" | "algorithm_family ES384 = Ec"
| "algorithm_family RS256 = Rsa" | "algorithm_family RS384 = Rsa" | "algorithm_family RS512 = Rsa"
| "algorithm_family PS256 = Rsa" | "algorithm_family PS384 = Rsa" | "algorithm_family PS512 = Rsa"
| "algorithm_family EdDSA = Ed"

definition one_family :: "Algorithm \<Rightarrow> Algorithm list \<Rightarrow> bool" where
  "one_family alg algs \<longleftrightarrow> list_all (\<lambda>a. algorithm_family a = algorithm_family alg) algs"

lemma one_family_single [simp]: "one_family alg [alg]"
  by (simp add: one_family_def)

definition jwt_laws ::
  "(EncodingKey \<Rightarrow> DecodingKey \<Rightarrow> bool) \<Rightarrow> ('c \<Rightarrow> bool) \<Rightarrow> ('c \<Rightarrow> string) \<Rightarrow> ('c \<Rightarrow> JsonValue) \<Rightarrow>
   ('c \<Rightarrow> int) \<Rightarrow> 'c jwt_codec \<Rightarrow> bool" where
  "jwt_laws pair wfc iss aud exp C \<longleftrightarrow>
     (\<forall>h c k t. jwt_encode C h c k = Inr t \<longrightarrow> jwt_decode_header C t = Inr h) \<and>
     (\<forall>h c k t dk v now.
        jwt_encode C h c k = Inr t \<and> pair k dk \<and> wfc c \<and> hd_alg h \<in> set (va_algorithms v) \<and>
        one_family (hd_alg h) (va_algorithms v) \<and>
        issuer_accepted v (iss c) \<and> audience_accepted v (aud c) \<and> \<not> va_validate_nbf v \<and>
        (va_validate_exp v \<longrightarrow> now < seconds (exp c)) \<longrightarrow>
        jwt_decode C now t dk v = Inr c) \<and>
     (\<forall>now t dk v c. jwt_decode C now t dk v = Inr c \<longrightarrow>
        issuer_accepted v (iss c) \<and> audience_accepted v (aud c) \<and>
        (\<exists>h. jwt_decode_header C t = Inr h \<and> hd_alg h \<in> set (va_algorithms v)))"

lemma jwt_laws_header:
  "jwt_laws pair wfc iss aud exp C \<Longrightarrow> jwt_encode C h c k = Inr t \<Longrightarrow> jwt_decode_header C t = Inr h"
  by (simp add: jwt_laws_def)

lemma jwt_laws_roundtrip:
  assumes "jwt_laws pair wfc iss aud exp C" "jwt_encode C h c k = Inr t" "pair k dk" "wfc c"
    and "hd_alg h \<in> set (va_algorithms v)" "one_family (hd_alg h) (va_algorithms v)"
    and "issuer_accepted v (iss c)" "audience_accepted v (aud c)"
    and "\<not> va_validate_nbf v" "va_validate_exp v \<Longrightarrow> now < seconds (exp c)"
  shows "jwt_decode C now t dk v = Inr c"
  using assms unfolding jwt_laws_def by blast

lemma jwt_laws_decoded:
  assumes "jwt_laws pair wfc iss aud exp C" "jwt_decode C now t dk v = Inr c"
  shows "issuer_accepted v (iss c)" "audience_accepted v (aud c)"
    "\<exists>h. jwt_decode_header C t = Inr h \<and> hd_alg h \<in> set (va_algorithms v)"
  using assms unfolding jwt_laws_def by blast+

text \<open>Decoding parses the payload of the token: it never returns other claims than the encoded ones.\<close>

definition jwt_payload_law :: "('c \<Rightarrow> bool) \<Rightarrow> 'c jwt_codec \<Rightarrow> bool" where
  "jwt_payload_law wfc C \<longleftrightarrow>
     (\<forall>h c k t now dk v c'. jwt_encode C h c k = Inr t \<and> wfc c \<and> jwt_decode C now t dk v = Inr c' \<longrightarrow> c' = c)"

section \<open>A concrete codec\<close>

text \<open>The tokens of a table are the only ones that are ever signed or accepted. An entry is
  the token with the header, claims and signing key it was made from.\<close>

type_synonym 'c jwt_table = "(string \<times> Header \<times> 'c \<times> EncodingKey) list"

definition table_codec ::
  "(EncodingKey \<Rightarrow> DecodingKey \<Rightarrow> bool) \<Rightarrow> ('c \<Rightarrow> string) \<Rightarrow> ('c \<Rightarrow> JsonValue) \<Rightarrow> ('c \<Rightarrow> int) \<Rightarrow>
   'c jwt_table \<Rightarrow> 'c jwt_codec" where
  "table_codec pair iss aud exp tbl =
     \<lparr> jwt_encode = (\<lambda>h c k. ok_or ''unsupported claims''
         (map_option fst (find (\<lambda>(t, e). e = (h, c, k)) tbl))),
       jwt_decode = (\<lambda>now t dk v. case map_of tbl t of
           None \<Rightarrow> Inl OtherJwtErrorKind
         | Some (h, c, k) \<Rightarrow>
             if pair k dk \<and> hd_alg h \<in> set (va_algorithms v) \<and> issuer_accepted v (iss c) \<and>
                audience_accepted v (aud c)
             then if va_validate_exp v \<and> seconds (exp c + int (va_leeway v)) < now
                  then Inl ExpiredSignature else Inr c
             else Inl OtherJwtErrorKind),
       jwt_decode_header = (\<lambda>t. case map_of tbl t of
           None \<Rightarrow> Inl OtherJwtErrorKind | Some (h, c, k) \<Rightarrow> Inr h) \<rparr>"

lemma table_codec_encode:
  assumes "distinct (map fst tbl)" "jwt_encode (table_codec pair iss aud exp tbl) h c k = Inr t"
  shows "map_of tbl t = Some (h, c, k)"
proof -
  from assms(2) obtain x where x: "find (\<lambda>(t, e). e = (h, c, k)) tbl = Some x" "t = fst x"
    by (auto simp: table_codec_def)
  then have "x \<in> set tbl" "snd x = (h, c, k)"
    by (auto simp: find_Some_iff) (metis nth_mem)
  with x assms(1) show ?thesis by (cases x) auto
qed

lemma table_codec_laws:
  assumes "distinct (map fst tbl)"
  shows "jwt_laws pair wfc iss aud exp (table_codec pair iss aud exp tbl)" (is "jwt_laws _ _ _ _ _ ?C")
proof -
  have leeway: "\<not> seconds (exp c + int (va_leeway v)) < now" if "now < seconds (exp c)" for c v now
    using that by (simp add: seconds_def algebra_simps)
  have enc: "map_of tbl t = Some (h, c, k)" if "jwt_encode ?C h c k = Inr t" for h c k t
    using table_codec_encode [OF assms that] .
  have "\<forall>h c k t. jwt_encode ?C h c k = Inr t \<longrightarrow> jwt_decode_header ?C t = Inr h"
    using enc by (fastforce simp: table_codec_def)
  moreover have "jwt_decode ?C now t dk v = Inr c"
    if "jwt_encode ?C h c k = Inr t" "pair k dk" "hd_alg h \<in> set (va_algorithms v)"
      "issuer_accepted v (iss c)" "audience_accepted v (aud c)"
      "va_validate_exp v \<longrightarrow> now < seconds (exp c)" for h c k t dk v now
    using enc [OF that(1)] that(2-) leeway by (auto simp: table_codec_def)
  moreover have "issuer_accepted v (iss c) \<and> audience_accepted v (aud c) \<and>
        (\<exists>h. jwt_decode_header ?C t = Inr h \<and> hd_alg h \<in> set (va_algorithms v))"
    if "jwt_decode ?C now t dk v = Inr c" for now t dk v c
    using that by (auto simp: table_codec_def split: option.splits if_splits)
  ultimately show ?thesis unfolding jwt_laws_def by blast
qed

lemma table_codec_payload:
  assumes "distinct (map fst tbl)"
  shows "jwt_payload_law wfc (table_codec pair iss aud exp tbl)" (is "jwt_payload_law _ ?C")
proof -
  have "c' = c" if "jwt_encode ?C h c k = Inr t" "jwt_decode ?C now t dk v = Inr c'" for h c k t now dk v c'
    using table_codec_encode [OF assms that(1)] that(2) by (auto simp: table_codec_def split: if_splits)
  then show ?thesis unfolding jwt_payload_law_def by blast
qed

end
