(* ===== verification/Claims.thy ===== *)
theory Claims
  imports Util
begin

text \<open>
  Session context and access-token claims: \<open>src/session.rs\<close>, \<open>src/claims.rs\<close> and the
  assurance value of \<open>src/assurance.rs\<close> (\<open>SessionAssurance\<close> with its constructor,
  normalisation and validation). The requirement policy \<open>ClaimRequirements::validate\<close>
  is shown to accept exactly the metadata that has every required claim.
\<close>

section \<open>Session context (session.rs)\<close>

datatype AuthMethod = Password | EmailCode | SmsCode | TotpStepUp | ServiceToken | Oidc | MicrosoftOidc

datatype MfaFactor = Totp

record MfaState =
  ms_satisfied :: bool
  ms_methods :: "MfaFactor list"

definition MfaState_default :: MfaState where
  "MfaState_default = \<lparr> ms_satisfied = False, ms_methods = [] \<rparr>"

definition MfaState_is_default :: "MfaState \<Rightarrow> bool" where
  "MfaState_is_default m \<longleftrightarrow> \<not> ms_satisfied m \<and> ms_methods m = []"

record ActiveScope =
  act_tenant_id :: "string option"
  act_organization_id :: "string option"
  act_catalog_id :: "string option"

section \<open>Session assurance (assurance.rs)\<close>

datatype MfaAcceptance = MfaUnsatisfied | MfaSatisfied

record SessionAssurance =
  sa_authenticated_at :: time
  sa_methods :: "string list"
  sa_acr :: "string option"
  sa_context :: "string option"
  sa_mfa :: MfaAcceptance

datatype AssuranceInputError = TooManyMethods | InvalidMethod | MethodsNotNormalized | InvalidContext string

definition MAX_ASSURANCE_METHODS :: nat where "MAX_ASSURANCE_METHODS = 16"
definition MAX_ASSURANCE_METHOD_LENGTH :: nat where "MAX_ASSURANCE_METHOD_LENGTH = 64"
definition MAX_ASSURANCE_CONTEXT_LENGTH :: nat where "MAX_ASSURANCE_CONTEXT_LENGTH = 256"

text \<open>The loop of \<open>normalize_methods\<close>: \<open>count\<close> methods were seen and \<open>out\<close> holds the
  normalised ones; the \<open>seen\<close> set of the source is the set of \<open>out\<close>.\<close>

fun normalize_methods_loop ::
  "nat \<Rightarrow> string list \<Rightarrow> string list \<Rightarrow> AssuranceInputError + string list" where
  "normalize_methods_loop count out [] = Inr out"
| "normalize_methods_loop count out (m # ms) =
     (if Suc count > MAX_ASSURANCE_METHODS then Inl TooManyMethods
      else let m' = to_ascii_lowercase (trim m) in
        if m' = [] \<or> length m' > MAX_ASSURANCE_METHOD_LENGTH then Inl InvalidMethod
        else normalize_methods_loop (Suc count) (if m' \<in> set out then out else out @ [m']) ms)"

definition normalize_methods :: "string list \<Rightarrow> AssuranceInputError + string list" where
  "normalize_methods ms = normalize_methods_loop 0 [] ms"

definition validate_optional_value :: "string \<Rightarrow> string option \<Rightarrow> AssuranceInputError + unit" where
  "validate_optional_value field v =
     reject_when (is_some_and (\<lambda>x. blank x \<or> length x > MAX_ASSURANCE_CONTEXT_LENGTH) v)
       (InvalidContext field)"

definition SessionAssurance_new ::
  "time \<Rightarrow> string list \<Rightarrow> string option \<Rightarrow> string option \<Rightarrow> MfaAcceptance \<Rightarrow>
   AssuranceInputError + SessionAssurance" where
  "SessionAssurance_new authenticated_at methods acr ctxt mfa =
     bind_res (normalize_methods methods) (\<lambda>methods.
     bind_res (validate_optional_value ''acr'' acr) (\<lambda>_.
     bind_res (validate_optional_value ''context'' ctxt) (\<lambda>_.
       Inr \<lparr> sa_authenticated_at = authenticated_at, sa_methods = methods, sa_acr = acr,
             sa_context = ctxt, sa_mfa = mfa \<rparr>)))"

definition SessionAssurance_validate :: "SessionAssurance \<Rightarrow> AssuranceInputError + unit" where
  "SessionAssurance_validate a =
     bind_res (reject_when (length (sa_methods a) > MAX_ASSURANCE_METHODS) TooManyMethods) (\<lambda>_.
     bind_res (normalize_methods (sa_methods a)) (\<lambda>normalized.
     bind_res (reject_when (normalized \<noteq> sa_methods a) MethodsNotNormalized) (\<lambda>_.
     bind_res (validate_optional_value ''acr'' (sa_acr a)) (\<lambda>_.
       validate_optional_value ''context'' (sa_context a)))))"

definition SessionAssurance_auth_time :: "ext \<Rightarrow> SessionAssurance \<Rightarrow> int" where
  "SessionAssurance_auth_time E a = unix_timestamp E (sa_authenticated_at a)"

definition SessionAssurance_mfa_state :: "SessionAssurance \<Rightarrow> MfaState" where
  "SessionAssurance_mfa_state a =
     \<lparr> ms_satisfied = (sa_mfa a = MfaSatisfied), ms_methods = [] \<rparr>"

section \<open>The session context\<close>

record SessionContext =
  sc_auth_method :: AuthMethod
  sc_mfa :: MfaState
  sc_assurance :: "SessionAssurance option"
  sc_active_scope :: "ActiveScope option"

definition SessionContext_for_auth_method :: "AuthMethod \<Rightarrow> SessionContext" where
  "SessionContext_for_auth_method m =
     \<lparr> sc_auth_method = m, sc_mfa = MfaState_default, sc_assurance = None,
       sc_active_scope = None \<rparr>"

definition SessionContext_with_assurance :: "SessionContext \<Rightarrow> SessionAssurance \<Rightarrow> SessionContext" where
  "SessionContext_with_assurance s a =
     s \<lparr> sc_mfa := SessionAssurance_mfa_state a, sc_assurance := Some a \<rparr>"

section \<open>Claims (claims.rs)\<close>

datatype AccessTokenGrantKind = UserSession | Sessionless | SessionBoundDelegation

definition permits_session_management :: "AccessTokenGrantKind \<Rightarrow> bool" where
  "permits_session_management k \<longleftrightarrow> (case k of UserSession \<Rightarrow> True | _ \<Rightarrow> False)"

record ExactOperationBinding =
  eo_operation_name :: string
  eo_document_sha256 :: string

record ActorIdentity =
  ai_sub :: string
  ai_amr :: "string list"

record ConfirmationClaims =
  cc_x5t_s256 :: "string option"
  cc_jkt :: "string option"

record AccessTokenMetadata =
  md_jti :: "string option"
  md_tenant_id :: "string option"
  md_organization_id :: "string option"
  md_session_family_id :: "string option"
  md_grant_kind :: "AccessTokenGrantKind option"
  md_session_version :: "string option"
  md_actor :: "ActorIdentity option"
  md_auth_time :: "int option"
  md_amr :: "string list option"
  md_acr :: "string option"
  md_cnf :: "ConfirmationClaims option"
  md_resource_type :: "string option"
  md_resource_id :: "string option"
  md_correlation_id :: "string option"
  md_operation :: "ExactOperationBinding option"
  md_authorization_roles :: "string list"
  md_purpose :: "string option"
  md_expires_at :: "time option"
  md_additional :: "(string \<times> JsonValue) list"

definition AccessTokenMetadata_default :: AccessTokenMetadata where
  "AccessTokenMetadata_default =
     \<lparr> md_jti = None, md_tenant_id = None, md_organization_id = None,
       md_session_family_id = None, md_grant_kind = None, md_session_version = None,
       md_actor = None, md_auth_time = None, md_amr = None, md_acr = None, md_cnf = None,
       md_resource_type = None, md_resource_id = None, md_correlation_id = None,
       md_operation = None, md_authorization_roles = [], md_purpose = None,
       md_expires_at = None, md_additional = [] \<rparr>"

definition ACCESS_TOKEN_PURPOSE :: string where "ACCESS_TOKEN_PURPOSE = ''access_token''"

record ClaimRequirements =
  require_jti :: bool
  require_tenant_id :: bool
  require_organization_id :: bool
  require_cnf :: bool
  require_purpose :: bool
  require_session_family_id :: bool
  require_actor :: bool
  require_resource_binding :: bool
  require_correlation_id :: bool
  required_grant_kind :: "AccessTokenGrantKind option"
  require_session_version :: bool
  require_operation_binding :: bool

definition ClaimRequirements_none :: ClaimRequirements where
  "ClaimRequirements_none =
     \<lparr> require_jti = False, require_tenant_id = False, require_organization_id = False,
       require_cnf = False, require_purpose = False, require_session_family_id = False,
       require_actor = False, require_resource_binding = False,
       require_correlation_id = False, required_grant_kind = None,
       require_session_version = False, require_operation_binding = False \<rparr>"

definition tenant_and_jti :: ClaimRequirements where
  "tenant_and_jti = ClaimRequirements_none \<lparr> require_jti := True, require_tenant_id := True \<rparr>"

definition tenant_jti_and_cnf :: ClaimRequirements where
  "tenant_jti_and_cnf =
     ClaimRequirements_none \<lparr> require_jti := True, require_tenant_id := True, require_cnf := True \<rparr>"

datatype ClaimRequirementError =
    MissingJti | MissingTenantId | MissingOrganizationId | MissingCnf
  | MissingOrInvalidPurpose | MissingSessionFamilyId | MissingActor
  | MissingResourceBinding | MissingCorrelationId | MissingOrInvalidGrantKind
  | MissingSessionVersion | MissingOperationBinding

definition ClaimRequirements_validate ::
  "ClaimRequirements \<Rightarrow> AccessTokenMetadata \<Rightarrow> ClaimRequirementError + unit" where
  "ClaimRequirements_validate r m =
     bind_res (reject_when (require_jti r \<and> is_none_or blank (md_jti m)) MissingJti) (\<lambda>_.
     bind_res (reject_when (require_tenant_id r \<and> is_none_or blank (md_tenant_id m))
                 MissingTenantId) (\<lambda>_.
     bind_res (reject_when (require_organization_id r \<and> is_none_or blank (md_organization_id m))
                 MissingOrganizationId) (\<lambda>_.
     bind_res (if require_cnf r then
                 (case md_cnf m of
                    None \<Rightarrow> Inl MissingCnf
                  | Some cnf \<Rightarrow> reject_when (cc_x5t_s256 cnf = None \<and> cc_jkt cnf = None) MissingCnf)
               else Inr ()) (\<lambda>_.
     bind_res (reject_when (require_purpose r \<and> md_purpose m \<noteq> Some ACCESS_TOKEN_PURPOSE)
                 MissingOrInvalidPurpose) (\<lambda>_.
     bind_res (reject_when (require_session_family_id r \<and> is_none_or blank (md_session_family_id m))
                 MissingSessionFamilyId) (\<lambda>_.
     bind_res (reject_when (require_actor r \<and> is_none_or (\<lambda>a. blank (ai_sub a)) (md_actor m))
                 MissingActor) (\<lambda>_.
     bind_res (if require_resource_binding r then
                 let has_type = is_some_and (\<lambda>v. \<not> blank v) (md_resource_type m);
                     has_id = is_some_and (\<lambda>v. \<not> blank v) (md_resource_id m)
                 in reject_when (\<not> (has_type \<and> has_id)) MissingResourceBinding
               else Inr ()) (\<lambda>_.
     bind_res (reject_when (require_correlation_id r \<and> is_none_or blank (md_correlation_id m))
                 MissingCorrelationId) (\<lambda>_.
     bind_res (reject_when (is_some_and (\<lambda>required. md_grant_kind m \<noteq> Some required)
                              (required_grant_kind r)) MissingOrInvalidGrantKind) (\<lambda>_.
     bind_res (reject_when (require_session_version r \<and> is_none_or blank (md_session_version m))
                 MissingSessionVersion) (\<lambda>_.
     bind_res (reject_when (require_operation_binding r \<and>
                  is_none_or (\<lambda>op. blank (eo_operation_name op) \<or> blank (eo_document_sha256 op))
                    (md_operation m)) MissingOperationBinding) (\<lambda>_.
       Inr ()))))))))))))"

section \<open>Properties\<close>

subsection \<open>Normalised authentication methods\<close>

lemma to_lower_idem [simp]: "to_lower (to_lower c) = to_lower c"
proof (cases "is_ascii_upper c")
  case True
  then have "ord (to_lower c) = ord c + 32"
    by (simp add: to_lower_def is_ascii_upper_def ord_def take_bit_eq_mod)
  with True have "\<not> is_ascii_upper (to_lower c)" by (simp add: is_ascii_upper_def)
  then show ?thesis by (simp add: to_lower_def [of "to_lower c"])
qed (simp add: to_lower_def)

lemma to_ascii_lowercase_idem [simp]: "to_ascii_lowercase (to_ascii_lowercase s) = to_ascii_lowercase s"
  by (simp add: to_ascii_lowercase_def)

lemma to_lower_ord_inj:
  assumes "to_lower c = b" and "\<not> is_ascii_lower b" and "\<not> is_ascii_upper b"
  shows "c = b"
proof (cases "is_ascii_upper c")
  case True
  then have "ord b = ord c + 32"
    using assms(1) by (auto simp: to_lower_def is_ascii_upper_def ord_def take_bit_eq_mod)
  with True assms(2) show ?thesis by (simp add: is_ascii_upper_def is_ascii_lower_def)
next
  case False
  with assms(1) show ?thesis by (simp add: to_lower_def)
qed

lemma whitespace_not_letter:
  "w \<in> set unicode_whitespace \<Longrightarrow> b \<in> set w \<Longrightarrow>
   \<not> is_ascii_lower b \<and> \<not> is_ascii_upper b \<and> to_lower b = b"
  by (auto simp: unicode_whitespace_def is_ascii_lower_def is_ascii_upper_def ord_def to_lower_def)

lemma prefix_lowercase:
  assumes "\<And>b. b \<in> set w \<Longrightarrow> \<not> is_ascii_lower b \<and> \<not> is_ascii_upper b \<and> to_lower b = b"
  shows "prefix w (map to_lower s) \<longleftrightarrow> prefix w s"
  using assms
proof (induction w arbitrary: s)
  case (Cons b w)
  then have "b = to_lower c \<longleftrightarrow> b = c" for c
    using to_lower_ord_inj [of c b] by auto
  with Cons show ?case by (cases s) auto
qed simp

lemma lead_ws_lowercase: "lead_ws (to_ascii_lowercase s) = lead_ws s"
  unfolding lead_ws_def to_ascii_lowercase_def
  by (rule find_cong [OF refl]) (simp add: prefix_lowercase whitespace_not_letter)

lemma trail_ws_lowercase: "trail_ws (to_ascii_lowercase s) = trail_ws s"
  unfolding trail_ws_def to_ascii_lowercase_def
proof (rule find_cong [OF refl])
  fix w assume w: "w \<in> set unicode_whitespace"
  have "prefix (rev w) (map to_lower (rev s)) \<longleftrightarrow> prefix (rev w) (rev s)"
    by (rule prefix_lowercase) (use whitespace_not_letter [OF w] in auto)
  then show "suffix w (map to_lower s) = suffix w s"
    by (simp add: suffix_to_prefix rev_map)
qed

lemma trim_fixpoint:
  "lead_ws s = None \<Longrightarrow> trail_ws s = None \<Longrightarrow> trim s = s"
  by (simp add: trim_def trim_start.simps trim_end.simps)

lemma lead_trail_trim: "lead_ws (trim s) = None" "trail_ws (trim s) = None"
  unfolding trim_def
  using lead_ws_prefix [OF lead_ws_trim_start trim_end_prefix] trail_ws_trim_end by auto

lemma lowercase_trim_fixpoint:
  "to_ascii_lowercase (trim (to_ascii_lowercase (trim s))) = to_ascii_lowercase (trim s)"
proof -
  have "trim (to_ascii_lowercase (trim s)) = to_ascii_lowercase (trim s)"
    by (rule trim_fixpoint) (simp_all add: lead_ws_lowercase trail_ws_lowercase lead_trail_trim)
  then show ?thesis by simp
qed

definition normal_method :: "string \<Rightarrow> bool" where
  "normal_method m \<longleftrightarrow>
     m \<noteq> [] \<and> length m \<le> MAX_ASSURANCE_METHOD_LENGTH \<and> to_ascii_lowercase (trim m) = m"

lemma normalize_methods_loop_Inr:
  assumes "normalize_methods_loop n out ms = Inr r"
    and "list_all normal_method out" "distinct out" "length out \<le> n" "n \<le> MAX_ASSURANCE_METHODS"
  shows "list_all normal_method r \<and> distinct r \<and> length r \<le> MAX_ASSURANCE_METHODS \<and>
         set r = set out \<union> (\<lambda>m. to_ascii_lowercase (trim m)) ` set ms"
  using assms
proof (induction n out ms rule: normalize_methods_loop.induct)
  case (1 n out)
  then show ?case by auto
next
  case (2 n out m ms)
  let ?m = "to_ascii_lowercase (trim m)"
  let ?out = "if ?m \<in> set out then out else out @ [?m]"
  have ok: "Suc n \<le> MAX_ASSURANCE_METHODS" "?m \<noteq> []" "length ?m \<le> MAX_ASSURANCE_METHOD_LENGTH"
    and rest: "normalize_methods_loop (Suc n) ?out ms = Inr r"
    using "2.prems"(1) by (auto simp: Let_def split: if_splits)
  have "normal_method ?m"
    using ok by (simp add: normal_method_def lowercase_trim_fixpoint)
  then have inv: "list_all normal_method ?out" "distinct ?out" "length ?out \<le> Suc n"
    using "2.prems" by auto
  have "list_all normal_method r \<and> distinct r \<and> length r \<le> MAX_ASSURANCE_METHODS \<and>
      set r = set ?out \<union> (\<lambda>m. to_ascii_lowercase (trim m)) ` set ms"
    using "2.IH" [OF _ refl _ rest inv ok(1)] ok by simp
  then show ?case by auto
qed

lemma normalize_methods_loop_id:
  assumes "list_all normal_method ms" "distinct (out @ ms)" "n + length ms \<le> MAX_ASSURANCE_METHODS"
  shows "normalize_methods_loop n out ms = Inr (out @ ms)"
  using assms
  by (induction ms arbitrary: n out) (auto simp: normal_method_def Let_def)

lemma normalize_methods_Inr:
  "normalize_methods ms = Inr r \<Longrightarrow>
   list_all normal_method r \<and> distinct r \<and> length r \<le> MAX_ASSURANCE_METHODS \<and>
   set r = (\<lambda>m. to_ascii_lowercase (trim m)) ` set ms"
  using normalize_methods_loop_Inr [of 0 "[]" ms r] by (simp add: normalize_methods_def)

lemma normalize_methods_id:
  "list_all normal_method ms \<Longrightarrow> distinct ms \<Longrightarrow> length ms \<le> MAX_ASSURANCE_METHODS \<Longrightarrow>
   normalize_methods ms = Inr ms"
  using normalize_methods_loop_id [of ms "[]" 0] by (simp add: normalize_methods_def)

text \<open>normalisation of authentication methods. An assurance value built by
  \<open>SessionAssurance::new\<close> always passes \<open>SessionAssurance::validate\<close>, and a value that
  passes \<open>validate\<close> is a fixed point of the constructor: building it again from its own
  fields succeeds and returns the same value. Its methods are at most 16 distinct,
  non-empty, trimmed lower-case names of at most 64 bytes.\<close>

theorem SessionAssurance_new_validates:
  "(\<forall>at ms acr ctxt mfa a. SessionAssurance_new at ms acr ctxt mfa = Inr a \<longrightarrow>
      SessionAssurance_validate a = Inr ()) \<and>
   (\<forall>a. SessionAssurance_validate a = Inr () \<longrightarrow>
      SessionAssurance_new (sa_authenticated_at a) (sa_methods a) (sa_acr a) (sa_context a) (sa_mfa a)
        = Inr a \<and>
      distinct (sa_methods a) \<and> length (sa_methods a) \<le> 16 \<and>
      (\<forall>m \<in> set (sa_methods a). m \<noteq> [] \<and> length m \<le> 64 \<and> to_ascii_lowercase (trim m) = m))"
proof (intro conjI allI impI)
  fix at ms acr ctxt mfa a
  assume *: "SessionAssurance_new at ms acr ctxt mfa = Inr a"
  then obtain r where r: "normalize_methods ms = Inr r" "sa_methods a = r"
    "sa_acr a = acr" "sa_context a = ctxt"
    "validate_optional_value ''acr'' acr = Inr ()" "validate_optional_value ''context'' ctxt = Inr ()"
    by (auto simp: SessionAssurance_new_def res_simps)
  then have "normalize_methods r = Inr r" "length r \<le> MAX_ASSURANCE_METHODS"
    using normalize_methods_Inr [OF r(1)] normalize_methods_id by auto
  with r show "SessionAssurance_validate a = Inr ()"
    by (simp add: SessionAssurance_validate_def)
next
  fix a assume "SessionAssurance_validate a = Inr ()"
  then have n: "normalize_methods (sa_methods a) = Inr (sa_methods a)"
    and v: "validate_optional_value ''acr'' (sa_acr a) = Inr ()"
      "validate_optional_value ''context'' (sa_context a) = Inr ()"
    by (auto simp: SessionAssurance_validate_def res_simps)
  from n v show "SessionAssurance_new (sa_authenticated_at a) (sa_methods a) (sa_acr a)
      (sa_context a) (sa_mfa a) = Inr a"
    by (simp add: SessionAssurance_new_def)
  from normalize_methods_Inr [OF n]
  show "distinct (sa_methods a)" "length (sa_methods a) \<le> 16"
    "\<forall>m \<in> set (sa_methods a). m \<noteq> [] \<and> length m \<le> 64 \<and> to_ascii_lowercase (trim m) = m"
    by (auto simp: normal_method_def list_all_iff MAX_ASSURANCE_METHODS_def
        MAX_ASSURANCE_METHOD_LENGTH_def)
qed

lemma SessionAssurance_new_validates_witness:
  "\<exists>a. SessionAssurance_new 5 [''otp'', ''otp'', ''pwd''] None None MfaSatisfied = Inr a \<and>
     SessionAssurance_validate a = Inr ()"
proof -
  have "SessionAssurance_new 5 [''otp'', ''otp'', ''pwd''] None None MfaSatisfied =
      Inr \<lparr> sa_authenticated_at = 5, sa_methods = [''otp'', ''pwd''], sa_acr = None,
            sa_context = None, sa_mfa = MfaSatisfied \<rparr>"
    by code_simp
  with SessionAssurance_new_validates [THEN conjunct1] show ?thesis by blast
qed

subsection \<open>Claim requirements\<close>

text \<open>What the policy promises, as a conjunction of independent clauses.\<close>

definition required_claims_present :: "ClaimRequirements \<Rightarrow> AccessTokenMetadata \<Rightarrow> bool" where
  "required_claims_present r m \<longleftrightarrow>
     (require_jti r \<longrightarrow> (\<exists>v. md_jti m = Some v \<and> \<not> blank v)) \<and>
     (require_tenant_id r \<longrightarrow> (\<exists>v. md_tenant_id m = Some v \<and> \<not> blank v)) \<and>
     (require_organization_id r \<longrightarrow> (\<exists>v. md_organization_id m = Some v \<and> \<not> blank v)) \<and>
     (require_cnf r \<longrightarrow> (\<exists>c. md_cnf m = Some c \<and> \<not> (cc_x5t_s256 c = None \<and> cc_jkt c = None))) \<and>
     (require_purpose r \<longrightarrow> md_purpose m = Some ''access_token'') \<and>
     (require_session_family_id r \<longrightarrow> (\<exists>v. md_session_family_id m = Some v \<and> \<not> blank v)) \<and>
     (require_actor r \<longrightarrow> (\<exists>a. md_actor m = Some a \<and> \<not> blank (ai_sub a))) \<and>
     (require_resource_binding r \<longrightarrow>
        (\<exists>t. md_resource_type m = Some t \<and> \<not> blank t) \<and>
        (\<exists>i. md_resource_id m = Some i \<and> \<not> blank i)) \<and>
     (require_correlation_id r \<longrightarrow> (\<exists>v. md_correlation_id m = Some v \<and> \<not> blank v)) \<and>
     (\<forall>k. required_grant_kind r = Some k \<longrightarrow> md_grant_kind m = Some k) \<and>
     (require_session_version r \<longrightarrow> (\<exists>v. md_session_version m = Some v \<and> \<not> blank v)) \<and>
     (require_operation_binding r \<longrightarrow>
        (\<exists>op. md_operation m = Some op \<and> \<not> blank (eo_operation_name op) \<and>
              \<not> blank (eo_document_sha256 op)))"

lemma not_is_none_or: "\<not> is_none_or p x \<longleftrightarrow> (\<exists>y. x = Some y \<and> \<not> p y)"
  by (cases x) auto

lemma option_case_reject:
  "(case x of None \<Rightarrow> Inl e | Some y \<Rightarrow> reject_when (p y) e) = Inr () \<longleftrightarrow>
   (\<exists>y. x = Some y \<and> \<not> p y)"
  by (cases x) auto

lemma ClaimRequirements_validate_iff:
  "ClaimRequirements_validate r m = Inr () \<longleftrightarrow> required_claims_present r m"
  unfolding ClaimRequirements_validate_def required_claims_present_def bind_res_unit_Inr
    if_else_ok_Inr option_case_reject Let_def
  by (simp add: not_is_none_or is_some_and_iff ACCESS_TOKEN_PURPOSE_def)

text \<open>A resource server's claim policy accepts metadata exactly when every claim it
  requires is present and non-blank (or has the exact required value), whichever
  combination of the twelve switches is set.\<close>

theorem ClaimRequirements_validate_exact:
  "ClaimRequirements_validate r m = Inr () \<longleftrightarrow>
     required_claims_present r m"
  by (rule ClaimRequirements_validate_iff)

end
