(* ===== verification/Scope_Match.thy ===== *)
theory Scope_Match
  imports Prelude
begin

text \<open>
  Scope checks: the exact helpers of \<open>src/scopes.rs\<close> and the matcher trait with its exact,
  hierarchical and host-provided implementations of \<open>src/scope_match.rs\<close>. The trait is a
  record of its four methods; the locale \<open>scope_matcher\<close> states the contract guards rely
  on (a set of grants satisfies a requirement exactly when one of the grants does, and a
  grant satisfies itself) and is interpreted on every matcher of the crate.
\<close>

section \<open>Exact helpers (scopes.rs)\<close>

definition has_scope :: "string list \<Rightarrow> string \<Rightarrow> bool" where
  "has_scope scopes required \<longleftrightarrow> list_ex (\<lambda>scope. scope = required) scopes"

definition has_any_scope :: "string list \<Rightarrow> string list \<Rightarrow> bool" where
  "has_any_scope scopes required \<longleftrightarrow> list_ex (\<lambda>scope. has_scope scopes scope) required"

definition has_all_scopes :: "string list \<Rightarrow> string list \<Rightarrow> bool" where
  "has_all_scopes scopes required \<longleftrightarrow> list_all (\<lambda>scope. has_scope scopes scope) required"

section \<open>The matcher trait\<close>

record ScopeMatch =
  sm_matches :: "string \<Rightarrow> string \<Rightarrow> bool"
  sm_has_scope :: "string list \<Rightarrow> string \<Rightarrow> bool"
  sm_has_any_scope :: "string list \<Rightarrow> string list \<Rightarrow> bool"
  sm_has_all_scopes :: "string list \<Rightarrow> string list \<Rightarrow> bool"

text \<open>The default methods, over the methods they call.\<close>

definition default_has_scope :: "(string \<Rightarrow> string \<Rightarrow> bool) \<Rightarrow> string list \<Rightarrow> string \<Rightarrow> bool" where
  "default_has_scope matches granted required \<longleftrightarrow> list_ex (\<lambda>scope. matches scope required) granted"

definition default_has_any_scope ::
  "(string list \<Rightarrow> string \<Rightarrow> bool) \<Rightarrow> string list \<Rightarrow> string list \<Rightarrow> bool" where
  "default_has_any_scope hs granted required \<longleftrightarrow> list_ex (\<lambda>scope. hs granted scope) required"

definition default_has_all_scopes ::
  "(string list \<Rightarrow> string \<Rightarrow> bool) \<Rightarrow> string list \<Rightarrow> string list \<Rightarrow> bool" where
  "default_has_all_scopes hs granted required \<longleftrightarrow> list_all (\<lambda>scope. hs granted scope) required"

definition ExactScopeMatch :: ScopeMatch where
  "ExactScopeMatch =
     (let m = (\<lambda>granted required. granted = required); hs = default_has_scope m in
      \<lparr> sm_matches = m, sm_has_scope = hs, sm_has_any_scope = default_has_any_scope hs,
        sm_has_all_scopes = default_has_all_scopes hs \<rparr>)"

section \<open>Hierarchical matching\<close>

text \<open>The separator is a Rust \<open>char\<close>: its UTF-8 bytes, never empty.\<close>

record HierarchicalScopeOptions =
  separator :: string
  wildcard :: string
  wildcard_matches_multi_segment :: bool
  allow_universal_wildcard :: bool
  super_scopes :: "string list"
  allow_super_scopes_for_exact_only :: bool
  exact_only_scopes :: "string list"
  exact_only_scope_patterns :: "string list"

definition HierarchicalScopeOptions_default :: HierarchicalScopeOptions where
  "HierarchicalScopeOptions_default =
     \<lparr> separator = ''.'', wildcard = ''*'', wildcard_matches_multi_segment = True,
       allow_universal_wildcard = False, super_scopes = [],
       allow_super_scopes_for_exact_only = False, exact_only_scopes = [],
       exact_only_scope_patterns = [] \<rparr>"

datatype HierarchicalScopeValidationError = BareWildcardExactOnlyPattern string
datatype HierarchicalScopeValidationWarning = WildcardExactOnlyPattern string

fun validate_patterns ::
  "HierarchicalScopeOptions \<Rightarrow> HierarchicalScopeValidationWarning list \<Rightarrow> string list \<Rightarrow>
   HierarchicalScopeValidationError + HierarchicalScopeValidationWarning list" where
  "validate_patterns opts warnings [] = Inr warnings"
| "validate_patterns opts warnings (p # ps) =
     (if wildcard opts \<noteq> [] \<and> p = wildcard opts then Inl (BareWildcardExactOnlyPattern p)
      else if wildcard opts \<noteq> [] \<and> sublist (wildcard opts) p
      then validate_patterns opts (warnings @ [WildcardExactOnlyPattern p]) ps
      else validate_patterns opts warnings ps)"

definition HierarchicalScopeOptions_validate ::
  "HierarchicalScopeOptions \<Rightarrow>
   HierarchicalScopeValidationError + HierarchicalScopeValidationWarning list" where
  "HierarchicalScopeOptions_validate opts =
     validate_patterns opts [] (exact_only_scope_patterns opts)"

record HierarchicalScopeMatch =
  hm_options :: HierarchicalScopeOptions
  hm_validation_warnings :: "HierarchicalScopeValidationWarning list"

definition HierarchicalScopeMatch_new ::
  "HierarchicalScopeOptions \<Rightarrow> HierarchicalScopeValidationError + HierarchicalScopeMatch" where
  "HierarchicalScopeMatch_new opts =
     bind_res (HierarchicalScopeOptions_validate opts) (\<lambda>ws.
       Inr \<lparr> hm_options = opts, hm_validation_warnings = ws \<rparr>)"

definition is_configured_super_scope :: "HierarchicalScopeOptions \<Rightarrow> string \<Rightarrow> bool" where
  "is_configured_super_scope opts granted \<longleftrightarrow> list_ex (\<lambda>scope. scope = granted) (super_scopes opts)"

definition matches_hierarchy :: "HierarchicalScopeOptions \<Rightarrow> string \<Rightarrow> string \<Rightarrow> bool" where
  "matches_hierarchy opts granted required =
     (if granted = required then True
      else if granted = [] \<or> required = [] \<or> wildcard opts = [] then False
      else if granted = wildcard opts then allow_universal_wildcard opts
      else if suffix (wildcard opts) granted then
        let pre = take (length granted - length (wildcard opts)) granted in
        if pre = [] then allow_universal_wildcard opts
        else if wildcard_matches_multi_segment opts then prefix pre required
        else (case strip_prefix pre required of
                None \<Rightarrow> False
              | Some rest \<Rightarrow> rest \<noteq> [] \<and> \<not> sublist (separator opts) rest)
      else
        let gs = split_str (separator opts) granted; rs = split_str (separator opts) required in
        length gs = length rs \<and>
        list_all (\<lambda>(g, r). g = wildcard opts \<or> g = r) (zip gs rs))"

definition is_exact_only_requirement :: "HierarchicalScopeOptions \<Rightarrow> string \<Rightarrow> bool" where
  "is_exact_only_requirement opts required \<longleftrightarrow>
     list_ex (\<lambda>scope. scope = required) (exact_only_scopes opts) \<or>
     list_ex (\<lambda>pattern. matches_hierarchy opts pattern required) (exact_only_scope_patterns opts)"

definition matches_with_exact_only ::
  "HierarchicalScopeOptions \<Rightarrow> string \<Rightarrow> string \<Rightarrow> bool \<Rightarrow> bool" where
  "matches_with_exact_only opts granted required exact_only =
     (if granted = required then True
      else if exact_only then
        allow_super_scopes_for_exact_only opts \<and> is_configured_super_scope opts granted
      else if is_configured_super_scope opts granted then True
      else matches_hierarchy opts granted required)"

definition hierarchical_matches :: "HierarchicalScopeMatch \<Rightarrow> string \<Rightarrow> string \<Rightarrow> bool" where
  "hierarchical_matches hm granted required =
     (let exact_only = is_exact_only_requirement (hm_options hm) required in
      matches_with_exact_only (hm_options hm) granted required exact_only)"

definition hierarchical_has_scope :: "HierarchicalScopeMatch \<Rightarrow> string list \<Rightarrow> string \<Rightarrow> bool" where
  "hierarchical_has_scope hm granted required =
     (let exact_only = is_exact_only_requirement (hm_options hm) required in
      list_ex (\<lambda>scope. matches_with_exact_only (hm_options hm) scope required exact_only) granted)"

definition hierarchical_scope_match :: "HierarchicalScopeMatch \<Rightarrow> ScopeMatch" where
  "hierarchical_scope_match hm =
     \<lparr> sm_matches = hierarchical_matches hm, sm_has_scope = hierarchical_has_scope hm,
       sm_has_any_scope = default_has_any_scope (hierarchical_has_scope hm),
       sm_has_all_scopes = default_has_all_scopes (hierarchical_has_scope hm) \<rparr>"

datatype ScopeMatcher = Exact | Hierarchical HierarchicalScopeMatch | Custom ScopeMatch

definition ScopeMatcher_into_arc :: "ScopeMatcher \<Rightarrow> ScopeMatch" where
  "ScopeMatcher_into_arc m =
     (case m of
        Exact \<Rightarrow>
          \<lparr> sm_matches = sm_matches ExactScopeMatch, sm_has_scope = sm_has_scope ExactScopeMatch,
            sm_has_any_scope = sm_has_any_scope ExactScopeMatch,
            sm_has_all_scopes = sm_has_all_scopes ExactScopeMatch \<rparr>
      | Hierarchical hm \<Rightarrow>
          \<lparr> sm_matches = sm_matches (hierarchical_scope_match hm),
            sm_has_scope = sm_has_scope (hierarchical_scope_match hm),
            sm_has_any_scope = sm_has_any_scope (hierarchical_scope_match hm),
            sm_has_all_scopes = sm_has_all_scopes (hierarchical_scope_match hm) \<rparr>
      | Custom c \<Rightarrow>
          \<lparr> sm_matches = sm_matches c, sm_has_scope = sm_has_scope c,
            sm_has_any_scope = sm_has_any_scope c, sm_has_all_scopes = sm_has_all_scopes c \<rparr>)"

definition ScopeMatcher_hierarchical ::
  "HierarchicalScopeOptions \<Rightarrow> HierarchicalScopeValidationError + ScopeMatcher" where
  "ScopeMatcher_hierarchical opts =
     bind_res (HierarchicalScopeMatch_new opts) (\<lambda>hm. Inr (Hierarchical hm))"

section \<open>The contract of a matcher\<close>

locale scope_matcher =
  fixes sm :: ScopeMatch
  assumes has_scope_iff: "sm_has_scope sm granted r \<longleftrightarrow> (\<exists>s \<in> set granted. sm_matches sm s r)"
    and matches_refl: "sm_matches sm s s"
    and any_iff: "sm_has_any_scope sm granted rs \<longleftrightarrow> (\<exists>r \<in> set rs. sm_has_scope sm granted r)"
    and all_iff: "sm_has_all_scopes sm granted rs \<longleftrightarrow> (\<forall>r \<in> set rs. sm_has_scope sm granted r)"
begin

lemma has_scope_mono:
  "set granted \<subseteq> set granted' \<Longrightarrow> sm_has_scope sm granted r \<Longrightarrow> sm_has_scope sm granted' r"
  by (auto simp: has_scope_iff)

lemma has_all_mono:
  "set granted \<subseteq> set granted' \<Longrightarrow> set rs' \<subseteq> set rs \<Longrightarrow>
   sm_has_all_scopes sm granted rs \<Longrightarrow> sm_has_all_scopes sm granted' rs'"
  by (auto simp: all_iff intro: has_scope_mono)

lemma has_all_self: "sm_has_all_scopes sm granted granted"
  using matches_refl by (auto simp: all_iff has_scope_iff)

lemma no_grants: "\<not> sm_has_scope sm [] r"
  by (simp add: has_scope_iff)

end

interpretation exact: scope_matcher ExactScopeMatch
  by unfold_locales
    (auto simp: ExactScopeMatch_def Let_def default_has_scope_def default_has_any_scope_def
      default_has_all_scopes_def list_ex_iff list_all_iff)

interpretation hier: scope_matcher "hierarchical_scope_match hm" for hm
  by unfold_locales
    (auto simp: hierarchical_scope_match_def hierarchical_has_scope_def hierarchical_matches_def
      Let_def matches_with_exact_only_def default_has_any_scope_def default_has_all_scopes_def
      list_ex_iff list_all_iff)

lemma into_arc_eq:
  "ScopeMatcher_into_arc Exact = ExactScopeMatch"
  "ScopeMatcher_into_arc (Hierarchical hm) = hierarchical_scope_match hm"
  "ScopeMatcher_into_arc (Custom c) = c"
  by (simp_all add: ScopeMatcher_into_arc_def)

text \<open>Every matcher a host can configure without custom code keeps the matcher contract:
  the overridden batch method agrees with matching grant by grant, adding grants never
  revokes access, dropping requirements never revokes it, and a principal's own scopes
  satisfy themselves.\<close>

theorem ScopeMatcher_contract:
  assumes "\<forall>c. m \<noteq> Custom c"
  shows "(sm_has_scope (ScopeMatcher_into_arc m) granted r \<longleftrightarrow>
            (\<exists>s \<in> set granted. sm_matches (ScopeMatcher_into_arc m) s r)) \<and>
         (set granted \<subseteq> set granted' \<longrightarrow> set rs' \<subseteq> set rs \<longrightarrow>
            sm_has_all_scopes (ScopeMatcher_into_arc m) granted rs \<longrightarrow>
            sm_has_all_scopes (ScopeMatcher_into_arc m) granted' rs') \<and>
         sm_has_all_scopes (ScopeMatcher_into_arc m) granted granted"
proof (cases m)
  case Exact
  then show ?thesis
    using exact.has_all_mono exact.has_all_self by (simp add: into_arc_eq exact.has_scope_iff)
next
  case (Hierarchical hm)
  then show ?thesis
    using hier.has_all_mono hier.has_all_self by (simp add: into_arc_eq hier.has_scope_iff)
next
  case (Custom c)
  with assms show ?thesis by blast
qed

lemma ScopeMatcher_contract_witness:
  "sm_has_all_scopes (ScopeMatcher_into_arc Exact) [''a'', ''b''] [''a'', ''b'']"
  using ScopeMatcher_contract [of Exact "[''a'', ''b'']"] by simp

section \<open>What hierarchical grants can satisfy\<close>

lemma list_all_zip_eq:
  "length xs = length ys \<Longrightarrow> list_all (\<lambda>(x, y). x = y) (zip xs ys) \<Longrightarrow> xs = ys"
  by (induction xs ys rule: list_induct2) auto

lemma split_str_sublist: "w \<in> set (split_str sep s) \<Longrightarrow> sublist w s"
proof -
  have "w \<in> set ws \<Longrightarrow> sublist w (join_str sep ws)" for ws
    by (induction sep ws rule: join_str.induct) (auto simp: sublist_append)
  then show "w \<in> set (split_str sep s) \<Longrightarrow> sublist w s"
    by (metis join_split_str)
qed

lemma matches_hierarchy_literal:
  assumes "\<not> sublist (wildcard opts) granted"
  shows "matches_hierarchy opts granted required \<longleftrightarrow> granted = required"
proof
  assume m: "matches_hierarchy opts granted required"
  show "granted = required"
  proof (rule ccontr)
    assume ne: "granted \<noteq> required"
    let ?gs = "split_str (separator opts) granted" and ?rs = "split_str (separator opts) required"
    have "\<not> suffix (wildcard opts) granted"
      using assms suffix_imp_sublist by blast
    with m ne assms have len: "length ?gs = length ?rs"
      and all: "list_all (\<lambda>(g, r). g = wildcard opts \<or> g = r) (zip ?gs ?rs)"
      by (auto simp: matches_hierarchy_def Let_def split: if_splits)
    have "wildcard opts \<notin> set ?gs"
      using assms split_str_sublist by blast
    with all have "list_all (\<lambda>(g, r). g = r) (zip ?gs ?rs)"
      by (auto simp: list_all_iff dest: set_zip_leftD)
    with len have "?gs = ?rs" by (rule list_all_zip_eq)
    then show False using ne by (metis join_split_str)
  qed
qed (simp add: matches_hierarchy_def)

text \<open>A grant without the wildcard never widens: the hierarchical matcher lets it satisfy
  only itself, unless the host configured it as a super-scope.\<close>

theorem hierarchical_literal_grant_exact:
  assumes "\<not> sublist (wildcard (hm_options hm)) granted"
    and "\<not> is_configured_super_scope (hm_options hm) granted"
  shows "hierarchical_matches hm granted required \<longleftrightarrow> granted = required"
  using assms
  by (auto simp: hierarchical_matches_def matches_with_exact_only_def matches_hierarchy_literal)

definition demo_matcher :: HierarchicalScopeMatch where
  "demo_matcher =
     \<lparr> hm_options = HierarchicalScopeOptions_default \<lparr> exact_only_scopes := [''admin.reset''] \<rparr>,
       hm_validation_warnings = [] \<rparr>"

lemma hierarchical_literal_grant_exact_witness:
  "\<not> hierarchical_matches demo_matcher ''orders.read'' ''orders.write''"
  using hierarchical_literal_grant_exact [of demo_matcher "''orders.read''" "''orders.write''"]
  by (simp add: demo_matcher_def HierarchicalScopeOptions_default_def is_configured_super_scope_def
      sublist_def Cons_eq_append_conv)

text \<open>Exact-only requirements. When a required scope is exact-only (listed, or selected by
  an exact-only pattern), a set of grants satisfies it only if it contains that very scope,
  or if the host allowed super-scopes there and a configured super-scope is granted: no
  wildcard grant ever does. And without the universal-wildcard option a bare wildcard grant
  satisfies only a requirement spelled as the wildcard itself (or acts as a configured
  super-scope).\<close>

theorem hierarchical_exact_only_safe:
  "(is_exact_only_requirement (hm_options hm) required \<longrightarrow>
      hierarchical_has_scope hm granted required \<longrightarrow>
      required \<in> set granted \<or>
      allow_super_scopes_for_exact_only (hm_options hm) \<and>
        (\<exists>s \<in> set granted. s \<in> set (super_scopes (hm_options hm)))) \<and>
   (\<not> allow_universal_wildcard (hm_options hm) \<longrightarrow>
      wildcard (hm_options hm) \<notin> set (super_scopes (hm_options hm)) \<longrightarrow>
      hierarchical_has_scope hm [wildcard (hm_options hm)] required \<longrightarrow>
      required = wildcard (hm_options hm))"
  by (auto simp: hierarchical_has_scope_def matches_with_exact_only_def matches_hierarchy_def
      is_configured_super_scope_def list_ex_iff Let_def split: if_splits)

lemma hierarchical_exact_only_safe_witness:
  "\<not> hierarchical_has_scope demo_matcher [''admin.*''] ''admin.reset'' \<and>
   hierarchical_has_scope demo_matcher [''admin.*''] ''admin.list''"
proof
  show "\<not> hierarchical_has_scope demo_matcher [''admin.*''] ''admin.reset''"
    using hierarchical_exact_only_safe [of demo_matcher "''admin.reset''" "[''admin.*'']"]
    by (simp add: demo_matcher_def HierarchicalScopeOptions_default_def
        is_exact_only_requirement_def)
  show "hierarchical_has_scope demo_matcher [''admin.*''] ''admin.list''"
    by code_simp
qed

end
