(* ===== verification/Models.thy ===== *)
theory Models
  imports Claims Scope_Match
begin

text \<open>
  The data model of \<open>src/models.rs\<close> (users, API tokens, principals, abuse-protection state,
  refresh tokens, payloads, purpose and reset tokens, login challenges and one-time-password
  options) with the accessor methods the rest of the crate calls, the grant source of
  \<open>src/refresh_authority.rs\<close>, the refreshable metadata of \<open>src/assurance.rs\<close> and the
  client metadata of \<open>src/config.rs\<close>.
\<close>

section \<open>Users and principals\<close>

record AuthUser =
  au_user_id :: string
  au_session_id :: uuid
  au_roles :: "string list"
  au_scopes :: "string list"
  au_session :: SessionContext
  au_token_claims :: AccessTokenMetadata

definition is_session_bound_delegation :: "AuthUser \<Rightarrow> bool" where
  "is_session_bound_delegation u \<longleftrightarrow>
     md_grant_kind (au_token_claims u) = Some SessionBoundDelegation"

definition require_session_management_eligible :: "AuthUser \<Rightarrow> unit AuthResult" where
  "require_session_management_eligible u =
     (case md_grant_kind (au_token_claims u) of
        None \<Rightarrow> Inr ()
      | Some UserSession \<Rightarrow> Inr ()
      | Some Sessionless \<Rightarrow> Inl Forbidden
      | Some SessionBoundDelegation \<Rightarrow> Inl Forbidden)"

definition AuthUser_has_scope :: "AuthUser \<Rightarrow> string \<Rightarrow> bool" where
  "AuthUser_has_scope u required = has_scope (au_scopes u) required"

definition AuthUser_has_any_scope :: "AuthUser \<Rightarrow> string list \<Rightarrow> bool" where
  "AuthUser_has_any_scope u required = has_any_scope (au_scopes u) required"

definition AuthUser_has_all_scopes :: "AuthUser \<Rightarrow> string list \<Rightarrow> bool" where
  "AuthUser_has_all_scopes u required = has_all_scopes (au_scopes u) required"

definition AuthUser_has_scope_with :: "AuthUser \<Rightarrow> ScopeMatch \<Rightarrow> string \<Rightarrow> bool" where
  "AuthUser_has_scope_with u matcher required = sm_has_scope matcher (au_scopes u) required"

definition AuthUser_has_any_scope_with :: "AuthUser \<Rightarrow> ScopeMatch \<Rightarrow> string list \<Rightarrow> bool" where
  "AuthUser_has_any_scope_with u matcher required =
     list_ex (AuthUser_has_scope_with u matcher) required"

definition AuthUser_has_all_scopes_with :: "AuthUser \<Rightarrow> ScopeMatch \<Rightarrow> string list \<Rightarrow> bool" where
  "AuthUser_has_all_scopes_with u matcher required =
     list_all (AuthUser_has_scope_with u matcher) required"

type_synonym ApiTokenPrincipalKind = string

record ApiTokenPrincipal =
  ap_token_id :: uuid
  ap_subject :: string
  ap_principal_kind :: ApiTokenPrincipalKind
  ap_scopes :: "string list"
  ap_audience :: "string option"
  ap_resource_type :: "string option"
  ap_resource_id :: "string option"
  ap_expires_at :: time

definition ApiTokenPrincipal_has_scope_with :: "ApiTokenPrincipal \<Rightarrow> ScopeMatch \<Rightarrow> string \<Rightarrow> bool" where
  "ApiTokenPrincipal_has_scope_with p matcher required = sm_has_scope matcher (ap_scopes p) required"

datatype AuthPrincipal = User AuthUser | ApiToken ApiTokenPrincipal

definition principal_subject :: "AuthPrincipal \<Rightarrow> string" where
  "principal_subject p = (case p of User u \<Rightarrow> au_user_id u | ApiToken t \<Rightarrow> ap_subject t)"

definition principal_roles :: "AuthPrincipal \<Rightarrow> string list" where
  "principal_roles p = (case p of User u \<Rightarrow> au_roles u | ApiToken t \<Rightarrow> [])"

definition principal_scopes :: "AuthPrincipal \<Rightarrow> string list" where
  "principal_scopes p = (case p of User u \<Rightarrow> au_scopes u | ApiToken t \<Rightarrow> ap_scopes t)"

definition principal_has_scope_with :: "AuthPrincipal \<Rightarrow> ScopeMatch \<Rightarrow> string \<Rightarrow> bool" where
  "principal_has_scope_with p matcher required =
     (case p of
        User u \<Rightarrow> AuthUser_has_scope_with u matcher required
      | ApiToken t \<Rightarrow> ApiTokenPrincipal_has_scope_with t matcher required)"

definition principal_has_any_scope_with :: "AuthPrincipal \<Rightarrow> ScopeMatch \<Rightarrow> string list \<Rightarrow> bool" where
  "principal_has_any_scope_with p matcher required =
     list_ex (principal_has_scope_with p matcher) required"

definition principal_has_all_scopes_with :: "AuthPrincipal \<Rightarrow> ScopeMatch \<Rightarrow> string list \<Rightarrow> bool" where
  "principal_has_all_scopes_with p matcher required =
     list_all (principal_has_scope_with p matcher) required"

definition principal_audience :: "AuthPrincipal \<Rightarrow> string option" where
  "principal_audience p = (case p of User u \<Rightarrow> None | ApiToken t \<Rightarrow> ap_audience t)"

definition principal_resource_type :: "AuthPrincipal \<Rightarrow> string option" where
  "principal_resource_type p = (case p of User u \<Rightarrow> None | ApiToken t \<Rightarrow> ap_resource_type t)"

definition principal_resource_id :: "AuthPrincipal \<Rightarrow> string option" where
  "principal_resource_id p = (case p of User u \<Rightarrow> None | ApiToken t \<Rightarrow> ap_resource_id t)"

definition principal_tenant_id :: "AuthPrincipal \<Rightarrow> string option" where
  "principal_tenant_id p =
     (case p of User u \<Rightarrow> md_tenant_id (au_token_claims u) | ApiToken t \<Rightarrow> None)"

definition principal_token_ref :: "ext \<Rightarrow> AuthPrincipal \<Rightarrow> string option" where
  "principal_token_ref E p =
     (case p of
        User u \<Rightarrow> (case md_jti (au_token_claims u) of
                    Some j \<Rightarrow> Some j
                  | None \<Rightarrow> Some (uuid_to_string E (au_session_id u)))
      | ApiToken t \<Rightarrow> Some (uuid_to_string E (ap_token_id t)))"

definition principal_as_user :: "AuthPrincipal \<Rightarrow> AuthUser option" where
  "principal_as_user p = (case p of User u \<Rightarrow> Some u | ApiToken t \<Rightarrow> None)"

section \<open>Abuse-protection state\<close>

datatype AuthRateLimitFlow =
    PasswordLogin | LoginCodeVerification | TotpVerification
  | PasswordResetTokenConsumption | PasswordResetRequest | LoginCodeRequest

definition AuthRateLimitFlow_as_str :: "AuthRateLimitFlow \<Rightarrow> string" where
  "AuthRateLimitFlow_as_str f =
     (case f of
        PasswordLogin \<Rightarrow> ''password_login''
      | LoginCodeVerification \<Rightarrow> ''login_code_verification''
      | TotpVerification \<Rightarrow> ''totp_verification''
      | PasswordResetTokenConsumption \<Rightarrow> ''password_reset_token_consumption''
      | PasswordResetRequest \<Rightarrow> ''password_reset_request''
      | LoginCodeRequest \<Rightarrow> ''login_code_request'')"

datatype AuthRateLimitBucket = Principal | Client

definition AuthRateLimitBucket_as_str :: "AuthRateLimitBucket \<Rightarrow> string" where
  "AuthRateLimitBucket_as_str b = (case b of Principal \<Rightarrow> ''principal'' | Client \<Rightarrow> ''client'')"

record AuthRateLimitKey =
  rk_flow :: AuthRateLimitFlow
  rk_bucket :: AuthRateLimitBucket
  rk_value_hash :: string

record AuthRateLimitState =
  rs_key :: AuthRateLimitKey
  rs_attempts :: u32
  rs_first_attempt_at :: time
  rs_last_attempt_at :: time
  rs_backoff_until :: "time option"
  rs_locked_until :: "time option"
  rs_expires_at :: time

record AuthRateLimitSnapshot =
  sn_state :: AuthRateLimitState
  sn_revision :: uuid

section \<open>Client metadata and API tokens\<close>

record ClientMetadata =
  cm_ip_address :: "string option"
  cm_user_agent :: "string option"

definition ClientMetadata_default :: ClientMetadata where
  "ClientMetadata_default = \<lparr> cm_ip_address = None, cm_user_agent = None \<rparr>"

datatype ApiTokenRevocationReason = Manual | ApiExpired | PrincipalRevoked | ResourceRevoked

record StoredApiToken =
  at_id :: uuid
  at_token_hash :: string
  at_display_name :: string
  at_subject :: string
  at_principal_kind :: ApiTokenPrincipalKind
  at_scopes :: "string list"
  at_audience :: "string option"
  at_resource_type :: "string option"
  at_resource_id :: "string option"
  at_created_at :: time
  at_expires_at :: time
  at_last_used_at :: "time option"
  at_revoked_at :: "time option"
  at_user_agent :: "string option"
  at_ip_address :: "string option"

definition api_token_is_expired :: "StoredApiToken \<Rightarrow> time \<Rightarrow> bool" where
  "api_token_is_expired t now \<longleftrightarrow> at_expires_at t \<le> now"

definition api_token_is_revoked :: "StoredApiToken \<Rightarrow> bool" where
  "api_token_is_revoked t \<longleftrightarrow> at_revoked_at t \<noteq> None"

definition api_token_to_principal :: "StoredApiToken \<Rightarrow> ApiTokenPrincipal" where
  "api_token_to_principal t =
     \<lparr> ap_token_id = at_id t, ap_subject = at_subject t, ap_principal_kind = at_principal_kind t,
       ap_scopes = at_scopes t, ap_audience = at_audience t,
       ap_resource_type = at_resource_type t, ap_resource_id = at_resource_id t,
       ap_expires_at = at_expires_at t \<rparr>"

record IssuedApiToken =
  ia_token_id :: uuid
  ia_token :: string
  ia_display_name :: string
  ia_subject :: string
  ia_principal_kind :: ApiTokenPrincipalKind
  ia_scopes :: "string list"
  ia_audience :: "string option"
  ia_resource_type :: "string option"
  ia_resource_id :: "string option"
  ia_created_at :: time
  ia_expires_at :: time

record ApiTokenIssueRequest =
  ar_display_name :: string
  ar_subject :: string
  ar_principal_kind :: ApiTokenPrincipalKind
  ar_scopes :: "string list"
  ar_ttl :: duration
  ar_audience :: "string option"
  ar_resource_type :: "string option"
  ar_resource_id :: "string option"
  ar_metadata :: ClientMetadata

section \<open>Users and refresh tokens\<close>

record StoredUser =
  su_id :: string
  su_principal :: string
  su_password_hash :: string
  su_roles :: "string list"
  su_scopes :: "string list"
  su_disabled :: bool

datatype RefreshTokenRevocationReason = Logout | Rotation | ReplayDetected | AdminRevoked | Expired

datatype RefreshGrantSource = GrantLegacy | GrantStoredUser | GrantHost

record CurrentRefreshGrant =
  cg_roles :: "string list"
  cg_scopes :: "string list"

record RefreshableTokenMetadata =
  rm_tenant_id :: "string option"
  rm_organization_id :: "string option"
  rm_actor :: "ActorIdentity option"
  rm_correlation_id :: "string option"

record StoredRefreshToken =
  rt_id :: uuid
  rt_user_id :: string
  rt_session_id :: uuid
  rt_session_family_id :: uuid
  rt_grant_source :: RefreshGrantSource
  rt_authorization_roles :: "string list"
  rt_roles :: "string list"
  rt_scopes :: "string list"
  rt_session :: SessionContext
  rt_refreshable_metadata :: "RefreshableTokenMetadata option"
  rt_token_hash :: string
  rt_created_at :: time
  rt_expires_at :: time
  rt_last_used_at :: "time option"
  rt_revoked_at :: "time option"
  rt_replaced_by_token_id :: "uuid option"
  rt_user_agent :: "string option"
  rt_ip_address :: "string option"

definition refresh_is_expired :: "StoredRefreshToken \<Rightarrow> time \<Rightarrow> bool" where
  "refresh_is_expired t now \<longleftrightarrow> rt_expires_at t \<le> now"

definition refresh_is_revoked :: "StoredRefreshToken \<Rightarrow> bool" where
  "refresh_is_revoked t \<longleftrightarrow> rt_revoked_at t \<noteq> None"

record AuthPayload =
  pl_user :: AuthUser
  pl_access_token :: string
  pl_access_token_expires_at :: time
  pl_refresh_token :: string
  pl_refresh_token_expires_at :: time

section \<open>Purpose, reset, challenge and one-time-password models\<close>

record PurposeTokenIssueRequest =
  pr_subject :: string
  pr_purpose :: string
  pr_audience :: string
  pr_ttl :: duration
  pr_session_id :: "uuid option"
  pr_scopes :: "string list"
  pr_claims :: "(string \<times> JsonValue) list"

record PurposeTokenValidation =
  pv_purpose :: string
  pv_audience :: string

record IssuedPurposeToken =
  ip_token :: string
  ip_subject :: string
  ip_purpose :: string
  ip_audience :: string
  ip_session_id :: "uuid option"
  ip_scopes :: "string list"
  ip_claims :: "(string \<times> JsonValue) list"
  ip_expires_at :: time

record VerifiedPurposeToken =
  vp_subject :: string
  vp_purpose :: string
  vp_audience :: string
  vp_session_id :: "uuid option"
  vp_scopes :: "string list"
  vp_claims :: "(string \<times> JsonValue) list"
  vp_issued_at :: time
  vp_expires_at :: time

record PasswordResetToken =
  prt_user_id :: string
  prt_token_id :: uuid
  prt_token :: string
  prt_expires_at :: time

record VerifiedPasswordResetToken =
  vr_user_id :: string
  vr_token_id :: uuid
  vr_issued_at :: time
  vr_expires_at :: time

record StoredLoginChallenge =
  lc_id :: uuid
  lc_principal :: string
  lc_code_hash :: string
  lc_created_at :: time
  lc_expires_at :: time
  lc_attempts :: u32
  lc_max_attempts :: u32
  lc_consumed_at :: "time option"
  lc_channel :: "string option"

definition challenge_is_expired :: "StoredLoginChallenge \<Rightarrow> time \<Rightarrow> bool" where
  "challenge_is_expired c now \<longleftrightarrow> lc_expires_at c \<le> now"

definition challenge_is_consumed :: "StoredLoginChallenge \<Rightarrow> bool" where
  "challenge_is_consumed c \<longleftrightarrow> lc_consumed_at c \<noteq> None"

definition attempts_exhausted :: "StoredLoginChallenge \<Rightarrow> bool" where
  "attempts_exhausted c \<longleftrightarrow> lc_max_attempts c \<le> lc_attempts c"

record LoginChallengeOptions =
  lo_code_length :: nat
  lo_ttl :: duration
  lo_max_attempts :: u32
  lo_channel :: "string option"

definition LoginChallengeOptions_default :: LoginChallengeOptions where
  "LoginChallengeOptions_default =
     \<lparr> lo_code_length = 6, lo_ttl = seconds 600, lo_max_attempts = 5, lo_channel = None \<rparr>"

record IssuedLoginChallenge =
  ic_challenge_id :: uuid
  ic_principal :: string
  ic_code :: string
  ic_expires_at :: time
  ic_max_attempts :: u32
  ic_channel :: "string option"

record VerifiedLoginChallenge =
  vc_challenge_id :: uuid
  vc_principal :: string
  vc_verified_at :: time
  vc_channel :: "string option"

record TotpOptions =
  to_digits :: u32
  to_period_seconds :: u64
  to_allowed_skew :: u64

definition TotpOptions_default :: TotpOptions where
  "TotpOptions_default = \<lparr> to_digits = 6, to_period_seconds = 30, to_allowed_skew = 1 \<rparr>"

definition validate_login_challenge_options :: "LoginChallengeOptions \<Rightarrow> unit AuthResult" where
  "validate_login_challenge_options opts =
     bind_res (reject_when (lo_code_length opts = 0)
       (InvalidConfiguration ''login challenge code length must be greater than zero'')) (\<lambda>_.
     bind_res (reject_when (lo_max_attempts opts = 0)
       (InvalidConfiguration ''login challenge max_attempts must be greater than zero'')) (\<lambda>_.
     bind_res (reject_when (lo_ttl opts \<le> 0)
       (InvalidConfiguration ''login challenge ttl must be greater than zero'')) (\<lambda>_. Inr ())))"

definition validate_totp_options :: "TotpOptions \<Rightarrow> unit AuthResult" where
  "validate_totp_options opts =
     bind_res (reject_when (\<not> (6 \<le> to_digits opts \<and> to_digits opts \<le> 8))
       (InvalidConfiguration ''totp digits must be between 6 and 8'')) (\<lambda>_.
     bind_res (reject_when (to_period_seconds opts = 0)
       (InvalidConfiguration ''totp period must be greater than zero'')) (\<lambda>_. Inr ()))"

end
