(* ===== verification/Auth_Config.thy ===== *)
theory Auth_Config
  imports Models
begin

text \<open>
  Configuration of the authentication service (\<open>src/config.rs\<close>): the service settings, the
  scope-claim formats, the abuse-protection policies and the signing modes, with their
  defaults and their validation. The provider configuration of the OIDC clients is not
  part of this theory.
\<close>

datatype AccessTokenScopeClaimFormat = Standard | LegacyArray
datatype LegacyScopeClaims = Accept | Reject

record AuthRateLimitPolicy =
  rp_enabled :: bool
  rp_window :: duration
  rp_backoff_after_attempts :: u32
  rp_max_attempts_before_lockout :: u32
  rp_base_backoff :: duration
  rp_max_backoff :: duration
  rp_lockout_duration :: duration
  rp_state_ttl :: duration

record AuthRateLimitConfig =
  rc_credential :: AuthRateLimitPolicy
  rc_request :: AuthRateLimitPolicy

definition minutes :: "int \<Rightarrow> duration" where "minutes n = seconds (60 * n)"
definition hours :: "int \<Rightarrow> duration" where "hours n = seconds (3600 * n)"
definition days :: "int \<Rightarrow> duration" where "days n = seconds (86400 * n)"

definition AuthRateLimitConfig_default :: AuthRateLimitConfig where
  "AuthRateLimitConfig_default =
     \<lparr> rc_credential =
         \<lparr> rp_enabled = True, rp_window = minutes 15, rp_backoff_after_attempts = 3,
           rp_max_attempts_before_lockout = 10, rp_base_backoff = seconds 1,
           rp_max_backoff = minutes 5, rp_lockout_duration = minutes 15,
           rp_state_ttl = hours 1 \<rparr>,
       rc_request =
         \<lparr> rp_enabled = True, rp_window = hours 1, rp_backoff_after_attempts = 1,
           rp_max_attempts_before_lockout = 5, rp_base_backoff = minutes 1,
           rp_max_backoff = hours 1, rp_lockout_duration = hours 1,
           rp_state_ttl = hours 6 \<rparr> \<rparr>"

definition AuthRateLimitPolicy_disabled :: AuthRateLimitPolicy where
  "AuthRateLimitPolicy_disabled =
     \<lparr> rp_enabled = False, rp_window = minutes 1, rp_backoff_after_attempts = 1,
       rp_max_attempts_before_lockout = 1, rp_base_backoff = 0, rp_max_backoff = 0,
       rp_lockout_duration = 0, rp_state_ttl = minutes 1 \<rparr>"

definition AuthRateLimitPolicy_validate :: "AuthRateLimitPolicy \<Rightarrow> string \<Rightarrow> unit AuthResult" where
  "AuthRateLimitPolicy_validate p name =
     (if \<not> rp_enabled p then Inr () else
      bind_res (reject_when (rp_window p \<le> 0)
        (InvalidConfiguration (name @ '' window must be greater than zero''))) (\<lambda>_.
      bind_res (reject_when (rp_backoff_after_attempts p = 0)
        (InvalidConfiguration (name @ '' backoff_after_attempts must be greater than zero''))) (\<lambda>_.
      bind_res (reject_when (rp_max_attempts_before_lockout p = 0)
        (InvalidConfiguration (name @ '' max_attempts_before_lockout must be greater than zero''))) (\<lambda>_.
      bind_res (reject_when (rp_backoff_after_attempts p > rp_max_attempts_before_lockout p)
        (InvalidConfiguration (name @ '' backoff_after_attempts must not exceed max_attempts_before_lockout''))) (\<lambda>_.
      bind_res (reject_when (rp_base_backoff p < 0 \<or> rp_max_backoff p < 0 \<or> rp_lockout_duration p < 0)
        (InvalidConfiguration (name @ '' durations must not be negative''))) (\<lambda>_.
      bind_res (reject_when (rp_max_backoff p < rp_base_backoff p)
        (InvalidConfiguration (name @ '' max_backoff must not be less than base_backoff''))) (\<lambda>_.
      bind_res (reject_when (rp_state_ttl p \<le> 0)
        (InvalidConfiguration (name @ '' state_ttl must be greater than zero''))) (\<lambda>_.
        Inr ()))))))))"

definition AuthRateLimitConfig_validate :: "AuthRateLimitConfig \<Rightarrow> unit AuthResult" where
  "AuthRateLimitConfig_validate c =
     bind_res (AuthRateLimitPolicy_validate (rc_credential c) ''credential rate limit'') (\<lambda>_.
       AuthRateLimitPolicy_validate (rc_request c) ''request rate limit'')"

datatype JwtSigningConfig =
    Hs256 string
  | Rs256 string string string

record AuthConfig =
  cf_issuer :: string
  cf_audience :: string
  cf_jwt_secret :: string
  cf_jwt_signing :: JwtSigningConfig
  cf_access_token_ttl :: duration
  cf_max_access_token_ttl :: duration
  cf_max_session_bound_delegation_ttl :: duration
  cf_refresh_token_ttl :: duration
  cf_access_token_scope_claim_format :: AccessTokenScopeClaimFormat
  cf_legacy_scope_claims :: LegacyScopeClaims
  cf_rate_limits :: AuthRateLimitConfig

definition AuthConfig_with_hs256_secret :: "string \<Rightarrow> AuthConfig" where
  "AuthConfig_with_hs256_secret secret =
     \<lparr> cf_issuer = ''agql-auth'', cf_audience = ''agql-auth-clients'', cf_jwt_secret = secret,
       cf_jwt_signing = Hs256 secret, cf_access_token_ttl = minutes 15,
       cf_max_access_token_ttl = hours 24, cf_max_session_bound_delegation_ttl = minutes 15,
       cf_refresh_token_ttl = days 30, cf_access_token_scope_claim_format = Standard,
       cf_legacy_scope_claims = Accept, cf_rate_limits = AuthRateLimitConfig_default \<rparr>"

definition AuthConfig_with_rs256_pem :: "string \<Rightarrow> string \<Rightarrow> string \<Rightarrow> AuthConfig" where
  "AuthConfig_with_rs256_pem private_key_pem public_key_pem key_id =
     \<lparr> cf_issuer = ''agql-auth'', cf_audience = ''agql-auth-clients'', cf_jwt_secret = [],
       cf_jwt_signing = Rs256 private_key_pem public_key_pem key_id,
       cf_access_token_ttl = minutes 15, cf_max_access_token_ttl = hours 24,
       cf_max_session_bound_delegation_ttl = minutes 15, cf_refresh_token_ttl = days 30,
       cf_access_token_scope_claim_format = Standard, cf_legacy_scope_claims = Accept,
       cf_rate_limits = AuthRateLimitConfig_default \<rparr>"

definition set_jwt_signing :: "JwtSigningConfig \<Rightarrow> AuthConfig \<Rightarrow> AuthConfig" where
  "set_jwt_signing signing c =
     c \<lparr> cf_jwt_secret := (case signing of Hs256 secret \<Rightarrow> secret | Rs256 _ _ _ \<Rightarrow> []),
         cf_jwt_signing := signing \<rparr>"

text \<open>\<open>AuthConfig::validate\<close> reads the wall clock once; \<open>now\<close> is that reading.\<close>

definition AuthConfig_validate :: "ext \<Rightarrow> time \<Rightarrow> AuthConfig \<Rightarrow> unit AuthResult" where
  "AuthConfig_validate E now c =
     bind_res (AuthRateLimitConfig_validate (cf_rate_limits c)) (\<lambda>_.
     bind_res (reject_when (blank (cf_issuer c) \<or> blank (cf_audience c))
       (InvalidConfiguration ''issuer and audience must not be empty'')) (\<lambda>_.
     bind_res (checked_expiry E now (cf_access_token_ttl c) ''access-token ttl'') (\<lambda>_.
     bind_res (checked_expiry E now (cf_max_access_token_ttl c) ''access-token maximum ttl'') (\<lambda>_.
     bind_res (checked_expiry E now (cf_refresh_token_ttl c) ''refresh-token ttl'') (\<lambda>_.
     bind_res (reject_when (cf_max_session_bound_delegation_ttl c \<le> 0 \<or>
                 cf_max_session_bound_delegation_ttl c > cf_max_access_token_ttl c)
       (InvalidConfiguration ''session-bound delegation ttl ceiling must be positive and not exceed the access-token maximum'')) (\<lambda>_.
     bind_res (reject_when (cf_access_token_scope_claim_format c = LegacyArray \<and>
                 cf_legacy_scope_claims c = Reject)
       (InvalidConfiguration ''legacy scope issuance requires legacy scope validation during migration'')) (\<lambda>_.
       Inr ())))))))"

section \<open>What a validated policy guarantees\<close>

definition policy_wf :: "AuthRateLimitPolicy \<Rightarrow> bool" where
  "policy_wf p \<longleftrightarrow>
     0 < rp_window p \<and> 0 < rp_backoff_after_attempts p \<and>
     rp_backoff_after_attempts p \<le> rp_max_attempts_before_lockout p \<and>
     0 \<le> rp_base_backoff p \<and> rp_base_backoff p \<le> rp_max_backoff p \<and>
     0 \<le> rp_lockout_duration p \<and> 0 < rp_state_ttl p"

lemma AuthRateLimitPolicy_validate_iff:
  "AuthRateLimitPolicy_validate p name = Inr () \<longleftrightarrow> (rp_enabled p \<longrightarrow> policy_wf p)"
proof (cases "rp_enabled p")
  case True
  have "policy_wf p \<longleftrightarrow>
    \<not> rp_window p \<le> 0 \<and> rp_backoff_after_attempts p \<noteq> 0 \<and> rp_max_attempts_before_lockout p \<noteq> 0 \<and>
    \<not> rp_backoff_after_attempts p > rp_max_attempts_before_lockout p \<and>
    \<not> (rp_base_backoff p < 0 \<or> rp_max_backoff p < 0 \<or> rp_lockout_duration p < 0) \<and>
    \<not> rp_max_backoff p < rp_base_backoff p \<and> \<not> rp_state_ttl p \<le> 0"
    by (auto simp: policy_wf_def word_greater_zero_iff)
  with True show ?thesis
    by (simp add: AuthRateLimitPolicy_validate_def bind_res_unit_Inr)
qed (simp add: AuthRateLimitPolicy_validate_def)

lemma AuthRateLimitConfig_validate_iff:
  "AuthRateLimitConfig_validate c = Inr () \<longleftrightarrow>
     (rp_enabled (rc_credential c) \<longrightarrow> policy_wf (rc_credential c)) \<and>
     (rp_enabled (rc_request c) \<longrightarrow> policy_wf (rc_request c))"
  by (simp add: AuthRateLimitConfig_validate_def bind_res_unit_Inr AuthRateLimitPolicy_validate_iff)

lemma AuthRateLimitConfig_default_valid:
  "AuthRateLimitConfig_validate AuthRateLimitConfig_default = Inr ()"
  by (simp add: AuthRateLimitConfig_validate_iff AuthRateLimitConfig_default_def policy_wf_def
      minutes_def hours_def seconds_def)

end
