(* ===== verification/Async.thy ===== *)
theory Async
  imports Errors
begin

text \<open>
  The execution model of the crate's asynchronous operations. An operation runs on a world:
  the state of the host's stores, a step counter that indexes everything read from outside
  (clocks, other tasks, answers of host callbacks), and a counter of the identifiers drawn
  from the random source. Every awaited store call first lets the other tasks of the
  process act on the stores (\<open>h_interfere\<close>), then performs its own atomic operation, so a
  theorem that quantifies over hosts covers every interleaving at the granularity of store
  calls. An early return keeps the effects performed so far.
\<close>

datatype ClockId =
    SystemClock | RateLimitClock | RateLimitStoreClock | LoginChallengeClock | RefreshRotationClock

record 'st world =
  w_store :: 'st
  w_tick :: nat
  w_fresh :: nat

record 'st host =
  h_interfere :: "nat \<Rightarrow> 'st \<Rightarrow> 'st"
  h_clock :: "ClockId \<Rightarrow> nat \<Rightarrow> time"
  h_uuid :: "nat \<Rightarrow> uuid"
  h_random :: "nat \<Rightarrow> bytes"

type_synonym ('st, 'a) action = "'st world \<Rightarrow> 'a AuthResult \<times> 'st world"

definition ret :: "'a \<Rightarrow> ('st, 'a) action" where
  "ret x w = (Inr x, w)"

definition throw :: "AuthError \<Rightarrow> ('st, 'a) action" where
  "throw e w = (Inl e, w)"

definition lift_res :: "'a AuthResult \<Rightarrow> ('st, 'a) action" where
  "lift_res r w = (r, w)"

definition bind :: "('st, 'a) action \<Rightarrow> ('a \<Rightarrow> ('st, 'b) action) \<Rightarrow> ('st, 'b) action" where
  "bind m f w = (case m w of (Inl e, w') \<Rightarrow> (Inl e, w') | (Inr x, w') \<Rightarrow> f x w')"

text \<open>\<open>m.await\<close> followed by a \<open>match\<close> on its result instead of \<open>?\<close>.\<close>

definition try_catch ::
  "('st, 'a) action \<Rightarrow> ('a AuthResult \<Rightarrow> ('st, 'b) action) \<Rightarrow> ('st, 'b) action" where
  "try_catch m f w = (case m w of (r, w') \<Rightarrow> f r w')"

definition require :: "bool \<Rightarrow> AuthError \<Rightarrow> ('st, unit) action" where
  "require c e = (if c then ret () else throw e)"

definition now_from :: "'st host \<Rightarrow> ClockId \<Rightarrow> ('st, time) action" where
  "now_from H c w = (Inr (h_clock H c (w_tick w)), w \<lparr> w_tick := Suc (w_tick w) \<rparr>)"

definition new_uuid :: "'st host \<Rightarrow> ('st, uuid) action" where
  "new_uuid H w = (Inr (h_uuid H (w_fresh w)), w \<lparr> w_fresh := Suc (w_fresh w) \<rparr>)"

definition random_bytes :: "'st host \<Rightarrow> ('st, bytes) action" where
  "random_bytes H w = (Inr (h_random H (w_fresh w)), w \<lparr> w_fresh := Suc (w_fresh w) \<rparr>)"

text \<open>An awaited call of a host store; \<open>op\<close> receives the step at which it runs.\<close>

definition store_call :: "'st host \<Rightarrow> (nat \<Rightarrow> 'st \<Rightarrow> 'a AuthResult \<times> 'st) \<Rightarrow> ('st, 'a) action" where
  "store_call H op w =
     (case op (w_tick w) (h_interfere H (w_tick w) (w_store w)) of
        (r, st) \<Rightarrow> (r, w \<lparr> w_store := st, w_tick := Suc (w_tick w) \<rparr>))"

text \<open>An awaited read-only host callback: its answer depends on the step and the state.\<close>

definition host_call :: "'st host \<Rightarrow> (nat \<Rightarrow> 'st \<Rightarrow> 'a AuthResult) \<Rightarrow> ('st, 'a) action" where
  "host_call H ask = store_call H (\<lambda>n st. (ask n st, st))"

fun for_each_m :: "('a \<Rightarrow> ('st, unit) action) \<Rightarrow> 'a list \<Rightarrow> ('st, unit) action" where
  "for_each_m f [] = ret ()"
| "for_each_m f (x # xs) = bind (f x) (\<lambda>_. for_each_m f xs)"

named_theorems action_simps \<open>symbolic execution of actions\<close>

lemma bind_simps [simp, action_simps]:
  "bind (ret x) f = f x"
  "bind (throw e) f = throw e"
  by (simp_all add: bind_def ret_def throw_def fun_eq_iff)

lemma bind_assoc [simp]: "bind (bind m f) g = bind m (\<lambda>x. bind (f x) g)"
  by (auto simp: bind_def fun_eq_iff split: prod.splits sum.splits)

lemma bind_ret [simp]: "bind m ret = m"
  by (auto simp: bind_def ret_def fun_eq_iff split: prod.splits sum.splits)

lemma ret_eq [action_simps]: "ret x w = (r, w') \<longleftrightarrow> r = Inr x \<and> w' = w"
  by (auto simp: ret_def)

lemma throw_eq [action_simps]: "throw e w = (r, w') \<longleftrightarrow> r = Inl e \<and> w' = w"
  by (auto simp: throw_def)

lemma lift_res_eq [action_simps]: "lift_res x w = (r, w') \<longleftrightarrow> x = r \<and> w' = w"
  by (auto simp: lift_res_def)

lemma bind_eq_Inr [action_simps]:
  "bind m f w = (Inr y, w') \<longleftrightarrow> (\<exists>x w1. m w = (Inr x, w1) \<and> f x w1 = (Inr y, w'))"
  by (auto simp: bind_def split: prod.splits sum.splits)

lemma bind_eq_Inl [action_simps]:
  "bind m f w = (Inl e, w') \<longleftrightarrow>
     m w = (Inl e, w') \<or> (\<exists>x w1. m w = (Inr x, w1) \<and> f x w1 = (Inl e, w'))"
  by (auto simp: bind_def split: prod.splits sum.splits)

lemma bind_run:
  "m w = (Inr x, w1) \<Longrightarrow> bind m f w = f x w1"
  "m w = (Inl e, w1) \<Longrightarrow> bind m f w = (Inl e, w1)"
  by (simp_all add: bind_def)

lemma require_eq [action_simps]:
  "require c e w = (r, w') \<longleftrightarrow> w' = w \<and> r = (if c then Inr () else Inl e)"
  by (auto simp: require_def ret_def throw_def)

lemma require_ok [simp]: "Inr () = (if c then Inr () else Inl e) \<longleftrightarrow> c"
  by simp

lemma now_from_eq [action_simps]:
  "now_from H c w = (r, w') \<longleftrightarrow>
     r = Inr (h_clock H c (w_tick w)) \<and> w' = w \<lparr> w_tick := Suc (w_tick w) \<rparr>"
  by (auto simp: now_from_def)

lemma new_uuid_eq [action_simps]:
  "new_uuid H w = (r, w') \<longleftrightarrow>
     r = Inr (h_uuid H (w_fresh w)) \<and> w' = w \<lparr> w_fresh := Suc (w_fresh w) \<rparr>"
  by (auto simp: new_uuid_def)

lemma random_bytes_eq [action_simps]:
  "random_bytes H w = (r, w') \<longleftrightarrow>
     r = Inr (h_random H (w_fresh w)) \<and> w' = w \<lparr> w_fresh := Suc (w_fresh w) \<rparr>"
  by (auto simp: random_bytes_def)

lemma store_call_eq [action_simps]:
  "store_call H op w = (r, w') \<longleftrightarrow>
     (\<exists>st. op (w_tick w) (h_interfere H (w_tick w) (w_store w)) = (r, st) \<and>
           w' = w \<lparr> w_store := st, w_tick := Suc (w_tick w) \<rparr>)"
  by (auto simp: store_call_def split: prod.splits)

lemma host_call_eq [action_simps]:
  "host_call H ask w = (r, w') \<longleftrightarrow>
     (let st = h_interfere H (w_tick w) (w_store w) in
      r = ask (w_tick w) st \<and> w' = w \<lparr> w_store := st, w_tick := Suc (w_tick w) \<rparr>)"
  by (auto simp: host_call_def store_call_def Let_def)

end
