(* ===== verification/Token_Decode.thy ===== *)
theory Token_Decode
  imports Jwt Auth_Config Async
begin

text \<open>
  Decoding and validation of access tokens (\<open>src/token_decode.rs\<close>): the claims record, the
  time, type and purpose checks, the scope claim in its two formats with their bounds, and
  the conversion into the request principal. The scope claims written by
  \<open>issued_scope_claims\<close> are shown to parse back to the issued scopes, and what an accepted
  token guarantees is stated for every configuration.
\<close>

section \<open>Bounds and policies\<close>

definition ACCESS_TOKEN_TYPE :: string where "ACCESS_TOKEN_TYPE = ''access''"
definition MAX_ACCESS_TOKEN_AUTHORIZATION_ROLES :: nat where
  "MAX_ACCESS_TOKEN_AUTHORIZATION_ROLES = 256"
definition MAX_ACCESS_TOKEN_AUTHORIZATION_ROLE_LENGTH :: nat where
  "MAX_ACCESS_TOKEN_AUTHORIZATION_ROLE_LENGTH = 512"
definition MAX_ACCESS_TOKEN_SCOPES :: nat where "MAX_ACCESS_TOKEN_SCOPES = 256"
definition MAX_ACCESS_TOKEN_SCOPE_LENGTH :: nat where "MAX_ACCESS_TOKEN_SCOPE_LENGTH = 512"
definition MAX_ACCESS_TOKEN_SCOPE_CLAIM_LENGTH :: nat where
  "MAX_ACCESS_TOKEN_SCOPE_CLAIM_LENGTH = 16 * 1024"

datatype PurposePolicy = AccessTokenOrLegacy | RequireAccessToken

section \<open>Claims\<close>

record AccessTokenClaims =
  tc_typ :: "string option"
  tc_sub :: string
  tc_sid :: string
  tc_roles :: "string list"
  tc_authorization_roles :: "string list"
  tc_scope :: "string option"
  tc_legacy_scopes :: "string list option"
  tc_ctx :: SessionContext
  tc_iss :: string
  tc_aud :: JsonValue
  tc_exp :: int
  tc_iat :: int
  tc_nbf :: "int option"
  tc_purpose :: "string option"
  tc_jti :: "string option"
  tc_tenant_id :: "string option"
  tc_organization_id :: "string option"
  tc_session_family_id :: "string option"
  tc_grant_kind :: "AccessTokenGrantKind option"
  tc_session_version :: "string option"
  tc_actor :: "ActorIdentity option"
  tc_auth_time :: "int option"
  tc_amr :: "string list option"
  tc_acr :: "string option"
  tc_cnf :: "ConfirmationClaims option"
  tc_resource_type :: "string option"
  tc_resource_id :: "string option"
  tc_correlation_id :: "string option"
  tc_operation :: "ExactOperationBinding option"
  tc_additional :: "(string \<times> JsonValue) list"

record AccessTokenDecodeConfig =
  dc_decoding_key :: DecodingKey
  dc_validation :: Validation
  dc_expected_kid :: "string option"
  dc_leeway_seconds :: u64
  dc_purpose_policy :: PurposePolicy
  dc_legacy_scope_claims :: LegacyScopeClaims
  dc_claim_requirements :: ClaimRequirements
  dc_clock :: ClockId
  dc_allowed_algorithms :: "Algorithm list"

definition AccessTokenDecodeConfig_for_service ::
  "DecodingKey \<Rightarrow> Validation \<Rightarrow> string option \<Rightarrow> LegacyScopeClaims \<Rightarrow> AccessTokenDecodeConfig" where
  "AccessTokenDecodeConfig_for_service decoding_key validation expected_kid legacy_scope_claims =
     \<lparr> dc_decoding_key = decoding_key, dc_validation = validation,
       dc_expected_kid = expected_kid, dc_leeway_seconds = 0,
       dc_purpose_policy = AccessTokenOrLegacy, dc_legacy_scope_claims = legacy_scope_claims,
       dc_claim_requirements = ClaimRequirements_none, dc_clock = SystemClock,
       dc_allowed_algorithms = va_algorithms validation \<rparr>"

record DecodedAccessTokenClaims =
  da_claims :: AccessTokenClaims
  da_scopes :: "string list"

section \<open>Scopes\<close>

definition valid_scope_token :: "string \<Rightarrow> bool" where
  "valid_scope_token scope \<longleftrightarrow>
     scope \<noteq> [] \<and> length scope \<le> MAX_ACCESS_TOKEN_SCOPE_LENGTH \<and>
     list_all (\<lambda>b. ord b = 0x21 \<or> (0x23 \<le> ord b \<and> ord b \<le> 0x5b) \<or> (0x5d \<le> ord b \<and> ord b \<le> 0x7e))
       scope"

text \<open>The additions are checked for overflow of \<open>usize\<close>; at most 256 scopes of at most 512
  bytes reach them, so they never overflow.\<close>

definition valid_scope_set :: "string list \<Rightarrow> bool" where
  "valid_scope_set scopes \<longleftrightarrow>
     length scopes \<le> MAX_ACCESS_TOKEN_SCOPES \<and> list_all valid_scope_token scopes \<and>
     sum_list (map length scopes) + (length scopes - 1) \<le> MAX_ACCESS_TOKEN_SCOPE_CLAIM_LENGTH"

definition token_dedupe_stable :: "string list \<Rightarrow> string list" where
  "token_dedupe_stable scopes =
     foldl (\<lambda>result scope. if scope \<in> set result then result else result @ [scope]) [] scopes"

definition canonical_scopes :: "string list \<Rightarrow> string list" where
  "canonical_scopes scopes = remdups_adj (sort scopes)"

definition parse_standard_scope :: "string \<Rightarrow> string list AuthResult" where
  "parse_standard_scope v =
     (if v = [] \<or> length v > MAX_ACCESS_TOKEN_SCOPE_CLAIM_LENGTH then Inl InvalidAccessToken
      else let scopes = split_str '' '' v in
        if \<not> valid_scope_set scopes then Inl InvalidAccessToken
        else Inr (token_dedupe_stable scopes))"

definition parse_legacy_scopes :: "string list \<Rightarrow> string list AuthResult" where
  "parse_legacy_scopes scopes =
     (if \<not> valid_scope_set scopes then Inl InvalidAccessToken
      else Inr (token_dedupe_stable scopes))"

definition parse_access_token_scopes ::
  "AccessTokenClaims \<Rightarrow> LegacyScopeClaims \<Rightarrow> string list AuthResult" where
  "parse_access_token_scopes claims legacy_policy =
     bind_res (case tc_scope claims of
                 None \<Rightarrow> Inr None
               | Some v \<Rightarrow> bind_res (parse_standard_scope v) (\<lambda>s. Inr (Some s))) (\<lambda>standard.
     bind_res (case tc_legacy_scopes claims of
                 None \<Rightarrow> Inr None
               | Some scopes \<Rightarrow>
                   if legacy_policy = Reject then Inl InvalidAccessToken
                   else bind_res (parse_legacy_scopes scopes) (\<lambda>s. Inr (Some s))) (\<lambda>legacy.
       case (standard, legacy) of
         (Some standard, Some legacy) \<Rightarrow>
           if canonical_scopes standard \<noteq> canonical_scopes legacy then Inl InvalidAccessToken
           else Inr standard
       | (Some standard, None) \<Rightarrow> Inr standard
       | (None, Some legacy) \<Rightarrow> Inr legacy
       | (None, None) \<Rightarrow> Inr []))"

definition issued_scope_claims ::
  "string list \<Rightarrow> AccessTokenScopeClaimFormat \<Rightarrow> (string option \<times> string list option) AuthResult" where
  "issued_scope_claims scopes format =
     (if \<not> valid_scope_set scopes
      then Inl (TokenCreation ''access-token scopes contain a value that cannot be represented safely'')
      else Inr (case format of
          Standard \<Rightarrow> (if scopes \<noteq> [] then Some (join_str '' '' scopes) else None, None)
        | LegacyArray \<Rightarrow> (None, Some scopes)))"

section \<open>Authorization roles\<close>

definition valid_authorization_role_set :: "string list \<Rightarrow> bool" where
  "valid_authorization_role_set roles \<longleftrightarrow>
     length roles \<le> MAX_ACCESS_TOKEN_AUTHORIZATION_ROLES \<and>
     list_all (\<lambda>role. role \<noteq> [] \<and> length role \<le> MAX_ACCESS_TOKEN_AUTHORIZATION_ROLE_LENGTH \<and>
       \<not> list_ex (\<lambda>b. is_ascii_whitespace b \<or> is_ascii_control b) role) roles"

text \<open>The deserialisation hook of the \<open>authorization_roles\<close> claim.\<close>

definition deserialize_authorization_roles :: "string list \<Rightarrow> JwtErrorKind + string list" where
  "deserialize_authorization_roles roles =
     (if \<not> valid_authorization_role_set roles then Inl OtherJwtErrorKind
      else Inr (token_dedupe_stable roles))"

text \<open>\<open>decode::<AccessTokenClaims>\<close>: the crate's decoding with the hook applied.\<close>

definition decode_claims ::
  "AccessTokenClaims jwt_codec \<Rightarrow> time \<Rightarrow> string \<Rightarrow> DecodingKey \<Rightarrow> Validation \<Rightarrow>
   JwtErrorKind + AccessTokenClaims" where
  "decode_claims C now token key validation =
     bind_res (jwt_decode C now token key validation) (\<lambda>claims.
     bind_res (deserialize_authorization_roles (tc_authorization_roles claims)) (\<lambda>roles.
       Inr (claims \<lparr> tc_authorization_roles := roles \<rparr>)))"

section \<open>Validation\<close>

text \<open>The clock is read once; the sums are exact in \<open>i128\<close>.\<close>

definition validate_time_claims ::
  "ext \<Rightarrow> time \<Rightarrow> AccessTokenClaims \<Rightarrow> AccessTokenDecodeConfig \<Rightarrow> unit AuthResult" where
  "validate_time_claims E clock_now claims config =
     bind_res (for_each (\<lambda>timestamp. case from_unix_timestamp E timestamp of
                  None \<Rightarrow> Inl InvalidAccessToken | Some _ \<Rightarrow> Inr ())
                ([tc_exp claims, tc_iat claims] @
                 (case tc_nbf claims of None \<Rightarrow> [] | Some nbf \<Rightarrow> [nbf]))) (\<lambda>_.
     let now = unix_timestamp E clock_now; leeway = int (unat (dc_leeway_seconds config)) in
     bind_res (reject_when (tc_exp claims + leeway \<le> now) AccessTokenExpired) (\<lambda>_.
     reject_when (is_some_and (\<lambda>nbf. nbf > now + leeway) (tc_nbf claims)) InvalidAccessToken))"

definition validate_type_and_purpose :: "AccessTokenClaims \<Rightarrow> PurposePolicy \<Rightarrow> unit AuthResult" where
  "validate_type_and_purpose claims purpose_policy =
     bind_res (reject_when (\<not> (tc_typ claims = None \<or> tc_typ claims = Some ACCESS_TOKEN_TYPE))
                 InvalidAccessToken) (\<lambda>_.
     case purpose_policy of
       AccessTokenOrLegacy \<Rightarrow>
         reject_when (\<not> (tc_purpose claims = None \<or> tc_purpose claims = Some ACCESS_TOKEN_PURPOSE))
           InvalidAccessToken
     | RequireAccessToken \<Rightarrow>
         reject_when (tc_purpose claims \<noteq> Some ACCESS_TOKEN_PURPOSE) InvalidAccessToken)"

definition claims_to_metadata :: "ext \<Rightarrow> AccessTokenClaims \<Rightarrow> AccessTokenMetadata" where
  "claims_to_metadata E claims =
     \<lparr> md_jti = tc_jti claims, md_tenant_id = tc_tenant_id claims,
       md_organization_id = tc_organization_id claims,
       md_session_family_id = tc_session_family_id claims,
       md_grant_kind = tc_grant_kind claims, md_session_version = tc_session_version claims,
       md_actor = tc_actor claims, md_auth_time = tc_auth_time claims, md_amr = tc_amr claims,
       md_acr = tc_acr claims, md_cnf = tc_cnf claims, md_resource_type = tc_resource_type claims,
       md_resource_id = tc_resource_id claims, md_correlation_id = tc_correlation_id claims,
       md_operation = tc_operation claims, md_authorization_roles = tc_authorization_roles claims,
       md_purpose = tc_purpose claims, md_expires_at = from_unix_timestamp E (tc_exp claims),
       md_additional = tc_additional claims \<rparr>"

text \<open>\<open>now\<close> is the reading of the system clock the crate would use, \<open>clock_now\<close> that of the
  configured clock.\<close>

definition decode_access_token_claims ::
  "ext \<Rightarrow> AccessTokenClaims jwt_codec \<Rightarrow> time \<Rightarrow> time \<Rightarrow> string \<Rightarrow> AccessTokenDecodeConfig \<Rightarrow>
   DecodedAccessTokenClaims AuthResult" where
  "decode_access_token_claims E C now clock_now token config =
     bind_res (map_err (\<lambda>_. InvalidAccessToken) (jwt_decode_header C token)) (\<lambda>header.
     bind_res (reject_when (hd_alg header \<notin> set (dc_allowed_algorithms config) \<and>
                            hd_alg header \<notin> set (va_algorithms (dc_validation config)))
                 InvalidAccessToken) (\<lambda>_.
     bind_res (case dc_expected_kid config of
                 None \<Rightarrow> Inr ()
               | Some expected_kid \<Rightarrow>
                   reject_when (hd_kid header \<noteq> Some expected_kid) InvalidAccessToken) (\<lambda>_.
     let validation = (dc_validation config) \<lparr> va_validate_exp := False, va_validate_nbf := False \<rparr> in
     bind_res (map_err map_access_token_decode_error
                 (decode_claims C now token (dc_decoding_key config) validation)) (\<lambda>claims.
     bind_res (validate_time_claims E clock_now claims config) (\<lambda>_.
     bind_res (validate_type_and_purpose claims (dc_purpose_policy config)) (\<lambda>_.
     bind_res (ok_or InvalidAccessToken (uuid_parse_str E (tc_sid claims))) (\<lambda>_.
     bind_res (parse_access_token_scopes claims (dc_legacy_scope_claims config)) (\<lambda>scopes.
     bind_res (map_err (\<lambda>_. InvalidAccessToken)
                 (ClaimRequirements_validate (dc_claim_requirements config)
                    (claims_to_metadata E claims))) (\<lambda>_.
       Inr \<lparr> da_claims = claims, da_scopes = scopes \<rparr>)))))))))"

definition access_token_claims_to_user :: "ext \<Rightarrow> DecodedAccessTokenClaims \<Rightarrow> AuthUser AuthResult" where
  "access_token_claims_to_user E decoded =
     (let claims = da_claims decoded in
      bind_res (ok_or InvalidAccessToken (uuid_parse_str E (tc_sid claims))) (\<lambda>sid.
        Inr \<lparr> au_user_id = tc_sub claims, au_session_id = sid, au_roles = tc_roles claims,
              au_scopes = da_scopes decoded, au_session = tc_ctx claims,
              au_token_claims = claims_to_metadata E claims \<rparr>))"

definition audience_claim :: "string \<Rightarrow> JsonValue" where
  "audience_claim audience = JString audience"

section \<open>Scope claims\<close>

lemma token_dedupe_from:
  "foldl (\<lambda>result scope. if scope \<in> set result then result else result @ [scope]) out xs =
     out @ dedupe_from (set out) xs"
  by (induction xs arbitrary: out) auto

lemma token_dedupe_stable_eq: "token_dedupe_stable xs = dedupe_from {} xs"
  using token_dedupe_from [of "[]" xs] by (simp add: token_dedupe_stable_def)

lemma set_token_dedupe_stable [simp]: "set (token_dedupe_stable xs) = set xs"
  and distinct_token_dedupe_stable [simp]: "distinct (token_dedupe_stable xs)"
  and token_dedupe_stable_id [simp]: "distinct xs \<Longrightarrow> token_dedupe_stable xs = xs"
  by (simp_all add: token_dedupe_stable_eq dedupe_from_id)

lemma distinct_remdups_adj_sorted: "sorted xs \<Longrightarrow> distinct (remdups_adj xs)"
  for xs :: "'a::linorder list"
  by (induction xs rule: remdups_adj.induct) (auto simp: less_le)

lemma canonical_scopes_eq_iff: "canonical_scopes xs = canonical_scopes ys \<longleftrightarrow> set xs = set ys"
proof
  assume "canonical_scopes xs = canonical_scopes ys"
  then have "set (canonical_scopes xs) = set (canonical_scopes ys)" by simp
  then show "set xs = set ys" by (simp add: canonical_scopes_def)
next
  assume eq: "set xs = set ys"
  have "sorted (canonical_scopes zs) \<and> distinct (canonical_scopes zs) \<and> set (canonical_scopes zs) = set zs"
    for zs :: "string list"
    by (simp add: canonical_scopes_def distinct_remdups_adj_sorted)
  with eq show "canonical_scopes xs = canonical_scopes ys"
    using sorted_distinct_set_unique by metis
qed

lemma valid_scope_token_no_space: "valid_scope_token scope \<Longrightarrow> CHR '' '' \<notin> set scope"
  by (auto simp: valid_scope_token_def list_all_iff ord_def)

lemma parse_standard_scope_join:
  assumes "valid_scope_set scopes" and "scopes \<noteq> []"
  shows "parse_standard_scope (join_str '' '' scopes) = Inr (token_dedupe_stable scopes)"
proof -
  have tokens: "\<forall>s \<in> set scopes. valid_scope_token s"
    using assms(1) by (simp add: valid_scope_set_def list_all_iff)
  then have split: "split_str '' '' (join_str '' '' scopes) = scopes"
    using assms(2) valid_scope_token_no_space by (intro split_join_str) auto
  have "length (join_str '' '' scopes) = sum_list (map length scopes) + (length scopes - 1)"
    using assms(2) by (simp add: length_join_str)
  then have len: "length (join_str '' '' scopes) \<le> MAX_ACCESS_TOKEN_SCOPE_CLAIM_LENGTH"
    using assms(1) by (simp add: valid_scope_set_def)
  have "join_str '' '' scopes \<noteq> []"
  proof
    assume "join_str '' '' scopes = []"
    with split have "scopes = [[]]" by (simp add: split_str.simps)
    with tokens show False by (simp add: valid_scope_token_def)
  qed
  with split len assms(1) show ?thesis by (simp add: parse_standard_scope_def)
qed

lemma parse_standard_scope_Inr:
  "parse_standard_scope v = Inr scopes \<Longrightarrow>
     distinct scopes \<and> list_all valid_scope_token scopes \<and> scopes \<noteq> []"
proof -
  assume "parse_standard_scope v = Inr scopes"
  then have "valid_scope_set (split_str '' '' v)" "scopes = token_dedupe_stable (split_str '' '' v)"
    by (auto simp: parse_standard_scope_def Let_def split: if_splits)
  moreover from this have "scopes \<noteq> []" by (metis set_empty set_token_dedupe_stable split_str_ne_Nil)
  ultimately show ?thesis by (simp add: valid_scope_set_def list_all_iff)
qed

lemma parse_access_token_scopes_Inr:
  assumes "parse_access_token_scopes claims policy = Inr scopes"
  shows "distinct scopes \<and> list_all valid_scope_token scopes"
proof -
  have "distinct l \<and> list_all valid_scope_token l" if "parse_legacy_scopes ys = Inr l" for ys l
    using that by (auto simp: parse_legacy_scopes_def valid_scope_set_def list_all_iff split: if_splits)
  with assms parse_standard_scope_Inr show ?thesis
    by (auto simp: parse_access_token_scopes_def res_simps
        split: option.splits if_splits prod.splits)
qed

lemma issued_scopes_parse:
  assumes issued: "issued_scope_claims scopes format = Inr (tc_scope claims, tc_legacy_scopes claims)"
    and policy: "format = LegacyArray \<longrightarrow> policy = Accept"
  shows "parse_access_token_scopes claims policy = Inr (token_dedupe_stable scopes)"
proof -
  from issued have valid: "valid_scope_set scopes"
    by (auto simp: issued_scope_claims_def split: if_splits)
  show ?thesis
  proof (cases format)
    case Standard
    with issued valid have "tc_scope claims = (if scopes \<noteq> [] then Some (join_str '' '' scopes) else None)"
      and "tc_legacy_scopes claims = None"
      by (simp_all add: issued_scope_claims_def)
    with valid show ?thesis
      by (cases "scopes = []") (simp_all add: parse_access_token_scopes_def parse_standard_scope_join)
  next
    case LegacyArray
    with issued valid have "tc_scope claims = None" "tc_legacy_scopes claims = Some scopes"
      by (simp_all add: issued_scope_claims_def)
    with valid policy LegacyArray show ?thesis
      by (simp add: parse_access_token_scopes_def parse_legacy_scopes_def)
  qed
qed

text \<open>The scope claims written at issuance, in the standard space-separated format or in the
  legacy array format where the decoder still accepts it, parse back to exactly the issued scopes
  in their order, without repetitions; in particular no scope can smuggle a second one in.\<close>

theorem scope_claims_roundtrip:
  assumes "issued_scope_claims scopes format = Inr (tc_scope claims, tc_legacy_scopes claims)"
    and "format = LegacyArray \<longrightarrow> policy = Accept"
  shows "parse_access_token_scopes claims policy = Inr (token_dedupe_stable scopes)"
  using assms by (rule issued_scopes_parse)

definition demo_claims :: AccessTokenClaims where
  "demo_claims =
     \<lparr> tc_typ = Some ''access'', tc_sub = ''alice'', tc_sid = ''uuuuu'', tc_roles = [''admin''],
       tc_authorization_roles = [], tc_scope = Some ''read write'', tc_legacy_scopes = None,
       tc_ctx = SessionContext_for_auth_method Password, tc_iss = ''agql-auth'',
       tc_aud = JString ''agql-auth-clients'', tc_exp = 900, tc_iat = 0, tc_nbf = None,
       tc_purpose = Some ''access_token'', tc_jti = Some ''uuuuuuu'', tc_tenant_id = None,
       tc_organization_id = None, tc_session_family_id = Some ''uuuuuu'',
       tc_grant_kind = Some UserSession, tc_session_version = None, tc_actor = None,
       tc_auth_time = None, tc_amr = None, tc_acr = None, tc_cnf = None,
       tc_resource_type = None, tc_resource_id = None, tc_correlation_id = None,
       tc_operation = None, tc_additional = [] \<rparr>"

lemma demo_claims_scopes:
  "issued_scope_claims [''read'', ''write''] Standard =
     Inr (tc_scope demo_claims, tc_legacy_scopes demo_claims)"
  by code_simp

lemma scope_claims_roundtrip_witness:
  "parse_access_token_scopes demo_claims Reject = Inr [''read'', ''write'']"
  using scope_claims_roundtrip [OF demo_claims_scopes, of Reject] by simp

text \<open>When both scope formats are present the token is accepted only if they carry the same
  set of scopes and legacy scopes are allowed at all; the result is then the standard list.\<close>

theorem conflicting_scope_claims_rejected:
  "\<exists>v l. tc_scope claims = Some v \<and> tc_legacy_scopes claims = Some l \<Longrightarrow>
   parse_access_token_scopes claims policy = Inr scopes \<longleftrightarrow>
     policy = Accept \<and>
     (\<exists>v l. tc_scope claims = Some v \<and> tc_legacy_scopes claims = Some l \<and>
        parse_standard_scope v = Inr scopes \<and> valid_scope_set l \<and> set l = set scopes)"
  by (cases policy)
    (auto simp: parse_access_token_scopes_def parse_legacy_scopes_def canonical_scopes_eq_iff
      res_simps split: if_splits)

lemma conflicting_scope_claims_rejected_witness:
  "parse_access_token_scopes (demo_claims \<lparr> tc_legacy_scopes := Some [''read''] \<rparr>) Accept
     \<noteq> Inr [''read'', ''write'']"
proof
  let ?c = "demo_claims \<lparr> tc_legacy_scopes := Some [''read''] \<rparr>"
  have both: "\<exists>v l. tc_scope ?c = Some v \<and> tc_legacy_scopes ?c = Some l"
    by (simp add: demo_claims_def)
  assume "parse_access_token_scopes ?c Accept = Inr [''read'', ''write'']"
  with conflicting_scope_claims_rejected [OF both, of Accept "[''read'', ''write'']"]
  show False by (auto simp: doubleton_eq_iff)
qed

section \<open>Accepted tokens\<close>

lemma deserialize_authorization_roles_Inr:
  "deserialize_authorization_roles roles = Inr out \<Longrightarrow>
     valid_authorization_role_set roles \<and> out = token_dedupe_stable roles"
  by (auto simp: deserialize_authorization_roles_def split: if_splits)

lemma length_dedupe_from: "length (dedupe_from seen xs) \<le> length xs"
  by (induction seen xs rule: dedupe_from.induct) auto

lemma valid_authorization_role_set_dedupe:
  "valid_authorization_role_set roles \<Longrightarrow> valid_authorization_role_set (token_dedupe_stable roles)"
  using length_dedupe_from [of "{}" roles]
  by (auto simp: valid_authorization_role_set_def list_all_iff token_dedupe_stable_eq)

lemma decode_claims_Inr:
  assumes "decode_claims C now token key v = Inr claims"
  obtains raw where "jwt_decode C now token key v = Inr raw"
    and "valid_authorization_role_set (tc_authorization_roles raw)"
    and "claims = raw \<lparr> tc_authorization_roles := token_dedupe_stable (tc_authorization_roles raw) \<rparr>"
  using assms deserialize_authorization_roles_Inr by (auto simp: decode_claims_def res_simps)

lemma validate_time_claims_Inr:
  assumes laws: "time_laws E" and ok: "validate_time_claims E clock_now claims config = Inr ()"
  shows "from_unix_timestamp E (tc_exp claims) = Some (seconds (tc_exp claims))"
    and "clock_now < seconds (tc_exp claims + int (unat (dc_leeway_seconds config)))"
    and "tc_nbf claims = Some nbf \<Longrightarrow> seconds nbf \<le> clock_now + seconds (int (unat (dc_leeway_seconds config)))"
proof -
  let ?l = "int (unat (dc_leeway_seconds config))" and ?n = "unix_timestamp E clock_now"
  from ok obtain t where "from_unix_timestamp E (tc_exp claims) = Some t"
    and late: "\<not> tc_exp claims + ?l \<le> ?n"
    and nbf: "\<not> is_some_and (\<lambda>nbf. nbf > ?n + ?l) (tc_nbf claims)"
    by (auto simp: validate_time_claims_def Let_def bind_res_unit_Inr split: option.splits)
  with time_lawsD(4) [OF laws] show "from_unix_timestamp E (tc_exp claims) = Some (seconds (tc_exp claims))"
    by auto
  have n: "?n = clock_now div 1000000000"
    using time_lawsD(3) [OF laws] by (simp add: seconds_def)
  from late n have "clock_now div 1000000000 < tc_exp claims + ?l" by simp
  then show "clock_now < seconds (tc_exp claims + ?l)"
    by (simp add: seconds_def)
  show "seconds nbf \<le> clock_now + seconds ?l" if "tc_nbf claims = Some nbf"
  proof -
    from nbf that n have "nbf \<le> clock_now div 1000000000 + ?l" by simp
    moreover have "clock_now div 1000000000 * 1000000000 \<le> clock_now"
      by (metis div_mult_mod_eq le_add_same_cancel1 pos_mod_sign zero_less_numeral)
    ultimately show ?thesis by (simp add: seconds_def algebra_simps)
  qed
qed

lemma decode_access_token_claims_Inr:
  assumes "decode_access_token_claims E C now clock_now token config = Inr d"
  shows "\<exists>h. jwt_decode_header C token = Inr h \<and>
           is_none_or (\<lambda>k. hd_kid h = Some k) (dc_expected_kid config)"
    and "decode_claims C now token (dc_decoding_key config)
           ((dc_validation config) \<lparr> va_validate_exp := False, va_validate_nbf := False \<rparr>) =
           Inr (da_claims d)"
    and "validate_time_claims E clock_now (da_claims d) config = Inr ()"
    and "validate_type_and_purpose (da_claims d) (dc_purpose_policy config) = Inr ()"
    and "\<exists>u. uuid_parse_str E (tc_sid (da_claims d)) = Some u"
    and "parse_access_token_scopes (da_claims d) (dc_legacy_scope_claims config) = Inr (da_scopes d)"
    and "ClaimRequirements_validate (dc_claim_requirements config)
           (claims_to_metadata E (da_claims d)) = Inr ()"
  using assms
  by (auto simp: decode_access_token_claims_def Let_def res_simps is_none_or_iff
      split: option.splits)

text \<open>C6: An access token the decoder accepts was signed with an accepted algorithm and key id for
  the expected issuer and audience, has not expired at the configured clock, is active, names no
  other type or purpose than those of access tokens (a legacy token may leave them out, but under
  \<open>RequireAccessToken\<close> the purpose is present), keeps a representable expiry in its principal metadata,
  carries only well-formed distinct scopes and bounded distinct authorization roles, names a
  parsable session and satisfies every configured claim requirement.\<close>

theorem accepted_access_token_sound:
  assumes time: "time_laws E"
    and jwt: "jwt_laws pair wfc tc_iss tc_aud tc_exp C"
    and ok: "decode_access_token_claims E C now clock_now token config = Inr d"
  defines "leeway \<equiv> int (unat (dc_leeway_seconds config))"
  shows "(\<exists>h. jwt_decode_header C token = Inr h \<and> hd_alg h \<in> set (va_algorithms (dc_validation config)) \<and>
             is_none_or (\<lambda>k. hd_kid h = Some k) (dc_expected_kid config)) \<and>
         issuer_accepted (dc_validation config) (tc_iss (da_claims d)) \<and>
         audience_accepted (dc_validation config) (tc_aud (da_claims d)) \<and>
         clock_now < seconds (tc_exp (da_claims d) + leeway) \<and>
         is_none_or (\<lambda>nbf. seconds nbf \<le> clock_now + seconds leeway) (tc_nbf (da_claims d)) \<and>
         md_expires_at (claims_to_metadata E (da_claims d)) = Some (seconds (tc_exp (da_claims d))) \<and>
         is_none_or (\<lambda>t. t = ACCESS_TOKEN_TYPE) (tc_typ (da_claims d)) \<and>
         is_none_or (\<lambda>p. p = ACCESS_TOKEN_PURPOSE) (tc_purpose (da_claims d)) \<and>
         (dc_purpose_policy config = RequireAccessToken \<longrightarrow> tc_purpose (da_claims d) = Some ACCESS_TOKEN_PURPOSE) \<and>
         distinct (da_scopes d) \<and> list_all valid_scope_token (da_scopes d) \<and>
         distinct (tc_authorization_roles (da_claims d)) \<and>
         valid_authorization_role_set (tc_authorization_roles (da_claims d)) \<and>
         uuid_parse_str E (tc_sid (da_claims d)) \<noteq> None \<and>
         ClaimRequirements_validate (dc_claim_requirements config)
           (claims_to_metadata E (da_claims d)) = Inr ()"
proof -
  note D = decode_access_token_claims_Inr [OF ok]
  let ?v = "(dc_validation config) \<lparr> va_validate_exp := False, va_validate_nbf := False \<rparr>"
  from D(2) obtain raw where raw: "jwt_decode C now token (dc_decoding_key config) ?v = Inr raw"
    and roles: "valid_authorization_role_set (tc_authorization_roles raw)"
    and claims: "da_claims d = raw \<lparr> tc_authorization_roles := token_dedupe_stable (tc_authorization_roles raw) \<rparr>"
    by (rule decode_claims_Inr)
  have "issuer_accepted (dc_validation config) (tc_iss (da_claims d))"
    "audience_accepted (dc_validation config) (tc_aud (da_claims d))"
    "\<exists>h. jwt_decode_header C token = Inr h \<and> hd_alg h \<in> set (va_algorithms (dc_validation config))"
    using jwt_laws_decoded [OF jwt raw]
    by (simp_all add: claims issuer_accepted_def audience_accepted_def)
  moreover have "is_none_or (\<lambda>t. t = ACCESS_TOKEN_TYPE) (tc_typ (da_claims d))"
    "is_none_or (\<lambda>p. p = ACCESS_TOKEN_PURPOSE) (tc_purpose (da_claims d))"
    "dc_purpose_policy config = RequireAccessToken \<longrightarrow> tc_purpose (da_claims d) = Some ACCESS_TOKEN_PURPOSE"
    using D(4) by (auto simp: validate_type_and_purpose_def bind_res_unit_Inr split: PurposePolicy.splits)
  moreover have "is_none_or (\<lambda>nbf. seconds nbf \<le> clock_now + seconds leeway) (tc_nbf (da_claims d))"
    using validate_time_claims_Inr(3) [OF time D(3)] by (simp add: is_none_or_iff leeway_def)
  moreover have "clock_now < seconds (tc_exp (da_claims d) + leeway)"
    using validate_time_claims_Inr(2) [OF time D(3)] by (simp add: leeway_def)
  moreover have "md_expires_at (claims_to_metadata E (da_claims d)) = Some (seconds (tc_exp (da_claims d)))"
    using validate_time_claims_Inr(1) [OF time D(3)] by (simp add: claims_to_metadata_def)
  moreover have "distinct (tc_authorization_roles (da_claims d))"
    "valid_authorization_role_set (tc_authorization_roles (da_claims d))"
    using claims roles by (simp_all add: valid_authorization_role_set_dedupe)
  ultimately show ?thesis
    using D(1,5,7) parse_access_token_scopes_Inr [OF D(6)] by auto
qed

definition demo_pair :: "EncodingKey \<Rightarrow> DecodingKey \<Rightarrow> bool" where
  "demo_pair ek dk \<longleftrightarrow>
     (case (ek, dk) of
        (EncodingSecret s, DecodingSecret s') \<Rightarrow> s = s'
      | (EncodingRsaPem p, DecodingRsaPem q) \<Rightarrow> p = q
      | _ \<Rightarrow> False)"

definition demo_codec :: "AccessTokenClaims jwt_codec" where
  "demo_codec = table_codec demo_pair tc_iss tc_aud tc_exp
     [(''token'', Header_new HS256, demo_claims, EncodingSecret ''secret'')]"

definition demo_decode_config :: AccessTokenDecodeConfig where
  "demo_decode_config =
     AccessTokenDecodeConfig_for_service (DecodingSecret ''secret'')
       ((Validation_new HS256) \<lparr> va_iss := Some [''agql-auth''], va_aud := Some [''agql-auth-clients''] \<rparr>)
       None Reject"

lemma demo_codec_laws: "jwt_laws demo_pair wfc tc_iss tc_aud tc_exp demo_codec"
  unfolding demo_codec_def by (rule table_codec_laws) simp

lemma demo_claims_accepted:
  assumes header: "jwt_decode_header C token = Inr h" "hd_alg h \<in> set (va_algorithms (dc_validation config))"
    and decode: "jwt_decode C now token (dc_decoding_key config)
      ((dc_validation config) \<lparr> va_validate_exp := False, va_validate_nbf := False \<rparr>) = Inr demo_claims"
    and config: "dc_expected_kid config = None" "dc_claim_requirements config = ClaimRequirements_none"
  shows "decode_access_token_claims std_ext C now 0 token config =
     Inr \<lparr> da_claims = demo_claims, da_scopes = [''read'', ''write''] \<rparr>"
proof -
  have "deserialize_authorization_roles (tc_authorization_roles demo_claims) = Inr []"
    by (simp add: demo_claims_def deserialize_authorization_roles_def valid_authorization_role_set_def)
  moreover have "demo_claims \<lparr> tc_authorization_roles := [] \<rparr> = demo_claims"
    by (simp add: demo_claims_def)
  moreover have "\<not> 900 + uint (dc_leeway_seconds config) \<le> 0"
    using unsigned_greater_eq [of "dc_leeway_seconds config", where ?'a = int] by linarith
  then have "validate_time_claims std_ext 0 demo_claims config = Inr ()"
    by (simp add: validate_time_claims_def demo_claims_def std_ext_simps seconds_def in_time_range_def
        MIN_TIME_def MAX_TIME_def Let_def)
  moreover have "validate_type_and_purpose demo_claims policy = Inr ()" for policy
    by (simp add: validate_type_and_purpose_def demo_claims_def ACCESS_TOKEN_TYPE_def ACCESS_TOKEN_PURPOSE_def
        split: PurposePolicy.split)
  moreover have "uuid_parse_str std_ext (tc_sid demo_claims) = Some 5"
    by (simp add: std_ext_simps demo_claims_def)
  moreover have "parse_access_token_scopes demo_claims policy = Inr [''read'', ''write'']" for policy
    using issued_scopes_parse [OF demo_claims_scopes, of policy] by simp
  moreover have "ClaimRequirements_validate ClaimRequirements_none m = Inr ()" for m
    by (simp add: ClaimRequirements_validate_def ClaimRequirements_none_def)
  ultimately show ?thesis
    using header decode config by (simp add: decode_access_token_claims_def decode_claims_def Let_def)
qed

lemma demo_claims_decode:
  "decode_access_token_claims std_ext demo_codec 0 0 ''token'' demo_decode_config =
     Inr \<lparr> da_claims = demo_claims, da_scopes = [''read'', ''write''] \<rparr>"
  by (rule demo_claims_accepted [where h = "Header_new HS256"])
    (simp_all add: demo_codec_def table_codec_def demo_pair_def Header_new_def demo_claims_def
        demo_decode_config_def AccessTokenDecodeConfig_for_service_def Validation_new_def
        issuer_accepted_def audience_accepted_def)

lemma accepted_access_token_sound_witness:
  "0 < seconds (tc_exp demo_claims)"
  using accepted_access_token_sound [OF std_ext_time_laws demo_codec_laws demo_claims_decode]
  by (simp add: demo_decode_config_def AccessTokenDecodeConfig_for_service_def)

end
