(* ===== verification/Stores.thy ===== *)
theory Stores
  imports Models Async
begin

text \<open>
  The persistence traits of \<open>src/stores.rs\<close> that sessions rely on, \<open>UserStore\<close> and
  \<open>RefreshTokenStore\<close>, as records of their operations, and the in-memory implementations of
  \<open>src/tests.rs\<close>. The locale \<open>refresh_token_store\<close> states the documented contract of the
  refresh-token store (rotation is a compare-and-swap, revocation never moves an already
  revoked record, the live read is exact) over the map of its records; the in-memory store
  is shown to satisfy it.
\<close>

section \<open>Traits\<close>

record 'st UserStore =
  find_user_by_principal :: "string \<Rightarrow> 'st \<Rightarrow> StoredUser option AuthResult \<times> 'st"
  find_user_by_id :: "string \<Rightarrow> 'st \<Rightarrow> StoredUser option AuthResult \<times> 'st"

record 'st RefreshTokenStore =
  insert_refresh_token :: "StoredRefreshToken \<Rightarrow> 'st \<Rightarrow> unit AuthResult \<times> 'st"
  find_refresh_token_by_hash :: "string \<Rightarrow> 'st \<Rightarrow> StoredRefreshToken option AuthResult \<times> 'st"
  revoke_refresh_token ::
    "uuid \<Rightarrow> time \<Rightarrow> uuid option \<Rightarrow> RefreshTokenRevocationReason \<Rightarrow> 'st \<Rightarrow> unit AuthResult \<times> 'st"
  revoke_refresh_token_family ::
    "uuid \<Rightarrow> time \<Rightarrow> RefreshTokenRevocationReason \<Rightarrow> 'st \<Rightarrow> unit AuthResult \<times> 'st"
  touch_refresh_token ::
    "uuid \<Rightarrow> time \<Rightarrow> string option \<Rightarrow> string option \<Rightarrow> 'st \<Rightarrow> unit AuthResult \<times> 'st"
  rotate_refresh_token ::
    "uuid \<Rightarrow> StoredRefreshToken \<Rightarrow> time \<Rightarrow> string option \<Rightarrow> string option \<Rightarrow> 'st \<Rightarrow> bool AuthResult \<times> 'st"
  find_live_refresh_tokens_in_family ::
    "uuid \<Rightarrow> 'st \<Rightarrow> StoredRefreshToken list option AuthResult \<times> 'st"

text \<open>The default body of \<open>find_live_refresh_tokens_in_family\<close>: not supported.\<close>

definition find_live_default :: "uuid \<Rightarrow> 'st \<Rightarrow> StoredRefreshToken list option AuthResult \<times> 'st" where
  "find_live_default session_family_id st = (Inr None, st)"

section \<open>In-memory stores\<close>

record MemoryUserStore =
  mu_users_by_id :: "(string \<times> StoredUser) list"
  mu_principal_to_id :: "(string \<times> string) list"

definition memory_user_insert :: "StoredUser \<Rightarrow> MemoryUserStore \<Rightarrow> MemoryUserStore" where
  "memory_user_insert user s =
     s \<lparr> mu_users_by_id := AList.update (su_id user) user (mu_users_by_id s),
         mu_principal_to_id := AList.update (su_principal user) (su_id user) (mu_principal_to_id s) \<rparr>"

definition memory_user_remove :: "string \<Rightarrow> MemoryUserStore \<Rightarrow> MemoryUserStore" where
  "memory_user_remove user_id s =
     (case map_of (mu_users_by_id s) user_id of
        None \<Rightarrow> s
      | Some user \<Rightarrow>
          s \<lparr> mu_users_by_id := AList.delete user_id (mu_users_by_id s),
              mu_principal_to_id := AList.delete (su_principal user) (mu_principal_to_id s) \<rparr>)"

definition memory_find_user_by_id :: "string \<Rightarrow> MemoryUserStore \<Rightarrow> StoredUser option AuthResult \<times> MemoryUserStore" where
  "memory_find_user_by_id user_id s = (Inr (map_of (mu_users_by_id s) user_id), s)"

definition memory_find_user_by_principal ::
  "string \<Rightarrow> MemoryUserStore \<Rightarrow> StoredUser option AuthResult \<times> MemoryUserStore" where
  "memory_find_user_by_principal princ s =
     (Inr (Option.bind (map_of (mu_principal_to_id s) princ) (map_of (mu_users_by_id s))), s)"

definition MemoryUserStore_impl :: "MemoryUserStore UserStore" where
  "MemoryUserStore_impl =
     \<lparr> find_user_by_principal = memory_find_user_by_principal,
       find_user_by_id = memory_find_user_by_id \<rparr>"

record MemoryRefreshTokenStore =
  mr_tokens_by_id :: "(uuid \<times> StoredRefreshToken) list"
  mr_token_hash_to_id :: "(string \<times> uuid) list"
  mr_family_revocations :: "(uuid \<times> time \<times> RefreshTokenRevocationReason) list"
  mr_rotations :: u32

definition MemoryRefreshTokenStore_default :: MemoryRefreshTokenStore where
  "MemoryRefreshTokenStore_default =
     \<lparr> mr_tokens_by_id = [], mr_token_hash_to_id = [], mr_family_revocations = [], mr_rotations = 0 \<rparr>"

definition get_by_hash :: "MemoryRefreshTokenStore \<Rightarrow> string \<Rightarrow> StoredRefreshToken option" where
  "get_by_hash s token_hash =
     Option.bind (map_of (mr_token_hash_to_id s) token_hash) (map_of (mr_tokens_by_id s))"

definition memory_insert_refresh_token ::
  "StoredRefreshToken \<Rightarrow> MemoryRefreshTokenStore \<Rightarrow> unit AuthResult \<times> MemoryRefreshTokenStore" where
  "memory_insert_refresh_token token s =
     (Inr (), s \<lparr> mr_token_hash_to_id := AList.update (rt_token_hash token) (rt_id token) (mr_token_hash_to_id s),
                  mr_tokens_by_id := AList.update (rt_id token) token (mr_tokens_by_id s) \<rparr>)"

definition memory_find_refresh_token_by_hash ::
  "string \<Rightarrow> MemoryRefreshTokenStore \<Rightarrow> StoredRefreshToken option AuthResult \<times> MemoryRefreshTokenStore" where
  "memory_find_refresh_token_by_hash token_hash s = (Inr (get_by_hash s token_hash), s)"

definition memory_revoke_refresh_token ::
  "uuid \<Rightarrow> time \<Rightarrow> uuid option \<Rightarrow> RefreshTokenRevocationReason \<Rightarrow> MemoryRefreshTokenStore \<Rightarrow>
   unit AuthResult \<times> MemoryRefreshTokenStore" where
  "memory_revoke_refresh_token token_id revoked_at replaced_by reason s =
     (Inr (), s \<lparr> mr_tokens_by_id := AList.map_entry token_id
        (\<lambda>token. if rt_revoked_at token = None
                 then token \<lparr> rt_revoked_at := Some revoked_at, rt_replaced_by_token_id := replaced_by \<rparr>
                 else token) (mr_tokens_by_id s) \<rparr>)"

definition memory_revoke_refresh_token_family ::
  "uuid \<Rightarrow> time \<Rightarrow> RefreshTokenRevocationReason \<Rightarrow> MemoryRefreshTokenStore \<Rightarrow>
   unit AuthResult \<times> MemoryRefreshTokenStore" where
  "memory_revoke_refresh_token_family session_family_id revoked_at reason s =
     (Inr (), s \<lparr> mr_family_revocations := mr_family_revocations s @ [(session_family_id, revoked_at, reason)],
        mr_tokens_by_id := map (\<lambda>(i, token).
          (i, if rt_session_family_id token = session_family_id
              then token \<lparr> rt_revoked_at := Some revoked_at \<rparr> else token)) (mr_tokens_by_id s) \<rparr>)"

definition memory_touch_refresh_token ::
  "uuid \<Rightarrow> time \<Rightarrow> string option \<Rightarrow> string option \<Rightarrow> MemoryRefreshTokenStore \<Rightarrow>
   unit AuthResult \<times> MemoryRefreshTokenStore" where
  "memory_touch_refresh_token token_id used_at ip_address user_agent s =
     (Inr (), s \<lparr> mr_tokens_by_id := AList.map_entry token_id
        (\<lambda>token. token \<lparr> rt_last_used_at := Some used_at, rt_ip_address := ip_address,
                         rt_user_agent := user_agent \<rparr>) (mr_tokens_by_id s) \<rparr>)"

definition memory_rotate_refresh_token ::
  "uuid \<Rightarrow> StoredRefreshToken \<Rightarrow> time \<Rightarrow> string option \<Rightarrow> string option \<Rightarrow> MemoryRefreshTokenStore \<Rightarrow>
   bool AuthResult \<times> MemoryRefreshTokenStore" where
  "memory_rotate_refresh_token current_token_id repl rotated_at ip_address user_agent s =
     (case map_of (mr_tokens_by_id s) current_token_id of
        None \<Rightarrow> (Inr False, s)
      | Some current \<Rightarrow>
          if rt_revoked_at current \<noteq> None then (Inr False, s)
          else
            let current' = current \<lparr> rt_last_used_at := Some rotated_at, rt_ip_address := ip_address,
                  rt_user_agent := user_agent, rt_revoked_at := Some rotated_at,
                  rt_replaced_by_token_id := Some (rt_id repl) \<rparr>
            in (Inr True, s \<lparr> mr_rotations := mr_rotations s + 1,
                  mr_token_hash_to_id := AList.update (rt_token_hash repl) (rt_id repl) (mr_token_hash_to_id s),
                  mr_tokens_by_id := AList.update (rt_id repl) repl
                    (AList.update current_token_id current' (mr_tokens_by_id s)) \<rparr>))"

definition memory_find_live_refresh_tokens_in_family ::
  "uuid \<Rightarrow> MemoryRefreshTokenStore \<Rightarrow> StoredRefreshToken list option AuthResult \<times> MemoryRefreshTokenStore" where
  "memory_find_live_refresh_tokens_in_family session_family_id s =
     (Inr (Some (filter (\<lambda>token. rt_session_family_id token = session_family_id \<and>
                                 rt_revoked_at token = None) (map snd (mr_tokens_by_id s)))), s)"

definition MemoryRefreshTokenStore_impl :: "MemoryRefreshTokenStore RefreshTokenStore" where
  "MemoryRefreshTokenStore_impl =
     \<lparr> insert_refresh_token = memory_insert_refresh_token,
       find_refresh_token_by_hash = memory_find_refresh_token_by_hash,
       revoke_refresh_token = memory_revoke_refresh_token,
       revoke_refresh_token_family = memory_revoke_refresh_token_family,
       touch_refresh_token = memory_touch_refresh_token,
       rotate_refresh_token = memory_rotate_refresh_token,
       find_live_refresh_tokens_in_family = memory_find_live_refresh_tokens_in_family \<rparr>"

section \<open>The contract of a refresh-token store\<close>

type_synonym token_map = "uuid \<rightharpoonup> StoredRefreshToken"

text \<open>The record after a rotation, and what a family revocation may do to a record.\<close>

definition rotated_out ::
  "time \<Rightarrow> string option \<Rightarrow> string option \<Rightarrow> uuid \<Rightarrow> StoredRefreshToken \<Rightarrow> StoredRefreshToken" where
  "rotated_out rotated_at ip_address user_agent repl_id token =
     token \<lparr> rt_last_used_at := Some rotated_at, rt_ip_address := ip_address,
             rt_user_agent := user_agent, rt_revoked_at := Some rotated_at,
             rt_replaced_by_token_id := Some repl_id \<rparr>"

definition family_revoked :: "uuid \<Rightarrow> token_map \<Rightarrow> token_map \<Rightarrow> bool" where
  "family_revoked fam m m' \<longleftrightarrow>
     (\<forall>i. case m i of
            None \<Rightarrow> m' i = None
          | Some t \<Rightarrow> if rt_session_family_id t = fam
                      then (\<exists>at. m' i = Some (t \<lparr> rt_revoked_at := Some at \<rparr>))
                      else m' i = Some t)"

locale refresh_token_store =
  fixes R :: "'st RefreshTokenStore"
    and tokens :: "'st \<Rightarrow> token_map"
    and ok :: "'st \<Rightarrow> bool"
  assumes insert_law: "ok st \<Longrightarrow> insert_refresh_token R t st = (ri, st') \<Longrightarrow>
      ok st' \<and> tokens st' = (if is_ok ri then (tokens st)(rt_id t \<mapsto> t) else tokens st)"
    and find_law: "ok st \<Longrightarrow> find_refresh_token_by_hash R h st = (rf, st') \<Longrightarrow>
      ok st' \<and> tokens st' = tokens st \<and> (\<forall>t. rf = Inr (Some t) \<longrightarrow> tokens st (rt_id t) = Some t)"
    and revoke_law: "ok st \<Longrightarrow> revoke_refresh_token R i at repl reason st = (rr, st') \<Longrightarrow>
      ok st' \<and> (tokens st' = tokens st \<or>
        (\<exists>t. tokens st i = Some t \<and> rt_revoked_at t = None \<and>
           tokens st' = (tokens st)(i \<mapsto> t \<lparr> rt_revoked_at := Some at, rt_replaced_by_token_id := repl \<rparr>))) \<and>
      (is_ok rr \<longrightarrow> (\<forall>t. tokens st' i = Some t \<longrightarrow> rt_revoked_at t \<noteq> None))"
    and family_law: "ok st \<Longrightarrow> revoke_refresh_token_family R fam at reason st = (rm, st') \<Longrightarrow>
      ok st' \<and> (if is_ok rm then family_revoked fam (tokens st) (tokens st') else tokens st' = tokens st)"
    and rotate_law: "ok st \<Longrightarrow> rotate_refresh_token R i t at ip ua st = (rt, st') \<Longrightarrow>
      ok st' \<and>
      (if rt = Inr True
       then (\<exists>cur. tokens st i = Some cur \<and> rt_revoked_at cur = None \<and>
               tokens st' = (tokens st)(i \<mapsto> rotated_out at ip ua (rt_id t) cur, rt_id t \<mapsto> t))
       else tokens st' = tokens st \<and>
            (rt = Inr False \<longrightarrow> (\<forall>cur. tokens st i = Some cur \<longrightarrow> rt_revoked_at cur \<noteq> None)))"
    and live_law: "ok st \<Longrightarrow> find_live_refresh_tokens_in_family R fam st = (rl, st') \<Longrightarrow>
      ok st' \<and> tokens st' = tokens st \<and>
      (\<forall>l. rl = Inr (Some l) \<longrightarrow> distinct l \<and>
         set l = {t \<in> ran (tokens st). rt_session_family_id t = fam \<and> rt_revoked_at t = None})"
    and own_id: "ok st \<Longrightarrow> tokens st i = Some t \<Longrightarrow> rt_id t = i"

section \<open>The in-memory store satisfies the contract\<close>

definition mrt_tokens :: "MemoryRefreshTokenStore \<Rightarrow> token_map" where
  "mrt_tokens s = map_of (mr_tokens_by_id s)"

definition mrt_ok :: "MemoryRefreshTokenStore \<Rightarrow> bool" where
  "mrt_ok s \<longleftrightarrow> distinct (map fst (mr_tokens_by_id s)) \<and> (\<forall>(i, t) \<in> set (mr_tokens_by_id s). rt_id t = i)"

lemma mrt_ok_iff:
  "mrt_ok s \<longleftrightarrow> distinct (map fst (mr_tokens_by_id s)) \<and>
     (\<forall>i t. mrt_tokens s i = Some t \<longrightarrow> rt_id t = i)"
  by (auto simp: mrt_ok_def mrt_tokens_def dest: map_of_SomeD)

lemma mrt_own_id: "mrt_ok s \<Longrightarrow> mrt_tokens s i = Some t \<Longrightarrow> rt_id t = i"
  by (simp add: mrt_ok_iff)

lemma map_of_map_values:
  "map_of (map (\<lambda>(i, t). (i, f t)) xs) k = map_option f (map_of xs k)"
  by (induction xs) auto

lemma memory_insert_correct:
  "mrt_ok s \<Longrightarrow> memory_insert_refresh_token t s = (r, s') \<Longrightarrow>
     mrt_ok s' \<and> r = Inr () \<and> mrt_tokens s' = (mrt_tokens s)(rt_id t \<mapsto> t)"
  by (auto simp: memory_insert_refresh_token_def mrt_ok_iff mrt_tokens_def AList.update_conv'
      AList.distinct_update split: if_splits)

lemma memory_rotate_correct:
  assumes "mrt_ok s" and "memory_rotate_refresh_token i t at ip ua s = (r, s')"
  shows "mrt_ok s' \<and>
      (if r = Inr True
       then (\<exists>cur. mrt_tokens s i = Some cur \<and> rt_revoked_at cur = None \<and>
               mrt_tokens s' = (mrt_tokens s)(i \<mapsto> rotated_out at ip ua (rt_id t) cur, rt_id t \<mapsto> t))
       else mrt_tokens s' = mrt_tokens s \<and>
            (r = Inr False \<longrightarrow> (\<forall>cur. mrt_tokens s i = Some cur \<longrightarrow> rt_revoked_at cur \<noteq> None)))"
proof (cases "mrt_tokens s i")
  case (Some cur)
  with assms show ?thesis
    by (cases "rt_revoked_at cur")
      (auto simp: memory_rotate_refresh_token_def Let_def mrt_ok_iff mrt_tokens_def rotated_out_def
        AList.update_conv' AList.distinct_update split: if_splits)
qed (use assms in \<open>auto simp: memory_rotate_refresh_token_def mrt_tokens_def split: if_splits\<close>)

lemma memory_revoke_correct:
  assumes "mrt_ok s" and "memory_revoke_refresh_token i at repl reason s = (r, s')"
  shows "mrt_ok s' \<and> r = Inr () \<and> (mrt_tokens s' = mrt_tokens s \<or>
        (\<exists>t. mrt_tokens s i = Some t \<and> rt_revoked_at t = None \<and>
           mrt_tokens s' = (mrt_tokens s)(i \<mapsto> t \<lparr> rt_revoked_at := Some at, rt_replaced_by_token_id := repl \<rparr>))) \<and>
      (\<forall>t. mrt_tokens s' i = Some t \<longrightarrow> rt_revoked_at t \<noteq> None)"
proof -
  let ?f = "\<lambda>token. if rt_revoked_at token = None
      then token \<lparr> rt_revoked_at := Some at, rt_replaced_by_token_id := repl \<rparr> else token"
  from assms(2) have s': "s' = s \<lparr> mr_tokens_by_id := AList.map_entry i ?f (mr_tokens_by_id s) \<rparr>"
    and r: "r = Inr ()"
    by (simp_all add: memory_revoke_refresh_token_def)
  have m: "mrt_tokens s' = (case mrt_tokens s i of None \<Rightarrow> mrt_tokens s | Some t \<Rightarrow> (mrt_tokens s)(i \<mapsto> ?f t))"
    by (auto simp: s' mrt_tokens_def map_of_map_entry split: option.splits)
  have "mrt_ok s'"
    using assms(1) m by (auto simp: mrt_ok_iff s' distinct_map_entry split: option.splits if_splits)
  with m r show ?thesis by (auto split: option.splits simp: fun_upd_idem_iff)
qed

lemma memory_family_correct:
  assumes "mrt_ok s" and "memory_revoke_refresh_token_family fam at reason s = (r, s')"
  shows "mrt_ok s' \<and> r = Inr () \<and> family_revoked fam (mrt_tokens s) (mrt_tokens s')"
proof -
  let ?f = "\<lambda>t. if rt_session_family_id t = fam then t \<lparr> rt_revoked_at := Some at \<rparr> else t"
  from assms(2) have m: "mrt_tokens s' k = map_option ?f (mrt_tokens s k)" for k
    by (auto simp: memory_revoke_refresh_token_family_def mrt_tokens_def map_of_map_values)
  moreover have "map fst (mr_tokens_by_id s') = map fst (mr_tokens_by_id s)"
    using assms(2) by (auto simp: memory_revoke_refresh_token_family_def)
  ultimately have "mrt_ok s'"
    using assms(1) by (auto simp: mrt_ok_iff)
  with m assms(2) show ?thesis
    by (auto simp: family_revoked_def memory_revoke_refresh_token_family_def split: option.splits)
qed

lemma memory_live_correct:
  assumes "mrt_ok s" and "memory_find_live_refresh_tokens_in_family fam s = (Inr (Some l), s')"
  shows "distinct l \<and> set l = {t \<in> ran (mrt_tokens s). rt_session_family_id t = fam \<and> rt_revoked_at t = None}"
proof -
  have dist: "distinct (map fst (mr_tokens_by_id s))" using assms(1) by (simp add: mrt_ok_def)
  have fst: "map fst (mr_tokens_by_id s) = map (\<lambda>x. rt_id (snd x)) (mr_tokens_by_id s)"
    using assms(1) by (intro map_cong) (auto simp: mrt_ok_def)
  have "distinct (map rt_id (map snd (mr_tokens_by_id s)))"
    using dist unfolding fst by (simp add: comp_def)
  then have "distinct (map snd (mr_tokens_by_id s))" by (rule distinct_map [THEN iffD1, THEN conjunct1])
  moreover have "ran (mrt_tokens s) = set (map snd (mr_tokens_by_id s))"
    using dist by (simp add: mrt_tokens_def ran_distinct)
  moreover have "l = filter (\<lambda>token. rt_session_family_id token = fam \<and> rt_revoked_at token = None)
      (map snd (mr_tokens_by_id s))"
    using assms(2) by (auto simp: memory_find_live_refresh_tokens_in_family_def)
  ultimately show ?thesis by (simp del: set_map add: conj_commute)
qed

interpretation mrt: refresh_token_store MemoryRefreshTokenStore_impl mrt_tokens mrt_ok
proof
  show "mrt_ok s' \<and> mrt_tokens s' = (if is_ok r then (mrt_tokens s)(rt_id t \<mapsto> t) else mrt_tokens s)"
    if "mrt_ok s" "insert_refresh_token MemoryRefreshTokenStore_impl t s = (r, s')" for s t r s'
    using memory_insert_correct that by (fastforce simp: MemoryRefreshTokenStore_impl_def)
  show "mrt_ok s' \<and> mrt_tokens s' = mrt_tokens s \<and> (\<forall>t. r = Inr (Some t) \<longrightarrow> mrt_tokens s (rt_id t) = Some t)"
    if "mrt_ok s" "find_refresh_token_by_hash MemoryRefreshTokenStore_impl h s = (r, s')" for s h r s'
    using that mrt_own_id [OF that(1)]
    by (auto simp: MemoryRefreshTokenStore_impl_def memory_find_refresh_token_by_hash_def get_by_hash_def
        mrt_tokens_def bind_eq_Some_conv)
  show "mrt_ok s' \<and> (mrt_tokens s' = mrt_tokens s \<or>
        (\<exists>t. mrt_tokens s i = Some t \<and> rt_revoked_at t = None \<and>
           mrt_tokens s' = (mrt_tokens s)(i \<mapsto> t \<lparr> rt_revoked_at := Some at, rt_replaced_by_token_id := repl \<rparr>))) \<and>
      (is_ok r \<longrightarrow> (\<forall>t. mrt_tokens s' i = Some t \<longrightarrow> rt_revoked_at t \<noteq> None))"
    if "mrt_ok s" "revoke_refresh_token MemoryRefreshTokenStore_impl i at repl reason s = (r, s')"
    for s i at repl reason r s'
    using memory_revoke_correct [OF that(1), of i at repl reason r s'] that(2)
    by (simp add: MemoryRefreshTokenStore_impl_def)
  show "mrt_ok s' \<and> (if is_ok r then family_revoked fam (mrt_tokens s) (mrt_tokens s')
                     else mrt_tokens s' = mrt_tokens s)"
    if "mrt_ok s" "revoke_refresh_token_family MemoryRefreshTokenStore_impl fam at reason s = (r, s')"
    for s fam at reason r s'
    using memory_family_correct [OF that(1), of fam at reason r s'] that(2)
    by (simp add: MemoryRefreshTokenStore_impl_def)
  show "mrt_ok s' \<and> (if r = Inr True
       then (\<exists>cur. mrt_tokens s i = Some cur \<and> rt_revoked_at cur = None \<and>
               mrt_tokens s' = (mrt_tokens s)(i \<mapsto> rotated_out at ip ua (rt_id t) cur, rt_id t \<mapsto> t))
       else mrt_tokens s' = mrt_tokens s \<and>
            (r = Inr False \<longrightarrow> (\<forall>cur. mrt_tokens s i = Some cur \<longrightarrow> rt_revoked_at cur \<noteq> None)))"
    if "mrt_ok s" "rotate_refresh_token MemoryRefreshTokenStore_impl i t at ip ua s = (r, s')"
    for s i t at ip ua r s'
    using memory_rotate_correct [OF that(1), of i t at ip ua r s'] that(2)
    by (simp add: MemoryRefreshTokenStore_impl_def)
  show "mrt_ok s' \<and> mrt_tokens s' = mrt_tokens s \<and>
      (\<forall>l. r = Inr (Some l) \<longrightarrow> distinct l \<and>
         set l = {t \<in> ran (mrt_tokens s). rt_session_family_id t = fam \<and> rt_revoked_at t = None})"
    if "mrt_ok s" "find_live_refresh_tokens_in_family MemoryRefreshTokenStore_impl fam s = (r, s')"
    for s fam r s'
    using memory_live_correct [OF that(1), of fam _ s'] that
    by (auto simp: MemoryRefreshTokenStore_impl_def)
      (simp_all add: memory_find_live_refresh_tokens_in_family_def)
  show "rt_id t = i" if "mrt_ok s" "mrt_tokens s i = Some t" for s i t
    using mrt_own_id that .
qed

end
