(* ===== verification/Principal_Reference.thy ===== *)
theory Principal_Reference
  imports Models Async
begin

text \<open>
  Durable principal references and their re-validation: \<open>src/principal_reference.rs\<close>
  (references, the matching of a resolved principal, the two constructors of
  \<open>ResolvedPrincipal\<close>, the verified active session used by delegation) and the status checks
  of \<open>src/token_status.rs\<close> with \<open>revalidate_sensitive_principal\<close>. The host's resolver and
  status checker are arguments. Re-validation is shown never to widen an accepted credential.
\<close>

section \<open>References\<close>

definition MAX_SESSION_VERSION_LENGTH :: nat where "MAX_SESSION_VERSION_LENGTH = 256"

datatype PrincipalReferenceKind = RefUserSession | RefApiToken string

record PrincipalReference =
  pf_kind :: PrincipalReferenceKind
  pf_subject :: string
  pf_session_id :: "string option"
  pf_token_id :: "string option"
  pf_session_family_id :: "string option"
  pf_grant_kind :: "AccessTokenGrantKind option"
  pf_session_version :: "string option"
  pf_tenant_id :: "string option"
  pf_audience :: "string option"
  pf_resource_type :: "string option"
  pf_resource_id :: "string option"
  pf_actor_subject :: "string option"
  pf_expires_at :: "time option"
  pf_correlation_id :: "string option"
  pf_operation :: "ExactOperationBinding option"

definition principal_reference :: "ext \<Rightarrow> AuthPrincipal \<Rightarrow> PrincipalReference" where
  "principal_reference E p =
     (case p of
        User user \<Rightarrow>
          let metadata = au_token_claims user in
          \<lparr> pf_kind = RefUserSession, pf_subject = au_user_id user,
            pf_session_id = Some (uuid_to_string E (au_session_id user)),
            pf_token_id = md_jti metadata, pf_session_family_id = md_session_family_id metadata,
            pf_grant_kind = md_grant_kind metadata, pf_session_version = md_session_version metadata,
            pf_tenant_id = md_tenant_id metadata, pf_audience = None,
            pf_resource_type = md_resource_type metadata, pf_resource_id = md_resource_id metadata,
            pf_actor_subject = map_option ai_sub (md_actor metadata),
            pf_expires_at = md_expires_at metadata, pf_correlation_id = md_correlation_id metadata,
            pf_operation = md_operation metadata \<rparr>
      | ApiToken token \<Rightarrow>
          \<lparr> pf_kind = RefApiToken (ap_principal_kind token), pf_subject = ap_subject token,
            pf_session_id = None, pf_token_id = Some (uuid_to_string E (ap_token_id token)),
            pf_session_family_id = None, pf_grant_kind = None, pf_session_version = None,
            pf_tenant_id = None, pf_audience = ap_audience token,
            pf_resource_type = ap_resource_type token, pf_resource_id = ap_resource_id token,
            pf_actor_subject = None, pf_expires_at = Some (ap_expires_at token),
            pf_correlation_id = None, pf_operation = None \<rparr>)"

definition restricted_grant :: "AccessTokenGrantKind option \<Rightarrow> bool" where
  "restricted_grant k \<longleftrightarrow> k = Some Sessionless \<or> k = Some SessionBoundDelegation"

definition PrincipalReference_matches :: "ext \<Rightarrow> PrincipalReference \<Rightarrow> AuthPrincipal \<Rightarrow> bool" where
  "PrincipalReference_matches E self p =
     (let current = principal_reference E p in
      case (pf_kind self, pf_kind current) of
        (RefUserSession, RefUserSession) \<Rightarrow>
          if pf_grant_kind self = Some SessionBoundDelegation then
            pf_subject self = pf_subject current \<and> pf_session_id self = pf_session_id current \<and>
            pf_session_family_id self = pf_session_family_id current \<and>
            pf_session_version self = pf_session_version current \<and>
            pf_tenant_id self = pf_tenant_id current \<and> \<not> restricted_grant (pf_grant_kind current)
          else
            pf_subject self = pf_subject current \<and> pf_session_id self = pf_session_id current \<and>
            pf_session_family_id self = pf_session_family_id current \<and>
            \<not> restricted_grant (pf_grant_kind self) \<and> \<not> restricted_grant (pf_grant_kind current) \<and>
            is_none_or (\<lambda>v. pf_session_version current = Some v) (pf_session_version self) \<and>
            pf_tenant_id self = pf_tenant_id current \<and>
            pf_resource_type self = pf_resource_type current \<and>
            pf_resource_id self = pf_resource_id current \<and>
            pf_actor_subject self = pf_actor_subject current \<and>
            pf_operation self = pf_operation current
      | (RefApiToken expected_kind, RefApiToken current_kind) \<Rightarrow>
          expected_kind = current_kind \<and> pf_subject self = pf_subject current \<and>
          pf_token_id self = pf_token_id current \<and> pf_audience self = pf_audience current \<and>
          pf_resource_type self = pf_resource_type current \<and>
          pf_resource_id self = pf_resource_id current
      | _ \<Rightarrow> False)"

section \<open>Resolved principals\<close>

record ResolvedPrincipal =
  rv_reference :: PrincipalReference
  rv_principal :: AuthPrincipal
  rv_resolved_at :: time
  rv_current_session_authority :: bool

definition ResolvedPrincipal_new ::
  "ext \<Rightarrow> PrincipalReference \<Rightarrow> AuthPrincipal \<Rightarrow> time \<Rightarrow> ResolvedPrincipal AuthResult" where
  "ResolvedPrincipal_new E reference princ resolved_at =
     (if \<not> PrincipalReference_matches E reference princ then Inl Forbidden
      else Inr \<lparr> rv_reference = reference, rv_principal = princ, rv_resolved_at = resolved_at,
                 rv_current_session_authority = False \<rparr>)"

definition ResolvedPrincipal_from_current_session ::
  "ext \<Rightarrow> PrincipalReference \<Rightarrow> AuthPrincipal \<Rightarrow> time \<Rightarrow> ResolvedPrincipal AuthResult" where
  "ResolvedPrincipal_from_current_session E reference princ resolved_at =
     (let current = principal_reference E princ in
      bind_res (reject_when
        (pf_kind reference \<noteq> RefUserSession \<or> pf_grant_kind reference \<noteq> Some UserSession \<or>
         pf_grant_kind current \<noteq> Some UserSession \<or> blank (pf_subject reference) \<or>
         is_none_or blank (pf_token_id reference) \<or> pf_session_id reference = None \<or>
         is_none_or blank (pf_session_family_id reference) \<or>
         is_none_or (\<lambda>version. blank version \<or> length version > MAX_SESSION_VERSION_LENGTH)
           (pf_session_version current)) Forbidden) (\<lambda>_.
      bind_res (reject_when
        (is_none_or (\<lambda>expiry. expiry \<le> resolved_at) (pf_expires_at reference) \<or>
         is_none_or (\<lambda>expiry. expiry \<le> resolved_at) (pf_expires_at current)) AccessTokenExpired) (\<lambda>_.
      bind_res (ResolvedPrincipal_new E reference princ resolved_at) (\<lambda>resolved.
        Inr (resolved \<lparr> rv_current_session_authority := True \<rparr>)))))"

definition matches_sensitive_reference :: "ext \<Rightarrow> ResolvedPrincipal \<Rightarrow> PrincipalReference \<Rightarrow> bool" where
  "matches_sensitive_reference E self reference \<longleftrightarrow>
     rv_reference self = reference \<and>
     (if rv_current_session_authority self \<or> pf_grant_kind reference = Some SessionBoundDelegation
      then PrincipalReference_matches E reference (rv_principal self)
      else principal_reference E (rv_principal self) = reference)"

section \<open>Verified active sessions\<close>

record VerifiedActiveUserSession =
  vs_reference :: PrincipalReference
  vs_user :: AuthUser
  vs_session_version :: string
  vs_absolute_expires_at :: time
  vs_idle_expires_at :: "time option"
  vs_verified_at :: time

definition effective_expiry :: "time option \<Rightarrow> time \<Rightarrow> time" where
  "effective_expiry idle absolute = (case idle of Some i \<Rightarrow> min i absolute | None \<Rightarrow> absolute)"

definition from_authoritative_record ::
  "ext \<Rightarrow> PrincipalReference \<Rightarrow> AuthUser \<Rightarrow> string \<Rightarrow> time \<Rightarrow> time option \<Rightarrow> time \<Rightarrow>
   VerifiedActiveUserSession AuthResult" where
  "from_authoritative_record E reference user session_version absolute_expires_at idle_expires_at verified_at =
     bind_res (reject_when (pf_kind reference \<noteq> RefUserSession) Forbidden) (\<lambda>_.
     bind_res (reject_when (blank session_version \<or> length session_version > MAX_SESSION_VERSION_LENGTH)
       (InvalidConfiguration ''authoritative session version is invalid'')) (\<lambda>_.
     bind_res (reject_when (is_some_and (\<lambda>expected. expected \<noteq> session_version) (pf_session_version reference))
       Forbidden) (\<lambda>_.
     let current = principal_reference E (User user) in
     bind_res (reject_when (pf_subject reference \<noteq> pf_subject current \<or>
         pf_session_id reference \<noteq> pf_session_id current \<or>
         pf_session_family_id reference \<noteq> pf_session_family_id current \<or>
         pf_tenant_id reference \<noteq> pf_tenant_id current) Forbidden) (\<lambda>_.
     bind_res (reject_when (effective_expiry idle_expires_at absolute_expires_at \<le> verified_at)
       AccessTokenExpired) (\<lambda>_.
       Inr \<lparr> vs_reference = reference,
             vs_user = user \<lparr> au_token_claims := (au_token_claims user)
               \<lparr> md_session_version := Some session_version \<rparr> \<rparr>,
             vs_session_version = session_version, vs_absolute_expires_at = absolute_expires_at,
             vs_idle_expires_at = idle_expires_at, vs_verified_at = verified_at \<rparr>)))))"

definition effective_expires_at :: "VerifiedActiveUserSession \<Rightarrow> time" where
  "effective_expires_at v = effective_expiry (vs_idle_expires_at v) (vs_absolute_expires_at v)"

section \<open>Status checks (token\_status.rs)\<close>

datatype TokenStatus = StatusActive | StatusRevoked | StatusExpired
datatype StatusCheckFailureMode = FailClosed | FailOpen

record TokenStatusRequest =
  ts_principal :: AuthPrincipal
  ts_token_id :: "string option"
  ts_session_id :: "string option"
  ts_session_family_id :: "string option"
  ts_tenant_id :: "string option"

definition map_checker_result ::
  "StatusCheckFailureMode \<Rightarrow> TokenStatus AuthResult \<Rightarrow> TokenStatus AuthResult" where
  "map_checker_result failure_mode result =
     (case result of
        Inr status \<Rightarrow> Inr status
      | Inl err \<Rightarrow> (case failure_mode of FailClosed \<Rightarrow> Inl err | FailOpen \<Rightarrow> Inr StatusActive))"

definition status_to_error :: "TokenStatus \<Rightarrow> unit AuthResult" where
  "status_to_error status =
     (case status of
        StatusActive \<Rightarrow> Inr () | StatusRevoked \<Rightarrow> Inl TokenRevoked | StatusExpired \<Rightarrow> Inl AccessTokenExpired)"

text \<open>The host's \<open>TokenStatusChecker\<close> and \<open>CurrentPrincipalResolver\<close>: their answers depend on
  the step and the state of the stores.\<close>

type_synonym 'st status_checker = "TokenStatusRequest \<Rightarrow> nat \<Rightarrow> 'st \<Rightarrow> TokenStatus AuthResult"
type_synonym 'st principal_resolver = "PrincipalReference \<Rightarrow> nat \<Rightarrow> 'st \<Rightarrow> ResolvedPrincipal AuthResult"

definition AlwaysActiveTokenStatus :: "'st status_checker" where
  "AlwaysActiveTokenStatus request n st = Inr StatusActive"

definition retain :: "string list \<Rightarrow> string list \<Rightarrow> string list" where
  "retain xs allowed = filter (\<lambda>x. x \<in> set allowed) xs"

definition narrow_principal :: "PrincipalReference \<Rightarrow> AuthPrincipal \<Rightarrow> AuthPrincipal \<Rightarrow> AuthPrincipal AuthResult" where
  "narrow_principal reference accepted current =
     (case (accepted, current) of
        (User accepted, User current) \<Rightarrow>
          bind_res (reject_when (pf_grant_kind reference = Some SessionBoundDelegation \<and>
              (is_none_or blank (pf_session_version reference) \<or>
               is_none_or blank (pf_session_family_id reference))) Forbidden) (\<lambda>_.
          bind_res (reject_when (sc_active_scope (au_session accepted) \<noteq> sc_active_scope (au_session current))
              Forbidden) (\<lambda>_.
            Inr (User (accepted
              \<lparr> au_roles := retain (au_roles accepted) (au_roles current),
                au_scopes := retain (au_scopes accepted) (au_scopes current),
                au_token_claims := (au_token_claims accepted)
                  \<lparr> md_authorization_roles := retain (md_authorization_roles (au_token_claims accepted))
                      (md_authorization_roles (au_token_claims current)) \<rparr> \<rparr>))))
      | (ApiToken accepted, ApiToken current) \<Rightarrow>
          Inr (ApiToken (accepted \<lparr> ap_scopes := retain (ap_scopes accepted) (ap_scopes current) \<rparr>))
      | _ \<Rightarrow> Inl Forbidden)"

definition revalidate_sensitive_principal ::
  "ext \<Rightarrow> 'st host \<Rightarrow> AuthPrincipal \<Rightarrow> 'st principal_resolver \<Rightarrow> 'st status_checker \<Rightarrow> time \<Rightarrow>
   ('st, AuthPrincipal) action" where
  "revalidate_sensitive_principal E H accepted resolver checker now =
     (let reference = principal_reference E accepted in
      bind (require (\<not> (blank (pf_subject reference) \<or> is_none_or blank (pf_token_id reference)))
              Forbidden) (\<lambda>_.
      bind (require (\<not> is_none_or (\<lambda>expiry. expiry \<le> now) (pf_expires_at reference))
              AccessTokenExpired) (\<lambda>_.
      bind (host_call H (checker
              \<lparr> ts_principal = accepted, ts_token_id = pf_token_id reference,
                ts_session_id = pf_session_id reference,
                ts_session_family_id = pf_session_family_id reference,
                ts_tenant_id = pf_tenant_id reference \<rparr>)) (\<lambda>status.
      bind (lift_res (status_to_error status)) (\<lambda>_.
      bind (host_call H (resolver reference)) (\<lambda>resolved.
      bind (require (matches_sensitive_reference E resolved reference) Forbidden) (\<lambda>_.
      let current = rv_principal resolved in
      bind (require (\<not> is_none_or (\<lambda>expiry. expiry \<le> now)
              (pf_expires_at (principal_reference E current))) AccessTokenExpired) (\<lambda>_.
        lift_res (narrow_principal reference accepted current)))))))))"

section \<open>Properties\<close>

lemma set_retain [simp]: "set (retain xs ys) = set xs \<inter> set ys"
  by (auto simp: retain_def)

lemma principal_reference_subject [simp]: "pf_subject (principal_reference E p) = principal_subject p"
  by (cases p) (simp_all add: principal_reference_def principal_subject_def Let_def)

lemma PrincipalReference_matches_subject:
  "PrincipalReference_matches E r p \<Longrightarrow> principal_subject p = pf_subject r"
  by (auto simp: PrincipalReference_matches_def Let_def split: PrincipalReferenceKind.splits if_splits)

lemma matches_sensitive_subject:
  "matches_sensitive_reference E resolved r \<Longrightarrow> principal_subject (rv_principal resolved) = pf_subject r"
  by (auto simp: matches_sensitive_reference_def PrincipalReference_matches_subject split: if_splits)
    (metis principal_reference_subject)

lemma narrow_principal_Inr:
  assumes "narrow_principal r accepted current = Inr p"
  shows "set (principal_roles p) = set (principal_roles accepted) \<inter> set (principal_roles current) \<and>
         set (principal_scopes p) = set (principal_scopes accepted) \<inter> set (principal_scopes current) \<and>
         principal_reference E p = principal_reference E accepted"
  using assms
  by (auto simp: narrow_principal_def principal_roles_def principal_scopes_def principal_reference_def
      Let_def bind_res_unit_Inr split: AuthPrincipal.splits)

text \<open>C9: A credential that passes re-validation was unexpired, was reported active by the
  status checker, and was resolved to a live principal of the same subject; the result keeps the
  accepted credential's reference and carries exactly those of its roles and scopes that the
  current principal still holds.\<close>

theorem revalidation_never_widens:
  assumes "revalidate_sensitive_principal E H accepted resolver checker now w = (Inr p, w')"
  shows "\<exists>resolved n st.
     resolver (principal_reference E accepted) n st = Inr resolved \<and>
     principal_subject (rv_principal resolved) = principal_subject accepted \<and>
     is_some_and (\<lambda>t. now < t) (pf_expires_at (principal_reference E accepted)) \<and>
     is_some_and (\<lambda>t. now < t) (pf_expires_at (principal_reference E (rv_principal resolved))) \<and>
     (\<exists>request m st'. ts_principal request = accepted \<and> checker request m st' = Inr StatusActive) \<and>
     principal_reference E p = principal_reference E accepted \<and>
     set (principal_roles p) = set (principal_roles accepted) \<inter> set (principal_roles (rv_principal resolved)) \<and>
     set (principal_scopes p) = set (principal_scopes accepted) \<inter> set (principal_scopes (rv_principal resolved))"
proof -
  let ?r = "principal_reference E accepted"
  let ?q = "\<lparr> ts_principal = accepted, ts_token_id = pf_token_id ?r, ts_session_id = pf_session_id ?r,
      ts_session_family_id = pf_session_family_id ?r, ts_tenant_id = pf_tenant_id ?r \<rparr>"
  from assms obtain status resolved m st1 n st2
    where chk: "checker ?q m st1 = Inr status" and act: "status_to_error status = Inr ()"
      and res: "resolver ?r n st2 = Inr resolved"
      and m: "matches_sensitive_reference E resolved ?r"
      and e1: "\<not> is_none_or (\<lambda>expiry. expiry \<le> now) (pf_expires_at ?r)"
      and e2: "\<not> is_none_or (\<lambda>expiry. expiry \<le> now)
                 (pf_expires_at (principal_reference E (rv_principal resolved)))"
      and nar: "narrow_principal ?r accepted (rv_principal resolved) = Inr p"
    by (auto simp: revalidate_sensitive_principal_def Let_def action_simps split: if_splits)
      metis
  have live: "is_some_and (\<lambda>t. now < t) x" if "\<not> is_none_or (\<lambda>expiry. expiry \<le> now) x"
    for x :: "time option"
    using that by (cases x) auto
  have "status = StatusActive" using act by (simp add: status_to_error_def split: TokenStatus.splits)
  with chk have "\<exists>request m st'. ts_principal request = accepted \<and> checker request m st' = Inr StatusActive"
    by (intro exI [of _ ?q]) auto
  with res m live [OF e1] live [OF e2] narrow_principal_Inr [OF nar, of E]
    matches_sensitive_subject [OF m]
  show ?thesis by auto
qed

definition demo_token_principal :: "string list \<Rightarrow> AuthPrincipal" where
  "demo_token_principal scopes = ApiToken
     \<lparr> ap_token_id = 5, ap_subject = ''svc'', ap_principal_kind = ''service'', ap_scopes = scopes,
       ap_audience = None, ap_resource_type = None, ap_resource_id = None, ap_expires_at = 100 \<rparr>"

definition idle_host :: "'st host" where
  "idle_host = \<lparr> h_interfere = (\<lambda>n st. st), h_clock = (\<lambda>c n. 0), h_uuid = of_nat,
                h_random = (\<lambda>n. [of_nat n]) \<rparr>"

definition demo_resolver :: "unit principal_resolver" where
  "demo_resolver r n st = ResolvedPrincipal_new std_ext r (demo_token_principal [''b'', ''c'']) 0"

text \<open>The resolver of the example reports a principal with other scopes, so the exact reference
  check holds (references carry no scopes) and the scopes are intersected.\<close>

lemma demo_revalidation:
  "revalidate_sensitive_principal std_ext idle_host (demo_token_principal [''a'', ''b'']) demo_resolver
     AlwaysActiveTokenStatus 7 \<lparr> w_store = (), w_tick = 0, w_fresh = 0 \<rparr> =
   (Inr (demo_token_principal [''b'']), \<lparr> w_store = (), w_tick = 2, w_fresh = 0 \<rparr>)"
proof -
  have "\<not> blank ''svc''" "\<not> blank ''uuuuu''" by code_simp+
  then show ?thesis
    by (simp add: revalidate_sensitive_principal_def Let_def principal_reference_def
        demo_token_principal_def demo_resolver_def ResolvedPrincipal_new_def
        PrincipalReference_matches_def matches_sensitive_reference_def AlwaysActiveTokenStatus_def
        status_to_error_def narrow_principal_def retain_def bind_def ret_def throw_def require_def
        lift_res_def host_call_def store_call_def idle_host_def std_ext_simps)
      (simp add: numeral_eq_Suc)
qed

lemma revalidation_never_widens_witness:
  "set (principal_scopes (demo_token_principal [''b''])) \<subseteq> set (principal_scopes (demo_token_principal [''a'', ''b'']))"
  using revalidation_never_widens [OF demo_revalidation] by blast

end
