(* ===== verification/Memory_Rate_Limit.thy ===== *)
theory Memory_Rate_Limit
  imports Models Async
begin

text \<open>
  The bounded in-memory abuse-protection store of \<open>src/memory_rate_limit.rs\<close>: a table of
  versioned snapshots beside an index from expiry times to keys, both behind one mutex.
  The trait \<open>AuthRateLimitStore\<close> (\<open>src/stores.rs\<close>) is the record of its three operations;
  the operations receive the reading of the store's own clock as an argument. The store is
  shown to implement a time-to-live map with compare-and-swap (\<open>ttl_*\<close> below), and the
  locale \<open>rate_limit_store\<close> states the contract the service relies on.
\<close>

section \<open>The store trait (stores.rs)\<close>

record 'st AuthRateLimitStore =
  find_auth_rate_limit_state ::
    "time \<Rightarrow> AuthRateLimitKey \<Rightarrow> 'st \<Rightarrow> AuthRateLimitSnapshot option AuthResult \<times> 'st"
  compare_exchange_auth_rate_limit_state ::
    "time \<Rightarrow> AuthRateLimitKey \<Rightarrow> uuid option \<Rightarrow> AuthRateLimitSnapshot \<Rightarrow> 'st \<Rightarrow> bool AuthResult \<times> 'st"
  clear_auth_rate_limit_state ::
    "time \<Rightarrow> AuthRateLimitKey \<Rightarrow> uuid option \<Rightarrow> 'st \<Rightarrow> bool AuthResult \<times> 'st"

section \<open>The in-memory state\<close>

record MemoryState =
  me_entries :: "(AuthRateLimitKey \<times> AuthRateLimitSnapshot) list"
  me_expirations :: "(time \<times> AuthRateLimitKey list) list"

definition MemoryState_default :: MemoryState where
  "MemoryState_default = \<lparr> me_entries = [], me_expirations = [] \<rparr>"

fun remove_keys ::
  "AuthRateLimitKey list \<Rightarrow> nat \<Rightarrow> (AuthRateLimitKey \<times> AuthRateLimitSnapshot) list \<Rightarrow>
   nat \<times> (AuthRateLimitKey \<times> AuthRateLimitSnapshot) list" where
  "remove_keys [] removed entries = (removed, entries)"
| "remove_keys (key # keys) removed entries =
     remove_keys keys (removed + (if map_of entries key \<noteq> None then 1 else 0))
       (AList.delete key entries)"

fun purge_loop ::
  "time \<Rightarrow> nat \<Rightarrow> (AuthRateLimitKey \<times> AuthRateLimitSnapshot) list \<Rightarrow>
   (time \<times> AuthRateLimitKey list) list \<Rightarrow>
   nat \<times> (AuthRateLimitKey \<times> AuthRateLimitSnapshot) list \<times> (time \<times> AuthRateLimitKey list) list" where
  "purge_loop now removed entries [] = (removed, entries, [])"
| "purge_loop now removed entries ((expiry, keys) # rest) =
     (if expiry \<le> now then
        (case remove_keys keys removed entries of
           (removed', entries') \<Rightarrow> purge_loop now removed' entries' rest)
      else (removed, entries, (expiry, keys) # rest))"

definition MemoryState_purge_expired :: "time \<Rightarrow> MemoryState \<Rightarrow> nat \<times> MemoryState" where
  "MemoryState_purge_expired now st =
     (case purge_loop now 0 (me_entries st) (me_expirations st) of
        (removed, entries, expirations) \<Rightarrow>
          (removed, \<lparr> me_entries = entries, me_expirations = expirations \<rparr>))"

definition MemoryState_remove :: "AuthRateLimitKey \<Rightarrow> MemoryState \<Rightarrow> MemoryState" where
  "MemoryState_remove key st =
     (case map_of (me_entries st) key of
        None \<Rightarrow> st
      | Some previous \<Rightarrow>
          let expiry = rs_expires_at (sn_state previous);
              st' = st \<lparr> me_entries := AList.delete key (me_entries st) \<rparr> in
          (case map_of (me_expirations st) expiry of
             None \<Rightarrow> st'
           | Some keys \<Rightarrow>
               let keys' = removeAll key keys in
               if keys' = [] then st' \<lparr> me_expirations := AList.delete expiry (me_expirations st) \<rparr>
               else st' \<lparr> me_expirations := btm_insert expiry keys' (me_expirations st) \<rparr>))"

definition MemoryState_insert :: "AuthRateLimitKey \<Rightarrow> AuthRateLimitSnapshot \<Rightarrow> MemoryState \<Rightarrow> MemoryState" where
  "MemoryState_insert key snapshot st =
     (let st1 = MemoryState_remove key st;
          expiry = rs_expires_at (sn_state snapshot);
          keys = (case map_of (me_expirations st1) expiry of None \<Rightarrow> [] | Some ks \<Rightarrow> ks) in
      \<lparr> me_entries = AList.update key snapshot (me_entries st1),
        me_expirations = btm_insert expiry (List.insert key keys) (me_expirations st1) \<rparr>)"

section \<open>The store operations\<close>

text \<open>The mutex around the state, which a panic of the clock poisons.\<close>

record MemoryMutex =
  mx_poisoned :: bool
  mx_state :: MemoryState

definition with_lock :: "(MemoryState \<Rightarrow> 'a AuthResult \<times> MemoryState) \<Rightarrow> MemoryMutex \<Rightarrow> 'a AuthResult \<times> MemoryMutex" where
  "with_lock f mx =
     (if mx_poisoned mx then (Inl AuthServiceUnavailable, mx)
      else (case f (mx_state mx) of (r, st) \<Rightarrow> (r, mx \<lparr> mx_state := st \<rparr>)))"

definition memory_purge_expired :: "time \<Rightarrow> MemoryMutex \<Rightarrow> nat AuthResult \<times> MemoryMutex" where
  "memory_purge_expired now =
     with_lock (\<lambda>st. case MemoryState_purge_expired now st of (n, st') \<Rightarrow> (Inr n, st'))"

definition memory_find ::
  "time \<Rightarrow> AuthRateLimitKey \<Rightarrow> MemoryMutex \<Rightarrow> AuthRateLimitSnapshot option AuthResult \<times> MemoryMutex" where
  "memory_find now key =
     with_lock (\<lambda>st. case MemoryState_purge_expired now st of
       (_, st') \<Rightarrow> (Inr (map_of (me_entries st') key), st'))"

definition memory_compare_exchange ::
  "nat \<Rightarrow> time \<Rightarrow> AuthRateLimitKey \<Rightarrow> uuid option \<Rightarrow> AuthRateLimitSnapshot \<Rightarrow> MemoryMutex \<Rightarrow>
   bool AuthResult \<times> MemoryMutex" where
  "memory_compare_exchange capacity now key expected_revision replacement mx =
     (if rs_key (sn_state replacement) \<noteq> key
      then (Inl (Store ''rate-limit replacement key does not match compare key''), mx)
      else with_lock (\<lambda>st.
        case MemoryState_purge_expired now st of (_, st') \<Rightarrow>
          if map_option sn_revision (map_of (me_entries st') key) \<noteq> expected_revision
          then (Inr False, st')
          else if rs_expires_at (sn_state replacement) \<le> now
          then (Inl (Store ''rate-limit replacement is already expired under store clock''), st')
          else if map_of (me_entries st') key = None \<and> length (me_entries st') \<ge> capacity
          then (Inl AuthServiceUnavailable, st')
          else (Inr True, MemoryState_insert key replacement st')) mx)"

definition memory_clear ::
  "time \<Rightarrow> AuthRateLimitKey \<Rightarrow> uuid option \<Rightarrow> MemoryMutex \<Rightarrow> bool AuthResult \<times> MemoryMutex" where
  "memory_clear now key expected_revision =
     with_lock (\<lambda>st.
       case MemoryState_purge_expired now st of (_, st') \<Rightarrow>
         if map_option sn_revision (map_of (me_entries st') key) \<noteq> expected_revision
         then (Inr False, st')
         else if expected_revision \<noteq> None then (Inr True, MemoryState_remove key st')
         else (Inr True, st'))"

definition MemoryAuthRateLimitStore :: "nat \<Rightarrow> MemoryMutex AuthRateLimitStore" where
  "MemoryAuthRateLimitStore capacity =
     \<lparr> find_auth_rate_limit_state = memory_find,
       compare_exchange_auth_rate_limit_state = memory_compare_exchange capacity,
       clear_auth_rate_limit_state = memory_clear \<rparr>"

section \<open>Invariant\<close>

definition indexed :: "(time \<times> AuthRateLimitKey list) list \<Rightarrow> time \<Rightarrow> AuthRateLimitKey \<Rightarrow> bool" where
  "indexed ex t k \<longleftrightarrow> (\<exists>ks. (t, ks) \<in> set ex \<and> k \<in> set ks)"

text \<open>Keys are unique, the index is ordered with non-empty buckets, and it lists a key under
  a time exactly when the key's entry expires then.\<close>

definition mem_inv :: "MemoryState \<Rightarrow> bool" where
  "mem_inv st \<longleftrightarrow>
     distinct (map fst (me_entries st)) \<and>
     btm_wf (me_expirations st) \<and>
     (\<forall>(t, ks) \<in> set (me_expirations st). ks \<noteq> [] \<and> distinct ks) \<and>
     (\<forall>k t. indexed (me_expirations st) t k \<longleftrightarrow>
        (\<exists>s. map_of (me_entries st) k = Some s \<and> rs_expires_at (sn_state s) = t)) \<and>
     (\<forall>k s. map_of (me_entries st) k = Some s \<longrightarrow> rs_key (sn_state s) = k)"

lemma mem_inv_default: "mem_inv MemoryState_default"
  by (simp add: mem_inv_def MemoryState_default_def indexed_def)

subsection \<open>Purging\<close>

lemma remove_keys_entries:
  "snd (remove_keys ks n es) = filter (\<lambda>(k, _). k \<notin> set ks) es"
proof (induction ks n es rule: remove_keys.induct)
  case (1 n es)
  show ?case by (simp add: case_prod_beta)
next
  case (2 k ks n es)
  then show ?case
    by (auto simp: AList.delete_eq case_prod_beta intro!: filter_cong)
qed

lemma length_delete_distinct:
  assumes "distinct (map fst es)"
  shows "length (AList.delete k es) + (if map_of es k \<noteq> None then 1 else 0) = length es"
  using assms
proof (induction es)
  case (Cons e es)
  show ?case
  proof (cases "fst e = k")
    case True
    with Cons.prems have "k \<notin> fst ` set es" by auto
    then have "AList.delete k es = es" by (simp add: AList.delete_eq filter_id_conv image_iff) force
    with True show ?thesis by (cases e) (simp add: AList.delete_eq)
  next
    case False
    with Cons show ?thesis by (cases e) (simp add: AList.delete_eq)
  qed
qed (simp add: AList.delete_eq)

lemma remove_keys_count:
  "distinct (map fst es) \<Longrightarrow>
   fst (remove_keys ks n es) + length (snd (remove_keys ks n es)) = n + length es"
proof (induction ks n es rule: remove_keys.induct)
  case (2 k ks n es)
  have "distinct (map fst (AList.delete k es))"
    using "2.prems" by (simp add: distinct_delete)
  with 2 length_delete_distinct [OF "2.prems", of k] show ?case by (simp split: if_splits)
qed simp

definition expired_keys :: "time \<Rightarrow> (time \<times> AuthRateLimitKey list) list \<Rightarrow> AuthRateLimitKey set" where
  "expired_keys now ex = (\<Union>(t, ks) \<in> set (takeWhile (\<lambda>(t, _). t \<le> now) ex). set ks)"

lemma purge_loop_eq:
  "snd (purge_loop now n es ex) =
     (filter (\<lambda>(k, _). k \<notin> expired_keys now ex) es, dropWhile (\<lambda>(t, _). t \<le> now) ex)"
proof (induction now n es ex rule: purge_loop.induct)
  case (1 now n es)
  show ?case by (simp add: expired_keys_def case_prod_beta)
next
  case (2 now n es t ks ex)
  show ?case
  proof (cases "t \<le> now")
    case True
    obtain n' es' where r: "remove_keys ks n es = (n', es')" by (cases "remove_keys ks n es")
    with remove_keys_entries [of ks n es] have es': "es' = filter (\<lambda>(k, _). k \<notin> set ks) es" by simp
    with 2 True r show ?thesis
      by (auto simp: expired_keys_def case_prod_beta intro!: filter_cong)
  next
    case False
    then show ?thesis by (simp add: expired_keys_def case_prod_beta)
  qed
qed

lemma purge_loop_count:
  "distinct (map fst es) \<Longrightarrow>
   fst (purge_loop now n es ex) + length (fst (snd (purge_loop now n es ex))) = n + length es"
proof (induction now n es ex rule: purge_loop.induct)
  case (2 now n es t ks ex)
  obtain n' es' where r: "remove_keys ks n es = (n', es')" by (cases "remove_keys ks n es")
  with remove_keys_count [OF "2.prems", of ks n] have c: "n' + length es' = n + length es" by simp
  have "distinct (map fst es')"
    using "2.prems" remove_keys_entries [of ks n es] r by (simp add: distinct_map_filter)
  with 2 r c show ?case by simp
qed simp

lemma sorted_takeWhile_filter:
  assumes "btm_wf (ex :: (time \<times> 'b) list)"
  shows "takeWhile (\<lambda>(t, _). t \<le> now) ex = filter (\<lambda>(t, _). t \<le> now) ex \<and>
         dropWhile (\<lambda>(t, _). t \<le> now) ex = filter (\<lambda>(t, _). now < t) ex"
  using assms
proof (induction ex)
  case (Cons e ex)
  obtain t ks where e: "e = (t, ks)" by (cases e)
  from Cons.prems e have later: "\<forall>(t', _) \<in> set ex. t < t'" and wf: "btm_wf ex"
    by (auto simp: btm_wf_def)
  show ?case
  proof (cases "t \<le> now")
    case True
    with Cons.IH [OF wf] e show ?thesis by simp
  next
    case False
    with later have "filter (\<lambda>(t, _). t \<le> now) ex = []" "filter (\<lambda>(t, _). now < t) ex = ex"
      by (fastforce simp: filter_empty_conv filter_id_conv)+
    with False e show ?thesis by simp
  qed
qed simp

lemma expired_keys_iff:
  "btm_wf ex \<Longrightarrow> k \<in> expired_keys now ex \<longleftrightarrow> (\<exists>t \<le> now. indexed ex t k)"
  by (auto simp: expired_keys_def indexed_def sorted_takeWhile_filter case_prod_beta)

text \<open>The entries still alive at a time, as a partial map.\<close>

definition ttl_live :: "time \<Rightarrow> ('k \<rightharpoonup> AuthRateLimitSnapshot) \<Rightarrow> 'k \<rightharpoonup> AuthRateLimitSnapshot" where
  "ttl_live now m = (\<lambda>k. filter_option (\<lambda>s. now < rs_expires_at (sn_state s)) (m k))"

lemma map_of_filter_keys: "map_of (filter (\<lambda>(k, _). k \<notin> A) es) = (\<lambda>k. if k \<in> A then None else map_of es k)"
  by (induction es) (auto simp: fun_eq_iff)

lemma purge_entries:
  assumes inv: "mem_inv st" and p: "MemoryState_purge_expired now st = (n, st')"
  shows "map_of (me_entries st') = ttl_live now (map_of (me_entries st))"
    and "mem_inv st'"
    and "n = length (me_entries st) - length (me_entries st')"
    and "length (me_entries st') \<le> length (me_entries st)"
proof -
  let ?es = "me_entries st" and ?ex = "me_expirations st"
  have wf: "btm_wf ?ex" using inv by (simp add: mem_inv_def)
  have idx: "indexed ?ex t k \<longleftrightarrow> (\<exists>s. map_of ?es k = Some s \<and> rs_expires_at (sn_state s) = t)" for t k
    using inv by (simp add: mem_inv_def)
  have es': "me_entries st' = filter (\<lambda>(k, _). k \<notin> expired_keys now ?ex) ?es"
    and ex': "me_expirations st' = filter (\<lambda>(t, _). now < t) ?ex"
    using p purge_loop_eq [of now 0 ?es ?ex] sorted_takeWhile_filter [OF wf]
    by (auto simp: MemoryState_purge_expired_def split: prod.splits)
  have dead: "k \<in> expired_keys now ?ex \<longleftrightarrow>
      (\<exists>s. map_of ?es k = Some s \<and> rs_expires_at (sn_state s) \<le> now)" for k
    using idx by (auto simp: expired_keys_iff [OF wf])
  show m: "map_of (me_entries st') = ttl_live now (map_of ?es)"
    unfolding es' map_of_filter_keys ttl_live_def
    by (rule ext) (auto simp: dead filter_option_def not_less split: option.splits)
  have ix': "indexed (me_expirations st') t k \<longleftrightarrow> now < t \<and> indexed ?ex t k" for t k
    unfolding ex' indexed_def by auto
  have "btm_wf (me_expirations st')"
    using wf unfolding ex' btm_wf_def by (simp add: sorted_wrt_map sorted_wrt_filter)
  moreover have "indexed (me_expirations st') t k \<longleftrightarrow>
      (\<exists>s. map_of (me_entries st') k = Some s \<and> rs_expires_at (sn_state s) = t)" for t k
    unfolding ix' idx m ttl_live_def by auto
  moreover have "distinct (map fst (me_entries st'))"
    using inv unfolding es' mem_inv_def by (simp add: distinct_map_filter)
  moreover have "\<forall>(t, ks) \<in> set (me_expirations st'). ks \<noteq> [] \<and> distinct ks"
    using inv unfolding ex' mem_inv_def by auto
  moreover have "\<forall>k s. map_of (me_entries st') k = Some s \<longrightarrow> rs_key (sn_state s) = k"
    using inv unfolding m mem_inv_def ttl_live_def by simp
  ultimately show "mem_inv st'" by (simp add: mem_inv_def)
  show "length (me_entries st') \<le> length ?es" by (simp add: es')
  have "n + length (me_entries st') = length ?es"
    using purge_loop_count [of ?es now 0 ?ex] inv p
    by (auto simp: MemoryState_purge_expired_def mem_inv_def split: prod.splits)
  then show "n = length ?es - length (me_entries st')" by simp
qed

subsection \<open>Removing and inserting\<close>

lemma map_of_eq_Some_iff_btm: "btm_wf m \<Longrightarrow> map_of m t = Some ks \<longleftrightarrow> (t, ks) \<in> set m"
  by (rule map_of_eq_Some_iff) (simp add: btm_wf_distinct)

lemma set_btm_insert:
  "btm_wf m \<Longrightarrow> set (btm_insert t v m) = insert (t, v) {e \<in> set m. fst e \<noteq> t}"
proof -
  assume wf: "btm_wf m"
  have "(t', v') \<in> set (btm_insert t v m) \<longleftrightarrow> (t', v') \<in> insert (t, v) {e \<in> set m. fst e \<noteq> t}" for t' v'
    unfolding map_of_eq_Some_iff_btm [OF btm_insert_wf [OF wf], symmetric] map_of_btm_insert [OF wf]
    using map_of_eq_Some_iff_btm [OF wf, of t' v'] by auto
  then show ?thesis by auto
qed

lemma indexed_btm_insert:
  "btm_wf ex \<Longrightarrow>
   indexed (btm_insert t ks ex) t' k \<longleftrightarrow> (if t' = t then k \<in> set ks else indexed ex t' k)"
  by (auto simp: indexed_def set_btm_insert)

lemma indexed_delete:
  "indexed (AList.delete t ex) t' k \<longleftrightarrow> t' \<noteq> t \<and> indexed ex t' k"
  by (auto simp: indexed_def AList.delete_eq)

lemma indexed_map_of: "btm_wf ex \<Longrightarrow> map_of ex t = Some ks \<Longrightarrow> indexed ex t k \<longleftrightarrow> k \<in> set ks"
  unfolding indexed_def map_of_eq_Some_iff_btm [symmetric] by auto

lemma indexed_map_of_None: "btm_wf ex \<Longrightarrow> map_of ex t = None \<Longrightarrow> \<not> indexed ex t k"
  using map_of_eq_Some_iff_btm [of ex t] by (auto simp: indexed_def)

lemma btm_wf_delete: "btm_wf ex \<Longrightarrow> btm_wf (AList.delete t ex)"
  by (simp add: btm_wf_def AList.delete_eq sorted_wrt_map sorted_wrt_filter)

lemma remove_correct:
  assumes inv: "mem_inv st"
  shows "map_of (me_entries (MemoryState_remove key st)) = (map_of (me_entries st))(key := None)"
    and "mem_inv (MemoryState_remove key st)"
    and "length (me_entries (MemoryState_remove key st)) =
           length (me_entries st) - (if map_of (me_entries st) key = None then 0 else 1)"
proof -
  let ?es = "me_entries st" and ?ex = "me_expirations st" and ?st = "MemoryState_remove key st"
  have wf: "btm_wf ?ex" and dist: "distinct (map fst ?es)"
    and idx: "\<And>t k. indexed ?ex t k \<longleftrightarrow> (\<exists>s. map_of ?es k = Some s \<and> rs_expires_at (sn_state s) = t)"
    and buckets: "\<forall>(t, ks) \<in> set ?ex. ks \<noteq> [] \<and> distinct ks"
    and own: "\<forall>k s. map_of ?es k = Some s \<longrightarrow> rs_key (sn_state s) = k"
    using inv by (auto simp: mem_inv_def)
  show m: "map_of (me_entries ?st) = (map_of ?es)(key := None)"
    by (auto simp: MemoryState_remove_def Let_def AList.delete_conv fun_eq_iff split: option.splits)
  show "length (me_entries ?st) = length ?es - (if map_of ?es key = None then 0 else 1)"
    using length_delete_distinct [OF dist, of key]
    by (auto simp: MemoryState_remove_def Let_def split: option.splits)
  show "mem_inv ?st"
  proof (cases "map_of ?es key")
    case None
    then show ?thesis using inv by (simp add: MemoryState_remove_def)
  next
    case (Some s)
    let ?t = "rs_expires_at (sn_state s)"
    have "indexed ?ex ?t key" using Some idx by blast
    then obtain ks where ks: "map_of ?ex ?t = Some ks"
      using indexed_map_of_None [OF wf] by (cases "map_of ?ex ?t") auto
    have ex: "me_expirations ?st =
        (if removeAll key ks = [] then AList.delete ?t ?ex else btm_insert ?t (removeAll key ks) ?ex)"
      using Some ks by (simp add: MemoryState_remove_def Let_def)
    have es: "me_entries ?st = AList.delete key ?es"
      using Some ks by (simp add: MemoryState_remove_def Let_def)
    have ksd: "distinct ks" using buckets map_of_SomeD [OF ks] by auto
    have ix: "indexed (me_expirations ?st) t k \<longleftrightarrow> indexed ?ex t k \<and> k \<noteq> key" for t k
    proof (cases "t = ?t")
      case True
      then show ?thesis
        using indexed_map_of [OF wf ks, of k]
        by (auto simp: ex indexed_delete indexed_btm_insert [OF wf] removeAll_filter_not_eq filter_empty_conv)
    next
      case False
      then have "\<not> indexed ?ex t key" using idx Some by auto
      with False show ?thesis
        by (auto simp: ex indexed_delete indexed_btm_insert [OF wf])
    qed
    have "btm_wf (me_expirations ?st)" by (simp add: ex wf btm_wf_delete)
    moreover have "\<forall>(t, ks) \<in> set (me_expirations ?st). ks \<noteq> [] \<and> distinct ks"
      using buckets ksd by (auto simp: ex set_btm_insert [OF wf] AList.delete_eq distinct_removeAll)
    moreover have "indexed (me_expirations ?st) t k \<longleftrightarrow>
        (\<exists>s. map_of (me_entries ?st) k = Some s \<and> rs_expires_at (sn_state s) = t)" for t k
      unfolding ix idx m by auto
    moreover have "distinct (map fst (me_entries ?st))" using dist by (simp add: es distinct_delete)
    moreover have "\<forall>k s. map_of (me_entries ?st) k = Some s \<longrightarrow> rs_key (sn_state s) = k"
      unfolding m using own by simp
    ultimately show ?thesis by (simp add: mem_inv_def)
  qed
qed

lemma length_update_fresh: "map_of es k = None \<Longrightarrow> length (AList.update k v es) = Suc (length es)"
  by (induction es) (auto split: if_splits)

lemma insert_ne_Nil: "List.insert x xs \<noteq> []"
  by (cases xs) (simp_all add: List.insert_def)

lemma insert_correct:
  assumes inv: "mem_inv st" and own: "rs_key (sn_state snap) = key"
  shows "map_of (me_entries (MemoryState_insert key snap st)) = (map_of (me_entries st))(key \<mapsto> snap)"
    and "mem_inv (MemoryState_insert key snap st)"
    and "length (me_entries (MemoryState_insert key snap st)) =
           length (me_entries st) + (if map_of (me_entries st) key = None then 1 else 0)"
proof -
  let ?st1 = "MemoryState_remove key st" and ?st = "MemoryState_insert key snap st"
  let ?es = "me_entries ?st1" and ?ex = "me_expirations ?st1"
  let ?t = "rs_expires_at (sn_state snap)"
  let ?ks = "case map_of ?ex ?t of None \<Rightarrow> [] | Some ks \<Rightarrow> ks"
  note r = remove_correct [OF inv, of key]
  have wf: "btm_wf ?ex" and dist: "distinct (map fst ?es)"
    and idx: "\<And>t k. indexed ?ex t k \<longleftrightarrow> (\<exists>s. map_of ?es k = Some s \<and> rs_expires_at (sn_state s) = t)"
    and buckets: "\<forall>(t, ks) \<in> set ?ex. ks \<noteq> [] \<and> distinct ks"
    and owns: "\<forall>k s. map_of ?es k = Some s \<longrightarrow> rs_key (sn_state s) = k"
    using r(2) by (auto simp: mem_inv_def)
  have es: "me_entries ?st = AList.update key snap ?es"
    and ex: "me_expirations ?st = btm_insert ?t (List.insert key ?ks) ?ex"
    by (simp_all add: MemoryState_insert_def Let_def)
  show m: "map_of (me_entries ?st) = (map_of (me_entries st))(key \<mapsto> snap)"
    by (simp add: es AList.update_conv' r(1))
  have none: "map_of ?es key = None" by (simp add: r(1))
  then have "length (me_entries ?st) = Suc (length ?es)"
    by (simp add: es length_update_fresh)
  with r(3) show "length (me_entries ?st) =
      length (me_entries st) + (if map_of (me_entries st) key = None then 1 else 0)"
    by (cases "me_entries st") auto
  have ksix: "k \<in> set ?ks \<longleftrightarrow> indexed ?ex ?t k" for k
    using indexed_map_of [OF wf, of ?t _ k] indexed_map_of_None [OF wf, of ?t k]
    by (cases "map_of ?ex ?t") auto
  have ksd: "distinct ?ks"
    using buckets by (auto split: option.splits dest: map_of_SomeD)
  have "btm_wf (me_expirations ?st)" by (simp add: ex wf)
  moreover have "\<forall>(t, ks) \<in> set (me_expirations ?st). ks \<noteq> [] \<and> distinct ks"
    using buckets ksd by (auto simp: ex set_btm_insert [OF wf] insert_ne_Nil distinct_insert)
  moreover have "indexed (me_expirations ?st) t k \<longleftrightarrow>
      (\<exists>s. map_of (me_entries ?st) k = Some s \<and> rs_expires_at (sn_state s) = t)" for t k
    unfolding ex indexed_btm_insert [OF wf] m List.set_insert insert_iff ksix
    using idx none r(1) by auto
  moreover have "distinct (map fst (me_entries ?st))" using dist by (simp add: es distinct_update)
  moreover have "\<forall>k s. map_of (me_entries ?st) k = Some s \<longrightarrow> rs_key (sn_state s) = k"
    using inv own by (auto simp: m mem_inv_def)
  ultimately show "mem_inv ?st" by (simp add: mem_inv_def)
qed

section \<open>The store as a time-to-live map\<close>

text \<open>The abstract specification: a partial map whose expired entries vanish, with an
  optimistic compare-and-swap on revisions and a bound on the number of keys.\<close>

type_synonym ttl_map = "AuthRateLimitKey \<rightharpoonup> AuthRateLimitSnapshot"

definition ttl_find :: "time \<Rightarrow> AuthRateLimitKey \<Rightarrow> ttl_map \<Rightarrow> AuthRateLimitSnapshot option AuthResult \<times> ttl_map" where
  "ttl_find now key m = (Inr (ttl_live now m key), ttl_live now m)"

definition ttl_compare_exchange ::
  "nat \<Rightarrow> time \<Rightarrow> AuthRateLimitKey \<Rightarrow> uuid option \<Rightarrow> AuthRateLimitSnapshot \<Rightarrow> ttl_map \<Rightarrow>
   bool AuthResult \<times> ttl_map" where
  "ttl_compare_exchange capacity now key expected repl m =
     (let live = ttl_live now m in
      if rs_key (sn_state repl) \<noteq> key
      then (Inl (Store ''rate-limit replacement key does not match compare key''), m)
      else if map_option sn_revision (live key) \<noteq> expected then (Inr False, live)
      else if rs_expires_at (sn_state repl) \<le> now
      then (Inl (Store ''rate-limit replacement is already expired under store clock''), live)
      else if live key = None \<and> capacity \<le> card (dom live) then (Inl AuthServiceUnavailable, live)
      else (Inr True, live(key \<mapsto> repl)))"

definition ttl_clear ::
  "time \<Rightarrow> AuthRateLimitKey \<Rightarrow> uuid option \<Rightarrow> ttl_map \<Rightarrow> bool AuthResult \<times> ttl_map" where
  "ttl_clear now key expected m =
     (let live = ttl_live now m in
      if map_option sn_revision (live key) \<noteq> expected then (Inr False, live)
      else (Inr True, live(key := None)))"

definition mem_abs :: "MemoryMutex \<Rightarrow> ttl_map" where
  "mem_abs mx = map_of (me_entries (mx_state mx))"

definition mem_ok :: "MemoryMutex \<Rightarrow> bool" where
  "mem_ok mx \<longleftrightarrow> mem_inv (mx_state mx)"

definition mem_size :: "MemoryMutex \<Rightarrow> nat" where
  "mem_size mx = length (me_entries (mx_state mx))"

lemma mem_size_card: "mem_ok mx \<Longrightarrow> mem_size mx = card (dom (mem_abs mx))"
proof -
  assume "mem_ok mx"
  then have "distinct (map fst (me_entries (mx_state mx)))"
    by (simp add: mem_ok_def mem_inv_def)
  then show ?thesis
    by (simp add: mem_size_def mem_abs_def dom_map_of_conv_image_fst distinct_card
        flip: set_map)
qed

lemma memory_find_correct:
  assumes "mem_ok mx" and "\<not> mx_poisoned mx" and "memory_find now key mx = (r, mx')"
  shows "(r, mem_abs mx') = ttl_find now key (mem_abs mx) \<and> mem_ok mx' \<and>
         mem_size mx' \<le> mem_size mx \<and> \<not> mx_poisoned mx'"
proof -
  obtain n st where p: "MemoryState_purge_expired now (mx_state mx) = (n, st)"
    by (cases "MemoryState_purge_expired now (mx_state mx)")
  with assms purge_entries [OF _ p] show ?thesis
    by (auto simp: memory_find_def with_lock_def mem_ok_def mem_abs_def mem_size_def ttl_find_def)
qed

lemma memory_compare_exchange_correct:
  assumes "mem_ok mx" and "\<not> mx_poisoned mx"
    and "memory_compare_exchange capacity now key expected repl mx = (r, mx')"
  shows "(r, mem_abs mx') = ttl_compare_exchange capacity now key expected repl (mem_abs mx) \<and>
         mem_ok mx' \<and> mem_size mx' \<le> max capacity (mem_size mx) \<and> \<not> mx_poisoned mx'"
proof (cases "rs_key (sn_state repl) = key")
  case False
  with assms show ?thesis
    by (auto simp: memory_compare_exchange_def ttl_compare_exchange_def Let_def)
next
  case own: True
  obtain n st where p: "MemoryState_purge_expired now (mx_state mx) = (n, st)"
    by (cases "MemoryState_purge_expired now (mx_state mx)")
  have inv: "mem_inv st" and m: "map_of (me_entries st) = ttl_live now (mem_abs mx)"
    and le: "length (me_entries st) \<le> mem_size mx"
    using purge_entries [OF _ p] assms(1) by (auto simp: mem_ok_def mem_abs_def mem_size_def)
  have card: "length (me_entries st) = card (dom (ttl_live now (mem_abs mx)))"
    using mem_size_card [of "\<lparr> mx_poisoned = False, mx_state = st \<rparr>"] inv m
    by (simp add: mem_ok_def mem_size_def mem_abs_def)
  from assms p own show ?thesis
    using insert_correct [OF inv own] inv le m
    by (auto simp: memory_compare_exchange_def with_lock_def ttl_compare_exchange_def Let_def
        mem_ok_def mem_abs_def mem_size_def card split: if_splits)
qed

lemma memory_clear_correct:
  assumes "mem_ok mx" and "\<not> mx_poisoned mx" and "memory_clear now key expected mx = (r, mx')"
  shows "(r, mem_abs mx') = ttl_clear now key expected (mem_abs mx) \<and> mem_ok mx' \<and>
         mem_size mx' \<le> mem_size mx \<and> \<not> mx_poisoned mx'"
proof -
  obtain n st where p: "MemoryState_purge_expired now (mx_state mx) = (n, st)"
    by (cases "MemoryState_purge_expired now (mx_state mx)")
  have inv: "mem_inv st" and m: "map_of (me_entries st) = ttl_live now (mem_abs mx)"
    and le: "length (me_entries st) \<le> mem_size mx"
    using purge_entries [OF _ p] assms(1) by (auto simp: mem_ok_def mem_abs_def mem_size_def)
  from assms(2,3) p have "(r, mx') =
      (if map_option sn_revision (ttl_live now (mem_abs mx) key) \<noteq> expected
       then (Inr False, mx \<lparr> mx_state := st \<rparr>)
       else (Inr True, mx \<lparr> mx_state := if expected \<noteq> None then MemoryState_remove key st else st \<rparr>))"
    by (auto simp: memory_clear_def with_lock_def m split: if_splits)
  moreover have "expected = None \<Longrightarrow> map_option sn_revision (ttl_live now (mem_abs mx) key) = expected \<Longrightarrow>
      (ttl_live now (mem_abs mx))(key := None) = ttl_live now (mem_abs mx)"
    by auto
  ultimately show ?thesis
    using remove_correct [OF inv, of key] inv le m assms(2)
    by (auto simp: ttl_clear_def Let_def mem_ok_def mem_abs_def mem_size_def split: if_splits)
qed

text \<open>C23: refinement. On a healthy store whose index invariant holds, each of the three
  trait operations of the in-memory store computes exactly the answer of the abstract
  time-to-live map, moves its table to the abstract successor, and re-establishes the
  invariant; in particular a compare-and-swap succeeds only on the expected revision, never
  disturbs another live key, and refuses a new key once the live keys fill the capacity.\<close>

theorem memory_store_refines_ttl_map:
  assumes "mem_ok mx" and "\<not> mx_poisoned mx"
  shows "(memory_find now key mx = (r1, mx1) \<longrightarrow>
            (r1, mem_abs mx1) = ttl_find now key (mem_abs mx) \<and> mem_ok mx1) \<and>
         (memory_compare_exchange capacity now key expected repl mx = (r2, mx2) \<longrightarrow>
            (r2, mem_abs mx2) = ttl_compare_exchange capacity now key expected repl (mem_abs mx) \<and>
            mem_ok mx2) \<and>
         (memory_clear now key expected mx = (r3, mx3) \<longrightarrow>
            (r3, mem_abs mx3) = ttl_clear now key expected (mem_abs mx) \<and> mem_ok mx3)"
  using memory_find_correct [OF assms] memory_compare_exchange_correct [OF assms]
    memory_clear_correct [OF assms]
  by blast

definition healthy_empty :: MemoryMutex where
  "healthy_empty = \<lparr> mx_poisoned = False, mx_state = MemoryState_default \<rparr>"

definition demo_key :: AuthRateLimitKey where
  "demo_key = \<lparr> rk_flow = PasswordLogin, rk_bucket = Principal, rk_value_hash = ''k'' \<rparr>"

definition demo_snapshot :: AuthRateLimitSnapshot where
  "demo_snapshot =
     \<lparr> sn_state = \<lparr> rs_key = demo_key, rs_attempts = 1, rs_first_attempt_at = 0,
         rs_last_attempt_at = 0, rs_backoff_until = None, rs_locked_until = None,
         rs_expires_at = 10 \<rparr>,
       sn_revision = 7 \<rparr>"

lemma memory_store_refines_ttl_map_witness:
  "\<exists>mx2. memory_compare_exchange 1 5 demo_key None demo_snapshot healthy_empty = (Inr True, mx2) \<and>
     mem_abs mx2 = [demo_key \<mapsto> demo_snapshot] \<and> mem_ok mx2"
proof -
  have ok: "mem_ok healthy_empty" "\<not> mx_poisoned healthy_empty"
    using mem_inv_default by (simp_all add: mem_ok_def healthy_empty_def)
  obtain r mx2 where c: "memory_compare_exchange 1 5 demo_key None demo_snapshot healthy_empty = (r, mx2)"
    by (cases "memory_compare_exchange 1 5 demo_key None demo_snapshot healthy_empty")
  have "(r, mem_abs mx2) = ttl_compare_exchange 1 5 demo_key None demo_snapshot (mem_abs healthy_empty)"
    and "mem_ok mx2"
    using memory_store_refines_ttl_map [OF ok] c by blast+
  then show ?thesis
    using c by (auto simp: ttl_compare_exchange_def ttl_live_def mem_abs_def healthy_empty_def
        MemoryState_default_def demo_snapshot_def)
qed

section \<open>Reachable stores stay bounded\<close>

text \<open>Every operation any task may perform on a shared store of a given capacity, at any
  clock reading, and the poisoning of its mutex.\<close>

inductive mem_reach :: "nat \<Rightarrow> MemoryMutex \<Rightarrow> bool" for capacity where
  init: "mem_reach capacity \<lparr> mx_poisoned = False, mx_state = MemoryState_default \<rparr>"
| purge: "mem_reach capacity mx \<Longrightarrow> memory_purge_expired now mx = (r, mx') \<Longrightarrow> mem_reach capacity mx'"
| find: "mem_reach capacity mx \<Longrightarrow> memory_find now key mx = (r, mx') \<Longrightarrow> mem_reach capacity mx'"
| swap: "mem_reach capacity mx \<Longrightarrow>
    memory_compare_exchange capacity now key expected repl mx = (r, mx') \<Longrightarrow> mem_reach capacity mx'"
| clear: "mem_reach capacity mx \<Longrightarrow> memory_clear now key expected mx = (r, mx') \<Longrightarrow> mem_reach capacity mx'"
| poison: "mem_reach capacity mx \<Longrightarrow> mem_reach capacity (mx \<lparr> mx_poisoned := True \<rparr>)"

lemma poisoned_unchanged:
  "mx_poisoned mx \<Longrightarrow> with_lock f mx = (Inl AuthServiceUnavailable, mx)"
  by (simp add: with_lock_def)

lemma memory_purge_correct:
  assumes "mem_ok mx" and "memory_purge_expired now mx = (r, mx')"
  shows "mem_ok mx' \<and> mem_size mx' \<le> mem_size mx \<and>
         (\<not> mx_poisoned mx \<longrightarrow> mem_abs mx' = ttl_live now (mem_abs mx) \<and>
            r = Inr (mem_size mx - mem_size mx'))"
proof -
  obtain n st where p: "MemoryState_purge_expired now (mx_state mx) = (n, st)"
    by (cases "MemoryState_purge_expired now (mx_state mx)")
  from assms p purge_entries [OF _ p] show ?thesis
    by (auto simp: memory_purge_expired_def with_lock_def mem_ok_def mem_abs_def mem_size_def
        split: if_splits)
qed

lemma mem_reach_inv: "mem_reach capacity mx \<Longrightarrow> mem_ok mx \<and> mem_size mx \<le> capacity"
proof (induction rule: mem_reach.induct)
  case init
  then show ?case
    using mem_inv_default by (simp add: mem_ok_def mem_size_def) (simp add: MemoryState_default_def)
next
  case (purge mx now r mx')
  then show ?case using memory_purge_correct [of mx now r mx'] by auto
next
  case (find mx now key r mx')
  then show ?case
    using memory_find_correct [of mx now key r mx']
    by (cases "mx_poisoned mx") (auto simp: memory_find_def poisoned_unchanged)
next
  case (swap mx now key expected repl r mx')
  then show ?case
    using memory_compare_exchange_correct [of mx capacity now key expected repl r mx']
    by (cases "mx_poisoned mx")
      (auto simp: memory_compare_exchange_def poisoned_unchanged split: if_splits)
next
  case (clear mx now key expected r mx')
  then show ?case
    using memory_clear_correct [of mx now key expected r mx']
    by (cases "mx_poisoned mx") (auto simp: memory_clear_def poisoned_unchanged)
next
  case (poison mx)
  then show ?case by (simp add: mem_ok_def mem_size_def)
qed

lemma distinct_concat_buckets:
  assumes "btm_wf ex" "\<forall>(t, ks) \<in> set ex. distinct ks"
    and "\<And>t t' k. indexed ex t k \<Longrightarrow> indexed ex t' k \<Longrightarrow> t = t'"
  shows "distinct (concat (map snd ex))"
  using assms
proof (induction ex)
  case (Cons e ex)
  obtain t ks where e: "e = (t, ks)" by (cases e)
  have wf: "btm_wf ex" and lt: "\<forall>(t', _) \<in> set ex. t < t'"
    using Cons.prems(1) e by (auto simp: btm_wf_def)
  have "indexed ex t' k \<Longrightarrow> indexed (e # ex) t' k" for t' k
    by (auto simp: indexed_def)
  then have "distinct (concat (map snd ex))"
    using Cons.IH wf Cons.prems(2,3) by (meson list.set_intros(2))
  moreover have "set ks \<inter> set (concat (map snd ex)) = {}"
  proof (rule ccontr)
    assume "\<not> ?thesis"
    then obtain k t' ks' where k: "k \<in> set ks" "(t', ks') \<in> set ex" "k \<in> set ks'" by auto
    then have "indexed (e # ex) t k" "indexed (e # ex) t' k"
      using e by (auto simp: indexed_def)
    with Cons.prems(3) have "t = t'" by blast
    with lt k(2) show False by auto
  qed
  ultimately show ?case using Cons.prems(2) e by auto
qed simp

lemma index_size:
  assumes "mem_inv st"
  shows "length (concat (map snd (me_expirations st))) = length (me_entries st)"
proof -
  let ?ks = "concat (map snd (me_expirations st))"
  have idx: "indexed (me_expirations st) t k \<longleftrightarrow>
      (\<exists>s. map_of (me_entries st) k = Some s \<and> rs_expires_at (sn_state s) = t)" for t k
    using assms by (simp add: mem_inv_def)
  have "distinct ?ks"
  proof (rule distinct_concat_buckets)
    show "btm_wf (me_expirations st)" "\<forall>(t, ks) \<in> set (me_expirations st). distinct ks"
      using assms by (auto simp: mem_inv_def)
    show "indexed (me_expirations st) t k \<Longrightarrow> indexed (me_expirations st) t' k \<Longrightarrow> t = t'" for t t' k
      unfolding idx by auto
  qed
  moreover have "set ?ks = fst ` set (me_entries st)"
  proof -
    have "k \<in> set ?ks \<longleftrightarrow> (\<exists>t. indexed (me_expirations st) t k)" for k
      by (force simp: indexed_def)
    then have "set ?ks = {k. map_of (me_entries st) k \<noteq> None}"
      using idx by auto
    then show ?thesis by (simp add: map_of_eq_None_iff)
  qed
  moreover have "distinct (map fst (me_entries st))"
    using assms by (simp add: mem_inv_def)
  ultimately show ?thesis
    by (metis distinct_card length_map set_map)
qed

text \<open>Boundedness. Whatever operations tasks perform on a shared in-memory store, with
  any keys and clock readings and even after its mutex was poisoned, the table never
  exceeds the configured capacity, and the expiry index holds exactly one entry per stored
  key (it does not grow with repeated updates).\<close>

theorem memory_store_bounded:
  assumes "mem_reach capacity mx"
  shows "length (me_entries (mx_state mx)) \<le> capacity \<and>
         length (concat (map snd (me_expirations (mx_state mx)))) = length (me_entries (mx_state mx)) \<and>
         distinct (map fst (me_entries (mx_state mx)))"
  using mem_reach_inv [OF assms] index_size [of "mx_state mx"]
  by (simp add: mem_ok_def mem_size_def mem_inv_def)

lemma memory_store_bounded_witness:
  "\<exists>mx. mem_reach 1 mx \<and> length (me_entries (mx_state mx)) = 1 \<and>
     length (concat (map snd (me_expirations (mx_state mx)))) = 1"
proof -
  obtain mx2 where c: "memory_compare_exchange 1 5 demo_key None demo_snapshot healthy_empty = (Inr True, mx2)"
    and "mem_size mx2 = 1"
    by (simp add: memory_compare_exchange_def healthy_empty_def with_lock_def
        MemoryState_purge_expired_def MemoryState_default_def demo_snapshot_def
        MemoryState_insert_def MemoryState_remove_def Let_def mem_size_def)
  moreover have "mem_reach 1 mx2"
    using mem_reach.swap [OF mem_reach.init] c by (simp add: healthy_empty_def)
  ultimately show ?thesis
    using memory_store_bounded [of 1 mx2] by (auto simp: mem_size_def)
qed

section \<open>The contract the service relies on\<close>

locale rate_limit_store =
  fixes S :: "'st AuthRateLimitStore"
    and lookup :: "'st \<Rightarrow> ttl_map"
    and ok :: "'st \<Rightarrow> bool"
  assumes find_law: "ok st \<Longrightarrow> find_auth_rate_limit_state S now k st = (found, st') \<Longrightarrow>
      ok st' \<and> ttl_live now (lookup st') = ttl_live now (lookup st) \<and> lookup st' \<subseteq>\<^sub>m lookup st \<and>
      (\<forall>x. found = Inr x \<longrightarrow> x = ttl_live now (lookup st) k \<and> lookup st' = ttl_live now (lookup st))"
    and cas_law: "ok st \<Longrightarrow>
      compare_exchange_auth_rate_limit_state S now k expected repl st = (r, st') \<Longrightarrow>
      ok st' \<and>
      (r = Inr True \<longrightarrow> map_option sn_revision (ttl_live now (lookup st) k) = expected \<and>
         now < rs_expires_at (sn_state repl) \<and> lookup st' = (ttl_live now (lookup st))(k \<mapsto> repl)) \<and>
      (r \<noteq> Inr True \<longrightarrow> ttl_live now (lookup st') = ttl_live now (lookup st) \<and> lookup st' \<subseteq>\<^sub>m lookup st) \<and>
      (r = Inr False \<longrightarrow> map_option sn_revision (ttl_live now (lookup st) k) \<noteq> expected)"
    and clear_law: "ok st \<Longrightarrow>
      clear_auth_rate_limit_state S now k expected st = (r, st') \<Longrightarrow>
      ok st' \<and>
      (r = Inr True \<longrightarrow> map_option sn_revision (ttl_live now (lookup st) k) = expected \<and>
         lookup st' = (ttl_live now (lookup st))(k := None)) \<and>
      (r \<noteq> Inr True \<longrightarrow> ttl_live now (lookup st') = ttl_live now (lookup st) \<and> lookup st' \<subseteq>\<^sub>m lookup st)"
    and own_key: "ok st \<Longrightarrow> lookup st k = Some s \<Longrightarrow> rs_key (sn_state s) = k"

lemma ttl_live_idem [simp]: "ttl_live now (ttl_live now m) = ttl_live now m"
  by (auto simp: ttl_live_def fun_eq_iff filter_option_def split: option.splits)

lemma ttl_live_le: "ttl_live now m \<subseteq>\<^sub>m m"
  by (auto simp: ttl_live_def map_le_def)

interpretation mem: rate_limit_store "MemoryAuthRateLimitStore capacity" mem_abs mem_ok for capacity
proof
  fix mx :: MemoryMutex and now k r mx'
  assume ok: "mem_ok mx"
    and f: "find_auth_rate_limit_state (MemoryAuthRateLimitStore capacity) now k mx = (r, mx')"
  show "mem_ok mx' \<and> ttl_live now (mem_abs mx') = ttl_live now (mem_abs mx) \<and>
      mem_abs mx' \<subseteq>\<^sub>m mem_abs mx \<and>
      (\<forall>x. r = Inr x \<longrightarrow> x = ttl_live now (mem_abs mx) k \<and> mem_abs mx' = ttl_live now (mem_abs mx))"
  proof (cases "mx_poisoned mx")
    case True
    with f ok show ?thesis
      by (auto simp: MemoryAuthRateLimitStore_def memory_find_def poisoned_unchanged)
  next
    case False
    with memory_find_correct [OF ok False] f show ?thesis
      by (auto simp: MemoryAuthRateLimitStore_def ttl_find_def ttl_live_le)
  qed
next
  fix mx :: MemoryMutex and now k expected repl r mx'
  assume ok: "mem_ok mx" and c: "compare_exchange_auth_rate_limit_state
      (MemoryAuthRateLimitStore capacity) now k expected repl mx = (r, mx')"
  show "mem_ok mx' \<and>
      (r = Inr True \<longrightarrow> map_option sn_revision (ttl_live now (mem_abs mx) k) = expected \<and>
         now < rs_expires_at (sn_state repl) \<and> mem_abs mx' = (ttl_live now (mem_abs mx))(k \<mapsto> repl)) \<and>
      (r \<noteq> Inr True \<longrightarrow> ttl_live now (mem_abs mx') = ttl_live now (mem_abs mx) \<and> mem_abs mx' \<subseteq>\<^sub>m mem_abs mx) \<and>
      (r = Inr False \<longrightarrow> map_option sn_revision (ttl_live now (mem_abs mx) k) \<noteq> expected)"
  proof (cases "mx_poisoned mx")
    case True
    with c ok show ?thesis
      by (auto simp: MemoryAuthRateLimitStore_def memory_compare_exchange_def poisoned_unchanged
          split: if_splits)
  next
    case False
    with memory_compare_exchange_correct [OF ok False, of capacity now k expected repl r mx'] c
    show ?thesis
      by (auto simp: MemoryAuthRateLimitStore_def ttl_compare_exchange_def Let_def ttl_live_le
          split: if_splits)
  qed
next
  fix mx :: MemoryMutex and now k expected r mx'
  assume ok: "mem_ok mx"
    and c: "clear_auth_rate_limit_state (MemoryAuthRateLimitStore capacity) now k expected mx = (r, mx')"
  show "mem_ok mx' \<and>
      (r = Inr True \<longrightarrow> map_option sn_revision (ttl_live now (mem_abs mx) k) = expected \<and>
         mem_abs mx' = (ttl_live now (mem_abs mx))(k := None)) \<and>
      (r \<noteq> Inr True \<longrightarrow> ttl_live now (mem_abs mx') = ttl_live now (mem_abs mx) \<and> mem_abs mx' \<subseteq>\<^sub>m mem_abs mx)"
  proof (cases "mx_poisoned mx")
    case True
    with c ok show ?thesis
      by (auto simp: MemoryAuthRateLimitStore_def memory_clear_def poisoned_unchanged)
  next
    case False
    with memory_clear_correct [OF ok False, of now k expected r mx'] c show ?thesis
      by (auto simp: MemoryAuthRateLimitStore_def ttl_clear_def Let_def ttl_live_le split: if_splits)
  qed
next
  fix mx k s assume "mem_ok mx" "mem_abs mx k = Some s"
  then show "rs_key (sn_state s) = k"
    by (simp add: mem_ok_def mem_abs_def mem_inv_def)
qed

end
