(* ===== verification/Rate_Limit.thy ===== *)
theory Rate_Limit
  imports Auth_Config Memory_Rate_Limit
begin

text \<open>
  The abuse protection of the authentication service (the rate-limit half of
  \<open>src/service.rs\<close>): bucket keys, the successor state of a recorded attempt, the bounded
  compare-and-swap loop that records it, the admission check and the conditional clear.
  The functions run against any store of the trait (\<open>S\<close>) in any host (\<open>H\<close>); the proofs are
  made once over the store contract \<open>rate_limit_store\<close> and reach the program through its
  interpretation on the in-memory store.
\<close>

section \<open>Bucket keys\<close>

definition normalize_principal_bucket :: "string \<Rightarrow> string option" where
  "normalize_principal_bucket v =
     (let normalized = to_ascii_lowercase (trim v) in
      if normalized \<noteq> [] then Some normalized else None)"

definition normalize_client_bucket :: "string \<Rightarrow> string option" where
  "normalize_client_bucket v =
     (let normalized = trim v in if normalized \<noteq> [] then Some normalized else None)"

definition rate_limit_key :: "ext \<Rightarrow> AuthRateLimitFlow \<Rightarrow> AuthRateLimitBucket \<Rightarrow> string \<Rightarrow> AuthRateLimitKey" where
  "rate_limit_key E flow bucket normalized_value =
     \<lparr> rk_flow = flow, rk_bucket = bucket,
       rk_value_hash = hash_rate_limit_value E
         (AuthRateLimitFlow_as_str flow @ '':'' @ AuthRateLimitBucket_as_str bucket @ '':'' @
          normalized_value) \<rparr>"

definition rate_limit_keys ::
  "ext \<Rightarrow> AuthRateLimitFlow \<Rightarrow> string option \<Rightarrow> ClientMetadata \<Rightarrow> AuthRateLimitKey list" where
  "rate_limit_keys E flow princ metadata =
     (case Option.bind princ normalize_principal_bucket of
        None \<Rightarrow> [] | Some p \<Rightarrow> [rate_limit_key E flow Principal p]) @
     (case Option.bind (cm_ip_address metadata) normalize_client_bucket of
        None \<Rightarrow> [] | Some c \<Rightarrow> [rate_limit_key E flow Client c])"

section \<open>The successor state\<close>

definition max_time :: "time option \<Rightarrow> time \<Rightarrow> time" where
  "max_time current candidate =
     (case current of Some c \<Rightarrow> if c \<ge> candidate then c else candidate | None \<Rightarrow> candidate)"

definition retry_after_seconds :: "ext \<Rightarrow> time \<Rightarrow> time \<Rightarrow> int" where
  "retry_after_seconds E now until =
     (let d = unix_timestamp E until - unix_timestamp E now in
      max (if I64_MIN \<le> d \<and> d \<le> I64_MAX then d else I64_MAX) 1)"

definition active_rate_limit_error :: "ext \<Rightarrow> AuthRateLimitState \<Rightarrow> time \<Rightarrow> AuthError option" where
  "active_rate_limit_error E state now =
     (if rs_expires_at state \<le> now then None
      else case filter_option (\<lambda>until. until > now) (rs_locked_until state) of
             Some until \<Rightarrow> Some (AuthLocked (retry_after_seconds E now until))
           | None \<Rightarrow> map_option (\<lambda>until. AuthThrottled (retry_after_seconds E now until))
                       (filter_option (\<lambda>until. until > now) (rs_backoff_until state)))"

definition checked_rate_limit_time_add :: "ext \<Rightarrow> time \<Rightarrow> duration \<Rightarrow> string \<Rightarrow> time AuthResult" where
  "checked_rate_limit_time_add E v d operation =
     ok_or (InvalidConfiguration (operation @ '' arithmetic overflowed'')) (time_checked_add E v d)"

text \<open>The doubling loop; \<open>multiplier\<close> is an \<open>i32\<close> with saturating multiplication.\<close>

fun backoff_loop :: "ext \<Rightarrow> AuthRateLimitPolicy \<Rightarrow> nat \<Rightarrow> int \<Rightarrow> duration + int" where
  "backoff_loop E policy 0 multiplier = Inr multiplier"
| "backoff_loop E policy (Suc n) multiplier =
     (let multiplier' = sat_i32 (multiplier * 2) in
      case duration_checked_mul E (rp_base_backoff policy) multiplier' of
        None \<Rightarrow> Inl (rp_max_backoff policy)
      | Some candidate \<Rightarrow>
          if candidate \<ge> rp_max_backoff policy then Inl (rp_max_backoff policy)
          else backoff_loop E policy n multiplier')"

definition backoff_duration :: "ext \<Rightarrow> AuthRateLimitPolicy \<Rightarrow> u32 \<Rightarrow> duration" where
  "backoff_duration E policy attempts =
     (if rp_base_backoff policy = 0 then 0
      else let exponent = sat_sub attempts (rp_backoff_after_attempts policy) in
        case backoff_loop E policy (min (unat exponent) 30) 1 of
          Inl d \<Rightarrow> d
        | Inr multiplier \<Rightarrow>
            min (case duration_checked_mul E (rp_base_backoff policy) multiplier of
                   None \<Rightarrow> rp_max_backoff policy | Some d \<Rightarrow> d)
                (rp_max_backoff policy))"

definition next_rate_limit_state ::
  "ext \<Rightarrow> AuthRateLimitKey \<Rightarrow> AuthRateLimitState option \<Rightarrow> AuthRateLimitPolicy \<Rightarrow> time \<Rightarrow>
   AuthRateLimitState AuthResult" where
  "next_rate_limit_state E key current policy now =
     bind_res (case current of
                 None \<Rightarrow> Inr True
               | Some state \<Rightarrow>
                   if rs_expires_at state \<le> now then Inr True
                   else bind_res (checked_rate_limit_time_add E (rs_first_attempt_at state)
                                    (rp_window policy) ''rate-limit window end'')
                          (\<lambda>window_end. Inr (window_end \<le> now))) (\<lambda>reset_window.
     let (attempts, first_attempt_at) =
           (if reset_window then (1, now)
            else case current of
                   Some state \<Rightarrow> (sat_add (rs_attempts state) 1, rs_first_attempt_at state)
                 | None \<Rightarrow> (1, now))
     in bind_res
          (if attempts \<ge> rp_max_attempts_before_lockout policy then
             bind_res (checked_rate_limit_time_add E now (rp_lockout_duration policy)
                         ''rate-limit lockout end'') (\<lambda>t. Inr (None, Some t))
           else if attempts \<ge> rp_backoff_after_attempts policy then
             bind_res (checked_rate_limit_time_add E now (backoff_duration E policy attempts)
                         ''rate-limit backoff end'') (\<lambda>t. Inr (Some t, None))
           else Inr (None, None)) (\<lambda>(backoff_until, locked_until).
        bind_res (checked_rate_limit_time_add E now (rp_state_ttl policy)
                    ''rate-limit state expiry'') (\<lambda>ttl_end.
        bind_res (checked_rate_limit_time_add E first_attempt_at (rp_window policy)
                    ''rate-limit window end'') (\<lambda>window_end.
        let e1 = max_time (Some ttl_end) window_end;
            e2 = (case backoff_until of None \<Rightarrow> e1 | Some until \<Rightarrow> max_time (Some e1) until);
            e3 = (case locked_until of None \<Rightarrow> e2 | Some until \<Rightarrow> max_time (Some e2) until)
        in Inr \<lparr> rs_key = key, rs_attempts = attempts, rs_first_attempt_at = first_attempt_at,
                 rs_last_attempt_at = now, rs_backoff_until = backoff_until,
                 rs_locked_until = locked_until, rs_expires_at = e3 \<rparr>))))"

section \<open>Store calls\<close>

definition rl_find :: "'st host \<Rightarrow> 'st AuthRateLimitStore \<Rightarrow> AuthRateLimitKey \<Rightarrow> ('st, AuthRateLimitSnapshot option) action" where
  "rl_find H S key =
     store_call H (\<lambda>n. find_auth_rate_limit_state S (h_clock H RateLimitStoreClock n) key)"

definition rl_compare_exchange ::
  "'st host \<Rightarrow> 'st AuthRateLimitStore \<Rightarrow> AuthRateLimitKey \<Rightarrow> uuid option \<Rightarrow> AuthRateLimitSnapshot \<Rightarrow>
   ('st, bool) action" where
  "rl_compare_exchange H S key expected repl =
     store_call H (\<lambda>n. compare_exchange_auth_rate_limit_state S (h_clock H RateLimitStoreClock n)
       key expected repl)"

definition rl_clear :: "'st host \<Rightarrow> 'st AuthRateLimitStore \<Rightarrow> AuthRateLimitKey \<Rightarrow> uuid option \<Rightarrow> ('st, bool) action" where
  "rl_clear H S key expected =
     store_call H (\<lambda>n. clear_auth_rate_limit_state S (h_clock H RateLimitStoreClock n) key expected)"

section \<open>Admission\<close>

record RateLimitObservation =
  ob_key :: AuthRateLimitKey
  ob_revision :: "uuid option"

record RateLimitPermit =
  pm_observations :: "RateLimitObservation list"

datatype RateLimitRecordOutcome = Recorded | Denied

fun observe_keys ::
  "'st host \<Rightarrow> 'st AuthRateLimitStore \<Rightarrow> time \<Rightarrow> AuthRateLimitKey list \<Rightarrow>
   RateLimitObservation list \<Rightarrow> time option \<Rightarrow> time option \<Rightarrow>
   ('st, RateLimitObservation list \<times> time option \<times> time option) action" where
  "observe_keys H S now [] obs locked_until backoff_until = ret (obs, locked_until, backoff_until)"
| "observe_keys H S now (key # keys) obs locked_until backoff_until =
     bind (rl_find H S key) (\<lambda>snapshot.
       case snapshot of
         None \<Rightarrow>
           observe_keys H S now keys (obs @ [\<lparr> ob_key = key, ob_revision = None \<rparr>])
             locked_until backoff_until
       | Some snapshot \<Rightarrow>
           let obs' = obs @ [\<lparr> ob_key = key, ob_revision = Some (sn_revision snapshot) \<rparr>];
               state = sn_state snapshot in
           if rs_expires_at state \<le> now then observe_keys H S now keys obs' locked_until backoff_until
           else (case filter_option (\<lambda>until. until > now) (rs_locked_until state) of
                   Some until \<Rightarrow>
                     observe_keys H S now keys obs' (Some (max_time locked_until until)) backoff_until
                 | None \<Rightarrow>
                     (case filter_option (\<lambda>until. until > now) (rs_backoff_until state) of
                        Some until \<Rightarrow>
                          observe_keys H S now keys obs' locked_until (Some (max_time backoff_until until))
                      | None \<Rightarrow> observe_keys H S now keys obs' locked_until backoff_until)))"

definition reject_if_rate_limited ::
  "ext \<Rightarrow> 'st host \<Rightarrow> 'st AuthRateLimitStore \<Rightarrow> AuthRateLimitPolicy \<Rightarrow> AuthRateLimitKey list \<Rightarrow>
   ('st, RateLimitPermit) action" where
  "reject_if_rate_limited E H S policy keys =
     (if \<not> rp_enabled policy \<or> keys = [] then ret \<lparr> pm_observations = [] \<rparr>
      else bind (now_from H RateLimitClock) (\<lambda>now.
        bind (observe_keys H S now keys [] None None) (\<lambda>(obs, locked_until, backoff_until).
          case locked_until of
            Some until \<Rightarrow> throw (AuthLocked (retry_after_seconds E now until))
          | None \<Rightarrow>
              (case backoff_until of
                 Some until \<Rightarrow> throw (AuthThrottled (retry_after_seconds E now until))
               | None \<Rightarrow> ret \<lparr> pm_observations = obs \<rparr>))))"

section \<open>Recording\<close>

definition MAX_RATE_LIMIT_CAS_RETRIES :: nat where "MAX_RATE_LIMIT_CAS_RETRIES = 256"

fun record_cas_loop ::
  "ext \<Rightarrow> 'st host \<Rightarrow> 'st AuthRateLimitStore \<Rightarrow> AuthRateLimitPolicy \<Rightarrow> AuthRateLimitKey \<Rightarrow> time \<Rightarrow>
   bool \<Rightarrow> nat \<Rightarrow> ('st, RateLimitRecordOutcome) action" where
  "record_cas_loop E H S policy key now enforce 0 =
     throw (Store ''rate-limit compare-and-swap retry limit exceeded'')"
| "record_cas_loop E H S policy key now enforce (Suc n) =
     bind (rl_find H S key) (\<lambda>current.
       if enforce \<and> is_some_and (\<lambda>s. active_rate_limit_error E (sn_state s) now \<noteq> None) current
       then ret Denied
       else
         bind (lift_res (next_rate_limit_state E key (map_option sn_state current) policy now)) (\<lambda>nxt.
         bind (new_uuid H) (\<lambda>revision.
         bind (rl_compare_exchange H S key (map_option sn_revision current)
                 \<lparr> sn_state = nxt, sn_revision = revision \<rparr>) (\<lambda>swapped.
           if swapped then ret Recorded
           else record_cas_loop E H S policy key now enforce n))))"

definition record_rate_limit_attempt_for_key ::
  "ext \<Rightarrow> 'st host \<Rightarrow> 'st AuthRateLimitStore \<Rightarrow> AuthRateLimitPolicy \<Rightarrow> AuthRateLimitKey \<Rightarrow> time \<Rightarrow>
   bool \<Rightarrow> ('st, RateLimitRecordOutcome) action" where
  "record_rate_limit_attempt_for_key E H S policy key now enforce =
     record_cas_loop E H S policy key now enforce MAX_RATE_LIMIT_CAS_RETRIES"

definition record_rate_limit_attempt ::
  "ext \<Rightarrow> 'st host \<Rightarrow> 'st AuthRateLimitStore \<Rightarrow> AuthRateLimitPolicy \<Rightarrow> AuthRateLimitKey list \<Rightarrow>
   ('st, unit) action" where
  "record_rate_limit_attempt E H S policy keys =
     (if \<not> rp_enabled policy \<or> keys = [] then ret ()
      else bind (now_from H RateLimitClock) (\<lambda>now.
        for_each_m (\<lambda>key.
          bind (record_rate_limit_attempt_for_key E H S policy key now False) (\<lambda>outcome.
            case outcome of
              Recorded \<Rightarrow> ret ()
            | Denied \<Rightarrow> throw (Store ''credential failure recording was unexpectedly denied''))) keys))"

fun record_requests ::
  "ext \<Rightarrow> 'st host \<Rightarrow> 'st AuthRateLimitStore \<Rightarrow> AuthRateLimitPolicy \<Rightarrow> time \<Rightarrow> AuthRateLimitKey list \<Rightarrow>
   ('st, bool) action" where
  "record_requests E H S policy now [] = ret True"
| "record_requests E H S policy now (key # keys) =
     bind (record_rate_limit_attempt_for_key E H S policy key now True) (\<lambda>outcome.
       if outcome = Denied then ret False else record_requests E H S policy now keys)"

definition record_rate_limit_request_if_allowed ::
  "ext \<Rightarrow> 'st host \<Rightarrow> 'st AuthRateLimitStore \<Rightarrow> AuthRateLimitPolicy \<Rightarrow> AuthRateLimitKey list \<Rightarrow>
   ('st, bool) action" where
  "record_rate_limit_request_if_allowed E H S policy keys =
     (if \<not> rp_enabled policy \<or> keys = [] then ret True
      else bind (now_from H RateLimitClock) (\<lambda>now. record_requests E H S policy now keys))"

definition record_request_rate_limit ::
  "ext \<Rightarrow> 'st host \<Rightarrow> 'st AuthRateLimitStore \<Rightarrow> AuthConfig \<Rightarrow> AuthRateLimitFlow \<Rightarrow> string \<Rightarrow>
   ClientMetadata \<Rightarrow> ('st, bool) action" where
  "record_request_rate_limit E H S config flow princ metadata =
     record_rate_limit_request_if_allowed E H S (rc_request (cf_rate_limits config))
       (rate_limit_keys E flow (Some princ) metadata)"

definition should_process_password_reset_request ::
  "ext \<Rightarrow> 'st host \<Rightarrow> 'st AuthRateLimitStore \<Rightarrow> AuthConfig \<Rightarrow> string \<Rightarrow> ClientMetadata \<Rightarrow> ('st, bool) action" where
  "should_process_password_reset_request E H S config princ metadata =
     record_request_rate_limit E H S config PasswordResetRequest princ metadata"

definition should_process_login_code_request ::
  "ext \<Rightarrow> 'st host \<Rightarrow> 'st AuthRateLimitStore \<Rightarrow> AuthConfig \<Rightarrow> string \<Rightarrow> ClientMetadata \<Rightarrow> ('st, bool) action" where
  "should_process_login_code_request E H S config princ metadata =
     record_request_rate_limit E H S config LoginCodeRequest princ metadata"

definition clear_rate_limit_attempts ::
  "'st host \<Rightarrow> 'st AuthRateLimitStore \<Rightarrow> AuthRateLimitPolicy \<Rightarrow> RateLimitPermit \<Rightarrow> ('st, unit) action" where
  "clear_rate_limit_attempts H S policy permit =
     (if \<not> rp_enabled policy \<or> pm_observations permit = [] then ret ()
      else for_each_m (\<lambda>ob. bind (rl_clear H S (ob_key ob) (ob_revision ob)) (\<lambda>cleared. ret ()))
             (pm_observations permit))"

section \<open>Properties of the successor state\<close>

lemma max_time_Some [simp]: "max_time (Some a) b = max a b"
  by (auto simp: max_time_def)

lemma max_time_None [simp]: "max_time None b = b"
  by (simp add: max_time_def)

lemma checked_add_Inr:
  "time_laws E \<Longrightarrow> checked_rate_limit_time_add E t d op = Inr t' \<Longrightarrow> t' = t + d"
  by (simp add: checked_rate_limit_time_add_def time_lawsD)

lemma retry_after_positive: "1 \<le> retry_after_seconds E now until"
  by (simp add: retry_after_seconds_def Let_def)

subsection \<open>Exponential backoff\<close>

lemma sat_i32_id: "0 \<le> x \<Longrightarrow> x \<le> 2147483647 \<Longrightarrow> sat_i32 x = x"
  by (simp add: sat_i32_def I32_MAX_def)

lemma backoff_loop_correct:
  assumes laws: "time_laws E" and base: "0 < rp_base_backoff policy"
    and max: "rp_max_backoff policy \<le> DURATION_MAX"
    and k: "k + n \<le> 30" and below: "rp_base_backoff policy * 2 ^ k < rp_max_backoff policy \<or> k = 0"
  shows "case backoff_loop E policy n (2 ^ k) of
           Inl d \<Rightarrow> d = rp_max_backoff policy \<and>
                     rp_max_backoff policy \<le> rp_base_backoff policy * 2 ^ (k + n)
         | Inr m \<Rightarrow> m = 2 ^ (k + n)"
  using k below
proof (induction n arbitrary: k)
  case 0
  then show ?case by simp
next
  case (Suc n)
  let ?b = "rp_base_backoff policy" and ?m = "rp_max_backoff policy"
  have "(2 :: int) ^ Suc k \<le> 2 ^ 30" using Suc.prems by (intro power_increasing) auto
  then have mult: "sat_i32 (2 ^ k * 2) = 2 ^ Suc k"
    by (subst sat_i32_id) auto
  have mono: "?b * 2 ^ Suc k \<le> ?b * 2 ^ (k + Suc n)"
    using base by (intro mult_left_mono power_increasing) auto
  have pos: "0 < ?b * 2 ^ Suc k" using base by simp
  show ?case
  proof (cases "duration_checked_mul E ?b (2 ^ Suc k)")
    case None
    have "DURATION_MIN < 0" by (simp add: DURATION_MIN_def seconds_def I64_MIN_def)
    with time_lawsD(6) [OF laws None] pos have "DURATION_MAX < ?b * 2 ^ Suc k" by linarith
    with None mult mono max show ?thesis by (simp add: Let_def)
  next
    case (Some c)
    then have c: "c = ?b * 2 ^ Suc k" using laws by (rule time_lawsD(5) [rotated])
    show ?thesis
    proof (cases "?m \<le> c")
      case True
      with Some mult mono c show ?thesis by (simp add: Let_def)
    next
      case False
      with c have "?b * 2 ^ Suc k < ?m \<or> Suc k = 0" by simp
      with Suc.IH [of "Suc k"] Suc.prems have
        "case backoff_loop E policy n (2 ^ Suc k) of
           Inl d \<Rightarrow> d = ?m \<and> ?m \<le> ?b * 2 ^ (Suc k + n) | Inr m \<Rightarrow> m = 2 ^ (Suc k + n)"
        by simp
      with Some mult False show ?thesis by (simp add: Let_def split: sum.splits)
    qed
  qed
qed

lemma backoff_duration_eq:
  assumes laws: "time_laws E" and wf: "policy_wf policy" and max: "rp_max_backoff policy \<le> DURATION_MAX"
  shows "backoff_duration E policy attempts =
    min (rp_max_backoff policy)
        (rp_base_backoff policy * 2 ^ min (unat attempts - unat (rp_backoff_after_attempts policy)) 30)"
proof (cases "rp_base_backoff policy = 0")
  case True
  with wf show ?thesis by (simp add: backoff_duration_def policy_wf_def)
next
  case False
  with wf have base: "0 < rp_base_backoff policy" by (simp add: policy_wf_def)
  let ?n = "min (unat attempts - unat (rp_backoff_after_attempts policy)) 30"
  let ?m = "(2 :: int) ^ ?n"
  have loop: "case backoff_loop E policy ?n 1 of
      Inl d \<Rightarrow> d = rp_max_backoff policy \<and> rp_max_backoff policy \<le> rp_base_backoff policy * ?m
    | Inr m \<Rightarrow> m = ?m"
    using backoff_loop_correct [OF laws base max, of 0 ?n] by (simp split: sum.splits)
  have pos: "0 < rp_base_backoff policy * ?m" using base by simp
  have dmin: "DURATION_MIN < 0" by (simp add: DURATION_MIN_def seconds_def I64_MIN_def)
  have mul: "min (case duration_checked_mul E (rp_base_backoff policy) ?m of
      None \<Rightarrow> rp_max_backoff policy | Some d \<Rightarrow> d) (rp_max_backoff policy) =
      min (rp_max_backoff policy) (rp_base_backoff policy * ?m)"
  proof (cases "duration_checked_mul E (rp_base_backoff policy) ?m")
    case None
    with time_lawsD(6) [OF laws None] pos dmin max show ?thesis by simp
  next
    case (Some d)
    with time_lawsD(5) [OF laws Some] show ?thesis by (simp add: min.commute)
  qed
  show ?thesis
    using loop mul False
    by (auto simp: backoff_duration_def Let_def unat_sat_sub split: sum.splits)
qed

text \<open>The delay imposed after a number of failed attempts is the base delay doubled once
  per attempt beyond the threshold (at most thirty times), capped at the configured
  maximum; the saturating multiplier and the overflow branches never change that value.\<close>

theorem backoff_duration_formula:
  assumes laws: "time_laws E" and wf: "policy_wf policy" and max: "rp_max_backoff policy \<le> DURATION_MAX"
  shows "backoff_duration E policy attempts =
    min (rp_max_backoff policy)
        (rp_base_backoff policy * 2 ^ min (unat attempts - unat (rp_backoff_after_attempts policy)) 30)"
  using assms by (rule backoff_duration_eq)

lemma backoff_duration_formula_witness:
  "backoff_duration std_ext (rc_credential AuthRateLimitConfig_default) 6 = seconds 8"
  using backoff_duration_formula [OF std_ext_time_laws, of "rc_credential AuthRateLimitConfig_default" 6]
  by (simp add: AuthRateLimitConfig_default_def policy_wf_def DURATION_MAX_def I64_MAX_def
      minutes_def hours_def seconds_def)

lemma backoff_nonneg:
  assumes "time_laws E" "policy_wf policy" "rp_max_backoff policy \<le> DURATION_MAX"
  shows "0 \<le> backoff_duration E policy attempts"
  using assms(2) unfolding backoff_duration_eq [OF assms] by (simp add: policy_wf_def)

subsection \<open>What recording an attempt produces\<close>

definition window_over :: "AuthRateLimitPolicy \<Rightarrow> AuthRateLimitState option \<Rightarrow> time \<Rightarrow> bool" where
  "window_over policy current now \<longleftrightarrow>
     (case current of
        None \<Rightarrow> True
      | Some s \<Rightarrow> rs_expires_at s \<le> now \<or> rs_first_attempt_at s + rp_window policy \<le> now)"

definition attempts_after :: "AuthRateLimitPolicy \<Rightarrow> AuthRateLimitState option \<Rightarrow> time \<Rightarrow> u32" where
  "attempts_after policy current now =
     (case current of
        Some s \<Rightarrow> if window_over policy current now then 1 else sat_add (rs_attempts s) 1
      | None \<Rightarrow> 1)"

definition window_start :: "AuthRateLimitPolicy \<Rightarrow> AuthRateLimitState option \<Rightarrow> time \<Rightarrow> time" where
  "window_start policy current now =
     (case current of
        Some s \<Rightarrow> if window_over policy current now then now else rs_first_attempt_at s
      | None \<Rightarrow> now)"

lemma next_rate_limit_state_Inr:
  assumes laws: "time_laws E" and nxt: "next_rate_limit_state E key current policy now = Inr s"
  defines "a \<equiv> attempts_after policy current now" and "f \<equiv> window_start policy current now"
  shows "rs_key s = key \<and> rs_attempts s = a \<and> rs_first_attempt_at s = f \<and> rs_last_attempt_at s = now \<and>
    rs_locked_until s =
      (if rp_max_attempts_before_lockout policy \<le> a then Some (now + rp_lockout_duration policy) else None) \<and>
    rs_backoff_until s =
      (if rp_max_attempts_before_lockout policy \<le> a \<or> a < rp_backoff_after_attempts policy then None
       else Some (now + backoff_duration E policy a)) \<and>
    now + rp_state_ttl policy \<le> rs_expires_at s \<and> f + rp_window policy \<le> rs_expires_at s \<and>
    (\<forall>t. rs_locked_until s = Some t \<or> rs_backoff_until s = Some t \<longrightarrow> t \<le> rs_expires_at s)"
proof -
  let ?reset = "case current of
        None \<Rightarrow> Inr True
      | Some state \<Rightarrow>
          if rs_expires_at state \<le> now then Inr True
          else bind_res (checked_rate_limit_time_add E (rs_first_attempt_at state)
                  (rp_window policy) ''rate-limit window end'')
                 (\<lambda>window_end. Inr (window_end \<le> now))"
  obtain b where b: "?reset = Inr b"
    using nxt unfolding next_rate_limit_state_def by (auto simp: bind_res_Inr_iff [of ?reset])
  then have "b = window_over policy current now"
    by (auto simp: window_over_def res_simps dest!: checked_add_Inr [OF laws]
        split: option.splits if_splits)
  with b have split: "?reset = Inr (window_over policy current now)" by simp
  have af: "(if window_over policy current now then (1, now)
      else case current of Some state \<Rightarrow> (sat_add (rs_attempts state) 1, rs_first_attempt_at state)
           | None \<Rightarrow> (1, now)) = (a, f)"
    by (auto simp: a_def f_def attempts_after_def window_start_def window_over_def split: option.splits)
  let ?limits = "if a \<ge> rp_max_attempts_before_lockout policy then
        bind_res (checked_rate_limit_time_add E now (rp_lockout_duration policy)
                    ''rate-limit lockout end'') (\<lambda>t. Inr (None, Some t))
      else if a \<ge> rp_backoff_after_attempts policy then
        bind_res (checked_rate_limit_time_add E now (backoff_duration E policy a)
                    ''rate-limit backoff end'') (\<lambda>t. Inr (Some t, None))
      else Inr (None, None)"
  obtain bu lu te we where limits: "?limits = Inr (bu, lu)"
    and te: "checked_rate_limit_time_add E now (rp_state_ttl policy) ''rate-limit state expiry'' = Inr te"
    and we: "checked_rate_limit_time_add E f (rp_window policy) ''rate-limit window end'' = Inr we"
    and s: "s = \<lparr> rs_key = key, rs_attempts = a, rs_first_attempt_at = f, rs_last_attempt_at = now,
        rs_backoff_until = bu, rs_locked_until = lu,
        rs_expires_at =
          (let e1 = max_time (Some te) we;
               e2 = (case bu of None \<Rightarrow> e1 | Some until \<Rightarrow> max_time (Some e1) until)
           in case lu of None \<Rightarrow> e2 | Some until \<Rightarrow> max_time (Some e2) until) \<rparr>"
    using nxt unfolding next_rate_limit_state_def split bind_res.simps af Let_def case_prod_conv
    by (auto simp only: bind_res_Inr_iff case_prod_conv sum.inject split_paired_Ex)
  have "bu = (if rp_max_attempts_before_lockout policy \<le> a \<or> a < rp_backoff_after_attempts policy then None
       else Some (now + backoff_duration E policy a)) \<and>
     lu = (if rp_max_attempts_before_lockout policy \<le> a then Some (now + rp_lockout_duration policy) else None)"
    using limits by (auto simp: res_simps not_le dest: checked_add_Inr [OF laws] split: if_splits)
  moreover have "te = now + rp_state_ttl policy" "we = f + rp_window policy"
    using checked_add_Inr [OF laws te] checked_add_Inr [OF laws we] by simp_all
  ultimately show ?thesis by (auto simp: s Let_def)
qed

text \<open>Recording an attempt. The successor state counts the attempt (starting over at one
  when there was no live state or its window has elapsed, saturating otherwise), locks the
  bucket for the lockout duration exactly from the configured attempt count on, imposes the
  exponential delay between the two thresholds and no delay below, and outlives its
  lockout, its delay, its window and the configured retention, so no store may drop an
  active restriction.\<close>

theorem next_rate_limit_state_correct:
  assumes "time_laws E" and "next_rate_limit_state E key current policy now = Inr s"
  shows "rs_attempts s = attempts_after policy current now \<and>
    rs_first_attempt_at s = window_start policy current now \<and> rs_last_attempt_at s = now \<and>
    rs_locked_until s =
      (if rp_max_attempts_before_lockout policy \<le> rs_attempts s
       then Some (now + rp_lockout_duration policy) else None) \<and>
    rs_backoff_until s =
      (if rp_max_attempts_before_lockout policy \<le> rs_attempts s \<or>
          rs_attempts s < rp_backoff_after_attempts policy then None
       else Some (now + backoff_duration E policy (rs_attempts s))) \<and>
    now + rp_state_ttl policy \<le> rs_expires_at s \<and>
    rs_first_attempt_at s + rp_window policy \<le> rs_expires_at s \<and>
    (\<forall>t. rs_locked_until s = Some t \<or> rs_backoff_until s = Some t \<longrightarrow> t \<le> rs_expires_at s)"
  using next_rate_limit_state_Inr [OF assms] by simp

lemma next_rate_limit_state_correct_witness:
  "\<exists>s. next_rate_limit_state std_ext demo_key None (rc_credential AuthRateLimitConfig_default) 0 = Inr s \<and>
     rs_attempts s = 1 \<and> rs_locked_until s = None"
proof -
  have "\<exists>s. next_rate_limit_state std_ext demo_key None (rc_credential AuthRateLimitConfig_default) 0 = Inr s"
    by (simp add: next_rate_limit_state_def AuthRateLimitConfig_default_def Let_def
        checked_rate_limit_time_add_def std_ext_simps in_time_range_def MIN_TIME_def MAX_TIME_def
        minutes_def hours_def seconds_def word_le_nat_alt)
  then obtain s where s: "next_rate_limit_state std_ext demo_key None
      (rc_credential AuthRateLimitConfig_default) 0 = Inr s" ..
  with next_rate_limit_state_correct [OF std_ext_time_laws s] show ?thesis
    by (simp add: attempts_after_def AuthRateLimitConfig_default_def word_le_nat_alt)
qed

section \<open>Recording under interference\<close>

text \<open>What is assumed of the other tasks: they keep the store's invariant and, as the store
  trait demands, never reuse the revision of a replaced snapshot.\<close>

definition interference_keeps :: "('st \<Rightarrow> bool) \<Rightarrow> 'st host \<Rightarrow> bool" where
  "interference_keeps ok H \<longleftrightarrow> (\<forall>n st. ok st \<longrightarrow> ok (h_interfere H n st))"

definition no_revision_reuse :: "('st \<Rightarrow> ttl_map) \<Rightarrow> AuthRateLimitKey \<Rightarrow> 'st host \<Rightarrow> bool" where
  "no_revision_reuse lookup k H \<longleftrightarrow>
     (\<forall>n st s s'. lookup st k = Some s \<longrightarrow> lookup (h_interfere H n st) k = Some s' \<longrightarrow>
        sn_revision s' = sn_revision s \<longrightarrow> s' = s)"

text \<open>The store right before the atomic swap at step \<open>m\<close>, and what the swap made of it.\<close>

definition swapped_at ::
  "ext \<Rightarrow> 'st host \<Rightarrow> ('st \<Rightarrow> ttl_map) \<Rightarrow> AuthRateLimitPolicy \<Rightarrow> AuthRateLimitKey \<Rightarrow> time \<Rightarrow> bool \<Rightarrow>
   'st \<Rightarrow> nat \<Rightarrow> 'st \<Rightarrow> bool" where
  "swapped_at E H lookup policy key now enforce before m after \<longleftrightarrow>
     (let live = ttl_live (h_clock H RateLimitStoreClock m) (lookup before) in
      \<exists>nxt revision.
        next_rate_limit_state E key (map_option sn_state (live key)) policy now = Inr nxt \<and>
        lookup after = live(key \<mapsto> \<lparr> sn_state = nxt, sn_revision = revision \<rparr>) \<and>
        (enforce \<longrightarrow> is_none_or (\<lambda>s. active_rate_limit_error E (sn_state s) now = None) (live key)))"

lemma ttl_live_Some: "ttl_live now m k = Some s \<longleftrightarrow> m k = Some s \<and> now < rs_expires_at (sn_state s)"
  by (simp add: ttl_live_def)

context rate_limit_store
begin

lemma rl_find_ok:
  assumes "ok (w_store w)" "interference_keeps ok H" "rl_find H S key w = (r, w1)"
  shows "ok (w_store w1)" and "w_tick w1 = Suc (w_tick w)" and "w_fresh w1 = w_fresh w"
    and "r = Inr x \<Longrightarrow> x = lookup (w_store w1) key"
    and "ttl_live (h_clock H RateLimitStoreClock (w_tick w)) (lookup (w_store w1)) =
         ttl_live (h_clock H RateLimitStoreClock (w_tick w)) (lookup (h_interfere H (w_tick w) (w_store w)))"
    and "r = Inr x \<Longrightarrow> lookup (w_store w1) =
         ttl_live (h_clock H RateLimitStoreClock (w_tick w)) (lookup (h_interfere H (w_tick w) (w_store w)))"
proof -
  let ?st = "h_interfere H (w_tick w) (w_store w)" and ?t = "h_clock H RateLimitStoreClock (w_tick w)"
  have "ok ?st" using assms by (simp add: interference_keeps_def)
  moreover obtain st' where f: "find_auth_rate_limit_state S ?t key ?st = (r, st')"
    and w1: "w1 = w \<lparr> w_store := st', w_tick := Suc (w_tick w) \<rparr>"
    using assms(3) by (auto simp: rl_find_def store_call_eq)
  ultimately have law: "ok st'" "ttl_live ?t (lookup st') = ttl_live ?t (lookup ?st)"
    "\<And>x. r = Inr x \<Longrightarrow> x = ttl_live ?t (lookup ?st) key \<and> lookup st' = ttl_live ?t (lookup ?st)"
    using find_law by blast+
  show "ok (w_store w1)" "w_tick w1 = Suc (w_tick w)" "w_fresh w1 = w_fresh w"
    "ttl_live ?t (lookup (w_store w1)) = ttl_live ?t (lookup ?st)"
    using law w1 by simp_all
  show "r = Inr x \<Longrightarrow> x = lookup (w_store w1) key"
    "r = Inr x \<Longrightarrow> lookup (w_store w1) = ttl_live ?t (lookup ?st)"
    using law(3) w1 by auto
qed

lemma rl_compare_exchange_ok:
  assumes "ok (w_store w)" "interference_keeps ok H"
    "rl_compare_exchange H S key expected repl w = (r, w1)"
  shows "ok (w_store w1)" and "w_tick w1 = Suc (w_tick w)"
    and "r = Inr True \<Longrightarrow>
      map_option sn_revision (ttl_live (h_clock H RateLimitStoreClock (w_tick w))
        (lookup (h_interfere H (w_tick w) (w_store w))) key) = expected \<and>
      lookup (w_store w1) = (ttl_live (h_clock H RateLimitStoreClock (w_tick w))
        (lookup (h_interfere H (w_tick w) (w_store w))))(key \<mapsto> repl)"
proof -
  let ?st = "h_interfere H (w_tick w) (w_store w)" and ?t = "h_clock H RateLimitStoreClock (w_tick w)"
  have "ok ?st" using assms by (simp add: interference_keeps_def)
  moreover obtain st' where f: "compare_exchange_auth_rate_limit_state S ?t key expected repl ?st = (r, st')"
    and w1: "w1 = w \<lparr> w_store := st', w_tick := Suc (w_tick w) \<rparr>"
    using assms(3) by (auto simp: rl_compare_exchange_def store_call_eq)
  ultimately have law: "ok st'" "r = Inr True \<Longrightarrow>
      map_option sn_revision (ttl_live ?t (lookup ?st) key) = expected \<and>
      lookup st' = (ttl_live ?t (lookup ?st))(key \<mapsto> repl)"
    using cas_law by blast+
  show "ok (w_store w1)" "w_tick w1 = Suc (w_tick w)" using law w1 by simp_all
  show "r = Inr True \<Longrightarrow> map_option sn_revision (ttl_live ?t (lookup ?st) key) = expected \<and>
      lookup (w_store w1) = (ttl_live ?t (lookup ?st))(key \<mapsto> repl)"
    using law(2) w1 by simp
qed

lemma record_cas_loop_swap:
  assumes keeps: "interference_keeps ok H" and fresh: "no_revision_reuse lookup key H"
    and "ok (w_store w)"
    and "record_cas_loop E H S policy key now enforce n w = (Inr Recorded, w')"
  shows "\<exists>m st. w_tick w' = Suc m \<and> ok (w_store w') \<and>
    swapped_at E H lookup policy key now enforce (h_interfere H m st) m (w_store w')"
  using assms(3,4)
proof (induction n arbitrary: w)
  case 0
  then show ?case by (simp add: throw_def)
next
  case (Suc n)
  obtain cur w1 where f: "rl_find H S key w = (Inr cur, w1)"
    and rest: "(if enforce \<and> is_some_and (\<lambda>s. active_rate_limit_error E (sn_state s) now \<noteq> None) cur
       then ret Denied
       else
         bind (lift_res (next_rate_limit_state E key (map_option sn_state cur) policy now)) (\<lambda>nxt.
         bind (new_uuid H) (\<lambda>revision.
         bind (rl_compare_exchange H S key (map_option sn_revision cur)
                 \<lparr> sn_state = nxt, sn_revision = revision \<rparr>) (\<lambda>swapped.
           if swapped then ret Recorded
           else record_cas_loop E H S policy key now enforce n)))) w1 = (Inr Recorded, w')"
    using Suc.prems(2) by (auto simp: bind_eq_Inr)
  have admitted: "enforce \<longrightarrow> is_none_or (\<lambda>s. active_rate_limit_error E (sn_state s) now = None) cur"
    using rest by (auto simp: ret_def split: if_splits option.splits simp: is_none_or_def is_some_and_def)
  obtain nxt where nxt: "next_rate_limit_state E key (map_option sn_state cur) policy now = Inr nxt"
    using rest by (auto simp: ret_eq bind_eq_Inr lift_res_eq split: if_splits)
  define w2 where "w2 = w1 \<lparr> w_fresh := Suc (w_fresh w1) \<rparr>"
  obtain swapped w3 where
    c: "rl_compare_exchange H S key (map_option sn_revision cur)
          \<lparr> sn_state = nxt, sn_revision = h_uuid H (w_fresh w1) \<rparr> w2 = (Inr swapped, w3)"
    and last: "(if swapped then ret Recorded else record_cas_loop E H S policy key now enforce n) w3
       = (Inr Recorded, w')"
    using rest nxt by (auto simp: ret_eq bind_eq_Inr lift_res_eq new_uuid_eq w2_def split: if_splits)
  note f_ok = rl_find_ok [OF Suc.prems(1) keeps f]
  have ok2: "ok (w_store w2)" using f_ok(1) by (simp add: w2_def)
  note c_ok = rl_compare_exchange_ok [OF ok2 keeps c]
  show ?case
  proof (cases swapped)
    case False
    with last Suc.IH [OF c_ok(1)] show ?thesis by simp
  next
    case True
    let ?m = "w_tick w2" and ?st = "h_interfere H (w_tick w2) (w_store w2)"
    let ?live = "ttl_live (h_clock H RateLimitStoreClock ?m) (lookup ?st)"
    have rev: "map_option sn_revision (?live key) = map_option sn_revision cur"
      and after: "lookup (w_store w3) = ?live(key \<mapsto>
        \<lparr> sn_state = nxt, sn_revision = h_uuid H (w_fresh w1) \<rparr>)"
      using c_ok(3) True by auto
    have cur: "cur = lookup (w_store w2) key" using f_ok(4) by (simp add: w2_def)
    have "?live key = cur"
    proof (cases cur)
      case None
      with rev show ?thesis by simp
    next
      case (Some s)
      with rev obtain s' where s': "?live key = Some s'" "sn_revision s' = sn_revision s"
        by (cases "?live key") auto
      with Some cur fresh have "s' = s"
        by (auto simp: no_revision_reuse_def ttl_live_Some)
      with s' Some show ?thesis by simp
    qed
    with nxt after admitted have
      "swapped_at E H lookup policy key now enforce ?st ?m (w_store w3)"
      by (auto simp: swapped_at_def Let_def)
    moreover have "w' = w3" using last True by (simp add: ret_def)
    ultimately show ?thesis using c_ok(1,2) by blast
  qed
qed

end

text \<open>C22: no lost updates. However other tasks interleave with it, when the bounded
  compare-and-swap loop reports that it recorded an attempt for a bucket, there was one
  atomic swap that took the bucket's live state at that very moment to its successor state
  and left every other live bucket unchanged; with enforcement the replaced state imposed
  no delay or lockout. So concurrent failures are all counted.\<close>

theorem record_attempt_no_lost_update:
  assumes "mem_ok (w_store w)" and "interference_keeps mem_ok H" and "no_revision_reuse mem_abs key H"
    and "record_rate_limit_attempt_for_key E H (MemoryAuthRateLimitStore capacity) policy key now enforce w
         = (Inr Recorded, w')"
  shows "\<exists>m st. w_tick w' = Suc m \<and> mem_ok (w_store w') \<and>
    swapped_at E H mem_abs policy key now enforce (h_interfere H m st) m (w_store w')"
  using mem.record_cas_loop_swap [OF assms(2,3,1)] assms(4)
  by (simp add: record_rate_limit_attempt_for_key_def)

definition demo_host :: "MemoryMutex host" where
  "demo_host = \<lparr> h_interfere = (\<lambda>_ st. st), h_clock = (\<lambda>_ n. int n), h_uuid = (\<lambda>n. of_nat n),
     h_random = (\<lambda>n. [of_nat n]) \<rparr>"

definition demo_world :: "MemoryMutex world" where
  "demo_world = \<lparr> w_store = healthy_empty, w_tick = 0, w_fresh = 0 \<rparr>"

definition demo_policy :: AuthRateLimitPolicy where
  "demo_policy = \<lparr> rp_enabled = True, rp_window = 100, rp_backoff_after_attempts = 1,
     rp_max_attempts_before_lockout = 1, rp_base_backoff = 0, rp_max_backoff = 0,
     rp_lockout_duration = 100, rp_state_ttl = 100 \<rparr>"

lemma record_attempt_no_lost_update_witness:
  "\<exists>w' m st. record_rate_limit_attempt_for_key std_ext demo_host (MemoryAuthRateLimitStore 4)
       demo_policy demo_key 0 False demo_world = (Inr Recorded, w') \<and>
     swapped_at std_ext demo_host mem_abs demo_policy demo_key 0 False (h_interfere demo_host m st) m (w_store w')"
proof -
  have "fst (record_rate_limit_attempt_for_key std_ext demo_host (MemoryAuthRateLimitStore 4)
       demo_policy demo_key 0 False demo_world) = Inr Recorded"
    by code_simp
  then obtain w' where r: "record_rate_limit_attempt_for_key std_ext demo_host (MemoryAuthRateLimitStore 4)
       demo_policy demo_key 0 False demo_world = (Inr Recorded, w')"
    by (metis prod.collapse)
  have "mem_ok (w_store demo_world)"
    using mem_inv_default by (simp add: demo_world_def healthy_empty_def mem_ok_def)
  moreover have "interference_keeps mem_ok demo_host" "no_revision_reuse mem_abs demo_key demo_host"
    by (simp_all add: interference_keeps_def no_revision_reuse_def demo_host_def)
  ultimately show ?thesis
    using record_attempt_no_lost_update r by blast
qed

section \<open>Repeated failures lock the bucket\<close>

fun record_failures ::
  "ext \<Rightarrow> 'st host \<Rightarrow> 'st AuthRateLimitStore \<Rightarrow> AuthRateLimitPolicy \<Rightarrow> AuthRateLimitKey \<Rightarrow> nat \<Rightarrow>
   ('st, unit) action" where
  "record_failures E H S policy key 0 = ret ()"
| "record_failures E H S policy key (Suc k) =
     bind (record_failures E H S policy key k) (\<lambda>_. record_rate_limit_attempt E H S policy [key])"

definition leaves_key :: "('st \<Rightarrow> ttl_map) \<Rightarrow> AuthRateLimitKey \<Rightarrow> 'st host \<Rightarrow> bool" where
  "leaves_key lookup key H \<longleftrightarrow> (\<forall>n st. lookup (h_interfere H n st) key = lookup st key)"

text \<open>All clock readings fall into a period from \<open>t0\<close> on.\<close>

definition clocks_within :: "time \<Rightarrow> duration \<Rightarrow> 'st host \<Rightarrow> bool" where
  "clocks_within t0 d H \<longleftrightarrow>
     (\<forall>c n. t0 \<le> h_clock H c n \<and> h_clock H c n < t0 + d)"

text \<open>The bucket after \<open>k\<close> counted failures.\<close>

definition counted :: "AuthRateLimitPolicy \<Rightarrow> time \<Rightarrow> nat \<Rightarrow> AuthRateLimitSnapshot option \<Rightarrow> bool" where
  "counted policy t0 k c \<longleftrightarrow>
     (if k = 0 then c = None
      else \<exists>s. map_option sn_state c = Some s \<and> unat (rs_attempts s) = min k (2 ^ 32 - 1) \<and>
        t0 \<le> rs_first_attempt_at s \<and> t0 + rp_window policy \<le> rs_expires_at s \<and>
        (rp_max_attempts_before_lockout policy \<le> rs_attempts s \<longrightarrow>
           (\<exists>u. rs_locked_until s = Some u \<and> t0 + rp_lockout_duration policy \<le> u)))"

lemma counted_next:
  assumes laws: "time_laws E" and c: "counted policy t0 k c"
    and now: "t0 \<le> now" "now < t0 + rp_window policy"
    and nxt: "next_rate_limit_state E key (map_option sn_state c) policy now = Inr s"
  shows "counted policy t0 (Suc k) (Some \<lparr> sn_state = s, sn_revision = r \<rparr>)"
proof -
  note n = next_rate_limit_state_Inr [OF laws nxt]
  have open_window: "\<not> window_over policy (map_option sn_state c) now" if "k \<noteq> 0"
    using c now that by (auto simp: counted_def window_over_def)
  have "unat (rs_attempts s) = min (Suc k) (2 ^ 32 - 1) \<and> t0 \<le> rs_first_attempt_at s"
  proof (cases "k = 0")
    case True
    with c n now show ?thesis by (simp add: counted_def attempts_after_def window_start_def)
  next
    case False
    with c n open_window show ?thesis
      by (auto simp: counted_def attempts_after_def window_start_def unat_sat_add)
  qed
  with n now show ?thesis by (auto simp: counted_def split: if_splits)
qed

context rate_limit_store
begin

lemma key_survives:
  assumes "m' \<subseteq>\<^sub>m m" "ttl_live t m' = ttl_live t m" "\<And>s. m k = Some s \<Longrightarrow> t < rs_expires_at (sn_state s)"
  shows "m' k = m k"
proof (cases "m k")
  case None
  with assms(1) show ?thesis by (auto simp: map_le_def dom_def)
next
  case (Some s)
  with assms(3) have "ttl_live t m k = Some s" by (simp add: ttl_live_Some)
  with assms(2) have "ttl_live t m' k = Some s" by simp
  with Some show ?thesis by (simp add: ttl_live_Some)
qed

lemma record_cas_loop_key:
  assumes keeps: "interference_keeps ok H" and leaves: "leaves_key lookup key H"
    and alive: "\<And>n s. c = Some s \<Longrightarrow> h_clock H RateLimitStoreClock n < rs_expires_at (sn_state s)"
    and "ok (w_store w)" and "lookup (w_store w) key = c"
    and "record_cas_loop E H S policy key now False n w = (Inr r, w')"
  shows "ok (w_store w') \<and> r = Recorded \<and> (\<exists>nxt rev.
    next_rate_limit_state E key (map_option sn_state c) policy now = Inr nxt \<and>
    lookup (w_store w') key = Some \<lparr> sn_state = nxt, sn_revision = rev \<rparr>)"
  using assms(4-)
proof (induction n arbitrary: w)
  case 0
  then show ?case by (simp add: throw_def)
next
  case (Suc n)
  let ?t = "h_clock H RateLimitStoreClock (w_tick w)"
  obtain cur w1 where f: "rl_find H S key w = (Inr cur, w1)"
    and rest: "bind (lift_res (next_rate_limit_state E key (map_option sn_state cur) policy now)) (\<lambda>nxt.
         bind (new_uuid H) (\<lambda>revision.
         bind (rl_compare_exchange H S key (map_option sn_revision cur)
                 \<lparr> sn_state = nxt, sn_revision = revision \<rparr>) (\<lambda>swapped.
           if swapped then ret Recorded
           else record_cas_loop E H S policy key now False n))) w1 = (Inr r, w')"
    using Suc.prems(3) by (auto simp: bind_eq_Inr)
  note f_ok = rl_find_ok [OF Suc.prems(1) keeps f]
  have "lookup (w_store w1) key = ttl_live ?t (lookup (h_interfere H (w_tick w) (w_store w))) key"
    using f_ok(6) by simp
  also have "\<dots> = c"
    using leaves alive Suc.prems(2) by (cases c) (auto simp: leaves_key_def ttl_live_def)
  finally have c1: "lookup (w_store w1) key = c" .
  then have cur: "cur = c" using f_ok(4) by simp
  obtain nxt where nxt: "next_rate_limit_state E key (map_option sn_state c) policy now = Inr nxt"
    using rest cur by (auto simp: bind_eq_Inr lift_res_eq)
  define w2 where "w2 = w1 \<lparr> w_fresh := Suc (w_fresh w1) \<rparr>"
  obtain swapped w3 where
    x: "rl_compare_exchange H S key (map_option sn_revision c)
          \<lparr> sn_state = nxt, sn_revision = h_uuid H (w_fresh w1) \<rparr> w2 = (Inr swapped, w3)"
    and last: "(if swapped then ret Recorded else record_cas_loop E H S policy key now False n) w3
       = (Inr r, w')"
    using rest nxt cur by (auto simp: bind_eq_Inr lift_res_eq new_uuid_eq w2_def)
  have ok2: "ok (w_store w2)" using f_ok(1) by (simp add: w2_def)
  note x_ok = rl_compare_exchange_ok [OF ok2 keeps x]
  show ?case
  proof (cases swapped)
    case True
    with last x_ok nxt show ?thesis by (auto simp: ret_def)
  next
    case False
    let ?st = "h_interfere H (w_tick w2) (w_store w2)" and ?u = "h_clock H RateLimitStoreClock (w_tick w2)"
    obtain st' where cas: "compare_exchange_auth_rate_limit_state S ?u key (map_option sn_revision c)
          \<lparr> sn_state = nxt, sn_revision = h_uuid H (w_fresh w1) \<rparr> ?st = (Inr False, st')"
      and w3: "w_store w3 = st'"
      using x False by (auto simp: rl_compare_exchange_def store_call_eq)
    have same: "lookup ?st key = c"
      using leaves c1 by (simp add: leaves_key_def w2_def)
    have "ok ?st" using keeps ok2 by (simp add: interference_keeps_def)
    with cas_law [OF this cas] have "lookup st' \<subseteq>\<^sub>m lookup ?st" "ttl_live ?u (lookup st') = ttl_live ?u (lookup ?st)"
      by simp_all
    then have "lookup st' key = lookup ?st key"
      using alive same by (intro key_survives) auto
    with same w3 have "lookup (w_store w3) key = c" by simp
    with Suc.IH [OF x_ok(1)] last False show ?thesis by simp
  qed
qed

lemma record_failures_counted:
  assumes laws: "time_laws E" and keeps: "interference_keeps ok H" and leaves: "leaves_key lookup key H"
    and clocks: "clocks_within t0 (rp_window policy) H" and en: "rp_enabled policy"
    and "ok (w_store w)" and "lookup (w_store w) key = None"
    and "record_failures E H S policy key k w = (Inr (), w')"
  shows "ok (w_store w') \<and> counted policy t0 k (lookup (w_store w') key)"
  using assms(6-)
proof (induction k arbitrary: w')
  case 0
  then show ?case by (simp add: ret_def counted_def)
next
  case (Suc k)
  obtain w1 where w1: "record_failures E H S policy key k w = (Inr (), w1)"
    and r: "record_rate_limit_attempt E H S policy [key] w1 = (Inr (), w')"
    using Suc.prems(3) by (auto simp: bind_eq_Inr)
  have IH: "ok (w_store w1)" "counted policy t0 k (lookup (w_store w1) key)"
    using Suc.IH [OF Suc.prems(1,2) w1] by simp_all
  let ?now = "h_clock H RateLimitClock (w_tick w1)"
  obtain out where l: "record_cas_loop E H S policy key ?now False MAX_RATE_LIMIT_CAS_RETRIES
      (w1 \<lparr> w_tick := Suc (w_tick w1) \<rparr>) = (Inr out, w')"
    using r en
    by (auto simp: record_rate_limit_attempt_def record_rate_limit_attempt_for_key_def bind_eq_Inr
        now_from_eq ret_eq throw_eq split: RateLimitRecordOutcome.splits)
      (metis RateLimitRecordOutcome.exhaust)
  have alive: "h_clock H RateLimitStoreClock n < rs_expires_at (sn_state s)"
    if "lookup (w_store w1) key = Some s" for n s
  proof -
    have "t0 + rp_window policy \<le> rs_expires_at (sn_state s)"
      using IH(2) that by (auto simp: counted_def split: if_splits)
    moreover have "h_clock H RateLimitStoreClock n < t0 + rp_window policy"
      using clocks by (simp add: clocks_within_def)
    ultimately show ?thesis by simp
  qed
  obtain nxt rev where n: "next_rate_limit_state E key (map_option sn_state (lookup (w_store w1) key)) policy ?now = Inr nxt"
    and after: "lookup (w_store w') key = Some \<lparr> sn_state = nxt, sn_revision = rev \<rparr>"
    and "ok (w_store w')"
    using record_cas_loop_key [OF keeps leaves alive _ _ l] IH(1) by auto
  moreover have "counted policy t0 (Suc k) (Some \<lparr> sn_state = nxt, sn_revision = rev \<rparr>)"
    using clocks by (intro counted_next [OF laws IH(2) _ _ n]) (auto simp: clocks_within_def)
  ultimately show ?case by simp
qed

lemma locked_rejects:
  assumes keeps: "interference_keeps ok H" and leaves: "leaves_key lookup key H"
    and clocks: "clocks_within t0 (rp_window policy) H"
      "clocks_within t0 (rp_lockout_duration policy) H" and en: "rp_enabled policy"
    and ok: "ok (w_store w)" and c: "counted policy t0 k (lookup (w_store w) key)"
    and k: "unat (rp_max_attempts_before_lockout policy) \<le> k" "0 < k"
    and r: "reject_if_rate_limited E H S policy [key] w = (r, w')"
  shows "case fst (rl_find H S key (w \<lparr> w_tick := Suc (w_tick w) \<rparr>)) of
           Inl e \<Rightarrow> r = Inl e | Inr _ \<Rightarrow> \<exists>n \<ge> 1. r = Inl (AuthLocked n)"
proof -
  obtain s where s: "lookup (w_store w) key = Some s" "unat (rs_attempts (sn_state s)) = min k (2 ^ 32 - 1)"
    "t0 + rp_window policy \<le> rs_expires_at (sn_state s)"
    "rp_max_attempts_before_lockout policy \<le> rs_attempts (sn_state s) \<longrightarrow>
           (\<exists>u. rs_locked_until (sn_state s) = Some u \<and> t0 + rp_lockout_duration policy \<le> u)"
    using c k(2) by (auto simp: counted_def)
  have "unat (rp_max_attempts_before_lockout policy) \<le> 2 ^ 32 - 1"
    using unsigned_less [of "rp_max_attempts_before_lockout policy", where 'a = nat] by simp
  with s(2) k have "rp_max_attempts_before_lockout policy \<le> rs_attempts (sn_state s)"
    by (simp add: word_le_nat_alt)
  with s(4) obtain u where u: "rs_locked_until (sn_state s) = Some u" "t0 + rp_lockout_duration policy \<le> u"
    by blast
  define w1 where "w1 = w \<lparr> w_tick := Suc (w_tick w) \<rparr>"
  let ?now = "h_clock H RateLimitClock (w_tick w)" and ?t = "h_clock H RateLimitStoreClock (w_tick w1)"
  let ?st = "h_interfere H (w_tick w1) (w_store w1)"
  have now: "?now < rs_expires_at (sn_state s)" "?now < u"
    using clocks s(3) u(2) unfolding clocks_within_def by (meson order_less_le_trans)+
  have t: "?t < rs_expires_at (sn_state s)"
    using clocks(1) s(3) unfolding clocks_within_def by (meson order_less_le_trans)
  show ?thesis
  proof (cases "rl_find H S key w1")
    case (Pair x w2)
    show ?thesis
    proof (cases x)
      case (Inl e)
      with Pair r en show ?thesis
        by (simp add: reject_if_rate_limited_def bind_def now_from_def w1_def)
    next
      case (Inr cur)
      with Pair have f: "rl_find H S key w1 = (Inr cur, w2)" by simp
      have "cur = lookup (w_store w2) key"
        using rl_find_ok(4) [OF _ keeps f] ok by (simp add: w1_def)
      also have "\<dots> = ttl_live ?t (lookup ?st) key"
        using rl_find_ok(6) [OF _ keeps f] ok by (simp add: w1_def)
      also have "\<dots> = Some s"
        using leaves s(1) t by (simp add: leaves_key_def w1_def ttl_live_Some)
      finally have "cur = Some s" .
      then show ?thesis
        using r f en now u(1) retry_after_positive
        by (auto simp: reject_if_rate_limited_def bind_def now_from_def w1_def ret_def throw_def Let_def)
    qed
  qed
qed

end

lemma memory_find_error: "fst (memory_find now key mx) = Inl e \<Longrightarrow> e = AuthServiceUnavailable"
  by (auto simp: memory_find_def with_lock_def split: prod.splits if_splits)

text \<open>C21: brute force is locked out. Start from a bucket without state, let other tasks do
  anything to the store except touch this bucket, and let all clock readings fall within
  one window and one lockout period. After the service has recorded at least as many
  failures as the policy allows, the admission check refuses the next attempt: it answers
  that the flow is locked, with a positive retry delay (or that the service is unavailable,
  if the store's mutex was poisoned), and never grants a permit.\<close>

theorem repeated_failures_lock_out:
  assumes "time_laws E" and "rp_enabled policy"
    and "interference_keeps mem_ok H" and "leaves_key mem_abs key H"
    and "clocks_within t0 (rp_window policy) H" and "clocks_within t0 (rp_lockout_duration policy) H"
    and "mem_ok (w_store w)" and "mem_abs (w_store w) key = None"
    and "unat (rp_max_attempts_before_lockout policy) \<le> k" and "0 < k"
    and "record_failures E H (MemoryAuthRateLimitStore capacity) policy key k w = (Inr (), w1)"
    and "reject_if_rate_limited E H (MemoryAuthRateLimitStore capacity) policy [key] w1 = (r, w2)"
  shows "(\<exists>n \<ge> 1. r = Inl (AuthLocked n)) \<or> r = Inl AuthServiceUnavailable"
proof -
  have c: "mem_ok (w_store w1)" "counted policy t0 k (mem_abs (w_store w1) key)"
    using mem.record_failures_counted [OF assms(1,3,4,5,2,7,8,11)] by simp_all
  have e: "fst (rl_find H (MemoryAuthRateLimitStore capacity) key w') = Inl e \<Longrightarrow>
      e = AuthServiceUnavailable" for e w'
    by (auto simp: rl_find_def store_call_def MemoryAuthRateLimitStore_def
        dest: memory_find_error split: prod.splits) (metis fst_conv memory_find_error)
  show ?thesis
    using mem.locked_rejects [OF assms(3,4,5,6,2) c assms(9,10,12)] e
    by (auto split: sum.splits)
qed

definition still_host :: "MemoryMutex host" where
  "still_host = demo_host \<lparr> h_clock := (\<lambda>_ _. 5) \<rparr>"

definition demo_busy :: "MemoryMutex world" where
  "demo_busy =
     (let s = \<lparr> rs_key = demo_key, rs_attempts = 1, rs_first_attempt_at = 5, rs_last_attempt_at = 5,
                rs_backoff_until = None, rs_locked_until = Some 105, rs_expires_at = 105 \<rparr> in
      \<lparr> w_store = \<lparr> mx_poisoned = False,
          mx_state = \<lparr> me_entries = [(demo_key, \<lparr> sn_state = s, sn_revision = 0 \<rparr>)],
                       me_expirations = [(105, [demo_key])] \<rparr> \<rparr>,
        w_tick = 3, w_fresh = 1 \<rparr>)"

lemma demo_busy_eq:
  "record_failures std_ext still_host (MemoryAuthRateLimitStore 4) demo_policy demo_key 1 demo_world
     = (Inr (), demo_busy)"
  by code_simp

lemma demo_host_facts:
  "interference_keeps mem_ok still_host" "leaves_key mem_abs demo_key still_host"
  "clocks_within 5 (rp_window demo_policy) still_host"
  "clocks_within 5 (rp_lockout_duration demo_policy) still_host" "rp_enabled demo_policy"
  "unat (rp_max_attempts_before_lockout demo_policy) \<le> 1"
  "mem_ok (w_store demo_world)" "mem_abs (w_store demo_world) demo_key = None"
  using mem_inv_default
  by (simp_all add: interference_keeps_def leaves_key_def clocks_within_def still_host_def demo_host_def
      demo_policy_def demo_world_def healthy_empty_def mem_ok_def mem_abs_def MemoryState_default_def)

lemma repeated_failures_lock_out_witness:
  "\<exists>w2 n. record_failures std_ext still_host (MemoryAuthRateLimitStore 4) demo_policy demo_key 1 demo_world
       = (Inr (), demo_busy) \<and>
     reject_if_rate_limited std_ext still_host (MemoryAuthRateLimitStore 4) demo_policy [demo_key] demo_busy
       = (Inl (AuthLocked n), w2) \<and> 1 \<le> n"
proof -
  let ?r = "reject_if_rate_limited std_ext still_host (MemoryAuthRateLimitStore 4) demo_policy [demo_key] demo_busy"
  have "fst ?r \<noteq> Inl AuthServiceUnavailable" by code_simp
  moreover have "(\<exists>n \<ge> 1. fst ?r = Inl (AuthLocked n)) \<or> fst ?r = Inl AuthServiceUnavailable"
    using repeated_failures_lock_out [OF std_ext_time_laws demo_host_facts(5,1-4,7,8,6) _ demo_busy_eq]
    by (metis prod.collapse zero_less_one)
  ultimately show ?thesis using demo_busy_eq by (metis prod.collapse)
qed

section \<open>Permits and clearing\<close>

context rate_limit_store
begin

lemma observe_keys_permit:
  assumes keeps: "interference_keeps ok H" and "ok (w_store w)"
    and "observe_keys H S now keys obs l b w = (Inr (obs', None, None), w')"
  shows "l = None \<and> b = None \<and> map ob_key obs' = map ob_key obs @ keys \<and>
    (\<forall>key \<in> set keys. \<exists>m st. is_none_or (\<lambda>s. active_rate_limit_error E (sn_state s) now = None)
       (ttl_live (h_clock H RateLimitStoreClock m) (lookup (h_interfere H m st)) key))"
  using assms(2,3)
proof (induction keys arbitrary: obs l b w)
  case Nil
  then show ?case by (auto simp: ret_def)
next
  case (Cons key keys)
  obtain cur w1 where f: "rl_find H S key w = (Inr cur, w1)"
    using Cons.prems(2) by (auto simp: bind_eq_Inr)
  note f_ok = rl_find_ok [OF Cons.prems(1) keeps f]
  have cur: "cur = ttl_live (h_clock H RateLimitStoreClock (w_tick w))
      (lookup (h_interfere H (w_tick w) (w_store w))) key"
    using f_ok(4,6) by simp
  have inactive: "l = None \<and> b = None \<and>
      is_none_or (\<lambda>s. active_rate_limit_error E (sn_state s) now = None) cur \<and>
      (\<exists>o1. ob_key o1 = key \<and> observe_keys H S now keys (obs @ [o1]) None None w1 = (Inr (obs', None, None), w'))"
  proof (cases cur)
    case None
    with Cons.prems(2) f have
      "observe_keys H S now keys (obs @ [\<lparr> ob_key = key, ob_revision = None \<rparr>]) l b w1 = (Inr (obs', None, None), w')"
      by (simp add: bind_eq_Inr)
    with Cons.IH [OF f_ok(1) this] None show ?thesis
      by (auto intro: exI [of _ "\<lparr> ob_key = key, ob_revision = None \<rparr>"])
  next
    case (Some s)
    let ?o = "\<lparr> ob_key = key, ob_revision = Some (sn_revision s) \<rparr>"
    obtain l' b' where rest: "observe_keys H S now keys (obs @ [?o]) l' b' w1 = (Inr (obs', None, None), w')"
      and lb: "l' = None \<Longrightarrow> b' = None \<Longrightarrow> l = None \<and> b = None \<and> active_rate_limit_error E (sn_state s) now = None"
      using Cons.prems(2) f Some
      by (cases "rs_expires_at (sn_state s) \<le> now";
          cases "filter_option (\<lambda>until. now < until) (rs_locked_until (sn_state s))";
          cases "filter_option (\<lambda>until. now < until) (rs_backoff_until (sn_state s))")
        (auto simp: bind_eq_Inr Let_def active_rate_limit_error_def)
    with Cons.IH [OF f_ok(1) rest] Some show ?thesis by (auto intro: exI [of _ ?o])
  qed
  then obtain o1 where o1: "ob_key o1 = key"
    and rest: "observe_keys H S now keys (obs @ [o1]) None None w1 = (Inr (obs', None, None), w')"
    by blast
  show ?case
    using Cons.IH [OF f_ok(1) rest] inactive o1 cur by auto
qed

lemma clear_keeps_newer:
  assumes keeps: "interference_keeps ok H" and leaves: "leaves_key lookup key H"
    and alive: "\<And>n. h_clock H RateLimitStoreClock n < rs_expires_at (sn_state s)"
    and "ok (w_store w)" and "lookup (w_store w) key = Some s"
    and "\<forall>ob \<in> set obs. ob_key ob = key \<longrightarrow> ob_revision ob \<noteq> Some (sn_revision s)"
    and "for_each_m (\<lambda>ob. bind (rl_clear H S (ob_key ob) (ob_revision ob)) (\<lambda>cleared. ret ())) obs w = (r, w')"
  shows "ok (w_store w') \<and> lookup (w_store w') key = Some s"
  using assms(4-)
proof (induction obs arbitrary: w)
  case Nil
  then show ?case by (simp add: ret_def)
next
  case (Cons ob obs)
  let ?st = "h_interfere H (w_tick w) (w_store w)" and ?t = "h_clock H RateLimitStoreClock (w_tick w)"
  have ok: "ok ?st" using keeps Cons.prems(1) by (simp add: interference_keeps_def)
  have here: "lookup ?st key = Some s" using leaves Cons.prems(2) by (simp add: leaves_key_def)
  obtain c st' where c: "clear_auth_rate_limit_state S ?t (ob_key ob) (ob_revision ob) ?st = (c, st')"
    by (cases "clear_auth_rate_limit_state S ?t (ob_key ob) (ob_revision ob) ?st")
  note law = clear_law [OF ok c]
  have live: "ttl_live ?t (lookup ?st) key = Some s"
    using here alive by (simp add: ttl_live_Some)
  have kept: "lookup st' key = Some s"
  proof (cases "c = Inr True")
    case True
    with law live Cons.prems(3) show ?thesis by auto
  next
    case False
    with law have "lookup st' \<subseteq>\<^sub>m lookup ?st" "ttl_live ?t (lookup st') = ttl_live ?t (lookup ?st)" by auto
    then have "lookup st' key = lookup ?st key"
      using here alive by (intro key_survives) auto
    with here show ?thesis by simp
  qed
  let ?w1 = "w \<lparr> w_store := st', w_tick := Suc (w_tick w) \<rparr>"
  have step: "rl_clear H S (ob_key ob) (ob_revision ob) w = (c, ?w1)"
    using c by (simp add: rl_clear_def store_call_def)
  show ?case
  proof (cases c)
    case (Inl e)
    with step Cons.prems(4) law kept show ?thesis by (auto simp: bind_def)
  next
    case (Inr x)
    have "for_each_m (\<lambda>ob. bind (rl_clear H S (ob_key ob) (ob_revision ob)) (\<lambda>cleared. ret ())) obs ?w1 = (r, w')"
      using Inr step Cons.prems(4) by (simp add: bind_run(1) [of _ _ x])
    with Cons.IH [of ?w1] law kept Cons.prems(3) show ?thesis by simp
  qed
qed

end

text \<open>Admission. When the check grants a permit, each bucket of the request was read at
  some step in a state that imposes neither lockout nor delay at the check's clock reading,
  and the permit remembers exactly those buckets.\<close>

theorem permit_only_when_inactive:
  assumes "interference_keeps mem_ok H" and "mem_ok (w_store w)" and "rp_enabled policy" and "keys \<noteq> []"
    and "reject_if_rate_limited E H (MemoryAuthRateLimitStore capacity) policy keys w = (Inr permit, w')"
  shows "map ob_key (pm_observations permit) = keys \<and>
    (\<forall>key \<in> set keys. \<exists>m st. is_none_or
       (\<lambda>s. active_rate_limit_error E (sn_state s) (h_clock H RateLimitClock (w_tick w)) = None)
       (ttl_live (h_clock H RateLimitStoreClock m) (mem_abs (h_interfere H m st)) key))"
proof -
  obtain obs where "observe_keys H (MemoryAuthRateLimitStore capacity)
      (h_clock H RateLimitClock (w_tick w)) keys [] None None (w \<lparr> w_tick := Suc (w_tick w) \<rparr>)
      = (Inr (obs, None, None), w')" and "pm_observations permit = obs"
    using assms(3-)
    by (auto simp: reject_if_rate_limited_def bind_eq_Inr now_from_eq ret_eq throw_eq
        split: option.splits prod.splits)
  with mem.observe_keys_permit [OF assms(1) _ this(1), of E] assms(2) show ?thesis by simp
qed

lemma permit_only_when_inactive_witness:
  "\<exists>permit w'. reject_if_rate_limited std_ext still_host (MemoryAuthRateLimitStore 4) demo_policy
     [demo_key] demo_world = (Inr permit, w') \<and> map ob_key (pm_observations permit) = [demo_key]"
proof -
  let ?r = "reject_if_rate_limited std_ext still_host (MemoryAuthRateLimitStore 4) demo_policy
     [demo_key] demo_world"
  have "is_ok (fst ?r)" by code_simp
  then obtain permit w' where r: "?r = (Inr permit, w')" by (metis is_ok_iff prod.collapse)
  then show ?thesis
    using permit_only_when_inactive [OF demo_host_facts(1,7,5) _ r] by simp
qed

text \<open>A successful credential clears only what its own admission observed. If another
  task has meanwhile recorded a failure in a bucket, so that the bucket's live snapshot
  carries a revision the permit did not observe, clearing with that permit leaves the
  snapshot in place, whatever the outcome of the clear.\<close>

theorem clear_never_erases_newer_failures:
  assumes "interference_keeps mem_ok H" and "leaves_key mem_abs key H"
    and "\<forall>n. h_clock H RateLimitStoreClock n < rs_expires_at (sn_state s)"
    and "mem_ok (w_store w)" and "mem_abs (w_store w) key = Some s"
    and "\<forall>ob \<in> set (pm_observations permit).
           ob_key ob = key \<longrightarrow> ob_revision ob \<noteq> Some (sn_revision s)"
    and "clear_rate_limit_attempts H (MemoryAuthRateLimitStore capacity) policy permit w = (r, w')"
  shows "mem_abs (w_store w') key = Some s"
proof (cases "\<not> rp_enabled policy \<or> pm_observations permit = []")
  case True
  with assms(5,7) show ?thesis by (simp add: clear_rate_limit_attempts_def ret_def)
next
  case False
  then show ?thesis
    using mem.clear_keeps_newer [OF assms(1,2) _ assms(4,5,6)] assms(3,7)
    by (simp add: clear_rate_limit_attempts_def)
qed

lemma clear_never_erases_newer_failures_witness:
  "\<exists>s. mem_abs (w_store demo_busy) demo_key = Some s \<and>
     mem_abs (w_store (snd (clear_rate_limit_attempts still_host (MemoryAuthRateLimitStore 4) demo_policy
       \<lparr> pm_observations = [\<lparr> ob_key = demo_key, ob_revision = Some 99 \<rparr>] \<rparr> demo_busy))) demo_key = Some s"
proof -
  let ?c = "clear_rate_limit_attempts still_host (MemoryAuthRateLimitStore 4) demo_policy
     \<lparr> pm_observations = [\<lparr> ob_key = demo_key, ob_revision = Some 99 \<rparr>] \<rparr> demo_busy"
  have ok: "mem_ok (w_store demo_busy)"
    using mem.record_failures_counted
      [OF std_ext_time_laws demo_host_facts(1,2,3,5,7,8) demo_busy_eq] by simp
  obtain s where s: "mem_abs (w_store demo_busy) demo_key = Some s" "rs_expires_at (sn_state s) = 105"
    "sn_revision s = 0"
    by (simp add: demo_busy_def mem_abs_def Let_def)
  have alive: "\<forall>n. h_clock still_host RateLimitStoreClock n < rs_expires_at (sn_state s)"
    using s(2) by (simp add: still_host_def)
  have "mem_abs (w_store (snd ?c)) demo_key = Some s"
    by (rule clear_never_erases_newer_failures [OF demo_host_facts(1,2) alive ok s(1) _ prod.collapse [symmetric]])
      (simp add: s(3))
  with s(1) show ?thesis by blast
qed

end
