(* ===== verification/Service.thy ===== *)
theory Service
  imports Token_Decode Stores Principal_Reference Rate_Limit
begin

text \<open>
  The authentication service of \<open>src/service.rs\<close>: its record, the construction from a
  configuration and key material, password work, local JWT issuance and validation, and
  purpose tokens. The stores, the JWT crate, the password hashing crate and the worker pool
  are fields of the record; the operations run in a host \<open>H\<close> (clocks, random source,
  interleaved tasks) and read third-party functions from \<open>E\<close>.
\<close>

section \<open>Claims and libraries\<close>

record PasswordResetTokenClaims =
  rc_sub :: string
  rc_jti :: string
  rc_typ :: "string option"
  rc_purpose :: string
  rc_iss :: string
  rc_aud :: string
  rc_exp :: int
  rc_iat :: int

record PurposeTokenClaims =
  pc_typ :: string
  pc_sub :: string
  pc_sid :: "string option"
  pc_scopes :: "string list"
  pc_purpose :: string
  pc_iss :: string
  pc_aud :: string
  pc_exp :: int
  pc_iat :: int
  pc_custom :: "(string \<times> JsonValue) list"

text \<open>The JWT and RSA crates: a codec per claims type and the parsing of PEM keys.\<close>

record jwt_lib =
  jl_access :: "AccessTokenClaims jwt_codec"
  jl_purpose :: "PurposeTokenClaims jwt_codec"
  jl_reset :: "PasswordResetTokenClaims jwt_codec"
  jl_json :: "JsonValue jwt_codec"
  jl_encoding_from_rsa_pem :: "string \<Rightarrow> EncodingKey option"
  jl_decoding_from_rsa_pem :: "string \<Rightarrow> DecodingKey option"
  jl_rsa_from_public_key_pem :: "string \<Rightarrow> (bytes \<times> bytes) option"
  jl_rsa_from_pkcs1_pem :: "string \<Rightarrow> (bytes \<times> bytes) option"

text \<open>The Argon2 crate and the shared worker pool: whether a stored hash parses (or the error
  text), whether a password verifies against it, hashing with a salt, and whether the pool
  admits and finishes a job submitted at a step.\<close>

record password_lib =
  pw_parse :: "string \<Rightarrow> string + unit"
  pw_verifies :: "string \<Rightarrow> string \<Rightarrow> bool"
  pw_hash :: "string \<Rightarrow> bytes \<Rightarrow> string + string"
  pw_admits :: "nat \<Rightarrow> bool"

definition MIN_HS256_SECRET_BYTES :: nat where "MIN_HS256_SECRET_BYTES = 32"
definition PASSWORD_RESET_TOKEN_TYPE :: string where "PASSWORD_RESET_TOKEN_TYPE = ''password_reset''"
definition PASSWORD_RESET_TOKEN_PURPOSE :: string where "PASSWORD_RESET_TOKEN_PURPOSE = ''password_reset''"
definition PURPOSE_TOKEN_TYPE :: string where "PURPOSE_TOKEN_TYPE = ''purpose_token''"
definition MAX_REFRESH_REUSE_GRACE_RETRIES :: nat where "MAX_REFRESH_REUSE_GRACE_RETRIES = 32"
definition DUMMY_PASSWORD_HASH :: string where
  "DUMMY_PASSWORD_HASH =
     ''$argon2id$v=19$m=19456,t=2,p=1$YWdxbC1hdXRoLWR1bW15LXNsdA$8ClNuSX6M3l/dalOcz8a117s1wLv/AbzbJiKA7dS4Ak''"

section \<open>Reuse grace (refresh\_reuse\_grace.rs)\<close>

definition MAX_REFRESH_REUSE_GRACE :: duration where "MAX_REFRESH_REUSE_GRACE = seconds 30"

record RefreshReuseGraceEvent =
  ge_session_family_id :: uuid
  ge_session_id :: uuid
  ge_user_id :: string
  ge_presented_token_id :: uuid
  ge_presented_revoked_at :: time
  ge_superseded_token_id :: uuid
  ge_replacement_token_id :: uuid
  ge_occurred_at :: time
  ge_ip_address :: "string option"
  ge_user_agent :: "string option"

definition superseded_within :: "StoredRefreshToken \<Rightarrow> time \<Rightarrow> duration \<Rightarrow> bool" where
  "superseded_within token now window =
     (case rt_revoked_at token of
        None \<Rightarrow> False
      | Some revoked_at \<Rightarrow>
          rt_replaced_by_token_id token \<noteq> None \<and> \<not> refresh_is_expired token now \<and>
          abs (now - revoked_at) < window)"

definition can_replace_newest :: "StoredRefreshToken \<Rightarrow> StoredRefreshToken \<Rightarrow> time \<Rightarrow> bool" where
  "can_replace_newest presented newest now \<longleftrightarrow>
     rt_id newest \<noteq> rt_id presented \<and> \<not> refresh_is_revoked newest \<and>
     \<not> refresh_is_expired newest now \<and>
     rt_session_family_id newest = rt_session_family_id presented \<and>
     rt_session_id newest = rt_session_id presented \<and>
     rt_user_id newest = rt_user_id presented \<and>
     rt_grant_source newest = rt_grant_source presented"

section \<open>The service\<close>

text \<open>The two traits through which a host supplies grants, and the audit observer.\<close>

type_synonym 'st roles_provider = "AuthUser \<Rightarrow> nat \<Rightarrow> 'st \<Rightarrow> string list AuthResult"
type_synonym 'st grant_authority =
  "StoredRefreshToken \<Rightarrow> StoredUser \<Rightarrow> nat \<Rightarrow> 'st \<Rightarrow> CurrentRefreshGrant AuthResult"
type_synonym 'st session_resolver =
  "PrincipalReference \<Rightarrow> nat \<Rightarrow> 'st \<Rightarrow> VerifiedActiveUserSession AuthResult"
type_synonym 'st grace_observer = "RefreshReuseGraceEvent \<Rightarrow> 'st \<Rightarrow> 'st"

record 'st AuthService =
  sv_config :: AuthConfig
  sv_user_store :: "'st UserStore"
  sv_refresh_store :: "'st RefreshTokenStore"
  sv_rate_limit_store :: "'st AuthRateLimitStore"
  sv_password :: password_lib
  sv_jwt :: jwt_lib
  sv_encoding_key :: EncodingKey
  sv_decoding_key :: DecodingKey
  sv_validation :: Validation
  sv_signing_algorithm :: Algorithm
  sv_signing_key_id :: "string option"
  sv_jwks :: "JsonValue option"
  sv_scope_matcher :: ScopeMatch
  sv_active_user_session_resolver :: "'st session_resolver option"
  sv_additional_token_roles_provider :: "'st roles_provider option"
  sv_refresh_grant_authority :: "'st grant_authority option"
  sv_refresh_reuse_grace :: "duration option"
  sv_refresh_reuse_grace_observer :: "'st grace_observer option"
  sv_fixed_delegation_audience :: "string option"

section \<open>Key material\<close>

record JwtKeyMaterial =
  km_encoding_key :: EncodingKey
  km_decoding_key :: DecodingKey
  km_validation :: Validation
  km_algorithm :: Algorithm
  km_key_id :: "string option"
  km_jwks :: "JsonValue option"

definition signing_algorithm :: "JwtSigningConfig \<Rightarrow> Algorithm" where
  "signing_algorithm signing = (case signing of Hs256 _ \<Rightarrow> HS256 | Rs256 _ _ _ \<Rightarrow> RS256)"

definition validation_for :: "Algorithm \<Rightarrow> string \<Rightarrow> string \<Rightarrow> Validation" where
  "validation_for alg issuer audience =
     (Validation_new alg) \<lparr> va_iss := Some [issuer], va_aud := Some [audience],
       va_required_spec_claims := [''exp'', ''iat'', ''iss'', ''aud'', ''sub''] \<rparr>"

definition validate_rs256_key_pair :: "ext \<Rightarrow> jwt_lib \<Rightarrow> time \<Rightarrow> EncodingKey \<Rightarrow> DecodingKey \<Rightarrow> unit AuthResult" where
  "validate_rs256_key_pair E J now encoding_key decoding_key =
     (let probe = JObject [(''exp'', JNumber (show_int (unix_timestamp E now + 60))),
                           (''sub'', JString ''agql-auth-key-validation'')] in
      bind_res (map_err (\<lambda>_. InvalidConfiguration ''invalid RS256 private key PEM'')
                  (jwt_encode (jl_json J) (Header_new RS256) probe encoding_key)) (\<lambda>token.
      let validation = (Validation_new RS256) \<lparr> va_required_spec_claims := [], va_validate_exp := False,
                         va_validate_aud := False \<rparr> in
      bind_res (map_err (\<lambda>_. InvalidConfiguration ''RS256 private and public keys do not form a valid key pair'')
                  (jwt_decode (jl_json J) now token decoding_key validation)) (\<lambda>_.
        Inr ())))"

definition parse_rsa_public_key :: "jwt_lib \<Rightarrow> string \<Rightarrow> (bytes \<times> bytes) AuthResult" where
  "parse_rsa_public_key J public_key_pem =
     ok_or (InvalidConfiguration ''invalid RS256 public key PEM'')
       (case jl_rsa_from_public_key_pem J public_key_pem of
          Some key \<Rightarrow> Some key
        | None \<Rightarrow> jl_rsa_from_pkcs1_pem J public_key_pem)"

definition build_rs256_jwks :: "ext \<Rightarrow> jwt_lib \<Rightarrow> string \<Rightarrow> string \<Rightarrow> JsonValue AuthResult" where
  "build_rs256_jwks E J public_key_pem key_id =
     bind_res (parse_rsa_public_key J public_key_pem) (\<lambda>(n, e).
       Inr (JObject [(''keys'', JArray [JObject
         [(''alg'', JString ''RS256''), (''e'', JString (base64url_encode E e)),
          (''kid'', JString key_id), (''kty'', JString ''RSA''),
          (''n'', JString (base64url_encode E n)), (''use'', JString ''sig'')]])]))"

definition JwtKeyMaterial_from_config :: "ext \<Rightarrow> jwt_lib \<Rightarrow> time \<Rightarrow> AuthConfig \<Rightarrow> JwtKeyMaterial AuthResult" where
  "JwtKeyMaterial_from_config E J now config =
     (let signing = cf_jwt_signing config; algorithm = signing_algorithm signing in
      bind_res (case signing of
          Hs256 secret \<Rightarrow>
            if length secret < MIN_HS256_SECRET_BYTES
            then Inl (InvalidConfiguration ''HS256 secret must be at least 32 bytes'')
            else Inr (EncodingSecret secret, DecodingSecret secret, None, None)
        | Rs256 private_key_pem public_key_pem key_id \<Rightarrow>
            bind_res (reject_when (blank key_id)
              (InvalidConfiguration ''RS256 key_id must not be empty'')) (\<lambda>_.
            bind_res (ok_or (InvalidConfiguration ''invalid RS256 private key PEM'')
              (jl_encoding_from_rsa_pem J private_key_pem)) (\<lambda>encoding_key.
            bind_res (ok_or (InvalidConfiguration ''invalid RS256 public key PEM'')
              (jl_decoding_from_rsa_pem J public_key_pem)) (\<lambda>decoding_key.
            bind_res (validate_rs256_key_pair E J now encoding_key decoding_key) (\<lambda>_.
            bind_res (build_rs256_jwks E J public_key_pem key_id) (\<lambda>jwks.
              Inr (encoding_key, decoding_key, Some key_id, Some jwks)))))))
        (\<lambda>(encoding_key, decoding_key, key_id, jwks).
          Inr \<lparr> km_encoding_key = encoding_key, km_decoding_key = decoding_key,
                km_validation = validation_for algorithm (cf_issuer config) (cf_audience config),
                km_algorithm = algorithm, km_key_id = key_id, km_jwks = jwks \<rparr>))"

text \<open>Construction: \<open>pool\<close> is the result of starting the shared password pool; \<open>now\<close> stands
  for the clock readings made while the configuration is checked.\<close>

definition AuthService_new ::
  "ext \<Rightarrow> jwt_lib \<Rightarrow> password_lib AuthResult \<Rightarrow> time \<Rightarrow> AuthConfig \<Rightarrow> 'st UserStore \<Rightarrow>
   'st RefreshTokenStore \<Rightarrow> 'st AuthRateLimitStore \<Rightarrow> 'st AuthService AuthResult" where
  "AuthService_new E J pool now config users refreshes rates =
     bind_res (AuthConfig_validate E now config) (\<lambda>_.
     bind_res (JwtKeyMaterial_from_config E J now config) (\<lambda>keys.
     bind_res pool (\<lambda>password.
       Inr \<lparr> sv_config = config, sv_user_store = users, sv_refresh_store = refreshes,
             sv_rate_limit_store = rates, sv_password = password, sv_jwt = J,
             sv_encoding_key = km_encoding_key keys, sv_decoding_key = km_decoding_key keys,
             sv_validation = km_validation keys, sv_signing_algorithm = km_algorithm keys,
             sv_signing_key_id = km_key_id keys, sv_jwks = km_jwks keys,
             sv_scope_matcher = ExactScopeMatch, sv_active_user_session_resolver = None,
             sv_additional_token_roles_provider = None, sv_refresh_grant_authority = None,
             sv_refresh_reuse_grace = None, sv_refresh_reuse_grace_observer = None,
             sv_fixed_delegation_audience = None \<rparr>)))"

definition with_refresh_reuse_grace :: "duration \<Rightarrow> 'st AuthService \<Rightarrow> 'st AuthService AuthResult" where
  "with_refresh_reuse_grace window V =
     (if window \<le> 0 \<or> window > MAX_REFRESH_REUSE_GRACE \<or> window \<ge> cf_refresh_token_ttl (sv_config V)
      then Inl (InvalidConfiguration
        ''refresh reuse grace must be positive, at most 30 seconds and shorter than the refresh-token ttl'')
      else Inr (V \<lparr> sv_refresh_reuse_grace := Some window \<rparr>))"

text \<open>The builders that install host callbacks. A clock is a reading of the host, so the two
  builders that replace a clock have no counterpart.\<close>

definition with_refresh_grant_authority :: "'st grant_authority \<Rightarrow> 'st AuthService \<Rightarrow> 'st AuthService" where
  "with_refresh_grant_authority authority V = V \<lparr> sv_refresh_grant_authority := Some authority \<rparr>"

definition with_refresh_reuse_grace_observer :: "'st grace_observer \<Rightarrow> 'st AuthService \<Rightarrow> 'st AuthService" where
  "with_refresh_reuse_grace_observer observer V = V \<lparr> sv_refresh_reuse_grace_observer := Some observer \<rparr>"

definition with_scope_matcher :: "ScopeMatch \<Rightarrow> 'st AuthService \<Rightarrow> 'st AuthService" where
  "with_scope_matcher matcher V = V \<lparr> sv_scope_matcher := matcher \<rparr>"

definition with_active_user_session_resolver :: "'st session_resolver \<Rightarrow> 'st AuthService \<Rightarrow> 'st AuthService" where
  "with_active_user_session_resolver resolver V = V \<lparr> sv_active_user_session_resolver := Some resolver \<rparr>"

definition with_additional_token_roles_provider :: "'st roles_provider \<Rightarrow> 'st AuthService \<Rightarrow> 'st AuthService" where
  "with_additional_token_roles_provider provider V =
     V \<lparr> sv_additional_token_roles_provider := Some provider \<rparr>"

definition service_jwks :: "'st AuthService \<Rightarrow> JsonValue AuthResult" where
  "service_jwks V = ok_or JwksUnsupported (sv_jwks V)"

section \<open>Password work\<close>

text \<open>A job of the worker pool: awaited, and refused when the pool is saturated.\<close>

definition pool_execute :: "'st host \<Rightarrow> 'st AuthService \<Rightarrow> ('st, unit) action" where
  "pool_execute H V =
     host_call H (\<lambda>n st. if pw_admits (sv_password V) n then Inr () else Inl AuthServiceUnavailable)"

definition verify_password :: "'st AuthService \<Rightarrow> string \<Rightarrow> string \<Rightarrow> unit AuthResult" where
  "verify_password V password password_hash =
     bind_res (map_err PasswordHashing (pw_parse (sv_password V) password_hash)) (\<lambda>_.
       if pw_verifies (sv_password V) password password_hash then Inr () else Inl InvalidCredentials)"

definition verify_password_async_before ::
  "'st host \<Rightarrow> 'st AuthService \<Rightarrow> string \<Rightarrow> string \<Rightarrow> (ClockId \<times> time) option \<Rightarrow> ('st, unit) action" where
  "verify_password_async_before H V password password_hash deadline =
     bind (pool_execute H V) (\<lambda>_.
     bind (case deadline of
             None \<Rightarrow> ret ()
           | Some (clock, expiry) \<Rightarrow>
               bind (now_from H clock) (\<lambda>now. require (\<not> now \<ge> expiry) LoginChallengeExpired)) (\<lambda>_.
       lift_res (verify_password V password password_hash)))"

definition verify_password_async :: "'st host \<Rightarrow> 'st AuthService \<Rightarrow> string \<Rightarrow> string \<Rightarrow> ('st, unit) action" where
  "verify_password_async H V password password_hash =
     verify_password_async_before H V password password_hash None"

definition hash_password :: "'st host \<Rightarrow> 'st AuthService \<Rightarrow> string \<Rightarrow> ('st, string) action" where
  "hash_password H V password =
     bind (random_bytes H) (\<lambda>salt.
       lift_res (map_err PasswordHashing (pw_hash (sv_password V) password salt)))"

definition hash_password_async :: "'st host \<Rightarrow> 'st AuthService \<Rightarrow> string \<Rightarrow> ('st, string) action" where
  "hash_password_async H V password =
     bind (pool_execute H V) (\<lambda>_. hash_password H V password)"

section \<open>Local tokens\<close>

definition service_dedupe_stable :: "string list \<Rightarrow> string list" where
  "service_dedupe_stable values = dedupe_from {} values"

definition encode_local_jwt :: "'st AuthService \<Rightarrow> 'c jwt_codec \<Rightarrow> 'c \<Rightarrow> string AuthResult" where
  "encode_local_jwt V C claims =
     (let header = (Header_new (sv_signing_algorithm V)) \<lparr> hd_kid := sv_signing_key_id V \<rparr> in
      map_err TokenCreation (jwt_encode C header claims (sv_encoding_key V)))"

definition validate_local_jwt_header :: "'st AuthService \<Rightarrow> 'c jwt_codec \<Rightarrow> string \<Rightarrow> unit AuthResult" where
  "validate_local_jwt_header V C token =
     bind_res (map_err (\<lambda>_. InvalidAccessToken) (jwt_decode_header C token)) (\<lambda>header.
     bind_res (reject_when (hd_alg header \<noteq> sv_signing_algorithm V) InvalidAccessToken) (\<lambda>_.
       case sv_signing_key_id V of
         None \<Rightarrow> Inr ()
       | Some expected_kid \<Rightarrow> reject_when (hd_kid header \<noteq> Some expected_kid) InvalidAccessToken))"

definition access_token_decode_config :: "'st AuthService \<Rightarrow> AccessTokenDecodeConfig" where
  "access_token_decode_config V =
     AccessTokenDecodeConfig_for_service (sv_decoding_key V) (sv_validation V) (sv_signing_key_id V)
       (cf_legacy_scope_claims (sv_config V))"

definition validation_for_audience :: "'st AuthService \<Rightarrow> string \<Rightarrow> Validation" where
  "validation_for_audience V audience =
     validation_for (sv_signing_algorithm V) (cf_issuer (sv_config V)) audience"

definition access_claims_for :: "ext \<Rightarrow> 'st AuthService \<Rightarrow> AuthUser \<Rightarrow> time \<Rightarrow> time \<Rightarrow> string \<Rightarrow> string option \<Rightarrow>
    string list option \<Rightarrow> AccessTokenClaims" where
  "access_claims_for E V auth_user issued_at expires_at audience scope legacy_scopes =
     (let md = au_token_claims auth_user in
      \<lparr> tc_typ = Some ACCESS_TOKEN_TYPE, tc_sub = au_user_id auth_user,
        tc_sid = uuid_to_string E (au_session_id auth_user), tc_roles = au_roles auth_user,
        tc_authorization_roles = md_authorization_roles md, tc_scope = scope,
        tc_legacy_scopes = legacy_scopes, tc_ctx = au_session auth_user,
        tc_iss = cf_issuer (sv_config V), tc_aud = audience_claim audience,
        tc_exp = unix_timestamp E expires_at, tc_iat = unix_timestamp E issued_at, tc_nbf = None,
        tc_purpose = Some ACCESS_TOKEN_PURPOSE, tc_jti = md_jti md,
        tc_tenant_id = md_tenant_id md, tc_organization_id = md_organization_id md,
        tc_session_family_id = md_session_family_id md, tc_grant_kind = md_grant_kind md,
        tc_session_version = md_session_version md, tc_actor = md_actor md,
        tc_auth_time = md_auth_time md, tc_amr = md_amr md, tc_acr = md_acr md, tc_cnf = md_cnf md,
        tc_resource_type = md_resource_type md, tc_resource_id = md_resource_id md,
        tc_correlation_id = md_correlation_id md, tc_operation = md_operation md,
        tc_additional = md_additional md \<rparr>)"

definition issue_access_token_with_user_for_audience ::
  "ext \<Rightarrow> 'st host \<Rightarrow> 'st AuthService \<Rightarrow> AuthUser \<Rightarrow> time \<Rightarrow> time \<Rightarrow> string \<Rightarrow>
   ('st, string \<times> AuthUser) action" where
  "issue_access_token_with_user_for_audience E H V auth_user issued_at expires_at audience =
     bind (case md_jti (au_token_claims auth_user) of
             Some jti \<Rightarrow> ret jti
           | None \<Rightarrow> bind (new_uuid H) (\<lambda>u. ret (uuid_to_string E u))) (\<lambda>jti.
     let auth_user = auth_user \<lparr> au_token_claims := (au_token_claims auth_user)
           \<lparr> md_jti := Some jti, md_purpose := Some ACCESS_TOKEN_PURPOSE,
             md_expires_at := from_unix_timestamp E (unix_timestamp E expires_at) \<rparr> \<rparr> in
     bind (lift_res (issued_scope_claims (au_scopes auth_user)
             (cf_access_token_scope_claim_format (sv_config V)))) (\<lambda>(scope, legacy_scopes).
     bind (require (valid_authorization_role_set (md_authorization_roles (au_token_claims auth_user)))
             (TokenCreation ''access-token authorization roles cannot be represented safely'')) (\<lambda>_.
     bind (lift_res (encode_local_jwt V (jl_access (sv_jwt V))
             (access_claims_for E V auth_user issued_at expires_at audience scope legacy_scopes))) (\<lambda>token.
       ret (token, auth_user)))))"

definition issue_access_token_with_user ::
  "ext \<Rightarrow> 'st host \<Rightarrow> 'st AuthService \<Rightarrow> AuthUser \<Rightarrow> time \<Rightarrow> time \<Rightarrow> ('st, string \<times> AuthUser) action" where
  "issue_access_token_with_user E H V auth_user issued_at expires_at =
     issue_access_token_with_user_for_audience E H V auth_user issued_at expires_at
       (cf_audience (sv_config V))"

text \<open>Decoding reads the system clock; the JWT crate reads it as well.\<close>

definition decode_with_config ::
  "ext \<Rightarrow> 'st host \<Rightarrow> 'st AuthService \<Rightarrow> string \<Rightarrow> AccessTokenDecodeConfig \<Rightarrow> ('st, AuthUser) action" where
  "decode_with_config E H V token config =
     bind (now_from H SystemClock) (\<lambda>now.
     bind (now_from H (dc_clock config)) (\<lambda>clock_now.
     bind (lift_res (decode_access_token_claims E (jl_access (sv_jwt V)) now clock_now token config)) (\<lambda>claims.
       lift_res (access_token_claims_to_user E claims))))"

definition authenticate_access_token :: "ext \<Rightarrow> 'st host \<Rightarrow> 'st AuthService \<Rightarrow> string \<Rightarrow> ('st, AuthUser) action" where
  "authenticate_access_token E H V token = decode_with_config E H V token (access_token_decode_config V)"

definition authenticate_fixed_audience_access_token ::
  "ext \<Rightarrow> 'st host \<Rightarrow> 'st AuthService \<Rightarrow> string \<Rightarrow> string \<Rightarrow> ('st, AuthUser) action" where
  "authenticate_fixed_audience_access_token E H V token audience =
     decode_with_config E H V token ((access_token_decode_config V)
       \<lparr> dc_validation := validation_for_audience V audience,
         dc_purpose_policy := RequireAccessToken,
         dc_claim_requirements := ClaimRequirements_none
           \<lparr> require_jti := True, require_purpose := True, require_actor := True,
             require_resource_binding := True, require_correlation_id := True,
             required_grant_kind := Some SessionBoundDelegation,
             require_session_version := True, require_operation_binding := True \<rparr> \<rparr>)"

definition authenticate_bearer :: "ext \<Rightarrow> 'st host \<Rightarrow> 'st AuthService \<Rightarrow> string \<Rightarrow> ('st, AuthUser) action" where
  "authenticate_bearer E H V bearer_or_token =
     bind (lift_res (strip_bearer_prefix bearer_or_token)) (\<lambda>token. authenticate_access_token E H V token)"

definition authenticate_session_management_bearer ::
  "ext \<Rightarrow> 'st host \<Rightarrow> 'st AuthService \<Rightarrow> string \<Rightarrow> ('st, AuthUser) action" where
  "authenticate_session_management_bearer E H V bearer_or_token =
     bind (authenticate_bearer E H V bearer_or_token) (\<lambda>user.
     bind (lift_res (require_session_management_eligible user)) (\<lambda>_. ret user))"

section \<open>Purpose tokens\<close>

definition RESERVED_PURPOSE_TOKEN_CLAIMS :: "string list" where
  "RESERVED_PURPOSE_TOKEN_CLAIMS =
     [''typ'', ''sub'', ''sid'', ''scopes'', ''purpose'', ''iss'', ''aud'', ''exp'', ''iat'']"

definition validate_purpose_token_issue_request :: "PurposeTokenIssueRequest \<Rightarrow> unit AuthResult" where
  "validate_purpose_token_issue_request request =
     bind_res (reject_when (blank (pr_subject request))
       (InvalidConfiguration ''purpose token subject must not be empty'')) (\<lambda>_.
     bind_res (reject_when (blank (pr_purpose request))
       (InvalidConfiguration ''purpose token purpose must not be empty'')) (\<lambda>_.
     bind_res (reject_when (blank (pr_audience request))
       (InvalidConfiguration ''purpose token audience must not be empty'')) (\<lambda>_.
     bind_res (reject_when (pr_ttl request \<le> 0)
       (InvalidConfiguration ''purpose token ttl must be greater than zero'')) (\<lambda>_.
       for_each (\<lambda>key.
         bind_res (reject_when (blank key)
           (InvalidConfiguration ''purpose token custom claim name must not be empty'')) (\<lambda>_.
         reject_when (key \<in> set RESERVED_PURPOSE_TOKEN_CLAIMS)
           (InvalidConfiguration (''purpose token custom claim '' @ [CHR 0x27] @ key @ [CHR 0x27] @
              '' is reserved'')))) (map fst (pr_claims request))))))"

definition issue_purpose_token ::
  "ext \<Rightarrow> 'st host \<Rightarrow> 'st AuthService \<Rightarrow> PurposeTokenIssueRequest \<Rightarrow> ('st, IssuedPurposeToken) action" where
  "issue_purpose_token E H V request =
     bind (lift_res (validate_purpose_token_issue_request request)) (\<lambda>_.
     bind (require (\<not> is_some_and (\<lambda>reserved. eq_ignore_ascii_case reserved (pr_audience request))
                         (sv_fixed_delegation_audience V)) Forbidden) (\<lambda>_.
     bind (now_from H SystemClock) (\<lambda>issued_at.
     bind (lift_res (checked_jwt_expiry E issued_at (pr_ttl request) ''purpose-token ttl'')) (\<lambda>expires_at.
     bind (lift_res (encode_local_jwt V (jl_purpose (sv_jwt V))
        \<lparr> pc_typ = PURPOSE_TOKEN_TYPE, pc_sub = pr_subject request,
          pc_sid = map_option (uuid_to_string E) (pr_session_id request),
          pc_scopes = pr_scopes request, pc_purpose = pr_purpose request,
          pc_iss = cf_issuer (sv_config V), pc_aud = pr_audience request,
          pc_exp = unix_timestamp E expires_at, pc_iat = unix_timestamp E issued_at,
          pc_custom = pr_claims request \<rparr>)) (\<lambda>token.
       ret \<lparr> ip_token = token, ip_subject = pr_subject request, ip_purpose = pr_purpose request,
             ip_audience = pr_audience request, ip_session_id = pr_session_id request,
             ip_scopes = pr_scopes request, ip_claims = pr_claims request,
             ip_expires_at = expires_at \<rparr>)))))"

definition authenticate_purpose_token ::
  "ext \<Rightarrow> 'st host \<Rightarrow> 'st AuthService \<Rightarrow> string \<Rightarrow> PurposeTokenValidation \<Rightarrow>
   ('st, VerifiedPurposeToken) action" where
  "authenticate_purpose_token E H V token expected =
     bind (require (\<not> (blank (pv_purpose expected) \<or> blank (pv_audience expected)))
             InvalidPurposeToken) (\<lambda>_.
     bind (lift_res (map_err (\<lambda>_. InvalidPurposeToken)
             (validate_local_jwt_header V (jl_purpose (sv_jwt V)) token))) (\<lambda>_.
     bind (now_from H SystemClock) (\<lambda>decode_now.
     bind (lift_res (map_err map_purpose_token_decode_error
             (jwt_decode (jl_purpose (sv_jwt V)) decode_now token (sv_decoding_key V)
                (validation_for_audience V (pv_audience expected))))) (\<lambda>claims.
     bind (now_from H SystemClock) (\<lambda>now.
     bind (require (\<not> pc_exp claims \<le> unix_timestamp E now) PurposeTokenExpired) (\<lambda>_.
     bind (require (\<not> (pc_typ claims \<noteq> PURPOSE_TOKEN_TYPE \<or> pc_purpose claims \<noteq> pv_purpose expected \<or>
                        pc_aud claims \<noteq> pv_audience expected)) InvalidPurposeToken) (\<lambda>_.
     bind (lift_res (case pc_sid claims of
             None \<Rightarrow> Inr None
           | Some sid \<Rightarrow> bind_res (ok_or InvalidPurposeToken (uuid_parse_str E sid)) (\<lambda>u. Inr (Some u)))) (\<lambda>session_id.
     bind (lift_res (ok_or InvalidPurposeToken (from_unix_timestamp E (pc_iat claims)))) (\<lambda>issued_at.
     bind (lift_res (ok_or InvalidPurposeToken (from_unix_timestamp E (pc_exp claims)))) (\<lambda>expires_at.
       ret \<lparr> vp_subject = pc_sub claims, vp_purpose = pc_purpose claims, vp_audience = pc_aud claims,
             vp_session_id = session_id, vp_scopes = pc_scopes claims, vp_claims = pc_custom claims,
             vp_issued_at = issued_at, vp_expires_at = expires_at \<rparr>))))))))))"

section \<open>A constructed service\<close>

text \<open>What the operations below rely on: the verification key matches the signing key, the
  default validation pins algorithm, issuer and audience, and legacy scope issuance implies
  legacy scope acceptance.\<close>

definition service_wf :: "(EncodingKey \<Rightarrow> DecodingKey \<Rightarrow> bool) \<Rightarrow> 'st AuthService \<Rightarrow> bool" where
  "service_wf pair V \<longleftrightarrow>
     pair (sv_encoding_key V) (sv_decoding_key V) \<and>
     sv_validation V =
       validation_for (sv_signing_algorithm V) (cf_issuer (sv_config V)) (cf_audience (sv_config V)) \<and>
     (cf_access_token_scope_claim_format (sv_config V) = LegacyArray \<longrightarrow>
        cf_legacy_scope_claims (sv_config V) = Accept) \<and>
     0 < cf_access_token_ttl (sv_config V) \<and> 0 < cf_refresh_token_ttl (sv_config V) \<and>
     (rp_enabled (rc_credential (cf_rate_limits (sv_config V))) \<longrightarrow>
        policy_wf (rc_credential (cf_rate_limits (sv_config V))))"

text \<open>Keys made from one secret match, and keys match when one verifies what the other signed.\<close>

definition key_laws :: "(EncodingKey \<Rightarrow> DecodingKey \<Rightarrow> bool) \<Rightarrow> jwt_lib \<Rightarrow> bool" where
  "key_laws pair J \<longleftrightarrow>
     (\<forall>s. pair (EncodingSecret s) (DecodingSecret s)) \<and>
     (\<forall>h c k t now dk v c'. jwt_encode (jl_json J) h c k = Inr t \<and>
        jwt_decode (jl_json J) now t dk v = Inr c' \<longrightarrow> pair k dk)"

lemma AuthConfig_validate_Inr:
  assumes "time_laws E" and "AuthConfig_validate E now c = Inr ()"
  shows "AuthRateLimitConfig_validate (cf_rate_limits c) = Inr ()"
    and "0 < cf_access_token_ttl c" "0 < cf_refresh_token_ttl c"
    and "cf_access_token_scope_claim_format c = LegacyArray \<Longrightarrow> cf_legacy_scope_claims c = Accept"
    and "\<not> blank (cf_issuer c)" "\<not> blank (cf_audience c)"
    and "cf_max_session_bound_delegation_ttl c \<le> cf_max_access_token_ttl c"
proof -
  from assms(2) have "AuthRateLimitConfig_validate (cf_rate_limits c) = Inr () \<and>
      (\<exists>t. checked_expiry E now (cf_access_token_ttl c) ''access-token ttl'' = Inr t) \<and>
      (\<exists>t. checked_expiry E now (cf_refresh_token_ttl c) ''refresh-token ttl'' = Inr t) \<and>
      (cf_access_token_scope_claim_format c = LegacyArray \<longrightarrow> cf_legacy_scope_claims c \<noteq> Reject) \<and>
      \<not> blank (cf_issuer c) \<and> \<not> blank (cf_audience c) \<and>
      cf_max_session_bound_delegation_ttl c \<le> cf_max_access_token_ttl c"
    unfolding AuthConfig_validate_def res_simps by auto
  then show "AuthRateLimitConfig_validate (cf_rate_limits c) = Inr ()"
    "0 < cf_access_token_ttl c" "0 < cf_refresh_token_ttl c"
    "cf_access_token_scope_claim_format c = LegacyArray \<Longrightarrow> cf_legacy_scope_claims c = Accept"
    "\<not> blank (cf_issuer c)" "\<not> blank (cf_audience c)"
    "cf_max_session_bound_delegation_ttl c \<le> cf_max_access_token_ttl c"
    using checked_expiry_Inr [OF assms(1)] by (auto intro: LegacyScopeClaims.exhaust)
qed

lemma JwtKeyMaterial_from_config_Inr:
  assumes "key_laws pair J" and "JwtKeyMaterial_from_config E J now config = Inr keys"
  shows "pair (km_encoding_key keys) (km_decoding_key keys)"
    and "km_validation keys = validation_for (km_algorithm keys) (cf_issuer config) (cf_audience config)"
    and "km_algorithm keys = signing_algorithm (cf_jwt_signing config)"
    and "cf_jwt_signing config = Hs256 secret \<Longrightarrow> 32 \<le> length secret"
proof -
  show "km_validation keys = validation_for (km_algorithm keys) (cf_issuer config) (cf_audience config)"
    "km_algorithm keys = signing_algorithm (cf_jwt_signing config)"
    using assms(2) by (auto simp: JwtKeyMaterial_from_config_def Let_def res_simps split: prod.splits)
  show "cf_jwt_signing config = Hs256 secret \<Longrightarrow> 32 \<le> length secret"
    using assms(2)
    by (auto simp: JwtKeyMaterial_from_config_def Let_def MIN_HS256_SECRET_BYTES_def split: if_splits)
  show "pair (km_encoding_key keys) (km_decoding_key keys)"
  proof (cases "cf_jwt_signing config")
    case (Hs256 secret)
    with assms show ?thesis
      by (auto simp: JwtKeyMaterial_from_config_def Let_def key_laws_def split: if_splits)
  next
    case (Rs256 private_key_pem public_key_pem key_id)
    with assms(2) have "validate_rs256_key_pair E J now (km_encoding_key keys) (km_decoding_key keys) = Inr ()"
      by (auto simp: JwtKeyMaterial_from_config_def Let_def res_simps)
    then obtain h c t n v c' where "jwt_encode (jl_json J) h c (km_encoding_key keys) = Inr t"
      "jwt_decode (jl_json J) n t (km_decoding_key keys) v = Inr c'"
      by (auto simp: validate_rs256_key_pair_def Let_def res_simps)
    with assms(1) show ?thesis unfolding key_laws_def by blast
  qed
qed

text \<open>C8: A service that construction accepts is well formed: its verification key matches its
  signing key (an HS256 secret has at least 32 bytes, an RS256 pair has passed the probe), its
  validation pins the configured algorithm, issuer and audience, both lifetimes are positive and
  its abuse-protection policy is valid; it starts with exact scopes and no reuse grace.\<close>

theorem constructed_service_wf:
  assumes "time_laws E" and "key_laws pair J"
    and "AuthService_new E J pool now config users refreshes rates = Inr V"
  shows "service_wf pair V \<and> sv_config V = config \<and>
         sv_signing_algorithm V = signing_algorithm (cf_jwt_signing config) \<and>
         (\<forall>secret. cf_jwt_signing config = Hs256 secret \<longrightarrow> 32 \<le> length secret) \<and>
         sv_refresh_reuse_grace V = None \<and> sv_scope_matcher V = ExactScopeMatch"
proof -
  from assms(3) obtain keys password where
    cfg: "AuthConfig_validate E now config = Inr ()"
    and keys: "JwtKeyMaterial_from_config E J now config = Inr keys"
    and V: "V = \<lparr> sv_config = config, sv_user_store = users, sv_refresh_store = refreshes,
             sv_rate_limit_store = rates, sv_password = password, sv_jwt = J,
             sv_encoding_key = km_encoding_key keys, sv_decoding_key = km_decoding_key keys,
             sv_validation = km_validation keys, sv_signing_algorithm = km_algorithm keys,
             sv_signing_key_id = km_key_id keys, sv_jwks = km_jwks keys,
             sv_scope_matcher = ExactScopeMatch, sv_active_user_session_resolver = None,
             sv_additional_token_roles_provider = None, sv_refresh_grant_authority = None,
             sv_refresh_reuse_grace = None, sv_refresh_reuse_grace_observer = None,
             sv_fixed_delegation_audience = None \<rparr>"
    by (auto simp: AuthService_new_def res_simps)
  note C = AuthConfig_validate_Inr [OF assms(1) cfg]
  from C(1) have "rp_enabled (rc_credential (cf_rate_limits config)) \<longrightarrow>
      policy_wf (rc_credential (cf_rate_limits config))"
    by (simp add: AuthRateLimitConfig_validate_iff)
  with C JwtKeyMaterial_from_config_Inr [OF assms(2) keys] V show ?thesis
    by (simp add: service_wf_def)
qed

section \<open>Access tokens round trip\<close>

lemma issue_access_token_Inr:
  assumes "issue_access_token_with_user_for_audience E H V u issued_at expires_at audience w = (Inr (token, u'), w')"
  obtains jti scope legacy where
    "u' = u \<lparr> au_token_claims := (au_token_claims u) \<lparr> md_jti := Some jti,
            md_purpose := Some ACCESS_TOKEN_PURPOSE,
            md_expires_at := from_unix_timestamp E (unix_timestamp E expires_at) \<rparr> \<rparr>"
    and "issued_scope_claims (au_scopes u) (cf_access_token_scope_claim_format (sv_config V)) = Inr (scope, legacy)"
    and "valid_authorization_role_set (md_authorization_roles (au_token_claims u))"
    and "encode_local_jwt V (jl_access (sv_jwt V))
           (access_claims_for E V u' issued_at expires_at audience scope legacy) = Inr token"
    and "w_store w' = w_store w" and "w_tick w' = w_tick w"
  using assms
  by (auto simp: issue_access_token_with_user_for_audience_def Let_def action_simps
      split: option.splits if_splits prod.splits)

text \<open>The names of the serialised claims; a custom claim of another name parses back.\<close>

definition ACCESS_TOKEN_CLAIM_NAMES :: "string list" where
  "ACCESS_TOKEN_CLAIM_NAMES =
     [''typ'', ''sub'', ''sid'', ''roles'', ''authorization_roles'', ''scope'', ''scopes'', ''ctx'',
      ''iss'', ''aud'', ''exp'', ''iat'', ''nbf'', ''purpose'', ''jti'', ''tenant_id'',
      ''organization_id'', ''session_family_id'', ''grant_kind'', ''session_version'', ''actor'',
      ''auth_time'', ''amr'', ''acr'', ''cnf'', ''resource_type'', ''resource_id'',
      ''correlation_id'', ''operation'']"

definition access_claims_repr :: "AccessTokenClaims \<Rightarrow> bool" where
  "access_claims_repr c \<longleftrightarrow>
     set (map fst (tc_additional c)) \<inter> set ACCESS_TOKEN_CLAIM_NAMES = {} \<and> btm_wf (tc_additional c)"

text \<open>A decoder configuration that fits the tokens of a service: a key that verifies its signatures, its
  algorithm, issuer and audience, no other key id, a policy that reads the scope format it writes.\<close>

definition config_fits :: "(EncodingKey \<Rightarrow> DecodingKey \<Rightarrow> bool) \<Rightarrow> 'st AuthService \<Rightarrow> AccessTokenDecodeConfig \<Rightarrow> bool" where
  "config_fits pair V cfg \<longleftrightarrow>
     pair (sv_encoding_key V) (dc_decoding_key cfg) \<and>
     sv_signing_algorithm V \<in> set (va_algorithms (dc_validation cfg)) \<and>
     one_family (sv_signing_algorithm V) (va_algorithms (dc_validation cfg)) \<and>
     issuer_accepted (dc_validation cfg) (cf_issuer (sv_config V)) \<and>
     audience_accepted (dc_validation cfg) (audience_claim (cf_audience (sv_config V))) \<and>
     is_none_or (\<lambda>kid. sv_signing_key_id V = Some kid) (dc_expected_kid cfg) \<and>
     (cf_access_token_scope_claim_format (sv_config V) = LegacyArray \<longrightarrow> dc_legacy_scope_claims cfg = Accept)"

lemma access_token_decodes_config:
  assumes laws: "uuid_laws E"
    and jwt: "jwt_laws pair access_claims_repr tc_iss tc_aud tc_exp (jl_access (sv_jwt V))"
    and fits: "config_fits pair V cfg"
    and additional: "btm_wf (md_additional (au_token_claims u))"
      "set (map fst (md_additional (au_token_claims u))) \<inter> set ACCESS_TOKEN_CLAIM_NAMES = {}"
    and canonical: "distinct (au_scopes u)" "distinct (md_authorization_roles (au_token_claims u))"
    and times: "from_unix_timestamp E (unix_timestamp E issued_at) \<noteq> None"
      "from_unix_timestamp E (unix_timestamp E expires_at) \<noteq> None"
      "unix_timestamp E clock_now < unix_timestamp E expires_at + int (unat (dc_leeway_seconds cfg))"
    and issue: "issue_access_token_with_user E H V u issued_at expires_at w = (Inr (token, u'), w')"
    and req: "ClaimRequirements_validate (dc_claim_requirements cfg) (au_token_claims u') = Inr ()"
  shows "\<exists>d. decode_access_token_claims E (jl_access (sv_jwt V)) now clock_now token cfg = Inr d \<and>
    access_token_claims_to_user E d = Inr u'"
proof -
  let ?C = "jl_access (sv_jwt V)" and ?aud = "cf_audience (sv_config V)"
  from issue [unfolded issue_access_token_with_user_def] obtain jti scope legacy where
    u': "u' = u \<lparr> au_token_claims := (au_token_claims u) \<lparr> md_jti := Some jti,
            md_purpose := Some ACCESS_TOKEN_PURPOSE,
            md_expires_at := from_unix_timestamp E (unix_timestamp E expires_at) \<rparr> \<rparr>"
    and sc: "issued_scope_claims (au_scopes u) (cf_access_token_scope_claim_format (sv_config V)) = Inr (scope, legacy)"
    and roles: "valid_authorization_role_set (md_authorization_roles (au_token_claims u))"
    and enc: "encode_local_jwt V ?C (access_claims_for E V u' issued_at expires_at ?aud scope legacy) = Inr token"
    by (rule issue_access_token_Inr)
  let ?c = "access_claims_for E V u' issued_at expires_at ?aud scope legacy"
  let ?h = "(Header_new (sv_signing_algorithm V)) \<lparr> hd_kid := sv_signing_key_id V \<rparr>"
  let ?v = "(dc_validation cfg) \<lparr> va_validate_exp := False, va_validate_nbf := False \<rparr>"
  note F = fits [unfolded config_fits_def]
  from enc have e: "jwt_encode ?C ?h ?c (sv_encoding_key V) = Inr token"
    by (simp add: encode_local_jwt_def Let_def)
  have head: "jwt_decode_header ?C token = Inr ?h" using jwt_laws_header [OF jwt e] .
  have dec: "jwt_decode ?C now token (dc_decoding_key cfg) ?v = Inr ?c"
  proof (rule jwt_laws_roundtrip [OF jwt e])
    show "access_claims_repr ?c"
      using additional by (simp add: access_claims_repr_def access_claims_for_def Let_def u')
  qed (use F in \<open>simp_all add: Header_new_def issuer_accepted_def audience_accepted_def access_claims_for_def Let_def\<close>)
  have "deserialize_authorization_roles (tc_authorization_roles ?c) = Inr (tc_authorization_roles ?c)"
    using roles canonical by (simp add: deserialize_authorization_roles_def access_claims_for_def Let_def u')
  with dec have claims: "decode_claims ?C now token (dc_decoding_key cfg) ?v = Inr ?c"
    by (simp add: decode_claims_def)
  have time: "validate_time_claims E clock_now ?c cfg = Inr ()"
    using times by (auto simp: validate_time_claims_def Let_def access_claims_for_def)
  have ty: "validate_type_and_purpose ?c p = Inr ()" for p
    by (cases p) (simp_all add: validate_type_and_purpose_def access_claims_for_def Let_def u')
  have sid: "uuid_parse_str E (tc_sid ?c) = Some (au_session_id u)"
    using laws by (simp add: uuid_laws_def access_claims_for_def Let_def u')
  have "issued_scope_claims (au_scopes u) (cf_access_token_scope_claim_format (sv_config V)) =
      Inr (tc_scope ?c, tc_legacy_scopes ?c)"
    using sc by (simp add: access_claims_for_def Let_def)
  then have scopes: "parse_access_token_scopes ?c (dc_legacy_scope_claims cfg) = Inr (au_scopes u)"
    using issued_scopes_parse F canonical(1) by fastforce
  have meta: "claims_to_metadata E ?c = au_token_claims u'"
    by (simp add: claims_to_metadata_def access_claims_for_def Let_def u')
  have "decode_access_token_claims E ?C now clock_now token cfg =
      Inr \<lparr> da_claims = ?c, da_scopes = au_scopes u \<rparr>"
    using head claims time ty sid scopes req F
    by (cases "dc_expected_kid cfg") (simp_all add: decode_access_token_claims_def Let_def meta Header_new_def)
  moreover have "access_token_claims_to_user E \<lparr> da_claims = ?c, da_scopes = au_scopes u \<rparr> = Inr u'"
    using sid by (simp add: access_token_claims_to_user_def Let_def meta)
      (simp add: access_claims_for_def Let_def u')
  ultimately show ?thesis by blast
qed

lemma service_config_fits:
  assumes "service_wf pair V"
  shows "config_fits pair V (access_token_decode_config V)"
  using assms
  by (auto simp: service_wf_def config_fits_def access_token_decode_config_def audience_claim_def
      AccessTokenDecodeConfig_for_service_def validation_for_def Validation_new_def issuer_accepted_def
      audience_accepted_def is_none_or_def split: option.split)

lemma no_claim_requirements: "ClaimRequirements_validate ClaimRequirements_none m = Inr ()"
  by (simp add: ClaimRequirements_validate_def ClaimRequirements_none_def)

text \<open>C7: An access token issued by a well-formed service authenticates with the same service
  until its expiry second, and the authenticated user is exactly the issued one: identity,
  session, roles, scopes, session context and every claim of the token metadata survive.\<close>

theorem access_token_roundtrip:
  assumes "time_laws E" "uuid_laws E"
    and "jwt_laws pair access_claims_repr tc_iss tc_aud tc_exp (jl_access (sv_jwt V))"
    and "service_wf pair V"
    and "btm_wf (md_additional (au_token_claims u))"
    and "set (map fst (md_additional (au_token_claims u))) \<inter> set ACCESS_TOKEN_CLAIM_NAMES = {}"
    and "distinct (au_scopes u)" "distinct (md_authorization_roles (au_token_claims u))"
    and "from_unix_timestamp E (unix_timestamp E issued_at) \<noteq> None"
    and "from_unix_timestamp E (unix_timestamp E expires_at) \<noteq> None"
    and "unix_timestamp E (h_clock H SystemClock (Suc (w_tick w'))) < unix_timestamp E expires_at"
    and "issue_access_token_with_user E H V u issued_at expires_at w = (Inr (token, u'), w')"
  shows "fst (authenticate_access_token E H V token w') = Inr u'"
proof -
  let ?cfg = "access_token_decode_config V"
  have plain: "dc_claim_requirements ?cfg = ClaimRequirements_none" "dc_clock ?cfg = SystemClock"
    by (simp_all add: access_token_decode_config_def AccessTokenDecodeConfig_for_service_def)
  have "unix_timestamp E (h_clock H SystemClock (Suc (w_tick w'))) <
      unix_timestamp E expires_at + int (unat (dc_leeway_seconds ?cfg))"
    using assms(11) by linarith
  from access_token_decodes_config [OF assms(2,3) service_config_fits [OF assms(4)] assms(5-10) this assms(12)]
  obtain d where "decode_access_token_claims E (jl_access (sv_jwt V)) (h_clock H SystemClock (w_tick w'))
      (h_clock H SystemClock (Suc (w_tick w'))) token ?cfg = Inr d"
    "access_token_claims_to_user E d = Inr u'"
    using plain(1) no_claim_requirements by auto
  with plain show ?thesis
    by (simp add: authenticate_access_token_def decode_with_config_def bind_def now_from_def lift_res_def)
qed

subsection \<open>A concrete service\<close>

definition demo_secret :: string where "demo_secret = replicate 32 CHR ''k''"

definition empty_codec :: "'c jwt_codec" where
  "empty_codec = table_codec demo_pair (\<lambda>_. []) (\<lambda>_. JNull) (\<lambda>_. 0) []"

definition demo_jwt :: "AccessTokenClaims jwt_table \<Rightarrow> PurposeTokenClaims jwt_table \<Rightarrow> jwt_lib" where
  "demo_jwt access purposes =
     \<lparr> jl_access = table_codec demo_pair tc_iss tc_aud tc_exp access,
       jl_purpose = table_codec demo_pair pc_iss (\<lambda>c. JString (pc_aud c)) pc_exp purposes,
       jl_reset = empty_codec, jl_json = empty_codec,
       jl_encoding_from_rsa_pem = Map.empty, jl_decoding_from_rsa_pem = Map.empty,
       jl_rsa_from_public_key_pem = Map.empty, jl_rsa_from_pkcs1_pem = Map.empty \<rparr>"

definition demo_password :: password_lib where
  "demo_password =
     \<lparr> pw_parse = (\<lambda>h. Inr ()), pw_verifies = (\<lambda>p h. p = h), pw_hash = (\<lambda>p salt. Inr p),
       pw_admits = (\<lambda>n. True) \<rparr>"

definition demo_config :: AuthConfig where
  "demo_config = AuthConfig_with_hs256_secret demo_secret"

definition demo_service :: "jwt_lib \<Rightarrow> 'st UserStore \<Rightarrow> 'st RefreshTokenStore \<Rightarrow> 'st AuthRateLimitStore \<Rightarrow> 'st AuthService" where
  "demo_service J users refreshes rates =
     \<lparr> sv_config = demo_config, sv_user_store = users, sv_refresh_store = refreshes,
       sv_rate_limit_store = rates, sv_password = demo_password, sv_jwt = J,
       sv_encoding_key = EncodingSecret demo_secret, sv_decoding_key = DecodingSecret demo_secret,
       sv_validation = validation_for HS256 ''agql-auth'' ''agql-auth-clients'',
       sv_signing_algorithm = HS256, sv_signing_key_id = None, sv_jwks = None,
       sv_scope_matcher = ExactScopeMatch, sv_active_user_session_resolver = None,
       sv_additional_token_roles_provider = None, sv_refresh_grant_authority = None,
       sv_refresh_reuse_grace = None, sv_refresh_reuse_grace_observer = None,
       sv_fixed_delegation_audience = None \<rparr>"

lemma demo_key_laws: "key_laws demo_pair (demo_jwt access purposes)"
  by (simp add: key_laws_def demo_pair_def demo_jwt_def empty_codec_def table_codec_def)

lemma demo_config_simps:
  "cf_issuer demo_config = ''agql-auth''" "cf_audience demo_config = ''agql-auth-clients''"
  "cf_jwt_signing demo_config = Hs256 demo_secret"
  "cf_access_token_ttl demo_config = seconds 900" "cf_refresh_token_ttl demo_config = seconds 2592000"
  "cf_access_token_scope_claim_format demo_config = Standard"
  "cf_legacy_scope_claims demo_config = Accept"
  "cf_rate_limits demo_config = AuthRateLimitConfig_default"
  by (simp_all add: demo_config_def AuthConfig_with_hs256_secret_def minutes_def days_def)

lemma demo_config_valid: "AuthConfig_validate std_ext 0 demo_config = Inr ()"
proof -
  have "\<not> blank ''agql-auth''" "\<not> blank ''agql-auth-clients''" by code_simp+
  moreover have "AuthRateLimitConfig_validate (cf_rate_limits demo_config) = Inr ()"
    by (simp add: demo_config_simps AuthRateLimitConfig_default_valid)
  moreover have "is_ok (checked_expiry std_ext 0 (cf_access_token_ttl demo_config) ''access-token ttl'')"
    "is_ok (checked_expiry std_ext 0 (cf_max_access_token_ttl demo_config) ''access-token maximum ttl'')"
    "is_ok (checked_expiry std_ext 0 (cf_refresh_token_ttl demo_config) ''refresh-token ttl'')"
    "\<not> (cf_max_session_bound_delegation_ttl demo_config \<le> 0 \<or>
        cf_max_session_bound_delegation_ttl demo_config > cf_max_access_token_ttl demo_config)"
    by code_simp+
  ultimately show ?thesis
    by (auto simp: AuthConfig_validate_def is_ok_iff demo_config_simps(1,2,6))
qed

lemma demo_service_new:
  "AuthService_new std_ext (demo_jwt access purposes) (Inr demo_password) 0 demo_config users refreshes rates =
     Inr (demo_service (demo_jwt access purposes) users refreshes rates)"
  by (simp add: AuthService_new_def demo_config_valid JwtKeyMaterial_from_config_def demo_config_simps
      Let_def MIN_HS256_SECRET_BYTES_def demo_secret_def signing_algorithm_def demo_service_def)

lemma demo_service_wf: "service_wf demo_pair (demo_service J users refreshes rates)"
  by (simp add: service_wf_def demo_service_def demo_pair_def demo_config_simps seconds_def
      AuthRateLimitConfig_default_def policy_wf_def minutes_def hours_def)

lemma demo_access_laws:
  "distinct (map fst access) \<Longrightarrow>
   jwt_laws demo_pair access_claims_repr tc_iss tc_aud tc_exp
     (jl_access (sv_jwt (demo_service (demo_jwt access purposes) users refreshes rates)))"
  by (simp add: demo_service_def demo_jwt_def table_codec_laws)

subsection \<open>The in-memory stores side by side\<close>

record mem_state =
  st_users :: MemoryUserStore
  st_refresh :: MemoryRefreshTokenStore
  st_rates :: MemoryMutex

definition on_users :: "(MemoryUserStore \<Rightarrow> 'a \<times> MemoryUserStore) \<Rightarrow> mem_state \<Rightarrow> 'a \<times> mem_state" where
  "on_users f st = (case f (st_users st) of (r, s) \<Rightarrow> (r, st \<lparr> st_users := s \<rparr>))"

definition on_refresh ::
  "(MemoryRefreshTokenStore \<Rightarrow> 'a \<times> MemoryRefreshTokenStore) \<Rightarrow> mem_state \<Rightarrow> 'a \<times> mem_state" where
  "on_refresh f st = (case f (st_refresh st) of (r, s) \<Rightarrow> (r, st \<lparr> st_refresh := s \<rparr>))"

definition on_rates :: "(MemoryMutex \<Rightarrow> 'a \<times> MemoryMutex) \<Rightarrow> mem_state \<Rightarrow> 'a \<times> mem_state" where
  "on_rates f st = (case f (st_rates st) of (r, s) \<Rightarrow> (r, st \<lparr> st_rates := s \<rparr>))"

definition mem_users :: "mem_state UserStore" where
  "mem_users = \<lparr> find_user_by_principal = (\<lambda>p. on_users (memory_find_user_by_principal p)),
                 find_user_by_id = (\<lambda>i. on_users (memory_find_user_by_id i)) \<rparr>"

definition mem_refresh :: "mem_state RefreshTokenStore" where
  "mem_refresh =
     \<lparr> insert_refresh_token = (\<lambda>t. on_refresh (memory_insert_refresh_token t)),
       find_refresh_token_by_hash = (\<lambda>h. on_refresh (memory_find_refresh_token_by_hash h)),
       revoke_refresh_token = (\<lambda>i at repl reason. on_refresh (memory_revoke_refresh_token i at repl reason)),
       revoke_refresh_token_family =
         (\<lambda>fam at reason. on_refresh (memory_revoke_refresh_token_family fam at reason)),
       touch_refresh_token = (\<lambda>i at ip ua. on_refresh (memory_touch_refresh_token i at ip ua)),
       rotate_refresh_token = (\<lambda>i t at ip ua. on_refresh (memory_rotate_refresh_token i t at ip ua)),
       find_live_refresh_tokens_in_family =
         (\<lambda>fam. on_refresh (memory_find_live_refresh_tokens_in_family fam)) \<rparr>"

definition mem_rates :: "nat \<Rightarrow> mem_state AuthRateLimitStore" where
  "mem_rates capacity =
     \<lparr> find_auth_rate_limit_state =
         (\<lambda>now k. on_rates (find_auth_rate_limit_state (MemoryAuthRateLimitStore capacity) now k)),
       compare_exchange_auth_rate_limit_state = (\<lambda>now k expected repl. on_rates
         (compare_exchange_auth_rate_limit_state (MemoryAuthRateLimitStore capacity) now k expected repl)),
       clear_auth_rate_limit_state = (\<lambda>now k expected. on_rates
         (clear_auth_rate_limit_state (MemoryAuthRateLimitStore capacity) now k expected)) \<rparr>"

definition mst_tokens :: "mem_state \<Rightarrow> token_map" where "mst_tokens st = mrt_tokens (st_refresh st)"
definition mst_ok :: "mem_state \<Rightarrow> bool" where "mst_ok st \<longleftrightarrow> mrt_ok (st_refresh st)"

lemma on_refresh_eq:
  "on_refresh f st = (r, st') \<longleftrightarrow> (\<exists>s. f (st_refresh st) = (r, s) \<and> st' = st \<lparr> st_refresh := s \<rparr>)"
  by (auto simp: on_refresh_def split: prod.splits)

lemma on_rates_eq:
  "on_rates f st = (r, st') \<longleftrightarrow> (\<exists>s. f (st_rates st) = (r, s) \<and> st' = st \<lparr> st_rates := s \<rparr>)"
  by (auto simp: on_rates_def split: prod.splits)

interpretation mst: refresh_token_store mem_refresh mst_tokens mst_ok
proof (unfold_locales, goal_cases)
  case (1 st t r st')
  then show ?case
    using mrt.insert_law [of "st_refresh st" t r]
    by (auto simp: mem_refresh_def MemoryRefreshTokenStore_impl_def on_refresh_eq mst_ok_def mst_tokens_def)
next
  case (2 st h r st')
  then show ?case
    using mrt.find_law [of "st_refresh st" h r]
    by (auto simp: mem_refresh_def MemoryRefreshTokenStore_impl_def on_refresh_eq mst_ok_def mst_tokens_def)
next
  case (3 st i at repl reason r st')
  then show ?case
    using mrt.revoke_law [of "st_refresh st" i at repl reason r]
    by (auto simp: mem_refresh_def MemoryRefreshTokenStore_impl_def on_refresh_eq mst_ok_def mst_tokens_def)
next
  case (4 st fam at reason r st')
  then show ?case
    using mrt.family_law [of "st_refresh st" fam at reason r]
    by (auto simp: mem_refresh_def MemoryRefreshTokenStore_impl_def on_refresh_eq mst_ok_def mst_tokens_def)
next
  case (5 st i t at ip ua r st')
  then show ?case
    using mrt.rotate_law [of "st_refresh st" i t at ip ua r]
    by (auto simp: mem_refresh_def MemoryRefreshTokenStore_impl_def on_refresh_eq mst_ok_def mst_tokens_def)
next
  case (6 st fam r st')
  then show ?case
    using mrt.live_law [of "st_refresh st" fam r]
    by (auto simp: mem_refresh_def MemoryRefreshTokenStore_impl_def on_refresh_eq mst_ok_def mst_tokens_def)
next
  case (7 st i t)
  then show ?case using mrt.own_id [of "st_refresh st"] by (simp add: mst_ok_def mst_tokens_def)
qed

interpretation msr: rate_limit_store "mem_rates capacity" "\<lambda>st. mem_abs (st_rates st)" "\<lambda>st. mem_ok (st_rates st)"
  for capacity
proof (unfold_locales, goal_cases)
  case (1 st now k r st')
  then show ?case
    using mem.find_law [of "st_rates st" capacity now k r] by (auto simp: mem_rates_def on_rates_eq)
next
  case (2 st now k expected repl r st')
  then show ?case
    using mem.cas_law [of "st_rates st" capacity now k expected repl r] by (auto simp: mem_rates_def on_rates_eq)
next
  case (3 st now k expected r st')
  then show ?case
    using mem.clear_law [of "st_rates st" capacity now k expected r] by (auto simp: mem_rates_def on_rates_eq)
next
  case (4 st k s)
  then show ?case using mem.own_key by blast
qed

lemma constructed_service_wf_witness:
  "service_wf demo_pair (demo_service (demo_jwt [] []) mem_users mem_refresh (mem_rates 8)) \<and>
   length demo_secret \<ge> 32"
  using constructed_service_wf [OF std_ext_time_laws demo_key_laws demo_service_new
      [of "[]" "[]" mem_users mem_refresh "mem_rates 8"]]
  by (simp add: demo_config_simps)

definition demo_user :: AuthUser where
  "demo_user =
     \<lparr> au_user_id = ''alice'', au_session_id = 5, au_roles = [''admin''], au_scopes = [''read'', ''write''],
       au_session = SessionContext_for_auth_method Password,
       au_token_claims = AccessTokenMetadata_default
         \<lparr> md_session_family_id := Some ''uuuuuu'', md_grant_kind := Some UserSession \<rparr> \<rparr>"

definition demo_access_service :: "mem_state AuthService" where
  "demo_access_service =
     demo_service (demo_jwt [(''token'', Header_new HS256, demo_claims, EncodingSecret demo_secret)] [])
       mem_users mem_refresh (mem_rates 8)"

definition demo_state :: mem_state where
  "demo_state =
     \<lparr> st_users = \<lparr> mu_users_by_id = [], mu_principal_to_id = [] \<rparr>,
       st_refresh = MemoryRefreshTokenStore_default,
       st_rates = \<lparr> mx_poisoned = False, mx_state = MemoryState_default \<rparr> \<rparr>"

lemma demo_access_issue:
  "issue_access_token_with_user std_ext idle_host demo_access_service demo_user 0 (seconds 900)
     \<lparr> w_store = st, w_tick = n, w_fresh = 7 \<rparr> =
   (Inr (''token'', demo_user \<lparr> au_token_claims := (au_token_claims demo_user)
      \<lparr> md_jti := Some ''uuuuuuu'', md_purpose := Some ACCESS_TOKEN_PURPOSE,
        md_expires_at := Some (seconds 900) \<rparr> \<rparr>), \<lparr> w_store = st, w_tick = n, w_fresh = 8 \<rparr>)"
proof -
  let ?u = "demo_user \<lparr> au_token_claims := (au_token_claims demo_user)
      \<lparr> md_jti := Some ''uuuuuuu'', md_purpose := Some ACCESS_TOKEN_PURPOSE,
        md_expires_at := Some (seconds 900) \<rparr> \<rparr>"
  have "uuid_to_string std_ext 5 = ''uuuuu''" by (simp add: std_ext_simps) (simp add: numeral_eq_Suc)
  moreover have "unix_timestamp std_ext (seconds 900) = 900" "unix_timestamp std_ext 0 = 0" by code_simp+
  ultimately have claims: "access_claims_for std_ext demo_access_service ?u 0 (seconds 900)
      ''agql-auth-clients'' (Some ''read write'') None = demo_claims"
    by (simp add: access_claims_for_def demo_user_def demo_claims_def AccessTokenMetadata_default_def
        demo_access_service_def demo_service_def demo_config_simps audience_claim_def
        ACCESS_TOKEN_TYPE_def ACCESS_TOKEN_PURPOSE_def)
  have "issued_scope_claims [''read'', ''write''] Standard = Inr (Some ''read write'', None)"
    using demo_claims_scopes by (simp add: demo_claims_def)
  moreover have "encode_local_jwt demo_access_service (jl_access (sv_jwt demo_access_service)) demo_claims = Inr ''token''"
    by (simp add: encode_local_jwt_def demo_access_service_def demo_service_def demo_jwt_def table_codec_def
        Header_new_def)
  moreover have "from_unix_timestamp std_ext (unix_timestamp std_ext (seconds 900)) = Some (seconds 900)"
    by code_simp
  moreover have "uuid_to_string std_ext 7 = ''uuuuuuu''"
    by (simp add: std_ext_simps) (simp add: numeral_eq_Suc)
  moreover have "md_jti (au_token_claims demo_user) = None" "au_scopes demo_user = [''read'', ''write'']"
    "md_authorization_roles (au_token_claims demo_user) = []"
    by (simp_all add: demo_user_def AccessTokenMetadata_default_def)
  moreover have "cf_audience (sv_config demo_access_service) = ''agql-auth-clients''"
    "cf_access_token_scope_claim_format (sv_config demo_access_service) = Standard"
    by (simp_all add: demo_access_service_def demo_service_def demo_config_simps)
  moreover have "h_uuid (idle_host :: mem_state host) 7 = 7" by (simp add: idle_host_def)
  ultimately show ?thesis
    using claims
    by (simp add: issue_access_token_with_user_def issue_access_token_with_user_for_audience_def Let_def
        bind_def ret_def new_uuid_def lift_res_def require_def valid_authorization_role_set_def)
qed

lemma access_token_roundtrip_witness:
  "fst (authenticate_access_token std_ext idle_host demo_access_service ''token''
     \<lparr> w_store = demo_state, w_tick = 0, w_fresh = 8 \<rparr>) =
   Inr (demo_user \<lparr> au_token_claims := (au_token_claims demo_user)
      \<lparr> md_jti := Some ''uuuuuuu'', md_purpose := Some ACCESS_TOKEN_PURPOSE,
        md_expires_at := Some (seconds 900) \<rparr> \<rparr>)"
proof (rule access_token_roundtrip [OF std_ext_time_laws std_ext_uuid_laws _ _ _ _ _ _ _ _ _ demo_access_issue])
  show "jwt_laws demo_pair access_claims_repr tc_iss tc_aud tc_exp (jl_access (sv_jwt demo_access_service))"
    unfolding demo_access_service_def by (rule demo_access_laws) simp
  show "service_wf demo_pair demo_access_service"
    by (simp add: demo_access_service_def demo_service_wf)
qed (simp_all add: demo_user_def AccessTokenMetadata_default_def idle_host_def std_ext_simps seconds_def
    in_time_range_def MIN_TIME_def MAX_TIME_def)

section \<open>Purpose tokens round trip\<close>

definition purpose_claims_repr :: "PurposeTokenClaims \<Rightarrow> bool" where
  "purpose_claims_repr c \<longleftrightarrow>
     set (map fst (pc_custom c)) \<inter> set RESERVED_PURPOSE_TOKEN_CLAIMS = {} \<and> btm_wf (pc_custom c)"

text \<open>A purpose token issued by a well-formed service verifies, for its own purpose and
  audience and until its expiry second, to exactly what was requested: subject, session, scopes
  and custom claims; custom claims can never override a registered one.\<close>

theorem purpose_token_roundtrip:
  assumes time: "time_laws E" and uuid: "uuid_laws E"
    and jwt: "jwt_laws pair purpose_claims_repr pc_iss (\<lambda>c. JString (pc_aud c)) pc_exp (jl_purpose (sv_jwt V))"
    and V: "service_wf pair V" and claims: "btm_wf (pr_claims request)"
    and repr: "from_unix_timestamp E (unix_timestamp E (h_clock H SystemClock (w_tick w))) \<noteq> None"
      "from_unix_timestamp E (unix_timestamp E (ip_expires_at issued)) \<noteq> None"
    and early: "unix_timestamp E (h_clock H SystemClock (w_tick w')) < unix_timestamp E (ip_expires_at issued)"
      "unix_timestamp E (h_clock H SystemClock (Suc (w_tick w'))) < unix_timestamp E (ip_expires_at issued)"
    and issue: "issue_purpose_token E H V request w = (Inr issued, w')"
  shows "\<exists>v. fst (authenticate_purpose_token E H V (ip_token issued)
             \<lparr> pv_purpose = pr_purpose request, pv_audience = pr_audience request \<rparr> w') = Inr v \<and>
           vp_subject v = pr_subject request \<and> vp_purpose v = pr_purpose request \<and>
           vp_audience v = pr_audience request \<and> vp_session_id v = pr_session_id request \<and>
           vp_scopes v = pr_scopes request \<and> vp_claims v = pr_claims request"
proof -
  let ?C = "jl_purpose (sv_jwt V)" and ?now = "h_clock H SystemClock (w_tick w)"
  let ?h = "(Header_new (sv_signing_algorithm V)) \<lparr> hd_kid := sv_signing_key_id V \<rparr>"
  let ?v = "validation_for_audience V (pr_audience request)"
  let ?exp = "ip_expires_at issued"
  let ?c = "\<lparr> pc_typ = PURPOSE_TOKEN_TYPE, pc_sub = pr_subject request,
          pc_sid = map_option (uuid_to_string E) (pr_session_id request),
          pc_scopes = pr_scopes request, pc_purpose = pr_purpose request,
          pc_iss = cf_issuer (sv_config V), pc_aud = pr_audience request,
          pc_exp = unix_timestamp E ?exp, pc_iat = unix_timestamp E ?now, pc_custom = pr_claims request \<rparr>"
  from issue have valid: "validate_purpose_token_issue_request request = Inr ()"
    and enc: "jwt_encode ?C ?h ?c (sv_encoding_key V) = Inr (ip_token issued)"
    by (auto simp: issue_purpose_token_def encode_local_jwt_def Let_def action_simps split: if_splits)
  from valid have nb: "\<not> blank (pr_purpose request)" "\<not> blank (pr_audience request)"
    and keys: "set (map fst (pr_claims request)) \<inter> set RESERVED_PURPOSE_TOKEN_CLAIMS = {}"
    by (auto simp: validate_purpose_token_issue_request_def bind_res_unit_Inr)
  have pair: "pair (sv_encoding_key V) (sv_decoding_key V)" using V by (simp add: service_wf_def)
  have before: "t < seconds (unix_timestamp E ?exp)" if "unix_timestamp E t < unix_timestamp E ?exp" for t
    using that time_lawsD(3) [OF time] by (simp add: seconds_def)
  have head: "validate_local_jwt_header V ?C (ip_token issued) = Inr ()"
    using jwt_laws_header [OF jwt enc]
    by (simp add: validate_local_jwt_header_def Header_new_def split: option.split)
  have dec: "jwt_decode ?C (h_clock H SystemClock (w_tick w')) (ip_token issued) (sv_decoding_key V) ?v = Inr ?c"
  proof (rule jwt_laws_roundtrip [OF jwt enc pair])
    show "purpose_claims_repr ?c" using claims keys by (simp add: purpose_claims_repr_def)
    show "h_clock H SystemClock (w_tick w') < seconds (pc_exp ?c)" using before [OF early(1)] by simp
  qed (simp_all add: validation_for_audience_def validation_for_def Validation_new_def Header_new_def
      issuer_accepted_def audience_accepted_def)
  from repr obtain iat expires where t: "from_unix_timestamp E (unix_timestamp E ?now) = Some iat"
    "from_unix_timestamp E (unix_timestamp E ?exp) = Some expires" by auto
  have sid: "(case map_option (uuid_to_string E) (pr_session_id request) of
      None \<Rightarrow> Inr None
    | Some sid \<Rightarrow> bind_res (ok_or InvalidPurposeToken (uuid_parse_str E sid)) (\<lambda>u. Inr (Some u))) =
      Inr (pr_session_id request)"
    using uuid by (cases "pr_session_id request") (simp_all add: uuid_laws_def)
  show ?thesis
    using nb head dec early(2) t sid
    by (simp add: authenticate_purpose_token_def bind_def require_def ret_def throw_def lift_res_def
        now_from_def)
qed

text \<open>A token accepted as a purpose token carries the purpose-token type, exactly the
  expected purpose and audience, and has not reached its expiry second; an access token or a
  password-reset token (whose types differ) is never accepted.\<close>

theorem accepted_purpose_token_exact:
  assumes "authenticate_purpose_token E H V token expected w = (Inr v, w')"
  shows "\<exists>c now n.
     jwt_decode (jl_purpose (sv_jwt V)) now token (sv_decoding_key V)
       (validation_for_audience V (pv_audience expected)) = Inr c \<and>
     pc_typ c = PURPOSE_TOKEN_TYPE \<and> pc_typ c \<noteq> ACCESS_TOKEN_TYPE \<and>
     pc_typ c \<noteq> PASSWORD_RESET_TOKEN_TYPE \<and>
     vp_purpose v = pv_purpose expected \<and> vp_audience v = pv_audience expected \<and>
     \<not> blank (pv_purpose expected) \<and> \<not> blank (pv_audience expected) \<and>
     unix_timestamp E (h_clock H SystemClock n) < pc_exp c \<and>
     from_unix_timestamp E (pc_exp c) = Some (vp_expires_at v)"
proof -
  have ty: "PURPOSE_TOKEN_TYPE \<noteq> ACCESS_TOKEN_TYPE" "PURPOSE_TOKEN_TYPE \<noteq> PASSWORD_RESET_TOKEN_TYPE"
    by (simp_all add: PURPOSE_TOKEN_TYPE_def ACCESS_TOKEN_TYPE_def PASSWORD_RESET_TOKEN_TYPE_def)
  from assms obtain c where c:
    "jwt_decode (jl_purpose (sv_jwt V)) (h_clock H SystemClock (w_tick w)) token (sv_decoding_key V)
       (validation_for_audience V (pv_audience expected)) = Inr c"
    "\<not> pc_exp c \<le> unix_timestamp E (h_clock H SystemClock (Suc (w_tick w)))"
    "pc_typ c = PURPOSE_TOKEN_TYPE" "pc_purpose c = pv_purpose expected" "pc_aud c = pv_audience expected"
    "vp_purpose v = pc_purpose c" "vp_audience v = pc_aud c"
    "from_unix_timestamp E (pc_exp c) = Some (vp_expires_at v)"
    "\<not> blank (pv_purpose expected)" "\<not> blank (pv_audience expected)"
    unfolding authenticate_purpose_token_def
    by (auto simp: action_simps split: if_splits)
  then show ?thesis
    using ty
    by (intro exI [of _ c] exI [of _ "h_clock H SystemClock (w_tick w)"] exI [of _ "Suc (w_tick w)"]) simp
qed

definition demo_purpose_request :: PurposeTokenIssueRequest where
  "demo_purpose_request =
     \<lparr> pr_subject = ''alice'', pr_purpose = ''invite'', pr_audience = ''mail'', pr_ttl = seconds 60,
       pr_session_id = None, pr_scopes = [''join''], pr_claims = [] \<rparr>"

definition demo_purpose_claims :: PurposeTokenClaims where
  "demo_purpose_claims =
     \<lparr> pc_typ = ''purpose_token'', pc_sub = ''alice'', pc_sid = None, pc_scopes = [''join''],
       pc_purpose = ''invite'', pc_iss = ''agql-auth'', pc_aud = ''mail'', pc_exp = 60, pc_iat = 0,
       pc_custom = [] \<rparr>"

definition demo_purpose_service :: "mem_state AuthService" where
  "demo_purpose_service =
     demo_service (demo_jwt [] [(''token'', Header_new HS256, demo_purpose_claims, EncodingSecret demo_secret)])
       mem_users mem_refresh (mem_rates 8)"

definition demo_issued_purpose :: IssuedPurposeToken where
  "demo_issued_purpose =
     \<lparr> ip_token = ''token'', ip_subject = ''alice'', ip_purpose = ''invite'', ip_audience = ''mail'',
       ip_session_id = None, ip_scopes = [''join''], ip_claims = [], ip_expires_at = seconds 60 \<rparr>"

lemma demo_purpose_issue:
  "issue_purpose_token std_ext idle_host demo_purpose_service demo_purpose_request
     \<lparr> w_store = demo_state, w_tick = 0, w_fresh = 0 \<rparr> =
   (Inr demo_issued_purpose, \<lparr> w_store = demo_state, w_tick = 1, w_fresh = 0 \<rparr>)"
proof -
  have "validate_purpose_token_issue_request demo_purpose_request = Inr ()" by code_simp
  moreover have "checked_jwt_expiry std_ext 0 (pr_ttl demo_purpose_request) ''purpose-token ttl'' = Inr (seconds 60)"
    "unix_timestamp std_ext (seconds 60) = 60" "unix_timestamp std_ext 0 = 0"
    by code_simp+
  ultimately show ?thesis
    by (simp add: issue_purpose_token_def bind_def require_def ret_def lift_res_def now_from_def
        idle_host_def encode_local_jwt_def demo_purpose_service_def demo_service_def demo_jwt_def
        table_codec_def Header_new_def demo_purpose_claims_def PURPOSE_TOKEN_TYPE_def demo_config_simps
        demo_purpose_request_def demo_issued_purpose_def)
qed

lemma demo_purpose_laws:
  "jwt_laws demo_pair purpose_claims_repr pc_iss (\<lambda>c. JString (pc_aud c)) pc_exp
     (jl_purpose (sv_jwt demo_purpose_service))"
  by (simp add: demo_purpose_service_def demo_service_def demo_jwt_def table_codec_laws)

lemma purpose_token_roundtrip_witness:
  "\<exists>v. fst (authenticate_purpose_token std_ext idle_host demo_purpose_service ''token''
         \<lparr> pv_purpose = ''invite'', pv_audience = ''mail'' \<rparr>
         \<lparr> w_store = demo_state, w_tick = 1, w_fresh = 0 \<rparr>) = Inr v \<and> vp_scopes v = [''join'']"
proof -
  have V: "service_wf demo_pair demo_purpose_service"
    by (simp add: demo_purpose_service_def demo_service_wf)
  show ?thesis
    using purpose_token_roundtrip [OF std_ext_time_laws std_ext_uuid_laws demo_purpose_laws V _ _ _ _ _
        demo_purpose_issue]
    by (auto simp: demo_purpose_request_def demo_issued_purpose_def idle_host_def std_ext_simps
        seconds_def in_time_range_def MIN_TIME_def MAX_TIME_def)
qed

lemma demo_purpose_authenticate:
  "authenticate_purpose_token std_ext idle_host demo_purpose_service ''token''
     \<lparr> pv_purpose = ''invite'', pv_audience = ''mail'' \<rparr>
     \<lparr> w_store = demo_state, w_tick = 1, w_fresh = 0 \<rparr> =
   (Inr \<lparr> vp_subject = ''alice'', vp_purpose = ''invite'', vp_audience = ''mail'', vp_session_id = None,
          vp_scopes = [''join''], vp_claims = [], vp_issued_at = 0, vp_expires_at = seconds 60 \<rparr>,
    \<lparr> w_store = demo_state, w_tick = 3, w_fresh = 0 \<rparr>)"
proof -
  have "\<not> blank ''invite''" "\<not> blank ''mail''" by code_simp+
  then show ?thesis
    by (simp add: authenticate_purpose_token_def bind_def require_def ret_def lift_res_def now_from_def
        idle_host_def validate_local_jwt_header_def demo_purpose_service_def demo_service_def demo_jwt_def
        table_codec_def Header_new_def demo_purpose_claims_def PURPOSE_TOKEN_TYPE_def demo_config_simps
        demo_pair_def validation_for_audience_def validation_for_def Validation_new_def
        issuer_accepted_def audience_accepted_def std_ext_simps seconds_def in_time_range_def
        MIN_TIME_def MAX_TIME_def)
qed

lemma accepted_purpose_token_exact_witness: "\<not> blank ''invite''"
  using accepted_purpose_token_exact [OF demo_purpose_authenticate] by auto

end
