(* ===== verification/Session.thy ===== *)
theory Session
  imports Service
begin

text \<open>
  Refreshable sessions (the session half of \<open>src/service.rs\<close>): issuance, password login,
  refresh and step-up rotation with the optional reuse grace, and logout. The proofs are made
  over the contract of the refresh-token store and for every interleaving with other tasks
  that keep the documented store rules, and reach the program through the in-memory store.
\<close>

section \<open>Issuance\<close>

definition RefreshableTokenMetadata_default :: RefreshableTokenMetadata where
  "RefreshableTokenMetadata_default =
     \<lparr> rm_tenant_id = None, rm_organization_id = None, rm_actor = None, rm_correlation_id = None \<rparr>"

text \<open>The result of \<open>issue_tokens_only\<close>: raw refresh token, its record, access token, its
  expiry and the user it carries.\<close>

type_synonym issued_tokens = "string \<times> StoredRefreshToken \<times> string \<times> time \<times> AuthUser"

text \<open>Its first half: the grant kind, the provider's authorization roles and the ceiling.\<close>

definition load_authorization_roles ::
  "'st host \<Rightarrow> 'st AuthService \<Rightarrow> AuthUser \<Rightarrow> string list option \<Rightarrow> ('st, AuthUser) action" where
  "load_authorization_roles H V auth_user ceiling =
     (let auth_user = auth_user \<lparr> au_token_claims := (au_token_claims auth_user)
            \<lparr> md_grant_kind := Some UserSession \<rparr> \<rparr> in
      bind (case sv_additional_token_roles_provider V of
              None \<Rightarrow> ret auth_user
            | Some provider \<Rightarrow>
                bind (host_call H (provider auth_user)) (\<lambda>additional.
                  ret (auth_user \<lparr> au_token_claims := (au_token_claims auth_user)
                    \<lparr> md_authorization_roles := service_dedupe_stable additional \<rparr> \<rparr>))) (\<lambda>auth_user.
        ret (case ceiling of
              None \<Rightarrow> auth_user
            | Some ceiling \<Rightarrow> auth_user \<lparr> au_token_claims := (au_token_claims auth_user)
                \<lparr> md_authorization_roles := filter (\<lambda>role. role \<in> set ceiling)
                    (md_authorization_roles (au_token_claims auth_user)) \<rparr> \<rparr>)))"

definition refresh_record ::
  "ext \<Rightarrow> AuthUser \<Rightarrow> uuid \<Rightarrow> uuid \<Rightarrow> RefreshGrantSource \<Rightarrow> string \<Rightarrow> time \<Rightarrow> time \<Rightarrow> ClientMetadata \<Rightarrow>
   StoredRefreshToken" where
  "refresh_record E user record_id session_family_id grant_source raw_refresh_token now refresh_token_expires_at metadata =
     (let refreshable_metadata =
            \<lparr> rm_tenant_id = md_tenant_id (au_token_claims user),
              rm_organization_id = md_organization_id (au_token_claims user),
              rm_actor = md_actor (au_token_claims user),
              rm_correlation_id = md_correlation_id (au_token_claims user) \<rparr> in
      \<lparr> rt_id = record_id, rt_user_id = au_user_id user, rt_session_id = au_session_id user,
        rt_session_family_id = session_family_id, rt_grant_source = grant_source,
        rt_authorization_roles = md_authorization_roles (au_token_claims user),
        rt_roles = au_roles user, rt_scopes = au_scopes user, rt_session = au_session user,
        rt_refreshable_metadata =
          (if refreshable_metadata \<noteq> RefreshableTokenMetadata_default
           then Some refreshable_metadata else None),
        rt_token_hash = hash_refresh_token E raw_refresh_token, rt_created_at = now,
        rt_expires_at = refresh_token_expires_at, rt_last_used_at = None,
        rt_revoked_at = None, rt_replaced_by_token_id = None,
        rt_user_agent = cm_user_agent metadata, rt_ip_address = cm_ip_address metadata \<rparr>)"

definition issue_tokens_only ::
  "ext \<Rightarrow> 'st host \<Rightarrow> 'st AuthService \<Rightarrow> AuthUser \<Rightarrow> uuid \<Rightarrow> ClientMetadata \<Rightarrow> time \<Rightarrow>
   RefreshGrantSource \<Rightarrow> string list option \<Rightarrow> ('st, issued_tokens) action" where
  "issue_tokens_only E H V auth_user session_family_id metadata now grant_source ceiling =
     bind (load_authorization_roles H V auth_user ceiling) (\<lambda>auth_user.
     bind (lift_res (checked_jwt_expiry E now (cf_access_token_ttl (sv_config V)) ''access-token ttl'')) (\<lambda>access_token_expires_at.
     bind (issue_access_token_with_user E H V auth_user now access_token_expires_at) (\<lambda>(access_token, user).
     bind (random_bytes H) (\<lambda>rnd.
     let raw_refresh_token = generate_opaque_token E rnd in
     bind (lift_res (checked_expiry E now (cf_refresh_token_ttl (sv_config V)) ''refresh-token ttl'')) (\<lambda>refresh_token_expires_at.
     bind (new_uuid H) (\<lambda>record_id.
       ret (raw_refresh_token,
            refresh_record E user record_id session_family_id grant_source raw_refresh_token now
              refresh_token_expires_at metadata,
            access_token, access_token_expires_at, user)))))))"

definition issue_auth_payload ::
  "ext \<Rightarrow> 'st host \<Rightarrow> 'st AuthService \<Rightarrow> AuthUser \<Rightarrow> uuid \<Rightarrow> ClientMetadata \<Rightarrow> RefreshGrantSource \<Rightarrow>
   ('st, AuthPayload) action" where
  "issue_auth_payload E H V auth_user session_family_id metadata grant_source =
     bind (now_from H SystemClock) (\<lambda>now.
     bind (issue_tokens_only E H V auth_user session_family_id metadata now grant_source None)
       (\<lambda>(refresh_token, record, access_token, access_token_expires_at, user).
     bind (store_call H (\<lambda>_. insert_refresh_token (sv_refresh_store V) record)) (\<lambda>_.
       ret \<lparr> pl_user = user, pl_access_token = access_token,
             pl_access_token_expires_at = access_token_expires_at,
             pl_refresh_token = refresh_token,
             pl_refresh_token_expires_at = rt_expires_at record \<rparr>)))"

definition session_claims ::
  "ext \<Rightarrow> uuid \<Rightarrow> RefreshableTokenMetadata \<Rightarrow> SessionContext \<Rightarrow> AccessTokenMetadata" where
  "session_claims E session_family_id metadata session =
     AccessTokenMetadata_default
       \<lparr> md_session_family_id := Some (uuid_to_string E session_family_id),
         md_tenant_id := rm_tenant_id metadata, md_organization_id := rm_organization_id metadata,
         md_actor := rm_actor metadata,
         md_auth_time := map_option (SessionAssurance_auth_time E) (sc_assurance session),
         md_amr := map_option sa_methods (sc_assurance session),
         md_acr := Option.bind (sc_assurance session) sa_acr,
         md_correlation_id := rm_correlation_id metadata \<rparr>"

definition assurance_error_text :: "AssuranceInputError \<Rightarrow> string" where
  "assurance_error_text e =
     (case e of
        TooManyMethods \<Rightarrow> ''too many authentication methods''
      | InvalidMethod \<Rightarrow> ''invalid authentication method''
      | MethodsNotNormalized \<Rightarrow> ''authentication methods are not normalized''
      | InvalidContext field \<Rightarrow> ''invalid assurance '' @ field)"

definition issue_session_for_user_with_metadata ::
  "ext \<Rightarrow> 'st host \<Rightarrow> 'st AuthService \<Rightarrow> string \<Rightarrow> string list \<Rightarrow> string list \<Rightarrow> SessionContext \<Rightarrow>
   RefreshableTokenMetadata \<Rightarrow> ClientMetadata \<Rightarrow> ('st, AuthPayload) action" where
  "issue_session_for_user_with_metadata E H V user_id roles scopes session refreshable_metadata metadata =
     bind (case sc_assurance session of
             None \<Rightarrow> ret session
           | Some assurance \<Rightarrow>
               bind (lift_res (map_err (\<lambda>e. InvalidConfiguration (assurance_error_text e))
                       (SessionAssurance_validate assurance))) (\<lambda>_.
                 ret (session \<lparr> sc_mfa := SessionAssurance_mfa_state assurance \<rparr>))) (\<lambda>session.
     bind (new_uuid H) (\<lambda>session_family_id.
     bind (new_uuid H) (\<lambda>session_id.
       issue_auth_payload E H V
         \<lparr> au_user_id = user_id, au_session_id = session_id, au_roles = service_dedupe_stable roles,
           au_scopes = service_dedupe_stable scopes, au_session = session,
           au_token_claims = session_claims E session_family_id refreshable_metadata session \<rparr>
         session_family_id metadata GrantHost)))"

definition issue_session_for_user_with_scopes ::
  "ext \<Rightarrow> 'st host \<Rightarrow> 'st AuthService \<Rightarrow> string \<Rightarrow> string list \<Rightarrow> string list \<Rightarrow> SessionContext \<Rightarrow>
   ClientMetadata \<Rightarrow> ('st, AuthPayload) action" where
  "issue_session_for_user_with_scopes E H V user_id roles scopes session metadata =
     issue_session_for_user_with_metadata E H V user_id roles scopes session
       RefreshableTokenMetadata_default metadata"

definition issue_session_for_user ::
  "ext \<Rightarrow> 'st host \<Rightarrow> 'st AuthService \<Rightarrow> string \<Rightarrow> string list \<Rightarrow> SessionContext \<Rightarrow> ClientMetadata \<Rightarrow>
   ('st, AuthPayload) action" where
  "issue_session_for_user E H V user_id roles session metadata =
     issue_session_for_user_with_scopes E H V user_id roles [] session metadata"

definition issue_verified_user_session_with_scopes ::
  "ext \<Rightarrow> 'st host \<Rightarrow> 'st AuthService \<Rightarrow> string \<Rightarrow> string list \<Rightarrow> string list \<Rightarrow> AuthMethod \<Rightarrow>
   ClientMetadata \<Rightarrow> ('st, AuthPayload) action" where
  "issue_verified_user_session_with_scopes E H V user_id roles scopes auth_method metadata =
     issue_session_for_user_with_scopes E H V user_id roles scopes
       (SessionContext_for_auth_method auth_method) metadata"

definition issue_verified_user_session ::
  "ext \<Rightarrow> 'st host \<Rightarrow> 'st AuthService \<Rightarrow> string \<Rightarrow> string list \<Rightarrow> AuthMethod \<Rightarrow> ClientMetadata \<Rightarrow>
   ('st, AuthPayload) action" where
  "issue_verified_user_session E H V user_id roles auth_method metadata =
     issue_verified_user_session_with_scopes E H V user_id roles [] auth_method metadata"

definition issue_assured_user_session ::
  "ext \<Rightarrow> 'st host \<Rightarrow> 'st AuthService \<Rightarrow> string \<Rightarrow> string list \<Rightarrow> string list \<Rightarrow> AuthMethod \<Rightarrow>
   SessionAssurance \<Rightarrow> RefreshableTokenMetadata \<Rightarrow> ClientMetadata \<Rightarrow> ('st, AuthPayload) action" where
  "issue_assured_user_session E H V user_id roles scopes auth_method assurance refreshable_metadata metadata =
     issue_session_for_user_with_metadata E H V user_id roles scopes
       (SessionContext_with_assurance (SessionContext_for_auth_method auth_method) assurance)
       refreshable_metadata metadata"

section \<open>Password login\<close>

definition find_user_principal :: "'st host \<Rightarrow> 'st AuthService \<Rightarrow> string \<Rightarrow> ('st, StoredUser option) action" where
  "find_user_principal H V princ = store_call H (\<lambda>_. find_user_by_principal (sv_user_store V) princ)"

definition find_user :: "'st host \<Rightarrow> 'st AuthService \<Rightarrow> string \<Rightarrow> ('st, StoredUser option) action" where
  "find_user H V user_id = store_call H (\<lambda>_. find_user_by_id (sv_user_store V) user_id)"

text \<open>The dummy verification of unknown and disabled accounts: its verdict is ignored, any other
  failure is returned.\<close>

definition dummy_password_work :: "'st host \<Rightarrow> 'st AuthService \<Rightarrow> string \<Rightarrow> ('st, unit) action" where
  "dummy_password_work H V password =
     try_catch (verify_password_async H V password DUMMY_PASSWORD_HASH) (\<lambda>r.
       case r of
         Inr _ \<Rightarrow> ret ()
       | Inl e \<Rightarrow> (case e of InvalidCredentials \<Rightarrow> ret () | _ \<Rightarrow> throw e))"

definition login ::
  "ext \<Rightarrow> 'st host \<Rightarrow> 'st AuthService \<Rightarrow> string \<Rightarrow> string \<Rightarrow> ClientMetadata \<Rightarrow> ('st, AuthPayload) action" where
  "login E H V princ password metadata =
     (let keys = rate_limit_keys E PasswordLogin (Some princ) metadata;
          policy = rc_credential (cf_rate_limits (sv_config V));
          S = sv_rate_limit_store V in
      bind (reject_if_rate_limited E H S policy keys) (\<lambda>permit.
      bind (find_user_principal H V princ) (\<lambda>found.
        case found of
          None \<Rightarrow>
            bind (dummy_password_work H V password) (\<lambda>_.
            bind (record_rate_limit_attempt E H S policy keys) (\<lambda>_.
              throw InvalidCredentials))
        | Some user \<Rightarrow>
            if su_disabled user then
              bind (dummy_password_work H V password) (\<lambda>_.
              bind (record_rate_limit_attempt E H S policy keys) (\<lambda>_.
                throw UserDisabled))
            else
              try_catch (verify_password_async H V password (su_password_hash user)) (\<lambda>r.
                case r of
                  Inl err \<Rightarrow>
                    (case err of
                       AuthServiceUnavailable \<Rightarrow> throw err
                     | _ \<Rightarrow> bind (record_rate_limit_attempt E H S policy keys) (\<lambda>_. throw err))
                | Inr _ \<Rightarrow>
                    bind (clear_rate_limit_attempts H S policy permit) (\<lambda>_.
                    bind (find_user H V (su_id user)) (\<lambda>refound.
                    bind (lift_res (ok_or InvalidCredentials refound)) (\<lambda>current.
                    bind (require (su_id current = su_id user) AuthServiceUnavailable) (\<lambda>_.
                    bind (require (\<not> su_disabled current) UserDisabled) (\<lambda>_.
                    bind (require (su_password_hash current = su_password_hash user) InvalidCredentials) (\<lambda>_.
                    bind (new_uuid H) (\<lambda>session_id.
                    bind (new_uuid H) (\<lambda>session_family_id.
                      issue_auth_payload E H V
                        \<lparr> au_user_id = su_id current, au_session_id = session_id,
                          au_roles = service_dedupe_stable (su_roles current),
                          au_scopes = service_dedupe_stable (su_scopes current),
                          au_session = SessionContext_for_auth_method Password,
                          au_token_claims = AccessTokenMetadata_default
                            \<lparr> md_session_family_id := Some (uuid_to_string E session_family_id) \<rparr> \<rparr>
                        session_family_id metadata GrantStoredUser))))))))))))"

section \<open>Rotation\<close>

definition prepare_rotation ::
  "ext \<Rightarrow> 'st host \<Rightarrow> 'st AuthService \<Rightarrow> StoredRefreshToken \<Rightarrow> StoredRefreshToken option \<Rightarrow> ClientMetadata \<Rightarrow>
   SessionAssurance option \<Rightarrow> time \<Rightarrow> ('st, issued_tokens) action" where
  "prepare_rotation E H V source newest metadata assurance_override now =
     bind (find_user H V (rt_user_id source)) (\<lambda>found.
     bind (lift_res (ok_or InvalidRefreshToken found)) (\<lambda>user.
     bind (require (\<not> su_disabled user) UserDisabled) (\<lambda>_.
     bind (case rt_grant_source source of
             GrantStoredUser \<Rightarrow> ret \<lparr> cg_roles = su_roles user, cg_scopes = su_scopes user \<rparr>
           | GrantHost \<Rightarrow>
               bind (lift_res (ok_or Forbidden (sv_refresh_grant_authority V))) (\<lambda>authority.
                 host_call H (authority (case newest of Some n \<Rightarrow> n | None \<Rightarrow> source) user))
           | GrantLegacy \<Rightarrow> throw Forbidden) (\<lambda>current_grant.
     let roles = filter (\<lambda>role. is_none_or (\<lambda>n. role \<in> set (rt_roles n)) newest)
                   (filter (\<lambda>role. role \<in> set (cg_roles current_grant)) (rt_roles source));
         scopes = filter (\<lambda>scope. is_none_or (\<lambda>n. scope \<in> set (rt_scopes n)) newest)
                   (filter (\<lambda>scope. scope \<in> set (cg_scopes current_grant)) (rt_scopes source));
         ceiling = filter (\<lambda>role. is_none_or (\<lambda>n. role \<in> set (rt_authorization_roles n)) newest)
                   (rt_authorization_roles source);
         session = (case assurance_override of
                      None \<Rightarrow> rt_session source
                    | Some assurance \<Rightarrow> SessionContext_with_assurance (rt_session source) assurance);
         refreshable_metadata = (case rt_refreshable_metadata source of
                      None \<Rightarrow> RefreshableTokenMetadata_default | Some m \<Rightarrow> m) in
       issue_tokens_only E H V
         \<lparr> au_user_id = su_id user, au_session_id = rt_session_id source,
           au_roles = service_dedupe_stable roles, au_scopes = service_dedupe_stable scopes,
           au_session = session,
           au_token_claims = session_claims E (rt_session_family_id source) refreshable_metadata session \<rparr>
         (rt_session_family_id source) metadata now (rt_grant_source source) (Some ceiling)))))"

definition rotate_call ::
  "'st host \<Rightarrow> 'st AuthService \<Rightarrow> uuid \<Rightarrow> StoredRefreshToken \<Rightarrow> time \<Rightarrow> ClientMetadata \<Rightarrow> ('st, bool) action" where
  "rotate_call H V current_id record now metadata =
     store_call H (\<lambda>_. rotate_refresh_token (sv_refresh_store V) current_id record now
       (cm_ip_address metadata) (cm_user_agent metadata))"

definition observe_grace ::
  "'st host \<Rightarrow> 'st AuthService \<Rightarrow> StoredRefreshToken \<Rightarrow> StoredRefreshToken \<Rightarrow> StoredRefreshToken \<Rightarrow> time \<Rightarrow>
   ClientMetadata \<Rightarrow> ('st, unit) action" where
  "observe_grace H V presented newest record now metadata =
     (case (sv_refresh_reuse_grace_observer V, rt_revoked_at presented) of
        (Some observer, Some presented_revoked_at) \<Rightarrow>
          store_call H (\<lambda>_ st. (Inr (), observer
            \<lparr> ge_session_family_id = rt_session_family_id presented,
              ge_session_id = rt_session_id presented, ge_user_id = rt_user_id presented,
              ge_presented_token_id = rt_id presented,
              ge_presented_revoked_at = presented_revoked_at,
              ge_superseded_token_id = rt_id newest, ge_replacement_token_id = rt_id record,
              ge_occurred_at = now, ge_ip_address = cm_ip_address metadata,
              ge_user_agent = cm_user_agent metadata \<rparr> st))
      | _ \<Rightarrow> ret ())"

definition payload_of :: "issued_tokens \<Rightarrow> AuthPayload" where
  "payload_of issued =
     (case issued of (raw_refresh_token, record, access_token, access_token_expires_at, user) \<Rightarrow>
       \<lparr> pl_user = user, pl_access_token = access_token,
         pl_access_token_expires_at = access_token_expires_at,
         pl_refresh_token = raw_refresh_token, pl_refresh_token_expires_at = rt_expires_at record \<rparr>)"

text \<open>The retry loop; the fuel is the source's bound on the attempts.\<close>

fun grace_loop ::
  "ext \<Rightarrow> 'st host \<Rightarrow> 'st AuthService \<Rightarrow> StoredRefreshToken \<Rightarrow> ClientMetadata \<Rightarrow> SessionAssurance option \<Rightarrow>
   duration \<Rightarrow> nat \<Rightarrow> ('st, AuthPayload option) action" where
  "grace_loop E H V presented metadata assurance_override window 0 =
     throw (Store ''refresh reuse grace retry limit exceeded'')"
| "grace_loop E H V presented metadata assurance_override window (Suc n) =
     bind (now_from H RefreshRotationClock) (\<lambda>now.
       if \<not> superseded_within presented now window then ret None
       else
         bind (store_call H (\<lambda>_. find_live_refresh_tokens_in_family (sv_refresh_store V)
                 (rt_session_family_id presented))) (\<lambda>live.
           case live of
             Some [newest] \<Rightarrow>
               if \<not> can_replace_newest presented newest now then ret None
               else
                 bind (prepare_rotation E H V presented (Some newest) metadata assurance_override now) (\<lambda>issued.
                 bind (rotate_call H V (rt_id newest) (fst (snd issued)) now metadata) (\<lambda>replaced.
                   if \<not> replaced
                   then grace_loop E H V presented metadata assurance_override window n
                   else
                     bind (observe_grace H V presented newest (fst (snd issued)) now metadata) (\<lambda>_.
                       ret (Some (payload_of issued)))))
           | _ \<Rightarrow> ret None))"

definition reissue_within_reuse_grace ::
  "ext \<Rightarrow> 'st host \<Rightarrow> 'st AuthService \<Rightarrow> StoredRefreshToken \<Rightarrow> ClientMetadata \<Rightarrow> SessionAssurance option \<Rightarrow>
   ('st, AuthPayload option) action" where
  "reissue_within_reuse_grace E H V presented metadata assurance_override =
     (case sv_refresh_reuse_grace V of
        None \<Rightarrow> ret None
      | Some window \<Rightarrow>
          grace_loop E H V presented metadata assurance_override window MAX_REFRESH_REUSE_GRACE_RETRIES)"

definition find_token :: "'st host \<Rightarrow> 'st AuthService \<Rightarrow> string \<Rightarrow> ('st, StoredRefreshToken option) action" where
  "find_token H V token_hash = store_call H (\<lambda>_. find_refresh_token_by_hash (sv_refresh_store V) token_hash)"

definition revoke_family ::
  "'st host \<Rightarrow> 'st AuthService \<Rightarrow> uuid \<Rightarrow> time \<Rightarrow> RefreshTokenRevocationReason \<Rightarrow> ('st, unit) action" where
  "revoke_family H V fam now reason =
     store_call H (\<lambda>_. revoke_refresh_token_family (sv_refresh_store V) fam now reason)"

definition revoke_token ::
  "'st host \<Rightarrow> 'st AuthService \<Rightarrow> uuid \<Rightarrow> time \<Rightarrow> RefreshTokenRevocationReason \<Rightarrow> ('st, unit) action" where
  "revoke_token H V token_id now reason =
     store_call H (\<lambda>_. revoke_refresh_token (sv_refresh_store V) token_id now None reason)"

definition replay_detected :: "'st host \<Rightarrow> 'st AuthService \<Rightarrow> uuid \<Rightarrow> time \<Rightarrow> ('st, AuthPayload) action" where
  "replay_detected H V fam now =
     bind (revoke_family H V fam now ReplayDetected) (\<lambda>_. throw RefreshTokenReplayDetected)"

definition rotate_session ::
  "ext \<Rightarrow> 'st host \<Rightarrow> 'st AuthService \<Rightarrow> string \<Rightarrow> ClientMetadata \<Rightarrow> SessionAssurance option \<Rightarrow>
   ('st, AuthPayload) action" where
  "rotate_session E H V refresh_token metadata assurance_override =
     bind (now_from H RefreshRotationClock) (\<lambda>now.
     let token_hash = hash_refresh_token E refresh_token in
     bind (find_token H V token_hash) (\<lambda>found.
     bind (lift_res (ok_or InvalidRefreshToken found)) (\<lambda>existing.
       if refresh_is_revoked existing then
         bind (reissue_within_reuse_grace E H V existing metadata assurance_override) (\<lambda>reissued.
           case reissued of
             Some payload \<Rightarrow> ret payload
           | None \<Rightarrow> replay_detected H V (rt_session_family_id existing) now)
       else if refresh_is_expired existing now then
         bind (revoke_token H V (rt_id existing) now Expired) (\<lambda>_. throw RefreshTokenExpired)
       else
         bind (prepare_rotation E H V existing None metadata assurance_override now) (\<lambda>issued.
         bind (rotate_call H V (rt_id existing) (fst (snd issued)) now metadata) (\<lambda>rotated.
           if \<not> rotated then
             bind (if sv_refresh_reuse_grace V \<noteq> None then
                     bind (find_token H V token_hash) (\<lambda>current.
                       case current of
                         None \<Rightarrow> ret None
                       | Some current \<Rightarrow> reissue_within_reuse_grace E H V current metadata assurance_override)
                   else ret None) (\<lambda>reissued.
               case reissued of
                 Some payload \<Rightarrow> ret payload
               | None \<Rightarrow> replay_detected H V (rt_session_family_id existing) now)
           else ret (payload_of issued))))))"

definition refresh ::
  "ext \<Rightarrow> 'st host \<Rightarrow> 'st AuthService \<Rightarrow> string \<Rightarrow> ClientMetadata \<Rightarrow> ('st, AuthPayload) action" where
  "refresh E H V refresh_token metadata = rotate_session E H V refresh_token metadata None"

record StepUpAuthentication =
  su_methods :: "string list"
  su_acr :: "string option"
  su_context :: "string option"

text \<open>The step-up time comes from the caller's clock, here its reading \<open>step_up_now\<close>.\<close>

definition step_up_session ::
  "ext \<Rightarrow> 'st host \<Rightarrow> 'st AuthService \<Rightarrow> string \<Rightarrow> StepUpAuthentication \<Rightarrow> ClientMetadata \<Rightarrow> time \<Rightarrow>
   ('st, AuthPayload) action" where
  "step_up_session E H V refresh_token step_up metadata step_up_now =
     bind (lift_res (map_err (\<lambda>e. InvalidConfiguration (assurance_error_text e))
             (SessionAssurance_new step_up_now (su_methods step_up) (su_acr step_up) (su_context step_up)
                MfaSatisfied))) (\<lambda>assurance.
       rotate_session E H V refresh_token metadata (Some assurance))"

section \<open>Logout\<close>

definition logout :: "ext \<Rightarrow> 'st host \<Rightarrow> 'st AuthService \<Rightarrow> string \<Rightarrow> bool \<Rightarrow> ('st, unit) action" where
  "logout E H V refresh_token whole_family =
     bind (now_from H SystemClock) (\<lambda>now.
     bind (find_token H V (hash_refresh_token E refresh_token)) (\<lambda>found.
       case found of
         None \<Rightarrow> ret ()
       | Some existing \<Rightarrow>
           if whole_family then revoke_family H V (rt_session_family_id existing) now Logout
           else if sv_refresh_reuse_grace V \<noteq> None \<and> refresh_is_revoked existing then ret ()
           else revoke_token H V (rt_id existing) now Logout))"

section \<open>What issuance produces\<close>

lemma set_service_dedupe [simp]: "set (service_dedupe_stable xs) = set xs"
  and distinct_service_dedupe [simp]: "distinct (service_dedupe_stable xs)"
  by (simp_all add: service_dedupe_stable_def)

text \<open>The record, the user and the raw token of one issuance belong together.\<close>

definition issued_ok :: "ext \<Rightarrow> 'st AuthService \<Rightarrow> uuid \<Rightarrow> RefreshGrantSource \<Rightarrow> time \<Rightarrow> issued_tokens \<Rightarrow> bool" where
  "issued_ok E V fam source now issued \<longleftrightarrow>
     (case issued of (raw, rec, access_token, access_expiry, user) \<Rightarrow>
        rt_token_hash rec = hash_refresh_token E raw \<and>
        rt_session_family_id rec = fam \<and> rt_grant_source rec = source \<and>
        rt_revoked_at rec = None \<and> rt_replaced_by_token_id rec = None \<and> rt_last_used_at rec = None \<and>
        rt_created_at rec = now \<and> rt_expires_at rec = now + cf_refresh_token_ttl (sv_config V) \<and>
        access_expiry = now + cf_access_token_ttl (sv_config V) \<and>
        rt_user_id rec = au_user_id user \<and> rt_session_id rec = au_session_id user \<and>
        rt_roles rec = au_roles user \<and> rt_scopes rec = au_scopes user \<and>
        rt_authorization_roles rec = md_authorization_roles (au_token_claims user) \<and>
        rt_session rec = au_session user \<and>
        md_grant_kind (au_token_claims user) = Some UserSession)"

lemma issue_access_token_user:
  assumes "issue_access_token_with_user E H V u issued_at expires_at w = (Inr (token, u'), w')"
  shows "au_user_id u' = au_user_id u" "au_session_id u' = au_session_id u" "au_roles u' = au_roles u"
    "au_scopes u' = au_scopes u" "au_session u' = au_session u"
    "md_authorization_roles (au_token_claims u') = md_authorization_roles (au_token_claims u)"
    "md_grant_kind (au_token_claims u') = md_grant_kind (au_token_claims u)"
    "w_store w' = w_store w" "w_tick w' = w_tick w"
  using assms unfolding issue_access_token_with_user_def
  by (elim issue_access_token_Inr, simp)+

lemma load_authorization_roles_Inr:
  assumes "load_authorization_roles H V u ceiling w = (Inr u', w')"
  shows "au_user_id u' = au_user_id u \<and> au_session_id u' = au_session_id u \<and> au_roles u' = au_roles u \<and>
      au_scopes u' = au_scopes u \<and> au_session u' = au_session u \<and>
      md_grant_kind (au_token_claims u') = Some UserSession \<and>
      (\<forall>c. ceiling = Some c \<longrightarrow> set (md_authorization_roles (au_token_claims u')) \<subseteq> set c)"
  using assms by (auto simp: load_authorization_roles_def Let_def action_simps split: option.splits)

lemma issue_tokens_only_Inr:
  assumes laws: "time_laws E"
    and run: "issue_tokens_only E H V u fam md now source ceiling w = (Inr issued, w')"
  obtains raw rec at ex u' where "issued = (raw, rec, at, ex, u')"
    and "issued_ok E V fam source now issued"
    and "au_user_id u' = au_user_id u" "au_session_id u' = au_session_id u" "au_roles u' = au_roles u"
    and "au_scopes u' = au_scopes u" "au_session u' = au_session u"
    and "\<And>c. ceiling = Some c \<Longrightarrow> set (md_authorization_roles (au_token_claims u')) \<subseteq> set c"
proof -
  from run obtain u1 w1 ex token u2 w2 w3 ex' raw i
    where load: "load_authorization_roles H V u ceiling w = (Inr u1, w1)"
      and ex: "checked_jwt_expiry E now (cf_access_token_ttl (sv_config V)) ''access-token ttl'' = Inr ex"
      and iss: "issue_access_token_with_user E H V u1 now ex w1 = (Inr (token, u2), w2)"
      and ex': "checked_expiry E now (cf_refresh_token_ttl (sv_config V)) ''refresh-token ttl'' = Inr ex'"
      and res: "issued = (raw, refresh_record E u2 i fam source raw now ex' md, token, ex, u2)"
    by (auto simp: issue_tokens_only_def Let_def action_simps split: prod.splits)
  note u1 = load_authorization_roles_Inr [OF load] and u2 = issue_access_token_user [OF iss]
  have "ex = now + cf_access_token_ttl (sv_config V)" "ex' = now + cf_refresh_token_ttl (sv_config V)"
    using checked_jwt_expiry_Inr [OF laws ex] checked_expiry_Inr [OF laws ex'] by simp_all
  then have "issued_ok E V fam source now issued"
    using u2 u1 by (simp add: issued_ok_def res refresh_record_def Let_def)
  with that res u1 u2 show ?thesis by auto
qed

section \<open>What a rotation may grant\<close>

text \<open>The current authority behind a rotation: an enabled user read during it, and that user's
  own grants or the answer of the installed host authority. Legacy records have none.\<close>

definition current_authority ::
  "'st AuthService \<Rightarrow> StoredRefreshToken \<Rightarrow> StoredRefreshToken option \<Rightarrow> StoredUser \<Rightarrow> CurrentRefreshGrant \<Rightarrow> bool" where
  "current_authority V source newest user grant \<longleftrightarrow>
     (\<exists>st st'. find_user_by_id (sv_user_store V) (rt_user_id source) st = (Inr (Some user), st')) \<and>
     \<not> su_disabled user \<and>
     (case rt_grant_source source of
        GrantStoredUser \<Rightarrow> grant = \<lparr> cg_roles = su_roles user, cg_scopes = su_scopes user \<rparr>
      | GrantHost \<Rightarrow> (\<exists>authority n st. sv_refresh_grant_authority V = Some authority \<and>
          authority (case newest of Some t \<Rightarrow> t | None \<Rightarrow> source) user n st = Inr grant)
      | GrantLegacy \<Rightarrow> False)"

text \<open>The session continues (family, session, context), and no role, scope or authorization role
  goes beyond the source record, the newest record of a reuse, and the current grant.\<close>

definition rotation_ok ::
  "ext \<Rightarrow> 'st AuthService \<Rightarrow> StoredRefreshToken \<Rightarrow> StoredRefreshToken option \<Rightarrow> SessionAssurance option \<Rightarrow> time \<Rightarrow>
   issued_tokens \<Rightarrow> bool" where
  "rotation_ok E V source newest ov now issued \<longleftrightarrow>
     issued_ok E V (rt_session_family_id source) (rt_grant_source source) now issued \<and>
     (case issued of (raw, rec, access_token, access_expiry, user) \<Rightarrow>
        rt_session_id rec = rt_session_id source \<and>
        rt_session rec = (case ov of None \<Rightarrow> rt_session source
                          | Some a \<Rightarrow> SessionContext_with_assurance (rt_session source) a) \<and>
        distinct (rt_roles rec) \<and> distinct (rt_scopes rec) \<and>
        set (rt_authorization_roles rec) \<subseteq> set (rt_authorization_roles source) \<and>
        is_none_or (\<lambda>n. set (rt_roles rec) \<subseteq> set (rt_roles n) \<and> set (rt_scopes rec) \<subseteq> set (rt_scopes n) \<and>
          set (rt_authorization_roles rec) \<subseteq> set (rt_authorization_roles n)) newest \<and>
        (\<exists>su grant. current_authority V source newest su grant \<and> rt_user_id rec = su_id su \<and>
           set (rt_roles rec) \<subseteq> set (rt_roles source) \<inter> set (cg_roles grant) \<and>
           set (rt_scopes rec) \<subseteq> set (rt_scopes source) \<inter> set (cg_scopes grant)))"

lemma prepare_rotation_Inr:
  assumes laws: "time_laws E"
    and run: "prepare_rotation E H V source newest md ov now w = (Inr issued, w')"
  shows "rotation_ok E V source newest ov now issued"
proof -
  let ?session = "case ov of None \<Rightarrow> rt_session source
      | Some a \<Rightarrow> SessionContext_with_assurance (rt_session source) a"
  let ?rmd = "case rt_refreshable_metadata source of None \<Rightarrow> RefreshableTokenMetadata_default | Some m \<Rightarrow> m"
  from run obtain user w1 w2 grant roles scopes ceiling
    where f: "find_user H V (rt_user_id source) w = (Inr (Some user), w1)"
      and en: "\<not> su_disabled user"
      and g: "(case rt_grant_source source of
             GrantStoredUser \<Rightarrow> ret \<lparr> cg_roles = su_roles user, cg_scopes = su_scopes user \<rparr>
           | GrantHost \<Rightarrow>
               bind (lift_res (ok_or Forbidden (sv_refresh_grant_authority V))) (\<lambda>authority.
                 host_call H (authority (case newest of Some n \<Rightarrow> n | None \<Rightarrow> source) user))
           | GrantLegacy \<Rightarrow> throw Forbidden) w1 = (Inr grant, w2)"
      and roles: "roles = filter (\<lambda>role. is_none_or (\<lambda>n. role \<in> set (rt_roles n)) newest)
                   (filter (\<lambda>role. role \<in> set (cg_roles grant)) (rt_roles source))"
      and scopes: "scopes = filter (\<lambda>scope. is_none_or (\<lambda>n. scope \<in> set (rt_scopes n)) newest)
                   (filter (\<lambda>scope. scope \<in> set (cg_scopes grant)) (rt_scopes source))"
      and ceiling: "ceiling = filter (\<lambda>role. is_none_or (\<lambda>n. role \<in> set (rt_authorization_roles n)) newest)
                   (rt_authorization_roles source)"
      and iss: "issue_tokens_only E H V
         \<lparr> au_user_id = su_id user, au_session_id = rt_session_id source,
           au_roles = service_dedupe_stable roles, au_scopes = service_dedupe_stable scopes,
           au_session = ?session,
           au_token_claims = session_claims E (rt_session_family_id source) ?rmd ?session \<rparr>
         (rt_session_family_id source) md now (rt_grant_source source) (Some ceiling) w2 = (Inr issued, w')"
    unfolding prepare_rotation_def Let_def
    by (auto simp: bind_eq_Inr lift_res_eq require_eq split: if_splits)
  from iss obtain raw rec at ex u' where issued: "issued = (raw, rec, at, ex, u')"
    and ok: "issued_ok E V (rt_session_family_id source) (rt_grant_source source) now issued"
    and u': "au_user_id u' = su_id user" "au_session_id u' = rt_session_id source"
      "au_roles u' = service_dedupe_stable roles" "au_scopes u' = service_dedupe_stable scopes"
      "au_session u' = ?session"
      "set (md_authorization_roles (au_token_claims u')) \<subseteq> set ceiling"
    by (rule issue_tokens_only_Inr [OF laws]) auto
  have "\<exists>st st'. find_user_by_id (sv_user_store V) (rt_user_id source) st = (Inr (Some user), st')"
    using f by (auto simp: find_user_def store_call_eq)
  moreover have "case rt_grant_source source of
        GrantStoredUser \<Rightarrow> grant = \<lparr> cg_roles = su_roles user, cg_scopes = su_scopes user \<rparr>
      | GrantHost \<Rightarrow> (\<exists>authority n st. sv_refresh_grant_authority V = Some authority \<and>
          authority (case newest of Some t \<Rightarrow> t | None \<Rightarrow> source) user n st = Inr grant)
      | GrantLegacy \<Rightarrow> False"
  proof (cases "rt_grant_source source")
    case GrantHost
    with g obtain authority n st where "sv_refresh_grant_authority V = Some authority"
      "Inr grant = authority (case newest of Some n \<Rightarrow> n | None \<Rightarrow> source) user n st"
      by (auto simp: bind_eq_Inr lift_res_eq host_call_eq Let_def)
    with GrantHost show ?thesis by auto
  qed (use g in \<open>simp_all add: ret_eq throw_eq\<close>)
  ultimately have "current_authority V source newest user grant"
    using en by (simp add: current_authority_def)
  moreover have "set roles \<subseteq> set (rt_roles source) \<inter> set (cg_roles grant)"
    "set scopes \<subseteq> set (rt_scopes source) \<inter> set (cg_scopes grant)"
    "set ceiling \<subseteq> set (rt_authorization_roles source)"
    by (auto simp: roles scopes ceiling)
  moreover have "is_none_or (\<lambda>n. set roles \<subseteq> set (rt_roles n) \<and> set scopes \<subseteq> set (rt_scopes n) \<and>
      set ceiling \<subseteq> set (rt_authorization_roles n)) newest"
    by (cases newest) (auto simp: roles scopes ceiling)
  ultimately show ?thesis
    using ok u' unfolding rotation_ok_def issued issued_ok_def
    by (auto simp: is_none_or_iff; blast dest: subsetD)
qed

section \<open>Families keep a single live token\<close>

definition single_live :: "token_map \<Rightarrow> bool" where
  "single_live m \<longleftrightarrow>
     (\<forall>i j t u. m i = Some t \<and> m j = Some u \<and> rt_revoked_at t = None \<and> rt_revoked_at u = None \<and>
        rt_session_family_id t = rt_session_family_id u \<longrightarrow> i = j)"

text \<open>How the records may change under the feet of an operation: none disappears, none changes its
  family, none is un-revoked.\<close>

definition tokens_evolve :: "token_map \<Rightarrow> token_map \<Rightarrow> bool" where
  "tokens_evolve m m' \<longleftrightarrow>
     (\<forall>i t. m i = Some t \<longrightarrow> (\<exists>t'. m' i = Some t' \<and> rt_session_family_id t' = rt_session_family_id t \<and>
        (rt_revoked_at t \<noteq> None \<longrightarrow> rt_revoked_at t' \<noteq> None)))"

definition session_rely ::
  "('st \<Rightarrow> token_map) \<Rightarrow> ('st \<Rightarrow> bool) \<Rightarrow> 'st host \<Rightarrow> 'st AuthService \<Rightarrow> bool" where
  "session_rely tokens ok H V \<longleftrightarrow>
     (\<forall>n st. ok st \<longrightarrow> ok (h_interfere H n st) \<and> tokens_evolve (tokens st) (tokens (h_interfere H n st)) \<and>
        (single_live (tokens st) \<longrightarrow> single_live (tokens (h_interfere H n st)))) \<and>
     (\<forall>i st r st'. ok st \<and> find_user_by_id (sv_user_store V) i st = (r, st') \<longrightarrow>
        ok st' \<and> tokens st' = tokens st) \<and>
     (\<forall>observer e st. sv_refresh_reuse_grace_observer V = Some observer \<and> ok st \<longrightarrow>
        ok (observer e st) \<and> tokens (observer e st) = tokens st)"

lemma tokens_evolve_refl [simp]: "tokens_evolve m m"
  by (simp add: tokens_evolve_def)

lemma tokens_evolve_trans: "tokens_evolve a b \<Longrightarrow> tokens_evolve b c \<Longrightarrow> tokens_evolve a c"
  unfolding tokens_evolve_def by (metis (no_types))

lemma tokens_evolve_family:
  "tokens_evolve m m' \<Longrightarrow> m i = Some t \<Longrightarrow> m' i = Some t' \<Longrightarrow>
   rt_session_family_id t' = rt_session_family_id t"
  unfolding tokens_evolve_def by fastforce

lemma tokens_evolve_Some:
  "tokens_evolve m m' \<Longrightarrow> m i = Some t \<Longrightarrow> \<exists>t'. m' i = Some t' \<and> rt_session_family_id t' = rt_session_family_id t"
  unfolding tokens_evolve_def by fastforce

lemma single_live_rotate:
  assumes "single_live m" "m i = Some cur" "rt_revoked_at cur = None"
    and "rt_session_family_id rec = rt_session_family_id cur"
  shows "single_live (m(i \<mapsto> rotated_out at ip ua (rt_id rec) cur, rt_id rec \<mapsto> rec))"
  using assms unfolding single_live_def rotated_out_def by (auto split: if_splits)

lemma single_live_revoke:
  "single_live m \<Longrightarrow> m i = Some t \<Longrightarrow> rt_revoked_at t = None \<Longrightarrow>
   single_live (m(i \<mapsto> t \<lparr> rt_revoked_at := Some at, rt_replaced_by_token_id := repl \<rparr>))"
  unfolding single_live_def by (auto split: if_splits)

lemma single_live_family: "single_live m \<Longrightarrow> family_revoked fam m m' \<Longrightarrow> single_live m'"
proof -
  assume s: "single_live m" and f: "family_revoked fam m m'"
  have "\<exists>t. m i = Some t \<and> rt_revoked_at t = None \<and> rt_session_family_id t = rt_session_family_id t'"
    if "m' i = Some t'" "rt_revoked_at t' = None" for i t'
    using f that unfolding family_revoked_def
    by (cases "m i") (force dest: spec [of _ i] split: if_splits)+
  with s show "single_live m'" unfolding single_live_def by metis
qed

lemma single_live_insert:
  assumes "single_live m" "\<And>i t. m i = Some t \<Longrightarrow> rt_session_family_id t \<noteq> rt_session_family_id rec"
  shows "single_live (m(rt_id rec \<mapsto> rec))"
  using assms unfolding single_live_def by (auto split: if_splits) metis+

text \<open>An action is calm when it neither loses nor moves nor un-revokes a record and keeps families
  single; everything but the insertion of a record is.\<close>

definition good :: "('st \<Rightarrow> token_map) \<Rightarrow> ('st \<Rightarrow> bool) \<Rightarrow> 'st world \<Rightarrow> bool" where
  "good tokens ok w \<longleftrightarrow> ok (w_store w) \<and> single_live (tokens (w_store w))"

definition calm :: "('st \<Rightarrow> token_map) \<Rightarrow> ('st \<Rightarrow> bool) \<Rightarrow> ('st, 'a) action \<Rightarrow> bool" where
  "calm tokens ok m \<longleftrightarrow>
     (\<forall>w r w'. ok (w_store w) \<and> m w = (r, w') \<longrightarrow>
        ok (w_store w') \<and> tokens_evolve (tokens (w_store w)) (tokens (w_store w')) \<and>
        (single_live (tokens (w_store w)) \<longrightarrow> single_live (tokens (w_store w'))))"

named_theorems calm_intros \<open>actions that respect the refresh-token records\<close>

lemma calmD:
  assumes "calm tokens ok m" "good tokens ok w" "m w = (r, w')"
  shows "good tokens ok w'" "tokens_evolve (tokens (w_store w)) (tokens (w_store w'))"
  using assms unfolding calm_def good_def by blast+

lemma calm_ok: "calm tokens ok m \<Longrightarrow> ok (w_store w) \<Longrightarrow> m w = (r, w') \<Longrightarrow> ok (w_store w')"
  unfolding calm_def by blast

lemma calm_pure [calm_intros]:
  "calm tokens ok (ret x)" "calm tokens ok (throw e)" "calm tokens ok (lift_res r)"
  "calm tokens ok (require c e)" "calm tokens ok (now_from H k)" "calm tokens ok (new_uuid H)"
  "calm tokens ok (random_bytes H)"
  by (auto simp: calm_def action_simps)

lemma calm_bind [calm_intros]:
  assumes "calm tokens ok m" "\<And>x. calm tokens ok (f x)"
  shows "calm tokens ok (bind m f)"
  unfolding calm_def
proof (intro allI impI)
  fix w r w'
  assume "ok (w_store w) \<and> bind m f w = (r, w')"
  then have okw: "ok (w_store w)" and b: "bind m f w = (r, w')" by simp_all
  obtain r1 w1 where m: "m w = (r1, w1)" by (cases "m w")
  from assms(1) okw m have 1: "ok (w_store w1)" "tokens_evolve (tokens (w_store w)) (tokens (w_store w1))"
    "single_live (tokens (w_store w)) \<longrightarrow> single_live (tokens (w_store w1))"
    unfolding calm_def by blast+
  show "ok (w_store w') \<and> tokens_evolve (tokens (w_store w)) (tokens (w_store w')) \<and>
      (single_live (tokens (w_store w)) \<longrightarrow> single_live (tokens (w_store w')))"
  proof (cases r1)
    case (Inl e)
    with b m 1 show ?thesis by (simp add: bind_def)
  next
    case (Inr x)
    with b m have "f x w1 = (r, w')" by (simp add: bind_def)
    with assms(2) 1 show ?thesis unfolding calm_def using tokens_evolve_trans by blast
  qed
qed

lemma calm_try_catch [calm_intros]:
  assumes "calm tokens ok m" "\<And>r. calm tokens ok (f r)"
  shows "calm tokens ok (try_catch m f)"
  unfolding calm_def
proof (intro allI impI)
  fix w r w'
  assume a: "ok (w_store w) \<and> try_catch m f w = (r, w')"
  obtain r1 w1 where m: "m w = (r1, w1)" by (cases "m w")
  with a have "f r1 w1 = (r, w')" by (simp add: try_catch_def)
  moreover from assms(1) a m have "ok (w_store w1)" "tokens_evolve (tokens (w_store w)) (tokens (w_store w1))"
    "single_live (tokens (w_store w)) \<longrightarrow> single_live (tokens (w_store w1))"
    unfolding calm_def by blast+
  ultimately show "ok (w_store w') \<and> tokens_evolve (tokens (w_store w)) (tokens (w_store w')) \<and>
      (single_live (tokens (w_store w)) \<longrightarrow> single_live (tokens (w_store w')))"
    using assms(2) unfolding calm_def using tokens_evolve_trans by blast
qed

lemma session_relyD:
  assumes "session_rely tokens ok H V" "ok st"
  shows "ok (h_interfere H n st)" "tokens_evolve (tokens st) (tokens (h_interfere H n st))"
    and "single_live (tokens st) \<Longrightarrow> single_live (tokens (h_interfere H n st))"
    and "find_user_by_id (sv_user_store V) i st = (r, st') \<Longrightarrow> ok st' \<and> tokens st' = tokens st"
    and "sv_refresh_reuse_grace_observer V = Some observer \<Longrightarrow>
      ok (observer e st) \<and> tokens (observer e st) = tokens st"
  using assms unfolding session_rely_def by blast+

lemma calm_store_call:
  assumes rely: "session_rely tokens ok H V"
    and op: "\<And>n st r st'. ok st \<Longrightarrow> op n st = (r, st') \<Longrightarrow>
      ok st' \<and> tokens_evolve (tokens st) (tokens st') \<and>
      (single_live (tokens st) \<longrightarrow> single_live (tokens st'))"
  shows "calm tokens ok (store_call H op)"
  unfolding calm_def
proof (intro allI impI)
  fix w r w'
  assume a: "ok (w_store w) \<and> store_call H op w = (r, w')"
  let ?st = "h_interfere H (w_tick w) (w_store w)"
  from a obtain st' where st': "op (w_tick w) ?st = (r, st')" "w_store w' = st'"
    by (auto simp: store_call_eq)
  from a have "ok ?st" "tokens_evolve (tokens (w_store w)) (tokens ?st)"
    "single_live (tokens (w_store w)) \<longrightarrow> single_live (tokens ?st)"
    using session_relyD(1-3) [OF rely] by blast+
  with op [OF this(1) st'(1)] st'(2)
  show "ok (w_store w') \<and> tokens_evolve (tokens (w_store w)) (tokens (w_store w')) \<and>
      (single_live (tokens (w_store w)) \<longrightarrow> single_live (tokens (w_store w')))"
    using tokens_evolve_trans by blast
qed

lemma calm_read:
  assumes "session_rely tokens ok H V"
    and "\<And>n st r st'. ok st \<Longrightarrow> op n st = (r, st') \<Longrightarrow> ok st' \<and> tokens st' = tokens st"
  shows "calm tokens ok (store_call H op)"
proof (rule calm_store_call [OF assms(1)])
  show "ok st' \<and> tokens_evolve (tokens st) (tokens st') \<and>
      (single_live (tokens st) \<longrightarrow> single_live (tokens st'))" if "ok st" "op n st = (r, st')" for n st r st'
    using assms(2) [OF that] by simp
qed

lemma calm_host_call:
  assumes "session_rely tokens ok H V" shows "calm tokens ok (host_call H ask)"
  unfolding host_call_def by (rule calm_read [OF assms]) auto

lemma calm_find_user:
  assumes "session_rely tokens ok H V" shows "calm tokens ok (find_user H V i)"
  unfolding find_user_def by (rule calm_read [OF assms]) (rule session_relyD(4) [OF assms])

lemma calm_issue_access_token:
  "calm tokens ok (issue_access_token_with_user E H V u issued_at expires_at)"
  unfolding issue_access_token_with_user_def issue_access_token_with_user_for_audience_def Let_def
  by (auto intro!: calm_intros split: option.splits prod.splits)

lemma calm_issue_tokens_only:
  assumes "session_rely tokens ok H V"
  shows "calm tokens ok (issue_tokens_only E H V u fam md now source ceiling)"
  unfolding issue_tokens_only_def load_authorization_roles_def Let_def
  by (auto intro!: calm_intros calm_host_call [OF assms] calm_issue_access_token
      split: option.splits prod.splits)

lemma calm_prepare_rotation:
  assumes "session_rely tokens ok H V"
  shows "calm tokens ok (prepare_rotation E H V source newest md ov now)"
  unfolding prepare_rotation_def Let_def
  by (auto intro!: calm_intros calm_host_call [OF assms] calm_find_user [OF assms]
      calm_issue_tokens_only [OF assms] split: RefreshGrantSource.splits)

lemma calm_observe_grace:
  assumes "session_rely tokens ok H V"
  shows "calm tokens ok (observe_grace H V presented newest rec now md)"
  unfolding observe_grace_def
  by (auto intro!: calm_intros calm_read [OF assms] dest: session_relyD(5) [OF assms]
      split: option.splits)

text \<open>A successful reuse: the presented record was superseded within the window, the newest live
  record of the family was replaced, and the payload is a rotation narrowed by both.\<close>

definition reuse_granted ::
  "('st \<Rightarrow> token_map) \<Rightarrow> ext \<Rightarrow> 'st AuthService \<Rightarrow> StoredRefreshToken \<Rightarrow> SessionAssurance option \<Rightarrow> duration \<Rightarrow>
   AuthPayload \<Rightarrow> 'st world \<Rightarrow> bool" where
  "reuse_granted tokens E V presented ov window p w' \<longleftrightarrow> (\<exists>newest now issued.
     p = payload_of issued \<and> rotation_ok E V presented (Some newest) ov now issued \<and>
     superseded_within presented now window \<and> can_replace_newest presented newest now \<and>
     tokens (w_store w') (rt_id (fst (snd issued))) \<noteq> None)"

text \<open>A successful rotation: the presented record was live and unexpired and its replacement is
  stored, or it was superseded and the configured reuse grace covered it.\<close>

definition rotation_granted ::
  "('st \<Rightarrow> token_map) \<Rightarrow> ext \<Rightarrow> 'st AuthService \<Rightarrow> string \<Rightarrow> SessionAssurance option \<Rightarrow> AuthPayload \<Rightarrow>
   'st world \<Rightarrow> bool" where
  "rotation_granted tokens E V refresh_token ov p w' \<longleftrightarrow> (\<exists>presented.
     (\<exists>st st'. find_refresh_token_by_hash (sv_refresh_store V) (hash_refresh_token E refresh_token) st =
        (Inr (Some presented), st')) \<and>
     ((\<exists>now issued. \<not> refresh_is_revoked presented \<and> \<not> refresh_is_expired presented now \<and>
         p = payload_of issued \<and> rotation_ok E V presented None ov now issued \<and>
         tokens (w_store w') (rt_id (fst (snd issued))) = Some (fst (snd issued))) \<or>
      (\<exists>window. sv_refresh_reuse_grace V = Some window \<and>
         reuse_granted tokens E V presented ov window p w')))"

subsection \<open>Over the contract of the store\<close>

context refresh_token_store
begin

lemma calm_find_token:
  assumes "sv_refresh_store V = R" "session_rely tokens ok H V"
  shows "calm tokens ok (find_token H V h)"
  using find_law unfolding find_token_def assms(1) by (intro calm_read [OF assms(2)]) blast

lemma calm_live:
  assumes "sv_refresh_store V = R" "session_rely tokens ok H V"
  shows "calm tokens ok (store_call H (\<lambda>_. find_live_refresh_tokens_in_family (sv_refresh_store V) fam))"
  using live_law unfolding assms(1) by (intro calm_read [OF assms(2)]) blast

lemma calm_revoke_family:
  assumes "sv_refresh_store V = R" "session_rely tokens ok H V"
  shows "calm tokens ok (revoke_family H V fam now reason)"
  unfolding revoke_family_def assms(1)
proof (rule calm_store_call [OF assms(2)])
  fix n st r st'
  assume st: "ok st" "revoke_refresh_token_family R fam now reason st = (r, st')"
  have "tokens_evolve (tokens st) (tokens st')" if "family_revoked fam (tokens st) (tokens st')"
    unfolding tokens_evolve_def
  proof (intro allI impI)
    fix i t assume "tokens st i = Some t"
    with that show "\<exists>t'. tokens st' i = Some t' \<and> rt_session_family_id t' = rt_session_family_id t \<and>
        (rt_revoked_at t \<noteq> None \<longrightarrow> rt_revoked_at t' \<noteq> None)"
      unfolding family_revoked_def by (force dest: spec [of _ i] split: if_splits)
  qed
  with family_law [OF st] single_live_family
  show "ok st' \<and> tokens_evolve (tokens st) (tokens st') \<and>
      (single_live (tokens st) \<longrightarrow> single_live (tokens st'))"
    by (cases "is_ok r") auto
qed

lemma calm_revoke_token:
  assumes "sv_refresh_store V = R" "session_rely tokens ok H V"
  shows "calm tokens ok (revoke_token H V i now reason)"
  unfolding revoke_token_def assms(1)
proof (rule calm_store_call [OF assms(2)])
  fix n st r st'
  assume "ok st" "revoke_refresh_token R i now None reason st = (r, st')"
  then have "ok st' \<and> (tokens st' = tokens st \<or>
        (\<exists>t. tokens st i = Some t \<and> rt_revoked_at t = None \<and>
           tokens st' = (tokens st)(i \<mapsto> t \<lparr> rt_revoked_at := Some now, rt_replaced_by_token_id := None \<rparr>)))"
    using revoke_law by blast
  then show "ok st' \<and> tokens_evolve (tokens st) (tokens st') \<and>
      (single_live (tokens st) \<longrightarrow> single_live (tokens st'))"
    using single_live_revoke by (auto simp: tokens_evolve_def)
qed

lemma calm_logout:
  assumes "sv_refresh_store V = R" "session_rely tokens ok H V"
  shows "calm tokens ok (logout E H V token whole_family)"
  unfolding logout_def
  by (auto intro!: calm_intros calm_find_token [OF assms] calm_revoke_family [OF assms]
      calm_revoke_token [OF assms] split: option.splits)

lemma rotate_call_good:
  assumes V: "sv_refresh_store V = R" and rely: "session_rely tokens ok H V"
    and w: "good tokens ok w" and t: "tokens (w_store w) i = Some t"
    and fam: "rt_session_family_id rec = rt_session_family_id t"
    and run: "rotate_call H V i rec now md w = (r, w')"
  shows "good tokens ok w'"
    and "r \<noteq> Inr True \<Longrightarrow> tokens_evolve (tokens (w_store w)) (tokens (w_store w'))"
    and "r = Inr True \<Longrightarrow> tokens (w_store w') (rt_id rec) = Some rec"
    and "r = Inr True \<Longrightarrow> i \<noteq> rt_id rec \<Longrightarrow> \<exists>cur. rt_revoked_at cur = None \<and>
           tokens (w_store w') i = Some (rotated_out now (cm_ip_address md) (cm_user_agent md) (rt_id rec) cur)"
proof -
  let ?st = "h_interfere H (w_tick w) (w_store w)"
  from run obtain st' where op: "rotate_refresh_token R i rec now (cm_ip_address md) (cm_user_agent md) ?st = (r, st')"
    and w': "w_store w' = st'"
    by (auto simp: rotate_call_def store_call_eq V)
  from rely w have st: "ok ?st" "tokens_evolve (tokens (w_store w)) (tokens ?st)" "single_live (tokens ?st)"
    by (auto simp: session_rely_def good_def)
  note law = rotate_law [OF st(1) op]
  show "good tokens ok w'"
  proof (cases "r = Inr True")
    case True
    with law obtain cur where cur: "tokens ?st i = Some cur" "rt_revoked_at cur = None"
      "tokens st' = (tokens ?st)(i \<mapsto> rotated_out now (cm_ip_address md) (cm_user_agent md) (rt_id rec) cur, rt_id rec \<mapsto> rec)"
      by auto
    from st(2) t cur(1) have "rt_session_family_id cur = rt_session_family_id t"
      by (rule tokens_evolve_family)
    with single_live_rotate [OF st(3) cur(1,2)] fam cur(3) law w' show ?thesis by (simp add: good_def)
  next
    case False
    with law st w' show ?thesis by (simp add: good_def)
  qed
  show "tokens_evolve (tokens (w_store w)) (tokens (w_store w'))" if "r \<noteq> Inr True"
    using law st w' that by simp
  show "tokens (w_store w') (rt_id rec) = Some rec" if "r = Inr True"
    using law w' that by auto
  show "\<exists>cur. rt_revoked_at cur = None \<and>
      tokens (w_store w') i = Some (rotated_out now (cm_ip_address md) (cm_user_agent md) (rt_id rec) cur)"
    if "r = Inr True" "i \<noteq> rt_id rec"
    using law w' that by auto
qed

lemma live_newest:
  assumes V: "sv_refresh_store V = R" and rely: "session_rely tokens ok H V" and w: "good tokens ok w"
    and run: "store_call H (\<lambda>_. find_live_refresh_tokens_in_family (sv_refresh_store V) fam) w = (Inr (Some [newest]), w')"
  shows "tokens (w_store w') (rt_id newest) = Some newest" "rt_session_family_id newest = fam"
    "rt_revoked_at newest = None"
proof -
  let ?st = "h_interfere H (w_tick w) (w_store w)"
  from run obtain st' where op: "find_live_refresh_tokens_in_family R fam ?st = (Inr (Some [newest]), st')"
    and w': "w_store w' = st'"
    by (auto simp: store_call_eq V)
  have st: "ok ?st" using session_relyD(1) [OF rely] w by (simp add: good_def)
  from live_law [OF st op] have same: "tokens st' = tokens ?st"
    and "newest \<in> {t \<in> ran (tokens ?st). rt_session_family_id t = fam \<and> rt_revoked_at t = None}"
    by auto
  then obtain i where "tokens ?st i = Some newest" "rt_session_family_id newest = fam" "rt_revoked_at newest = None"
    by (auto simp: ran_def)
  with own_id [OF st] same w' show "tokens (w_store w') (rt_id newest) = Some newest"
    "rt_session_family_id newest = fam" "rt_revoked_at newest = None" by auto
qed

lemma prepare_rotate:
  assumes laws: "time_laws E" and V: "sv_refresh_store V = R" and rely: "session_rely tokens ok H V"
    and w: "good tokens ok w" and t: "tokens (w_store w) i = Some t"
    and fam: "rt_session_family_id t = rt_session_family_id source"
    and run: "bind (prepare_rotation E H V source newest md ov now) (\<lambda>issued.
        bind (rotate_call H V i (fst (snd issued)) now md) (\<lambda>replaced.
          if \<not> replaced then K else L issued)) w = (r, w')"
    and err: "\<And>e w'. good tokens ok w' \<Longrightarrow> Q (Inl e) w'"
    and lost: "\<And>w r w'. good tokens ok w \<Longrightarrow> K w = (r, w') \<Longrightarrow> Q r w'"
    and won: "\<And>issued w r w'. good tokens ok w \<Longrightarrow> rotation_ok E V source newest ov now issued \<Longrightarrow>
        tokens (w_store w) (rt_id (fst (snd issued))) = Some (fst (snd issued)) \<Longrightarrow>
        L issued w = (r, w') \<Longrightarrow> Q r w'"
  shows "Q r w'"
proof -
  let ?prep = "prepare_rotation E H V source newest md ov now"
  obtain rp w2 where p: "?prep w = (rp, w2)" by (cases "?prep w")
  have w2: "good tokens ok w2" and ev: "tokens_evolve (tokens (w_store w)) (tokens (w_store w2))"
    using calmD [OF calm_prepare_rotation [OF rely] w p] by auto
  show ?thesis
  proof (cases rp)
    case (Inl e)
    with run p err [OF w2] show ?thesis by (auto simp: bind_def)
  next
    case (Inr issued)
    let ?rec = "fst (snd issued)"
    obtain rr w3 where rc: "rotate_call H V i ?rec now md w2 = (rr, w3)"
      by (cases "rotate_call H V i ?rec now md w2")
    have rot: "rotation_ok E V source newest ov now issued"
      using prepare_rotation_Inr [OF laws] p Inr by simp
    from ev t obtain t2 where t2: "tokens (w_store w2) i = Some t2"
      and "rt_session_family_id t2 = rt_session_family_id t"
      using tokens_evolve_Some by blast
    with rot fam have "rt_session_family_id ?rec = rt_session_family_id t2"
      by (auto simp: rotation_ok_def issued_ok_def)
    note G = rotate_call_good [OF V rely w2 t2 this rc]
    have rest: "(case rr of Inl e \<Rightarrow> (Inl e, w3)
        | Inr replaced \<Rightarrow> (if \<not> replaced then K else L issued) w3) = (r, w')"
      using run p Inr rc by (simp add: bind_def)
    consider (err) e where "rr = Inl e" | (lost) "rr = Inr False" | (won) "rr = Inr True"
      by (cases rr) auto
    then show ?thesis
      using rest err [OF G(1)] lost [OF G(1)] won [OF G(1) rot G(3)] by cases auto
  qed
qed

lemma reuse_grantedI:
  assumes rely: "session_rely tokens ok H V" and w: "good tokens ok w"
    and rot: "rotation_ok E V presented (Some newest) ov now issued"
    and "superseded_within presented now window" "can_replace_newest presented newest now"
    and rec: "tokens (w_store w) (rt_id (fst (snd issued))) = Some (fst (snd issued))"
    and run: "bind (observe_grace H V presented newest (fst (snd issued)) now md) (\<lambda>_.
                ret (Some (payload_of issued))) w = (r, w')"
  shows "good tokens ok w' \<and> (\<forall>p. r = Inr (Some p) \<longrightarrow> reuse_granted tokens E V presented ov window p w')"
proof -
  let ?obs = "observe_grace H V presented newest (fst (snd issued)) now md"
  obtain ro w4 where o4: "?obs w = (ro, w4)" by (cases "?obs w")
  have w4: "good tokens ok w4" "tokens_evolve (tokens (w_store w)) (tokens (w_store w4))"
    using calmD [OF calm_observe_grace [OF rely] w o4] by auto
  have "tokens (w_store w4) (rt_id (fst (snd issued))) \<noteq> None"
    using tokens_evolve_Some [OF w4(2) rec] by auto
  moreover have "w' = w4" and "r = Inr (Some (payload_of issued)) \<or> (\<exists>e. r = Inl e)"
    using run o4 by (auto simp: bind_def ret_def split: sum.splits)
  ultimately show ?thesis
    using assms w4(1) unfolding reuse_granted_def by (cases r) (simp_all del: split_paired_Ex, blast)
qed

lemma grace_loop_good:
  assumes laws: "time_laws E" and V: "sv_refresh_store V = R" and rely: "session_rely tokens ok H V"
  shows "good tokens ok w \<Longrightarrow> grace_loop E H V presented md ov window n w = (r, w') \<Longrightarrow>
    good tokens ok w' \<and> (\<forall>p. r = Inr (Some p) \<longrightarrow> reuse_granted tokens E V presented ov window p w')"
proof (induction n arbitrary: w r w')
  case 0
  then show ?case by (auto simp: throw_eq)
next
  case (Suc n)
  let ?now = "h_clock H RefreshRotationClock (w_tick w)"
  let ?w0 = "w \<lparr> w_tick := Suc (w_tick w) \<rparr>"
  let ?live = "store_call H (\<lambda>_. find_live_refresh_tokens_in_family (sv_refresh_store V)
                 (rt_session_family_id presented))"
  have w0: "good tokens ok ?w0" using Suc.prems(1) by (simp add: good_def)
  obtain rl w1 where l: "?live ?w0 = (rl, w1)" by (cases "?live ?w0")
  have w1: "good tokens ok w1" using calmD(1) [OF calm_live [OF V rely] w0 l] .
  show ?case
  proof (cases "superseded_within presented ?now window \<and>
      (\<exists>newest. rl = Inr (Some [newest]) \<and> can_replace_newest presented newest ?now)")
    case False
    with Suc.prems(2) l have "(\<exists>e. r = Inl e) \<or> r = Inr None" "w' = w1 \<or> w' = ?w0"
      by (auto simp: bind_def now_from_def ret_def split: sum.splits option.splits list.splits if_splits)
    with w1 w0 show ?thesis by auto
  next
    case True
    then obtain newest where rl: "rl = Inr (Some [newest])" and sup: "superseded_within presented ?now window"
      and can: "can_replace_newest presented newest ?now" by blast
    note new = live_newest [OF V rely w0 l [unfolded rl]]
    from Suc.prems(2) sup l rl can have run:
      "bind (prepare_rotation E H V presented (Some newest) md ov ?now) (\<lambda>issued.
        bind (rotate_call H V (rt_id newest) (fst (snd issued)) ?now md) (\<lambda>replaced.
          if \<not> replaced then grace_loop E H V presented md ov window n
          else bind (observe_grace H V presented newest (fst (snd issued)) ?now md) (\<lambda>_.
                 ret (Some (payload_of issued))))) w1 = (r, w')"
      by (simp add: bind_def [of "now_from H RefreshRotationClock"] bind_def [of ?live] now_from_def)
    show ?thesis
    proof (rule prepare_rotate [OF laws V rely w1 new(1,2) run])
    qed (use Suc.IH reuse_grantedI [OF rely _ _ sup can] in \<open>blast+\<close>)
  qed
qed

lemma reissue_good:
  assumes "time_laws E" "sv_refresh_store V = R" "session_rely tokens ok H V" "good tokens ok w"
    and "reissue_within_reuse_grace E H V presented md ov w = (r, w')"
  shows "good tokens ok w' \<and> (\<forall>p. r = Inr (Some p) \<longrightarrow>
           (\<exists>window. sv_refresh_reuse_grace V = Some window \<and> reuse_granted tokens E V presented ov window p w'))"
  using assms grace_loop_good [OF assms(1-4)]
  by (cases "sv_refresh_reuse_grace V") (auto simp: reissue_within_reuse_grace_def ret_eq)

lemma replay_detected_good:
  assumes "sv_refresh_store V = R" "session_rely tokens ok H V" "good tokens ok w"
    and "replay_detected H V fam now w = (r, w')"
  shows "good tokens ok w' \<and> (\<exists>e. r = Inl e)"
proof -
  have "calm tokens ok (replay_detected H V fam now)"
    unfolding replay_detected_def by (auto intro!: calm_intros calm_revoke_family [OF assms(1,2)])
  moreover have "\<exists>e. r = Inl e"
    using assms(4) by (auto simp: replay_detected_def bind_def throw_def split: sum.splits prod.splits)
  ultimately show ?thesis using calmD(1) assms(3,4) by blast
qed

lemma reissue_or_replay_good:
  assumes "time_laws E" "sv_refresh_store V = R" "session_rely tokens ok H V" "good tokens ok w"
    and run: "bind (reissue_within_reuse_grace E H V presented md ov) (\<lambda>reissued.
          case reissued of Some payload \<Rightarrow> ret payload | None \<Rightarrow> replay_detected H V fam now) w = (r, w')"
  shows "good tokens ok w' \<and> (\<forall>p. r = Inr p \<longrightarrow>
           (\<exists>window. sv_refresh_reuse_grace V = Some window \<and> reuse_granted tokens E V presented ov window p w'))"
proof -
  obtain rr w1 where re: "reissue_within_reuse_grace E H V presented md ov w = (rr, w1)"
    by (cases "reissue_within_reuse_grace E H V presented md ov w")
  note G = reissue_good [OF assms(1-4) re]
  consider (err) e where "rr = Inl e" | (none) "rr = Inr None" | (some) p where "rr = Inr (Some p)"
    by (cases rr) (auto simp: option.exhaust)
  then show ?thesis
  proof cases
    case none
    with run re have "replay_detected H V fam now w1 = (r, w')" by (simp add: bind_def)
    with replay_detected_good [OF assms(2,3)] G show ?thesis by fastforce
  qed (use run re G in \<open>auto simp: bind_def ret_def\<close>)
qed

lemma find_token_Some:
  assumes V: "sv_refresh_store V = R" and rely: "session_rely tokens ok H V" and w: "good tokens ok w"
    and run: "find_token H V h w = (Inr (Some t), w')"
  shows "good tokens ok w'" "tokens (w_store w') (rt_id t) = Some t"
    and "\<exists>st st'. find_refresh_token_by_hash (sv_refresh_store V) h st = (Inr (Some t), st')"
proof -
  show "good tokens ok w'" using calmD(1) [OF calm_find_token [OF V rely] w run] .
  let ?st = "h_interfere H (w_tick w) (w_store w)"
  have st: "ok ?st" using session_relyD(1) [OF rely] w by (simp add: good_def)
  from run obtain st' where op: "find_refresh_token_by_hash R h ?st = (Inr (Some t), st')" and "w_store w' = st'"
    by (auto simp: find_token_def store_call_eq V)
  with find_law [OF st op] V show "tokens (w_store w') (rt_id t) = Some t"
    "\<exists>st st'. find_refresh_token_by_hash (sv_refresh_store V) h st = (Inr (Some t), st')" by auto
qed

text \<open>The branch of a lost compare-and-swap.\<close>

lemma lost_race_good:
  assumes "time_laws E" and V: "sv_refresh_store V = R" and rely: "session_rely tokens ok H V"
    and w: "good tokens ok w"
    and run: "bind (if sv_refresh_reuse_grace V \<noteq> None then
                     bind (find_token H V h) (\<lambda>current.
                       case current of
                         None \<Rightarrow> ret None
                       | Some current \<Rightarrow> reissue_within_reuse_grace E H V current md ov)
                   else ret None) (\<lambda>reissued.
               case reissued of Some payload \<Rightarrow> ret payload | None \<Rightarrow> replay_detected H V fam now) w = (r, w')"
  shows "good tokens ok w' \<and> (\<forall>p. r = Inr p \<longrightarrow> (\<exists>presented window st st'.
           find_refresh_token_by_hash (sv_refresh_store V) h st = (Inr (Some presented), st') \<and>
           sv_refresh_reuse_grace V = Some window \<and> reuse_granted tokens E V presented ov window p w'))"
proof (cases "sv_refresh_reuse_grace V")
  case None
  with run replay_detected_good [OF V rely w] show ?thesis by fastforce
next
  case (Some window)
  obtain rf w1 where f: "find_token H V h w = (rf, w1)" by (cases "find_token H V h w")
  have w1: "good tokens ok w1" using calmD(1) [OF calm_find_token [OF V rely] w f] .
  consider (err) e where "rf = Inl e" | (none) "rf = Inr None" | (some) t where "rf = Inr (Some t)"
    by (cases rf) (auto simp: option.exhaust)
  then show ?thesis
  proof cases
    case err
    with run Some f w1 show ?thesis by (auto simp: bind_def)
  next
    case none
    with run Some f have "replay_detected H V fam now w1 = (r, w')" by (simp add: bind_def ret_def)
    with replay_detected_good [OF V rely w1] show ?thesis by fastforce
  next
    case (some t)
    with run Some f have "bind (reissue_within_reuse_grace E H V t md ov) (\<lambda>reissued.
          case reissued of Some payload \<Rightarrow> ret payload | None \<Rightarrow> replay_detected H V fam now) w1 = (r, w')"
      by (simp add: bind_def [of "find_token H V h"])
    from reissue_or_replay_good [OF assms(1) V rely w1 this] find_token_Some(3) [OF V rely w f [unfolded some]]
    show ?thesis by blast
  qed
qed

lemma rotate_session_good:
  assumes laws: "time_laws E" and V: "sv_refresh_store V = R" and rely: "session_rely tokens ok H V"
    and w: "good tokens ok w" and run: "rotate_session E H V token md ov w = (r, w')"
  shows "good tokens ok w' \<and> (\<forall>p. r = Inr p \<longrightarrow> rotation_granted tokens E V token ov p w')"
proof -
  let ?now = "h_clock H RefreshRotationClock (w_tick w)" and ?h = "hash_refresh_token E token"
  let ?w0 = "w \<lparr> w_tick := Suc (w_tick w) \<rparr>"
  have w0: "good tokens ok ?w0" using w by (simp add: good_def)
  obtain rf w1 where f: "find_token H V ?h ?w0 = (rf, w1)" by (cases "find_token H V ?h ?w0")
  have w1: "good tokens ok w1" using calmD(1) [OF calm_find_token [OF V rely] w0 f] .
  consider (bad) "\<forall>t. rf \<noteq> Inr (Some t)" | (found) t where "rf = Inr (Some t)" by blast
  then show ?thesis
  proof cases
    case bad
    with run f w1 show ?thesis
      by (auto simp: rotate_session_def Let_def bind_def now_from_def lift_res_def ok_or_def
          split: sum.splits option.splits)
  next
    case (found t)
    note F = find_token_Some [OF V rely w0 f [unfolded found]]
    note step = bind_def [of "now_from H RefreshRotationClock"] bind_def [of "find_token H V ?h"]
      bind_def [of "lift_res _"] now_from_def lift_res_def Let_def
    consider (rev) "refresh_is_revoked t" | (exp) "\<not> refresh_is_revoked t" "refresh_is_expired t ?now"
      | (live) "\<not> refresh_is_revoked t" "\<not> refresh_is_expired t ?now" by blast
    then show ?thesis
    proof cases
      case rev
      with run f found have "bind (reissue_within_reuse_grace E H V t md ov) (\<lambda>reissued.
          case reissued of Some payload \<Rightarrow> ret payload
          | None \<Rightarrow> replay_detected H V (rt_session_family_id t) ?now) w1 = (r, w')"
        by (simp add: rotate_session_def step)
      from reissue_or_replay_good [OF laws V rely w1 this] F(3) show ?thesis
        unfolding rotation_granted_def by blast
    next
      case exp
      with run f found have x: "bind (revoke_token H V (rt_id t) ?now Expired) (\<lambda>_. throw RefreshTokenExpired) w1 = (r, w')"
        by (simp add: rotate_session_def step)
      have c: "calm tokens ok (bind (revoke_token H V (rt_id t) ?now Expired) (\<lambda>_. throw RefreshTokenExpired))"
        by (auto intro!: calm_intros calm_revoke_token [OF V rely])
      from calmD(1) [OF c w1 x] x show ?thesis
        by (auto simp: bind_def throw_def split: sum.splits prod.splits)
    next
      case live
      with run f found have x: "bind (prepare_rotation E H V t None md ov ?now) (\<lambda>issued.
          bind (rotate_call H V (rt_id t) (fst (snd issued)) ?now md) (\<lambda>rotated.
            if \<not> rotated then
              bind (if sv_refresh_reuse_grace V \<noteq> None then
                     bind (find_token H V ?h) (\<lambda>current.
                       case current of
                         None \<Rightarrow> ret None
                       | Some current \<Rightarrow> reissue_within_reuse_grace E H V current md ov)
                   else ret None) (\<lambda>reissued.
               case reissued of Some payload \<Rightarrow> ret payload
               | None \<Rightarrow> replay_detected H V (rt_session_family_id t) ?now)
            else ret (payload_of issued))) w1 = (r, w')"
        by (simp add: rotate_session_def step)
      show ?thesis
      proof (rule prepare_rotate [OF laws V rely w1 F(2) refl x], goal_cases)
        case (2 v q v')
        from lost_race_good [OF laws V rely 2] show ?case unfolding rotation_granted_def by blast
      next
        case (3 issued v q v')
        then have "q = Inr (payload_of issued)" "v' = v" by (simp_all add: ret_eq)
        with 3 F(3) live show ?case unfolding rotation_granted_def by blast
      qed simp
    qed
  qed
qed

end

section \<open>Refresh, step-up and logout\<close>

lemma rotation_ok_user:
  assumes "rotation_ok E V source newest ov now issued" and "p = payload_of issued"
  shows "\<exists>su grant. current_authority V source newest su grant \<and> au_user_id (pl_user p) = su_id su \<and>
       set (au_roles (pl_user p)) \<subseteq> set (rt_roles source) \<inter> set (cg_roles grant) \<and>
       set (au_scopes (pl_user p)) \<subseteq> set (rt_scopes source) \<inter> set (cg_scopes grant)"
    and "au_session_id (pl_user p) = rt_session_id source"
    and "au_session (pl_user p) = (case ov of None \<Rightarrow> rt_session source
           | Some a \<Rightarrow> SessionContext_with_assurance (rt_session source) a)"
    and "set (md_authorization_roles (au_token_claims (pl_user p))) \<subseteq> set (rt_authorization_roles source)"
    and "rt_token_hash (fst (snd issued)) = hash_refresh_token E (pl_refresh_token p)"
    and "rt_revoked_at (fst (snd issued)) = None"
    and "rt_session_family_id (fst (snd issued)) = rt_session_family_id source"
  using assms by (auto simp: rotation_ok_def issued_ok_def payload_of_def; blast)+

text \<open>C2: A refresh or step-up that succeeds, with any other task interleaved at every store call,
  continues a stored session: the presented token was found by its hash and was either live and
  unexpired or covered by the configured reuse grace, an enabled user was read during the call, and
  the roles, scopes and authorization roles of the new tokens are within those of the presented
  record and the current grant of the user or host authority. Refreshing never widens a session,
  and only a step-up changes its assurance.\<close>

theorem rotation_never_widens:
  assumes "time_laws E" and "refresh_token_store (sv_refresh_store V) tokens ok"
    and "session_rely tokens ok H V" and "good tokens ok w"
    and "rotate_session E H V refresh_token md ov w = (Inr p, w')"
  shows "\<exists>presented newest su grant.
     (\<exists>st st'. find_refresh_token_by_hash (sv_refresh_store V) (hash_refresh_token E refresh_token) st =
        (Inr (Some presented), st')) \<and>
     (refresh_is_revoked presented \<longrightarrow> sv_refresh_reuse_grace V \<noteq> None) \<and>
     current_authority V presented newest su grant \<and>
     au_user_id (pl_user p) = su_id su \<and> au_session_id (pl_user p) = rt_session_id presented \<and>
     au_session (pl_user p) = (case ov of None \<Rightarrow> rt_session presented
       | Some a \<Rightarrow> SessionContext_with_assurance (rt_session presented) a) \<and>
     set (au_roles (pl_user p)) \<subseteq> set (rt_roles presented) \<inter> set (cg_roles grant) \<and>
     set (au_scopes (pl_user p)) \<subseteq> set (rt_scopes presented) \<inter> set (cg_scopes grant) \<and>
     set (md_authorization_roles (au_token_claims (pl_user p))) \<subseteq> set (rt_authorization_roles presented)"
proof -
  from refresh_token_store.rotate_session_good [OF assms(2,1) refl assms(3-5)]
  have "rotation_granted tokens E V refresh_token ov p w'" by blast
  then obtain presented newest now issued where
    "\<exists>st st'. find_refresh_token_by_hash (sv_refresh_store V) (hash_refresh_token E refresh_token) st =
        (Inr (Some presented), st')"
    "refresh_is_revoked presented \<longrightarrow> sv_refresh_reuse_grace V \<noteq> None"
    "rotation_ok E V presented newest ov now issued" "p = payload_of issued"
    unfolding rotation_granted_def reuse_granted_def by (elim exE conjE disjE) blast+
  with rotation_ok_user(1-4) [of E V presented newest ov now issued p] show ?thesis by blast
qed

text \<open>C1: Refresh, step-up and logout keep every session family to at most one live refresh token,
  whatever other tasks do between their store calls as long as those keep the store's rules. In
  particular concurrent uses of one token can never branch a family into two live sessions.\<close>

theorem families_keep_one_live_token:
  assumes "time_laws E" and "refresh_token_store (sv_refresh_store V) tokens ok"
    and "session_rely tokens ok H V" and "ok (w_store w)" and "single_live (tokens (w_store w))"
  shows "single_live (tokens (w_store (snd (refresh E H V refresh_token md w)))) \<and>
         single_live (tokens (w_store (snd (step_up_session E H V refresh_token step_up md t w)))) \<and>
         single_live (tokens (w_store (snd (logout E H V refresh_token whole_family w))))"
proof (intro conjI)
  have w: "good tokens ok w" using assms(4,5) by (simp add: good_def)
  have rot: "single_live (tokens (w_store (snd (rotate_session E H V refresh_token md ov w))))" for ov
    using refresh_token_store.rotate_session_good [OF assms(2,1) refl assms(3) w, of refresh_token md ov]
    by (cases "rotate_session E H V refresh_token md ov w") (auto simp: good_def)
  then show "single_live (tokens (w_store (snd (refresh E H V refresh_token md w))))"
    by (simp add: refresh_def)
  show "single_live (tokens (w_store (snd (step_up_session E H V refresh_token step_up md t w))))"
    using rot w by (auto simp: step_up_session_def bind_def lift_res_def good_def split: sum.split)
  show "single_live (tokens (w_store (snd (logout E H V refresh_token whole_family w))))"
    using calmD(1) [OF refresh_token_store.calm_logout [OF assms(2) refl assms(3)] w]
    by (cases "logout E H V refresh_token whole_family w") (auto simp: good_def)
qed

lemma revoke_family_all:
  assumes S: "refresh_token_store (sv_refresh_store V) tokens ok" and rely: "session_rely tokens ok H V"
    and w: "ok (w_store w)" and run: "revoke_family H V fam now reason w = (Inr u, w')"
    and t: "tokens (w_store w') i = Some t" "rt_session_family_id t = fam"
  shows "rt_revoked_at t \<noteq> None"
proof -
  let ?st = "h_interfere H (w_tick w) (w_store w)"
  from run obtain st' where op: "revoke_refresh_token_family (sv_refresh_store V) fam now reason ?st = (Inr u, st')"
    and st': "w_store w' = st'"
    by (auto simp: revoke_family_def store_call_eq)
  have "ok ?st" using session_relyD(1) [OF rely w] .
  from refresh_token_store.family_law [OF S this op] have f: "family_revoked fam (tokens ?st) (tokens st')"
    by simp
  have "case tokens ?st i of
            None \<Rightarrow> tokens st' i = None
          | Some t0 \<Rightarrow> if rt_session_family_id t0 = fam
                      then (\<exists>at. tokens st' i = Some (t0 \<lparr> rt_revoked_at := Some at \<rparr>))
                      else tokens st' i = Some t0"
    using f unfolding family_revoked_def by blast
  with t st' show ?thesis by (auto split: option.splits if_splits)
qed

lemma revoked_presented_replay:
  assumes "sv_refresh_reuse_grace V = None"
    and "find_token H V (hash_refresh_token E refresh_token) (w \<lparr> w_tick := Suc (w_tick w) \<rparr>) = (Inr (Some t), w1)"
    and "refresh_is_revoked t"
  shows "rotate_session E H V refresh_token md ov w =
    replay_detected H V (rt_session_family_id t) (h_clock H RefreshRotationClock (w_tick w)) w1"
  using assms
  by (simp add: rotate_session_def Let_def bind_def [of "now_from H RefreshRotationClock"]
      bind_def [of "find_token H V _"] bind_def [of "lift_res _"] now_from_def lift_res_def
      reissue_within_reuse_grace_def)

text \<open>C3: Without a reuse grace, presenting a revoked refresh token never yields a session: the
  call fails, and when it reports the replay every token of the family is revoked. The only other
  outcome is an error of the store during the family revocation.\<close>

theorem replay_revokes_family:
  assumes "refresh_token_store (sv_refresh_store V) tokens ok" and "session_rely tokens ok H V"
    and "ok (w_store w)" and "sv_refresh_reuse_grace V = None"
    and "find_token H V (hash_refresh_token E refresh_token) (w \<lparr> w_tick := Suc (w_tick w) \<rparr>) = (Inr (Some t), w1)"
    and "refresh_is_revoked t"
    and "rotate_session E H V refresh_token md ov w = (r, w')"
  shows "r = Inl RefreshTokenReplayDetected \<and>
           (\<forall>i u. tokens (w_store w') i = Some u \<and> rt_session_family_id u = rt_session_family_id t \<longrightarrow>
              rt_revoked_at u \<noteq> None) \<or>
         (\<exists>now e. revoke_family H V (rt_session_family_id t) now ReplayDetected w1 = (Inl e, w') \<and> r = Inl e)"
proof -
  let ?now = "h_clock H RefreshRotationClock (w_tick w)"
  have run: "replay_detected H V (rt_session_family_id t) ?now w1 = (r, w')"
    using revoked_presented_replay [OF assms(4-6)] assms(7) by simp
  have w1: "ok (w_store w1)"
    using calm_ok [OF refresh_token_store.calm_find_token [OF assms(1) refl assms(2)] _ assms(5)] assms(3)
    by simp
  obtain rr w2 where rv: "revoke_family H V (rt_session_family_id t) ?now ReplayDetected w1 = (rr, w2)"
    by (cases "revoke_family H V (rt_session_family_id t) ?now ReplayDetected w1")
  show ?thesis
  proof (cases rr)
    case (Inl e)
    with run rv show ?thesis by (auto simp: replay_detected_def bind_def)
  next
    case (Inr u)
    with run rv have "r = Inl RefreshTokenReplayDetected" "w' = w2"
      by (auto simp: replay_detected_def bind_def throw_def)
    with revoke_family_all [OF assms(1,2) w1 rv [unfolded Inr]] show ?thesis by blast
  qed
qed

text \<open>A successful whole-family logout of a known token leaves no live token in its family.\<close>

theorem family_logout_revokes_all:
  assumes "refresh_token_store (sv_refresh_store V) tokens ok" and "session_rely tokens ok H V"
    and "ok (w_store w)"
    and "find_token H V (hash_refresh_token E refresh_token) (w \<lparr> w_tick := Suc (w_tick w) \<rparr>) = (Inr (Some t), w1)"
    and "logout E H V refresh_token True w = (Inr u, w')"
    and "tokens (w_store w') i = Some s" and "rt_session_family_id s = rt_session_family_id t"
  shows "rt_revoked_at s \<noteq> None"
proof -
  have w1: "ok (w_store w1)"
    using calm_ok [OF refresh_token_store.calm_find_token [OF assms(1) refl assms(2)] _ assms(4)] assms(3)
    by simp
  have "revoke_family H V (rt_session_family_id t) (h_clock H SystemClock (w_tick w)) Logout w1 = (Inr u, w')"
    using assms(4,5) by (simp add: logout_def bind_def now_from_def)
  from revoke_family_all [OF assms(1,2) w1 this assms(6,7)] show ?thesis .
qed

text \<open>C11: A whole-family logout is final: whatever happened since, as long as no task un-revokes a record,
  a refresh or step-up that presents any token of the family stored when the logout returned fails
  (without a reuse grace).\<close>

theorem family_logout_final:
  assumes "refresh_token_store (sv_refresh_store V) tokens ok" and "session_rely tokens ok H V"
    and "sv_refresh_reuse_grace V = None" and "ok (w_store w)"
    and "find_token H V (hash_refresh_token E refresh_token) (w \<lparr> w_tick := Suc (w_tick w) \<rparr>) = (Inr (Some t), w1)"
    and "logout E H V refresh_token True w = (Inr u, w')"
    and "good tokens ok v" "tokens_evolve (tokens (w_store w')) (tokens (w_store v))"
    and "find_token H V (hash_refresh_token E other_token) (v \<lparr> w_tick := Suc (w_tick v) \<rparr>) = (Inr (Some s), v1)"
    and "tokens (w_store w') (rt_id s) \<noteq> None" "rt_session_family_id s = rt_session_family_id t"
  shows "isl (fst (refresh E H V other_token md v)) \<and>
         isl (fst (step_up_session E H V other_token step_up md at v))"
proof -
  let ?v = "v \<lparr> w_tick := Suc (w_tick v) \<rparr>"
  have v: "good tokens ok ?v" using assms(7) by (simp add: good_def)
  note F = refresh_token_store.find_token_Some [OF assms(1) refl assms(2) v assms(9)]
  have "tokens_evolve (tokens (w_store v)) (tokens (w_store v1))"
    using calmD(2) [OF refresh_token_store.calm_find_token [OF assms(1) refl assms(2)] v assms(9)] by simp
  then have evolve: "tokens_evolve (tokens (w_store w')) (tokens (w_store v1))"
    using assms(8) tokens_evolve_trans by blast
  obtain s0 where s0: "tokens (w_store w') (rt_id s) = Some s0" using assms(10) by blast
  have "rt_session_family_id s0 = rt_session_family_id t"
    using tokens_evolve_family [OF evolve s0 F(2)] assms(11) by simp
  then have "rt_revoked_at s0 \<noteq> None" using family_logout_revokes_all [OF assms(1,2,4-6) s0] by simp
  then have "refresh_is_revoked s"
    using evolve s0 F(2) unfolding tokens_evolve_def refresh_is_revoked_def by fastforce
  from revoked_presented_replay [OF assms(3,9) this]
  have "isl (fst (rotate_session E H V other_token md ov v))" for ov
    by (auto simp: replay_detected_def bind_def throw_def split: sum.splits prod.splits)
  then show ?thesis
    by (auto simp: refresh_def step_up_session_def bind_def lift_res_def split: sum.splits prod.splits)
qed

subsection \<open>A concrete session\<close>

definition demo_stored_user :: StoredUser where
  "demo_stored_user =
     \<lparr> su_id = ''alice'', su_principal = ''alice@example.org'', su_password_hash = ''pw'',
       su_roles = [''admin''], su_scopes = [''read'', ''write''], su_disabled = False \<rparr>"

definition demo_record :: StoredRefreshToken where
  "demo_record =
     \<lparr> rt_id = 100, rt_user_id = ''alice'', rt_session_id = 5, rt_session_family_id = 6,
       rt_grant_source = GrantStoredUser, rt_authorization_roles = [], rt_roles = [''admin''],
       rt_scopes = [''read'', ''write''], rt_session = SessionContext_for_auth_method Password,
       rt_refreshable_metadata = None, rt_token_hash = hash_refresh_token std_ext ''r'',
       rt_created_at = 0, rt_expires_at = seconds 2592000, rt_last_used_at = None,
       rt_revoked_at = None, rt_replaced_by_token_id = None, rt_user_agent = None, rt_ip_address = None \<rparr>"

definition demo_session_state :: "StoredRefreshToken \<Rightarrow> mem_state" where
  "demo_session_state rec =
     \<lparr> st_users = \<lparr> mu_users_by_id = [(''alice'', demo_stored_user)],
                     mu_principal_to_id = [(''alice@example.org'', ''alice'')] \<rparr>,
       st_refresh = \<lparr> mr_tokens_by_id = [(100, rec)],
                       mr_token_hash_to_id = [(hash_refresh_token std_ext ''r'', 100)],
                       mr_family_revocations = [], mr_rotations = 0 \<rparr>,
       st_rates = \<lparr> mx_poisoned = False, mx_state = MemoryState_default \<rparr> \<rparr>"

definition demo_session_world :: "StoredRefreshToken \<Rightarrow> mem_state world" where
  "demo_session_world rec = \<lparr> w_store = demo_session_state rec, w_tick = 0, w_fresh = 7 \<rparr>"

lemma mem_session_rely:
  "sv_user_store V = mem_users \<Longrightarrow> sv_refresh_reuse_grace_observer V = None \<Longrightarrow>
   session_rely mst_tokens mst_ok idle_host V"
  by (auto simp: session_rely_def idle_host_def mem_users_def on_users_def memory_find_user_by_id_def
      mst_ok_def mst_tokens_def split: prod.splits)

lemma demo_access_service_simps:
  "sv_user_store demo_access_service = mem_users" "sv_refresh_store demo_access_service = mem_refresh"
  "sv_refresh_reuse_grace_observer demo_access_service = None"
  "sv_refresh_reuse_grace demo_access_service = None"
  "sv_additional_token_roles_provider demo_access_service = None"
  "sv_config demo_access_service = demo_config"
  by (simp_all add: demo_access_service_def demo_service_def)

lemma demo_contract: "refresh_token_store (sv_refresh_store demo_access_service) mst_tokens mst_ok"
  unfolding demo_access_service_simps by (rule mst.refresh_token_store_axioms)

lemma demo_rely: "session_rely mst_tokens mst_ok idle_host demo_access_service"
  by (rule mem_session_rely) (simp_all add: demo_access_service_simps)

lemma demo_session_world_good: "rt_id rec = 100 \<Longrightarrow> good mst_tokens mst_ok (demo_session_world rec)"
  by (auto simp: good_def demo_session_world_def demo_session_state_def mst_ok_def mrt_ok_def mst_tokens_def
      mrt_tokens_def single_live_def split: if_splits)

lemma demo_find_token:
  "find_token idle_host demo_access_service (hash_refresh_token std_ext ''r'')
     \<lparr> w_store = demo_session_state rec, w_tick = n, w_fresh = k \<rparr> =
   (Inr (Some rec), \<lparr> w_store = demo_session_state rec, w_tick = Suc n, w_fresh = k \<rparr>)"
  by (simp add: find_token_def store_call_def demo_access_service_simps mem_refresh_def on_refresh_def
      memory_find_refresh_token_by_hash_def get_by_hash_def demo_session_state_def idle_host_def)

text \<open>The rotation of the example session, step by step.\<close>

definition demo_issued :: issued_tokens where
  "demo_issued =
     (let user = demo_user \<lparr> au_token_claims := (au_token_claims demo_user)
             \<lparr> md_jti := Some ''uuuuuuu'', md_purpose := Some ACCESS_TOKEN_PURPOSE,
               md_expires_at := Some (seconds 900) \<rparr> \<rparr>;
          raw = generate_opaque_token std_ext [8] in
      (raw, refresh_record std_ext user 9 6 GrantStoredUser raw 0 (seconds 2592000) ClientMetadata_default,
       ''token'', seconds 900, user))"

lemma demo_issue_tokens:
  "issue_tokens_only std_ext idle_host demo_access_service
     (demo_user \<lparr> au_token_claims := (au_token_claims demo_user) \<lparr> md_grant_kind := None \<rparr> \<rparr>)
     6 ClientMetadata_default 0 GrantStoredUser ceiling
     \<lparr> w_store = st, w_tick = n, w_fresh = 7 \<rparr> =
   (Inr demo_issued, \<lparr> w_store = st, w_tick = n, w_fresh = 10 \<rparr>)"
proof -
  have load: "load_authorization_roles idle_host demo_access_service
      (demo_user \<lparr> au_token_claims := (au_token_claims demo_user) \<lparr> md_grant_kind := None \<rparr> \<rparr>) ceiling w =
      (Inr demo_user, w)" for w
    by (simp add: load_authorization_roles_def Let_def demo_access_service_simps demo_user_def
        AccessTokenMetadata_default_def ret_def split: option.split)
  have times: "checked_jwt_expiry std_ext 0 (seconds 900) ''access-token ttl'' = Inr (seconds 900)"
    "checked_expiry std_ext 0 (seconds 2592000) ''refresh-token ttl'' = Inr (seconds 2592000)"
    by code_simp+
  have rnd: "h_random (idle_host :: mem_state host) 8 = [8]" "h_uuid (idle_host :: mem_state host) 9 = 9"
    by (simp_all add: idle_host_def)
  show ?thesis
    using demo_access_issue [of st n] load times rnd
    by (simp add: issue_tokens_only_def bind_def lift_res_def demo_access_service_simps demo_config_simps
        random_bytes_def new_uuid_def ret_def demo_issued_def Let_def)
qed

lemma demo_prepare:
  "prepare_rotation std_ext idle_host demo_access_service demo_record None ClientMetadata_default None 0
     \<lparr> w_store = demo_session_state rec, w_tick = n, w_fresh = 7 \<rparr> =
   (Inr demo_issued, \<lparr> w_store = demo_session_state rec, w_tick = Suc n, w_fresh = 10 \<rparr>)"
proof -
  have f: "find_user idle_host demo_access_service ''alice''
      \<lparr> w_store = demo_session_state rec, w_tick = n, w_fresh = 7 \<rparr> =
      (Inr (Some demo_stored_user), \<lparr> w_store = demo_session_state rec, w_tick = Suc n, w_fresh = 7 \<rparr>)"
    by (simp add: find_user_def store_call_def demo_access_service_simps mem_users_def on_users_def
        memory_find_user_by_id_def demo_session_state_def idle_host_def)
  have id6: "uuid_to_string std_ext 6 = ''uuuuuu''"
    by (simp add: std_ext_simps) (simp add: numeral_eq_Suc)
  have user: "\<lparr> au_user_id = ''alice'', au_session_id = 5, au_roles = [''admin''], au_scopes = [''read'', ''write''],
      au_session = SessionContext_for_auth_method Password,
      au_token_claims = session_claims std_ext 6 RefreshableTokenMetadata_default
        (SessionContext_for_auth_method Password) \<rparr> =
      demo_user \<lparr> au_token_claims := (au_token_claims demo_user) \<lparr> md_grant_kind := None \<rparr> \<rparr>"
    by (simp add: demo_user_def session_claims_def id6 RefreshableTokenMetadata_default_def
        SessionContext_for_auth_method_def AccessTokenMetadata_default_def)
  show ?thesis
    using demo_issue_tokens [of "Some []" "demo_session_state rec" "Suc n"] f user
    by (simp add: prepare_rotation_def bind_def [of "find_user _ _ _"] bind_def [of "lift_res _"] lift_res_def
        require_def Let_def demo_record_def demo_stored_user_def service_dedupe_stable_def)
qed

definition demo_rotated_world :: "mem_state world" where
  "demo_rotated_world = snd (rotate_call idle_host demo_access_service 100 (fst (snd demo_issued)) 0
     ClientMetadata_default \<lparr> w_store = demo_session_state demo_record, w_tick = 3, w_fresh = 10 \<rparr>)"

lemma demo_rotate_call:
  "rotate_call idle_host demo_access_service 100 (fst (snd demo_issued)) 0
     ClientMetadata_default \<lparr> w_store = demo_session_state demo_record, w_tick = 3, w_fresh = 10 \<rparr> =
   (Inr True, demo_rotated_world)"
proof -
  have "fst (rotate_call idle_host demo_access_service 100 (fst (snd demo_issued)) 0
     ClientMetadata_default \<lparr> w_store = demo_session_state demo_record, w_tick = 3, w_fresh = 10 \<rparr>) = Inr True"
    by (simp add: rotate_call_def store_call_def demo_access_service_simps mem_refresh_def on_refresh_def
        memory_rotate_refresh_token_def demo_session_state_def idle_host_def demo_record_def Let_def)
  then show ?thesis by (simp add: demo_rotated_world_def prod_eq_iff)
qed

lemma demo_rotate_session:
  "rotate_session std_ext idle_host demo_access_service ''r'' ClientMetadata_default None (demo_session_world demo_record) =
   (Inr (payload_of demo_issued), demo_rotated_world)"
proof -
  have live: "\<not> refresh_is_revoked demo_record" "\<not> refresh_is_expired demo_record 0" "rt_id demo_record = 100"
    by (simp_all add: refresh_is_revoked_def refresh_is_expired_def demo_record_def seconds_def)
  have clock: "h_clock (idle_host :: mem_state host) c n = 0" for c n by (simp add: idle_host_def)
  have tick: "Suc (Suc (Suc 0)) = 3" by simp
  show ?thesis
    using live demo_rotate_call
    by (simp add: rotate_session_def Let_def demo_session_world_def bind_def lift_res_def now_from_def clock
        demo_find_token demo_prepare ret_def tick)
qed

lemma rotation_never_widens_witness:
  "\<exists>su grant newest presented. current_authority demo_access_service presented newest su grant \<and>
     set (au_roles (pl_user (payload_of demo_issued))) \<subseteq> set (cg_roles grant)"
proof -
  have "good mst_tokens mst_ok (demo_session_world demo_record)"
    by (rule demo_session_world_good) (simp add: demo_record_def)
  from rotation_never_widens [OF std_ext_time_laws demo_contract demo_rely this demo_rotate_session]
  show ?thesis by blast
qed

lemma families_keep_one_live_token_witness:
  "single_live (mst_tokens (w_store demo_rotated_world))"
proof -
  have g: "mst_ok (w_store (demo_session_world demo_record))" "single_live (mst_tokens (w_store (demo_session_world demo_record)))"
    using demo_session_world_good [of demo_record] by (simp_all add: good_def demo_record_def)
  from families_keep_one_live_token [OF std_ext_time_laws demo_contract demo_rely g,
      of "''r''" ClientMetadata_default]
  show ?thesis by (simp add: refresh_def demo_rotate_session)
qed

definition demo_revoked_record :: StoredRefreshToken where
  "demo_revoked_record = demo_record \<lparr> rt_revoked_at := Some 0 \<rparr>"

lemma replay_revokes_family_witness:
  "fst (rotate_session std_ext idle_host demo_access_service ''r'' ClientMetadata_default None
     (demo_session_world demo_revoked_record)) = Inl RefreshTokenReplayDetected"
proof -
  let ?rot = "rotate_session std_ext idle_host demo_access_service ''r'' ClientMetadata_default None
     (demo_session_world demo_revoked_record)"
  have ok: "mst_ok (w_store (demo_session_world demo_revoked_record))"
    using demo_session_world_good [of demo_revoked_record]
    by (simp add: good_def demo_revoked_record_def demo_record_def)
  have f: "find_token idle_host demo_access_service (hash_refresh_token std_ext ''r'')
      (demo_session_world demo_revoked_record \<lparr> w_tick := Suc (w_tick (demo_session_world demo_revoked_record)) \<rparr>) =
      (Inr (Some demo_revoked_record), \<lparr> w_store = demo_session_state demo_revoked_record, w_tick = 2, w_fresh = 7 \<rparr>)"
    using demo_find_token [of demo_revoked_record 1 7] by (simp add: demo_session_world_def numeral_2_eq_2)
  have rev: "refresh_is_revoked demo_revoked_record"
    by (simp add: refresh_is_revoked_def demo_revoked_record_def)
  have ran: "?rot = (fst ?rot, snd ?rot)" by simp
  have "\<not> (\<exists>now e. revoke_family idle_host demo_access_service fam now ReplayDetected w1 = (Inl e, w'))" for fam w1 w'
    by (simp add: revoke_family_def store_call_def demo_access_service_simps mem_refresh_def on_refresh_def
        memory_revoke_refresh_token_family_def)
  with replay_revokes_family [OF demo_contract demo_rely ok demo_access_service_simps(4) f rev ran]
  show ?thesis by blast
qed

lemma demo_logout:
  obtains w' where "logout std_ext idle_host demo_access_service ''r'' True (demo_session_world demo_record) = (Inr (), w')"
    "mst_tokens (w_store w') = mst_tokens (demo_session_state (demo_record \<lparr> rt_revoked_at := Some 0 \<rparr>))"
proof -
  let ?out = "logout std_ext idle_host demo_access_service ''r'' True (demo_session_world demo_record)"
  have "find_token idle_host demo_access_service (hash_refresh_token std_ext ''r'')
      (demo_session_world demo_record \<lparr> w_tick := Suc (w_tick (demo_session_world demo_record)) \<rparr>) =
      (Inr (Some demo_record), \<lparr> w_store = demo_session_state demo_record, w_tick = 2, w_fresh = 7 \<rparr>)"
    using demo_find_token [of demo_record 1 7] by (simp add: demo_session_world_def numeral_2_eq_2)
  then have out: "?out = revoke_family idle_host demo_access_service 6 0 Logout
      \<lparr> w_store = demo_session_state demo_record, w_tick = 2, w_fresh = 7 \<rparr>"
    by (simp add: logout_def bind_def now_from_def demo_session_world_def idle_host_def demo_record_def)
  have "fst ?out = Inr ()"
    "mst_tokens (w_store (snd ?out)) = mst_tokens (demo_session_state (demo_record \<lparr> rt_revoked_at := Some 0 \<rparr>))"
    unfolding out
    by (simp_all add: revoke_family_def store_call_def demo_access_service_simps mem_refresh_def on_refresh_def
        memory_revoke_refresh_token_family_def demo_session_state_def mst_tokens_def mrt_tokens_def
        idle_host_def demo_record_def)
  then show ?thesis using that [of "snd ?out"] by (metis prod.collapse)
qed

lemma family_logout_final_witness:
  "isl (fst (refresh std_ext idle_host demo_access_service ''r'' ClientMetadata_default
     (demo_session_world (demo_record \<lparr> rt_revoked_at := Some 0 \<rparr>))))"
proof -
  let ?rec = "demo_record \<lparr> rt_revoked_at := Some 0 \<rparr>"
  obtain w' where out: "logout std_ext idle_host demo_access_service ''r'' True (demo_session_world demo_record) = (Inr (), w')"
    and tokens: "mst_tokens (w_store w') = mst_tokens (demo_session_state ?rec)"
    using demo_logout .
  have ok: "mst_ok (w_store (demo_session_world demo_record))"
    using demo_session_world_good [of demo_record] by (simp add: good_def demo_record_def)
  have g: "good mst_tokens mst_ok (demo_session_world ?rec)"
    by (rule demo_session_world_good) (simp add: demo_record_def)
  have grace: "sv_refresh_reuse_grace demo_access_service = None" by (simp add: demo_access_service_simps)
  have f: "find_token idle_host demo_access_service (hash_refresh_token std_ext ''r'')
      (demo_session_world rec \<lparr> w_tick := Suc (w_tick (demo_session_world rec)) \<rparr>) =
      (Inr (Some rec), \<lparr> w_store = demo_session_state rec, w_tick = 2, w_fresh = 7 \<rparr>)" for rec
    using demo_find_token [of rec 1 7] by (simp add: demo_session_world_def numeral_2_eq_2)
  have evolve: "tokens_evolve (mst_tokens (w_store w')) (mst_tokens (w_store (demo_session_world ?rec)))"
    by (simp add: tokens demo_session_world_def)
  have stored: "mst_tokens (w_store w') (rt_id ?rec) \<noteq> None"
    unfolding tokens by (simp add: demo_session_state_def mst_tokens_def mrt_tokens_def demo_record_def)
  have family: "rt_session_family_id ?rec = rt_session_family_id demo_record" by simp
  show ?thesis
    using family_logout_final [OF demo_contract demo_rely grace ok f out g evolve f stored family] by blast
qed

section \<open>Login\<close>

lemma verify_password_async_Inr:
  assumes "verify_password_async H V password h w = (Inr u, w')"
  shows "pw_verifies (sv_password V) password h" "\<exists>n. pw_admits (sv_password V) n"
  using assms
  by (auto simp: verify_password_async_def verify_password_async_before_def pool_execute_def
      verify_password_def action_simps res_simps Let_def split: if_splits)

lemma issue_auth_payload_Inr:
  assumes laws: "time_laws E"
    and run: "issue_auth_payload E H V u fam md source w = (Inr p, w')"
  obtains now issued w0 w1 where "p = payload_of issued" and "issued_ok E V fam source now issued"
    and "bind (now_from H SystemClock) (\<lambda>now. issue_tokens_only E H V u fam md now source None) w = (Inr issued, w1)"
    and "au_user_id (pl_user p) = au_user_id u" "au_roles (pl_user p) = au_roles u"
    and "au_scopes (pl_user p) = au_scopes u" "au_session_id (pl_user p) = au_session_id u"
    and "store_call H (\<lambda>_. insert_refresh_token (sv_refresh_store V) (fst (snd issued))) w1 = (Inr (), w')"
proof -
  from run obtain now w0 issued w1 where i: "issue_tokens_only E H V u fam md now source None w0 = (Inr issued, w1)"
    and b: "bind (now_from H SystemClock) (\<lambda>now. issue_tokens_only E H V u fam md now source None) w = (Inr issued, w1)"
    and ins: "store_call H (\<lambda>_. insert_refresh_token (sv_refresh_store V) (fst (snd issued))) w1 = (Inr (), w')"
    and p: "p = payload_of issued"
    by (auto simp: issue_auth_payload_def bind_eq_Inr now_from_eq ret_eq payload_of_def)
  from i obtain raw rec at ex u' where issued: "issued = (raw, rec, at, ex, u')"
    and ok: "issued_ok E V fam source now issued"
    and u': "au_user_id u' = au_user_id u" "au_session_id u' = au_session_id u" "au_roles u' = au_roles u"
      "au_scopes u' = au_scopes u"
    by (rule issue_tokens_only_Inr [OF laws]) auto
  show ?thesis
    using that [OF p ok b _ _ _ _ ins] u' by (simp add: p issued payload_of_def)
qed

lemma login_Inr:
  assumes run: "login E H V princ password md w = (Inr p, w')"
  obtains permit w1 w2 user w3 w4 w5 current w6 sid fam where
    "reject_if_rate_limited E H (sv_rate_limit_store V) (rc_credential (cf_rate_limits (sv_config V)))
       (rate_limit_keys E PasswordLogin (Some princ) md) w = (Inr permit, w1)"
    and "find_user_principal H V princ w1 = (Inr (Some user), w2)" and "\<not> su_disabled user"
    and "verify_password_async H V password (su_password_hash user) w2 = (Inr (), w3)"
    and "clear_rate_limit_attempts H (sv_rate_limit_store V)
           (rc_credential (cf_rate_limits (sv_config V))) permit w3 = (Inr (), w4)"
    and "find_user H V (su_id user) w4 = (Inr (Some current), w5)"
    and "su_id current = su_id user" "\<not> su_disabled current" "su_password_hash current = su_password_hash user"
    and "issue_auth_payload E H V
           \<lparr> au_user_id = su_id current, au_session_id = sid,
             au_roles = service_dedupe_stable (su_roles current),
             au_scopes = service_dedupe_stable (su_scopes current),
             au_session = SessionContext_for_auth_method Password,
             au_token_claims = AccessTokenMetadata_default
               \<lparr> md_session_family_id := Some (uuid_to_string E fam) \<rparr> \<rparr>
           fam md GrantStoredUser w6 = (Inr p, w')" and "w_store w6 = w_store w5"
proof -
  let ?S = "sv_rate_limit_store V" and ?policy = "rc_credential (cf_rate_limits (sv_config V))"
  let ?keys = "rate_limit_keys E PasswordLogin (Some princ) md"
  from run obtain permit w1 found w2
    where a: "reject_if_rate_limited E H ?S ?policy ?keys w = (Inr permit, w1)"
      and b: "find_user_principal H V princ w1 = (Inr found, w2)"
      and rest: "\<exists>user. found = Some user \<and> \<not> su_disabled user \<and>
        try_catch (verify_password_async H V password (su_password_hash user)) (\<lambda>r.
                case r of
                  Inl err \<Rightarrow>
                    (case err of
                       AuthServiceUnavailable \<Rightarrow> throw err
                     | _ \<Rightarrow> bind (record_rate_limit_attempt E H ?S ?policy ?keys) (\<lambda>_. throw err))
                | Inr _ \<Rightarrow>
                    bind (clear_rate_limit_attempts H ?S ?policy permit) (\<lambda>_.
                    bind (find_user H V (su_id user)) (\<lambda>refound.
                    bind (lift_res (ok_or InvalidCredentials refound)) (\<lambda>current.
                    bind (require (su_id current = su_id user) AuthServiceUnavailable) (\<lambda>_.
                    bind (require (\<not> su_disabled current) UserDisabled) (\<lambda>_.
                    bind (require (su_password_hash current = su_password_hash user) InvalidCredentials) (\<lambda>_.
                    bind (new_uuid H) (\<lambda>session_id.
                    bind (new_uuid H) (\<lambda>session_family_id.
                      issue_auth_payload E H V
                        \<lparr> au_user_id = su_id current, au_session_id = session_id,
                          au_roles = service_dedupe_stable (su_roles current),
                          au_scopes = service_dedupe_stable (su_scopes current),
                          au_session = SessionContext_for_auth_method Password,
                          au_token_claims = AccessTokenMetadata_default
                            \<lparr> md_session_family_id := Some (uuid_to_string E session_family_id) \<rparr> \<rparr>
                        session_family_id md GrantStoredUser))))))))) w2 = (Inr p, w')"
    unfolding login_def Let_def bind_eq_Inr
    by (auto simp: bind_eq_Inr throw_eq split: option.splits if_splits)
  then obtain user where user: "found = Some user" "\<not> su_disabled user" by blast
  show ?thesis
  proof (cases "verify_password_async H V password (su_password_hash user) w2")
    case (Pair r w3)
    show ?thesis
    proof (cases r)
      case (Inl err)
      with rest user Pair show ?thesis
        by (cases err) (auto simp: try_catch_def bind_eq_Inr throw_eq)
    next
      case (Inr u)
      with rest user Pair that [OF a, of user w2 w3] b show ?thesis
        by (auto simp: try_catch_def bind_eq_Inr lift_res_eq require_eq new_uuid_eq split: if_splits)
    qed
  qed
qed

text \<open>The stores are separate: reading users and abuse-protection calls leave the refresh-token
  records alone.\<close>

definition login_rely ::
  "('st \<Rightarrow> token_map) \<Rightarrow> ('st \<Rightarrow> bool) \<Rightarrow> 'st host \<Rightarrow> 'st AuthService \<Rightarrow> bool" where
  "login_rely tokens ok H V \<longleftrightarrow>
     session_rely tokens ok H V \<and>
     (\<forall>p st r st'. ok st \<and> find_user_by_principal (sv_user_store V) p st = (r, st') \<longrightarrow>
        ok st' \<and> tokens st' = tokens st) \<and>
     (\<forall>now k st r st'. ok st \<and> find_auth_rate_limit_state (sv_rate_limit_store V) now k st = (r, st') \<longrightarrow>
        ok st' \<and> tokens st' = tokens st) \<and>
     (\<forall>now k e st r st'. ok st \<and> clear_auth_rate_limit_state (sv_rate_limit_store V) now k e st = (r, st') \<longrightarrow>
        ok st' \<and> tokens st' = tokens st)"

lemma login_relyD:
  assumes "login_rely tokens ok H V"
  shows "session_rely tokens ok H V"
    and "ok st \<Longrightarrow> find_user_by_principal (sv_user_store V) p st = (ru, st') \<Longrightarrow> ok st' \<and> tokens st' = tokens st"
    and "ok st \<Longrightarrow> find_auth_rate_limit_state (sv_rate_limit_store V) now k st = (rf, st') \<Longrightarrow>
      ok st' \<and> tokens st' = tokens st"
    and "ok st \<Longrightarrow> clear_auth_rate_limit_state (sv_rate_limit_store V) now k e st = (rc, st') \<Longrightarrow>
      ok st' \<and> tokens st' = tokens st"
  using assms unfolding login_rely_def by blast+

lemma calm_find_user_principal:
  assumes "login_rely tokens ok H V" shows "calm tokens ok (find_user_principal H V p)"
  unfolding find_user_principal_def
  by (rule calm_read [OF login_relyD(1) [OF assms]]) (rule login_relyD(2) [OF assms])

lemma calm_rl_find:
  assumes "login_rely tokens ok H V" shows "calm tokens ok (rl_find H (sv_rate_limit_store V) k)"
  unfolding rl_find_def
  by (rule calm_read [OF login_relyD(1) [OF assms]]) (rule login_relyD(3) [OF assms])

lemma calm_observe_keys:
  assumes "login_rely tokens ok H V"
  shows "calm tokens ok (observe_keys H (sv_rate_limit_store V) now keys obs l b)"
proof (induction keys arbitrary: obs l b)
  case (Cons k keys)
  then show ?case
    by (auto intro!: calm_intros calm_rl_find [OF assms] simp: Let_def split: option.splits)
qed (simp add: calm_intros)

lemma calm_reject_if_rate_limited:
  assumes "login_rely tokens ok H V"
  shows "calm tokens ok (reject_if_rate_limited E H (sv_rate_limit_store V) policy keys)"
  unfolding reject_if_rate_limited_def
  by (auto intro!: calm_intros calm_observe_keys [OF assms] split: option.splits)

lemma calm_for_each_m: "(\<And>x. calm tokens ok (f x)) \<Longrightarrow> calm tokens ok (for_each_m f xs)"
  by (induction xs) (auto intro!: calm_intros)

lemma calm_clear_rate_limit_attempts:
  assumes "login_rely tokens ok H V"
  shows "calm tokens ok (clear_rate_limit_attempts H (sv_rate_limit_store V) policy permit)"
  unfolding clear_rate_limit_attempts_def rl_clear_def
  by (auto intro!: calm_intros calm_for_each_m calm_read [OF login_relyD(1) [OF assms]]
      dest: login_relyD(4) [OF assms])

lemma calm_verify_password_async:
  assumes "session_rely tokens ok H V"
  shows "calm tokens ok (verify_password_async H V password h)"
  unfolding verify_password_async_def verify_password_async_before_def pool_execute_def
  by (auto intro!: calm_intros calm_host_call [OF assms])

lemma issue_auth_payload_stored:
  assumes laws: "time_laws E" and S: "refresh_token_store (sv_refresh_store V) tokens ok"
    and rely: "session_rely tokens ok H V" and w: "ok (w_store w)"
    and run: "issue_auth_payload E H V u fam md source w = (Inr p, w')"
  shows "\<exists>rec. tokens (w_store w') (rt_id rec) = Some rec \<and> rt_revoked_at rec = None \<and>
            rt_grant_source rec = source \<and> rt_session_family_id rec = fam \<and>
            rt_user_id rec = au_user_id u \<and>
            rt_token_hash rec = hash_refresh_token E (pl_refresh_token p)"
proof -
  from run obtain now issued w1 where p: "p = payload_of issued" and iok: "issued_ok E V fam source now issued"
    and b: "bind (now_from H SystemClock) (\<lambda>now. issue_tokens_only E H V u fam md now source None) w = (Inr issued, w1)"
    and user: "au_user_id (pl_user p) = au_user_id u"
    and ins: "store_call H (\<lambda>_. insert_refresh_token (sv_refresh_store V) (fst (snd issued))) w1 = (Inr (), w')"
    by (rule issue_auth_payload_Inr [OF laws])
  have "calm tokens ok (bind (now_from H SystemClock) (\<lambda>now. issue_tokens_only E H V u fam md now source None))"
    by (intro calm_intros calm_issue_tokens_only [OF rely])
  from calm_ok [OF this w b] have st: "ok (h_interfere H (w_tick w1) (w_store w1))"
    by (rule session_relyD(1) [OF rely])
  from ins obtain st' where "insert_refresh_token (sv_refresh_store V) (fst (snd issued))
      (h_interfere H (w_tick w1) (w_store w1)) = (Inr (), st')" "w_store w' = st'"
    by (auto simp: store_call_eq)
  with refresh_token_store.insert_law [OF S st] have
    "tokens (w_store w') (rt_id (fst (snd issued))) = Some (fst (snd issued))" by fastforce
  then show ?thesis
    using iok user by (intro exI [of _ "fst (snd issued)"]) (auto simp: issued_ok_def p payload_of_def)
qed

text \<open>C4: A password login that succeeds went through these steps in this order: the abuse protection
  admitted it, an enabled account was found by its principal, the hash of that account verified the
  password on the pool, the attempt counters were cleared, and only then the account was read again,
  still enabled and with the same hash. The worlds of the statement are those of the run, each step
  starting where the previous one ended, so a read before the verification does not do. The session
  carries exactly the roles and scopes of the re-read account, and a live refresh record with the
  hash of the returned token was stored for it. A disabled account never obtains a session.\<close>

theorem login_success_sound:
  assumes laws: "time_laws E" and S: "refresh_token_store (sv_refresh_store V) tokens ok"
    and rely: "login_rely tokens ok H V" and w: "ok (w_store w)"
    and run: "login E H V princ password md w = (Inr p, w')"
  shows "\<exists>permit user current w1 w2 w3 w4 w5.
            reject_if_rate_limited E H (sv_rate_limit_store V) (rc_credential (cf_rate_limits (sv_config V)))
              (rate_limit_keys E PasswordLogin (Some princ) md) w = (Inr permit, w1) \<and>
            find_user_principal H V princ w1 = (Inr (Some user), w2) \<and>
            verify_password_async H V password (su_password_hash user) w2 = (Inr (), w3) \<and>
            clear_rate_limit_attempts H (sv_rate_limit_store V) (rc_credential (cf_rate_limits (sv_config V)))
              permit w3 = (Inr (), w4) \<and>
            find_user H V (su_id user) w4 = (Inr (Some current), w5) \<and>
            (\<exists>st st'. find_user_by_principal (sv_user_store V) princ st = (Inr (Some user), st')) \<and>
            (\<exists>st st'. find_user_by_id (sv_user_store V) (su_id user) st = (Inr (Some current), st')) \<and>
            pw_verifies (sv_password V) password (su_password_hash user) \<and>
            \<not> su_disabled user \<and> \<not> su_disabled current \<and>
            su_password_hash current = su_password_hash user \<and> su_id current = su_id user \<and>
            au_user_id (pl_user p) = su_id user \<and>
            set (au_roles (pl_user p)) = set (su_roles current) \<and>
            set (au_scopes (pl_user p)) = set (su_scopes current) \<and>
            (\<exists>rec. tokens (w_store w') (rt_id rec) = Some rec \<and> rt_revoked_at rec = None \<and>
               rt_grant_source rec = GrantStoredUser \<and> rt_user_id rec = su_id user \<and>
               rt_token_hash rec = hash_refresh_token E (pl_refresh_token p))"
proof -
  note srely = login_relyD(1) [OF rely]
  from run obtain permit w1 w2 user w3 w4 w5 current w6 sid fam where
    a: "reject_if_rate_limited E H (sv_rate_limit_store V) (rc_credential (cf_rate_limits (sv_config V)))
       (rate_limit_keys E PasswordLogin (Some princ) md) w = (Inr permit, w1)"
    and b: "find_user_principal H V princ w1 = (Inr (Some user), w2)" and en: "\<not> su_disabled user"
    and v: "verify_password_async H V password (su_password_hash user) w2 = (Inr (), w3)"
    and c: "clear_rate_limit_attempts H (sv_rate_limit_store V)
           (rc_credential (cf_rate_limits (sv_config V))) permit w3 = (Inr (), w4)"
    and f: "find_user H V (su_id user) w4 = (Inr (Some current), w5)"
    and cur: "su_id current = su_id user" "\<not> su_disabled current" "su_password_hash current = su_password_hash user"
    and i: "issue_auth_payload E H V
           \<lparr> au_user_id = su_id current, au_session_id = sid,
             au_roles = service_dedupe_stable (su_roles current),
             au_scopes = service_dedupe_stable (su_scopes current),
             au_session = SessionContext_for_auth_method Password,
             au_token_claims = AccessTokenMetadata_default
               \<lparr> md_session_family_id := Some (uuid_to_string E fam) \<rparr> \<rparr>
           fam md GrantStoredUser w6 = (Inr p, w')" and w6: "w_store w6 = w_store w5"
    by (rule login_Inr)
  have "ok (w_store w1)" using calm_ok [OF calm_reject_if_rate_limited [OF rely] w a] .
  then have "ok (w_store w2)" using calm_ok [OF calm_find_user_principal [OF rely] _ b] by blast
  then have "ok (w_store w3)" using calm_ok [OF calm_verify_password_async [OF srely] _ v] by blast
  then have "ok (w_store w4)" using calm_ok [OF calm_clear_rate_limit_attempts [OF rely] _ c] by blast
  then have "ok (w_store w5)" using calm_ok [OF calm_find_user [OF srely] _ f] by blast
  then have okw6: "ok (w_store w6)" using w6 by simp
  from issue_auth_payload_stored [OF laws S srely okw6 i] obtain rec
    where rec: "tokens (w_store w') (rt_id rec) = Some rec" "rt_revoked_at rec = None"
      "rt_grant_source rec = GrantStoredUser" "rt_user_id rec = su_id user"
      "rt_token_hash rec = hash_refresh_token E (pl_refresh_token p)"
    using cur by auto
  have "\<exists>st st'. find_user_by_principal (sv_user_store V) princ st = (Inr (Some user), st')"
    "\<exists>st st'. find_user_by_id (sv_user_store V) (su_id user) st = (Inr (Some current), st')"
    using b f by (auto simp: find_user_principal_def find_user_def store_call_eq)
  moreover have "au_user_id (pl_user p) = su_id user" "set (au_roles (pl_user p)) = set (su_roles current)"
    "set (au_scopes (pl_user p)) = set (su_scopes current)"
    using i cur by (auto elim!: issue_auth_payload_Inr [OF laws])
  ultimately show ?thesis
    using a b v c f en cur verify_password_async_Inr(1) [OF v] rec by blast
qed

lemma empty_rates_find:
  "rl_find idle_host (mem_rates 8) key \<lparr> w_store = demo_session_state rec, w_tick = n, w_fresh = k \<rparr> =
     (Inr None, \<lparr> w_store = demo_session_state rec, w_tick = Suc n, w_fresh = k \<rparr>)"
  by (simp add: rl_find_def store_call_def mem_rates_def on_rates_def MemoryAuthRateLimitStore_def
      memory_find_def with_lock_def demo_session_state_def MemoryState_default_def
      MemoryState_purge_expired_def idle_host_def)

lemma empty_rates_clear:
  "rl_clear idle_host (mem_rates 8) key None \<lparr> w_store = demo_session_state rec, w_tick = n, w_fresh = k \<rparr> =
     (Inr True, \<lparr> w_store = demo_session_state rec, w_tick = Suc n, w_fresh = k \<rparr>)"
  by (simp add: rl_clear_def store_call_def mem_rates_def on_rates_def MemoryAuthRateLimitStore_def
      memory_clear_def with_lock_def demo_session_state_def MemoryState_default_def
      MemoryState_purge_expired_def idle_host_def)

lemma empty_rates_observe:
  "observe_keys idle_host (mem_rates 8) now keys obs None None
     \<lparr> w_store = demo_session_state rec, w_tick = n, w_fresh = k \<rparr> =
   (Inr (obs @ map (\<lambda>key. \<lparr> ob_key = key, ob_revision = None \<rparr>) keys, None, None),
    \<lparr> w_store = demo_session_state rec, w_tick = n + length keys, w_fresh = k \<rparr>)"
  by (induction keys arbitrary: obs n) (simp_all add: ret_def bind_def empty_rates_find)

lemma empty_rates_reject:
  "\<exists>permit n'. (\<forall>ob \<in> set (pm_observations permit). ob_revision ob = None) \<and>
     reject_if_rate_limited std_ext idle_host (mem_rates 8) policy keys
       \<lparr> w_store = demo_session_state rec, w_tick = n, w_fresh = k \<rparr> =
     (Inr permit, \<lparr> w_store = demo_session_state rec, w_tick = n', w_fresh = k \<rparr>)"
  by (auto simp: reject_if_rate_limited_def bind_def now_from_def empty_rates_observe ret_def)

lemma empty_rates_clear_all:
  "\<forall>ob \<in> set obs. ob_revision ob = None \<Longrightarrow>
   for_each_m (\<lambda>ob. bind (rl_clear idle_host (mem_rates 8) (ob_key ob) (ob_revision ob)) (\<lambda>cleared. ret ())) obs
     \<lparr> w_store = demo_session_state rec, w_tick = n, w_fresh = k \<rparr> =
   (Inr (), \<lparr> w_store = demo_session_state rec, w_tick = n + length obs, w_fresh = k \<rparr>)"
  by (induction obs arbitrary: n) (simp_all add: ret_def bind_def empty_rates_clear)

lemma empty_rates_clear_permit:
  "\<forall>ob \<in> set (pm_observations permit). ob_revision ob = None \<Longrightarrow> \<exists>n'.
   clear_rate_limit_attempts idle_host (mem_rates 8) policy permit
     \<lparr> w_store = demo_session_state rec, w_tick = n, w_fresh = k \<rparr> =
   (Inr (), \<lparr> w_store = demo_session_state rec, w_tick = n', w_fresh = k \<rparr>)"
  by (auto simp: clear_rate_limit_attempts_def ret_def empty_rates_clear_all)

lemma demo_login_rely: "login_rely mst_tokens mst_ok idle_host demo_access_service"
proof -
  have "sv_rate_limit_store demo_access_service = mem_rates 8"
    by (simp add: demo_access_service_def demo_service_def)
  then show ?thesis
    using demo_rely
    by (auto simp: login_rely_def demo_access_service_simps mem_users_def on_users_def mem_rates_def
        on_rates_eq memory_find_user_by_principal_def mst_ok_def mst_tokens_def split: prod.splits)
qed

lemma demo_login:
  "\<exists>w'. login std_ext idle_host demo_access_service ''alice@example.org'' ''pw'' ClientMetadata_default
     \<lparr> w_store = demo_session_state demo_record, w_tick = 0, w_fresh = 5 \<rparr> = (Inr (payload_of demo_issued), w')"
proof -
  let ?w = "\<lambda>n k. \<lparr> w_store = demo_session_state demo_record, w_tick = n, w_fresh = k \<rparr> :: mem_state world"
  let ?policy = "rc_credential (cf_rate_limits demo_config)"
  let ?keys = "rate_limit_keys std_ext PasswordLogin (Some ''alice@example.org'') ClientMetadata_default"
  have S: "sv_rate_limit_store demo_access_service = mem_rates 8" "sv_password demo_access_service = demo_password"
    by (simp_all add: demo_access_service_def demo_service_def)
  obtain permit n1 where p: "\<forall>ob \<in> set (pm_observations permit). ob_revision ob = None"
    "reject_if_rate_limited std_ext idle_host (mem_rates 8) ?policy ?keys (?w 0 5) = (Inr permit, ?w n1 5)"
    using empty_rates_reject by blast
  have f: "find_user_principal idle_host demo_access_service ''alice@example.org'' (?w n k) =
      (Inr (Some demo_stored_user), ?w (Suc n) k)"
    "find_user idle_host demo_access_service ''alice'' (?w n k) = (Inr (Some demo_stored_user), ?w (Suc n) k)" for n k
    by (simp_all add: find_user_principal_def find_user_def store_call_def demo_access_service_simps mem_users_def
        on_users_def memory_find_user_by_principal_def memory_find_user_by_id_def demo_session_state_def idle_host_def)
  have v: "verify_password_async idle_host demo_access_service ''pw'' ''pw'' (?w n k) = (Inr (), ?w (Suc n) k)" for n k
    by (simp add: verify_password_async_def verify_password_async_before_def pool_execute_def verify_password_def
        S demo_password_def bind_def ret_def lift_res_def host_call_def store_call_def idle_host_def)
  obtain n2 where c: "clear_rate_limit_attempts idle_host (mem_rates 8) ?policy permit (?w (Suc (Suc n1)) 5) = (Inr (), ?w n2 5)"
    using empty_rates_clear_permit [OF p(1)] by blast
  have id6: "uuid_to_string std_ext 6 = ''uuuuuu''"
    by (simp add: std_ext_simps) (simp add: numeral_eq_Suc)
  have user: "\<lparr> au_user_id = ''alice'', au_session_id = 5, au_roles = service_dedupe_stable [''admin''],
      au_scopes = service_dedupe_stable [''read'', ''write''],
      au_session = SessionContext_for_auth_method Password,
      au_token_claims = AccessTokenMetadata_default \<lparr> md_session_family_id := Some ''uuuuuu'' \<rparr> \<rparr> =
      demo_user \<lparr> au_token_claims := (au_token_claims demo_user) \<lparr> md_grant_kind := None \<rparr> \<rparr>"
    by (simp add: demo_user_def service_dedupe_stable_def AccessTokenMetadata_default_def)
  have fresh: "h_uuid (idle_host :: mem_state host) 5 = 5" "h_uuid (idle_host :: mem_state host) 6 = 6"
    "h_clock (idle_host :: mem_state host) SystemClock n = 0" for n
    by (simp_all add: idle_host_def)
  have ins: "\<exists>w'. store_call idle_host (\<lambda>_. insert_refresh_token mem_refresh rec) w0 = (Inr (), w')" for rec w0
    by (simp add: store_call_def mem_refresh_def on_refresh_def memory_insert_refresh_token_def)
  have "\<exists>w'. issue_auth_payload std_ext idle_host demo_access_service
      (demo_user \<lparr> au_token_claims := (au_token_claims demo_user) \<lparr> md_grant_kind := None \<rparr> \<rparr>)
      6 ClientMetadata_default GrantStoredUser (?w (Suc n2) 7) = (Inr (payload_of demo_issued), w')"
  proof -
    obtain raw rec tok ex u where di: "demo_issued = (raw, rec, tok, ex, u)" by (cases demo_issued)
    obtain w' where "store_call idle_host (\<lambda>_. insert_refresh_token mem_refresh rec) (?w (Suc (Suc n2)) 10) = (Inr (), w')"
      using ins by blast
    with demo_issue_tokens [of None "demo_session_state demo_record" "Suc (Suc n2)"] show ?thesis
      by (simp add: di issue_auth_payload_def bind_def now_from_def fresh demo_access_service_simps ret_def
          payload_of_def)
  qed
  then show ?thesis
    using p(2) f v c user
    by (simp add: login_def Let_def S demo_access_service_simps bind_def try_catch_def lift_res_def require_def
        ret_def new_uuid_def fresh id6 demo_stored_user_def)
qed

lemma login_success_sound_witness:
  "\<exists>user :: StoredUser. au_user_id (pl_user (payload_of demo_issued)) = su_id user \<and> \<not> su_disabled user \<and>
     pw_verifies demo_password ''pw'' (su_password_hash user)"
proof -
  have ok: "mst_ok (w_store \<lparr> w_store = demo_session_state demo_record, w_tick = 0, w_fresh = 5 \<rparr>)"
    using demo_session_world_good [of demo_record] by (simp add: good_def demo_session_world_def demo_record_def)
  from demo_login obtain w' where run: "login std_ext idle_host demo_access_service ''alice@example.org'' ''pw''
      ClientMetadata_default \<lparr> w_store = demo_session_state demo_record, w_tick = 0, w_fresh = 5 \<rparr> =
      (Inr (payload_of demo_issued), w')" ..
  note sound = login_success_sound [OF std_ext_time_laws demo_contract demo_login_rely ok run]
  have pw: "sv_password demo_access_service = demo_password"
    by (simp add: demo_access_service_def demo_service_def)
  show ?thesis
    using sound unfolding pw by blast
qed

end
