(* ===== verification/Assurance.thy ===== *)
theory Assurance
  imports Session
begin

text \<open>
  The recent-MFA policies of \<open>src/assurance.rs\<close>: validated policy identifiers, denial codes, the
  client-safe evaluation, the projection of a session for clients, the policy evaluation itself
  and the host's policy set. The clock a caller injects is read once, so an evaluation takes its
  reading as an argument. Policies are shown to accept exactly the sessions of a declarative
  specification, and a step-up that happened between two whole seconds is shown never to be one.
\<close>

section \<open>Policy identifiers and requirements\<close>

definition MAX_ASSURANCE_POLICY_ID_LENGTH :: nat where "MAX_ASSURANCE_POLICY_ID_LENGTH = 128"

datatype AssurancePolicyId = AssurancePolicyId (policy_id_as_str: string)

datatype AssurancePolicyIdError = AssurancePolicyIdError

text \<open>The derived order of the newtype is the order of its string.\<close>

instantiation AssurancePolicyId :: linorder
begin

definition less_eq_AssurancePolicyId :: "AssurancePolicyId \<Rightarrow> AssurancePolicyId \<Rightarrow> bool" where
  "less_eq_AssurancePolicyId a b \<longleftrightarrow> policy_id_as_str a \<le> policy_id_as_str b"

definition less_AssurancePolicyId :: "AssurancePolicyId \<Rightarrow> AssurancePolicyId \<Rightarrow> bool" where
  "less_AssurancePolicyId a b \<longleftrightarrow> policy_id_as_str a < policy_id_as_str b"

instance
  by standard (auto simp: less_eq_AssurancePolicyId_def less_AssurancePolicyId_def AssurancePolicyId.expand)

end

definition policy_id_byte :: "char \<Rightarrow> bool" where
  "policy_id_byte b \<longleftrightarrow>
     is_ascii_alphanumeric b \<or> b \<in> {CHR ''-'', CHR ''_'', CHR ''.'', CHR '':'', CHR ''/''}"

definition AssurancePolicyId_new :: "string \<Rightarrow> AssurancePolicyIdError + AssurancePolicyId" where
  "AssurancePolicyId_new v =
     (if v = [] \<or> length v > MAX_ASSURANCE_POLICY_ID_LENGTH \<or> \<not> list_all policy_id_byte v
      then Inl AssurancePolicyIdError else Inr (AssurancePolicyId v))"

record AssuranceRequirement =
  rq_policy_id :: AssurancePolicyId

section \<open>Decisions\<close>

datatype AssuranceDenialCode =
    AssuranceRequired | MfaRequired | AssuranceMethodNotAllowed | InvalidAuthenticationTime
  | AuthenticationTooOld | AssurancePolicyError

datatype AssuranceMatchMode = MatchAll | MatchAny

fun denial_code_as_str :: "AssuranceDenialCode \<Rightarrow> string" where
  "denial_code_as_str AssuranceRequired = ''ASSURANCE_REQUIRED''"
| "denial_code_as_str MfaRequired = ''MFA_REQUIRED''"
| "denial_code_as_str AssuranceMethodNotAllowed = ''ASSURANCE_METHOD_NOT_ALLOWED''"
| "denial_code_as_str InvalidAuthenticationTime = ''INVALID_AUTHENTICATION_TIME''"
| "denial_code_as_str AuthenticationTooOld = ''AUTHENTICATION_TOO_OLD''"
| "denial_code_as_str AssurancePolicyError = ''ASSURANCE_POLICY_ERROR''"

fun denial_graphql_extension_code :: "AssuranceDenialCode \<Rightarrow> string" where
  "denial_graphql_extension_code AssurancePolicyError = ''FORBIDDEN''"
| "denial_graphql_extension_code _ = ''STEP_UP_REQUIRED''"

datatype AssuranceEvaluationState =
    Satisfied | Unauthenticated | StepUpRequired AssuranceDenialCode | EvalForbidden AssuranceDenialCode

fun state_graphql_extension_code :: "AssuranceEvaluationState \<Rightarrow> string option" where
  "state_graphql_extension_code Satisfied = None"
| "state_graphql_extension_code Unauthenticated = Some ''UNAUTHENTICATED''"
| "state_graphql_extension_code (StepUpRequired _) = Some ''STEP_UP_REQUIRED''"
| "state_graphql_extension_code (EvalForbidden _) = Some ''FORBIDDEN''"

fun state_denial_code :: "AssuranceEvaluationState \<Rightarrow> AssuranceDenialCode option" where
  "state_denial_code (StepUpRequired c) = Some c"
| "state_denial_code (EvalForbidden c) = Some c"
| "state_denial_code _ = None"

record AssuranceEvaluation =
  ev_requirement :: AssuranceRequirement
  ev_state :: AssuranceEvaluationState
  ev_server_evaluation_time :: time
  ev_authenticated_at :: "time option"
  ev_satisfied_until :: "time option"

definition evaluation_is_satisfied :: "AssuranceEvaluation \<Rightarrow> bool" where
  "evaluation_is_satisfied e \<longleftrightarrow> (case ev_state e of Satisfied \<Rightarrow> True | _ \<Rightarrow> False)"

record AssuranceDenial =
  dn_code :: AssuranceDenialCode
  dn_internal_detail :: string

definition denial_public_message :: "AssuranceDenial \<Rightarrow> string" where
  "denial_public_message d = ''additional authentication is required''"

definition AssuranceDenial_new :: "AssuranceDenialCode \<Rightarrow> string \<Rightarrow> AssuranceDenial" where
  "AssuranceDenial_new code detail = \<lparr> dn_code = code, dn_internal_detail = detail \<rparr>"

section \<open>The client's view of a session\<close>

record SessionAssuranceStatus =
  st_authenticated :: bool
  st_authenticated_at :: "time option"
  st_mfa_satisfied :: bool

definition SessionAssuranceStatus_from_user :: "ext \<Rightarrow> AuthUser option \<Rightarrow> SessionAssuranceStatus" where
  "SessionAssuranceStatus_from_user E user =
     (case user of
        None \<Rightarrow> \<lparr> st_authenticated = False, st_authenticated_at = None, st_mfa_satisfied = False \<rparr>
      | Some user \<Rightarrow>
          let assurance = filter_option (\<lambda>a.
                is_ok (SessionAssurance_validate a) \<and>
                md_auth_time (au_token_claims user) = Some (SessionAssurance_auth_time E a) \<and>
                md_amr (au_token_claims user) = Some (sa_methods a) \<and>
                md_acr (au_token_claims user) = sa_acr a) (sc_assurance (au_session user)) in
          \<lparr> st_authenticated = True,
            st_authenticated_at = map_option sa_authenticated_at assurance,
            st_mfa_satisfied = is_some_and (\<lambda>a. sa_mfa a = MfaSatisfied \<and>
               ms_satisfied (sc_mfa (au_session user))) assurance \<rparr>)"

section \<open>Recent-MFA policies\<close>

record RecentMfaPolicy =
  mp_maximum_age :: duration
  mp_clock_skew :: duration
  mp_allowed_amr :: "string list"
  mp_allowed_acr :: "string list"
  mp_match_mode :: AssuranceMatchMode

definition allowlists_match :: "RecentMfaPolicy \<Rightarrow> SessionAssurance \<Rightarrow> bool" where
  "allowlists_match P assurance \<longleftrightarrow>
     (let amr_configured = mp_allowed_amr P \<noteq> []; acr_configured = mp_allowed_acr P \<noteq> [];
          amr_matches = list_ex (\<lambda>m. list_ex (\<lambda>allowed. allowed = m) (mp_allowed_amr P)) (sa_methods assurance);
          acr_matches = is_some_and (\<lambda>acr. list_ex (\<lambda>allowed. allowed = acr) (mp_allowed_acr P)) (sa_acr assurance) in
      case mp_match_mode P of
        MatchAll \<Rightarrow> (\<not> amr_configured \<or> amr_matches) \<and> (\<not> acr_configured \<or> acr_matches)
      | MatchAny \<Rightarrow> (\<not> amr_configured \<and> \<not> acr_configured) \<or> (amr_configured \<and> amr_matches) \<or>
                   (acr_configured \<and> acr_matches))"

definition policy_evaluate_at ::
  "ext \<Rightarrow> RecentMfaPolicy \<Rightarrow> AuthUser \<Rightarrow> time \<Rightarrow> AssuranceDenial + time \<times> time" where
  "policy_evaluate_at E P user now =
     bind_res (reject_when (mp_maximum_age P < 0 \<or> mp_clock_skew P < 0)
       (AssuranceDenial_new AssurancePolicyError ''maximum_age and clock_skew must be non-negative'')) (\<lambda>_.
     bind_res (ok_or (AssuranceDenial_new AssuranceRequired ''session assurance missing'')
       (sc_assurance (au_session user))) (\<lambda>assurance.
     bind_res (map_err (\<lambda>e. AssuranceDenial_new AssuranceRequired (assurance_error_text e))
       (SessionAssurance_validate assurance)) (\<lambda>_.
     bind_res (reject_when (sa_mfa assurance \<noteq> MfaSatisfied \<or> \<not> ms_satisfied (sc_mfa (au_session user)))
       (AssuranceDenial_new MfaRequired ''host MFA acceptance is unsatisfied'')) (\<lambda>_.
     bind_res (reject_when (\<not> allowlists_match P assurance)
       (AssuranceDenial_new AssuranceMethodNotAllowed
          ''session AMR/ACR did not satisfy the configured allowlists'')) (\<lambda>_.
     bind_res (ok_or (AssuranceDenial_new AssuranceRequired ''access token auth_time is missing'')
       (md_auth_time (au_token_claims user))) (\<lambda>token_auth_time.
     bind_res (ok_or (AssuranceDenial_new InvalidAuthenticationTime
          ''access token auth_time is outside supported bounds'')
       (from_unix_timestamp E token_auth_time)) (\<lambda>token_authenticated_at.
     bind_res (reject_when
       (token_authenticated_at \<noteq> sa_authenticated_at assurance \<or>
        md_amr (au_token_claims user) \<noteq> Some (sa_methods assurance) \<or>
        md_acr (au_token_claims user) \<noteq> sa_acr assurance)
       (AssuranceDenial_new AssuranceRequired
          ''access-token assurance claims do not match authoritative session assurance'')) (\<lambda>_.
     bind_res (ok_or (AssuranceDenial_new AssurancePolicyError ''future-skew calculation overflowed'')
       (time_checked_add E now (mp_clock_skew P))) (\<lambda>latest.
     bind_res (reject_when (token_authenticated_at > latest)
       (AssuranceDenial_new InvalidAuthenticationTime ''auth_time is beyond allowed future clock skew'')) (\<lambda>_.
     bind_res (ok_or (AssuranceDenial_new AssurancePolicyError ''maximum-age calculation overflowed'')
       (time_checked_sub E now (mp_maximum_age P))) (\<lambda>oldest.
     bind_res (reject_when (token_authenticated_at < oldest)
       (AssuranceDenial_new AuthenticationTooOld ''auth_time exceeds maximum authentication age'')) (\<lambda>_.
     bind_res (ok_or (AssuranceDenial_new AssurancePolicyError ''satisfied-until calculation overflowed'')
       (time_checked_add E token_authenticated_at (mp_maximum_age P))) (\<lambda>satisfied_until.
       Inr (token_authenticated_at, satisfied_until))))))))))))))"

definition policy_evaluate :: "ext \<Rightarrow> RecentMfaPolicy \<Rightarrow> AuthUser \<Rightarrow> time \<Rightarrow> AssuranceDenial + unit" where
  "policy_evaluate E P user clock_now = bind_res (policy_evaluate_at E P user clock_now) (\<lambda>_. Inr ())"

definition evaluate_requirement ::
  "ext \<Rightarrow> RecentMfaPolicy \<Rightarrow> AssuranceRequirement \<Rightarrow> AuthUser option \<Rightarrow> time \<Rightarrow> AssuranceEvaluation" where
  "evaluate_requirement E P requirement user now =
     (case user of
        None \<Rightarrow> \<lparr> ev_requirement = requirement, ev_state = Unauthenticated,
                  ev_server_evaluation_time = now, ev_authenticated_at = None, ev_satisfied_until = None \<rparr>
      | Some user \<Rightarrow>
          (case policy_evaluate_at E P user now of
             Inr (authenticated_at, satisfied_until) \<Rightarrow>
               \<lparr> ev_requirement = requirement, ev_state = Satisfied, ev_server_evaluation_time = now,
                 ev_authenticated_at = Some authenticated_at, ev_satisfied_until = Some satisfied_until \<rparr>
           | Inl denial \<Rightarrow>
               \<lparr> ev_requirement = requirement,
                 ev_state = (if denial_graphql_extension_code (dn_code denial) = ''FORBIDDEN''
                             then EvalForbidden (dn_code denial) else StepUpRequired (dn_code denial)),
                 ev_server_evaluation_time = now, ev_authenticated_at = None, ev_satisfied_until = None \<rparr>))"

type_synonym AssurancePolicySet = "(AssurancePolicyId \<times> RecentMfaPolicy) list"

definition policy_set_insert ::
  "AssurancePolicySet \<Rightarrow> AssurancePolicyId \<Rightarrow> RecentMfaPolicy \<Rightarrow> RecentMfaPolicy option \<times> AssurancePolicySet" where
  "policy_set_insert S i P = (map_of S i, btm_insert i P S)"

definition policy_set_get :: "AssurancePolicySet \<Rightarrow> AssurancePolicyId \<Rightarrow> RecentMfaPolicy option" where
  "policy_set_get S i = map_of S i"

definition policy_set_evaluate ::
  "ext \<Rightarrow> AssurancePolicySet \<Rightarrow> AssuranceRequirement \<Rightarrow> AuthUser option \<Rightarrow> time \<Rightarrow> AssuranceEvaluation" where
  "policy_set_evaluate E S requirement user clock_now =
     (case policy_set_get S (rq_policy_id requirement) of
        None \<Rightarrow> \<lparr> ev_requirement = requirement, ev_state = EvalForbidden AssurancePolicyError,
                  ev_server_evaluation_time = clock_now, ev_authenticated_at = None,
                  ev_satisfied_until = None \<rparr>
      | Some P \<Rightarrow> evaluate_requirement E P requirement user clock_now)"

section \<open>What a policy accepts\<close>

text \<open>The part of a policy that does not look at the clock: a valid, MFA-accepting assurance that
  the allowlists admit and the signed claims repeat.\<close>

definition assured_at :: "ext \<Rightarrow> RecentMfaPolicy \<Rightarrow> AuthUser \<Rightarrow> time \<Rightarrow> bool" where
  "assured_at E P user t \<longleftrightarrow>
     (\<exists>a s. sc_assurance (au_session user) = Some a \<and> SessionAssurance_validate a = Inr () \<and>
        sa_mfa a = MfaSatisfied \<and> ms_satisfied (sc_mfa (au_session user)) \<and> allowlists_match P a \<and>
        md_auth_time (au_token_claims user) = Some s \<and> from_unix_timestamp E s = Some t \<and>
        sa_authenticated_at a = t \<and> md_amr (au_token_claims user) = Some (sa_methods a) \<and>
        md_acr (au_token_claims user) = sa_acr a)"

lemma policy_evaluate_at_Inr:
  assumes "time_laws E"
  shows "policy_evaluate_at E P user now = Inr (t, until) \<longleftrightarrow>
     0 \<le> mp_maximum_age P \<and> 0 \<le> mp_clock_skew P \<and> assured_at E P user t \<and>
     time_checked_add E now (mp_clock_skew P) \<noteq> None \<and> t \<le> now + mp_clock_skew P \<and>
     time_checked_sub E now (mp_maximum_age P) \<noteq> None \<and> now - mp_maximum_age P \<le> t \<and>
     time_checked_add E t (mp_maximum_age P) = Some until"
  using time_lawsD(1,2) [OF assms]
  by (auto simp: policy_evaluate_at_def assured_at_def res_simps not_less)

lemma allowlists_match_amr:
  assumes "allowlists_match P a" and "mp_match_mode P = MatchAll" and "mp_allowed_amr P \<noteq> []"
  shows "set (sa_methods a) \<inter> set (mp_allowed_amr P) \<noteq> {}"
  using assms by (auto simp: allowlists_match_def Let_def list_ex_iff)

text \<open>A satisfied recent-MFA evaluation names its exact validity: the session carries a valid
  MFA-accepting assurance whose time and methods the signed claims repeat, the authentication is
  neither older than the maximum age nor further ahead than the skew, and for every later clock
  reading the same evaluation is given up to and including \<open>satisfied_until\<close> and refused with the
  stable code for stale authentication after it.\<close>

theorem satisfied_until_exact:
  assumes laws: "time_laws E" and now: "policy_evaluate_at E P user now = Inr (t, until)"
    and later: "now \<le> now'"
    and range: "time_checked_add E now' (mp_clock_skew P) \<noteq> None"
      "time_checked_sub E now' (mp_maximum_age P) \<noteq> None"
  shows "assured_at E P user t \<and> now - mp_maximum_age P \<le> t \<and> t \<le> now + mp_clock_skew P \<and>
         until = t + mp_maximum_age P \<and>
         (if now' \<le> until then policy_evaluate_at E P user now' = Inr (t, until)
          else \<exists>d. policy_evaluate_at E P user now' = Inl d \<and> dn_code d = AuthenticationTooOld)"
proof -
  note I = policy_evaluate_at_Inr [OF laws]
  note A = time_lawsD(1,2) [OF laws]
  from now have P: "0 \<le> mp_maximum_age P" "0 \<le> mp_clock_skew P" "assured_at E P user t"
    "t \<le> now + mp_clock_skew P" "now - mp_maximum_age P \<le> t"
    "time_checked_add E t (mp_maximum_age P) = Some until" by (simp_all add: I)
  then have until: "until = t + mp_maximum_age P" using A by blast
  have "policy_evaluate_at E P user now' = Inr (t, until)" if "now' \<le> until"
    using that P until later range by (simp add: I)
  moreover have "\<exists>d. policy_evaluate_at E P user now' = Inl d \<and> dn_code d = AuthenticationTooOld"
    if "\<not> now' \<le> until"
  proof -
    obtain l m where lm: "time_checked_add E now' (mp_clock_skew P) = Some l"
      "time_checked_sub E now' (mp_maximum_age P) = Some m" using range by blast
    then have "l = now' + mp_clock_skew P" "m = now' - mp_maximum_age P" using A by blast+
    then show ?thesis
      using P(1-5) lm later that until
      by (auto simp: policy_evaluate_at_def assured_at_def AssuranceDenial_new_def)
  qed
  ultimately show ?thesis using P until by auto
qed

section \<open>Step-up between two whole seconds\<close>

lemma SessionAssurance_new_ok:
  assumes "SessionAssurance_new at ms acr ctxt mfa = Inr a"
  shows "sa_authenticated_at a = at" "sa_mfa a = mfa" "SessionAssurance_validate a = Inr ()"
proof -
  from assms obtain r where r: "normalize_methods ms = Inr r" "a = \<lparr> sa_authenticated_at = at,
      sa_methods = r, sa_acr = acr, sa_context = ctxt, sa_mfa = mfa \<rparr>"
    "validate_optional_value ''acr'' acr = Inr ()" "validate_optional_value ''context'' ctxt = Inr ()"
    by (auto simp: SessionAssurance_new_def res_simps)
  then have "normalize_methods r = Inr r" "length r \<le> MAX_ASSURANCE_METHODS"
    using normalize_methods_Inr [OF r(1)] normalize_methods_id by auto
  with r show "sa_authenticated_at a = at" "sa_mfa a = mfa" "SessionAssurance_validate a = Inr ()"
    by (simp_all add: SessionAssurance_validate_def)
qed

text \<open>The user of a session token issued after a step-up, as the rotation builds it.\<close>

definition stepped_up :: "ext \<Rightarrow> AuthUser \<Rightarrow> uuid \<Rightarrow> RefreshableTokenMetadata \<Rightarrow> SessionAssurance \<Rightarrow> AuthUser" where
  "stepped_up E user fam metadata a =
     (let session = SessionContext_with_assurance (au_session user) a in
      user \<lparr> au_session := session, au_token_claims := session_claims E fam metadata session \<rparr>)"

text \<open>C35: A step-up whose clock reading is not a whole second is recorded with its sub-second
  part, while the signed claim keeps whole seconds. The client's status of the issued session
  then reports satisfied MFA at that time, yet no recent-MFA policy accepts the session at any
  later moment.\<close>

theorem subsecond_step_up_denied:
  assumes laws: "time_laws E" and a: "SessionAssurance_new t methods acr ctxt MfaSatisfied = Inr a"
    and sub: "t mod seconds 1 \<noteq> 0"
  shows "SessionAssuranceStatus_from_user E (Some (stepped_up E user fam metadata a)) =
           \<lparr> st_authenticated = True, st_authenticated_at = Some t, st_mfa_satisfied = True \<rparr> \<and>
         (\<forall>P now. \<exists>d. policy_evaluate_at E P (stepped_up E user fam metadata a) now = Inl d)"
proof
  have a': "sa_authenticated_at a = t" "sa_mfa a = MfaSatisfied" "SessionAssurance_validate a = Inr ()"
    using SessionAssurance_new_ok [OF a] by simp_all
  show "SessionAssuranceStatus_from_user E (Some (stepped_up E user fam metadata a)) =
      \<lparr> st_authenticated = True, st_authenticated_at = Some t, st_mfa_satisfied = True \<rparr>"
    using a' by (simp add: SessionAssuranceStatus_from_user_def stepped_up_def Let_def session_claims_def
        SessionContext_with_assurance_def filter_option_def SessionAssurance_mfa_state_def)
  have "\<not> assured_at E P (stepped_up E user fam metadata a) t'" for P t'
  proof
    assume "assured_at E P (stepped_up E user fam metadata a) t'"
    then obtain s where "from_unix_timestamp E s = Some t"
      using a'(1) by (auto simp: assured_at_def stepped_up_def Let_def SessionContext_with_assurance_def)
    then have "t = seconds s" by (rule time_lawsD(4) [OF laws])
    with sub show False by (simp add: seconds_def)
  qed
  then show "\<forall>P now. \<exists>d. policy_evaluate_at E P (stepped_up E user fam metadata a) now = Inl d"
    using policy_evaluate_at_Inr [OF laws] by (metis old.sum.exhaust surj_pair)
qed

definition demo_assurance :: "time \<Rightarrow> SessionAssurance" where
  "demo_assurance t = \<lparr> sa_authenticated_at = t, sa_methods = [''otp''], sa_acr = None,
     sa_context = None, sa_mfa = MfaSatisfied \<rparr>"

lemma demo_assurance_new: "SessionAssurance_new t [''otp''] None None MfaSatisfied = Inr (demo_assurance t)"
proof -
  have "trim ''otp'' = ''otp''" by (simp add: trim_graphic is_ascii_graphic_def ord_def)
  then have "normalize_methods [''otp''] = Inr [''otp'']"
    by (simp add: normalize_methods_id normal_method_def MAX_ASSURANCE_METHODS_def
        MAX_ASSURANCE_METHOD_LENGTH_def to_ascii_lowercase_def to_lower_def is_ascii_upper_def ord_def)
  then show ?thesis
    by (simp add: SessionAssurance_new_def validate_optional_value_def demo_assurance_def)
qed

definition demo_policy :: RecentMfaPolicy where
  "demo_policy = \<lparr> mp_maximum_age = seconds 300, mp_clock_skew = seconds 5, mp_allowed_amr = [''otp''],
     mp_allowed_acr = [], mp_match_mode = MatchAll \<rparr>"

definition demo_stepped_up :: AuthUser where
  "demo_stepped_up = stepped_up std_ext demo_user 7 RefreshableTokenMetadata_default (demo_assurance (seconds 1000))"

lemma demo_policy_ok:
  "policy_evaluate_at std_ext demo_policy demo_stepped_up (seconds 1010) = Inr (seconds 1000, seconds 1300)"
  unfolding policy_evaluate_at_Inr [OF std_ext_time_laws]
  using SessionAssurance_new_ok(3) [OF demo_assurance_new, of "seconds 1000"]
  by (simp add: assured_at_def demo_policy_def demo_stepped_up_def stepped_up_def Let_def demo_assurance_def
      SessionContext_with_assurance_def SessionAssurance_mfa_state_def session_claims_def
      allowlists_match_def SessionAssurance_auth_time_def std_ext_simps seconds_def in_time_range_def
      MIN_TIME_def MAX_TIME_def)

lemma satisfied_until_exact_witness:
  "policy_evaluate_at std_ext demo_policy demo_stepped_up (seconds 1300) = Inr (seconds 1000, seconds 1300) \<and>
   (\<exists>d. policy_evaluate_at std_ext demo_policy demo_stepped_up (seconds 1301) = Inl d \<and>
      dn_code d = AuthenticationTooOld)"
  using satisfied_until_exact [OF std_ext_time_laws demo_policy_ok, of "seconds 1300"]
    satisfied_until_exact [OF std_ext_time_laws demo_policy_ok, of "seconds 1301"]
  by (simp add: demo_policy_def std_ext_simps seconds_def in_time_range_def MIN_TIME_def MAX_TIME_def)

lemma subsecond_step_up_denied_witness:
  "\<exists>d. policy_evaluate_at std_ext demo_policy
     (stepped_up std_ext demo_user 7 RefreshableTokenMetadata_default (demo_assurance 1000123456789))
     (seconds 1010) = Inl d"
  using subsecond_step_up_denied [OF std_ext_time_laws demo_assurance_new, of 1000123456789]
  by (simp add: seconds_def)

end
