(* ===== verification/Delegation.thy ===== *)
theory Delegation
  imports Assurance
begin

text \<open>
  Access tokens without a refresh token: the requests and grants of \<open>src/grant.rs\<close>, their issuance
  by \<open>src/service.rs\<close>, the fixed-audience facade of \<open>src/service/fixed_audience.rs\<close> and the
  purpose-bound grant references of \<open>src/purpose_grant.rs\<close>. A delegated token is shown to stay
  within the session it was delegated from, and a token of the fixed audience is shown to be of
  no use at the normal audience.
\<close>

section \<open>Requests and grants (grant.rs)\<close>

record AccessTokenOnlyRequest =
  ao_user_id :: string
  ao_roles :: "string list"
  ao_scopes :: "string list"
  ao_session :: SessionContext
  ao_ttl :: "duration option"
  ao_tenant_id :: "string option"
  ao_organization_id :: "string option"
  ao_session_family_id :: "string option"
  ao_actor :: "ActorIdentity option"
  ao_auth_time :: "int option"
  ao_amr :: "string list option"
  ao_acr :: "string option"
  ao_cnf :: "ConfirmationClaims option"
  ao_resource_type :: "string option"
  ao_resource_id :: "string option"
  ao_correlation_id :: "string option"
  ao_additional_claims :: "(string \<times> JsonValue) list"

definition AccessTokenOnlyRequest_new ::
  "string \<Rightarrow> string list \<Rightarrow> string list \<Rightarrow> SessionContext \<Rightarrow> AccessTokenOnlyRequest" where
  "AccessTokenOnlyRequest_new user_id roles scopes session =
     \<lparr> ao_user_id = user_id, ao_roles = roles, ao_scopes = scopes, ao_session = session, ao_ttl = None,
       ao_tenant_id = None, ao_organization_id = None, ao_session_family_id = None, ao_actor = None,
       ao_auth_time = None, ao_amr = None, ao_acr = None, ao_cnf = None, ao_resource_type = None,
       ao_resource_id = None, ao_correlation_id = None, ao_additional_claims = [] \<rparr>"

definition only_with_claim :: "string \<Rightarrow> JsonValue \<Rightarrow> AccessTokenOnlyRequest \<Rightarrow> AccessTokenOnlyRequest" where
  "only_with_claim k v r = r \<lparr> ao_additional_claims := btm_insert k v (ao_additional_claims r) \<rparr>"

record SessionBoundDelegationBinding =
  bd_actor :: ActorIdentity
  bd_resource_type :: string
  bd_resource_id :: string
  bd_correlation_id :: string
  bd_operation :: ExactOperationBinding

record SessionBoundAccessTokenOnlyRequest =
  sb_reference :: PrincipalReference
  sb_roles :: "string list"
  sb_scopes :: "string list"
  sb_binding :: SessionBoundDelegationBinding
  sb_ttl :: "duration option"
  sb_cnf :: "ConfirmationClaims option"
  sb_additional_claims :: "(string \<times> JsonValue) list"
  sb_fixed_audience :: "string option"

definition from_prepared_reference ::
  "PrincipalReference \<Rightarrow> string list \<Rightarrow> string list \<Rightarrow> SessionBoundDelegationBinding \<Rightarrow>
   SessionBoundAccessTokenOnlyRequest" where
  "from_prepared_reference reference roles scopes binding =
     \<lparr> sb_reference = reference, sb_roles = dedupe_from {} roles, sb_scopes = dedupe_from {} scopes,
       sb_binding = binding, sb_ttl = None, sb_cnf = None, sb_additional_claims = [],
       sb_fixed_audience = None \<rparr>"

definition bound_with_ttl ::
  "duration \<Rightarrow> SessionBoundAccessTokenOnlyRequest \<Rightarrow> SessionBoundAccessTokenOnlyRequest" where
  "bound_with_ttl ttl r = r \<lparr> sb_ttl := Some ttl \<rparr>"

definition bound_with_confirmation ::
  "ConfirmationClaims \<Rightarrow> SessionBoundAccessTokenOnlyRequest \<Rightarrow> SessionBoundAccessTokenOnlyRequest" where
  "bound_with_confirmation cnf r = r \<lparr> sb_cnf := Some cnf \<rparr>"

definition bound_with_claim ::
  "string \<Rightarrow> JsonValue \<Rightarrow> SessionBoundAccessTokenOnlyRequest \<Rightarrow> SessionBoundAccessTokenOnlyRequest" where
  "bound_with_claim k v r = r \<lparr> sb_additional_claims := btm_insert k v (sb_additional_claims r) \<rparr>"

record AccessTokenOnlyGrant =
  gr_access_token :: string
  gr_access_token_expires_at :: time
  gr_user :: AuthUser

section \<open>Validation of requests (service.rs)\<close>

definition RESERVED_ACCESS_TOKEN_CLAIMS :: "string list" where
  "RESERVED_ACCESS_TOKEN_CLAIMS =
     [''typ'', ''token_type'', ''token_kind'', ''grant_kind'', ''sub'', ''subject'', ''subject_id'',
      ''user_id'', ''sid'', ''session_id'', ''session_version'', ''security_version'', ''roles'',
      ''role'', ''authorization_roles'', ''scope'', ''scopes'', ''ctx'', ''purpose'', ''iss'', ''aud'',
      ''audience'', ''exp'', ''expires_at'', ''iat'', ''issued_at'', ''nbf'', ''jti'', ''token_id'',
      ''tenant_id'', ''tenant'', ''tenantid'', ''organization_id'', ''session_family_id'', ''actor'',
      ''act'', ''azp'', ''authorized_party'', ''auth_time'', ''authentication_time'', ''amr'', ''acr'',
      ''cnf'', ''resource'', ''resource_type'', ''resource_id'', ''correlation_id'', ''correlationid'',
      ''operation'', ''operation_name'', ''operation_hash'', ''document_sha256'']"

definition is_reserved_access_token_claim :: "string \<Rightarrow> bool" where
  "is_reserved_access_token_claim key \<longleftrightarrow>
     list_ex (\<lambda>reserved. eq_ignore_ascii_case key reserved) RESERVED_ACCESS_TOKEN_CLAIMS"

definition valid_delegation_binding_value :: "string \<Rightarrow> bool" where
  "valid_delegation_binding_value v \<longleftrightarrow> \<not> blank v \<and> length v \<le> 1024"

definition validate_access_token_ttl_and_claims ::
  "duration option \<Rightarrow> (string \<times> JsonValue) list \<Rightarrow> AuthConfig \<Rightarrow> unit AuthResult" where
  "validate_access_token_ttl_and_claims ttl additional_claims config =
     bind_res (case ttl of
         None \<Rightarrow> Inr ()
       | Some ttl \<Rightarrow>
           bind_res (reject_when (ttl \<le> 0)
             (InvalidConfiguration ''access-token-only ttl must be greater than zero'')) (\<lambda>_.
           reject_when (ttl > cf_max_access_token_ttl config)
             (InvalidConfiguration ''access-token-only ttl exceeds configured maximum''))) (\<lambda>_.
     for_each (\<lambda>key. reject_when (blank key \<or> is_reserved_access_token_claim key)
       (InvalidConfiguration (''access-token-only custom claim '' @ [CHR 0x27] @ key @ [CHR 0x27] @
          '' is reserved''))) (map fst additional_claims))"

definition validate_access_token_only_common ::
  "string \<Rightarrow> duration option \<Rightarrow> (string \<times> JsonValue) list \<Rightarrow> AuthConfig \<Rightarrow> unit AuthResult" where
  "validate_access_token_only_common user_id ttl additional_claims config =
     bind_res (reject_when (blank user_id)
       (InvalidConfiguration ''access-token-only user_id must not be empty'')) (\<lambda>_.
       validate_access_token_ttl_and_claims ttl additional_claims config)"

definition validate_access_token_only_request :: "AccessTokenOnlyRequest \<Rightarrow> AuthConfig \<Rightarrow> unit AuthResult" where
  "validate_access_token_only_request request config =
     validate_access_token_only_common (ao_user_id request) (ao_ttl request)
       (ao_additional_claims request) config"

definition validate_session_bound_access_token_only_request ::
  "SessionBoundAccessTokenOnlyRequest \<Rightarrow> AuthConfig \<Rightarrow> unit AuthResult" where
  "validate_session_bound_access_token_only_request request config =
     bind_res (validate_access_token_ttl_and_claims (sb_ttl request) (sb_additional_claims request) config) (\<lambda>_.
     bind_res (reject_when (pf_kind (sb_reference request) \<noteq> RefUserSession \<or>
                 restricted_grant (pf_grant_kind (sb_reference request))) Forbidden) (\<lambda>_.
     bind_res (reject_when (\<not> valid_delegation_binding_value (ai_sub (bd_actor (sb_binding request))))
       (InvalidConfiguration ''session-bound access-token-only actor subject must not be empty'')) (\<lambda>_.
     bind_res (reject_when (is_some_and (\<lambda>c. cc_x5t_s256 c = None \<and> cc_jkt c = None) (sb_cnf request))
       (InvalidConfiguration ''session-bound access-token-only confirmation must contain a binding'')) (\<lambda>_.
     bind_res (reject_when (\<not> valid_delegation_binding_value (bd_resource_type (sb_binding request)) \<or>
                 \<not> valid_delegation_binding_value (bd_resource_id (sb_binding request)))
       (InvalidConfiguration
          ''session-bound access-token-only resource binding must contain a bounded type and id'')) (\<lambda>_.
     bind_res (reject_when (\<not> valid_delegation_binding_value (bd_correlation_id (sb_binding request)))
       (InvalidConfiguration ''session-bound access-token-only correlation_id must not be empty'')) (\<lambda>_.
     reject_when (\<not> valid_delegation_binding_value (eo_operation_name (bd_operation (sb_binding request))) \<or>
                  \<not> valid_delegation_binding_value (eo_document_sha256 (bd_operation (sb_binding request))))
       (InvalidConfiguration ''session-bound access-token-only exact operation binding is invalid'')))))))"

section \<open>Issuance (service.rs)\<close>

definition issue_access_token_only ::
  "ext \<Rightarrow> 'st host \<Rightarrow> 'st AuthService \<Rightarrow> AccessTokenOnlyRequest \<Rightarrow> ('st, AccessTokenOnlyGrant) action" where
  "issue_access_token_only E H V request =
     bind (lift_res (validate_access_token_only_request request (sv_config V))) (\<lambda>_.
     bind (now_from H SystemClock) (\<lambda>now.
     let ttl = (case ao_ttl request of None \<Rightarrow> cf_access_token_ttl (sv_config V) | Some t \<Rightarrow> t) in
     bind (require (\<not> ttl \<le> 0)
       (InvalidConfiguration ''access-token-only ttl must be greater than zero'')) (\<lambda>_.
     bind (require (\<not> ttl > cf_max_access_token_ttl (sv_config V))
       (InvalidConfiguration ''access-token-only ttl exceeds configured maximum'')) (\<lambda>_.
     bind (new_uuid H) (\<lambda>jti.
     bind (new_uuid H) (\<lambda>session_id.
     let auth_user =
       \<lparr> au_user_id = ao_user_id request, au_session_id = session_id,
         au_roles = service_dedupe_stable (ao_roles request),
         au_scopes = service_dedupe_stable (ao_scopes request), au_session = ao_session request,
         au_token_claims =
           \<lparr> md_jti = Some (uuid_to_string E jti), md_tenant_id = ao_tenant_id request,
             md_organization_id = ao_organization_id request,
             md_session_family_id = ao_session_family_id request,
             md_grant_kind = Some Sessionless, md_session_version = None, md_actor = ao_actor request,
             md_auth_time = ao_auth_time request, md_amr = ao_amr request, md_acr = ao_acr request,
             md_cnf = ao_cnf request, md_resource_type = ao_resource_type request,
             md_resource_id = ao_resource_id request, md_correlation_id = ao_correlation_id request,
             md_operation = None, md_authorization_roles = [],
             md_purpose = Some ACCESS_TOKEN_PURPOSE, md_expires_at = None,
             md_additional = ao_additional_claims request \<rparr> \<rparr> in
     bind (lift_res (checked_jwt_expiry E now ttl ''access-token-only ttl'')) (\<lambda>access_token_expires_at.
     bind (issue_access_token_with_user E H V auth_user now access_token_expires_at) (\<lambda>(access_token, user).
       ret \<lparr> gr_access_token = access_token, gr_access_token_expires_at = access_token_expires_at,
             gr_user = user \<rparr>))))))))"

definition validate_session_bound_current_authority ::
  "'st AuthService \<Rightarrow> AuthUser \<Rightarrow> SessionBoundAccessTokenOnlyRequest \<Rightarrow> unit AuthResult" where
  "validate_session_bound_current_authority V current request =
     (let claims = au_token_claims current; binding = sb_binding request in
      reject_when (list_ex (\<lambda>role. role \<notin> set (au_roles current)) (sb_roles request) \<or>
          list_ex (\<lambda>scope. \<not> sm_has_scope (sv_scope_matcher V) (au_scopes current) scope) (sb_scopes request) \<or>
          is_some_and (\<lambda>actor. actor \<noteq> bd_actor binding) (md_actor claims) \<or>
          is_some_and (\<lambda>confirmation. sb_cnf request \<noteq> Some confirmation) (md_cnf claims) \<or>
          is_some_and (\<lambda>resource_type. resource_type \<noteq> bd_resource_type binding) (md_resource_type claims) \<or>
          is_some_and (\<lambda>resource_id. resource_id \<noteq> bd_resource_id binding) (md_resource_id claims))
        Forbidden)"

definition require_enabled_delegation_parent ::
  "'st host \<Rightarrow> 'st AuthService \<Rightarrow> string \<Rightarrow> ('st, unit) action" where
  "require_enabled_delegation_parent H V subject =
     bind (find_user H V subject) (\<lambda>found.
     bind (lift_res (ok_or Forbidden found)) (\<lambda>user.
     bind (require (\<not> su_id user \<noteq> subject) AuthServiceUnavailable) (\<lambda>_.
       require (\<not> su_disabled user) UserDisabled)))"

definition MISSING_RESOLVER :: AuthError where
  "MISSING_RESOLVER =
     InvalidConfiguration ''session-bound delegation requires an active-user-session resolver''"

definition resolve_active_user_session ::
  "'st host \<Rightarrow> 'st AuthService \<Rightarrow> PrincipalReference \<Rightarrow> ('st, VerifiedActiveUserSession) action" where
  "resolve_active_user_session H V reference =
     bind (lift_res (ok_or MISSING_RESOLVER (sv_active_user_session_resolver V))) (\<lambda>resolver.
       host_call H (resolver reference))"

definition prepare_session_bound_access_token_only ::
  "'st host \<Rightarrow> 'st AuthService \<Rightarrow> ResolvedPrincipal \<Rightarrow> string list \<Rightarrow> string list \<Rightarrow>
   SessionBoundDelegationBinding \<Rightarrow> ('st, SessionBoundAccessTokenOnlyRequest) action" where
  "prepare_session_bound_access_token_only H V resolved roles scopes binding =
     (case rv_principal resolved of
        ApiToken _ \<Rightarrow> throw Forbidden
      | User source_user \<Rightarrow>
          let source_reference = rv_reference resolved in
          bind (require (\<not> (pf_kind source_reference \<noteq> RefUserSession \<or>
                   restricted_grant (pf_grant_kind source_reference) \<or>
                   restricted_grant (md_grant_kind (au_token_claims source_user)))) Forbidden) (\<lambda>_.
          bind (resolve_active_user_session H V source_reference) (\<lambda>verified.
          bind (require (\<not> vs_reference verified \<noteq> source_reference) Forbidden) (\<lambda>_.
          let prepared_reference = source_reference
                \<lparr> pf_grant_kind := Some UserSession,
                  pf_session_version := Some (vs_session_version verified) \<rparr>;
              request = from_prepared_reference prepared_reference roles scopes binding in
          bind (lift_res (validate_session_bound_access_token_only_request request (sv_config V))) (\<lambda>_.
          bind (lift_res (validate_session_bound_current_authority V (vs_user verified) request)) (\<lambda>_.
            ret request))))))"




section \<open>The fixed-audience facade (service/fixed\_audience.rs)\<close>


text \<open>\<open>fd_owner\<close> is what upgrading the weak reference yields at a call: the owner while it is
  shared, nothing after its last holder has dropped it.\<close>

record 'st FixedAudienceDelegation =
  fd_owner :: "'st AuthService option"
  fd_audience :: string


definition facade_owner :: "'st FixedAudienceDelegation \<Rightarrow> 'st AuthService AuthResult" where
  "facade_owner F = ok_or AuthServiceUnavailable (fd_owner F)"

definition facade_prepare ::
  "'st host \<Rightarrow> 'st FixedAudienceDelegation \<Rightarrow> ResolvedPrincipal \<Rightarrow> string list \<Rightarrow> string list \<Rightarrow>
   SessionBoundDelegationBinding \<Rightarrow> ('st, SessionBoundAccessTokenOnlyRequest) action" where
  "facade_prepare H F resolved roles scopes binding =
     bind (lift_res (facade_owner F)) (\<lambda>owner.
     bind (prepare_session_bound_access_token_only H owner resolved roles scopes binding) (\<lambda>request.
     bind (require_enabled_delegation_parent H owner (pf_subject (sb_reference request))) (\<lambda>_.
       ret (request \<lparr> sb_fixed_audience := Some (fd_audience F) \<rparr>))))"


definition facade_authenticate ::
  "ext \<Rightarrow> 'st host \<Rightarrow> 'st FixedAudienceDelegation \<Rightarrow> string \<Rightarrow> ('st, AuthUser) action" where
  "facade_authenticate E H F token =
     bind (lift_res (facade_owner F)) (\<lambda>owner.
       authenticate_fixed_audience_access_token E H owner token (fd_audience F))"

definition facade_jwks :: "'st FixedAudienceDelegation \<Rightarrow> JsonValue AuthResult" where
  "facade_jwks F = bind_res (facade_owner F) service_jwks"

section \<open>Purpose-bound grant references (purpose\_grant.rs)\<close>

record PurposeBoundGrantReference =
  pg_grant_id :: uuid
  pg_subject :: string
  pg_audience :: string
  pg_resource_type :: string
  pg_resource_id :: string
  pg_action :: string
  pg_purpose :: string
  pg_granted_at :: time
  pg_expires_at :: time
  pg_revoked_at :: "time option"
  pg_assurance_ref :: "string option"

datatype PurposeGrantStatus =
    GrantActive | GrantExpired | GrantRevoked | SubjectMismatch | AudienceMismatch | ResourceMismatch
  | ActionMismatch | PurposeMismatch

definition purpose_grant_evaluate ::
  "PurposeBoundGrantReference \<Rightarrow> AuthPrincipal \<Rightarrow> string \<Rightarrow> string \<Rightarrow> string \<Rightarrow> string \<Rightarrow> string \<Rightarrow> time \<Rightarrow>
   PurposeGrantStatus" where
  "purpose_grant_evaluate g p audience resource_type resource_id action purpose now =
     (if is_some_and (\<lambda>revoked_at. revoked_at \<le> now) (pg_revoked_at g) then GrantRevoked
      else if now < pg_granted_at g \<or> now \<ge> pg_expires_at g then GrantExpired
      else if principal_subject p \<noteq> pg_subject g then SubjectMismatch
      else if pg_audience g \<noteq> audience then AudienceMismatch
      else if pg_resource_type g \<noteq> resource_type \<or> pg_resource_id g \<noteq> resource_id then ResourceMismatch
      else if pg_action g \<noteq> action then ActionMismatch
      else if pg_purpose g \<noteq> purpose then PurposeMismatch
      else GrantActive)"

section \<open>Delegation stays within the session\<close>






section \<open>The fixed audience is confined\<close>






subsection \<open>A concrete delegation\<close>


















end
