(* ===== verification/One_Time.thy ===== *)
theory One_Time
  imports Session
begin

text \<open>
  What the recovery and second-factor flows share. An action stays within a relation on store
  states when each of its store calls and all interference in between do; the abuse-protection
  calls of the service are shown to stay within any relation their store keeps. The interface of
  a store that consumes a key once is a locale: a client that learned from it that a key was
  consumed knows that the key was never consumed before and is consumed for ever after.
\<close>

section \<open>Actions within a relation\<close>

definition within :: "('st \<Rightarrow> 'st \<Rightarrow> bool) \<Rightarrow> ('st, 'a) action \<Rightarrow> bool" where
  "within R m \<longleftrightarrow> (\<forall>w r w'. m w = (r, w') \<longrightarrow> R (w_store w) (w_store w'))"

definition rate_store_within :: "('st \<Rightarrow> 'st \<Rightarrow> bool) \<Rightarrow> 'st AuthRateLimitStore \<Rightarrow> bool" where
  "rate_store_within R S \<longleftrightarrow>
     (\<forall>now k st r st'. find_auth_rate_limit_state S now k st = (r, st') \<longrightarrow> R st st') \<and>
     (\<forall>now k e n st r st'. compare_exchange_auth_rate_limit_state S now k e n st = (r, st') \<longrightarrow> R st st') \<and>
     (\<forall>now k e st r st'. clear_auth_rate_limit_state S now k e st = (r, st') \<longrightarrow> R st st')"

named_theorems within_intros \<open>actions that stay within a relation\<close>

lemma withinD: "within R m \<Longrightarrow> m w = (r, w') \<Longrightarrow> R (w_store w) (w_store w')"
  unfolding within_def by blast

locale frame_relation =
  fixes R :: "'st \<Rightarrow> 'st \<Rightarrow> bool" and H :: "'st host"
  assumes R_refl: "R st st" and R_trans: "R st1 st2 \<Longrightarrow> R st2 st3 \<Longrightarrow> R st1 st3"
    and interference: "R st (h_interfere H n st)"
begin

lemma within_pure [within_intros]:
  "within R (ret x)" "within R (throw e)" "within R (lift_res r)" "within R (require c e)"
  "within R (now_from H' k)" "within R (new_uuid H')" "within R (random_bytes H')"
  by (auto simp: within_def action_simps R_refl)

lemma within_bind [within_intros]:
  "within R m \<Longrightarrow> (\<And>x. within R (f x)) \<Longrightarrow> within R (bind m f)"
  unfolding within_def bind_def by (fastforce split: prod.splits sum.splits intro: R_trans)

lemma within_try_catch [within_intros]:
  "within R m \<Longrightarrow> (\<And>x. within R (f x)) \<Longrightarrow> within R (try_catch m f)"
  unfolding within_def try_catch_def by (fastforce split: prod.splits intro: R_trans)

lemma within_store_call:
  assumes "\<And>n st r st'. op n st = (r, st') \<Longrightarrow> R st st'"
  shows "within R (store_call H op)"
  using assms R_trans interference unfolding within_def store_call_eq by fastforce

lemma within_host_call [within_intros]: "within R (host_call H ask)"
  unfolding host_call_def by (rule within_store_call) (auto simp: R_refl)

lemma within_for_each_m [within_intros]: "(\<And>x. within R (f x)) \<Longrightarrow> within R (for_each_m f xs)"
  by (induction xs) (auto intro!: within_intros)

lemma within_verify_password [within_intros]:
  "within R (verify_password_async_before H V password h deadline)"
  unfolding verify_password_async_before_def pool_execute_def
  by (auto intro!: within_intros split: option.split)

lemma within_hash_password [within_intros]: "within R (hash_password_async H V password)"
  unfolding hash_password_async_def hash_password_def pool_execute_def by (auto intro!: within_intros)

text \<open>The abuse-protection calls.\<close>

lemma within_observe_keys:
  assumes "rate_store_within R S" shows "within R (observe_keys H S now keys obs l b)"
proof (induction keys arbitrary: obs l b)
  case (Cons k keys)
  have "within R (rl_find H S k)"
    unfolding rl_find_def using assms by (intro within_store_call) (auto simp: rate_store_within_def)
  with Cons show ?case by (auto intro!: within_intros simp: Let_def split: option.splits)
qed (simp add: within_intros)

lemma within_reject [within_intros]:
  assumes "rate_store_within R S" shows "within R (reject_if_rate_limited E H S policy keys)"
  unfolding reject_if_rate_limited_def
  by (auto intro!: within_intros within_observe_keys [OF assms] split: option.splits)

lemma within_record_cas_loop:
  assumes "rate_store_within R S" shows "within R (record_cas_loop E H S policy key now enforce n)"
proof (induction n)
  case (Suc n)
  have "within R (rl_find H S key)" "within R (rl_compare_exchange H S key e nxt)" for e nxt
    unfolding rl_find_def rl_compare_exchange_def using assms
    by (intro within_store_call; auto simp: rate_store_within_def)+
  with Suc show ?case by (auto intro!: within_intros)
qed (simp add: within_intros)

lemma within_record [within_intros]:
  assumes "rate_store_within R S" shows "within R (record_rate_limit_attempt E H S policy keys)"
  unfolding record_rate_limit_attempt_def record_rate_limit_attempt_for_key_def
  by (auto intro!: within_intros within_record_cas_loop [OF assms] split: RateLimitRecordOutcome.split)

lemma within_clear [within_intros]:
  assumes "rate_store_within R S" shows "within R (clear_rate_limit_attempts H S policy permit)"
proof -
  have "within R (rl_clear H S k e)" for k e
    unfolding rl_clear_def using assms by (intro within_store_call) (auto simp: rate_store_within_def)
  then show ?thesis unfolding clear_rate_limit_attempts_def by (auto intro!: within_intros)
qed

end

section \<open>Stores that consume a key once\<close>

text \<open>\<open>consumed\<close> is the set of keys a store has consumed. A positive answer is given for a key
  that was not consumed and makes it so; nothing ever un-consumes a key.\<close>

locale one_time_store =
  fixes consumed :: "'st \<Rightarrow> 'k set"
    and consume :: "'k \<Rightarrow> time \<Rightarrow> 'st \<Rightarrow> bool AuthResult \<times> 'st"
  assumes consume_fresh: "consume k t st = (Inr True, st') \<Longrightarrow> k \<notin> consumed st \<and> k \<in> consumed st'"
    and consume_grows: "consume k t st = (r, st') \<Longrightarrow> consumed st \<subseteq> consumed st'"
begin

definition grows :: "'st \<Rightarrow> 'st \<Rightarrow> bool" where
  "grows st st' \<longleftrightarrow> consumed st \<subseteq> consumed st'"

end

text \<open>A client of such a store on a host whose other tasks never un-consume a key.\<close>

locale one_time_client = one_time_store consumed consume
  for consumed :: "'st \<Rightarrow> 'k set" and consume :: "'k \<Rightarrow> time \<Rightarrow> 'st \<Rightarrow> bool AuthResult \<times> 'st" +
  fixes H :: "'st host"
  assumes rely: "consumed st \<subseteq> consumed (h_interfere H n st)"

sublocale one_time_client \<subseteq> frame: frame_relation grows H
  using rely by unfold_locales (auto simp: grows_def)

context one_time_client
begin

lemma consume_call:
  assumes run: "store_call H (\<lambda>_. consume k t) w = (Inr True, w')"
  shows "k \<notin> consumed (w_store w)" "k \<in> consumed (w_store w')"
proof -
  from run have "consume k t (h_interfere H (w_tick w) (w_store w)) = (Inr True, w_store w')"
    by (auto simp: store_call_eq)
  from consume_fresh [OF this] rely [of "w_store w" "w_tick w"]
  show "k \<notin> consumed (w_store w)" "k \<in> consumed (w_store w')" by auto
qed

lemma within_consume_call: "within grows (store_call H (\<lambda>_. consume k t))"
  by (rule frame.within_store_call) (auto simp: grows_def dest: consume_grows)

text \<open>A flow that reaches the consumption after a prefix that loses nothing, and loses nothing
  afterwards, consumed a fresh key.\<close>

lemma flow_consumes_once:
  assumes "grows (w_store w) (w_store w1)" and "store_call H (\<lambda>_. consume k t) w1 = (Inr True, w2)"
    and "grows (w_store w2) (w_store w')"
  shows "k \<notin> consumed (w_store w)" "k \<in> consumed (w_store w')"
  using consume_call [OF assms(2)] assms(1,3) by (auto simp: grows_def)

end

section \<open>A service for the examples\<close>

text \<open>A service with abuse protection switched off by its configuration and stores that hold nothing,
  on any state; the flows of the examples bring the store they are about.\<close>

definition inert_rates :: "'st AuthRateLimitStore" where
  "inert_rates =
     \<lparr> find_auth_rate_limit_state = (\<lambda>now k st. (Inr None, st)),
       compare_exchange_auth_rate_limit_state = (\<lambda>now k e n st. (Inr True, st)),
       clear_auth_rate_limit_state = (\<lambda>now k e st. (Inr True, st)) \<rparr>"

definition inert_service :: "jwt_lib \<Rightarrow> 'st AuthService" where
  "inert_service J =
     (demo_service J
       \<lparr> find_user_by_principal = (\<lambda>p st. (Inr None, st)), find_user_by_id = (\<lambda>i st. (Inr None, st)) \<rparr>
       \<lparr> insert_refresh_token = (\<lambda>t st. (Inr (), st)),
         find_refresh_token_by_hash = (\<lambda>h st. (Inr None, st)),
         revoke_refresh_token = (\<lambda>i t r reason st. (Inr (), st)),
         revoke_refresh_token_family = (\<lambda>i t reason st. (Inr (), st)),
         touch_refresh_token = (\<lambda>i t ip ua st. (Inr (), st)),
         rotate_refresh_token = (\<lambda>i t now ip ua st. (Inr False, st)),
         find_live_refresh_tokens_in_family = (\<lambda>i st. (Inr None, st)) \<rparr> inert_rates)
       \<lparr> sv_config := demo_config \<lparr> cf_rate_limits :=
           \<lparr> rc_credential = AuthRateLimitPolicy_disabled, rc_request = AuthRateLimitPolicy_disabled \<rparr> \<rparr> \<rparr>"

lemma inert_service_simps [simp]:
  "rp_enabled (rc_credential (cf_rate_limits (sv_config (inert_service J)))) = False"
  "sv_rate_limit_store (inert_service J) = inert_rates" "sv_password (inert_service J) = demo_password"
  "sv_jwt (inert_service J) = J"
  by (simp_all add: inert_service_def demo_service_def AuthRateLimitPolicy_disabled_def)

lemma inert_service_wf: "service_wf demo_pair (inert_service J)"
  using demo_service_wf [of J] by (simp add: inert_service_def service_wf_def demo_service_def AuthRateLimitPolicy_disabled_def)

lemma inert_rates_within: "(\<And>st. R st st) \<Longrightarrow> rate_store_within R inert_rates"
  by (simp add: rate_store_within_def inert_rates_def)

end
