(* ===== verification/Login_Challenge.thy ===== *)
theory Login_Challenge
  imports One_Time
begin

text \<open>
  One-time login codes: the challenge store of \<open>src/stores.rs\<close> with the in-memory store of
  \<open>src/tests.rs\<close>, and creation and verification from \<open>src/service/challenge.rs\<close>. A challenge is
  shown to be verified at most once, only with the code whose hash was stored, within its attempt
  budget and before its expiry.
\<close>

section \<open>The store (stores.rs, tests.rs)\<close>

record 'st LoginChallengeStore =
  insert_login_challenge :: "StoredLoginChallenge \<Rightarrow> 'st \<Rightarrow> unit AuthResult \<times> 'st"
  find_login_challenge :: "uuid \<Rightarrow> 'st \<Rightarrow> StoredLoginChallenge option AuthResult \<times> 'st"
  reserve_login_challenge_attempt :: "uuid \<Rightarrow> time \<Rightarrow> 'st \<Rightarrow> StoredLoginChallenge AuthResult \<times> 'st"
  consume_login_challenge :: "uuid \<Rightarrow> time \<Rightarrow> 'st \<Rightarrow> bool AuthResult \<times> 'st"

type_synonym MemoryLoginChallengeStore = "(uuid \<times> StoredLoginChallenge) list"

definition memory_insert_login_challenge ::
  "StoredLoginChallenge \<Rightarrow> MemoryLoginChallengeStore \<Rightarrow> unit AuthResult \<times> MemoryLoginChallengeStore" where
  "memory_insert_login_challenge c st =
     (if map_of st (lc_id c) \<noteq> None then (Inl (Store ''duplicate challenge id''), st)
      else (Inr (), AList.update (lc_id c) c st))"

definition memory_find_login_challenge ::
  "uuid \<Rightarrow> MemoryLoginChallengeStore \<Rightarrow> StoredLoginChallenge option AuthResult \<times> MemoryLoginChallengeStore" where
  "memory_find_login_challenge i st = (Inr (map_of st i), st)"

definition memory_reserve_login_challenge_attempt ::
  "uuid \<Rightarrow> time \<Rightarrow> MemoryLoginChallengeStore \<Rightarrow> StoredLoginChallenge AuthResult \<times> MemoryLoginChallengeStore" where
  "memory_reserve_login_challenge_attempt i attempted_at st =
     (case map_of st i of
        None \<Rightarrow> (Inl InvalidLoginChallenge, st)
      | Some c \<Rightarrow>
          if challenge_is_consumed c then (Inl LoginChallengeReplayed, st)
          else if challenge_is_expired c attempted_at then (Inl LoginChallengeExpired, st)
          else if attempts_exhausted c then (Inl LoginChallengeAttemptsExhausted, st)
          else let c' = c \<lparr> lc_attempts := lc_attempts c + 1 \<rparr> in (Inr c', AList.update i c' st))"

definition memory_consume_login_challenge ::
  "uuid \<Rightarrow> time \<Rightarrow> MemoryLoginChallengeStore \<Rightarrow> bool AuthResult \<times> MemoryLoginChallengeStore" where
  "memory_consume_login_challenge i consumed_at st =
     (case map_of st i of
        None \<Rightarrow> (Inr False, st)
      | Some c \<Rightarrow>
          if challenge_is_consumed c \<or> challenge_is_expired c consumed_at \<or> lc_attempts c = 0
          then (Inr False, st)
          else (Inr True, AList.update i (c \<lparr> lc_consumed_at := Some consumed_at \<rparr>) st))"

definition MemoryLoginChallengeStore_impl :: "MemoryLoginChallengeStore LoginChallengeStore" where
  "MemoryLoginChallengeStore_impl =
     \<lparr> insert_login_challenge = memory_insert_login_challenge,
       find_login_challenge = memory_find_login_challenge,
       reserve_login_challenge_attempt = memory_reserve_login_challenge_attempt,
       consume_login_challenge = memory_consume_login_challenge \<rparr>"

section \<open>Creation and verification (service/challenge.rs)\<close>

text \<open>\<open>rnd\<close> are the random blocks the code generator draws; \<open>None\<close> stands for a generator that
  never returns.\<close>

definition create_login_challenge ::
  "ext \<Rightarrow> 'st host \<Rightarrow> 'st AuthService \<Rightarrow> 'st LoginChallengeStore \<Rightarrow> (nat \<Rightarrow> bytes) \<Rightarrow> string \<Rightarrow>
   LoginChallengeOptions \<Rightarrow> ('st, IssuedLoginChallenge) action option" where
  "create_login_challenge E H V S rnd princ options =
     (case validate_login_challenge_options options of
        Inl e \<Rightarrow> Some (throw e)
      | Inr _ \<Rightarrow>
          map_option (\<lambda>code.
            bind (hash_password_async H V code) (\<lambda>code_hash.
            bind (now_from H LoginChallengeClock) (\<lambda>now.
            bind (new_uuid H) (\<lambda>challenge_id.
            bind (lift_res (checked_expiry E now (lo_ttl options) ''login challenge ttl'')) (\<lambda>expires_at.
            let challenge =
              \<lparr> lc_id = challenge_id, lc_principal = princ, lc_code_hash = code_hash,
                lc_created_at = now, lc_expires_at = expires_at, lc_attempts = 0,
                lc_max_attempts = lo_max_attempts options, lc_consumed_at = None,
                lc_channel = lo_channel options \<rparr> in
            bind (store_call H (\<lambda>_. insert_login_challenge S challenge)) (\<lambda>_.
              ret \<lparr> ic_challenge_id = challenge_id, ic_principal = princ, ic_code = code,
                    ic_expires_at = expires_at, ic_max_attempts = lo_max_attempts options,
                    ic_channel = lo_channel options \<rparr>))))))
            (generate_numeric_code rnd (lo_code_length options)))"

definition same_challenge_definition :: "StoredLoginChallenge \<Rightarrow> StoredLoginChallenge \<Rightarrow> bool" where
  "same_challenge_definition a b \<longleftrightarrow>
     lc_id a = lc_id b \<and> lc_principal a = lc_principal b \<and> lc_code_hash a = lc_code_hash b \<and>
     lc_created_at a = lc_created_at b \<and> lc_expires_at a = lc_expires_at b \<and>
     lc_max_attempts a = lc_max_attempts b \<and> lc_channel a = lc_channel b"

abbreviation credential_policy :: "'st AuthService \<Rightarrow> AuthRateLimitPolicy" where
  "credential_policy V \<equiv> rc_credential (cf_rate_limits (sv_config V))"

text \<open>Verification in its phases: up to the admitted attempt, the password work, the consumption, and
  what follows a positive answer.\<close>

definition admitted_attempt ::
  "ext \<Rightarrow> 'st host \<Rightarrow> 'st AuthService \<Rightarrow> 'st LoginChallengeStore \<Rightarrow> uuid \<Rightarrow> ClientMetadata \<Rightarrow>
   ('st, StoredLoginChallenge \<times> AuthRateLimitKey list \<times> RateLimitPermit) action" where
  "admitted_attempt E H V S challenge_id metadata =
     bind (reject_if_rate_limited E H (sv_rate_limit_store V) (credential_policy V)
             (rate_limit_keys E LoginCodeVerification None metadata)) (\<lambda>_.
     bind (store_call H (\<lambda>_. find_login_challenge S challenge_id)) (\<lambda>found.
     bind (lift_res (ok_or InvalidLoginChallenge found)) (\<lambda>challenge.
     let keys = rate_limit_keys E LoginCodeVerification (Some (lc_principal challenge)) metadata in
     bind (reject_if_rate_limited E H (sv_rate_limit_store V) (credential_policy V) keys) (\<lambda>permit.
     bind (now_from H LoginChallengeClock) (\<lambda>now.
     bind (require (\<not> challenge_is_consumed challenge) LoginChallengeReplayed) (\<lambda>_.
     bind (require (\<not> challenge_is_expired challenge now) LoginChallengeExpired) (\<lambda>_.
     bind (require (\<not> attempts_exhausted challenge) LoginChallengeAttemptsExhausted) (\<lambda>_.
     bind (now_from H LoginChallengeClock) (\<lambda>attempted_at.
     bind (store_call H (\<lambda>_. reserve_login_challenge_attempt S challenge_id attempted_at)) (\<lambda>reserved.
     bind (require (\<not> (\<not> same_challenge_definition challenge reserved \<or> challenge_is_consumed reserved \<or>
                       lc_attempts reserved \<le> lc_attempts challenge \<or>
                       lc_attempts reserved > lc_max_attempts reserved)) AuthServiceUnavailable) (\<lambda>_.
     bind (now_from H LoginChallengeClock) (\<lambda>returned_at.
     bind (require (\<not> challenge_is_expired reserved returned_at) LoginChallengeExpired) (\<lambda>_.
       ret (reserved, keys, permit))))))))))))))"

definition check_reserved_code ::
  "ext \<Rightarrow> 'st host \<Rightarrow> 'st AuthService \<Rightarrow> StoredLoginChallenge \<Rightarrow> string \<Rightarrow> AuthRateLimitKey list \<Rightarrow>
   ('st, time) action" where
  "check_reserved_code E H V reserved code keys =
     try_catch (verify_password_async_before H V code (lc_code_hash reserved)
                  (Some (LoginChallengeClock, lc_expires_at reserved))) (\<lambda>verified.
     bind (now_from H LoginChallengeClock) (\<lambda>verified_at.
     bind (require (\<not> challenge_is_expired reserved verified_at) LoginChallengeExpired) (\<lambda>_.
       case verified of
         Inl error \<Rightarrow>
           if error = AuthServiceUnavailable \<or> error = LoginChallengeExpired then throw error
           else
             bind (record_rate_limit_attempt E H (sv_rate_limit_store V) (credential_policy V) keys) (\<lambda>_.
               if lc_attempts reserved \<ge> lc_max_attempts reserved
               then throw LoginChallengeAttemptsExhausted else throw InvalidLoginCode)
       | Inr _ \<Rightarrow> ret verified_at)))"

definition finish_verification ::
  "'st host \<Rightarrow> 'st AuthService \<Rightarrow> uuid \<Rightarrow> StoredLoginChallenge \<Rightarrow> RateLimitPermit \<Rightarrow> ('st, VerifiedLoginChallenge) action" where
  "finish_verification H V challenge_id reserved permit =
     bind (clear_rate_limit_attempts H (sv_rate_limit_store V) (credential_policy V) permit) (\<lambda>_.
     bind (now_from H LoginChallengeClock) (\<lambda>verified_at.
     bind (require (\<not> challenge_is_expired reserved verified_at) LoginChallengeExpired) (\<lambda>_.
       ret \<lparr> vc_challenge_id = challenge_id, vc_principal = lc_principal reserved,
             vc_verified_at = verified_at, vc_channel = lc_channel reserved \<rparr>)))"

definition verify_login_challenge_with_metadata ::
  "ext \<Rightarrow> 'st host \<Rightarrow> 'st AuthService \<Rightarrow> 'st LoginChallengeStore \<Rightarrow> uuid \<Rightarrow> string \<Rightarrow> ClientMetadata \<Rightarrow>
   ('st, VerifiedLoginChallenge) action" where
  "verify_login_challenge_with_metadata E H V S challenge_id code metadata =
     bind (admitted_attempt E H V S challenge_id metadata) (\<lambda>(reserved, keys, permit).
     bind (check_reserved_code E H V reserved code keys) (\<lambda>verified_at.
     bind (store_call H (\<lambda>_. consume_login_challenge S challenge_id verified_at)) (\<lambda>consumed.
     bind (now_from H LoginChallengeClock) (\<lambda>consumed_now.
     bind (require (\<not> challenge_is_expired reserved consumed_now) LoginChallengeExpired) (\<lambda>_.
       if \<not> consumed then
         bind (record_rate_limit_attempt E H (sv_rate_limit_store V) (credential_policy V) keys) (\<lambda>_.
           throw LoginChallengeReplayed)
       else finish_verification H V challenge_id reserved permit)))))"

definition verify_login_challenge ::
  "ext \<Rightarrow> 'st host \<Rightarrow> 'st AuthService \<Rightarrow> 'st LoginChallengeStore \<Rightarrow> uuid \<Rightarrow> string \<Rightarrow>
   ('st, VerifiedLoginChallenge) action" where
  "verify_login_challenge E H V S challenge_id code =
     verify_login_challenge_with_metadata E H V S challenge_id code ClientMetadata_default"

section \<open>Verified at most once\<close>

definition challenge_consumed :: "MemoryLoginChallengeStore \<Rightarrow> uuid set" where
  "challenge_consumed st = {i. \<exists>c. map_of st i = Some c \<and> challenge_is_consumed c}"

lemma map_of_AList_update: "map_of (AList.update k v st) = (map_of st)(k \<mapsto> v)"
  by (simp add: update_conv' fun_eq_iff)

lemma memory_consume_eq:
  "memory_consume_login_challenge i t st = (Inr True, st') \<longleftrightarrow>
     (\<exists>c. map_of st i = Some c \<and> \<not> challenge_is_consumed c \<and> \<not> challenge_is_expired c t \<and> lc_attempts c \<noteq> 0 \<and>
        st' = AList.update i (c \<lparr> lc_consumed_at := Some t \<rparr>) st)"
  by (auto simp: memory_consume_login_challenge_def split: option.splits if_splits)

interpretation mlc: one_time_client challenge_consumed memory_consume_login_challenge idle_host
proof
  fix k t st st'
  assume "memory_consume_login_challenge k t st = (Inr True, st')"
  then show "k \<notin> challenge_consumed st \<and> k \<in> challenge_consumed st'"
    by (auto simp: memory_consume_eq challenge_consumed_def map_of_AList_update challenge_is_consumed_def)
next
  fix k t st r st'
  assume "memory_consume_login_challenge k t st = (r, st')"
  then show "challenge_consumed st \<subseteq> challenge_consumed st'"
    by (auto simp: memory_consume_login_challenge_def challenge_consumed_def map_of_AList_update
        challenge_is_consumed_def split: option.splits if_splits)
qed (simp add: idle_host_def)

lemma check_reserved_code_Inr:
  assumes "check_reserved_code E H V reserved code keys w = (Inr t, w')"
  shows "pw_verifies (sv_password V) code (lc_code_hash reserved)" "t < lc_expires_at reserved"
proof -
  from assms obtain w1 where v: "verify_password_async_before H V code (lc_code_hash reserved)
      (Some (LoginChallengeClock, lc_expires_at reserved)) w = (Inr (), w1)"
    and t: "\<not> challenge_is_expired reserved t"
    by (auto simp: check_reserved_code_def try_catch_def action_simps split: prod.splits sum.splits if_splits)
  from v show "pw_verifies (sv_password V) code (lc_code_hash reserved)"
    by (auto simp: verify_password_async_before_def verify_password_def action_simps res_simps split: if_splits)
  from t show "t < lc_expires_at reserved" by (simp add: challenge_is_expired_def)
qed

lemma admitted_attempt_Inr:
  assumes "admitted_attempt E H V S i md w = (Inr (reserved, keys, permit), w')"
  shows "\<exists>t st st'. reserve_login_challenge_attempt S i t st = (Inr reserved, st')"
    and "lc_attempts reserved \<le> lc_max_attempts reserved" and "0 < lc_attempts reserved"
proof -
  from assms obtain challenge :: StoredLoginChallenge and t w1 w2 where
    "store_call H (\<lambda>_. reserve_login_challenge_attempt S i t) w1 = (Inr reserved, w2)"
    and a: "lc_attempts challenge < lc_attempts reserved" "lc_attempts reserved \<le> lc_max_attempts reserved"
    unfolding admitted_attempt_def Let_def
    by (simp add: bind_eq_Inr require_eq now_from_eq lift_res_eq ret_eq not_le not_less) blast
  then show "\<exists>t st st'. reserve_login_challenge_attempt S i t st = (Inr reserved, st')"
    by (auto simp: store_call_eq)
  from a show "lc_attempts reserved \<le> lc_max_attempts reserved" "0 < lc_attempts reserved"
    by (auto intro: le_less_trans [OF word_zero_le])
qed

lemma verify_login_challenge_Inr:
  assumes "verify_login_challenge_with_metadata E H V S i code md w = (Inr v, w')"
  obtains reserved keys permit t w1 w2 w3 where
    "admitted_attempt E H V S i md w = (Inr (reserved, keys, permit), w1)"
    and "check_reserved_code E H V reserved code keys w1 = (Inr t, w2)"
    and "store_call H (\<lambda>_. consume_login_challenge S i t) w2 = (Inr True, w3)"
    and "finish_verification H V i reserved permit (w3 \<lparr> w_tick := Suc (w_tick w3) \<rparr>) = (Inr v, w')"
proof -
  from assms obtain reserved keys permit t w1 w2 w3 consumed where
    a: "admitted_attempt E H V S i md w = (Inr (reserved, keys, permit), w1)"
    and b: "check_reserved_code E H V reserved code keys w1 = (Inr t, w2)"
    and c: "store_call H (\<lambda>_. consume_login_challenge S i t) w2 = (Inr consumed, w3)"
    and d: "(if \<not> consumed then
         bind (record_rate_limit_attempt E H (sv_rate_limit_store V) (credential_policy V) keys) (\<lambda>_.
           throw LoginChallengeReplayed)
       else finish_verification H V i reserved permit) (w3 \<lparr> w_tick := Suc (w_tick w3) \<rparr>) = (Inr v, w')"
    unfolding verify_login_challenge_with_metadata_def
    by (auto simp: bind_eq_Inr [of "admitted_attempt _ _ _ _ _ _"] bind_eq_Inr [of "check_reserved_code _ _ _ _ _ _"]
        bind_eq_Inr [of "store_call _ _"] bind_eq_Inr [of "now_from _ _"] bind_eq_Inr [of "require _ _"]
        now_from_eq require_eq)
  from d have "consumed" by (auto simp: bind_eq_Inr throw_eq split: if_splits)
  with a b c d that show ?thesis by simp
qed

text \<open>The client of a challenge store: every store operation of a verification keeps what has been
  consumed.\<close>

locale challenge_client = one_time_client consumed "consume_login_challenge S" H
  for consumed :: "'st \<Rightarrow> uuid set" and S :: "'st LoginChallengeStore" and H :: "'st host" +
  fixes V :: "'st AuthService"
  assumes find_grows: "find_login_challenge S i st = (rf, st') \<Longrightarrow> consumed st \<subseteq> consumed st'"
    and reserve_grows: "reserve_login_challenge_attempt S i t st = (rr, st') \<Longrightarrow> consumed st \<subseteq> consumed st'"
    and rates: "rate_store_within (\<lambda>st st'. consumed st \<subseteq> consumed st') (sv_rate_limit_store V)"
begin

lemma rates_grow: "rate_store_within grows (sv_rate_limit_store V)"
  using rates by (simp add: rate_store_within_def grows_def)

lemma within_admitted_attempt: "within grows (admitted_attempt E H V S i md)"
proof -
  have "within grows (store_call H (\<lambda>_. find_login_challenge S i))"
    "within grows (store_call H (\<lambda>_. reserve_login_challenge_attempt S i t))" for t
    by (rule frame.within_store_call; auto simp: grows_def dest: find_grows reserve_grows)+
  then show ?thesis
    unfolding admitted_attempt_def Let_def by (auto intro!: within_intros rates_grow)
qed

lemma verification_consumes:
  assumes "verify_login_challenge_with_metadata E H V S i code md w = (Inr v, w')"
  shows "i \<notin> consumed (w_store w)" "i \<in> consumed (w_store w')"
proof -
  from assms obtain reserved keys permit t w1 w2 w3 where
    a: "admitted_attempt E H V S i md w = (Inr (reserved, keys, permit), w1)"
    and b: "check_reserved_code E H V reserved code keys w1 = (Inr t, w2)"
    and c: "store_call H (\<lambda>_. consume_login_challenge S i t) w2 = (Inr True, w3)"
    and d: "finish_verification H V i reserved permit (w3 \<lparr> w_tick := Suc (w_tick w3) \<rparr>) = (Inr v, w')"
    by (rule verify_login_challenge_Inr)
  have chk: "within grows (check_reserved_code E H V reserved code keys)"
    unfolding check_reserved_code_def
    by (auto intro!: within_intros rates_grow split: sum.split)
  have fin: "within grows (finish_verification H V i reserved permit)"
    unfolding finish_verification_def by (auto intro!: within_intros rates_grow)
  have "grows (w_store w) (w_store w2)"
    using frame.R_trans [OF withinD [OF within_admitted_attempt a] withinD [OF chk b]] .
  moreover have "grows (w_store w3) (w_store w')" using withinD [OF fin d] by simp
  ultimately show "i \<notin> consumed (w_store w)" "i \<in> consumed (w_store w')"
    using flow_consumes_once [OF _ c] by auto
qed

lemma verified_once:
  assumes "verify_login_challenge_with_metadata E H V S i code md w = (Inr v, w')"
    and "consumed (w_store w') \<subseteq> consumed (w_store w2)"
  shows "verify_login_challenge_with_metadata E H V S i code' md' w2 \<noteq> (Inr v2, w3)"
  using verification_consumes assms by blast

end

text \<open>C30: A login challenge is verified at most once. When a verification succeeds, the challenge
  had not been consumed before the call and is consumed after it, so no later verification of the
  same challenge succeeds with any code or client, however other tasks interleave; the attempt was
  admitted by the store within its budget, the code verified against the stored hash, and the
  challenge had not expired when the result was produced.\<close>

theorem login_challenge_single_use:
  assumes client: "challenge_client consumed S H V"
    and run: "verify_login_challenge_with_metadata E H V S i code md w = (Inr v, w')"
  shows "i \<notin> consumed (w_store w) \<and> i \<in> consumed (w_store w') \<and>
         (\<forall>w2 code' md' v2 w3. consumed (w_store w') \<subseteq> consumed (w_store w2) \<longrightarrow>
            verify_login_challenge_with_metadata E H V S i code' md' w2 \<noteq> (Inr v2, w3)) \<and>
         (\<exists>reserved t st st'. reserve_login_challenge_attempt S i t st = (Inr reserved, st') \<and>
            lc_attempts reserved \<le> lc_max_attempts reserved \<and>
            pw_verifies (sv_password V) code (lc_code_hash reserved) \<and>
            vc_principal v = lc_principal reserved \<and> vc_verified_at v < lc_expires_at reserved)"
proof (intro conjI allI impI)
  show "i \<notin> consumed (w_store w)" "i \<in> consumed (w_store w')"
    using challenge_client.verification_consumes [OF client run] by auto
  show "verify_login_challenge_with_metadata E H V S i code' md' w2 \<noteq> (Inr v2, w3)"
    if "consumed (w_store w') \<subseteq> consumed (w_store w2)" for w2 code' md' v2 w3
    by (rule challenge_client.verified_once [OF client run that])
  from run obtain reserved keys permit t w1 w2 w3 where
    a: "admitted_attempt E H V S i md w = (Inr (reserved, keys, permit), w1)"
    and b: "check_reserved_code E H V reserved code keys w1 = (Inr t, w2)"
    and d: "finish_verification H V i reserved permit (w3 \<lparr> w_tick := Suc (w_tick w3) \<rparr>) = (Inr v, w')"
    by (rule verify_login_challenge_Inr)
  from d have "vc_principal v = lc_principal reserved \<and> vc_verified_at v < lc_expires_at reserved"
    by (auto simp: finish_verification_def action_simps challenge_is_expired_def)
  then show "\<exists>reserved t st st'. reserve_login_challenge_attempt S i t st = (Inr reserved, st') \<and>
            lc_attempts reserved \<le> lc_max_attempts reserved \<and>
            pw_verifies (sv_password V) code (lc_code_hash reserved) \<and>
            vc_principal v = lc_principal reserved \<and> vc_verified_at v < lc_expires_at reserved"
    using admitted_attempt_Inr [OF a] check_reserved_code_Inr [OF b] by blast
qed

interpretation mcc: challenge_client challenge_consumed MemoryLoginChallengeStore_impl idle_host "inert_service J" for J
proof
  fix k t st st'
  assume "consume_login_challenge MemoryLoginChallengeStore_impl k t st = (Inr True, st')"
  then show "k \<notin> challenge_consumed st \<and> k \<in> challenge_consumed st'"
    using mlc.consume_fresh by (simp add: MemoryLoginChallengeStore_impl_def)
next
  fix k t st r st'
  assume "consume_login_challenge MemoryLoginChallengeStore_impl k t st = (r, st')"
  then show "challenge_consumed st \<subseteq> challenge_consumed st'"
    using mlc.consume_grows by (simp add: MemoryLoginChallengeStore_impl_def)
next
  fix i t st r st'
  assume "reserve_login_challenge_attempt MemoryLoginChallengeStore_impl i t st = (r, st')"
  then show "challenge_consumed st \<subseteq> challenge_consumed st'"
    by (auto simp: MemoryLoginChallengeStore_impl_def memory_reserve_login_challenge_attempt_def
        challenge_consumed_def map_of_AList_update challenge_is_consumed_def Let_def
        split: option.splits if_splits)
qed (auto simp: idle_host_def MemoryLoginChallengeStore_impl_def memory_find_login_challenge_def
    intro: inert_rates_within)

definition demo_challenge :: StoredLoginChallenge where
  "demo_challenge =
     \<lparr> lc_id = 3, lc_principal = ''alice'', lc_code_hash = ''123456'', lc_created_at = 0,
       lc_expires_at = seconds 600, lc_attempts = 0, lc_max_attempts = 5, lc_consumed_at = None,
       lc_channel = None \<rparr>"

definition demo_challenge_world :: "MemoryLoginChallengeStore world" where
  "demo_challenge_world = \<lparr> w_store = [(3, demo_challenge)], w_tick = 0, w_fresh = 0 \<rparr>"

lemma demo_verify_challenge:
  "fst (verify_login_challenge_with_metadata std_ext idle_host (inert_service (demo_jwt [] []))
     MemoryLoginChallengeStore_impl 3 ''123456'' ClientMetadata_default demo_challenge_world) =
   Inr \<lparr> vc_challenge_id = 3, vc_principal = ''alice'', vc_verified_at = 0, vc_channel = None \<rparr>"
  by (simp add: verify_login_challenge_with_metadata_def admitted_attempt_def check_reserved_code_def
      finish_verification_def demo_challenge_world_def demo_challenge_def MemoryLoginChallengeStore_impl_def
      memory_find_login_challenge_def memory_reserve_login_challenge_attempt_def
      memory_consume_login_challenge_def reject_if_rate_limited_def clear_rate_limit_attempts_def
      verify_password_async_before_def pool_execute_def verify_password_def demo_password_def
      host_call_def store_call_def bind_def try_catch_def ret_def throw_def lift_res_def require_def
      now_from_def idle_host_def Let_def challenge_is_consumed_def challenge_is_expired_def
      attempts_exhausted_def same_challenge_definition_def seconds_def)

lemma login_challenge_single_use_witness:
  "3 \<notin> challenge_consumed (w_store demo_challenge_world) \<and>
   (\<exists>w'. verify_login_challenge_with_metadata std_ext idle_host (inert_service (demo_jwt [] []))
      MemoryLoginChallengeStore_impl 3 ''123456'' ClientMetadata_default demo_challenge_world =
      (Inr \<lparr> vc_challenge_id = 3, vc_principal = ''alice'', vc_verified_at = 0, vc_channel = None \<rparr>, w') \<and>
      3 \<in> challenge_consumed (w_store w'))"
proof -
  obtain w' where run: "verify_login_challenge_with_metadata std_ext idle_host (inert_service (demo_jwt [] []))
      MemoryLoginChallengeStore_impl 3 ''123456'' ClientMetadata_default demo_challenge_world =
      (Inr \<lparr> vc_challenge_id = 3, vc_principal = ''alice'', vc_verified_at = 0, vc_channel = None \<rparr>, w')"
    using demo_verify_challenge by (metis prod.collapse)
  show ?thesis
    using login_challenge_single_use [OF mcc.challenge_client_axioms run] run
    by blast
qed

section \<open>The attempt budget\<close>

text \<open>A history of the in-memory store, and how many attempts it admitted for one challenge.\<close>

datatype challenge_op =
    InsertChallenge StoredLoginChallenge | ReserveAttempt uuid time | ConsumeChallenge uuid time

fun challenge_step :: "challenge_op \<Rightarrow> MemoryLoginChallengeStore \<Rightarrow> bool \<times> MemoryLoginChallengeStore" where
  "challenge_step (InsertChallenge c) st = (False, snd (memory_insert_login_challenge c st))"
| "challenge_step (ReserveAttempt i t) st =
     map_prod is_ok (\<lambda>st. st) (memory_reserve_login_challenge_attempt i t st)"
| "challenge_step (ConsumeChallenge i t) st = (False, snd (memory_consume_login_challenge i t st))"

fun admissions :: "uuid \<Rightarrow> challenge_op list \<Rightarrow> MemoryLoginChallengeStore \<Rightarrow> nat" where
  "admissions i [] st = 0"
| "admissions i (op # ops) st =
     (case challenge_step op st of (admitted, st') \<Rightarrow>
        (if admitted \<and> (\<exists>t. op = ReserveAttempt i t) then 1 else 0) + admissions i ops st')"

text \<open>C31: The attempt budget of a challenge holds. In every history of the in-memory store, with
  insertions, reservations and consumptions of any challenges in any order, the attempts admitted
  for one challenge never exceed what its budget leaves, in particular a fresh challenge never
  admits more than its maximum of attempts, without overflow of the 32-bit counter.\<close>

theorem login_challenge_attempts_bounded:
  assumes "map_of st i = Some c" and "lc_attempts c \<le> lc_max_attempts c"
  shows "admissions i ops st + unat (lc_attempts c) \<le> unat (lc_max_attempts c)"
  using assms
proof (induction ops arbitrary: st c)
  case Nil
  then show ?case by (simp add: word_le_nat_alt)
next
  case (Cons op ops)
  show ?case
  proof (cases op)
    case (InsertChallenge c')
    have "map_of (snd (memory_insert_login_challenge c' st)) i = Some c"
      using Cons.prems(1) by (auto simp: memory_insert_login_challenge_def map_of_AList_update)
    with Cons InsertChallenge show ?thesis by simp
  next
    case (ReserveAttempt j t)
    obtain r st' where res: "memory_reserve_login_challenge_attempt j t st = (r, st')"
      by (cases "memory_reserve_login_challenge_attempt j t st")
    show ?thesis
    proof (cases "j = i \<and> is_ok r")
      case True
      with res Cons.prems have less: "lc_attempts c < lc_max_attempts c"
        and st': "map_of st' i = Some (c \<lparr> lc_attempts := lc_attempts c + 1 \<rparr>)"
        by (auto simp: memory_reserve_login_challenge_attempt_def map_of_AList_update Let_def
            attempts_exhausted_def not_le split: if_splits)
      have "unat (lc_max_attempts c) < 2 ^ 32" by (rule order_less_le_trans [OF unsigned_less]) simp
      then have "unat (lc_attempts c + 1) = Suc (unat (lc_attempts c))"
        using less
        by (simp add: word_less_nat_alt unat_word_ariths)
      moreover from this less have "lc_attempts c + 1 \<le> lc_max_attempts c"
        by (simp add: word_less_nat_alt word_le_nat_alt)
      ultimately show ?thesis
        using Cons.IH [OF st'] True ReserveAttempt res by simp
    next
      case False
      with res Cons.prems have "map_of st' i = Some c"
        by (auto simp: memory_reserve_login_challenge_attempt_def map_of_AList_update Let_def
            split: if_splits option.splits)
      then show ?thesis using Cons.IH Cons.prems False ReserveAttempt res by auto
    qed
  next
    case (ConsumeChallenge j t)
    have "\<exists>c'. map_of (snd (memory_consume_login_challenge j t st)) i = Some c' \<and>
        lc_attempts c' = lc_attempts c \<and> lc_max_attempts c' = lc_max_attempts c"
      using Cons.prems
      by (auto simp: memory_consume_login_challenge_def map_of_AList_update split: option.split)
    then obtain c' where c': "map_of (snd (memory_consume_login_challenge j t st)) i = Some c'"
      "lc_attempts c' = lc_attempts c" "lc_max_attempts c' = lc_max_attempts c" by blast
    from Cons.IH [OF c'(1)] c'(2,3) Cons.prems ConsumeChallenge show ?thesis by simp
  qed
qed

lemma login_challenge_attempts_bounded_witness:
  "admissions 3 (replicate 7 (ReserveAttempt 3 0)) [(3, demo_challenge)] \<le> 5"
  using login_challenge_attempts_bounded [of "[(3, demo_challenge)]" 3 demo_challenge
      "replicate 7 (ReserveAttempt 3 0)"]
  by (simp add: demo_challenge_def)

end
