(* ===== verification/Password_Reset.thy ===== *)
theory Password_Reset
  imports One_Time
begin

text \<open>
  Password-reset tokens: the store of \<open>src/stores.rs\<close> with the in-memory store of \<open>src/tests.rs\<close>
  and the flows of \<open>src/service/password_reset.rs\<close>. A reset token is shown to be consumed at most
  once and to carry the type, purpose, issuer and audience of a reset token.
\<close>

section \<open>The store (stores.rs, tests.rs)\<close>

record 'st PasswordResetTokenStore =
  insert_password_reset_token :: "uuid \<Rightarrow> string \<Rightarrow> time \<Rightarrow> 'st \<Rightarrow> unit AuthResult \<times> 'st"
  consume_reset_token :: "uuid \<Rightarrow> time \<Rightarrow> 'st \<Rightarrow> bool AuthResult \<times> 'st"

record MemoryPasswordResetStore =
  mp_issued :: "uuid set"
  mp_consumed :: "uuid set"

definition memory_insert_password_reset_token ::
  "uuid \<Rightarrow> string \<Rightarrow> time \<Rightarrow> MemoryPasswordResetStore \<Rightarrow> unit AuthResult \<times> MemoryPasswordResetStore" where
  "memory_insert_password_reset_token token_id user_id expires_at st =
     (Inr (), st \<lparr> mp_issued := insert token_id (mp_issued st) \<rparr>)"

definition memory_consume_password_reset_token ::
  "uuid \<Rightarrow> time \<Rightarrow> MemoryPasswordResetStore \<Rightarrow> bool AuthResult \<times> MemoryPasswordResetStore" where
  "memory_consume_password_reset_token token_id consumed_at st =
     (if token_id \<notin> mp_issued st then (Inr False, st)
      else (Inr (token_id \<notin> mp_consumed st), st \<lparr> mp_consumed := insert token_id (mp_consumed st) \<rparr>))"

definition MemoryPasswordResetStore_impl :: "MemoryPasswordResetStore PasswordResetTokenStore" where
  "MemoryPasswordResetStore_impl =
     \<lparr> insert_password_reset_token = memory_insert_password_reset_token,
       consume_reset_token = memory_consume_password_reset_token \<rparr>"

section \<open>The flows (service/password\_reset.rs)\<close>

definition issue_password_reset_token_with_ttl ::
  "ext \<Rightarrow> 'st host \<Rightarrow> 'st AuthService \<Rightarrow> string \<Rightarrow> duration \<Rightarrow> ('st, PasswordResetToken) action" where
  "issue_password_reset_token_with_ttl E H V user_id ttl =
     bind (now_from H SystemClock) (\<lambda>issued_at.
     bind (lift_res (checked_jwt_expiry E issued_at ttl ''password-reset ttl'')) (\<lambda>expires_at.
     bind (new_uuid H) (\<lambda>token_id.
     bind (lift_res (encode_local_jwt V (jl_reset (sv_jwt V))
       \<lparr> rc_sub = user_id, rc_jti = uuid_to_string E token_id,
         rc_typ = Some PASSWORD_RESET_TOKEN_TYPE, rc_purpose = PASSWORD_RESET_TOKEN_PURPOSE,
         rc_iss = cf_issuer (sv_config V), rc_aud = cf_audience (sv_config V),
         rc_exp = unix_timestamp E expires_at, rc_iat = unix_timestamp E issued_at \<rparr>)) (\<lambda>token.
       ret \<lparr> prt_user_id = user_id, prt_token_id = token_id, prt_token = token,
             prt_expires_at = expires_at \<rparr>))))"

definition issue_password_reset_token ::
  "ext \<Rightarrow> 'st host \<Rightarrow> 'st AuthService \<Rightarrow> string \<Rightarrow> ('st, PasswordResetToken) action" where
  "issue_password_reset_token E H V user_id =
     issue_password_reset_token_with_ttl E H V user_id (hours 1)"

definition issue_password_reset_token_with_store ::
  "ext \<Rightarrow> 'st host \<Rightarrow> 'st AuthService \<Rightarrow> 'st PasswordResetTokenStore \<Rightarrow> string \<Rightarrow> duration \<Rightarrow>
   ('st, PasswordResetToken) action" where
  "issue_password_reset_token_with_store E H V S user_id ttl =
     bind (issue_password_reset_token_with_ttl E H V user_id ttl) (\<lambda>issued.
     bind (store_call H (\<lambda>_. insert_password_reset_token S (prt_token_id issued) (prt_user_id issued)
             (prt_expires_at issued))) (\<lambda>_. ret issued))"

text \<open>The JWT crate reads the clock while it decodes, the function reads it again at the end.\<close>

definition authenticate_password_reset_token ::
  "ext \<Rightarrow> 'st host \<Rightarrow> 'st AuthService \<Rightarrow> string \<Rightarrow> ('st, VerifiedPasswordResetToken) action" where
  "authenticate_password_reset_token E H V token =
     bind (lift_res (map_err (\<lambda>_. InvalidPasswordResetToken)
             (validate_local_jwt_header V (jl_reset (sv_jwt V)) token))) (\<lambda>_.
     bind (now_from H SystemClock) (\<lambda>decode_now.
     bind (lift_res (map_err map_password_reset_decode_error
             (jwt_decode (jl_reset (sv_jwt V)) decode_now token (sv_decoding_key V) (sv_validation V)))) (\<lambda>claims.
     bind (require (\<not> (\<not> (rc_typ claims = None \<or> rc_typ claims = Some PASSWORD_RESET_TOKEN_TYPE) \<or>
                       rc_purpose claims \<noteq> PASSWORD_RESET_TOKEN_PURPOSE)) InvalidPasswordResetToken) (\<lambda>_.
     bind (lift_res (ok_or InvalidPasswordResetToken (uuid_parse_str E (rc_jti claims)))) (\<lambda>token_id.
     bind (lift_res (ok_or InvalidPasswordResetToken (from_unix_timestamp E (rc_iat claims)))) (\<lambda>issued_at.
     bind (lift_res (ok_or InvalidPasswordResetToken (from_unix_timestamp E (rc_exp claims)))) (\<lambda>expires_at.
     bind (now_from H SystemClock) (\<lambda>now.
     bind (require (\<not> expires_at \<le> now) PasswordResetTokenExpired) (\<lambda>_.
       ret \<lparr> vr_user_id = rc_sub claims, vr_token_id = token_id, vr_issued_at = issued_at,
             vr_expires_at = expires_at \<rparr>)))))))))"

text \<open>Consumption in its phases: admission and validation, then the store's verdict.\<close>

definition admitted_reset ::
  "ext \<Rightarrow> 'st host \<Rightarrow> 'st AuthService \<Rightarrow> string \<Rightarrow> ClientMetadata \<Rightarrow>
   ('st, VerifiedPasswordResetToken \<times> AuthRateLimitKey list \<times> RateLimitPermit) action" where
  "admitted_reset E H V token metadata =
     (let policy = rc_credential (cf_rate_limits (sv_config V)); rates = sv_rate_limit_store V;
          client_keys = rate_limit_keys E PasswordResetTokenConsumption None metadata in
     bind (reject_if_rate_limited E H rates policy client_keys) (\<lambda>_.
     bind (try_catch (authenticate_password_reset_token E H V token) (\<lambda>r. case r of
             Inr verified \<Rightarrow> ret verified
           | Inl err \<Rightarrow> bind (record_rate_limit_attempt E H rates policy client_keys) (\<lambda>_. throw err))) (\<lambda>verified.
     let keys = rate_limit_keys E PasswordResetTokenConsumption (Some (vr_user_id verified)) metadata in
     bind (reject_if_rate_limited E H rates policy keys) (\<lambda>permit.
       ret (verified, keys, permit)))))"

definition consume_password_reset_token_with_metadata ::
  "ext \<Rightarrow> 'st host \<Rightarrow> 'st AuthService \<Rightarrow> 'st PasswordResetTokenStore \<Rightarrow> string \<Rightarrow> ClientMetadata \<Rightarrow>
   ('st, VerifiedPasswordResetToken) action" where
  "consume_password_reset_token_with_metadata E H V S token metadata =
     bind (admitted_reset E H V token metadata) (\<lambda>(verified, keys, permit).
     bind (now_from H SystemClock) (\<lambda>now.
     bind (store_call H (\<lambda>_. consume_reset_token S (vr_token_id verified) now)) (\<lambda>consumed.
       if \<not> consumed then
         bind (record_rate_limit_attempt E H (sv_rate_limit_store V)
                 (rc_credential (cf_rate_limits (sv_config V))) keys) (\<lambda>_. throw PasswordResetTokenReplayed)
       else
         bind (clear_rate_limit_attempts H (sv_rate_limit_store V)
                 (rc_credential (cf_rate_limits (sv_config V))) permit) (\<lambda>_. ret verified))))"

definition consume_password_reset_token ::
  "ext \<Rightarrow> 'st host \<Rightarrow> 'st AuthService \<Rightarrow> 'st PasswordResetTokenStore \<Rightarrow> string \<Rightarrow>
   ('st, VerifiedPasswordResetToken) action" where
  "consume_password_reset_token E H V S token =
     consume_password_reset_token_with_metadata E H V S token ClientMetadata_default"

section \<open>Consumed at most once\<close>

lemma authenticate_password_reset_token_Inr:
  assumes "authenticate_password_reset_token E H V token w = (Inr v, w')"
  obtains c now n where
    "jwt_decode (jl_reset (sv_jwt V)) now token (sv_decoding_key V) (sv_validation V) = Inr c"
    and "is_none_or (\<lambda>t. t = PASSWORD_RESET_TOKEN_TYPE) (rc_typ c)"
    and "rc_purpose c = PASSWORD_RESET_TOKEN_PURPOSE" "rc_sub c = vr_user_id v"
    and "uuid_parse_str E (rc_jti c) = Some (vr_token_id v)" "h_clock H SystemClock n < vr_expires_at v"
proof -
  from assms obtain c where
    "jwt_decode (jl_reset (sv_jwt V)) (h_clock H SystemClock (w_tick w)) token (sv_decoding_key V)
      (sv_validation V) = Inr c"
    "rc_typ c = None \<or> rc_typ c = Some PASSWORD_RESET_TOKEN_TYPE"
    "rc_purpose c = PASSWORD_RESET_TOKEN_PURPOSE" "rc_sub c = vr_user_id v"
    "uuid_parse_str E (rc_jti c) = Some (vr_token_id v)"
    "h_clock H SystemClock (Suc (w_tick w)) < vr_expires_at v"
    by (auto simp: authenticate_password_reset_token_def action_simps not_le)
  with that show ?thesis by (auto simp: is_none_or_iff)
qed

lemma admitted_reset_Inr:
  assumes "admitted_reset E H V token md w = (Inr (v, keys, permit), w')"
  shows "\<exists>w1 w2. authenticate_password_reset_token E H V token w1 = (Inr v, w2)"
proof -
  from assms obtain w0 w1 where
    "try_catch (authenticate_password_reset_token E H V token) (\<lambda>r. case r of
         Inr verified \<Rightarrow> ret verified
       | Inl err \<Rightarrow> bind (record_rate_limit_attempt E H (sv_rate_limit_store V)
           (rc_credential (cf_rate_limits (sv_config V)))
           (rate_limit_keys E PasswordResetTokenConsumption None md)) (\<lambda>_. throw err)) w0 = (Inr v, w1)"
    unfolding admitted_reset_def Let_def bind_eq_Inr ret_eq by blast
  then show ?thesis
    by (auto simp: try_catch_def action_simps split: prod.splits sum.splits)
qed

lemma consume_reset_Inr:
  assumes "consume_password_reset_token_with_metadata E H V S token md w = (Inr v, w')"
  obtains keys permit w1 now w2 where
    "admitted_reset E H V token md w = (Inr (v, keys, permit), w1)"
    and "store_call H (\<lambda>_. consume_reset_token S (vr_token_id v) now) (w1 \<lparr> w_tick := Suc (w_tick w1) \<rparr>) = (Inr True, w2)"
    and "clear_rate_limit_attempts H (sv_rate_limit_store V) (rc_credential (cf_rate_limits (sv_config V)))
       permit w2 = (Inr (), w')"
proof -
  from assms obtain v' keys permit w1 now consumed w2 where
    a: "admitted_reset E H V token md w = (Inr (v', keys, permit), w1)"
    and b: "store_call H (\<lambda>_. consume_reset_token S (vr_token_id v') now) (w1 \<lparr> w_tick := Suc (w_tick w1) \<rparr>) = (Inr consumed, w2)"
    and c: "(if \<not> consumed then
         bind (record_rate_limit_attempt E H (sv_rate_limit_store V)
                 (rc_credential (cf_rate_limits (sv_config V))) keys) (\<lambda>_. throw PasswordResetTokenReplayed)
       else
         bind (clear_rate_limit_attempts H (sv_rate_limit_store V)
                 (rc_credential (cf_rate_limits (sv_config V))) permit) (\<lambda>_. ret v')) w2 = (Inr v, w')"
    unfolding consume_password_reset_token_with_metadata_def
    by (auto simp: bind_eq_Inr [of "admitted_reset _ _ _ _ _"] bind_eq_Inr [of "store_call _ _"]
        bind_eq_Inr [of "now_from _ _"] now_from_eq)
  from c have "consumed" "v' = v" "clear_rate_limit_attempts H (sv_rate_limit_store V)
      (rc_credential (cf_rate_limits (sv_config V))) permit w2 = (Inr (), w')"
    by (auto simp: bind_eq_Inr throw_eq ret_eq split: if_splits)
  with a b that show ?thesis by simp
qed

locale reset_client = one_time_client consumed "consume_reset_token S" H
  for consumed :: "'st \<Rightarrow> uuid set" and S :: "'st PasswordResetTokenStore" and H :: "'st host" +
  fixes V :: "'st AuthService"
  assumes rates: "rate_store_within (\<lambda>st st'. consumed st \<subseteq> consumed st') (sv_rate_limit_store V)"
begin

lemma rates_grow: "rate_store_within grows (sv_rate_limit_store V)"
  using rates by (simp add: rate_store_within_def grows_def)

lemma within_admitted_reset: "within grows (admitted_reset E H V token md)"
  unfolding admitted_reset_def authenticate_password_reset_token_def Let_def
  by (auto intro!: within_intros rates_grow split: sum.split)

lemma reset_consumes:
  assumes "consume_password_reset_token_with_metadata E H V S token md w = (Inr v, w')"
  shows "vr_token_id v \<notin> consumed (w_store w)" "vr_token_id v \<in> consumed (w_store w')"
proof -
  from assms obtain keys permit w1 now w2 where
    a: "admitted_reset E H V token md w = (Inr (v, keys, permit), w1)"
    and b: "store_call H (\<lambda>_. consume_reset_token S (vr_token_id v) now) (w1 \<lparr> w_tick := Suc (w_tick w1) \<rparr>) = (Inr True, w2)"
    and c: "clear_rate_limit_attempts H (sv_rate_limit_store V) (rc_credential (cf_rate_limits (sv_config V)))
       permit w2 = (Inr (), w')"
    by (rule consume_reset_Inr)
  have "grows (w_store w2) (w_store w')"
    using withinD [OF frame.within_clear [OF rates_grow] c] .
  moreover have "grows (w_store w) (w_store (w1 \<lparr> w_tick := Suc (w_tick w1) \<rparr>))"
    using withinD [OF within_admitted_reset a] by simp
  ultimately show "vr_token_id v \<notin> consumed (w_store w)" "vr_token_id v \<in> consumed (w_store w')"
    using flow_consumes_once [OF _ b] by auto
qed

end

interpretation mrc: reset_client mp_consumed MemoryPasswordResetStore_impl idle_host "inert_service J" for J
  by unfold_locales
    (auto simp: MemoryPasswordResetStore_impl_def memory_consume_password_reset_token_def idle_host_def
      intro: inert_rates_within split: if_splits)

text \<open>C32: A password-reset token works at most once. When a consumption succeeds, the token's id
  had not been consumed before and is consumed afterwards, so no later consumption of a token with
  that id succeeds, however other tasks interleave as long as they un-consume nothing. The token
  decoded with the service's key to claims with the issuer and audience of the service, the reset
  purpose and no type other than that of reset tokens (the type may be absent), and had not expired.\<close>

theorem password_reset_single_use:
  assumes client: "reset_client consumed S H V" and wf: "service_wf pair V"
    and jwt: "jwt_laws pair wfc rc_iss (\<lambda>c. JString (rc_aud c)) rc_exp (jl_reset (sv_jwt V))"
    and run: "consume_password_reset_token_with_metadata E H V S token md w = (Inr v, w')"
  shows "vr_token_id v \<notin> consumed (w_store w) \<and> vr_token_id v \<in> consumed (w_store w') \<and>
         (\<forall>w2 token' md' v2 w3. consumed (w_store w') \<subseteq> consumed (w_store w2) \<and>
            consume_password_reset_token_with_metadata E H V S token' md' w2 = (Inr v2, w3) \<longrightarrow>
            vr_token_id v2 \<noteq> vr_token_id v) \<and>
         (\<exists>c now n. jwt_decode (jl_reset (sv_jwt V)) now token (sv_decoding_key V) (sv_validation V) = Inr c \<and>
            rc_iss c = cf_issuer (sv_config V) \<and> rc_aud c = cf_audience (sv_config V) \<and>
            is_none_or (\<lambda>t. t = PASSWORD_RESET_TOKEN_TYPE) (rc_typ c) \<and>
            rc_purpose c = PASSWORD_RESET_TOKEN_PURPOSE \<and> rc_sub c = vr_user_id v \<and>
            uuid_parse_str E (rc_jti c) = Some (vr_token_id v) \<and> h_clock H SystemClock n < vr_expires_at v)"
proof (intro conjI allI impI)
  note consumes = reset_client.reset_consumes [OF client]
  show "vr_token_id v \<notin> consumed (w_store w)" "vr_token_id v \<in> consumed (w_store w')"
    using consumes [OF run] by auto
  then show "vr_token_id v2 \<noteq> vr_token_id v"
    if "consumed (w_store w') \<subseteq> consumed (w_store w2) \<and>
      consume_password_reset_token_with_metadata E H V S token' md' w2 = (Inr v2, w3)" for w2 token' md' v2 w3
    using that consumes(1) [of E token' md' w2 v2 w3] by auto
  from run obtain keys permit w1 where "admitted_reset E H V token md w = (Inr (v, keys, permit), w1)"
    by (rule consume_reset_Inr)
  from admitted_reset_Inr [OF this] obtain w1 w2 where
    "authenticate_password_reset_token E H V token w1 = (Inr v, w2)" by blast
  moreover have "rc_iss c = cf_issuer (sv_config V) \<and> rc_aud c = cf_audience (sv_config V)"
    if "jwt_decode (jl_reset (sv_jwt V)) now token (sv_decoding_key V) (sv_validation V) = Inr c" for c now
    using jwt_laws_decoded(1,2) [OF jwt that] wf
    by (auto simp: service_wf_def validation_for_def Validation_new_def issuer_accepted_def audience_accepted_def)
  ultimately show "\<exists>c now n. jwt_decode (jl_reset (sv_jwt V)) now token (sv_decoding_key V) (sv_validation V) = Inr c \<and>
            rc_iss c = cf_issuer (sv_config V) \<and> rc_aud c = cf_audience (sv_config V) \<and>
            is_none_or (\<lambda>t. t = PASSWORD_RESET_TOKEN_TYPE) (rc_typ c) \<and>
            rc_purpose c = PASSWORD_RESET_TOKEN_PURPOSE \<and> rc_sub c = vr_user_id v \<and>
            uuid_parse_str E (rc_jti c) = Some (vr_token_id v) \<and> h_clock H SystemClock n < vr_expires_at v"
    by (blast elim: authenticate_password_reset_token_Inr)
qed

definition demo_reset_claims :: PasswordResetTokenClaims where
  "demo_reset_claims =
     \<lparr> rc_sub = ''alice'', rc_jti = uuid_to_string std_ext 4, rc_typ = Some PASSWORD_RESET_TOKEN_TYPE,
       rc_purpose = PASSWORD_RESET_TOKEN_PURPOSE, rc_iss = ''agql-auth'', rc_aud = ''agql-auth-clients'',
       rc_exp = 3600, rc_iat = 0 \<rparr>"

definition demo_reset_jwt :: jwt_lib where
  "demo_reset_jwt = (demo_jwt [] []) \<lparr> jl_reset :=
     table_codec demo_pair rc_iss (\<lambda>c. JString (rc_aud c)) rc_exp
       [(''reset'', Header_new HS256, demo_reset_claims, EncodingSecret demo_secret)] \<rparr>"

definition demo_reset_world :: "MemoryPasswordResetStore world" where
  "demo_reset_world = \<lparr> w_store = \<lparr> mp_issued = {4}, mp_consumed = {} \<rparr>, w_tick = 0, w_fresh = 0 \<rparr>"

definition demo_verified_reset :: VerifiedPasswordResetToken where
  "demo_verified_reset = \<lparr> vr_user_id = ''alice'', vr_token_id = 4, vr_issued_at = 0, vr_expires_at = seconds 3600 \<rparr>"

lemma demo_consume_reset:
  "fst (consume_password_reset_token_with_metadata std_ext idle_host (inert_service demo_reset_jwt)
     MemoryPasswordResetStore_impl ''reset'' ClientMetadata_default demo_reset_world) = Inr demo_verified_reset"
proof -
  have "uuid_parse_str std_ext (uuid_to_string std_ext 4) = Some 4"
    using std_ext_uuid_laws by (simp add: uuid_laws_def)
  moreover have "from_unix_timestamp std_ext 3600 = Some (seconds 3600)" "from_unix_timestamp std_ext 0 = Some 0"
    by code_simp+
  ultimately show ?thesis
    by (simp add: consume_password_reset_token_with_metadata_def admitted_reset_def
        authenticate_password_reset_token_def validate_local_jwt_header_def reject_if_rate_limited_def
        clear_rate_limit_attempts_def demo_reset_jwt_def demo_jwt_def table_codec_def demo_reset_claims_def
        inert_service_def demo_service_def demo_pair_def validation_for_def Validation_new_def Header_new_def
        issuer_accepted_def audience_accepted_def MemoryPasswordResetStore_impl_def AuthRateLimitPolicy_disabled_def
        memory_consume_password_reset_token_def demo_reset_world_def demo_verified_reset_def idle_host_def
        bind_def try_catch_def ret_def lift_res_def require_def now_from_def store_call_def Let_def seconds_def)
qed

lemma password_reset_single_use_witness:
  "\<exists>w'. consume_password_reset_token_with_metadata std_ext idle_host (inert_service demo_reset_jwt)
     MemoryPasswordResetStore_impl ''reset'' ClientMetadata_default demo_reset_world = (Inr demo_verified_reset, w') \<and>
     4 \<in> mp_consumed (w_store w') \<and> 4 \<notin> mp_consumed (w_store demo_reset_world)"
proof -
  obtain w' where run: "consume_password_reset_token_with_metadata std_ext idle_host (inert_service demo_reset_jwt)
     MemoryPasswordResetStore_impl ''reset'' ClientMetadata_default demo_reset_world = (Inr demo_verified_reset, w')"
    using demo_consume_reset by (metis prod.collapse)
  have "jwt_laws demo_pair (\<lambda>_. True) rc_iss (\<lambda>c. JString (rc_aud c)) rc_exp (jl_reset (sv_jwt (inert_service demo_reset_jwt)))"
    by (simp add: inert_service_def demo_service_def demo_reset_jwt_def table_codec_laws)
  from password_reset_single_use [OF mrc.reset_client_axioms inert_service_wf this run] run
  show ?thesis by (auto simp: demo_verified_reset_def)
qed

end
