(* ===== verification/Totp.thy ===== *)
theory Totp
  imports One_Time
begin

text \<open>
  Time-based one-time passwords: the replay store of \<open>src/stores.rs\<close> with the in-memory store of
  \<open>src/tests/totp.rs\<close>, and secrets, provisioning and verification from \<open>src/service/totp.rs\<close>. A
  code is shown to be accepted exactly when it is the code of a time step within the allowed skew,
  and through the replay store at most once per step.
\<close>

section \<open>Models and store\<close>

record TotpSecret =
  ts_raw_secret :: bytes
  ts_base32_secret :: string

record TotpProvisioning =
  tp_issuer :: string
  tp_account_name :: string
  tp_secret :: string
  tp_uri :: string

record 'st TotpReplayStore =
  consume_totp_step :: "string \<Rightarrow> string option \<Rightarrow> int \<Rightarrow> time \<Rightarrow> 'st \<Rightarrow> bool AuthResult \<times> 'st"

type_synonym totp_use = "string \<times> string option \<times> int"
type_synonym MemoryTotpReplayStore = "totp_use set"

definition memory_consume_totp_step ::
  "string \<Rightarrow> string option \<Rightarrow> int \<Rightarrow> time \<Rightarrow> MemoryTotpReplayStore \<Rightarrow> bool AuthResult \<times> MemoryTotpReplayStore" where
  "memory_consume_totp_step principal_id factor_id step consumed_at st =
     (Inr ((principal_id, factor_id, step) \<notin> st), insert (principal_id, factor_id, step) st)"

definition MemoryTotpReplayStore_impl :: "MemoryTotpReplayStore TotpReplayStore" where
  "MemoryTotpReplayStore_impl = \<lparr> consume_totp_step = memory_consume_totp_step \<rparr>"

section \<open>Secrets and provisioning\<close>

text \<open>The base-32 encoder and the percent encoder are arguments.\<close>

definition generate_totp_secret ::
  "(bytes \<Rightarrow> string) \<Rightarrow> 'st host \<Rightarrow> nat \<Rightarrow> ('st, TotpSecret) action" where
  "generate_totp_secret base32_encode H num_bytes =
     bind (require (\<not> num_bytes < 10) (InvalidConfiguration ''totp secret must be at least 10 bytes'')) (\<lambda>_.
     bind (random_bytes H) (\<lambda>rnd.
     let raw_secret = take num_bytes rnd in
       ret \<lparr> ts_raw_secret = raw_secret, ts_base32_secret = base32_encode raw_secret \<rparr>))"

definition build_totp_provisioning ::
  "(string \<Rightarrow> string) \<Rightarrow> TotpSecret \<Rightarrow> string \<Rightarrow> string \<Rightarrow> TotpOptions \<Rightarrow> TotpProvisioning AuthResult" where
  "build_totp_provisioning percent_encode secret issuer account_name options =
     bind_res (validate_totp_options options) (\<lambda>_.
     let label = issuer @ '':'' @ account_name;
         uri = ''otpauth://totp/'' @ percent_encode label @ ''?secret='' @
               percent_encode (ts_base32_secret secret) @ ''&issuer='' @ percent_encode issuer @
               ''&algorithm=SHA1&digits='' @ show_nat (unat (to_digits options)) @
               ''&period='' @ show_nat (unat (to_period_seconds options)) in
       Inr \<lparr> tp_issuer = issuer, tp_account_name = account_name, tp_secret = ts_base32_secret secret,
             tp_uri = uri \<rparr>)"

section \<open>Verification\<close>

text \<open>The loop over the offsets of the skew window. The sum of the current step and an offset is one of
  64-bit signed integers: it wraps in a release build, and a build with overflow checks panics
  instead.\<close>

definition i64_add :: "int \<Rightarrow> int \<Rightarrow> int" where
  "i64_add a b = sint (word_of_int (a + b) :: 64 word)"

lemma i64_add_exact: "is_i64 (a + b) \<Longrightarrow> i64_add a b = a + b"
  by (simp add: i64_add_def is_i64_def I64_MIN_def I64_MAX_def sint_sbintrunc' signed_take_bit_int_eq_self
      del: of_int_add)

fun totp_search :: "ext \<Rightarrow> bytes \<Rightarrow> string \<Rightarrow> u32 \<Rightarrow> int list \<Rightarrow> int AuthResult" where
  "totp_search E secret code digits [] = Inl InvalidTotpCode"
| "totp_search E secret code digits (step # steps) =
     (if step < 0 then totp_search E secret code digits steps
      else bind_res (generate_totp_code_for_step E secret (word_of_int step) digits) (\<lambda>expected.
        if expected = code then Inr step else totp_search E secret code digits steps))"

definition verify_totp_code_step ::
  "ext \<Rightarrow> string \<Rightarrow> string \<Rightarrow> TotpOptions \<Rightarrow> time \<Rightarrow> int AuthResult" where
  "verify_totp_code_step E secret_base32 code options now =
     bind_res (validate_totp_options options) (\<lambda>_.
     bind_res (reject_when (\<not> list_all is_ascii_digit code) InvalidTotpCode) (\<lambda>_.
     bind_res (decode_base32_secret E secret_base32) (\<lambda>secret.
     bind_res (totp_step E now (to_period_seconds options)) (\<lambda>current_step.
     bind_res (reject_when (uint (to_allowed_skew options) > I64_MAX)
       (InvalidConfiguration ''invalid totp skew'')) (\<lambda>_.
     let skew = uint (to_allowed_skew options) in
       totp_search E secret code (to_digits options) (map (i64_add current_step) [- skew..skew]))))))"

definition verify_totp_code ::
  "ext \<Rightarrow> string \<Rightarrow> string \<Rightarrow> TotpOptions \<Rightarrow> time \<Rightarrow> unit AuthResult" where
  "verify_totp_code E secret_base32 code options now =
     bind_res (verify_totp_code_step E secret_base32 code options now) (\<lambda>_. Inr ())"

definition verify_totp_code_for_principal ::
  "ext \<Rightarrow> 'st host \<Rightarrow> 'st AuthService \<Rightarrow> string \<Rightarrow> string \<Rightarrow> string \<Rightarrow> TotpOptions \<Rightarrow> time \<Rightarrow>
   ClientMetadata \<Rightarrow> ('st, unit) action" where
  "verify_totp_code_for_principal E H V principal_id secret_base32 code options now metadata =
     (let policy = rc_credential (cf_rate_limits (sv_config V)); rates = sv_rate_limit_store V;
          keys = rate_limit_keys E TotpVerification (Some principal_id) metadata in
      bind (reject_if_rate_limited E H rates policy keys) (\<lambda>permit.
        case verify_totp_code_step E secret_base32 code options now of
          Inr _ \<Rightarrow> clear_rate_limit_attempts H rates policy permit
        | Inl err \<Rightarrow>
            bind (if err = InvalidTotpCode then record_rate_limit_attempt E H rates policy keys else ret ())
              (\<lambda>_. throw err)))"

definition verify_totp_code_with_replay_store_and_metadata ::
  "ext \<Rightarrow> 'st host \<Rightarrow> 'st AuthService \<Rightarrow> 'st TotpReplayStore \<Rightarrow> string \<Rightarrow> string option \<Rightarrow> string \<Rightarrow> string \<Rightarrow>
   TotpOptions \<Rightarrow> time \<Rightarrow> ClientMetadata \<Rightarrow> ('st, unit) action" where
  "verify_totp_code_with_replay_store_and_metadata E H V S principal_id factor_id secret_base32 code options now metadata =
     (let policy = rc_credential (cf_rate_limits (sv_config V)); rates = sv_rate_limit_store V;
          keys = rate_limit_keys E TotpVerification (Some principal_id) metadata in
      bind (reject_if_rate_limited E H rates policy keys) (\<lambda>permit.
      bind (case verify_totp_code_step E secret_base32 code options now of
              Inr step \<Rightarrow> ret step
            | Inl err \<Rightarrow>
                bind (if err = InvalidTotpCode then record_rate_limit_attempt E H rates policy keys else ret ())
                  (\<lambda>_. throw err)) (\<lambda>step.
      bind (store_call H (\<lambda>_. consume_totp_step S principal_id factor_id step now)) (\<lambda>consumed.
        if consumed then clear_rate_limit_attempts H rates policy permit
        else bind (record_rate_limit_attempt E H rates policy keys) (\<lambda>_. throw TotpCodeReplayed)))))"

definition verify_totp_code_with_replay_store ::
  "ext \<Rightarrow> 'st host \<Rightarrow> 'st AuthService \<Rightarrow> 'st TotpReplayStore \<Rightarrow> string \<Rightarrow> string option \<Rightarrow> string \<Rightarrow> string \<Rightarrow>
   TotpOptions \<Rightarrow> time \<Rightarrow> ('st, unit) action" where
  "verify_totp_code_with_replay_store E H V S principal_id factor_id secret_base32 code options now =
     verify_totp_code_with_replay_store_and_metadata E H V S principal_id factor_id secret_base32 code
       options now ClientMetadata_default"

section \<open>Which codes are accepted\<close>

lemma totp_search_Inr:
  "totp_search E secret code digits steps = Inr step \<Longrightarrow>
   step \<in> set steps \<and> 0 \<le> step \<and> generate_totp_code_for_step E secret (word_of_int step) digits = Inr code"
  by (induction steps) (auto simp: res_simps split: if_splits)

lemma totp_search_complete:
  assumes "\<And>s. is_ok (generate_totp_code_for_step E secret s digits)"
    and "step \<in> set steps" "0 \<le> step" "generate_totp_code_for_step E secret (word_of_int step) digits = Inr code"
  shows "\<exists>step'. totp_search E secret code digits steps = Inr step'"
  using assms(2)
proof (induction steps)
  case (Cons s steps)
  obtain c where "generate_totp_code_for_step E secret (word_of_int s) digits = Inr c"
    using assms(1) [of "word_of_int s"] by (auto simp: is_ok_iff)
  with Cons assms(3,4) show ?case by auto
qed simp

lemma totp_code_available:
  assumes "\<And>m. hmac_sha1 E secret m \<noteq> None" and "digits \<le> 8"
  shows "is_ok (generate_totp_code_for_step E secret s digits)"
proof -
  have "unat digits \<le> 8" using assms(2) by (simp add: word_le_nat_alt)
  then have "(10 :: nat) ^ unat digits \<le> 10 ^ 8" by (intro power_increasing) auto
  then have "u32_checked_pow10 digits \<noteq> None" by (simp add: u32_checked_pow10_def)
  with assms(1) [of "to_be_bytes s"] show ?thesis
    by (auto simp: generate_totp_code_for_step_def Let_def)
qed

text \<open>C34: A one-time password is accepted exactly when it is made of digits and is the code of some
  non-negative time step whose distance from the current step is at most the allowed skew. This holds
  for every window of steps within the range of \<open>i64\<close>, where neither bound of the window overflows.\<close>

theorem totp_window_exact:
  assumes options: "validate_totp_options options = Inr ()"
    and secret: "decode_base32_secret E secret_base32 = Inr secret" and hmac: "\<And>m. hmac_sha1 E secret m \<noteq> None"
    and current: "totp_step E now (to_period_seconds options) = Inr current"
    and window: "is_i64 (current - uint (to_allowed_skew options))" "is_i64 (current + uint (to_allowed_skew options))"
  shows "(\<exists>step. verify_totp_code_step E secret_base32 code options now = Inr step) \<longleftrightarrow>
         list_all is_ascii_digit code \<and>
         (\<exists>step. 0 \<le> step \<and> \<bar>step - current\<bar> \<le> uint (to_allowed_skew options) \<and>
            generate_totp_code_for_step E secret (word_of_int step) (to_digits options) = Inr code)"
proof -
  let ?k = "uint (to_allowed_skew options)"
  let ?steps = "map (i64_add current) [- ?k..?k]"
  have skew: "?k \<le> I64_MAX" using window by (simp add: is_i64_def I64_MIN_def I64_MAX_def)
  have exact: "?steps = map (\<lambda>offset. current + offset) [- ?k..?k]"
    using window by (auto simp: is_i64_def intro!: i64_add_exact)
  have run: "verify_totp_code_step E secret_base32 code options now =
      (if list_all is_ascii_digit code then totp_search E secret code (to_digits options) ?steps else Inl InvalidTotpCode)"
    using options secret current skew by (simp add: verify_totp_code_step_def Let_def)
  have steps: "step \<in> set ?steps \<longleftrightarrow> \<bar>step - current\<bar> \<le> ?k" for step
    unfolding exact
  proof
    assume "\<bar>step - current\<bar> \<le> ?k"
    then have "step - current \<in> set [- ?k..?k]" by auto
    then show "step \<in> set (map (\<lambda>offset. current + offset) [- ?k..?k])" by (auto intro!: image_eqI [of _ _ "step - current"])
  qed auto
  have ok: "is_ok (generate_totp_code_for_step E secret s (to_digits options))" for s
    using options by (intro totp_code_available hmac) (simp add: validate_totp_options_def bind_res_unit_Inr)
  show ?thesis
    using totp_search_Inr totp_search_complete [OF ok] steps unfolding run by (metis (no_types, lifting) Inl_Inr_False)
qed

lemma demo_step: "totp_step std_ext 0 30 = Inr 0"
  by (simp add: totp_step_def I64_MAX_def std_ext_simps)

lemma demo_totp_secret: "decode_base32_secret std_ext ''AB'' = Inr [65, 66]"
  by (simp add: decode_base32_secret_def std_ext_def is_ascii_alphanumeric_def is_ascii_upper_def ord_def)

lemma demo_totp_code: "generate_totp_code_for_step std_ext [65, 66] 1 6 = Inr ''653132''"
proof -
  have "to_be_bytes 1 = [0, 0, 0, 0, 0, 0, 0, 1]"
    by (simp add: to_be_bytes_def upt_rec)
  then have "hmac_sha1 std_ext [65, 66] (to_be_bytes 1) = Some (map (\<lambda>i. of_nat i + 3) [0..<20])"
    by (simp add: std_ext_def upt_rec)
  moreover have "show_padded 6 653132 = ''653132''"
    by (simp add: show_padded_def show_nat.simps char_of_def bit_numeral_rec bit_Suc_0_iff)
  ultimately show ?thesis
    by (simp add: generate_totp_code_for_step_def u32_checked_pow10_def Let_def)
qed

lemma totp_window_exact_witness:
  "\<exists>step. verify_totp_code_step std_ext ''AB'' ''653132'' TotpOptions_default 0 = Inr step"
proof -
  have digits: "list_all is_ascii_digit ''653132''" by code_simp
  have "validate_totp_options TotpOptions_default = Inr ()"
    by (simp add: validate_totp_options_def TotpOptions_default_def)
  from totp_window_exact [OF this demo_totp_secret, of 0 0 "''653132''"] digits demo_totp_code demo_step
  show ?thesis
    by (auto simp: TotpOptions_default_def is_i64_def I64_MIN_def I64_MAX_def std_ext_def intro!: exI [of _ 1])
qed

section \<open>Accepted at most once\<close>

lemma verify_with_replay_Inr:
  assumes "verify_totp_code_with_replay_store_and_metadata E H V S p f secret_base32 code options now md w = (Inr (), w')"
  obtains step permit w1 w2 where
    "verify_totp_code_step E secret_base32 code options now = Inr step"
    and "reject_if_rate_limited E H (sv_rate_limit_store V) (rc_credential (cf_rate_limits (sv_config V)))
       (rate_limit_keys E TotpVerification (Some p) md) w = (Inr permit, w1)"
    and "store_call H (\<lambda>_. consume_totp_step S p f step now) w1 = (Inr True, w2)"
    and "clear_rate_limit_attempts H (sv_rate_limit_store V) (rc_credential (cf_rate_limits (sv_config V)))
       permit w2 = (Inr (), w')"
  using assms that unfolding verify_totp_code_with_replay_store_and_metadata_def Let_def
  by (fastforce simp: bind_eq_Inr ret_eq throw_eq split: sum.splits if_splits)

locale totp_client =
  one_time_client consumed "\<lambda>(p, f, step) t. consume_totp_step S p f step t" H
  for consumed :: "'st \<Rightarrow> totp_use set" and S :: "'st TotpReplayStore" and H :: "'st host" +
  fixes V :: "'st AuthService"
  assumes rates: "rate_store_within (\<lambda>st st'. consumed st \<subseteq> consumed st') (sv_rate_limit_store V)"
begin

lemma rates_grow: "rate_store_within grows (sv_rate_limit_store V)"
  using rates by (simp add: rate_store_within_def grows_def)

lemma code_consumes:
  assumes "verify_totp_code_with_replay_store_and_metadata E H V S p f secret_base32 code options now md w = (Inr (), w')"
  shows "\<exists>step. verify_totp_code_step E secret_base32 code options now = Inr step \<and>
    (p, f, step) \<notin> consumed (w_store w) \<and> (p, f, step) \<in> consumed (w_store w')"
proof -
  from assms obtain step permit w1 w2 where
    v: "verify_totp_code_step E secret_base32 code options now = Inr step"
    and r: "reject_if_rate_limited E H (sv_rate_limit_store V) (rc_credential (cf_rate_limits (sv_config V)))
       (rate_limit_keys E TotpVerification (Some p) md) w = (Inr permit, w1)"
    and b: "store_call H (\<lambda>_. consume_totp_step S p f step now) w1 = (Inr True, w2)"
    and c: "clear_rate_limit_attempts H (sv_rate_limit_store V) (rc_credential (cf_rate_limits (sv_config V)))
       permit w2 = (Inr (), w')"
    by (rule verify_with_replay_Inr)
  show ?thesis
    using flow_consumes_once [of w w1 "(p, f, step)" now w2 w'] v b
      withinD [OF frame.within_reject [OF rates_grow] r] withinD [OF frame.within_clear [OF rates_grow] c] by auto
qed

end

interpretation mtc: totp_client "\<lambda>st. st" MemoryTotpReplayStore_impl idle_host "inert_service J" for J
  by unfold_locales
    (auto simp: MemoryTotpReplayStore_impl_def memory_consume_totp_step_def idle_host_def
      intro: inert_rates_within)

text \<open>C33: Through the replay store a one-time password works at most once. When a verification
  succeeds, the matching time step had not been used by this principal and factor before and is
  used afterwards; so however other tasks interleave, no later verification of the same principal
  and factor succeeds with a code that matches the same step.\<close>

theorem totp_code_single_use:
  assumes client: "totp_client consumed S H V"
    and run: "verify_totp_code_with_replay_store_and_metadata E H V S p f secret_base32 code options now md w = (Inr (), w')"
  shows "\<exists>step. verify_totp_code_step E secret_base32 code options now = Inr step \<and>
    (p, f, step) \<notin> consumed (w_store w) \<and> (p, f, step) \<in> consumed (w_store w') \<and>
    (\<forall>w2 code' options' now' md' r w3. consumed (w_store w') \<subseteq> consumed (w_store w2) \<and>
       verify_totp_code_step E secret_base32 code' options' now' = Inr step \<and>
       verify_totp_code_with_replay_store_and_metadata E H V S p f secret_base32 code' options' now' md' w2 = (r, w3) \<longrightarrow>
       \<not> is_ok r)"
proof -
  note consumes = totp_client.code_consumes [OF client]
  from consumes [OF run] obtain step where
    v: "verify_totp_code_step E secret_base32 code options now = Inr step"
    and fresh: "(p, f, step) \<notin> consumed (w_store w)" and used: "(p, f, step) \<in> consumed (w_store w')" by blast
  have "\<not> is_ok r" if "consumed (w_store w') \<subseteq> consumed (w_store w2)"
    "verify_totp_code_step E secret_base32 code' options' now' = Inr step"
    "verify_totp_code_with_replay_store_and_metadata E H V S p f secret_base32 code' options' now' md' w2 = (r, w3)"
    for w2 code' options' now' md' r w3
    using that used consumes [of E p f secret_base32 code' options' now' md' w2 w3] by (auto simp: is_ok_iff)
  with v fresh used show ?thesis by blast
qed

lemma demo_verify_step: "verify_totp_code_step std_ext ''AB'' ''653132'' (TotpOptions_default \<lparr> to_allowed_skew := 0 \<rparr>) (seconds 30) = Inr 1"
proof -
  have "totp_step std_ext (seconds 30) 30 = Inr 1" "list_all is_ascii_digit ''653132''"
    by (simp add: totp_step_def I64_MAX_def std_ext_simps seconds_def) code_simp
  then show ?thesis
    by (simp add: verify_totp_code_step_def validate_totp_options_def TotpOptions_default_def demo_totp_secret
        demo_totp_code I64_MAX_def Let_def i64_add_def)
qed

lemma totp_code_single_use_witness:
  "\<exists>w'. verify_totp_code_with_replay_store_and_metadata std_ext idle_host (inert_service (demo_jwt [] []))
     MemoryTotpReplayStore_impl ''alice'' None ''AB'' ''653132'' (TotpOptions_default \<lparr> to_allowed_skew := 0 \<rparr>)
     (seconds 30) ClientMetadata_default \<lparr> w_store = {}, w_tick = 0, w_fresh = 0 \<rparr> = (Inr (), w') \<and>
     (''alice'', None, 1) \<in> w_store w'"
proof -
  have "fst (verify_totp_code_with_replay_store_and_metadata std_ext idle_host (inert_service (demo_jwt [] []))
     MemoryTotpReplayStore_impl ''alice'' None ''AB'' ''653132'' (TotpOptions_default \<lparr> to_allowed_skew := 0 \<rparr>)
     (seconds 30) ClientMetadata_default \<lparr> w_store = {}, w_tick = 0, w_fresh = 0 \<rparr>) = Inr ()"
    by (simp add: verify_totp_code_with_replay_store_and_metadata_def demo_verify_step reject_if_rate_limited_def
        clear_rate_limit_attempts_def MemoryTotpReplayStore_impl_def memory_consume_totp_step_def idle_host_def
        bind_def ret_def store_call_def Let_def)
  then obtain w' where run: "verify_totp_code_with_replay_store_and_metadata std_ext idle_host (inert_service (demo_jwt [] []))
     MemoryTotpReplayStore_impl ''alice'' None ''AB'' ''653132'' (TotpOptions_default \<lparr> to_allowed_skew := 0 \<rparr>)
     (seconds 30) ClientMetadata_default \<lparr> w_store = {}, w_tick = 0, w_fresh = 0 \<rparr> = (Inr (), w')"
    by (metis prod.collapse)
  from totp_code_single_use [OF mtc.totp_client_axioms run] run demo_verify_step show ?thesis by auto
qed

end
