(* ===== verification/Keys.thy ===== *)
theory Keys
  imports Service
begin

text \<open>
  Verification keys of resource servers (\<open>src/keys.rs\<close>): the static RS256, HS256 and JWKS
  resolvers, and the rotating key set with its staleness policy and its bookkeeping of forced
  refreshes. The forced refreshes a host is told to perform are shown to be spaced by the
  cooldown and never to overlap.
\<close>

section \<open>Resolvers\<close>

record ResolvedKey =
  rk_decoding_key :: DecodingKey
  rk_algorithm :: Algorithm
  rk_kid :: "string option"

text \<open>The trait: a call that may read a clock and shared state.\<close>

type_synonym 'st AccessTokenKeyResolver = "string option \<Rightarrow> ('st, ResolvedKey) action"

record StaticRs256Key =
  sr_decoding_key :: DecodingKey
  sr_kid :: "string option"

definition StaticRs256Key_from_pem :: "jwt_lib \<Rightarrow> string \<Rightarrow> string option \<Rightarrow> StaticRs256Key AuthResult" where
  "StaticRs256Key_from_pem J public_key_pem kid =
     bind_res (ok_or (InvalidConfiguration ''invalid RS256 public key PEM'')
       (jl_decoding_from_rsa_pem J public_key_pem)) (\<lambda>decoding_key.
       Inr \<lparr> sr_decoding_key = decoding_key, sr_kid = kid \<rparr>)"

definition static_rs256_resolve :: "StaticRs256Key \<Rightarrow> string option \<Rightarrow> ResolvedKey AuthResult" where
  "static_rs256_resolve key kid =
     (if sr_kid key \<noteq> None \<and> kid \<noteq> None \<and> sr_kid key \<noteq> kid then Inl InvalidAccessToken
      else if sr_kid key \<noteq> None \<and> kid = None then Inl InvalidAccessToken
      else Inr \<lparr> rk_decoding_key = sr_decoding_key key, rk_algorithm = RS256, rk_kid = sr_kid key \<rparr>)"

record StaticHs256Key =
  sh_decoding_key :: DecodingKey
  sh_kid :: "string option"

definition StaticHs256Key_from_secret :: "string \<Rightarrow> string option \<Rightarrow> StaticHs256Key AuthResult" where
  "StaticHs256Key_from_secret secret kid =
     (if length secret < 32
      then Inl (InvalidConfiguration ''HS256 secret must be at least 32 bytes'')
      else Inr \<lparr> sh_decoding_key = DecodingSecret secret, sh_kid = kid \<rparr>)"

definition static_hs256_resolve :: "StaticHs256Key \<Rightarrow> string option \<Rightarrow> ResolvedKey AuthResult" where
  "static_hs256_resolve key kid =
     (if sh_kid key \<noteq> None \<and> kid \<noteq> None \<and> sh_kid key \<noteq> kid then Inl InvalidAccessToken
      else Inr \<lparr> rk_decoding_key = sh_decoding_key key, rk_algorithm = HS256, rk_kid = sh_kid key \<rparr>)"

text \<open>A JWK as the JWT crate parses it; \<open>jx_parse\<close> reads a document and \<open>jx_from_jwk\<close> makes a
  verification key of one entry.\<close>

record Jwk =
  jk_key_id :: "string option"
  jk_material :: string

record jwks_lib =
  jx_parse :: "string \<Rightarrow> Jwk list option"
  jx_from_jwk :: "Jwk \<Rightarrow> DecodingKey option"

record StaticJwksKeySet =
  js_keys_by_kid :: "(string \<times> DecodingKey) list"
  js_single_key :: "(string option \<times> DecodingKey) option"

definition jwk_key :: "jwks_lib \<Rightarrow> Jwk \<Rightarrow> DecodingKey AuthResult" where
  "jwk_key X jwk = ok_or (InvalidConfiguration ''unsupported JWKS key'') (jx_from_jwk X jwk)"

fun collect_keys :: "jwks_lib \<Rightarrow> Jwk list \<Rightarrow> (string \<times> DecodingKey) list \<Rightarrow> (string \<times> DecodingKey) list AuthResult" where
  "collect_keys X [] keys_by_kid = Inr keys_by_kid"
| "collect_keys X (jwk # jwks) keys_by_kid =
     bind_res (jwk_key X jwk) (\<lambda>key.
       collect_keys X jwks (case jk_key_id jwk of
           Some kid \<Rightarrow> AList.update kid key keys_by_kid
         | None \<Rightarrow> keys_by_kid))"

definition StaticJwksKeySet_from_jwks_json :: "jwks_lib \<Rightarrow> string \<Rightarrow> StaticJwksKeySet AuthResult" where
  "StaticJwksKeySet_from_jwks_json X jwks_json =
     bind_res (ok_or (InvalidConfiguration ''invalid JWKS JSON document'') (jx_parse X jwks_json)) (\<lambda>jwks.
     bind_res (reject_when (jwks = []) (InvalidConfiguration ''JWKS document contains no keys'')) (\<lambda>_.
     bind_res (collect_keys X jwks []) (\<lambda>keys_by_kid.
     bind_res (case jwks of
                 [jwk] \<Rightarrow> bind_res (jwk_key X jwk) (\<lambda>key. Inr (Some (jk_key_id jwk, key)))
               | _ \<Rightarrow> Inr None) (\<lambda>single_key.
       Inr \<lparr> js_keys_by_kid = keys_by_kid, js_single_key = single_key \<rparr>))))"

definition static_jwks_resolve :: "StaticJwksKeySet \<Rightarrow> string option \<Rightarrow> ResolvedKey AuthResult" where
  "static_jwks_resolve keys kid =
     (case kid of
        Some kid \<Rightarrow> (case map_of (js_keys_by_kid keys) kid of
            Some key \<Rightarrow> Inr \<lparr> rk_decoding_key = key, rk_algorithm = RS256, rk_kid = Some kid \<rparr>
          | None \<Rightarrow> Inl InvalidAccessToken)
      | None \<Rightarrow> (case js_single_key keys of
            Some (kid, key) \<Rightarrow> Inr \<lparr> rk_decoding_key = key, rk_algorithm = RS256, rk_kid = kid \<rparr>
          | None \<Rightarrow> Inl InvalidAccessToken))"

section \<open>The rotating key set\<close>

datatype StaleKeyPolicy = UseStale | RejectStale

definition StaleKeyPolicy_default :: StaleKeyPolicy where "StaleKeyPolicy_default = UseStale"

text \<open>A \<open>std::time::Duration\<close> is a number of nanoseconds; \<open>as_secs() as i64\<close> drops the fraction and
  wraps.\<close>

type_synonym StdDuration = nat

definition std_secs :: "nat \<Rightarrow> StdDuration" where "std_secs n = n * 1000000000"

definition as_secs_i64 :: "StdDuration \<Rightarrow> int" where
  "as_secs_i64 d = sint (of_nat (d div 1000000000) :: 64 word)"

record KeyRefreshPolicy =
  kp_cache_ttl :: StdDuration
  kp_unknown_kid_cooldown :: StdDuration
  kp_stale_policy :: StaleKeyPolicy

definition KeyRefreshPolicy_default :: KeyRefreshPolicy where
  "KeyRefreshPolicy_default =
     \<lparr> kp_cache_ttl = std_secs 300, kp_unknown_kid_cooldown = std_secs 30, kp_stale_policy = RejectStale \<rparr>"

record RotatingJwksState =
  rj_key_set :: StaticJwksKeySet
  rj_loaded_at :: time
  rj_last_forced_refresh_at :: "time option"
  rj_refresh_in_flight :: bool

text \<open>The state behind its mutex; a panic while the lock is held poisons it.\<close>

record RotatingMutex =
  rm_state :: RotatingJwksState
  rm_poisoned :: bool

definition RotatingJwksKeySet_with_clock :: "jwks_lib \<Rightarrow> string \<Rightarrow> time \<Rightarrow> RotatingMutex AuthResult" where
  "RotatingJwksKeySet_with_clock X jwks_json now =
     bind_res (StaticJwksKeySet_from_jwks_json X jwks_json) (\<lambda>key_set.
       Inr \<lparr> rm_state = \<lparr> rj_key_set = key_set, rj_loaded_at = now, rj_last_forced_refresh_at = None,
                         rj_refresh_in_flight = False \<rparr>, rm_poisoned = False \<rparr>)"

definition replace_jwks :: "jwks_lib \<Rightarrow> string \<Rightarrow> time \<Rightarrow> RotatingMutex \<Rightarrow> unit AuthResult \<times> RotatingMutex" where
  "replace_jwks X jwks_json now m =
     (case StaticJwksKeySet_from_jwks_json X jwks_json of
        Inl e \<Rightarrow> (Inl e, m)
      | Inr key_set \<Rightarrow>
          if rm_poisoned m then (Inl (InvalidConfiguration ''key set lock poisoned''), m)
          else (Inr (), m \<lparr> rm_state := (rm_state m) \<lparr> rj_key_set := key_set, rj_loaded_at := now,
                                                      rj_refresh_in_flight := False \<rparr> \<rparr>))"

definition cooldown_elapsed :: "KeyRefreshPolicy \<Rightarrow> time \<Rightarrow> RotatingJwksState \<Rightarrow> bool" where
  "cooldown_elapsed policy now s =
     (case rj_last_forced_refresh_at s of
        None \<Rightarrow> True
      | Some last_at \<Rightarrow> now - last_at \<ge> seconds (as_secs_i64 (kp_unknown_kid_cooldown policy)))"

definition should_force_refresh_for_unknown_kid :: "KeyRefreshPolicy \<Rightarrow> time \<Rightarrow> RotatingMutex \<Rightarrow> bool" where
  "should_force_refresh_for_unknown_kid policy now m =
     (if rm_poisoned m then False else cooldown_elapsed policy now (rm_state m))"

text \<open>The clock is read for the comparison and again for the new timestamp.\<close>

definition begin_forced_refresh :: "KeyRefreshPolicy \<Rightarrow> time \<Rightarrow> time \<Rightarrow> RotatingMutex \<Rightarrow> bool \<times> RotatingMutex" where
  "begin_forced_refresh policy now now' m =
     (if rm_poisoned m then (False, m)
      else if rj_refresh_in_flight (rm_state m) then (False, m)
      else if \<not> cooldown_elapsed policy now (rm_state m) then (False, m)
      else (True, m \<lparr> rm_state := (rm_state m) \<lparr> rj_refresh_in_flight := True,
                                                rj_last_forced_refresh_at := Some now' \<rparr> \<rparr>))"

definition end_forced_refresh :: "RotatingMutex \<Rightarrow> RotatingMutex" where
  "end_forced_refresh m =
     (if rm_poisoned m then m else m \<lparr> rm_state := (rm_state m) \<lparr> rj_refresh_in_flight := False \<rparr> \<rparr>)"

definition is_stale :: "RotatingJwksState \<Rightarrow> time \<Rightarrow> KeyRefreshPolicy \<Rightarrow> bool" where
  "is_stale s now policy \<longleftrightarrow> now - rj_loaded_at s \<ge> seconds (as_secs_i64 (kp_cache_ttl policy))"

definition rotating_resolve :: "KeyRefreshPolicy \<Rightarrow> time \<Rightarrow> string option \<Rightarrow> RotatingMutex \<Rightarrow> ResolvedKey AuthResult" where
  "rotating_resolve policy now kid m =
     (if rm_poisoned m then Inl (InvalidConfiguration ''key set lock poisoned'')
      else if is_stale (rm_state m) now policy \<and> kp_stale_policy policy = RejectStale
      then Inl AuthServiceUnavailable
      else static_jwks_resolve (rj_key_set (rm_state m)) kid)"

text \<open>The built-in resolvers as trait objects; the rotating set lives in the shared state.\<close>

definition static_resolver :: "(string option \<Rightarrow> ResolvedKey AuthResult) \<Rightarrow> 'st AccessTokenKeyResolver" where
  "static_resolver resolve kid = lift_res (resolve kid)"

definition rotating_resolver ::
  "'st host \<Rightarrow> ('st \<Rightarrow> RotatingMutex) \<Rightarrow> ClockId \<Rightarrow> KeyRefreshPolicy \<Rightarrow> 'st AccessTokenKeyResolver" where
  "rotating_resolver H mutex clock policy kid =
     host_call H (\<lambda>n st. rotating_resolve policy (h_clock H clock n) kid (mutex st))"

section \<open>Forced refreshes\<close>

text \<open>Any sequence of calls on one key set, by any number of tasks: the mutex makes each call
  atomic. A trace collects the timestamps of the refreshes that were granted.\<close>

datatype refresh_op =
    BeginRefresh time time
  | EndRefresh
  | ReplaceKeys string time

fun refresh_step :: "jwks_lib \<Rightarrow> KeyRefreshPolicy \<Rightarrow> refresh_op \<Rightarrow> RotatingMutex \<Rightarrow> RotatingMutex" where
  "refresh_step X policy (BeginRefresh now now') m = snd (begin_forced_refresh policy now now' m)"
| "refresh_step X policy EndRefresh m = end_forced_refresh m"
| "refresh_step X policy (ReplaceKeys json now) m = snd (replace_jwks X json now m)"

fun granted_refreshes :: "jwks_lib \<Rightarrow> KeyRefreshPolicy \<Rightarrow> refresh_op list \<Rightarrow> RotatingMutex \<Rightarrow> time list" where
  "granted_refreshes X policy [] m = []"
| "granted_refreshes X policy (BeginRefresh now now' # ops) m =
     (let (granted, m') = begin_forced_refresh policy now now' m in
      (if granted then [now'] else []) @ granted_refreshes X policy ops m')"
| "granted_refreshes X policy (EndRefresh # ops) m = granted_refreshes X policy ops (end_forced_refresh m)"
| "granted_refreshes X policy (ReplaceKeys json now # ops) m =
     granted_refreshes X policy ops (snd (replace_jwks X json now m))"

fun clock_forward :: "refresh_op \<Rightarrow> bool" where
  "clock_forward (BeginRefresh now now') = (now \<le> now')"
| "clock_forward _ = True"

fun completes :: "refresh_op \<Rightarrow> bool" where
  "completes (BeginRefresh _ _) = False"
| "completes _ = True"

abbreviation refresh_cooldown :: "KeyRefreshPolicy \<Rightarrow> duration" where
  "refresh_cooldown policy \<equiv> seconds (as_secs_i64 (kp_unknown_kid_cooldown policy))"

abbreviation last_refresh :: "RotatingMutex \<Rightarrow> time option" where
  "last_refresh m \<equiv> rj_last_forced_refresh_at (rm_state m)"

abbreviation in_flight :: "RotatingMutex \<Rightarrow> bool" where
  "in_flight m \<equiv> rj_refresh_in_flight (rm_state m)"

lemma completion_keeps_last [simp]:
  "last_refresh (end_forced_refresh m) = last_refresh m"
  "last_refresh (snd (replace_jwks X json now m)) = last_refresh m"
  by (auto simp: end_forced_refresh_def replace_jwks_def split: sum.split)

lemma begin_granted:
  assumes "begin_forced_refresh policy now now' m = (True, m')"
  shows "\<not> in_flight m" "last_refresh m' = Some now'" "in_flight m'"
    "is_none_or (\<lambda>l. l + refresh_cooldown policy \<le> now) (last_refresh m)"
  using assms
  by (auto simp: begin_forced_refresh_def cooldown_elapsed_def is_none_or_iff split: if_splits option.splits)

lemma begin_refused: "begin_forced_refresh policy now now' m = (False, m') \<Longrightarrow> m' = m"
  by (auto simp: begin_forced_refresh_def split: if_splits)

lemma granted_spaced:
  assumes "list_all clock_forward ops"
  shows "successively (\<lambda>a b. a + refresh_cooldown policy \<le> b)
    ((case last_refresh m of None \<Rightarrow> [] | Some t \<Rightarrow> [t]) @ granted_refreshes X policy ops m)"
  using assms
proof (induction X policy ops m rule: granted_refreshes.induct)
  case (2 X policy now now' ops m)
  obtain granted m' where b: "begin_forced_refresh policy now now' m = (granted, m')" by fastforce
  note IH = 2(1) [OF b [symmetric] refl]
  show ?case
  proof (cases granted)
    case True
    with b have g: "begin_forced_refresh policy now now' m = (True, m')" by simp
    from IH True 2(2) begin_granted(2) [OF g]
    have "successively (\<lambda>a b. a + refresh_cooldown policy \<le> b) (now' # granted_refreshes X policy ops m')"
      by simp
    moreover have "l + refresh_cooldown policy \<le> now'" if "last_refresh m = Some l" for l
      using begin_granted(4) [OF g] that 2(2) by (auto simp: is_none_or_iff)
    ultimately show ?thesis using b True by (auto split: option.split)
  next
    case False
    with b begin_refused [of policy now now' m m'] IH 2(2) show ?thesis by simp
  qed
qed (auto split: option.splits)

lemma granted_bounded:
  "length (granted_refreshes X policy ops m) + (if in_flight m then 1 else 0) \<le> 1 + length (filter completes ops)"
proof (induction X policy ops m rule: granted_refreshes.induct)
  case (2 X policy now now' ops m)
  obtain granted m' where b: "begin_forced_refresh policy now now' m = (granted, m')" by fastforce
  note IH = 2 [OF b [symmetric] refl]
  show ?case
  proof (cases granted)
    case True
    with b begin_granted(1,3) [of policy now now' m m'] IH show ?thesis by simp
  next
    case False
    with b begin_refused [of policy now now' m m'] IH show ?thesis by simp
  qed
qed (auto split: if_splits)

text \<open>C36: However tasks interleave their calls on a rotating key set, the forced refreshes that are
  granted lie at least the configured cooldown apart, and they never overlap: there is at most one
  more grant than there are completed or failed refreshes. The only assumption is that the second
  clock reading of a call is not before the first.\<close>

theorem forced_refreshes_spaced:
  assumes "list_all clock_forward ops"
  shows "successively (\<lambda>a b. a + seconds (as_secs_i64 (kp_unknown_kid_cooldown policy)) \<le> b)
           (granted_refreshes X policy ops m) \<and>
         length (granted_refreshes X policy ops m) \<le> 1 + length (filter completes ops)"
proof
  show "successively (\<lambda>a b. a + refresh_cooldown policy \<le> b) (granted_refreshes X policy ops m)"
    using granted_spaced [OF assms, of policy m X]
    by (cases "last_refresh m") (auto simp: successively_Cons)
  show "length (granted_refreshes X policy ops m) \<le> 1 + length (filter completes ops)"
    using granted_bounded [of X policy ops m] by simp
qed

definition demo_jwks_lib :: jwks_lib where
  "demo_jwks_lib = \<lparr> jx_parse = (\<lambda>json. Some [\<lparr> jk_key_id = Some json, jk_material = json \<rparr>]),
     jx_from_jwk = (\<lambda>jwk. Some (DecodingRsaPem (jk_material jwk))) \<rparr>"

definition demo_rotating :: RotatingMutex where
  "demo_rotating = \<lparr> rm_state = \<lparr> rj_key_set = \<lparr> js_keys_by_kid = [], js_single_key = None \<rparr>, rj_loaded_at = 0,
     rj_last_forced_refresh_at = None, rj_refresh_in_flight = False \<rparr>, rm_poisoned = False \<rparr>"

lemma forced_refreshes_spaced_witness:
  "granted_refreshes demo_jwks_lib KeyRefreshPolicy_default
     [BeginRefresh 0 0, BeginRefresh (seconds 40) (seconds 40), EndRefresh, BeginRefresh (seconds 10) (seconds 10),
      BeginRefresh (seconds 31) (seconds 31)] demo_rotating = [0, seconds 31] \<and>
   (0 :: int) + seconds (as_secs_i64 (std_secs 30)) \<le> seconds 31"
proof -
  let ?ops = "[BeginRefresh 0 0, BeginRefresh (seconds 40) (seconds 40), EndRefresh,
    BeginRefresh (seconds 10) (seconds 10), BeginRefresh (seconds 31) (seconds 31)]"
  have grants: "granted_refreshes demo_jwks_lib KeyRefreshPolicy_default ?ops demo_rotating = [0, seconds 31]"
    by (simp add: begin_forced_refresh_def cooldown_elapsed_def end_forced_refresh_def demo_rotating_def
        KeyRefreshPolicy_default_def as_secs_i64_def std_secs_def seconds_def)
  have "list_all clock_forward ?ops" by simp
  from forced_refreshes_spaced [OF this, of KeyRefreshPolicy_default demo_jwks_lib demo_rotating] grants
  show ?thesis by (simp add: KeyRefreshPolicy_default_def)
qed

section \<open>Stale keys\<close>

text \<open>Under the reject policy a key is only handed out from a document loaded less than the cache
  lifetime ago, and it is the key that document has under the requested id.\<close>

lemma rotating_resolve_Inr:
  assumes "rotating_resolve policy now kid m = Inr key"
  shows "kp_stale_policy policy = RejectStale \<Longrightarrow>
      now < rj_loaded_at (rm_state m) + seconds (as_secs_i64 (kp_cache_ttl policy))"
    "static_jwks_resolve (rj_key_set (rm_state m)) kid = Inr key" "rk_algorithm key = RS256"
  using assms
  by (auto simp: rotating_resolve_def is_stale_def static_jwks_resolve_def split: if_splits option.splits)

end
