(* ===== verification/Graphql.thy ===== *)
theory Graphql
  imports Models
begin

text \<open>
  The GraphQL boundary: the type-indexed request data with its accessors (\<open>src/graphql.rs\<close>), the
  host-verified channel identity (\<open>src/channel.rs\<close>), the guards (\<open>src/guards.rs\<close>), the audit
  decisions (\<open>src/decision.rs\<close>) and the refresh-cookie extraction of \<open>src/graphql.rs\<close>.
\<close>

section \<open>Request data\<close>

type_synonym AuthRuntime = ScopeMatch

record ChannelIdentity =
  ci_scheme :: string
  ci_subject :: string
  ci_claims :: "(string \<times> string) list"

definition ChannelIdentity_new :: "string \<Rightarrow> string \<Rightarrow> ChannelIdentity" where
  "ChannelIdentity_new scheme subject = \<lparr> ci_scheme = scheme, ci_subject = subject, ci_claims = [] \<rparr>"

definition channel_with_claim :: "string \<Rightarrow> string \<Rightarrow> ChannelIdentity \<Rightarrow> ChannelIdentity" where
  "channel_with_claim key value c = c \<lparr> ci_claims := btm_insert key value (ci_claims c) \<rparr>"

text \<open>The data of a request is indexed by type: one slot per type this crate reads, and the last
  value written to a slot is the one read.\<close>

record request_data =
  rd_user :: "AuthUser option"
  rd_api_token :: "ApiTokenPrincipal option"
  rd_principal :: "AuthPrincipal option"
  rd_runtime :: "AuthRuntime option"
  rd_channel :: "ChannelIdentity option"

definition empty_data :: request_data where
  "empty_data = \<lparr> rd_user = None, rd_api_token = None, rd_principal = None, rd_runtime = None, rd_channel = None \<rparr>"

type_synonym 'a GraphqlResult = "GraphqlError + 'a"

definition auth_user_from_ctx_opt :: "request_data \<Rightarrow> AuthUser option" where
  "auth_user_from_ctx_opt ctx = rd_user ctx"

definition auth_user_from_ctx :: "request_data \<Rightarrow> AuthUser GraphqlResult" where
  "auth_user_from_ctx ctx = ok_or (Errors.extend Unauthenticated) (rd_user ctx)"

definition principal_from_ctx_opt :: "request_data \<Rightarrow> AuthPrincipal option" where
  "principal_from_ctx_opt ctx =
     (case rd_principal ctx of
        Some p \<Rightarrow> Some p
      | None \<Rightarrow> (case rd_user ctx of
           Some u \<Rightarrow> Some (User u)
         | None \<Rightarrow> map_option ApiToken (rd_api_token ctx)))"

definition principal_from_ctx :: "request_data \<Rightarrow> AuthPrincipal GraphqlResult" where
  "principal_from_ctx ctx = ok_or (Errors.extend Unauthenticated) (principal_from_ctx_opt ctx)"

definition auth_runtime_from_ctx_opt :: "request_data \<Rightarrow> AuthRuntime option" where
  "auth_runtime_from_ctx_opt ctx = rd_runtime ctx"

definition scope_matcher_from_ctx :: "request_data \<Rightarrow> ScopeMatch" where
  "scope_matcher_from_ctx ctx = (case auth_runtime_from_ctx_opt ctx of Some m \<Rightarrow> m | None \<Rightarrow> ExactScopeMatch)"

definition channel_identity_from_ctx_opt :: "request_data \<Rightarrow> ChannelIdentity option" where
  "channel_identity_from_ctx_opt ctx = rd_channel ctx"

definition channel_identity_from_ctx :: "request_data \<Rightarrow> ChannelIdentity GraphqlResult" where
  "channel_identity_from_ctx ctx = ok_or (Errors.extend Unauthenticated) (rd_channel ctx)"

section \<open>Guards\<close>

datatype Guard =
    RequireAuth
  | RequireAnyRole "string list"
  | RequireAllRoles "string list"
  | RequireScope string
  | RequireAnyScope "string list"
  | RequireAllScopes "string list"
  | RequirePrincipal
  | RequirePrincipalScope string
  | RequireAnyPrincipalScope "string list"
  | RequireAllPrincipalScopes "string list"
  | RequireChannelScheme string

definition matcher_from_ctx :: "request_data \<Rightarrow> ScopeMatch" where
  "matcher_from_ctx ctx = (case rd_runtime ctx of Some runtime \<Rightarrow> runtime | None \<Rightarrow> ExactScopeMatch)"

definition forbid_unless :: "bool \<Rightarrow> unit GraphqlResult" where
  "forbid_unless c = (if c then Inr () else Inl (Errors.extend Forbidden))"

definition RequireAuth_check :: "request_data \<Rightarrow> unit GraphqlResult" where
  "RequireAuth_check ctx =
     bind_res (auth_user_from_ctx ctx) (\<lambda>_. Inr ())"

definition RequireAnyRole_check :: "string list \<Rightarrow> request_data \<Rightarrow> unit GraphqlResult" where
  "RequireAnyRole_check roles ctx =
     bind_res (auth_user_from_ctx ctx) (\<lambda>user.
       forbid_unless (list_ex (\<lambda>role. list_ex (\<lambda>r. r = role) (au_roles user)) roles))"

definition RequireScope_check :: "string \<Rightarrow> request_data \<Rightarrow> unit GraphqlResult" where
  "RequireScope_check scope ctx =
     (let matcher = matcher_from_ctx ctx in
      bind_res (auth_user_from_ctx ctx) (\<lambda>user. forbid_unless (AuthUser_has_scope_with user matcher scope)))"

definition RequireAnyScope_check :: "string list \<Rightarrow> request_data \<Rightarrow> unit GraphqlResult" where
  "RequireAnyScope_check scopes ctx =
     (let matcher = matcher_from_ctx ctx in
      bind_res (auth_user_from_ctx ctx) (\<lambda>user. forbid_unless (AuthUser_has_any_scope_with user matcher scopes)))"

definition RequireAllScopes_check :: "string list \<Rightarrow> request_data \<Rightarrow> unit GraphqlResult" where
  "RequireAllScopes_check scopes ctx =
     (let matcher = matcher_from_ctx ctx in
      bind_res (auth_user_from_ctx ctx) (\<lambda>user. forbid_unless (AuthUser_has_all_scopes_with user matcher scopes)))"

definition RequireAllRoles_check :: "string list \<Rightarrow> request_data \<Rightarrow> unit GraphqlResult" where
  "RequireAllRoles_check roles ctx =
     bind_res (auth_user_from_ctx ctx) (\<lambda>user.
       forbid_unless (list_all (\<lambda>role. list_ex (\<lambda>r. r = role) (au_roles user)) roles))"

definition RequirePrincipal_check :: "request_data \<Rightarrow> unit GraphqlResult" where
  "RequirePrincipal_check ctx =
     bind_res (principal_from_ctx ctx) (\<lambda>_. Inr ())"

definition RequirePrincipalScope_check :: "string \<Rightarrow> request_data \<Rightarrow> unit GraphqlResult" where
  "RequirePrincipalScope_check scope ctx =
     (let matcher = matcher_from_ctx ctx in
      bind_res (principal_from_ctx ctx) (\<lambda>princ. forbid_unless (principal_has_scope_with princ matcher scope)))"

definition RequireAnyPrincipalScope_check :: "string list \<Rightarrow> request_data \<Rightarrow> unit GraphqlResult" where
  "RequireAnyPrincipalScope_check scopes ctx =
     (let matcher = matcher_from_ctx ctx in
      bind_res (principal_from_ctx ctx) (\<lambda>princ. forbid_unless (principal_has_any_scope_with princ matcher scopes)))"

definition RequireAllPrincipalScopes_check :: "string list \<Rightarrow> request_data \<Rightarrow> unit GraphqlResult" where
  "RequireAllPrincipalScopes_check scopes ctx =
     (let matcher = matcher_from_ctx ctx in
      bind_res (principal_from_ctx ctx) (\<lambda>princ. forbid_unless (principal_has_all_scopes_with princ matcher scopes)))"

definition RequireChannelScheme_check :: "string \<Rightarrow> request_data \<Rightarrow> unit GraphqlResult" where
  "RequireChannelScheme_check scheme ctx =
     (case rd_channel ctx of
        Some identity \<Rightarrow> forbid_unless (ci_scheme identity = scheme)
      | None \<Rightarrow> Inl (Errors.extend Forbidden))"

lemmas guard_check_defs [simp] =
  RequireAuth_check_def RequireAnyRole_check_def RequireScope_check_def RequireAnyScope_check_def RequireAllScopes_check_def RequireAllRoles_check_def
  RequirePrincipal_check_def RequirePrincipalScope_check_def RequireAnyPrincipalScope_check_def RequireAllPrincipalScopes_check_def RequireChannelScheme_check_def

fun check_guard :: "Guard \<Rightarrow> request_data \<Rightarrow> unit GraphqlResult" where
  "check_guard RequireAuth ctx = RequireAuth_check ctx"
| "check_guard (RequireAnyRole roles) ctx = RequireAnyRole_check roles ctx"
| "check_guard (RequireScope scope) ctx = RequireScope_check scope ctx"
| "check_guard (RequireAnyScope scopes) ctx = RequireAnyScope_check scopes ctx"
| "check_guard (RequireAllScopes scopes) ctx = RequireAllScopes_check scopes ctx"
| "check_guard (RequireAllRoles roles) ctx = RequireAllRoles_check roles ctx"
| "check_guard RequirePrincipal ctx = RequirePrincipal_check ctx"
| "check_guard (RequirePrincipalScope scope) ctx = RequirePrincipalScope_check scope ctx"
| "check_guard (RequireAnyPrincipalScope scopes) ctx = RequireAnyPrincipalScope_check scopes ctx"
| "check_guard (RequireAllPrincipalScopes scopes) ctx = RequireAllPrincipalScopes_check scopes ctx"
| "check_guard (RequireChannelScheme scheme) ctx = RequireChannelScheme_check scheme ctx"

section \<open>Authorization decisions\<close>

record AuthorizationInvocation =
  ai_mechanism :: string
  ai_causation_id :: "string option"
  ai_delegation_ref :: "string option"

definition AuthorizationInvocation_new :: "string \<Rightarrow> AuthorizationInvocation" where
  "AuthorizationInvocation_new mechanism =
     \<lparr> ai_mechanism = mechanism, ai_causation_id = None, ai_delegation_ref = None \<rparr>"

definition with_causation_id :: "string \<Rightarrow> AuthorizationInvocation \<Rightarrow> AuthorizationInvocation" where
  "with_causation_id causation_id i = i \<lparr> ai_causation_id := Some causation_id \<rparr>"

definition with_delegation_ref :: "string \<Rightarrow> AuthorizationInvocation \<Rightarrow> AuthorizationInvocation" where
  "with_delegation_ref delegation_ref i = i \<lparr> ai_delegation_ref := Some delegation_ref \<rparr>"

datatype AuthorizationOutcome = Allow | Deny

datatype AuthorizationReasonCode =
    Allowed | ReasonUnauthenticated | MissingRole | MissingScope | MissingChannel
  | ReasonResourceMismatch | PolicyDenied

record AuthorizationDecision =
  ad_principal_kind :: string
  ad_principal_ref :: string
  ad_tenant_ref :: "string option"
  ad_requirement :: string
  ad_resource_type :: "string option"
  ad_resource_ref :: "string option"
  ad_outcome :: AuthorizationOutcome
  ad_reason_code :: AuthorizationReasonCode
  ad_token_or_session_ref :: "string option"
  ad_correlation_id :: "string option"
  ad_timestamp :: time

record LinkedAuthorizationDecision =
  la_decision :: AuthorizationDecision
  la_invocation :: AuthorizationInvocation

definition AuthorizationDecision_from_principal ::
  "ext \<Rightarrow> AuthPrincipal \<Rightarrow> string \<Rightarrow> AuthorizationOutcome \<Rightarrow> AuthorizationReasonCode \<Rightarrow> time \<Rightarrow> AuthorizationDecision" where
  "AuthorizationDecision_from_principal E princ requirement outcome reason_code timestamp =
     (let (kind, pref, tref) =
        (case princ of
           User user \<Rightarrow> (''user'', au_user_id user, Some (uuid_to_string E (au_session_id user)))
         | ApiToken token \<Rightarrow> (''api_token'', ap_subject token, Some (uuid_to_string E (ap_token_id token)))) in
      \<lparr> ad_principal_kind = kind, ad_principal_ref = pref, ad_tenant_ref = None,
        ad_requirement = requirement, ad_resource_type = principal_resource_type princ,
        ad_resource_ref = principal_resource_id princ, ad_outcome = outcome,
        ad_reason_code = reason_code, ad_token_or_session_ref = tref, ad_correlation_id = None,
        ad_timestamp = timestamp \<rparr>)"

definition with_invocation ::
  "AuthorizationDecision \<Rightarrow> AuthorizationInvocation \<Rightarrow> LinkedAuthorizationDecision" where
  "with_invocation decision invocation = \<lparr> la_decision = decision, la_invocation = invocation \<rparr>"

text \<open>A hook acts on state of the host that the crate never reads.\<close>

definition emit_decision ::
  "(AuthorizationDecision \<Rightarrow> 'h \<Rightarrow> 'h) option \<Rightarrow> AuthorizationDecision \<Rightarrow> 'h \<Rightarrow> 'h" where
  "emit_decision hook decision h = (case hook of Some on_decision \<Rightarrow> on_decision decision h | None \<Rightarrow> h)"

section \<open>Refresh-cookie extraction\<close>

record GraphqlTopLevelField =
  tf_schema_field :: string
  tf_response_key :: "string option"

definition GraphqlTopLevelField_new :: "string \<Rightarrow> GraphqlTopLevelField" where
  "GraphqlTopLevelField_new schema_field = \<lparr> tf_schema_field = schema_field, tf_response_key = None \<rparr>"

definition with_response_key :: "string \<Rightarrow> string \<Rightarrow> GraphqlTopLevelField" where
  "with_response_key schema_field response_key =
     \<lparr> tf_schema_field = schema_field, tf_response_key = Some response_key \<rparr>"

record GraphqlRefreshCookieConfig =
  rf_issuing_fields :: "string list"
  rf_clearing_fields :: "string list"
  rf_session_field :: string
  rf_refresh_token_field :: string
  rf_refresh_token_expires_at_field :: string
  rf_sanitize_response :: bool

definition GraphqlRefreshCookieConfig_new :: "string list \<Rightarrow> string list \<Rightarrow> GraphqlRefreshCookieConfig" where
  "GraphqlRefreshCookieConfig_new issuing clearing =
     \<lparr> rf_issuing_fields = issuing, rf_clearing_fields = clearing, rf_session_field = ''session'',
       rf_refresh_token_field = ''refreshToken'',
       rf_refresh_token_expires_at_field = ''refreshTokenExpiresAt'', rf_sanitize_response = True \<rparr>"

datatype GraphqlRefreshCookieDirective = SetCookie string string | ClearCookie

text \<open>\<open>Value::get\<close> with a string key, and the update through \<open>get_mut\<close>.\<close>

fun json_get :: "string \<Rightarrow> JsonValue \<Rightarrow> JsonValue option" where
  "json_get key (JObject m) = map_of m key"
| "json_get key _ = None"

fun json_modify :: "string \<Rightarrow> (JsonValue \<Rightarrow> JsonValue) \<Rightarrow> JsonValue \<Rightarrow> JsonValue" where
  "json_modify key f (JObject m) = JObject (AList.map_entry key f m)"
| "json_modify key f v = v"

definition selected_fields_match :: "GraphqlTopLevelField list \<Rightarrow> string list \<Rightarrow> bool" where
  "selected_fields_match selected names =
     list_ex (\<lambda>field. list_ex (\<lambda>name. name = tf_schema_field field) names) selected"

definition selected_response_keys :: "GraphqlTopLevelField list \<Rightarrow> string list \<Rightarrow> string list" where
  "selected_response_keys selected names =
     List.map_filter tf_response_key
       (filter (\<lambda>field. list_ex (\<lambda>name. name = tf_schema_field field) names) selected)"

definition candidate_response_entries ::
  "JsonValue \<Rightarrow> GraphqlTopLevelField list \<Rightarrow> string list \<Rightarrow> JsonValue list" where
  "candidate_response_entries data selected names =
     (case as_object data of
        None \<Rightarrow> []
      | Some obj \<Rightarrow>
          let keys = selected_response_keys selected names in
            if keys = [] then map snd obj else List.map_filter (map_of obj) keys)"

text \<open>The loop leaves the function at the first entry without a session.\<close>

fun find_set_directive :: "GraphqlRefreshCookieConfig \<Rightarrow> JsonValue list \<Rightarrow> GraphqlRefreshCookieDirective option" where
  "find_set_directive config [] = None"
| "find_set_directive config (entry # entries) =
     Option.bind (json_get (rf_session_field config) entry) (\<lambda>session.
     Option.bind (Option.bind (json_get (rf_refresh_token_field config) session) as_str) (\<lambda>refresh_token.
     Option.bind (Option.bind (json_get (rf_refresh_token_expires_at_field config) session) as_str) (\<lambda>expires_at.
       if blank refresh_token then find_set_directive config entries
       else Some (SetCookie refresh_token expires_at))))"

definition find_refresh_cookie_set_directive ::
  "JsonValue \<Rightarrow> GraphqlTopLevelField list \<Rightarrow> GraphqlRefreshCookieConfig \<Rightarrow> GraphqlRefreshCookieDirective option" where
  "find_refresh_cookie_set_directive data selected config =
     find_set_directive config (candidate_response_entries data selected (rf_issuing_fields config))"

definition sanitize_refresh_token_entry :: "GraphqlRefreshCookieConfig \<Rightarrow> JsonValue \<Rightarrow> JsonValue" where
  "sanitize_refresh_token_entry config entry =
     json_modify (rf_session_field config)
       (json_modify (rf_refresh_token_field config) (\<lambda>_. JString '''')) entry"

definition sanitize_refresh_token_fields ::
  "JsonValue \<Rightarrow> GraphqlTopLevelField list \<Rightarrow> GraphqlRefreshCookieConfig \<Rightarrow> JsonValue" where
  "sanitize_refresh_token_fields data selected config =
     (case as_object data of
        None \<Rightarrow> data
      | Some obj \<Rightarrow>
          let keys = selected_response_keys selected (rf_issuing_fields config);
              clean = sanitize_refresh_token_entry config in
            if keys = [] then JObject (map (\<lambda>(k, entry). (k, clean entry)) obj)
            else JObject (fold (\<lambda>key. AList.map_entry key clean) keys obj))"

text \<open>A response: whether it has errors, and its data of the GraphQL crate's value type, whose
  conversions from and to JSON are arguments.\<close>

record 'v gql_response =
  gr_errors :: "GraphqlError list"
  gr_data :: 'v

definition graphql_refresh_cookie_directive ::
  "('v \<Rightarrow> JsonValue option) \<Rightarrow> (JsonValue \<Rightarrow> 'v option) \<Rightarrow> 'v gql_response \<Rightarrow> GraphqlTopLevelField list \<Rightarrow>
   GraphqlRefreshCookieConfig \<Rightarrow> GraphqlRefreshCookieDirective option \<times> 'v gql_response" where
  "graphql_refresh_cookie_directive into_json from_json response selected config =
     (let cleared = (if selected_fields_match selected (rf_clearing_fields config) then Some ClearCookie else None) in
      if gr_errors response \<noteq> [] then (None, response)
      else if selected_fields_match selected (rf_issuing_fields config) then
        case into_json (gr_data response) of
          None \<Rightarrow> (None, response)
        | Some data \<Rightarrow>
            let directive = find_refresh_cookie_set_directive data selected config in
            if directive = None then (cleared, response)
            else if rf_sanitize_response config then
              case from_json (sanitize_refresh_token_fields data selected config) of
                Some next_value \<Rightarrow> (directive, response \<lparr> gr_data := next_value \<rparr>)
              | None \<Rightarrow> (directive, response)
            else (directive, response)
      else (cleared, response))"

section \<open>What a guard admits\<close>

text \<open>No guard passes on a request that carries no credential.\<close>

lemma guards_fail_closed: "check_guard g empty_data \<noteq> Inr ()"
  by (cases g)
    (simp_all add: empty_data_def auth_user_from_ctx_def principal_from_ctx_def principal_from_ctx_opt_def Let_def)

lemma forbid_unless_Inr [simp]: "forbid_unless c = Inr x \<longleftrightarrow> c"
  by (simp add: forbid_unless_def)

lemma principal_guard_Inr:
  "check_guard (RequirePrincipalScope scope) ctx = Inr () \<longleftrightarrow>
     (\<exists>princ. principal_from_ctx_opt ctx = Some princ \<and> principal_has_scope_with princ (matcher_from_ctx ctx) scope)"
  by (auto simp: Let_def principal_from_ctx_def ok_or_Inr bind_res_Inr_iff)

lemma matcher_from_ctx_eq: "matcher_from_ctx ctx = scope_matcher_from_ctx ctx"
  by (simp add: matcher_from_ctx_def scope_matcher_from_ctx_def auth_runtime_from_ctx_opt_def)

section \<open>Sanitized responses\<close>

definition token_hidden :: "GraphqlRefreshCookieConfig \<Rightarrow> JsonValue \<Rightarrow> bool" where
  "token_hidden config entry \<longleftrightarrow>
     (\<forall>session. json_get (rf_session_field config) entry = Some session \<longrightarrow>
        json_get (rf_refresh_token_field config) session \<in> {None, Some (JString '''')})"

lemma json_get_modify:
  "json_get k (json_modify k f v) = map_option f (json_get k v)"
  by (cases v) (auto simp: map_of_map_entry split: option.split)

lemma sanitized_entry_hidden: "token_hidden config (sanitize_refresh_token_entry config entry)"
  by (auto simp: token_hidden_def sanitize_refresh_token_entry_def json_get_modify)

lemma map_of_fold_map_entry:
  assumes "key \<in> set keys" and "map_of (fold (\<lambda>k. AList.map_entry k f) keys m) key = Some v"
  shows "\<exists>u. v = f u"
  using assms
proof (induction keys arbitrary: m)
  case (Cons k keys)
  show ?case
  proof (cases "key \<in> set keys")
    case False
    have "map_of (fold (\<lambda>k. AList.map_entry k f) ks m') key = map_of m' key" if "key \<notin> set ks" for ks m'
      using that by (induction ks arbitrary: m') (auto simp: map_of_map_entry)
    with False Cons.prems show ?thesis by (auto simp: map_of_map_entry split: option.splits if_splits)
  qed (use Cons in auto)
qed simp

lemma in_map_filter: "y \<in> set (List.map_filter f xs) \<longleftrightarrow> (\<exists>x \<in> set xs. f x = Some y)"
  by (force simp: List.map_filter_def)

lemma sanitized_candidates_hidden:
  assumes "entry \<in> set (candidate_response_entries (sanitize_refresh_token_fields data selected config)
    selected (rf_issuing_fields config))"
  shows "token_hidden config entry"
proof (cases "as_object data")
  case None
  with assms show ?thesis
    by (simp add: sanitize_refresh_token_fields_def candidate_response_entries_def)
next
  case (Some obj)
  let ?keys = "selected_response_keys selected (rf_issuing_fields config)"
  show ?thesis
  proof (cases "?keys = []")
    case True
    with assms Some show ?thesis
      by (auto simp: sanitize_refresh_token_fields_def candidate_response_entries_def sanitized_entry_hidden)
  next
    case False
    with assms Some obtain key where "key \<in> set ?keys" and
      "map_of (fold (\<lambda>key. AList.map_entry key (sanitize_refresh_token_entry config)) ?keys obj) key = Some entry"
      by (auto simp: sanitize_refresh_token_fields_def candidate_response_entries_def Let_def in_map_filter)
    from map_of_fold_map_entry [OF this] show ?thesis by (auto simp: sanitized_entry_hidden)
  qed
qed

lemma find_set_directive_Some:
  "find_set_directive config entries = Some d \<Longrightarrow>
   \<exists>entry \<in> set entries. \<exists>session t x. d = SetCookie t x \<and> \<not> blank t \<and>
     json_get (rf_session_field config) entry = Some session \<and>
     json_get (rf_refresh_token_field config) session = Some (JString t) \<and>
     json_get (rf_refresh_token_expires_at_field config) session = Some (JString x)"
proof (induction entries)
  case (Cons e entries)
  have str: "as_str v = Some s \<longleftrightarrow> v = JString s" for v s by (cases v) auto
  from Cons show ?case by (auto simp: bind_eq_Some_conv str split: if_splits)
qed simp

text \<open>C37: When a refresh token is moved into the cookie and the configuration asks for sanitizing,
  the token leaves the response: the cookie gets a non-blank token found in the session of a
  selected entry, and afterwards no entry the helper looks at shows a token in its session.
  The conversion back from JSON is total and inverse to the one into JSON.\<close>

theorem refresh_cookie_sanitized:
  assumes json: "\<And>j. \<exists>v. from_json j = Some v \<and> into_json v = Some j"
    and sanitize: "rf_sanitize_response config"
    and run: "graphql_refresh_cookie_directive into_json from_json response selected config =
      (Some (SetCookie t x), response')"
  shows "(\<exists>data entry session. into_json (gr_data response) = Some data \<and>
            entry \<in> set (candidate_response_entries data selected (rf_issuing_fields config)) \<and>
            json_get (rf_session_field config) entry = Some session \<and>
            json_get (rf_refresh_token_field config) session = Some (JString t)) \<and> \<not> blank t \<and>
         (\<exists>data'. into_json (gr_data response') = Some data' \<and>
            (\<forall>entry \<in> set (candidate_response_entries data' selected (rf_issuing_fields config)).
               token_hidden config entry))"
proof -
  from json obtain unjson where total [simp]: "\<And>j. from_json j = Some (unjson j) \<and> into_json (unjson j) = Some j"
    by metis
  from run obtain data where data: "into_json (gr_data response) = Some data"
    and found: "find_refresh_cookie_set_directive data selected config = Some (SetCookie t x)"
    and res: "response' = response \<lparr> gr_data := unjson (sanitize_refresh_token_fields data selected config) \<rparr>"
    using sanitize
    by (cases "into_json (gr_data response)")
      (auto simp: graphql_refresh_cookie_directive_def Let_def split: if_splits option.splits)
  have "into_json (gr_data response') = Some (sanitize_refresh_token_fields data selected config)"
    by (simp add: res)
  moreover have "\<exists>entry session. entry \<in> set (candidate_response_entries data selected (rf_issuing_fields config)) \<and>
      json_get (rf_session_field config) entry = Some session \<and>
      json_get (rf_refresh_token_field config) session = Some (JString t)" "\<not> blank t"
    using find_set_directive_Some [OF found [unfolded find_refresh_cookie_set_directive_def]] by auto
  ultimately show ?thesis using data sanitized_candidates_hidden by blast
qed

definition demo_login_entry :: JsonValue where
  "demo_login_entry = JObject [(''session'', JObject
     [(''refreshToken'', JString ''secret''), (''refreshTokenExpiresAt'', JString ''later'')])]"

lemma refresh_cookie_sanitized_witness:
  "\<exists>response'. graphql_refresh_cookie_directive Some Some
      \<lparr> gr_errors = [], gr_data = JObject [(''login'', demo_login_entry)] \<rparr>
      [\<lparr> tf_schema_field = ''login'', tf_response_key = None \<rparr>]
      (GraphqlRefreshCookieConfig_new [''login''] []) = (Some (SetCookie ''secret'' ''later''), response') \<and>
    (\<exists>data'. Some (gr_data response') = Some data' \<and>
       (\<forall>entry \<in> set (candidate_response_entries data' [\<lparr> tf_schema_field = ''login'', tf_response_key = None \<rparr>] [''login'']).
          token_hidden (GraphqlRefreshCookieConfig_new [''login''] []) entry))"
proof -
  let ?c = "GraphqlRefreshCookieConfig_new [''login''] []"
  have "fst (graphql_refresh_cookie_directive Some Some
      \<lparr> gr_errors = [], gr_data = JObject [(''login'', demo_login_entry)] \<rparr>
      [\<lparr> tf_schema_field = ''login'', tf_response_key = None \<rparr>] ?c) = Some (SetCookie ''secret'' ''later'')"
    by code_simp
  then obtain response' where run: "graphql_refresh_cookie_directive Some Some
      \<lparr> gr_errors = [], gr_data = JObject [(''login'', demo_login_entry)] \<rparr>
      [\<lparr> tf_schema_field = ''login'', tf_response_key = None \<rparr>] ?c = (Some (SetCookie ''secret'' ''later''), response')"
    by (metis prod.collapse)
  have "rf_sanitize_response ?c" "rf_issuing_fields ?c = [''login'']"
    by (simp_all add: GraphqlRefreshCookieConfig_new_def)
  with refresh_cookie_sanitized [OF _ this(1) run] run show ?thesis by auto
qed

text \<open>The search gives up at the first entry without a session: an unrelated field that sorts
  before the issuing one keeps the token in the response and out of the cookie.\<close>

lemma missing_session_blocks_directive:
  assumes "gr_errors response = []" "into_json (gr_data response) = Some data"
    and "candidate_response_entries data selected (rf_issuing_fields config) = entry # entries"
    and "json_get (rf_session_field config) entry = None" "\<not> selected_fields_match selected (rf_clearing_fields config)"
  shows "graphql_refresh_cookie_directive into_json from_json response selected config = (None, response)"
  using assms by (simp add: graphql_refresh_cookie_directive_def find_refresh_cookie_set_directive_def Let_def)

end
