(* ===== verification/Validator.thy ===== *)
theory Validator
  imports Keys Graphql
begin

text \<open>
  The store-free access-token validator of resource servers (\<open>src/validator.rs\<close>): its builder with
  every check, the per-token decoder configuration and the authentication entry points. A built
  validator is shown to accept only tokens signed with an allowed algorithm under a key its
  resolver vouches for, for its issuer and one of its audiences, and within their lifetime.
\<close>

section \<open>Builder\<close>

definition DEFAULT_MAX_LEEWAY_SECONDS :: u64 where "DEFAULT_MAX_LEEWAY_SECONDS = 300"

record 'st AccessTokenValidator =
  av_issuer :: string
  av_audiences :: "string list"
  av_leeway_seconds :: u64
  av_allowed_algorithms :: "Algorithm list"
  av_purpose_policy :: PurposePolicy
  av_legacy_scope_claims :: LegacyScopeClaims
  av_claim_requirements :: ClaimRequirements
  av_key_resolver :: "'st AccessTokenKeyResolver"
  av_expected_kid :: "string option"
  av_clock :: ClockId
  av_scope_matcher :: ScopeMatch
  av_bearer_parse_mode :: BearerParseMode

datatype ValidatorKeyMaterial = Rs256PublicPem string | JwksJson string | Hs256Secret string

record 'st AccessTokenValidatorBuilder =
  vb_issuer :: "string option"
  vb_audiences :: "string list"
  vb_leeway_seconds :: "u64 option"
  vb_key_id :: "string option"
  vb_key_material :: "ValidatorKeyMaterial option"
  vb_key_resolver :: "'st AccessTokenKeyResolver option"
  vb_accept_hs256 :: bool
  vb_allowed_algorithms :: "Algorithm list option"
  vb_purpose_policy :: PurposePolicy
  vb_legacy_scope_claims :: LegacyScopeClaims
  vb_claim_requirements :: ClaimRequirements
  vb_bearer_parse_mode :: BearerParseMode
  vb_clock :: ClockId
  vb_scope_matcher :: ScopeMatch

definition AccessTokenValidatorBuilder_new :: "'st AccessTokenValidatorBuilder" where
  "AccessTokenValidatorBuilder_new =
     \<lparr> vb_issuer = None, vb_audiences = [], vb_leeway_seconds = None, vb_key_id = None,
       vb_key_material = None, vb_key_resolver = None, vb_accept_hs256 = False,
       vb_allowed_algorithms = None, vb_purpose_policy = AccessTokenOrLegacy,
       vb_legacy_scope_claims = Accept, vb_claim_requirements = ClaimRequirements_none,
       vb_bearer_parse_mode = BearerOrRaw, vb_clock = SystemClock, vb_scope_matcher = ExactScopeMatch \<rparr>"

text \<open>The setters of the builder.\<close>

definition builder_issuer ::
  "string \<Rightarrow> 'st AccessTokenValidatorBuilder \<Rightarrow> 'st AccessTokenValidatorBuilder" where
  "builder_issuer v b = b \<lparr> vb_issuer := Some v \<rparr>"

definition builder_audience ::
  "string \<Rightarrow> 'st AccessTokenValidatorBuilder \<Rightarrow> 'st AccessTokenValidatorBuilder" where
  "builder_audience v b = b \<lparr> vb_audiences := [v] \<rparr>"

definition builder_audiences ::
  "string list \<Rightarrow> 'st AccessTokenValidatorBuilder \<Rightarrow> 'st AccessTokenValidatorBuilder" where
  "builder_audiences v b = b \<lparr> vb_audiences := v \<rparr>"

definition builder_leeway_seconds ::
  "u64 \<Rightarrow> 'st AccessTokenValidatorBuilder \<Rightarrow> 'st AccessTokenValidatorBuilder" where
  "builder_leeway_seconds v b = b \<lparr> vb_leeway_seconds := Some v \<rparr>"

definition builder_rs256_public_pem ::
  "string \<Rightarrow> 'st AccessTokenValidatorBuilder \<Rightarrow> 'st AccessTokenValidatorBuilder" where
  "builder_rs256_public_pem v b = b \<lparr> vb_key_material := Some (Rs256PublicPem v) \<rparr>"

definition builder_jwks_json ::
  "string \<Rightarrow> 'st AccessTokenValidatorBuilder \<Rightarrow> 'st AccessTokenValidatorBuilder" where
  "builder_jwks_json v b = b \<lparr> vb_key_material := Some (JwksJson v) \<rparr>"

definition builder_key_id ::
  "string \<Rightarrow> 'st AccessTokenValidatorBuilder \<Rightarrow> 'st AccessTokenValidatorBuilder" where
  "builder_key_id v b = b \<lparr> vb_key_id := Some v \<rparr>"

definition builder_hs256_secret ::
  "string \<Rightarrow> 'st AccessTokenValidatorBuilder \<Rightarrow> 'st AccessTokenValidatorBuilder" where
  "builder_hs256_secret v b = b \<lparr> vb_key_material := Some (Hs256Secret v) \<rparr>"

definition builder_accept_hs256 ::
  "bool \<Rightarrow> 'st AccessTokenValidatorBuilder \<Rightarrow> 'st AccessTokenValidatorBuilder" where
  "builder_accept_hs256 v b = b \<lparr> vb_accept_hs256 := v \<rparr>"

definition builder_allowed_algorithms ::
  "Algorithm list \<Rightarrow> 'st AccessTokenValidatorBuilder \<Rightarrow> 'st AccessTokenValidatorBuilder" where
  "builder_allowed_algorithms v b = b \<lparr> vb_allowed_algorithms := Some v \<rparr>"

definition builder_key_resolver ::
  "'st AccessTokenKeyResolver \<Rightarrow> 'st AccessTokenValidatorBuilder \<Rightarrow> 'st AccessTokenValidatorBuilder" where
  "builder_key_resolver v b = b \<lparr> vb_key_resolver := Some v \<rparr>"

definition builder_purpose_policy ::
  "PurposePolicy \<Rightarrow> 'st AccessTokenValidatorBuilder \<Rightarrow> 'st AccessTokenValidatorBuilder" where
  "builder_purpose_policy v b = b \<lparr> vb_purpose_policy := v \<rparr>"

definition builder_legacy_scope_claims ::
  "LegacyScopeClaims \<Rightarrow> 'st AccessTokenValidatorBuilder \<Rightarrow> 'st AccessTokenValidatorBuilder" where
  "builder_legacy_scope_claims v b = b \<lparr> vb_legacy_scope_claims := v \<rparr>"

definition builder_claim_requirements ::
  "ClaimRequirements \<Rightarrow> 'st AccessTokenValidatorBuilder \<Rightarrow> 'st AccessTokenValidatorBuilder" where
  "builder_claim_requirements v b = b \<lparr> vb_claim_requirements := v \<rparr>"

definition builder_bearer_parse_mode ::
  "BearerParseMode \<Rightarrow> 'st AccessTokenValidatorBuilder \<Rightarrow> 'st AccessTokenValidatorBuilder" where
  "builder_bearer_parse_mode v b = b \<lparr> vb_bearer_parse_mode := v \<rparr>"

definition builder_clock ::
  "ClockId \<Rightarrow> 'st AccessTokenValidatorBuilder \<Rightarrow> 'st AccessTokenValidatorBuilder" where
  "builder_clock v b = b \<lparr> vb_clock := v \<rparr>"

definition builder_scope_matcher ::
  "ScopeMatch \<Rightarrow> 'st AccessTokenValidatorBuilder \<Rightarrow> 'st AccessTokenValidatorBuilder" where
  "builder_scope_matcher v b = b \<lparr> vb_scope_matcher := v \<rparr>"

lemmas builder_defs =
  builder_issuer_def builder_audience_def builder_audiences_def builder_leeway_seconds_def builder_rs256_public_pem_def
  builder_jwks_json_def builder_key_id_def builder_hs256_secret_def builder_accept_hs256_def builder_allowed_algorithms_def
  builder_key_resolver_def builder_purpose_policy_def builder_legacy_scope_claims_def builder_claim_requirements_def builder_bearer_parse_mode_def
  builder_clock_def builder_scope_matcher_def

definition required_non_empty :: "string option \<Rightarrow> string \<Rightarrow> string AuthResult" where
  "required_non_empty value name =
     bind_res (ok_or (InvalidConfiguration (''validator '' @ name @ '' is required'')) value) (\<lambda>v.
     bind_res (reject_when (blank v)
       (InvalidConfiguration (''validator '' @ name @ '' must not be empty''))) (\<lambda>_. Inr v))"

definition build_key_resolver ::
  "jwt_lib \<Rightarrow> jwks_lib \<Rightarrow> ValidatorKeyMaterial option \<Rightarrow> 'st AccessTokenKeyResolver option \<Rightarrow> string option \<Rightarrow> bool \<Rightarrow>
   ('st, Algorithm \<times> 'st AccessTokenKeyResolver \<times> string option) action" where
  "build_key_resolver J X key_material key_resolver key_id accept_hs256 =
     (case key_resolver of
        Some resolver \<Rightarrow>
          try_catch (resolver key_id) (\<lambda>r.
            ret (case r of Inr key \<Rightarrow> rk_algorithm key | Inl _ \<Rightarrow> RS256, resolver, key_id))
      | None \<Rightarrow> (case key_material of
          Some (Rs256PublicPem public_key_pem) \<Rightarrow>
            bind (lift_res (StaticRs256Key_from_pem J public_key_pem key_id)) (\<lambda>key.
              ret (RS256, static_resolver (static_rs256_resolve key), key_id))
        | Some (JwksJson jwks_json) \<Rightarrow>
            bind (lift_res (StaticJwksKeySet_from_jwks_json X jwks_json)) (\<lambda>keys.
            bind (lift_res (case key_id of
                None \<Rightarrow> map_err (\<lambda>_. InvalidConfiguration ''validator key_id is required for multi-key JWKS'')
                          (static_jwks_resolve keys None)
              | Some kid \<Rightarrow> static_jwks_resolve keys (Some kid))) (\<lambda>_.
              ret (RS256, static_resolver (static_jwks_resolve keys), key_id)))
        | Some (Hs256Secret secret) \<Rightarrow>
            bind (require accept_hs256
              (InvalidConfiguration ''HS256 validation requires accept_hs256(true)'')) (\<lambda>_.
            bind (require (\<not> length secret < MIN_HS256_SECRET_BYTES)
              (InvalidConfiguration ''HS256 secret must be at least 32 bytes'')) (\<lambda>_.
            bind (lift_res (StaticHs256Key_from_secret secret key_id)) (\<lambda>key.
              ret (HS256, static_resolver (static_hs256_resolve key), key_id))))
        | None \<Rightarrow> throw (InvalidConfiguration ''validator key material is required'')))"

definition allowed_algorithms_for :: "Algorithm list option \<Rightarrow> bool \<Rightarrow> Algorithm \<Rightarrow> Algorithm list AuthResult" where
  "allowed_algorithms_for configured accept_hs256 default_algorithm =
     (case configured of
        None \<Rightarrow> Inr [default_algorithm]
      | Some algorithms \<Rightarrow>
          if algorithms \<noteq> [] then
            if HS256 \<in> set algorithms \<and> \<not> accept_hs256
            then Inl (InvalidConfiguration ''HS256 must be enabled with accept_hs256(true)'')
            else Inr algorithms
          else Inr [default_algorithm])"

definition build_validator ::
  "jwt_lib \<Rightarrow> jwks_lib \<Rightarrow> 'st AccessTokenValidatorBuilder \<Rightarrow> ('st, 'st AccessTokenValidator) action" where
  "build_validator J X B =
     bind (lift_res (required_non_empty (vb_issuer B) ''issuer'')) (\<lambda>issuer.
     bind (require (\<not> (vb_audiences B = [] \<or> list_ex blank (vb_audiences B)))
       (InvalidConfiguration ''validator audience is required'')) (\<lambda>_.
     let leeway = (case vb_leeway_seconds B of Some l \<Rightarrow> l | None \<Rightarrow> 0) in
     bind (require (\<not> leeway > DEFAULT_MAX_LEEWAY_SECONDS)
       (InvalidConfiguration ''validator leeway_seconds must be <= 300'')) (\<lambda>_.
     bind (build_key_resolver J X (vb_key_material B) (vb_key_resolver B) (vb_key_id B) (vb_accept_hs256 B))
       (\<lambda>(default_algorithm, key_resolver, expected_kid).
     bind (lift_res (allowed_algorithms_for (vb_allowed_algorithms B) (vb_accept_hs256 B) default_algorithm))
       (\<lambda>allowed_algorithms.
       ret \<lparr> av_issuer = issuer, av_audiences = vb_audiences B, av_leeway_seconds = leeway,
             av_allowed_algorithms = allowed_algorithms, av_purpose_policy = vb_purpose_policy B,
             av_legacy_scope_claims = vb_legacy_scope_claims B,
             av_claim_requirements = vb_claim_requirements B, av_key_resolver = key_resolver,
             av_expected_kid = expected_kid, av_clock = vb_clock B,
             av_scope_matcher = vb_scope_matcher B, av_bearer_parse_mode = vb_bearer_parse_mode B \<rparr>)))))"

section \<open>Authentication\<close>

definition validator_validation :: "'st AccessTokenValidator \<Rightarrow> Algorithm \<Rightarrow> Validation" where
  "validator_validation V algorithm =
     (Validation_new algorithm)
       \<lparr> va_algorithms := av_allowed_algorithms V, va_iss := Some [av_issuer V],
         va_aud := Some (av_audiences V), va_leeway := unat (av_leeway_seconds V),
         va_validate_exp := False, va_validate_nbf := False,
         va_required_spec_claims := [''exp'', ''iat'', ''iss'', ''aud'', ''sub''] \<rparr>"

definition decode_config_for_token ::
  "jwt_lib \<Rightarrow> 'st AccessTokenValidator \<Rightarrow> string \<Rightarrow> ('st, AccessTokenDecodeConfig) action" where
  "decode_config_for_token J V token =
     bind (lift_res (map_err (\<lambda>_. InvalidAccessToken) (jwt_decode_header (jl_access J) token))) (\<lambda>header.
     bind (require (hd_alg header \<in> set (av_allowed_algorithms V)) InvalidAccessToken) (\<lambda>_.
     bind (require (is_none_or (\<lambda>expected_kid. hd_kid header = Some expected_kid) (av_expected_kid V))
       InvalidAccessToken) (\<lambda>_.
     bind (av_key_resolver V (hd_kid header)) (\<lambda>resolved.
     bind (require (rk_algorithm resolved \<in> set (av_allowed_algorithms V)) InvalidAccessToken) (\<lambda>_.
       ret \<lparr> dc_decoding_key = rk_decoding_key resolved,
             dc_validation = validator_validation V (rk_algorithm resolved), dc_expected_kid = None,
             dc_leeway_seconds = av_leeway_seconds V, dc_purpose_policy = av_purpose_policy V,
             dc_legacy_scope_claims = av_legacy_scope_claims V,
             dc_claim_requirements = av_claim_requirements V, dc_clock = av_clock V,
             dc_allowed_algorithms = av_allowed_algorithms V \<rparr>)))))"

definition validator_authenticate_access_token ::
  "ext \<Rightarrow> jwt_lib \<Rightarrow> 'st host \<Rightarrow> 'st AccessTokenValidator \<Rightarrow> string \<Rightarrow> ('st, AuthUser) action" where
  "validator_authenticate_access_token E J H V token =
     bind (decode_config_for_token J V token) (\<lambda>config.
     bind (now_from H SystemClock) (\<lambda>now.
     bind (now_from H (dc_clock config)) (\<lambda>clock_now.
     bind (lift_res (decode_access_token_claims E (jl_access J) now clock_now token config)) (\<lambda>claims.
       lift_res (access_token_claims_to_user E claims)))))"

definition validator_authenticate_bearer ::
  "ext \<Rightarrow> jwt_lib \<Rightarrow> 'st host \<Rightarrow> 'st AccessTokenValidator \<Rightarrow> string \<Rightarrow> ('st, AuthUser) action" where
  "validator_authenticate_bearer E J H V bearer_or_token =
     bind (lift_res (strip_bearer_prefix_with_mode bearer_or_token (av_bearer_parse_mode V))) (\<lambda>token.
       validator_authenticate_access_token E J H V token)"

definition validator_authenticate_session_management_bearer ::
  "ext \<Rightarrow> jwt_lib \<Rightarrow> 'st host \<Rightarrow> 'st AccessTokenValidator \<Rightarrow> string \<Rightarrow> ('st, AuthUser) action" where
  "validator_authenticate_session_management_bearer E J H V bearer_or_token =
     bind (validator_authenticate_bearer E J H V bearer_or_token) (\<lambda>user.
     bind (lift_res (require_session_management_eligible user)) (\<lambda>_. ret user))"

definition authenticate_bearer_opt ::
  "ext \<Rightarrow> jwt_lib \<Rightarrow> 'st host \<Rightarrow> 'st AccessTokenValidator \<Rightarrow> string option \<Rightarrow> ('st, AuthUser option) action" where
  "authenticate_bearer_opt E J H V bearer_or_token =
     (case bearer_or_token of
        None \<Rightarrow> ret None
      | Some token \<Rightarrow> bind (validator_authenticate_bearer E J H V token) (\<lambda>user. ret (Some user)))"

definition authenticate_principal ::
  "ext \<Rightarrow> jwt_lib \<Rightarrow> 'st host \<Rightarrow> 'st AccessTokenValidator \<Rightarrow> string \<Rightarrow> ('st, AuthPrincipal) action" where
  "authenticate_principal E J H V bearer_or_token =
     bind (validator_authenticate_bearer E J H V bearer_or_token) (\<lambda>user. ret (User user))"

definition inject_user :: "request_data \<Rightarrow> AuthRuntime \<Rightarrow> AuthUser \<Rightarrow> request_data" where
  "inject_user request runtime user =
     request \<lparr> rd_runtime := Some runtime, rd_principal := Some (User user), rd_user := Some user \<rparr>"

definition validator_inject_http_auth ::
  "ext \<Rightarrow> jwt_lib \<Rightarrow> 'st host \<Rightarrow> 'st AccessTokenValidator \<Rightarrow> request_data \<Rightarrow> string option \<Rightarrow>
   ('st, request_data) action" where
  "validator_inject_http_auth E J H V request bearer_or_token =
     (case bearer_or_token of
        None \<Rightarrow> ret request
      | Some raw \<Rightarrow> bind (validator_authenticate_bearer E J H V raw) (\<lambda>user.
          ret (inject_user request (av_scope_matcher V) user)))"

definition validator_connection_init ::
  "ext \<Rightarrow> jwt_lib \<Rightarrow> 'st host \<Rightarrow> 'st AccessTokenValidator \<Rightarrow> JsonValue \<Rightarrow> string list \<Rightarrow> ('st, AuthUser) action" where
  "validator_connection_init E J H V value authorization_keys =
     bind (lift_res (ok_or MissingConnectionInitAuth (as_object value))) (\<lambda>obj.
     let keys = (if authorization_keys = []
                 then [''authorization'', ''Authorization'', ''access_token'', ''accessToken'']
                 else authorization_keys) in
     bind (lift_res (ok_or MissingConnectionInitAuth (first_str_key obj keys))) (\<lambda>token.
       validator_authenticate_bearer E J H V token))"

section \<open>What a built validator enforces\<close>

lemma build_validator_Inr:
  assumes "build_validator J X B w = (Inr V, w')"
  shows "\<not> blank (av_issuer V)" "vb_issuer B = Some (av_issuer V)"
    "av_audiences V \<noteq> []" "\<not> list_ex blank (av_audiences V)" "av_leeway_seconds V \<le> DEFAULT_MAX_LEEWAY_SECONDS"
    "\<exists>alg w1 w2. build_key_resolver J X (vb_key_material B) (vb_key_resolver B) (vb_key_id B) (vb_accept_hs256 B) w1 =
       (Inr (alg, av_key_resolver V, av_expected_kid V), w2) \<and>
       allowed_algorithms_for (vb_allowed_algorithms B) (vb_accept_hs256 B) alg = Inr (av_allowed_algorithms V)"
  using assms
  by (auto simp: build_validator_def required_non_empty_def action_simps res_simps Let_def not_less list_ex_iff
      split: prod.splits option.splits) blast+

lemma build_key_resolver_Inr:
  assumes "build_key_resolver J X material None key_id accept_hs256 w = (Inr (alg, resolver, kid), w')"
  shows "kid = key_id" "alg = HS256 \<Longrightarrow> accept_hs256" "alg = HS256 \<or> alg = RS256"
  using assms
  by (auto simp: build_key_resolver_def action_simps split: option.splits ValidatorKeyMaterial.splits)

lemma build_custom_resolver_Inr:
  assumes "build_key_resolver J X material (Some custom) key_id accept_hs256 w = (Inr (alg, resolver, kid), w')"
  shows "resolver = custom" "alg = HS256 \<Longrightarrow> \<exists>k w2. custom key_id w = (Inr k, w2) \<and> rk_algorithm k = HS256"
  using assms
  by (cases "custom key_id w"; auto simp: build_key_resolver_def try_catch_def ret_def split: sum.splits)+

lemma allowed_algorithms_for_Inr:
  assumes "allowed_algorithms_for configured accept_hs256 alg = Inr algs"
  shows "algs \<noteq> []" "HS256 \<in> set algs \<Longrightarrow> accept_hs256 \<or> alg = HS256"
  using assms by (auto simp: allowed_algorithms_for_def split: option.splits if_splits)

lemma decode_config_Inr:
  assumes "decode_config_for_token J V token w = (Inr config, w')"
  obtains h k w1 w2 where "jwt_decode_header (jl_access J) token = Inr h" "hd_alg h \<in> set (av_allowed_algorithms V)"
    "is_none_or (\<lambda>kid. hd_kid h = Some kid) (av_expected_kid V)"
    "av_key_resolver V (hd_kid h) w1 = (Inr k, w2)" "rk_algorithm k \<in> set (av_allowed_algorithms V)"
    "dc_decoding_key config = rk_decoding_key k" "dc_validation config = validator_validation V (rk_algorithm k)"
    "dc_leeway_seconds config = av_leeway_seconds V" "dc_clock config = av_clock V"
    "dc_purpose_policy config = av_purpose_policy V" "dc_claim_requirements config = av_claim_requirements V"
  using assms that by (auto simp: decode_config_for_token_def action_simps)

lemma validator_authenticate_Inr:
  assumes "validator_authenticate_access_token E J H V token w = (Inr user, w')"
  obtains config w1 now n d where "decode_config_for_token J V token w = (Inr config, w1)"
    "decode_access_token_claims E (jl_access J) now (h_clock H (dc_clock config) n) token config = Inr d"
    "access_token_claims_to_user E d = Inr user"
  using assms that by (auto simp: validator_authenticate_access_token_def action_simps)

lemma claims_to_user_fields:
  "access_token_claims_to_user E d = Inr user \<Longrightarrow>
   au_user_id user = tc_sub (da_claims d) \<and> au_roles user = tc_roles (da_claims d) \<and> au_scopes user = da_scopes d \<and>
   au_token_claims user = claims_to_metadata E (da_claims d)"
  by (auto simp: access_token_claims_to_user_def Let_def res_simps)

text \<open>C26: A built validator accepts HS256 only when the host opted in, or when the host passed its own
  key resolver and that resolver reported an HS256 key while the validator was built; without a
  custom resolver the opt-in is the only way. The validator always has an issuer, at least one audience, none of them blank, at least one
  algorithm, and a leeway of at most five minutes. When it authenticates a token, the token's
  header names an allowed algorithm and the expected key id, the key resolver vouched for the key
  it was decoded with, its claims have the configured issuer and one of the configured audiences,
  and its lifetime, extended by at most the leeway, has not ended.\<close>

theorem validator_accepts_only_pinned:
  assumes time: "time_laws E" and jwt: "jwt_laws pair wfc tc_iss tc_aud tc_exp (jl_access J)"
    and built: "build_validator J X B w0 = (Inr V, w0')"
    and auth: "validator_authenticate_access_token E J H V token w = (Inr user, w')"
  shows "(vb_key_resolver B = None \<and> \<not> vb_accept_hs256 B \<longrightarrow> HS256 \<notin> set (av_allowed_algorithms V)) \<and>
    (HS256 \<in> set (av_allowed_algorithms V) \<and> \<not> vb_accept_hs256 B \<longrightarrow>
       (\<exists>resolver k w1 w2. vb_key_resolver B = Some resolver \<and> av_key_resolver V = resolver \<and>
          resolver (vb_key_id B) w1 = (Inr k, w2) \<and> rk_algorithm k = HS256)) \<and>
    av_allowed_algorithms V \<noteq> [] \<and> av_leeway_seconds V \<le> 300 \<and>
    (\<exists>h k w1 w2 now n c. jwt_decode_header (jl_access J) token = Inr h \<and>
       hd_alg h \<in> set (av_allowed_algorithms V) \<and> is_none_or (\<lambda>kid. hd_kid h = Some kid) (av_expected_kid V) \<and>
       av_key_resolver V (hd_kid h) w1 = (Inr k, w2) \<and> rk_algorithm k \<in> set (av_allowed_algorithms V) \<and>
       jwt_decode (jl_access J) now token (rk_decoding_key k) (validator_validation V (rk_algorithm k)) = Inr c \<and>
       vb_issuer B = Some (tc_iss c) \<and> \<not> blank (tc_iss c) \<and>
       audience_accepted (validator_validation V (rk_algorithm k)) (tc_aud c) \<and>
       h_clock H (av_clock V) n < seconds (tc_exp c + int (unat (av_leeway_seconds V))) \<and>
       au_user_id user = tc_sub c)"
proof -
  note B = build_validator_Inr [OF built]
  from B(6) obtain alg w1 w2 where kr: "build_key_resolver J X (vb_key_material B) (vb_key_resolver B) (vb_key_id B)
      (vb_accept_hs256 B) w1 = (Inr (alg, av_key_resolver V, av_expected_kid V), w2)"
    and algs: "allowed_algorithms_for (vb_allowed_algorithms B) (vb_accept_hs256 B) alg = Inr (av_allowed_algorithms V)"
    by blast
  have opt_in: "vb_key_resolver B = None \<and> \<not> vb_accept_hs256 B \<longrightarrow> HS256 \<notin> set (av_allowed_algorithms V)"
    using kr build_key_resolver_Inr(2) allowed_algorithms_for_Inr(2) [OF algs] by auto
  have custom: "\<exists>resolver k w1 w2. vb_key_resolver B = Some resolver \<and> av_key_resolver V = resolver \<and>
      resolver (vb_key_id B) w1 = (Inr k, w2) \<and> rk_algorithm k = HS256"
    if "HS256 \<in> set (av_allowed_algorithms V) \<and> \<not> vb_accept_hs256 B"
  proof -
    from that opt_in obtain resolver where r: "vb_key_resolver B = Some resolver" by fastforce
    from that allowed_algorithms_for_Inr(2) [OF algs] have "alg = HS256" by blast
    with build_custom_resolver_Inr [OF kr [unfolded r]] r show ?thesis by blast
  qed
  from auth obtain config w3 now n d where cfg: "decode_config_for_token J V token w = (Inr config, w3)"
    and dec: "decode_access_token_claims E (jl_access J) now (h_clock H (dc_clock config) n) token config = Inr d"
    and user: "access_token_claims_to_user E d = Inr user" by (rule validator_authenticate_Inr)
  from cfg obtain h k w4 w5 where header: "jwt_decode_header (jl_access J) token = Inr h"
      "hd_alg h \<in> set (av_allowed_algorithms V)" "is_none_or (\<lambda>kid. hd_kid h = Some kid) (av_expected_kid V)"
    and key: "av_key_resolver V (hd_kid h) w4 = (Inr k, w5)" "rk_algorithm k \<in> set (av_allowed_algorithms V)"
    and config: "dc_decoding_key config = rk_decoding_key k" "dc_validation config = validator_validation V (rk_algorithm k)"
      "dc_leeway_seconds config = av_leeway_seconds V" "dc_clock config = av_clock V" by (rule decode_config_Inr)
  note D = decode_access_token_claims_Inr [OF dec]
  have same: "(dc_validation config) \<lparr> va_validate_exp := False, va_validate_nbf := False \<rparr> = validator_validation V (rk_algorithm k)"
    by (simp add: config validator_validation_def)
  from D(2) [unfolded same config(1)] obtain c where c: "jwt_decode (jl_access J) now token (rk_decoding_key k) (validator_validation V (rk_algorithm k)) = Inr c"
    and claims: "da_claims d = c \<lparr> tc_authorization_roles := token_dedupe_stable (tc_authorization_roles c) \<rparr>"
    by (rule decode_claims_Inr)
  have "tc_iss c = av_issuer V" "audience_accepted (validator_validation V (rk_algorithm k)) (tc_aud c)"
    using jwt_laws_decoded(1,2) [OF jwt c] by (auto simp: issuer_accepted_def validator_validation_def)
  moreover have "h_clock H (av_clock V) n < seconds (tc_exp c + int (unat (av_leeway_seconds V)))"
    using validate_time_claims_Inr(2) [OF time D(3)] by (simp add: claims config)
  moreover have "au_user_id user = tc_sub c"
    using claims_to_user_fields [OF user] by (simp add: claims)
  ultimately have "\<exists>h k w1 w2 now n c. jwt_decode_header (jl_access J) token = Inr h \<and>
       hd_alg h \<in> set (av_allowed_algorithms V) \<and> is_none_or (\<lambda>kid. hd_kid h = Some kid) (av_expected_kid V) \<and>
       av_key_resolver V (hd_kid h) w1 = (Inr k, w2) \<and> rk_algorithm k \<in> set (av_allowed_algorithms V) \<and>
       jwt_decode (jl_access J) now token (rk_decoding_key k) (validator_validation V (rk_algorithm k)) = Inr c \<and>
       vb_issuer B = Some (tc_iss c) \<and> \<not> blank (tc_iss c) \<and>
       audience_accepted (validator_validation V (rk_algorithm k)) (tc_aud c) \<and>
       h_clock H (av_clock V) n < seconds (tc_exp c + int (unat (av_leeway_seconds V))) \<and>
       au_user_id user = tc_sub c"
    using header key c B(1,2) by metis
  with opt_in custom allowed_algorithms_for_Inr(1) [OF algs] B(5) show ?thesis
    unfolding DEFAULT_MAX_LEEWAY_SECONDS_def by blast
qed

definition demo_validator_builder :: "unit AccessTokenValidatorBuilder" where
  "demo_validator_builder =
     builder_accept_hs256 True (builder_hs256_secret demo_secret
       (builder_audiences [''other'', ''agql-auth-clients''] (builder_issuer ''agql-auth''
         AccessTokenValidatorBuilder_new)))"

definition demo_validator_jwt :: jwt_lib where
  "demo_validator_jwt = demo_jwt [(''token'', Header_new HS256, demo_claims, EncodingSecret demo_secret)] []"

definition demo_validator :: "unit AccessTokenValidator" where
  "demo_validator =
     \<lparr> av_issuer = ''agql-auth'', av_audiences = [''other'', ''agql-auth-clients''], av_leeway_seconds = 0,
       av_allowed_algorithms = [HS256], av_purpose_policy = AccessTokenOrLegacy,
       av_legacy_scope_claims = Accept, av_claim_requirements = ClaimRequirements_none,
       av_key_resolver = static_resolver (static_hs256_resolve
         \<lparr> sh_decoding_key = DecodingSecret demo_secret, sh_kid = None \<rparr>),
       av_expected_kid = None, av_clock = SystemClock, av_scope_matcher = ExactScopeMatch,
       av_bearer_parse_mode = BearerOrRaw \<rparr>"

lemma demo_validator_built: "build_validator J X demo_validator_builder w = (Inr demo_validator, w)"
proof -
  have "\<not> blank ''agql-auth''" "\<not> blank ''other''" "\<not> blank ''agql-auth-clients''" by code_simp+
  then show ?thesis
    by (simp add: build_validator_def demo_validator_builder_def builder_defs AccessTokenValidatorBuilder_new_def
        required_non_empty_def build_key_resolver_def StaticHs256Key_from_secret_def allowed_algorithms_for_def
        MIN_HS256_SECRET_BYTES_def demo_secret_def demo_validator_def DEFAULT_MAX_LEEWAY_SECONDS_def
        bind_def ret_def lift_res_def require_def Let_def)
qed

lemma demo_validator_config:
  "decode_config_for_token demo_validator_jwt demo_validator ''token'' w =
     (Inr \<lparr> dc_decoding_key = DecodingSecret demo_secret, dc_validation = validator_validation demo_validator HS256,
            dc_expected_kid = None, dc_leeway_seconds = 0, dc_purpose_policy = AccessTokenOrLegacy,
            dc_legacy_scope_claims = Accept, dc_claim_requirements = ClaimRequirements_none,
            dc_clock = SystemClock, dc_allowed_algorithms = [HS256] \<rparr>, w)"
  by (simp add: decode_config_for_token_def demo_validator_def demo_validator_jwt_def demo_jwt_def table_codec_def
      Header_new_def static_resolver_def static_hs256_resolve_def bind_def ret_def lift_res_def require_def)

lemma demo_validator_authenticates:
  "\<exists>user w'. validator_authenticate_access_token std_ext demo_validator_jwt idle_host demo_validator ''token''
     \<lparr> w_store = (), w_tick = 0, w_fresh = 0 \<rparr> = (Inr user, w') \<and> au_user_id user = ''alice''"
proof -
  let ?config = "\<lparr> dc_decoding_key = DecodingSecret demo_secret,
      dc_validation = validator_validation demo_validator HS256, dc_expected_kid = None, dc_leeway_seconds = 0,
      dc_purpose_policy = AccessTokenOrLegacy, dc_legacy_scope_claims = Accept,
      dc_claim_requirements = ClaimRequirements_none, dc_clock = SystemClock, dc_allowed_algorithms = [HS256] \<rparr>"
  have "decode_access_token_claims std_ext (jl_access demo_validator_jwt) 0 0 ''token'' ?config =
      Inr \<lparr> da_claims = demo_claims, da_scopes = [''read'', ''write''] \<rparr>"
    by (rule demo_claims_accepted [where h = "Header_new HS256"])
      (simp_all add: demo_validator_jwt_def demo_jwt_def table_codec_def Header_new_def demo_pair_def
        validator_validation_def demo_validator_def issuer_accepted_def audience_accepted_def demo_claims_def)
  moreover have "uuid_parse_str std_ext (tc_sid demo_claims) = Some 5"
    by (simp add: std_ext_simps demo_claims_def)
  ultimately show ?thesis
    by (simp add: validator_authenticate_access_token_def bind_run(1) [OF demo_validator_config]
        access_token_claims_to_user_def bind_def now_from_def lift_res_def idle_host_def Let_def)
      (simp add: demo_claims_def)
qed

lemma validator_accepts_only_pinned_witness:
  "\<exists>user w'. validator_authenticate_access_token std_ext demo_validator_jwt idle_host demo_validator ''token''
     \<lparr> w_store = (), w_tick = 0, w_fresh = 0 \<rparr> = (Inr user, w') \<and>
     (\<exists>h. jwt_decode_header (jl_access demo_validator_jwt) ''token'' = Inr h \<and> hd_alg h \<in> {HS256})"
proof -
  obtain user w' where auth: "validator_authenticate_access_token std_ext demo_validator_jwt idle_host demo_validator
      ''token'' \<lparr> w_store = (), w_tick = 0, w_fresh = 0 \<rparr> = (Inr user, w')"
    using demo_validator_authenticates by blast
  have laws: "jwt_laws demo_pair access_claims_repr tc_iss tc_aud tc_exp (jl_access demo_validator_jwt)"
    by (simp add: demo_validator_jwt_def demo_jwt_def table_codec_laws)
  from validator_accepts_only_pinned [OF std_ext_time_laws laws
      demo_validator_built [of demo_validator_jwt demo_jwks_lib "\<lparr> w_store = (), w_tick = 0, w_fresh = 0 \<rparr>"] auth]
  have "\<exists>h. jwt_decode_header (jl_access demo_validator_jwt) ''token'' = Inr h \<and>
      hd_alg h \<in> set (av_allowed_algorithms demo_validator)" by blast
  with auth show ?thesis by (auto simp: demo_validator_def)
qed

text \<open>With a custom resolver the default algorithm is whatever the resolver reports: a host that
  passes an HS256 key as its resolver gets HS256 without ever calling \<open>accept_hs256(true)\<close>.\<close>

lemma custom_resolver_enables_hs256:
  assumes "vb_issuer B = Some iss" "\<not> blank iss" "vb_audiences B = [aud]" "\<not> blank aud"
    and "vb_leeway_seconds B = None" "vb_allowed_algorithms B = None" "\<not> vb_accept_hs256 B"
    and "vb_key_resolver B = Some (static_resolver (static_hs256_resolve key))" "sh_kid key = vb_key_id B"
  shows "\<exists>V w'. build_validator J X B w = (Inr V, w') \<and> av_allowed_algorithms V = [HS256]"
  using assms
  by (simp add: build_validator_def required_non_empty_def build_key_resolver_def allowed_algorithms_for_def
      static_resolver_def static_hs256_resolve_def DEFAULT_MAX_LEEWAY_SECONDS_def
      bind_def try_catch_def ret_def lift_res_def require_def Let_def)

end
