(* ===== verification/Api_Tokens.thy ===== *)
theory Api_Tokens
  imports Stores Principal_Reference Util Graphql
begin

text \<open>
  Long-lived opaque API tokens: the store trait of \<open>src/stores.rs\<close>, the in-memory store of
  \<open>src/tests.rs\<close> and the service of \<open>src/api_tokens.rs\<close>. The locale \<open>api_token_store\<close> states
  the contract of the store over the map from token digests to records; a client of it learns
  that an issued token authenticates as exactly what was requested, and that a revoked one never
  authenticates again.
\<close>

section \<open>The store (stores.rs, tests.rs)\<close>

record 'st ApiTokenStore =
  insert_api_token :: "StoredApiToken \<Rightarrow> 'st \<Rightarrow> unit AuthResult \<times> 'st"
  find_api_token_by_hash :: "string \<Rightarrow> 'st \<Rightarrow> StoredApiToken option AuthResult \<times> 'st"
  touch_api_token :: "uuid \<Rightarrow> time \<Rightarrow> string option \<Rightarrow> string option \<Rightarrow> 'st \<Rightarrow> unit AuthResult \<times> 'st"
  revoke_api_token :: "uuid \<Rightarrow> time \<Rightarrow> ApiTokenRevocationReason \<Rightarrow> 'st \<Rightarrow> unit AuthResult \<times> 'st"
  revoke_api_tokens_for_principal ::
    "string \<Rightarrow> ApiTokenPrincipalKind \<Rightarrow> time \<Rightarrow> ApiTokenRevocationReason \<Rightarrow> 'st \<Rightarrow> u64 AuthResult \<times> 'st"
  revoke_api_tokens_for_resource ::
    "string \<Rightarrow> string \<Rightarrow> time \<Rightarrow> ApiTokenRevocationReason \<Rightarrow> 'st \<Rightarrow> u64 AuthResult \<times> 'st"

text \<open>The default bodies of the bulk revocations.\<close>

definition revoke_for_principal_default ::
  "string \<Rightarrow> ApiTokenPrincipalKind \<Rightarrow> time \<Rightarrow> ApiTokenRevocationReason \<Rightarrow> 'st \<Rightarrow> u64 AuthResult \<times> 'st" where
  "revoke_for_principal_default subject principal_kind revoked_at reason st = (Inr 0, st)"

definition revoke_for_resource_default ::
  "string \<Rightarrow> string \<Rightarrow> time \<Rightarrow> ApiTokenRevocationReason \<Rightarrow> 'st \<Rightarrow> u64 AuthResult \<times> 'st" where
  "revoke_for_resource_default resource_type resource_id revoked_at reason st = (Inr 0, st)"

record MemoryApiTokenStore =
  ma_tokens_by_id :: "(uuid \<times> StoredApiToken) list"
  ma_token_hash_to_id :: "(string \<times> uuid) list"

definition api_get_by_hash :: "MemoryApiTokenStore \<Rightarrow> string \<Rightarrow> StoredApiToken option" where
  "api_get_by_hash s token_hash =
     Option.bind (map_of (ma_token_hash_to_id s) token_hash) (map_of (ma_tokens_by_id s))"

definition memory_insert_api_token ::
  "StoredApiToken \<Rightarrow> MemoryApiTokenStore \<Rightarrow> unit AuthResult \<times> MemoryApiTokenStore" where
  "memory_insert_api_token token s =
     (Inr (), s \<lparr> ma_token_hash_to_id := AList.update (at_token_hash token) (at_id token) (ma_token_hash_to_id s),
                  ma_tokens_by_id := AList.update (at_id token) token (ma_tokens_by_id s) \<rparr>)"

definition memory_find_api_token_by_hash ::
  "string \<Rightarrow> MemoryApiTokenStore \<Rightarrow> StoredApiToken option AuthResult \<times> MemoryApiTokenStore" where
  "memory_find_api_token_by_hash token_hash s = (Inr (api_get_by_hash s token_hash), s)"

definition memory_touch_api_token ::
  "uuid \<Rightarrow> time \<Rightarrow> string option \<Rightarrow> string option \<Rightarrow> MemoryApiTokenStore \<Rightarrow> unit AuthResult \<times> MemoryApiTokenStore" where
  "memory_touch_api_token token_id used_at ip_address user_agent s =
     (Inr (), s \<lparr> ma_tokens_by_id := AList.map_entry token_id
        (\<lambda>token. token \<lparr> at_last_used_at := Some used_at, at_ip_address := ip_address,
                         at_user_agent := user_agent \<rparr>) (ma_tokens_by_id s) \<rparr>)"

definition memory_revoke_api_token ::
  "uuid \<Rightarrow> time \<Rightarrow> ApiTokenRevocationReason \<Rightarrow> MemoryApiTokenStore \<Rightarrow> unit AuthResult \<times> MemoryApiTokenStore" where
  "memory_revoke_api_token token_id revoked_at reason s =
     (Inr (), s \<lparr> ma_tokens_by_id := AList.map_entry token_id
        (\<lambda>token. token \<lparr> at_revoked_at := Some revoked_at \<rparr>) (ma_tokens_by_id s) \<rparr>)"

text \<open>The two bulk revocations share their loop: records that satisfy a condition and are still
  live are revoked, and counted.\<close>

definition memory_revoke_where ::
  "(StoredApiToken \<Rightarrow> bool) \<Rightarrow> time \<Rightarrow> MemoryApiTokenStore \<Rightarrow> u64 AuthResult \<times> MemoryApiTokenStore" where
  "memory_revoke_where P revoked_at s =
     (let hit = (\<lambda>token. P token \<and> at_revoked_at token = None) in
      (Inr (of_nat (length (filter (\<lambda>(i, token). hit token) (ma_tokens_by_id s)))),
       s \<lparr> ma_tokens_by_id := map (\<lambda>(i, token).
            (i, if hit token then token \<lparr> at_revoked_at := Some revoked_at \<rparr> else token)) (ma_tokens_by_id s) \<rparr>))"

definition memory_revoke_api_tokens_for_principal ::
  "string \<Rightarrow> ApiTokenPrincipalKind \<Rightarrow> time \<Rightarrow> ApiTokenRevocationReason \<Rightarrow> MemoryApiTokenStore \<Rightarrow>
   u64 AuthResult \<times> MemoryApiTokenStore" where
  "memory_revoke_api_tokens_for_principal subject principal_kind revoked_at reason =
     memory_revoke_where (\<lambda>token. at_subject token = subject \<and> at_principal_kind token = principal_kind) revoked_at"

definition memory_revoke_api_tokens_for_resource ::
  "string \<Rightarrow> string \<Rightarrow> time \<Rightarrow> ApiTokenRevocationReason \<Rightarrow> MemoryApiTokenStore \<Rightarrow>
   u64 AuthResult \<times> MemoryApiTokenStore" where
  "memory_revoke_api_tokens_for_resource resource_type resource_id revoked_at reason =
     memory_revoke_where (\<lambda>token. at_resource_type token = Some resource_type \<and>
                                  at_resource_id token = Some resource_id) revoked_at"

definition MemoryApiTokenStore_impl :: "MemoryApiTokenStore ApiTokenStore" where
  "MemoryApiTokenStore_impl =
     \<lparr> insert_api_token = memory_insert_api_token,
       find_api_token_by_hash = memory_find_api_token_by_hash,
       touch_api_token = memory_touch_api_token,
       revoke_api_token = memory_revoke_api_token,
       revoke_api_tokens_for_principal = memory_revoke_api_tokens_for_principal,
       revoke_api_tokens_for_resource = memory_revoke_api_tokens_for_resource \<rparr>"

section \<open>The service (api\_tokens.rs)\<close>

definition DEFAULT_API_TOKEN_PREFIX :: string where
  "DEFAULT_API_TOKEN_PREFIX = ''agql_api_''"

record 'st ApiTokenService =
  as_store :: "'st ApiTokenStore"
  as_token_prefix :: string

definition ApiTokenService_new :: "'st ApiTokenStore \<Rightarrow> 'st ApiTokenService" where
  "ApiTokenService_new S = \<lparr> as_store = S, as_token_prefix = DEFAULT_API_TOKEN_PREFIX \<rparr>"

definition validate_token_prefix :: "string \<Rightarrow> unit AuthResult" where
  "validate_token_prefix token_prefix =
     bind_res (reject_when (blank token_prefix)
       (InvalidConfiguration ''api token prefix must not be empty'')) (\<lambda>_.
     bind_res (reject_when (contains_ws token_prefix)
       (InvalidConfiguration ''api token prefix must not contain whitespace'')) (\<lambda>_.
     bind_res (reject_when (CHR ''.'' \<in> set token_prefix)
       (InvalidConfiguration (''api token prefix must not contain '' @ [CHR 0x27, CHR ''.'', CHR 0x27]))) (\<lambda>_. Inr ())))"

definition ApiTokenService_with_prefix :: "'st ApiTokenStore \<Rightarrow> string \<Rightarrow> 'st ApiTokenService AuthResult" where
  "ApiTokenService_with_prefix S token_prefix =
     bind_res (validate_token_prefix token_prefix) (\<lambda>_.
       Inr \<lparr> as_store = S, as_token_prefix = token_prefix \<rparr>)"

definition validate_issue_request :: "ApiTokenIssueRequest \<Rightarrow> unit AuthResult" where
  "validate_issue_request request =
     bind_res (reject_when (blank (ar_display_name request))
       (InvalidConfiguration ''api token display_name must not be empty'')) (\<lambda>_.
     bind_res (reject_when (blank (ar_subject request))
       (InvalidConfiguration ''api token subject must not be empty'')) (\<lambda>_.
     bind_res (reject_when (blank (ar_principal_kind request))
       (InvalidConfiguration ''api token principal_kind must not be empty'')) (\<lambda>_.
     bind_res (reject_when (ar_ttl request \<le> 0)
       (InvalidConfiguration ''api token ttl must be greater than zero'')) (\<lambda>_. Inr ()))))"

definition issued_record ::
  "ApiTokenIssueRequest \<Rightarrow> uuid \<Rightarrow> string \<Rightarrow> time \<Rightarrow> time \<Rightarrow> StoredApiToken" where
  "issued_record request token_id token_hash now expires_at =
     \<lparr> at_id = token_id, at_token_hash = token_hash, at_display_name = ar_display_name request,
       at_subject = ar_subject request, at_principal_kind = ar_principal_kind request,
       at_scopes = ar_scopes request, at_audience = ar_audience request,
       at_resource_type = ar_resource_type request, at_resource_id = ar_resource_id request,
       at_created_at = now, at_expires_at = expires_at, at_last_used_at = None, at_revoked_at = None,
       at_user_agent = cm_user_agent (ar_metadata request),
       at_ip_address = cm_ip_address (ar_metadata request) \<rparr>"

definition issue_api_token ::
  "ext \<Rightarrow> 'st host \<Rightarrow> 'st ApiTokenService \<Rightarrow> ApiTokenIssueRequest \<Rightarrow> ('st, IssuedApiToken) action" where
  "issue_api_token E H A request =
     bind (lift_res (validate_issue_request request)) (\<lambda>_.
     bind (now_from H SystemClock) (\<lambda>now.
     bind (lift_res (checked_expiry E now (ar_ttl request) ''API-token ttl'')) (\<lambda>expires_at.
     bind (new_uuid H) (\<lambda>token_id.
     bind (random_bytes H) (\<lambda>rnd.
     let raw_token = as_token_prefix A @ generate_opaque_token E rnd in
     bind (store_call H (\<lambda>_. insert_api_token (as_store A)
       (issued_record request token_id (hash_api_token E raw_token) now expires_at))) (\<lambda>_.
       ret \<lparr> ia_token_id = token_id, ia_token = raw_token, ia_display_name = ar_display_name request,
             ia_subject = ar_subject request, ia_principal_kind = ar_principal_kind request,
             ia_scopes = ar_scopes request, ia_audience = ar_audience request,
             ia_resource_type = ar_resource_type request, ia_resource_id = ar_resource_id request,
             ia_created_at = now, ia_expires_at = expires_at \<rparr>))))))"

definition authenticate_api_token ::
  "ext \<Rightarrow> 'st host \<Rightarrow> 'st ApiTokenService \<Rightarrow> string \<Rightarrow> ClientMetadata \<Rightarrow> ('st, ApiTokenPrincipal) action" where
  "authenticate_api_token E H A token metadata =
     bind (require (prefix (as_token_prefix A) token) InvalidApiToken) (\<lambda>_.
     bind (store_call H (\<lambda>_. find_api_token_by_hash (as_store A) (hash_api_token E token))) (\<lambda>found.
     bind (lift_res (ok_or InvalidApiToken found)) (\<lambda>stored.
     bind (require (\<not> api_token_is_revoked stored) ApiTokenRevoked) (\<lambda>_.
     bind (now_from H SystemClock) (\<lambda>now.
     bind (require (\<not> api_token_is_expired stored now) ApiTokenExpired) (\<lambda>_.
     bind (now_from H SystemClock) (\<lambda>used_at.
     bind (store_call H (\<lambda>_. touch_api_token (as_store A) (at_id stored) used_at
             (cm_ip_address metadata) (cm_user_agent metadata))) (\<lambda>_.
       ret (api_token_to_principal stored)))))))))"

definition authenticate_api_bearer ::
  "ext \<Rightarrow> 'st host \<Rightarrow> 'st ApiTokenService \<Rightarrow> string \<Rightarrow> ClientMetadata \<Rightarrow> ('st, ApiTokenPrincipal) action" where
  "authenticate_api_bearer E H A bearer_or_token metadata =
     bind (lift_res (strip_bearer_prefix bearer_or_token)) (\<lambda>token. authenticate_api_token E H A token metadata)"

definition revoke_token_by_id ::
  "'st host \<Rightarrow> 'st ApiTokenService \<Rightarrow> uuid \<Rightarrow> ApiTokenRevocationReason \<Rightarrow> ('st, unit) action" where
  "revoke_token_by_id H A token_id reason =
     bind (now_from H SystemClock) (\<lambda>now.
       store_call H (\<lambda>_. revoke_api_token (as_store A) token_id now reason))"

definition inject_api_token :: "ApiTokenPrincipal \<Rightarrow> request_data \<Rightarrow> request_data" where
  "inject_api_token princ request = request \<lparr> rd_api_token := Some princ, rd_principal := Some (ApiToken princ) \<rparr>"

definition api_inject_http_auth ::
  "ext \<Rightarrow> 'st host \<Rightarrow> 'st ApiTokenService \<Rightarrow> request_data \<Rightarrow> string option \<Rightarrow> ClientMetadata \<Rightarrow>
   ('st, request_data) action" where
  "api_inject_http_auth E H A request bearer_or_token metadata =
     (case bearer_or_token of
        None \<Rightarrow> ret request
      | Some raw \<Rightarrow> bind (authenticate_api_bearer E H A raw metadata) (\<lambda>princ. ret (inject_api_token princ request)))"

section \<open>The contract of the store\<close>

type_synonym api_map = "string \<rightharpoonup> StoredApiToken"

text \<open>What every operation keeps: a record stays under its digest with the principal it stands
  for, and once revoked it stays revoked.\<close>

definition api_evolves :: "api_map \<Rightarrow> api_map \<Rightarrow> bool" where
  "api_evolves m m' \<longleftrightarrow>
     (\<forall>h t. m h = Some t \<longrightarrow>
        (\<exists>t'. m' h = Some t' \<and> api_token_to_principal t' = api_token_to_principal t \<and>
           (api_token_is_revoked t \<longrightarrow> api_token_is_revoked t')))"

lemma api_evolvesE:
  assumes "api_evolves m m'" and "m h = Some t"
  obtains t' where "m' h = Some t'" "api_token_to_principal t' = api_token_to_principal t"
    "api_token_is_revoked t \<Longrightarrow> api_token_is_revoked t'"
  using assms unfolding api_evolves_def by metis

lemma api_evolves_refl [simp]: "api_evolves m m"
  by (simp add: api_evolves_def)

lemma api_evolves_trans: "api_evolves m1 m2 \<Longrightarrow> api_evolves m2 m3 \<Longrightarrow> api_evolves m1 m3"
  unfolding api_evolves_def by metis

definition api_fresh :: "api_map \<Rightarrow> uuid \<Rightarrow> string \<Rightarrow> bool" where
  "api_fresh m token_id token_hash \<longleftrightarrow> m token_hash = None \<and> (\<forall>t \<in> ran m. at_id t \<noteq> token_id)"

locale api_token_store =
  fixes records :: "'st \<Rightarrow> api_map" and ok :: "'st \<Rightarrow> bool" and S :: "'st ApiTokenStore"
  assumes insert_law: "ok st \<Longrightarrow> api_fresh (records st) (at_id t) (at_token_hash t) \<Longrightarrow>
      insert_api_token S t st = (ri, st') \<Longrightarrow>
      ok st' \<and> records st' = (if is_ok ri then (records st)(at_token_hash t \<mapsto> t) else records st)"
    and find_law: "ok st \<Longrightarrow> find_api_token_by_hash S h st = (rf, st') \<Longrightarrow>
      ok st' \<and> records st' = records st \<and> (\<forall>x. rf = Inr x \<longrightarrow> x = records st h)"
    and touch_law: "ok st \<Longrightarrow> touch_api_token S i at ip ua st = (rt, st') \<Longrightarrow>
      ok st' \<and> api_evolves (records st) (records st')"
    and revoke_law: "ok st \<Longrightarrow> revoke_api_token S i at reason st = (rt, st') \<Longrightarrow>
      ok st' \<and> api_evolves (records st) (records st') \<and>
      (is_ok rt \<longrightarrow> (\<forall>t \<in> ran (records st'). at_id t = i \<longrightarrow> api_token_is_revoked t))"
    and principal_law: "ok st \<Longrightarrow> revoke_api_tokens_for_principal S subj kind at reason st = (rp, st') \<Longrightarrow>
      ok st' \<and> api_evolves (records st) (records st')"
    and resource_law: "ok st \<Longrightarrow> revoke_api_tokens_for_resource S rty rid at reason st = (rp, st') \<Longrightarrow>
      ok st' \<and> api_evolves (records st) (records st')"

text \<open>A store whose reads and usage updates never fail.\<close>

definition store_answers :: "'st ApiTokenStore \<Rightarrow> bool" where
  "store_answers S \<longleftrightarrow> (\<forall>h st. is_ok (fst (find_api_token_by_hash S h st))) \<and>
     (\<forall>i at ip ua st. is_ok (fst (touch_api_token S i at ip ua st)))"

text \<open>A client on a host whose other tasks keep the same rules.\<close>

locale api_token_client = api_token_store records ok "as_store A"
  for records :: "'st \<Rightarrow> api_map" and ok :: "'st \<Rightarrow> bool" and A :: "'st ApiTokenService" +
  fixes H :: "'st host"
  assumes rely: "ok st \<Longrightarrow> ok (h_interfere H n st) \<and> api_evolves (records st) (records (h_interfere H n st))"
begin

lemma authenticate_Inr:
  assumes good: "ok (w_store w)" and run: "authenticate_api_token E H A token md w = (Inr p, w')"
  shows "prefix (as_token_prefix A) token" "ok (w_store w')"
    "api_evolves (records (w_store w)) (records (w_store w'))"
    "\<exists>t now. records (h_interfere H (w_tick w) (w_store w)) (hash_api_token E token) = Some t \<and>
       p = api_token_to_principal t \<and> \<not> api_token_is_revoked t \<and> now = h_clock H SystemClock (Suc (w_tick w)) \<and>
       now < at_expires_at t"
proof -
  let ?st = "h_interfere H (w_tick w) (w_store w)"
  from run obtain t st1 st2 where pre: "prefix (as_token_prefix A) token"
    and find: "find_api_token_by_hash (as_store A) (hash_api_token E token) ?st = (Inr (Some t), st1)"
    and live: "\<not> api_token_is_revoked t" "\<not> api_token_is_expired t (h_clock H SystemClock (Suc (w_tick w)))"
    and touch: "touch_api_token (as_store A) (at_id t) (h_clock H SystemClock (Suc (Suc (w_tick w))))
       (cm_ip_address md) (cm_user_agent md) (h_interfere H (Suc (Suc (Suc (w_tick w)))) st1) = (Inr (), st2)"
    and p: "p = api_token_to_principal t" and w': "w_store w' = st2"
    by (auto simp: authenticate_api_token_def action_simps ok_or_Inr)
  note r1 = rely [OF good, of "w_tick w"]
  from find_law [OF conjunct1 [OF r1] find]
  have f: "ok st1" "records st1 = records ?st" "records ?st (hash_api_token E token) = Some t" by auto
  note r2 = rely [OF f(1), of "Suc (Suc (Suc (w_tick w)))"]
  have "ok st2" "api_evolves (records st1) (records st2)"
    using r2 touch_law [OF conjunct1 [OF r2] touch] by (auto intro: api_evolves_trans)
  with r1 f w' show "ok (w_store w')" "api_evolves (records (w_store w)) (records (w_store w'))"
    by (auto intro: api_evolves_trans)
  show "prefix (as_token_prefix A) token" by (rule pre)
  show "\<exists>t now. records ?st (hash_api_token E token) = Some t \<and> p = api_token_to_principal t \<and>
     \<not> api_token_is_revoked t \<and> now = h_clock H SystemClock (Suc (w_tick w)) \<and> now < at_expires_at t"
    using f(3) p live by (auto simp: api_token_is_expired_def not_le)
qed

lemma issue_stores:
  assumes good: "ok (w_store w)" and run: "issue_api_token E H A request w = (Inr issued, w')"
    and fresh: "\<And>n. api_fresh (records (h_interfere H n (w_store w))) (ia_token_id issued)
      (hash_api_token E (ia_token issued))"
  shows "ok (w_store w')" "prefix (as_token_prefix A) (ia_token issued)"
    "records (w_store w') (hash_api_token E (ia_token issued)) =
       Some (issued_record request (ia_token_id issued) (hash_api_token E (ia_token issued))
         (ia_created_at issued) (ia_expires_at issued))"
    "ia_created_at issued = h_clock H SystemClock (w_tick w)"
    "checked_expiry E (ia_created_at issued) (ar_ttl request) ''API-token ttl'' = Inr (ia_expires_at issued)"
proof -
  let ?rec = "issued_record request (ia_token_id issued) (hash_api_token E (ia_token issued))
      (ia_created_at issued) (ia_expires_at issued)"
  from run obtain n st where
    ins: "insert_api_token (as_store A) ?rec (h_interfere H n (w_store w)) = (Inr (), st)"
    and w': "w_store w' = st" and rest: "prefix (as_token_prefix A) (ia_token issued)"
      "ia_created_at issued = h_clock H SystemClock (w_tick w)"
      "checked_expiry E (ia_created_at issued) (ar_ttl request) ''API-token ttl'' = Inr (ia_expires_at issued)"
    by (auto simp: issue_api_token_def action_simps Let_def)
  have "at_id ?rec = ia_token_id issued" "at_token_hash ?rec = hash_api_token E (ia_token issued)"
    by (simp_all add: issued_record_def)
  with insert_law [OF _ _ ins] rely [OF good, of n] fresh [of n] w'
  show "ok (w_store w')" "records (w_store w') (hash_api_token E (ia_token issued)) = Some ?rec" by simp_all
qed (use run in \<open>auto simp: issue_api_token_def action_simps Let_def\<close>)

text \<open>A live record of an unexpired token authenticates whenever the store answers.\<close>

lemma authenticate_live:
  assumes good: "ok (w_store w)" and pre: "prefix (as_token_prefix A) token"
    and rec: "records (h_interfere H (w_tick w) (w_store w)) (hash_api_token E token) = Some t"
    and live: "\<not> api_token_is_revoked t" "h_clock H SystemClock (Suc (w_tick w)) < at_expires_at t"
    and answers: "store_answers (as_store A)"
  shows "\<exists>w'. authenticate_api_token E H A token md w = (Inr (api_token_to_principal t), w')"
proof -
  obtain r1 st1 where find: "find_api_token_by_hash (as_store A) (hash_api_token E token)
      (h_interfere H (w_tick w) (w_store w)) = (r1, st1)" by fastforce
  from answers have "is_ok (fst (find_api_token_by_hash (as_store A) (hash_api_token E token)
      (h_interfere H (w_tick w) (w_store w))))" by (simp add: store_answers_def)
  with find find_law [OF conjunct1 [OF rely [OF good]] find] rec have r1: "r1 = Inr (Some t)"
    by (auto simp: is_ok_iff)
  obtain r2 st2 where touch: "touch_api_token (as_store A) (at_id t) (h_clock H SystemClock (Suc (Suc (w_tick w))))
     (cm_ip_address md) (cm_user_agent md) (h_interfere H (Suc (Suc (Suc (w_tick w)))) st1) = (r2, st2)"
    by fastforce
  then have "is_ok r2" using answers unfolding store_answers_def by (metis fst_conv)
  then have "r2 = Inr ()" by (auto simp: is_ok_iff)
  with find r1 touch pre live show ?thesis
    by (auto simp: authenticate_api_token_def action_simps ok_or_Inr api_token_is_expired_def not_le)
qed

lemma revoke_marks:
  assumes good: "ok (w_store w)" and run: "revoke_token_by_id H A i reason w = (Inr (), w')"
    and rec: "records (w_store w) h = Some t" "at_id t = i"
  shows "ok (w_store w')" "\<exists>t'. records (w_store w') h = Some t' \<and> api_token_is_revoked t'"
proof -
  let ?st = "h_interfere H (Suc (w_tick w)) (w_store w)"
  from run have r: "revoke_api_token (as_store A) i (h_clock H SystemClock (w_tick w)) reason ?st = (Inr (), w_store w')"
    by (auto simp: revoke_token_by_id_def action_simps)
  from rely [OF good, of "Suc (w_tick w)"] revoke_law [OF _ r]
  have st': "ok (w_store w')" "api_evolves (records (w_store w)) (records (w_store w'))"
    "\<forall>t \<in> ran (records (w_store w')). at_id t = i \<longrightarrow> api_token_is_revoked t"
    by (auto intro: api_evolves_trans)
  from st'(2) rec(1) obtain t' where "records (w_store w') h = Some t'"
    "api_token_to_principal t' = api_token_to_principal t" by (rule api_evolvesE)
  with st'(3) rec show "\<exists>t'. records (w_store w') h = Some t' \<and> api_token_is_revoked t'"
    by (auto simp: api_token_to_principal_def intro: ranI)
  show "ok (w_store w')" by (rule st'(1))
qed

text \<open>A revoked record makes authentication fail, and keeps doing so.\<close>

lemma authenticate_revoked:
  assumes good: "ok (w_store w)" and rec: "records (w_store w) (hash_api_token E token) = Some t"
    and "api_token_is_revoked t"
  shows "\<not> is_ok (fst (authenticate_api_token E H A token md w))"
proof
  assume "is_ok (fst (authenticate_api_token E H A token md w))"
  then obtain p w' where "authenticate_api_token E H A token md w = (Inr p, w')"
    by (metis is_ok_iff prod.collapse)
  from authenticate_Inr(4) [OF good this] obtain u where
    u: "records (h_interfere H (w_tick w) (w_store w)) (hash_api_token E token) = Some u" "\<not> api_token_is_revoked u"
    by blast
  with conjunct2 [OF rely [OF good, of "w_tick w"]] rec assms(3) show False by (auto elim!: api_evolvesE)
qed

end

section \<open>The in-memory store satisfies the contract\<close>

definition mat_ok :: "MemoryApiTokenStore \<Rightarrow> bool" where
  "mat_ok s \<longleftrightarrow>
     (\<forall>h i. map_of (ma_token_hash_to_id s) h = Some i \<longrightarrow>
        (\<exists>t. map_of (ma_tokens_by_id s) i = Some t \<and> at_token_hash t = h)) \<and>
     (\<forall>i t. map_of (ma_tokens_by_id s) i = Some t \<longrightarrow>
        at_id t = i \<and> map_of (ma_token_hash_to_id s) (at_token_hash t) = Some i)"

lemma mat_okD:
  assumes "mat_ok s"
  shows "map_of (ma_token_hash_to_id s) h = Some i \<Longrightarrow> \<exists>t. map_of (ma_tokens_by_id s) i = Some t \<and> at_token_hash t = h"
    and "map_of (ma_tokens_by_id s) i = Some t \<Longrightarrow> at_id t = i"
    and "map_of (ma_tokens_by_id s) i = Some t \<Longrightarrow> map_of (ma_token_hash_to_id s) (at_token_hash t) = Some i"
  using assms by (auto simp: mat_ok_def)

lemma api_get_by_hash_iff:
  assumes "mat_ok s"
  shows "api_get_by_hash s h = Some t \<longleftrightarrow> map_of (ma_tokens_by_id s) (at_id t) = Some t \<and> at_token_hash t = h"
proof
  assume "api_get_by_hash s h = Some t"
  then obtain i where i: "map_of (ma_token_hash_to_id s) h = Some i" "map_of (ma_tokens_by_id s) i = Some t"
    by (auto simp: api_get_by_hash_def bind_eq_Some_conv)
  with mat_okD(1) [OF assms i(1)] mat_okD(2) [OF assms i(2)]
  show "map_of (ma_tokens_by_id s) (at_id t) = Some t \<and> at_token_hash t = h" by auto
next
  assume "map_of (ma_tokens_by_id s) (at_id t) = Some t \<and> at_token_hash t = h"
  with mat_okD(3) [OF assms, of "at_id t" t] show "api_get_by_hash s h = Some t"
    by (simp add: api_get_by_hash_def)
qed

lemma memory_insert_api_correct:
  assumes good: "mat_ok s" and fresh: "api_fresh (api_get_by_hash s) (at_id t) (at_token_hash t)"
  shows "mat_ok (snd (memory_insert_api_token t s))"
    "api_get_by_hash (snd (memory_insert_api_token t s)) = (api_get_by_hash s)(at_token_hash t \<mapsto> t)"
proof -
  have id: "map_of (ma_tokens_by_id s) (at_id t) = None"
  proof (rule ccontr)
    assume "map_of (ma_tokens_by_id s) (at_id t) \<noteq> None"
    then obtain u where u: "map_of (ma_tokens_by_id s) (at_id t) = Some u" by auto
    with good have "at_id u = at_id t" "api_get_by_hash s (at_token_hash u) = Some u"
      by (auto simp: mat_ok_def api_get_by_hash_def)
    with fresh show False by (auto simp: api_fresh_def intro: ranI)
  qed
  have h: "map_of (ma_token_hash_to_id s) (at_token_hash t) = None"
    using mat_okD(1) [OF good, of "at_token_hash t"] fresh
    by (cases "map_of (ma_token_hash_to_id s) (at_token_hash t)") (auto simp: api_fresh_def api_get_by_hash_def)
  let ?s = "snd (memory_insert_api_token t s)"
  have m: "map_of (ma_token_hash_to_id ?s) = (map_of (ma_token_hash_to_id s))(at_token_hash t \<mapsto> at_id t)"
    "map_of (ma_tokens_by_id ?s) = (map_of (ma_tokens_by_id s))(at_id t \<mapsto> t)"
    by (simp_all add: memory_insert_api_token_def update_conv')
  have other: "i \<noteq> at_id t" if "map_of (ma_token_hash_to_id s) h = Some i" for h i
    using mat_okD(1) [OF good that] id by auto
  have known: "at_token_hash u \<noteq> at_token_hash t" if "map_of (ma_tokens_by_id s) i = Some u" for i u
    using mat_okD(3) [OF good that] h by auto
  show "mat_ok ?s"
    unfolding mat_ok_def m using mat_okD [OF good] id other known by (auto split: if_splits)
  show "api_get_by_hash ?s = (api_get_by_hash s)(at_token_hash t \<mapsto> t)"
    unfolding fun_eq_iff api_get_by_hash_def m using other by (auto split: Option.bind_splits)
qed

text \<open>Every other operation rewrites records in place.\<close>

lemma mat_rewrite:
  assumes good: "mat_ok s" and hash: "ma_token_hash_to_id s' = ma_token_hash_to_id s"
    and by_id: "\<And>i. map_of (ma_tokens_by_id s') i = map_option (f i) (map_of (ma_tokens_by_id s) i)"
    and keeps: "\<And>i t. at_token_hash (f i t) = at_token_hash t \<and>
      api_token_to_principal (f i t) = api_token_to_principal t \<and>
      (api_token_is_revoked t \<longrightarrow> api_token_is_revoked (f i t))"
  shows "mat_ok s' \<and> api_evolves (api_get_by_hash s) (api_get_by_hash s')"
proof -
  have [simp]: "at_id (f i t) = at_id t" "at_token_hash (f i t) = at_token_hash t" for i t
    using keeps [of i t] by (simp_all add: api_token_to_principal_def)
  have "mat_ok s'"
    unfolding mat_ok_def hash by_id using mat_okD(2,3) [OF good] by (auto dest: mat_okD(1) [OF good])
  moreover have "api_get_by_hash s' h = Option.bind (map_of (ma_token_hash_to_id s) h)
      (\<lambda>i. map_option (f i) (map_of (ma_tokens_by_id s) i))" for h
    by (simp add: api_get_by_hash_def hash by_id cong: Option.bind_cong)
  ultimately show ?thesis
    using keeps by (auto simp: api_evolves_def api_get_by_hash_def bind_eq_Some_conv)
qed

lemmas api_record_simps =
  api_token_to_principal_def api_token_is_revoked_def map_of_map_entry map_of_map_values

lemma memory_touch_api_correct:
  assumes "mat_ok s"
  shows "mat_ok (snd (memory_touch_api_token i at ip ua s)) \<and>
    api_evolves (api_get_by_hash s) (api_get_by_hash (snd (memory_touch_api_token i at ip ua s)))"
  by (rule mat_rewrite [OF assms, where f = "\<lambda>j token. if j = i
        then token \<lparr> at_last_used_at := Some at, at_ip_address := ip, at_user_agent := ua \<rparr> else token"])
    (auto simp: memory_touch_api_token_def api_record_simps option.map_ident split: option.split)

lemma memory_revoke_api_correct:
  assumes "mat_ok s"
  shows "mat_ok (snd (memory_revoke_api_token i at reason s)) \<and>
    api_evolves (api_get_by_hash s) (api_get_by_hash (snd (memory_revoke_api_token i at reason s)))"
  by (rule mat_rewrite [OF assms, where f = "\<lambda>j token. if j = i then token \<lparr> at_revoked_at := Some at \<rparr> else token"])
    (auto simp: memory_revoke_api_token_def api_record_simps option.map_ident split: option.split)

lemma memory_revoke_api_marks:
  assumes "mat_ok s" "t \<in> ran (api_get_by_hash (snd (memory_revoke_api_token i at reason s)))" "at_id t = i"
  shows "api_token_is_revoked t"
proof -
  have "mat_ok (snd (memory_revoke_api_token i at reason s))"
    using memory_revoke_api_correct [OF assms(1)] by blast
  with assms(2,3) have "map_of (ma_tokens_by_id (snd (memory_revoke_api_token i at reason s))) i = Some t"
    by (auto simp: ran_def api_get_by_hash_iff)
  then show ?thesis
    by (auto simp: memory_revoke_api_token_def api_token_is_revoked_def map_of_map_entry split: option.splits)
qed

lemma memory_revoke_where_correct:
  assumes "mat_ok s"
  shows "mat_ok (snd (memory_revoke_where P at s)) \<and>
    api_evolves (api_get_by_hash s) (api_get_by_hash (snd (memory_revoke_where P at s)))"
  by (rule mat_rewrite [OF assms, where f = "\<lambda>j token. if P token \<and> at_revoked_at token = None
        then token \<lparr> at_revoked_at := Some at \<rparr> else token"])
    (auto simp: memory_revoke_where_def Let_def api_record_simps)

interpretation mat: api_token_store api_get_by_hash mat_ok MemoryApiTokenStore_impl
proof
  show "mat_ok st' \<and> api_get_by_hash st' =
      (if is_ok r then (api_get_by_hash st)(at_token_hash t \<mapsto> t) else api_get_by_hash st)"
    if "mat_ok st" "api_fresh (api_get_by_hash st) (at_id t) (at_token_hash t)"
      "insert_api_token MemoryApiTokenStore_impl t st = (r, st')" for st t r st'
    using memory_insert_api_correct [OF that(1,2)] that(3)
    by (simp add: MemoryApiTokenStore_impl_def) (auto simp: memory_insert_api_token_def)
  show "mat_ok st' \<and> api_get_by_hash st' = api_get_by_hash st \<and> (\<forall>x. r = Inr x \<longrightarrow> x = api_get_by_hash st h)"
    if "mat_ok st" "find_api_token_by_hash MemoryApiTokenStore_impl h st = (r, st')" for st h r st'
    using that by (auto simp: MemoryApiTokenStore_impl_def memory_find_api_token_by_hash_def)
  show "mat_ok st' \<and> api_evolves (api_get_by_hash st) (api_get_by_hash st')"
    if "mat_ok st" "touch_api_token MemoryApiTokenStore_impl i at ip ua st = (r, st')" for st i at ip ua r st'
    using memory_touch_api_correct [OF that(1), of i at ip ua] that(2) by (simp add: MemoryApiTokenStore_impl_def)
  show "mat_ok st' \<and> api_evolves (api_get_by_hash st) (api_get_by_hash st') \<and>
      (is_ok r \<longrightarrow> (\<forall>t \<in> ran (api_get_by_hash st'). at_id t = i \<longrightarrow> api_token_is_revoked t))"
    if "mat_ok st" "revoke_api_token MemoryApiTokenStore_impl i at reason st = (r, st')" for st i at reason r st'
    using memory_revoke_api_correct [OF that(1), of i at reason] memory_revoke_api_marks [OF that(1), of _ i at reason]
      that(2) by (simp add: MemoryApiTokenStore_impl_def)
  show "mat_ok st' \<and> api_evolves (api_get_by_hash st) (api_get_by_hash st')"
    if "mat_ok st" "revoke_api_tokens_for_principal MemoryApiTokenStore_impl subj kind at reason st = (r, st')"
    for st subj kind at reason r st'
    using memory_revoke_where_correct [OF that(1)] that(2)
    by (simp add: MemoryApiTokenStore_impl_def memory_revoke_api_tokens_for_principal_def) (metis snd_conv)
  show "mat_ok st' \<and> api_evolves (api_get_by_hash st) (api_get_by_hash st')"
    if "mat_ok st" "revoke_api_tokens_for_resource MemoryApiTokenStore_impl rty rid at reason st = (r, st')"
    for st rty rid at reason r st'
    using memory_revoke_where_correct [OF that(1)] that(2)
    by (simp add: MemoryApiTokenStore_impl_def memory_revoke_api_tokens_for_resource_def) (metis snd_conv)
qed

interpretation matc: api_token_client api_get_by_hash mat_ok "ApiTokenService_new MemoryApiTokenStore_impl" idle_host
  using mat.api_token_store_axioms
  by (simp add: api_token_client_def api_token_client_axioms_def ApiTokenService_new_def idle_host_def)

section \<open>Issued tokens authenticate, revoked ones never do\<close>

definition requested_principal :: "ApiTokenIssueRequest \<Rightarrow> uuid \<Rightarrow> time \<Rightarrow> ApiTokenPrincipal" where
  "requested_principal request token_id expires_at =
     \<lparr> ap_token_id = token_id, ap_subject = ar_subject request, ap_principal_kind = ar_principal_kind request,
       ap_scopes = ar_scopes request, ap_audience = ar_audience request,
       ap_resource_type = ar_resource_type request, ap_resource_id = ar_resource_id request,
       ap_expires_at = expires_at \<rparr>"

text \<open>An issued API token authenticates as exactly the requested principal. However the store
  evolved since, as long as the record was not revoked, the clock has not reached the expiry
  (which is the issue time plus the requested lifetime) and the store answers, presenting the raw
  token yields the subject, kind, scopes, audience and resource that were requested.\<close>

theorem api_token_roundtrip:
  assumes client: "api_token_client records ok A H" and time: "time_laws E"
    and good: "ok (w_store w)" and issue: "issue_api_token E H A request w = (Inr issued, w')"
    and fresh: "\<And>n. api_fresh (records (h_interfere H n (w_store w))) (ia_token_id issued)
      (hash_api_token E (ia_token issued))"
    and later: "ok (w_store w2)" "api_evolves (records (w_store w')) (records (w_store w2))"
    and live: "\<forall>t. records (h_interfere H (w_tick w2) (w_store w2)) (hash_api_token E (ia_token issued)) = Some t \<longrightarrow>
      \<not> api_token_is_revoked t" "h_clock H SystemClock (Suc (w_tick w2)) < ia_expires_at issued"
    and answers: "store_answers (as_store A)"
  shows "(\<exists>w3. authenticate_api_token E H A (ia_token issued) md w2 =
            (Inr (requested_principal request (ia_token_id issued) (ia_expires_at issued)), w3)) \<and>
         ia_expires_at issued = h_clock H SystemClock (w_tick w) + ar_ttl request"
proof -
  note stored = api_token_client.issue_stores [OF client good issue fresh]
  let ?h = "hash_api_token E (ia_token issued)"
  from later(2) stored(3) obtain t1 where t1: "records (w_store w2) ?h = Some t1"
    "api_token_to_principal t1 = requested_principal request (ia_token_id issued) (ia_expires_at issued)"
    by (rule api_evolvesE) (simp add: issued_record_def api_token_to_principal_def requested_principal_def)
  have "api_evolves (records (w_store w2)) (records (h_interfere H (w_tick w2) (w_store w2)))"
    using api_token_client.rely [OF client later(1)] by blast
  from this t1(1) obtain t where t: "records (h_interfere H (w_tick w2) (w_store w2)) ?h = Some t"
    "api_token_to_principal t = requested_principal request (ia_token_id issued) (ia_expires_at issued)"
    by (rule api_evolvesE) (simp add: t1(2))
  then have "at_expires_at t = ia_expires_at issued"
    by (simp add: api_token_to_principal_def requested_principal_def)
  with live(2) have exp: "h_clock H SystemClock (Suc (w_tick w2)) < at_expires_at t" by simp
  have "\<exists>w3. authenticate_api_token E H A (ia_token issued) md w2 = (Inr (api_token_to_principal t), w3)"
    by (rule api_token_client.authenticate_live [OF client later(1) stored(2) t(1) live(1) [rule_format, OF t(1)] exp answers])
  with t(2) stored(4) checked_expiry_Inr [OF time stored(5)] show ?thesis by simp
qed

text \<open>C27: Revocation is final. Once the revocation of a token's id was reported as done, no
  presentation of that token ever authenticates again, however other tasks and other operations
  of the service change the store in the meantime.\<close>

theorem api_token_revocation_final:
  assumes client: "api_token_client records ok A H" and good: "ok (w_store w)"
    and stored: "records (w_store w) (hash_api_token E token) = Some t"
    and run: "revoke_token_by_id H A (at_id t) reason w = (Inr (), w')"
    and later: "ok (w_store w2)" "api_evolves (records (w_store w')) (records (w_store w2))"
  shows "\<not> is_ok (fst (authenticate_api_token E H A token md w2))"
proof -
  from api_token_client.revoke_marks(2) [OF client good run stored refl] obtain t' where
    "records (w_store w') (hash_api_token E token) = Some t'" "api_token_is_revoked t'" by blast
  with later(2) obtain t2 where "records (w_store w2) (hash_api_token E token) = Some t2" "api_token_is_revoked t2"
    by (auto elim!: api_evolvesE)
  then show ?thesis
    by (rule api_token_client.authenticate_revoked [OF client later(1)])
qed

definition demo_api_request :: ApiTokenIssueRequest where
  "demo_api_request = \<lparr> ar_display_name = ''ci'', ar_subject = ''robot'', ar_principal_kind = ''service'',
     ar_scopes = [''read''], ar_ttl = seconds 60, ar_audience = None, ar_resource_type = None,
     ar_resource_id = None, ar_metadata = ClientMetadata_default \<rparr>"

definition demo_api_world :: "MemoryApiTokenStore world" where
  "demo_api_world = \<lparr> w_store = \<lparr> ma_tokens_by_id = [], ma_token_hash_to_id = [] \<rparr>, w_tick = 0, w_fresh = 0 \<rparr>"

abbreviation demo_api :: "MemoryApiTokenStore ApiTokenService" where
  "demo_api \<equiv> ApiTokenService_new MemoryApiTokenStore_impl"

lemma demo_api_store: "as_store demo_api = MemoryApiTokenStore_impl"
  by (simp add: ApiTokenService_new_def)

lemma demo_api_answers: "store_answers (as_store demo_api)"
  unfolding demo_api_store store_answers_def
  by (simp add: MemoryApiTokenStore_impl_def memory_find_api_token_by_hash_def memory_touch_api_token_def)

lemma demo_api_issue:
  "is_ok (fst (issue_api_token std_ext idle_host demo_api demo_api_request demo_api_world))"
proof -
  have "checked_expiry std_ext 0 (seconds 60) ''API-token ttl'' = Inr (seconds 60)" by code_simp
  moreover have "\<not> blank ''ci''" "\<not> blank ''robot''" "\<not> blank ''service''" by code_simp+
  ultimately show ?thesis
    by (simp add: issue_api_token_def validate_issue_request_def demo_api_request_def seconds_def demo_api_world_def
        bind_def ret_def lift_res_def now_from_def new_uuid_def random_bytes_def store_call_def Let_def idle_host_def
        ApiTokenService_new_def MemoryApiTokenStore_impl_def memory_insert_api_token_def)
qed

lemma demo_api_fresh: "api_fresh (api_get_by_hash (h_interfere idle_host n (w_store demo_api_world))) i h"
  "mat_ok (w_store demo_api_world)"
  by (auto simp: api_fresh_def idle_host_def demo_api_world_def api_get_by_hash_def mat_ok_def ran_def)

lemma api_token_roundtrip_witness:
  "\<exists>issued w' w3. issue_api_token std_ext idle_host demo_api demo_api_request demo_api_world = (Inr issued, w') \<and>
     authenticate_api_token std_ext idle_host demo_api (ia_token issued) ClientMetadata_default w' =
       (Inr (requested_principal demo_api_request (ia_token_id issued) (ia_expires_at issued)), w3)"
proof -
  obtain issued w' where issue: "issue_api_token std_ext idle_host demo_api demo_api_request demo_api_world = (Inr issued, w')"
    using demo_api_issue by (metis is_ok_iff prod.collapse)
  note stored = matc.issue_stores [OF demo_api_fresh(2) issue demo_api_fresh(1)]
  have live: "\<forall>t. api_get_by_hash (h_interfere idle_host (w_tick w') (w_store w'))
      (hash_api_token std_ext (ia_token issued)) = Some t \<longrightarrow> \<not> api_token_is_revoked t"
    using stored(3) by (auto simp: idle_host_def issued_record_def api_token_is_revoked_def)
  have unexpired: "h_clock idle_host SystemClock (Suc (w_tick w')) < ia_expires_at issued"
    using checked_expiry_Inr [OF std_ext_time_laws stored(5)] stored(4) by (simp add: idle_host_def)
  note auth = api_token_roundtrip [OF matc.api_token_client_axioms std_ext_time_laws demo_api_fresh(2) issue
      demo_api_fresh(1) stored(1) api_evolves_refl live unexpired demo_api_answers]
  show ?thesis using issue conjunct1 [OF auth, of ClientMetadata_default] by blast
qed

lemma api_token_revocation_final_witness:
  "\<exists>issued w1 w2. issue_api_token std_ext idle_host demo_api demo_api_request demo_api_world = (Inr issued, w1) \<and>
     revoke_token_by_id idle_host demo_api (ia_token_id issued) Manual w1 = (Inr (), w2) \<and>
     \<not> is_ok (fst (authenticate_api_token std_ext idle_host demo_api (ia_token issued) ClientMetadata_default w2))"
proof -
  obtain issued w1 where issue: "issue_api_token std_ext idle_host demo_api demo_api_request demo_api_world = (Inr issued, w1)"
    using demo_api_issue by (metis is_ok_iff prod.collapse)
  note stored = matc.issue_stores [OF demo_api_fresh(2) issue demo_api_fresh(1)]
  let ?t = "issued_record demo_api_request (ia_token_id issued) (hash_api_token std_ext (ia_token issued))
       (ia_created_at issued) (ia_expires_at issued)"
  have id: "at_id ?t = ia_token_id issued" by (simp add: issued_record_def)
  obtain w2 where rev: "revoke_token_by_id idle_host demo_api (at_id ?t) Manual w1 = (Inr (), w2)"
    unfolding revoke_token_by_id_def demo_api_store
    by (auto simp: action_simps MemoryApiTokenStore_impl_def memory_revoke_api_token_def)
  have "mat_ok (w_store w2)" by (rule matc.revoke_marks(1) [OF stored(1) rev stored(3) refl])
  from api_token_revocation_final [OF matc.api_token_client_axioms stored(1,3) rev this api_evolves_refl] rev issue
  show ?thesis unfolding id by blast
qed

end
