(* ===== verification/Combined.thy ===== *)
theory Combined
  imports Validator Api_Tokens One_Time
begin

text \<open>
  Endpoints that accept user access tokens and API tokens (\<open>src/combined.rs\<close>), and the injection of
  authenticated principals into requests by the service (\<open>src/service.rs\<close>). The authenticator
  behind the trait \<open>AccessTokenAuth\<close> is a locale, instantiated by the service and by the store-free
  validator; what a combined injection puts into a request is stated for every instance and
  carried through to the guards.
\<close>

section \<open>The trait and its instances\<close>

record 'st AccessTokenAuth =
  aa_authenticate_bearer :: "string \<Rightarrow> ('st, AuthUser) action"
  aa_scope_matcher :: ScopeMatch

text \<open>The default body of \<open>scope_matcher\<close>.\<close>

definition default_scope_matcher :: ScopeMatch where "default_scope_matcher = ExactScopeMatch"

definition validator_auth :: "ext \<Rightarrow> jwt_lib \<Rightarrow> 'st host \<Rightarrow> 'st AccessTokenValidator \<Rightarrow> 'st AccessTokenAuth" where
  "validator_auth E J H V =
     \<lparr> aa_authenticate_bearer = validator_authenticate_bearer E J H V, aa_scope_matcher = av_scope_matcher V \<rparr>"

definition service_auth :: "ext \<Rightarrow> 'st host \<Rightarrow> 'st AuthService \<Rightarrow> 'st AccessTokenAuth" where
  "service_auth E H V =
     \<lparr> aa_authenticate_bearer = authenticate_bearer E H V, aa_scope_matcher = sv_scope_matcher V \<rparr>"

section \<open>Injection\<close>

definition service_inject_http_auth ::
  "ext \<Rightarrow> 'st host \<Rightarrow> 'st AuthService \<Rightarrow> request_data \<Rightarrow> string option \<Rightarrow> ('st, request_data) action" where
  "service_inject_http_auth E H V request bearer_or_token =
     (case bearer_or_token of
        None \<Rightarrow> ret request
      | Some raw \<Rightarrow> bind (authenticate_bearer E H V raw) (\<lambda>user.
          ret (request \<lparr> rd_user := Some user, rd_runtime := Some (sv_scope_matcher V) \<rparr>)))"

definition service_connection_init ::
  "ext \<Rightarrow> 'st host \<Rightarrow> 'st AuthService \<Rightarrow> JsonValue \<Rightarrow> ('st, request_data) action" where
  "service_connection_init E H V value =
     bind (lift_res (extract_connection_init_token value)) (\<lambda>token.
     bind (authenticate_bearer E H V token) (\<lambda>user.
       ret (empty_data \<lparr> rd_runtime := Some (sv_scope_matcher V), rd_user := Some user \<rparr>)))"

record 'st CombinedAuth =
  ca_access_tokens :: "'st AccessTokenAuth"
  ca_api_tokens :: "'st ApiTokenService"

definition CombinedAuth_new :: "'st AccessTokenAuth \<Rightarrow> 'st ApiTokenService \<Rightarrow> 'st CombinedAuth" where
  "CombinedAuth_new access_tokens api_tokens = \<lparr> ca_access_tokens = access_tokens, ca_api_tokens = api_tokens \<rparr>"

definition inject_api_principal :: "request_data \<Rightarrow> AuthRuntime \<Rightarrow> ApiTokenPrincipal \<Rightarrow> request_data" where
  "inject_api_principal request runtime princ = inject_api_token princ (request \<lparr> rd_runtime := Some runtime \<rparr>)"

definition combined_inject_http_auth ::
  "ext \<Rightarrow> 'st host \<Rightarrow> 'st CombinedAuth \<Rightarrow> request_data \<Rightarrow> string option \<Rightarrow> ClientMetadata \<Rightarrow>
   ('st, request_data) action" where
  "combined_inject_http_auth E H C request authorization metadata =
     (case authorization of
        None \<Rightarrow> ret request
      | Some raw \<Rightarrow>
          bind (lift_res (strip_bearer_prefix raw)) (\<lambda>token.
          let runtime = aa_scope_matcher (ca_access_tokens C);
              api_token = bind (authenticate_api_token E H (ca_api_tokens C) token metadata) (\<lambda>princ.
                ret (inject_api_principal request runtime princ)) in
          if CHR ''.'' \<in> set token then
            try_catch (aa_authenticate_bearer (ca_access_tokens C) raw) (\<lambda>r. case r of
                Inr user \<Rightarrow> ret (inject_user request runtime user)
              | Inl err \<Rightarrow>
                  if err = AccessTokenExpired then throw AccessTokenExpired
                  else if err = InvalidAccessToken \<and> prefix (as_token_prefix (ca_api_tokens C)) token then api_token
                  else throw err)
          else api_token))"

section \<open>The contract of an authenticator\<close>

text \<open>Validating an access token leaves the stores alone, except for what other tasks do meanwhile.\<close>

locale access_token_auth =
  fixes A :: "'st AccessTokenAuth" and R :: "'st \<Rightarrow> 'st \<Rightarrow> bool"
  assumes reads_only: "within R (aa_authenticate_bearer A raw)"

locale combined_client =
  access_token_auth "ca_access_tokens C" "\<lambda>st st'. ok st \<longrightarrow> ok st' \<and> api_evolves (records st) (records st')" +
  api_token_client records ok "ca_api_tokens C" H
  for C :: "'st CombinedAuth" and records :: "'st \<Rightarrow> api_map" and ok :: "'st \<Rightarrow> bool" and H :: "'st host"
begin

lemma authenticate_keeps:
  assumes "ok (w_store w)" "aa_authenticate_bearer (ca_access_tokens C) raw w = (r, w')"
  shows "ok (w_store w')" "api_evolves (records (w_store w)) (records (w_store w'))"
  using withinD [OF reads_only assms(2)] assms(1) by auto

text \<open>The API-token branch, from a state the original one evolved into.\<close>

lemma api_branch:
  assumes good: "ok (w_store w1)" and evolved: "api_evolves (records (w_store w)) (records (w_store w1))"
    and run: "bind (authenticate_api_token E H (ca_api_tokens C) token md) (\<lambda>p. ret (inject p)) w1 = (Inr request, w')"
  obtains p t where "request = inject p" "p = api_token_to_principal t" "\<not> api_token_is_revoked t"
    "records (h_interfere H (w_tick w1) (w_store w1)) (hash_api_token E token) = Some t"
    "h_clock H SystemClock (Suc (w_tick w1)) < at_expires_at t"
    "\<And>t0. records (w_store w) (hash_api_token E token) = Some t0 \<Longrightarrow>
       \<not> api_token_is_revoked t0 \<and> api_token_to_principal t0 = p"
    "\<exists>n. h_clock H SystemClock n < ap_expires_at p"
proof -
  from run obtain p w2 where auth: "authenticate_api_token E H (ca_api_tokens C) token md w1 = (Inr p, w2)"
    and req: "request = inject p" by (auto simp: action_simps)
  from authenticate_Inr(4) [OF good auth] obtain t where
    t: "records (h_interfere H (w_tick w1) (w_store w1)) (hash_api_token E token) = Some t"
      "p = api_token_to_principal t" "\<not> api_token_is_revoked t"
      "h_clock H SystemClock (Suc (w_tick w1)) < at_expires_at t" by blast
  have "api_evolves (records (w_store w)) (records (h_interfere H (w_tick w1) (w_store w1)))"
    using evolved conjunct2 [OF rely [OF good]] by (rule api_evolves_trans)
  then have "\<not> api_token_is_revoked t0 \<and> api_token_to_principal t0 = p"
    if "records (w_store w) (hash_api_token E token) = Some t0" for t0
    using that t by (auto elim!: api_evolvesE)
  moreover have "\<exists>n. h_clock H SystemClock n < ap_expires_at p"
    using t(2,4) by (auto simp: api_token_to_principal_def)
  ultimately show thesis using that req t by blast
qed

end

lemma combined_cases:
  assumes "combined_inject_http_auth E H C request (Some raw) md w = (Inr request', w')"
  obtains (user) token user w1 where "strip_bearer_prefix raw = Inr token" "CHR ''.'' \<in> set token"
      "aa_authenticate_bearer (ca_access_tokens C) raw w = (Inr user, w1)"
      "request' = inject_user request (aa_scope_matcher (ca_access_tokens C)) user"
  | (api) token w1 where "strip_bearer_prefix raw = Inr token"
      "w1 = w \<and> CHR ''.'' \<notin> set token \<or>
       aa_authenticate_bearer (ca_access_tokens C) raw w = (Inl InvalidAccessToken, w1) \<and>
       prefix (as_token_prefix (ca_api_tokens C)) token"
      "bind (authenticate_api_token E H (ca_api_tokens C) token md) (\<lambda>princ.
         ret (inject_api_principal request (aa_scope_matcher (ca_access_tokens C)) princ)) w1 = (Inr request', w')"
proof -
  from assms obtain token where token: "strip_bearer_prefix raw = Inr token"
    by (auto simp: combined_inject_http_auth_def action_simps)
  let ?api = "bind (authenticate_api_token E H (ca_api_tokens C) token md) (\<lambda>princ.
         ret (inject_api_principal request (aa_scope_matcher (ca_access_tokens C)) princ))"
  obtain r w1 where r: "aa_authenticate_bearer (ca_access_tokens C) raw w = (r, w1)" by fastforce
  show thesis
  proof (cases "CHR ''.'' \<in> set token")
    case True
    with assms token r have "(case r of
                Inr user \<Rightarrow> ret (inject_user request (aa_scope_matcher (ca_access_tokens C)) user)
              | Inl err \<Rightarrow>
                  if err = AccessTokenExpired then throw AccessTokenExpired
                  else if err = InvalidAccessToken \<and> prefix (as_token_prefix (ca_api_tokens C)) token then ?api
                  else throw err) w1 = (Inr request', w')"
      by (simp add: combined_inject_http_auth_def Let_def bind_run(1) [OF lift_res_eq [THEN iffD2]] try_catch_def)
    with True token r that show thesis
      by (auto simp: ret_eq throw_eq split: sum.splits if_splits)
  next
    case False
    with assms token have "?api w = (Inr request', w')"
      by (simp add: combined_inject_http_auth_def Let_def bind_run(1) [OF lift_res_eq [THEN iffD2]])
    with False token that(2) show thesis by blast
  qed
qed

section \<open>Instances\<close>

lemma within_mono: "within R m \<Longrightarrow> (\<And>st st'. R st st' \<Longrightarrow> R' st st') \<Longrightarrow> within R' m"
  by (auto simp: within_def)

lemma service_auth_reads_only: "within (\<lambda>st st'. st' = st) (aa_authenticate_bearer (service_auth E H V) raw)"
  by (auto simp: within_def service_auth_def authenticate_bearer_def authenticate_access_token_def
      decode_with_config_def bind_def lift_res_def now_from_def split: prod.splits sum.splits)

lemma validator_auth_reads_only:
  assumes "\<And>kid. within (\<lambda>st st'. st' = st) (av_key_resolver V kid)"
  shows "within (\<lambda>st st'. st' = st) (aa_authenticate_bearer (validator_auth E J H V) raw)"
  using assms
  by (auto simp: within_def validator_auth_def validator_authenticate_bearer_def validator_authenticate_access_token_def
      decode_config_for_token_def bind_def lift_res_def require_def ret_def throw_def now_from_def
      split: prod.splits sum.splits if_splits)

interpretation sa: access_token_auth "service_auth E H V" "\<lambda>st st'. st' = st" for E H V
  by unfold_locales (rule service_auth_reads_only)

interpretation va: access_token_auth "validator_auth E J H (V \<lparr> av_key_resolver := static_resolver resolve \<rparr>)"
  "\<lambda>st st'. st' = st" for E J H V resolve
  by unfold_locales (rule validator_auth_reads_only, simp add: static_resolver_def within_def lift_res_def)

definition demo_combined :: "ext \<Rightarrow> jwt_lib \<Rightarrow> MemoryApiTokenStore CombinedAuth" where
  "demo_combined E J = \<lparr> ca_access_tokens = service_auth E idle_host (inert_service J), ca_api_tokens = demo_api \<rparr>"

interpretation cc: combined_client "demo_combined E J" api_get_by_hash mat_ok idle_host for E J
proof -
  have "access_token_auth (ca_access_tokens (demo_combined E J))
      (\<lambda>st st'. mat_ok st \<longrightarrow> mat_ok st' \<and> api_evolves (api_get_by_hash st) (api_get_by_hash st'))"
    by unfold_locales (auto simp: demo_combined_def intro: within_mono [OF service_auth_reads_only])
  moreover have "ca_api_tokens (demo_combined E J) = demo_api" by (simp add: demo_combined_def)
  ultimately show "combined_client (demo_combined E J) api_get_by_hash mat_ok idle_host"
    unfolding combined_client_def using matc.api_token_client_axioms by simp
qed

section \<open>What a combined injection puts into a request\<close>

fun is_user_guard :: "Guard \<Rightarrow> bool" where
  "is_user_guard RequireAuth = True"
| "is_user_guard (RequireAnyRole _) = True"
| "is_user_guard (RequireAllRoles _) = True"
| "is_user_guard (RequireScope _) = True"
| "is_user_guard (RequireAnyScope _) = True"
| "is_user_guard (RequireAllScopes _) = True"
| "is_user_guard _ = False"

lemma user_guard_needs_user: "rd_user ctx = None \<Longrightarrow> is_user_guard g \<Longrightarrow> check_guard g ctx = Inl (Errors.extend Unauthenticated)"
  by (cases g) (simp_all add: auth_user_from_ctx_def Let_def)

text \<open>C25: A credential presented to a combined endpoint becomes exactly one principal of the
  request. Either it looks like a JWT and the access-token authenticator accepted it, and guards
  see that user; or the store held, when it was asked, a record under the hash of the credential that
  was not revoked and not expired, and guards see the principal of that record while every user guard
  refuses the request. An expired access token is never tried as an API token, a token revoked
  beforehand never gets in, and the guards use the authenticator's scope matcher, however other tasks
  interleave.\<close>

theorem combined_injection_exact:
  assumes client: "combined_client C records ok H" and good: "ok (w_store w)"
    and run: "combined_inject_http_auth E H C empty_data (Some raw) md w = (Inr request, w')"
  shows "\<exists>token. strip_bearer_prefix raw = Inr token \<and>
    matcher_from_ctx request = aa_scope_matcher (ca_access_tokens C) \<and>
    ((\<exists>user w1. CHR ''.'' \<in> set token \<and>
        aa_authenticate_bearer (ca_access_tokens C) raw w = (Inr user, w1) \<and>
        principal_from_ctx_opt request = Some (User user) \<and> auth_user_from_ctx request = Inr user) \<or>
     (\<exists>p stored w1. principal_from_ctx_opt request = Some (ApiToken p) \<and>
        (w1 = w \<and> CHR ''.'' \<notin> set token \<or>
         aa_authenticate_bearer (ca_access_tokens C) raw w = (Inl InvalidAccessToken, w1)) \<and>
        records (h_interfere H (w_tick w1) (w_store w1)) (hash_api_token E token) = Some stored \<and>
        \<not> api_token_is_revoked stored \<and> api_token_to_principal stored = p \<and>
        h_clock H SystemClock (Suc (w_tick w1)) < at_expires_at stored \<and>
        (\<forall>t. records (w_store w) (hash_api_token E token) = Some t \<longrightarrow>
           \<not> api_token_is_revoked t \<and> api_token_to_principal t = p) \<and>
        (\<exists>n. h_clock H SystemClock n < ap_expires_at p) \<and>
        (CHR ''.'' \<in> set token \<longrightarrow> fst (aa_authenticate_bearer (ca_access_tokens C) raw w) = Inl InvalidAccessToken) \<and>
        (\<forall>g. is_user_guard g \<longrightarrow> check_guard g request = Inl (Errors.extend Unauthenticated))))"
  using run
proof (cases rule: combined_cases)
  case (user token user w1)
  then show ?thesis
    by (auto simp: matcher_from_ctx_def inject_user_def principal_from_ctx_opt_def auth_user_from_ctx_def)
next
  case (api token w1)
  have state: "ok (w_store w1)" "api_evolves (records (w_store w)) (records (w_store w1))"
    using api(2) good combined_client.authenticate_keeps [OF client good] by auto
  from combined_client.api_branch [OF client state api(3)] obtain p stored where
    stored: "p = api_token_to_principal stored" "\<not> api_token_is_revoked stored"
      "records (h_interfere H (w_tick w1) (w_store w1)) (hash_api_token E token) = Some stored"
      "h_clock H SystemClock (Suc (w_tick w1)) < at_expires_at stored"
    and req: "request = inject_api_principal empty_data (aa_scope_matcher (ca_access_tokens C)) p"
    and p: "\<And>t0. records (w_store w) (hash_api_token E token) = Some t0 \<Longrightarrow>
       \<not> api_token_is_revoked t0 \<and> api_token_to_principal t0 = p" "\<exists>n. h_clock H SystemClock n < ap_expires_at p"
    by metis
  have "rd_user request = None" "principal_from_ctx_opt request = Some (ApiToken p)"
    "matcher_from_ctx request = aa_scope_matcher (ca_access_tokens C)"
    by (simp_all add: req inject_api_principal_def inject_api_token_def empty_data_def principal_from_ctx_opt_def
        matcher_from_ctx_def)
  moreover have "CHR ''.'' \<in> set token \<longrightarrow> fst (aa_authenticate_bearer (ca_access_tokens C) raw w) = Inl InvalidAccessToken"
    "w1 = w \<and> CHR ''.'' \<notin> set token \<or>
     aa_authenticate_bearer (ca_access_tokens C) raw w = (Inl InvalidAccessToken, w1)"
    using api(2) by auto
  ultimately show ?thesis
    using api(1) p stored user_guard_needs_user by blast
qed

definition demo_raw_token :: string where "demo_raw_token = ''agql_api_x''"

definition demo_api_record :: StoredApiToken where
  "demo_api_record = issued_record demo_api_request 0 (hash_api_token std_ext demo_raw_token) 0 (seconds 60)"

definition demo_combined_world :: "MemoryApiTokenStore world" where
  "demo_combined_world = \<lparr> w_store = \<lparr> ma_tokens_by_id = [(0, demo_api_record)],
     ma_token_hash_to_id = [(hash_api_token std_ext demo_raw_token, 0)] \<rparr>, w_tick = 0, w_fresh = 0 \<rparr>"

lemma demo_combined_world_ok:
  "mat_ok (w_store demo_combined_world)"
  "api_get_by_hash (w_store demo_combined_world) (hash_api_token std_ext demo_raw_token) = Some demo_api_record"
  by (auto simp: mat_ok_def api_get_by_hash_def demo_combined_world_def demo_api_record_def issued_record_def
      split: if_splits)

lemma demo_combined_run:
  "\<exists>w'. combined_inject_http_auth std_ext idle_host (demo_combined std_ext J) empty_data (Some demo_raw_token)
     ClientMetadata_default demo_combined_world =
     (Inr (inject_api_principal empty_data ExactScopeMatch (api_token_to_principal demo_api_record)), w')"
proof -
  have raw: "strip_bearer_prefix demo_raw_token = Inr demo_raw_token" "CHR ''.'' \<notin> set demo_raw_token"
    "prefix (as_token_prefix demo_api) demo_raw_token"
    by (simp_all add: demo_raw_token_def ApiTokenService_new_def DEFAULT_API_TOKEN_PREFIX_def) code_simp
  have "\<exists>w'. authenticate_api_token std_ext idle_host demo_api demo_raw_token ClientMetadata_default demo_combined_world =
     (Inr (api_token_to_principal demo_api_record), w')"
    using demo_combined_world_ok raw(3) demo_api_answers
    by (intro matc.authenticate_live)
      (auto simp: idle_host_def demo_api_record_def issued_record_def api_token_is_revoked_def seconds_def)
  then obtain w' where "authenticate_api_token std_ext idle_host demo_api demo_raw_token ClientMetadata_default
     demo_combined_world = (Inr (api_token_to_principal demo_api_record), w')" ..
  with raw show ?thesis
    by (simp add: combined_inject_http_auth_def Let_def demo_combined_def service_auth_def inert_service_def
        demo_service_def lift_res_def bind_def ret_def)
qed

lemma combined_injection_exact_witness:
  "\<exists>request w'. combined_inject_http_auth std_ext idle_host (demo_combined std_ext (demo_jwt [] [])) empty_data
       (Some demo_raw_token) ClientMetadata_default demo_combined_world = (Inr request, w') \<and>
     check_guard RequireAuth request = Inl (Errors.extend Unauthenticated) \<and>
     (\<exists>p. principal_from_ctx_opt request = Some (ApiToken p) \<and> api_token_to_principal demo_api_record = p)"
proof -
  obtain request w' where run: "combined_inject_http_auth std_ext idle_host (demo_combined std_ext (demo_jwt [] []))
      empty_data (Some demo_raw_token) ClientMetadata_default demo_combined_world = (Inr request, w')"
    using demo_combined_run by blast
  have "CHR ''.'' \<notin> set demo_raw_token" "strip_bearer_prefix demo_raw_token = Inr demo_raw_token"
    by (simp_all add: demo_raw_token_def) code_simp
  with combined_injection_exact [OF cc.combined_client_axioms demo_combined_world_ok(1) run] run demo_combined_world_ok(2)
  have "principal_from_ctx_opt request = Some (ApiToken (api_token_to_principal demo_api_record))"
    "is_user_guard RequireAuth \<longrightarrow> check_guard RequireAuth request = Inl (Errors.extend Unauthenticated)"
    by (auto simp del: check_guard.simps)
  with run show ?thesis by (simp del: check_guard.simps)
qed

end
