(* ===== verification/Role_Scope.thy ===== *)
theory Role_Scope
  imports Prelude
begin

text \<open>
  Role-to-scope catalogues (\<open>src/role_scope.rs\<close>): the bounded wire model with its validation, the
  signed envelope and the binding of its claims, and the deterministic expansion of authorization
  roles into scopes. Validation is shown to accept exactly the well-formed catalogues, the
  expansion to be the sorted union of what the roles grant, and the saturating lifetime arithmetic
  to agree with exact arithmetic.
\<close>

section \<open>Bounds\<close>

definition MAX_ROLE_SCOPE_CATALOGUE_SCOPES :: nat where "MAX_ROLE_SCOPE_CATALOGUE_SCOPES = 4096"
definition MAX_ROLE_SCOPE_CATALOGUE_ROLES :: nat where "MAX_ROLE_SCOPE_CATALOGUE_ROLES = 1024"
definition MAX_ROLE_SCOPE_CATALOGUE_SCOPES_PER_ROLE :: nat where
  "MAX_ROLE_SCOPE_CATALOGUE_SCOPES_PER_ROLE = 1024"
definition MAX_ROLE_SCOPE_CATALOGUE_EXACT_ONLY_PATTERNS :: nat where
  "MAX_ROLE_SCOPE_CATALOGUE_EXACT_ONLY_PATTERNS = 1024"
definition MAX_ROLE_SCOPE_CATALOGUE_VALUE_LENGTH :: nat where "MAX_ROLE_SCOPE_CATALOGUE_VALUE_LENGTH = 512"
definition MAX_ROLE_SCOPE_CATALOGUE_SIGNATURE_BYTES :: nat where
  "MAX_ROLE_SCOPE_CATALOGUE_SIGNATURE_BYTES = 2 * 1024 * 1024"
definition ROLE_SCOPE_CATALOGUE_PURPOSE :: string where "ROLE_SCOPE_CATALOGUE_PURPOSE = ''role_scope_catalogue''"

section \<open>The catalogue\<close>

record RoleScopeDefinition =
  sd_scope :: string
  sd_exact_only :: bool

definition RoleScopeDefinition_new :: "string \<Rightarrow> RoleScopeDefinition" where
  "RoleScopeDefinition_new scope = \<lparr> sd_scope = scope, sd_exact_only = False \<rparr>"

definition exact_only :: "RoleScopeDefinition \<Rightarrow> RoleScopeDefinition" where
  "exact_only d = d \<lparr> sd_exact_only := True \<rparr>"

record RoleScopeGrant =
  rg_id :: string
  rg_name :: string
  rg_scopes :: "string list"

definition RoleScopeGrant_new :: "string \<Rightarrow> string \<Rightarrow> string list \<Rightarrow> RoleScopeGrant" where
  "RoleScopeGrant_new role_id name scopes = \<lparr> rg_id = role_id, rg_name = name, rg_scopes = scopes \<rparr>"

record RoleScopeCatalogue =
  ct_version :: string
  ct_scopes :: "RoleScopeDefinition list"
  ct_roles :: "RoleScopeGrant list"
  ct_exact_only_scope_patterns :: "string list"

definition RoleScopeCatalogue_new ::
  "string \<Rightarrow> RoleScopeDefinition list \<Rightarrow> RoleScopeGrant list \<Rightarrow> RoleScopeCatalogue" where
  "RoleScopeCatalogue_new version scopes roles =
     \<lparr> ct_version = version, ct_scopes = scopes, ct_roles = roles, ct_exact_only_scope_patterns = [] \<rparr>"

definition with_exact_only_scope_patterns :: "string list \<Rightarrow> RoleScopeCatalogue \<Rightarrow> RoleScopeCatalogue" where
  "with_exact_only_scope_patterns patterns c = c \<lparr> ct_exact_only_scope_patterns := patterns \<rparr>"

datatype RoleScopeCatalogueError = InvalidCatalogueMessage string
datatype RoleScopeExpansionError = ExpansionUnavailable | UnknownRole string | InvalidCatalogue string

type_synonym 'a cat_result = "RoleScopeCatalogueError + 'a"

abbreviation invalid_if :: "bool \<Rightarrow> string \<Rightarrow> unit cat_result" where
  "invalid_if c message \<equiv> reject_when c (InvalidCatalogueMessage message)"

definition valid_value :: "string \<Rightarrow> bool" where
  "valid_value v \<longleftrightarrow> v \<noteq> [] \<and> length v \<le> MAX_ROLE_SCOPE_CATALOGUE_VALUE_LENGTH \<and>
     \<not> list_ex (\<lambda>b. is_ascii_whitespace b \<or> is_ascii_control b) v"

definition validate_value :: "string \<Rightarrow> unit cat_result" where
  "validate_value v =
     invalid_if (v = [] \<or> length v > MAX_ROLE_SCOPE_CATALOGUE_VALUE_LENGTH \<or>
                 list_ex (\<lambda>b. is_ascii_whitespace b \<or> is_ascii_control b) v)
       ''catalogue contains an empty, oversized, or whitespace-bearing value''"

definition valid_display_name :: "string \<Rightarrow> bool" where
  "valid_display_name v \<longleftrightarrow> \<not> blank v \<and> length v \<le> MAX_ROLE_SCOPE_CATALOGUE_VALUE_LENGTH \<and>
     \<not> list_ex is_ascii_control v"

definition validate_display_name :: "string \<Rightarrow> unit cat_result" where
  "validate_display_name v =
     invalid_if (blank v \<or> length v > MAX_ROLE_SCOPE_CATALOGUE_VALUE_LENGTH \<or> list_ex is_ascii_control v)
       ''catalogue contains an invalid role name''"

text \<open>The loops of \<open>validate\<close>; the set argument is the \<open>BTreeSet\<close> of the values seen so far.\<close>

fun check_distinct :: "(string \<Rightarrow> unit cat_result) \<Rightarrow> string \<Rightarrow> string set \<Rightarrow> string list \<Rightarrow> unit cat_result" where
  "check_distinct check message seen [] = Inr ()"
| "check_distinct check message seen (v # vs) =
     bind_res (check v) (\<lambda>_.
     bind_res (invalid_if (v \<in> seen) message) (\<lambda>_.
       check_distinct check message (insert v seen) vs))"

definition check_role_scope :: "string set \<Rightarrow> string \<Rightarrow> unit cat_result" where
  "check_role_scope registered scope =
     bind_res (validate_value scope) (\<lambda>_.
       invalid_if (scope \<notin> registered) ''role references an unregistered scope'')"

fun check_roles :: "string set \<Rightarrow> string set \<Rightarrow> RoleScopeGrant list \<Rightarrow> unit cat_result" where
  "check_roles registered role_ids [] = Inr ()"
| "check_roles registered role_ids (role # roles) =
     bind_res (validate_value (rg_id role)) (\<lambda>_.
     bind_res (validate_display_name (rg_name role)) (\<lambda>_.
     bind_res (invalid_if (rg_id role \<in> role_ids) ''catalogue contains a duplicate role ID'') (\<lambda>_.
     bind_res (invalid_if (length (rg_scopes role) > MAX_ROLE_SCOPE_CATALOGUE_SCOPES_PER_ROLE)
       ''role has too many scope references'') (\<lambda>_.
     bind_res (check_distinct (check_role_scope registered) ''role contains a duplicate scope reference'' {}
       (rg_scopes role)) (\<lambda>_.
       check_roles registered (insert (rg_id role) role_ids) roles)))))"

definition catalogue_validate :: "RoleScopeCatalogue \<Rightarrow> unit cat_result" where
  "catalogue_validate c =
     bind_res (validate_value (ct_version c)) (\<lambda>_.
     bind_res (invalid_if (length (ct_scopes c) > MAX_ROLE_SCOPE_CATALOGUE_SCOPES)
       ''catalogue has too many scope definitions'') (\<lambda>_.
     bind_res (invalid_if (length (ct_roles c) > MAX_ROLE_SCOPE_CATALOGUE_ROLES)
       ''catalogue has too many role definitions'') (\<lambda>_.
     bind_res (invalid_if (length (ct_exact_only_scope_patterns c) > MAX_ROLE_SCOPE_CATALOGUE_EXACT_ONLY_PATTERNS)
       ''catalogue has too many exact-only patterns'') (\<lambda>_.
     bind_res (check_distinct validate_value ''catalogue contains a duplicate scope'' {}
       (map sd_scope (ct_scopes c))) (\<lambda>_.
     bind_res (check_roles (set (map sd_scope (ct_scopes c))) {} (ct_roles c)) (\<lambda>_.
       check_distinct validate_value ''catalogue contains a duplicate exact-only pattern'' {}
         (ct_exact_only_scope_patterns c)))))))"

section \<open>The signed envelope\<close>

record SignedRoleScopeCatalogue =
  sg_catalogue :: RoleScopeCatalogue
  sg_signature :: string

definition SignedRoleScopeCatalogue_new :: "RoleScopeCatalogue \<Rightarrow> string \<Rightarrow> SignedRoleScopeCatalogue" where
  "SignedRoleScopeCatalogue_new catalogue signature = \<lparr> sg_catalogue = catalogue, sg_signature = signature \<rparr>"

definition validate_structure :: "SignedRoleScopeCatalogue \<Rightarrow> unit cat_result" where
  "validate_structure envelope =
     bind_res (catalogue_validate (sg_catalogue envelope)) (\<lambda>_.
       invalid_if (sg_signature envelope = [] \<or>
                   length (sg_signature envelope) > MAX_ROLE_SCOPE_CATALOGUE_SIGNATURE_BYTES)
         ''catalogue signature is missing or too large'')"

record RoleScopeCatalogueClaims =
  cc_catalogue :: RoleScopeCatalogue
  cc_purpose :: string
  cc_iss :: string
  cc_aud :: string
  cc_iat :: int
  cc_exp :: int

definition RoleScopeCatalogueClaims_new ::
  "RoleScopeCatalogue \<Rightarrow> string \<Rightarrow> string \<Rightarrow> int \<Rightarrow> int \<Rightarrow> RoleScopeCatalogueClaims" where
  "RoleScopeCatalogueClaims_new catalogue issuer audience issued_at expires_at =
     \<lparr> cc_catalogue = catalogue, cc_purpose = ROLE_SCOPE_CATALOGUE_PURPOSE, cc_iss = issuer,
       cc_aud = audience, cc_iat = issued_at, cc_exp = expires_at \<rparr>"

record RoleScopeCatalogueValidationOptions =
  vo_maximum_lifetime_seconds :: int
  vo_clock_skew_leeway_seconds :: int

definition RoleScopeCatalogueValidationOptions_default :: RoleScopeCatalogueValidationOptions where
  "RoleScopeCatalogueValidationOptions_default =
     \<lparr> vo_maximum_lifetime_seconds = 24 * 60 * 60, vo_clock_skew_leeway_seconds = 0 \<rparr>"

definition with_maximum_lifetime_seconds ::
  "int \<Rightarrow> RoleScopeCatalogueValidationOptions \<Rightarrow> RoleScopeCatalogueValidationOptions" where
  "with_maximum_lifetime_seconds secs opts = opts \<lparr> vo_maximum_lifetime_seconds := secs \<rparr>"

definition with_clock_skew_leeway_seconds ::
  "int \<Rightarrow> RoleScopeCatalogueValidationOptions \<Rightarrow> RoleScopeCatalogueValidationOptions" where
  "with_clock_skew_leeway_seconds secs opts = opts \<lparr> vo_clock_skew_leeway_seconds := secs \<rparr>"

definition validate_binding_with_options ::
  "RoleScopeCatalogueClaims \<Rightarrow> SignedRoleScopeCatalogue \<Rightarrow> string \<Rightarrow> string \<Rightarrow> int \<Rightarrow>
   RoleScopeCatalogueValidationOptions \<Rightarrow> unit cat_result" where
  "validate_binding_with_options claims envelope expected_issuer expected_audience now options =
     bind_res (validate_structure envelope) (\<lambda>_.
     bind_res (catalogue_validate (cc_catalogue claims)) (\<lambda>_.
     bind_res (invalid_if (cc_purpose claims \<noteq> ROLE_SCOPE_CATALOGUE_PURPOSE \<or> cc_iss claims \<noteq> expected_issuer \<or>
                           cc_aud claims \<noteq> expected_audience \<or> cc_catalogue claims \<noteq> sg_catalogue envelope)
       ''catalogue signature claims do not match the envelope'') (\<lambda>_.
       invalid_if (vo_maximum_lifetime_seconds options \<le> 0 \<or> vo_clock_skew_leeway_seconds options < 0 \<or>
                   cc_iat claims > sat_i64 (now + vo_clock_skew_leeway_seconds options) \<or>
                   cc_exp claims \<le> sat_i64 (now - vo_clock_skew_leeway_seconds options) \<or>
                   cc_exp claims \<le> cc_iat claims \<or>
                   sat_i64 (cc_exp claims - cc_iat claims) > vo_maximum_lifetime_seconds options)
         ''catalogue signature lifetime is invalid'')))"

definition validate_binding ::
  "RoleScopeCatalogueClaims \<Rightarrow> SignedRoleScopeCatalogue \<Rightarrow> string \<Rightarrow> string \<Rightarrow> int \<Rightarrow> int \<Rightarrow> unit cat_result" where
  "validate_binding claims envelope expected_issuer expected_audience now maximum_lifetime_seconds =
     validate_binding_with_options claims envelope expected_issuer expected_audience now
       (RoleScopeCatalogueValidationOptions_default
          \<lparr> vo_maximum_lifetime_seconds := maximum_lifetime_seconds \<rparr>)"

section \<open>Expansion\<close>

record RoleScopeExpansion =
  re_catalogue_version :: string
  re_scopes :: "string list"

record StaticRoleScopeExpansion =
  se_version :: string
  se_role_scopes :: "(string \<times> string list) list"

fun expansion_error :: "RoleScopeCatalogueError \<Rightarrow> RoleScopeExpansionError" where
  "expansion_error (InvalidCatalogueMessage message) = InvalidCatalogue message"

definition StaticRoleScopeExpansion_new ::
  "RoleScopeCatalogue \<Rightarrow> RoleScopeExpansionError + StaticRoleScopeExpansion" where
  "StaticRoleScopeExpansion_new catalogue =
     bind_res (map_err expansion_error (catalogue_validate catalogue)) (\<lambda>_.
       Inr \<lparr> se_version = ct_version catalogue,
             se_role_scopes = fold (\<lambda>role. btm_insert (rg_id role) (rg_scopes role)) (ct_roles catalogue) [] \<rparr>)"

fun lookup_roles :: "StaticRoleScopeExpansion \<Rightarrow> string list \<Rightarrow> RoleScopeExpansionError + string list list" where
  "lookup_roles X [] = Inr []"
| "lookup_roles X (role # roles) =
     bind_res (ok_or (UnknownRole role) (map_of (se_role_scopes X) role)) (\<lambda>scopes.
     bind_res (lookup_roles X roles) (\<lambda>rest. Inr (scopes # rest)))"

definition expand_roles :: "StaticRoleScopeExpansion \<Rightarrow> string list \<Rightarrow> RoleScopeExpansionError + RoleScopeExpansion" where
  "expand_roles X roles =
     bind_res (lookup_roles X roles) (\<lambda>scopes.
       Inr \<lparr> re_catalogue_version = se_version X, re_scopes = btree_set (concat scopes) \<rparr>)"

definition effective_scopes :: "string list \<Rightarrow> RoleScopeExpansion \<Rightarrow> string list" where
  "effective_scopes direct_scopes expansion = btree_set (direct_scopes @ re_scopes expansion)"

section \<open>Validation accepts exactly the well-formed catalogues\<close>

definition role_ok :: "string set \<Rightarrow> RoleScopeGrant \<Rightarrow> bool" where
  "role_ok registered role \<longleftrightarrow>
     valid_value (rg_id role) \<and> valid_display_name (rg_name role) \<and> distinct (rg_scopes role) \<and>
     set (rg_scopes role) \<subseteq> registered \<and> list_all valid_value (rg_scopes role) \<and>
     length (rg_scopes role) \<le> MAX_ROLE_SCOPE_CATALOGUE_SCOPES_PER_ROLE"

definition catalogue_ok :: "RoleScopeCatalogue \<Rightarrow> bool" where
  "catalogue_ok c \<longleftrightarrow>
     valid_value (ct_version c) \<and>
     length (ct_scopes c) \<le> MAX_ROLE_SCOPE_CATALOGUE_SCOPES \<and>
     length (ct_roles c) \<le> MAX_ROLE_SCOPE_CATALOGUE_ROLES \<and>
     length (ct_exact_only_scope_patterns c) \<le> MAX_ROLE_SCOPE_CATALOGUE_EXACT_ONLY_PATTERNS \<and>
     distinct (map sd_scope (ct_scopes c)) \<and> list_all valid_value (map sd_scope (ct_scopes c)) \<and>
     distinct (map rg_id (ct_roles c)) \<and>
     list_all (role_ok (set (map sd_scope (ct_scopes c)))) (ct_roles c) \<and>
     distinct (ct_exact_only_scope_patterns c) \<and> list_all valid_value (ct_exact_only_scope_patterns c)"

lemma validate_value_ok [simp]: "validate_value v = Inr () \<longleftrightarrow> valid_value v"
  by (auto simp: validate_value_def valid_value_def)

lemma validate_display_name_ok [simp]: "validate_display_name v = Inr () \<longleftrightarrow> valid_display_name v"
  by (auto simp: validate_display_name_def valid_display_name_def)

lemma check_role_scope_ok [simp]:
  "check_role_scope registered scope = Inr () \<longleftrightarrow> valid_value scope \<and> scope \<in> registered"
  by (auto simp: check_role_scope_def bind_res_unit_Inr)

lemma check_distinct_ok:
  "check_distinct check message seen vs = Inr () \<longleftrightarrow>
     distinct vs \<and> set vs \<inter> seen = {} \<and> (\<forall>v \<in> set vs. check v = Inr ())"
  by (induction vs arbitrary: seen) (auto simp: bind_res_unit_Inr)

lemma check_roles_ok:
  "check_roles registered role_ids roles = Inr () \<longleftrightarrow>
     distinct (map rg_id roles) \<and> rg_id ` set roles \<inter> role_ids = {} \<and> list_all (role_ok registered) roles"
  by (induction roles arbitrary: role_ids)
    (auto simp: bind_res_unit_Inr check_distinct_ok role_ok_def list_all_iff not_less)

text \<open>Validation is exact: it accepts a catalogue if and only if every count and length is within its
  bound, scope identities, role ids, the scopes of each role and the patterns are free of
  repetitions and well-formed, and every scope a role refers to is registered.\<close>

lemma catalogue_validate_iff: "catalogue_validate c = Inr () \<longleftrightarrow> catalogue_ok c"
  by (auto simp: catalogue_validate_def catalogue_ok_def bind_res_unit_Inr check_distinct_ok check_roles_ok
      list_all_iff not_less)

section \<open>Expansion is the sorted union of the roles' scopes\<close>

lemma map_of_fold_btm_insert:
  assumes "btm_wf m" "distinct (map f xs)" "fst ` set m \<inter> f ` set xs = {}"
  shows "map_of (fold (\<lambda>x. btm_insert (f x) (g x)) xs m) k =
    (case find (\<lambda>x. f x = k) xs of Some x \<Rightarrow> Some (g x) | None \<Rightarrow> map_of m k)"
  using assms
proof (induction xs arbitrary: m)
  case (Cons x xs)
  have "map_of (fold (\<lambda>x. btm_insert (f x) (g x)) xs (btm_insert (f x) (g x) m)) k =
      (case find (\<lambda>x. f x = k) xs of Some x \<Rightarrow> Some (g x) | None \<Rightarrow> map_of (btm_insert (f x) (g x) m) k)"
    using Cons by (intro Cons.IH) (auto simp: fst_btm_insert)
  moreover have "find (\<lambda>y. f y = f x) xs = None"
    using Cons.prems(2) unfolding find_None_iff by (metis distinct.simps(2) image_eqI list.simps(9) set_map)
  ultimately show ?case using Cons.prems(1) by (auto simp: map_of_btm_insert split: option.split)
qed simp

lemma find_key:
  "distinct (map f xs) \<Longrightarrow> find (\<lambda>x. f x = k) xs = Some x \<longleftrightarrow> x \<in> set xs \<and> f x = k"
  by (induction xs) force+

definition role_named :: "RoleScopeCatalogue \<Rightarrow> string \<Rightarrow> RoleScopeGrant option" where
  "role_named c role = find (\<lambda>r. rg_id r = role) (ct_roles c)"

lemma static_expansion_lookup:
  assumes "StaticRoleScopeExpansion_new c = Inr X"
  shows "map_of (se_role_scopes X) role = map_option rg_scopes (role_named c role)"
    "se_version X = ct_version c" "catalogue_ok c"
proof -
  from assms have X: "X = \<lparr> se_version = ct_version c,
       se_role_scopes = fold (\<lambda>role. btm_insert (rg_id role) (rg_scopes role)) (ct_roles c) [] \<rparr>"
    and ok: "catalogue_ok c"
    by (auto simp: StaticRoleScopeExpansion_new_def bind_res_Inr_iff catalogue_validate_iff [symmetric])
  then show "se_version X = ct_version c" "catalogue_ok c" by simp_all
  have "map_of (se_role_scopes X) role =
     (case find (\<lambda>r. rg_id r = role) (ct_roles c) of Some r \<Rightarrow> Some (rg_scopes r) | None \<Rightarrow> map_of [] role)"
    unfolding X using ok by (simp add: map_of_fold_btm_insert catalogue_ok_def)
  then show "map_of (se_role_scopes X) role = map_option rg_scopes (role_named c role)"
    by (simp add: role_named_def split: option.split)
qed

lemma lookup_roles_cases:
  assumes "\<And>role. map_of (se_role_scopes X) role = map_option rg_scopes (known role)"
  shows "lookup_roles X roles =
    (case find (\<lambda>role. known role = None) roles of
       Some role \<Rightarrow> Inl (UnknownRole role)
     | None \<Rightarrow> Inr (map (\<lambda>role. rg_scopes (the (known role))) roles))"
proof (induction roles)
  case (Cons role roles)
  with assms show ?case by (cases "known role") (simp_all split: option.split)
qed simp

text \<open>Expanding roles against a verified catalogue is deterministic. The first role the catalogue
  does not define is reported; otherwise the result names the catalogue version and is the sorted,
  repetition-free list of exactly the scopes that some requested role grants, all of which the
  catalogue registers. The effective scopes add the direct ones to that union.\<close>

theorem role_expansion_exact:
  assumes "StaticRoleScopeExpansion_new c = Inr X"
  shows "(case find (\<lambda>role. role_named c role = None) roles of
            Some role \<Rightarrow> expand_roles X roles = Inl (UnknownRole role)
          | None \<Rightarrow> (\<exists>e. expand_roles X roles = Inr e \<and> re_catalogue_version e = ct_version c \<and>
              sorted (re_scopes e) \<and> distinct (re_scopes e) \<and>
              set (re_scopes e) = {s. \<exists>r \<in> set (ct_roles c). rg_id r \<in> set roles \<and> s \<in> set (rg_scopes r)} \<and>
              set (re_scopes e) \<subseteq> sd_scope ` set (ct_scopes c) \<and>
              sorted (effective_scopes direct e) \<and> distinct (effective_scopes direct e) \<and>
              set (effective_scopes direct e) = set direct \<union> set (re_scopes e)))"
proof (cases "find (\<lambda>role. role_named c role = None) roles")
  case (Some role)
  with lookup_roles_cases [of X "role_named c" roles] static_expansion_lookup(1) [OF assms] show ?thesis
    by (simp add: expand_roles_def)
next
  case None
  note ok = static_expansion_lookup(3) [OF assms]
  let ?scopes = "concat (map (\<lambda>role. rg_scopes (the (role_named c role))) roles)"
  have expand: "expand_roles X roles = Inr \<lparr> re_catalogue_version = ct_version c, re_scopes = btree_set ?scopes \<rparr>"
    using None lookup_roles_cases [of X "role_named c" roles] static_expansion_lookup(1,2) [OF assms]
    by (simp add: expand_roles_def)
  have named: "role_named c role = Some r \<longleftrightarrow> r \<in> set (ct_roles c) \<and> rg_id r = role" for role r
    using ok by (simp add: role_named_def catalogue_ok_def find_key)
  have known: "\<exists>r. role_named c role = Some r" if "role \<in> set roles" for role
    using None that by (auto simp: find_None_iff)
  have scopes: "set ?scopes = {s. \<exists>r \<in> set (ct_roles c). rg_id r \<in> set roles \<and> s \<in> set (rg_scopes r)}"
  proof -
    have "rg_scopes (the (role_named c (rg_id r))) = rg_scopes r" if "r \<in> set (ct_roles c)" for r
      using named [of "rg_id r" r] that by simp
    moreover have "the (role_named c role) \<in> set (ct_roles c) \<and> rg_id (the (role_named c role)) = role"
      if "role \<in> set roles" for role
      using known [OF that] named [of role] by (metis option.sel)
    ultimately show ?thesis by auto metis
  qed
  moreover have "set ?scopes \<subseteq> sd_scope ` set (ct_scopes c)"
    using ok unfolding scopes by (fastforce simp: catalogue_ok_def role_ok_def list_all_iff)
  ultimately show ?thesis using None expand by (simp add: effective_scopes_def)
qed

definition demo_catalogue :: RoleScopeCatalogue where
  "demo_catalogue = RoleScopeCatalogue_new ''v1'' [RoleScopeDefinition_new ''a'', RoleScopeDefinition_new ''b'']
     [\<lparr> rg_id = ''op'', rg_name = ''Op'', rg_scopes = [''b'', ''a''] \<rparr>]"

lemma demo_catalogue_valid: "catalogue_validate demo_catalogue = Inr ()"
proof -
  have "\<not> blank ''Op''" by code_simp
  then show ?thesis
    unfolding catalogue_validate_iff
    by (simp add: catalogue_ok_def demo_catalogue_def RoleScopeCatalogue_new_def RoleScopeDefinition_new_def
        valid_value_def valid_display_name_def role_ok_def is_ascii_whitespace_def is_ascii_control_def ord_def
        MAX_ROLE_SCOPE_CATALOGUE_VALUE_LENGTH_def MAX_ROLE_SCOPE_CATALOGUE_SCOPES_def
        MAX_ROLE_SCOPE_CATALOGUE_ROLES_def MAX_ROLE_SCOPE_CATALOGUE_EXACT_ONLY_PATTERNS_def
        MAX_ROLE_SCOPE_CATALOGUE_SCOPES_PER_ROLE_def)
qed

lemma role_expansion_exact_witness:
  "\<exists>X e. StaticRoleScopeExpansion_new demo_catalogue = Inr X \<and> expand_roles X [''op''] = Inr e \<and>
     set (re_scopes e) = {''a'', ''b''}"
proof -
  obtain X where X: "StaticRoleScopeExpansion_new demo_catalogue = Inr X"
    by (simp add: StaticRoleScopeExpansion_new_def demo_catalogue_valid)
  from role_expansion_exact [OF X, of "[''op'']" "[]"] X show ?thesis
    by (auto simp: role_named_def demo_catalogue_def RoleScopeCatalogue_new_def)
qed

section \<open>The signed lifetime\<close>

text \<open>The binding of a signed catalogue is exact, saturation included. For every clock value and
  every pair of timestamps in the 64-bit range and a lifetime limit below the largest 64-bit value,
  the claims are accepted if and only if envelope and catalogue are well-formed and identical, the
  purpose, issuer and audience are the expected ones, the catalogue was not issued later than the
  leeway allows, has not expired by more than the leeway, and its signed lifetime is positive and
  within the limit, all in unbounded arithmetic.\<close>

theorem catalogue_binding_exact:
  assumes range: "is_i64 now" "is_i64 (cc_iat claims)" "is_i64 (cc_exp claims)"
    and limit: "vo_maximum_lifetime_seconds options < I64_MAX"
  shows "validate_binding_with_options claims envelope issuer audience now options = Inr () \<longleftrightarrow>
    catalogue_ok (sg_catalogue envelope) \<and> sg_signature envelope \<noteq> [] \<and>
    length (sg_signature envelope) \<le> MAX_ROLE_SCOPE_CATALOGUE_SIGNATURE_BYTES \<and>
    cc_catalogue claims = sg_catalogue envelope \<and> cc_purpose claims = ROLE_SCOPE_CATALOGUE_PURPOSE \<and>
    cc_iss claims = issuer \<and> cc_aud claims = audience \<and> 0 \<le> vo_clock_skew_leeway_seconds options \<and>
    cc_iat claims \<le> now + vo_clock_skew_leeway_seconds options \<and>
    now - vo_clock_skew_leeway_seconds options < cc_exp claims \<and>
    0 < cc_exp claims - cc_iat claims \<and> cc_exp claims - cc_iat claims \<le> vo_maximum_lifetime_seconds options"
proof -
  let ?l = "vo_clock_skew_leeway_seconds options" and ?m = "vo_maximum_lifetime_seconds options"
  have "(\<not> (?m \<le> 0 \<or> ?l < 0 \<or> cc_iat claims > sat_i64 (now + ?l) \<or> cc_exp claims \<le> sat_i64 (now - ?l) \<or>
          cc_exp claims \<le> cc_iat claims \<or> sat_i64 (cc_exp claims - cc_iat claims) > ?m)) \<longleftrightarrow>
        0 \<le> ?l \<and> cc_iat claims \<le> now + ?l \<and> now - ?l < cc_exp claims \<and>
        0 < cc_exp claims - cc_iat claims \<and> cc_exp claims - cc_iat claims \<le> ?m"
    using range limit unfolding is_i64_def sat_i64_def I64_MIN_def I64_MAX_def by auto
  then show ?thesis
    by (auto simp: validate_binding_with_options_def validate_structure_def bind_res_unit_Inr
        catalogue_validate_iff not_less)
qed

lemma catalogue_binding_exact_witness:
  "validate_binding_with_options (RoleScopeCatalogueClaims_new demo_catalogue ''iss'' ''aud'' 1000 1300)
     \<lparr> sg_catalogue = demo_catalogue, sg_signature = ''s'' \<rparr> ''iss'' ''aud'' 1299
     (RoleScopeCatalogueValidationOptions_default \<lparr> vo_maximum_lifetime_seconds := 300 \<rparr>) = Inr () \<and>
   validate_binding_with_options (RoleScopeCatalogueClaims_new demo_catalogue ''iss'' ''aud'' 1000 1300)
     \<lparr> sg_catalogue = demo_catalogue, sg_signature = ''s'' \<rparr> ''iss'' ''aud'' 1300
     (RoleScopeCatalogueValidationOptions_default \<lparr> vo_maximum_lifetime_seconds := 300 \<rparr>) \<noteq> Inr ()"
proof -
  let ?c = "RoleScopeCatalogueClaims_new demo_catalogue ''iss'' ''aud'' 1000 1300"
  let ?o = "RoleScopeCatalogueValidationOptions_default \<lparr> vo_maximum_lifetime_seconds := 300 \<rparr>"
  have "catalogue_ok demo_catalogue" using demo_catalogue_valid by (simp add: catalogue_validate_iff)
  moreover have "is_i64 1299" "is_i64 1300" "is_i64 (cc_iat ?c)" "is_i64 (cc_exp ?c)" "vo_maximum_lifetime_seconds ?o < I64_MAX"
    by (simp_all add: is_i64_def I64_MIN_def I64_MAX_def RoleScopeCatalogueClaims_new_def)
  ultimately show ?thesis
    using catalogue_binding_exact [of 1299 ?c ?o "\<lparr> sg_catalogue = demo_catalogue, sg_signature = ''s'' \<rparr>" "''iss''" "''aud''"]
      catalogue_binding_exact [of 1300 ?c ?o "\<lparr> sg_catalogue = demo_catalogue, sg_signature = ''s'' \<rparr>" "''iss''" "''aud''"]
    by (simp add: RoleScopeCatalogueClaims_new_def RoleScopeCatalogueValidationOptions_default_def
        MAX_ROLE_SCOPE_CATALOGUE_SIGNATURE_BYTES_def)
qed

end
