(* ===== verification/Password_Work.thy ===== *)
theory Password_Work
  imports Errors "HOL-Library.Multiset"
begin

text \<open>
  The process-wide pool of password workers (\<open>src/password_work.rs\<close>) and the adjustable clock
  (\<open>src/clock.rs\<close>). The pool is a transition system: a bounded channel, worker threads that
  take one job at a time without holding the queue lock while it runs, and one reply channel per
  job. Events are the atomic actions of the threads; a worker's loop is two of them, receiving a
  job and finishing it. A job is identified by the order of its admission.
\<close>

section \<open>The pool\<close>

text \<open>What the closure of a job does when it is called: return a result, or panic.\<close>

datatype 'a work = Returns "'a AuthResult" | Panics

record 'a Job =
  jb_id :: nat
  jb_work :: "'a work"

datatype 'a worker = Waiting | Running "'a Job" | Stopped

record 'a PasswordWorkPool =
  po_capacity :: nat
  po_queue :: "'a Job list"
  po_workers :: "'a worker list"
  po_poisoned :: bool
  po_connected :: bool
  po_admitted :: nat
  po_sent :: "(nat \<times> 'a AuthResult) list"
  po_dropped :: "nat list"

definition WORKERS :: nat where "WORKERS = 2"
definition QUEUED_JOBS :: nat where "QUEUED_JOBS = 32"

fun spawn_workers :: "(nat \<Rightarrow> bool) \<Rightarrow> nat \<Rightarrow> nat \<Rightarrow> unit AuthResult" where
  "spawn_workers spawn i 0 = Inr ()"
| "spawn_workers spawn i (Suc n) =
     (if spawn i then spawn_workers spawn (Suc i) n else Inl AuthServiceUnavailable)"

definition with_spawner :: "nat \<Rightarrow> nat \<Rightarrow> (nat \<Rightarrow> bool) \<Rightarrow> 'a PasswordWorkPool AuthResult" where
  "with_spawner workers queued_jobs spawn =
     (if workers = 0 \<or> queued_jobs = 0 then Inl AuthServiceUnavailable
      else bind_res (spawn_workers spawn 0 workers) (\<lambda>_.
        Inr \<lparr> po_capacity = queued_jobs, po_queue = [], po_workers = replicate workers Waiting,
              po_poisoned = False, po_connected = True, po_admitted = 0, po_sent = [],
              po_dropped = [] \<rparr>))"

text \<open>The process-wide cell: initialized by the first caller, failures included.\<close>

type_synonym 'a shared_cell = "(unit + 'a PasswordWorkPool) option"

definition shared :: "(nat \<Rightarrow> bool) \<Rightarrow> 'a shared_cell \<Rightarrow> 'a PasswordWorkPool AuthResult \<times> 'a shared_cell" where
  "shared spawn cell =
     (let init = (case cell of
                    Some r \<Rightarrow> r
                  | None \<Rightarrow> map_err (\<lambda>_. ()) (with_spawner WORKERS QUEUED_JOBS spawn)) in
      (map_err (\<lambda>_. AuthServiceUnavailable) init, Some init))"

text \<open>The channel: its receiver lives as long as some worker holds a reference to it, and
  \<open>try_send\<close> never waits.\<close>

definition receiver_alive :: "'a PasswordWorkPool \<Rightarrow> bool" where
  "receiver_alive p = list_ex (\<lambda>w. w \<noteq> Stopped) (po_workers p)"

definition try_send :: "'a Job \<Rightarrow> 'a PasswordWorkPool \<Rightarrow> 'a PasswordWorkPool option" where
  "try_send job p =
     (if receiver_alive p \<and> length (po_queue p) < po_capacity p
      then Some (p \<lparr> po_queue := po_queue p @ [job] \<rparr>) else None)"

text \<open>The first poll of \<open>execute\<close>: the job is handed to the channel or the call fails at once.\<close>

definition submit :: "'a work \<Rightarrow> 'a PasswordWorkPool \<Rightarrow> nat AuthResult \<times> 'a PasswordWorkPool" where
  "submit work p =
     (case try_send \<lparr> jb_id = po_admitted p, jb_work = work \<rparr> p of
        None \<Rightarrow> (Inl AuthServiceUnavailable, p)
      | Some p' \<Rightarrow> (Inr (po_admitted p), p' \<lparr> po_admitted := Suc (po_admitted p) \<rparr>))"

definition job_result :: "'a work \<Rightarrow> 'a AuthResult" where
  "job_result work = (case work of Returns r \<Rightarrow> r | Panics \<Rightarrow> Inl AuthServiceUnavailable)"

datatype 'a received = Blocked | Closed | Received "'a Job" "'a PasswordWorkPool"

definition receive :: "'a PasswordWorkPool \<Rightarrow> 'a received" where
  "receive p =
     (if po_poisoned p then Closed
      else case po_queue p of
        job # rest \<Rightarrow> Received job (p \<lparr> po_queue := rest \<rparr>)
      | [] \<Rightarrow> if po_connected p then Blocked else Closed)"

definition set_worker :: "nat \<Rightarrow> 'a worker \<Rightarrow> 'a PasswordWorkPool \<Rightarrow> 'a PasswordWorkPool" where
  "set_worker i w p = p \<lparr> po_workers := (po_workers p)[i := w] \<rparr>"

text \<open>One action of worker \<open>i\<close>: it takes the next job, waits, or leaves its loop; or it finishes the
  job it runs and sends the result. When the last worker leaves, the channel is dropped with the
  jobs in it.\<close>

definition worker_step :: "nat \<Rightarrow> 'a PasswordWorkPool \<Rightarrow> 'a PasswordWorkPool" where
  "worker_step i p =
     (if i \<ge> length (po_workers p) then p
      else case po_workers p ! i of
        Waiting \<Rightarrow> (case receive p of
            Blocked \<Rightarrow> p
          | Closed \<Rightarrow> let p' = set_worker i Stopped p in
              if receiver_alive p' then p' else p' \<lparr> po_queue := [] \<rparr>
          | Received job p' \<Rightarrow> set_worker i (Running job) p')
      | Running job \<Rightarrow>
          set_worker i Waiting (p \<lparr> po_sent := (jb_id job, job_result (jb_work job)) # po_sent p \<rparr>)
      | Stopped \<Rightarrow> p)"

text \<open>A caller that drops its future loses the reply; nothing is withdrawn from the pool.\<close>

definition cancel :: "nat \<Rightarrow> 'a PasswordWorkPool \<Rightarrow> 'a PasswordWorkPool" where
  "cancel job p = p \<lparr> po_dropped := job # po_dropped p \<rparr>"

definition disconnect :: "'a PasswordWorkPool \<Rightarrow> 'a PasswordWorkPool" where
  "disconnect p = p \<lparr> po_connected := False \<rparr>"

definition running :: "'a worker list \<Rightarrow> 'a Job list" where
  "running ws = concat (map (\<lambda>w. case w of Running job \<Rightarrow> [job] | _ \<Rightarrow> []) ws)"

definition jobs_inside :: "'a PasswordWorkPool \<Rightarrow> 'a Job list" where
  "jobs_inside p = po_queue p @ running (po_workers p)"

text \<open>What an awaiting caller observes: the reply, a dropped reply channel, or nothing yet.\<close>

definition await_reply :: "nat \<Rightarrow> 'a PasswordWorkPool \<Rightarrow> 'a AuthResult option" where
  "await_reply job p =
     (case map_of (po_sent p) job of
        Some r \<Rightarrow> Some r
      | None \<Rightarrow> if list_ex (\<lambda>j. jb_id j = job) (jobs_inside p) then None else Some (Inl AuthServiceUnavailable))"

text \<open>The events of the process. A submission needs a reference to the pool, so none follows the
  drop of its last reference.\<close>

datatype 'a pool_event = Submit "'a work" | Work nat | Cancel nat | Disconnect

fun pool_step :: "'a pool_event \<Rightarrow> 'a PasswordWorkPool \<Rightarrow> 'a PasswordWorkPool" where
  "pool_step (Submit work) p = (if po_connected p then snd (submit work p) else p)"
| "pool_step (Work i) p = worker_step i p"
| "pool_step (Cancel job) p = cancel job p"
| "pool_step Disconnect p = disconnect p"

inductive pool_reach :: "nat \<Rightarrow> nat \<Rightarrow> 'a PasswordWorkPool \<Rightarrow> bool" for workers queued_jobs where
  started: "with_spawner workers queued_jobs spawn = Inr p \<Longrightarrow> pool_reach workers queued_jobs p"
| stepped: "pool_reach workers queued_jobs p \<Longrightarrow> pool_reach workers queued_jobs (pool_step e p)"

section \<open>Conservation of jobs\<close>

definition job_places :: "'a PasswordWorkPool \<Rightarrow> nat multiset" where
  "job_places p = mset (map jb_id (jobs_inside p)) + mset (map fst (po_sent p))"

definition pool_inv :: "'a PasswordWorkPool \<Rightarrow> bool" where
  "pool_inv p \<longleftrightarrow>
     length (po_queue p) \<le> po_capacity p \<and> \<not> po_poisoned p \<and>
     (Stopped \<in> set (po_workers p) \<longrightarrow> \<not> po_connected p \<and> po_queue p = []) \<and>
     map jb_id (po_queue p) = [po_admitted p - length (po_queue p) ..< po_admitted p] \<and>
     job_places p = mset [0 ..< po_admitted p]"

lemma mset_running_update:
  "i < length ws \<Longrightarrow>
   mset (running (ws[i := w])) + mset (running [ws ! i]) = mset (running ws) + mset (running [w])"
  by (subst (2) id_take_nth_drop [of i ws], assumption, simp add: upd_conv_take_nth_drop running_def)

lemma running_Nil [simp]: "running [Waiting] = []" "running [Stopped] = []" "running [Running j] = [j]"
  by (simp_all add: running_def)

lemma running_iff: "j \<in> set (running ws) \<longleftrightarrow> Running j \<in> set ws"
  by (induction ws) (auto simp: running_def split: worker.splits)

lemma running_bounded: "length (running ws) \<le> length ws"
  by (induction ws) (auto simp: running_def split: worker.splits)

text \<open>The four effects of a worker's action.\<close>

lemma worker_step_cases:
  obtains (idle) "worker_step i p = p"
  | (takes) j rest where "i < length (po_workers p)" "po_workers p ! i = Waiting" "po_queue p = j # rest"
      "worker_step i p = set_worker i (Running j) (p \<lparr> po_queue := rest \<rparr>)"
  | (leaves) "i < length (po_workers p)" "po_workers p ! i = Waiting"
      "po_poisoned p \<or> po_queue p = [] \<and> \<not> po_connected p"
      "worker_step i p = set_worker i Stopped p \<or> worker_step i p = set_worker i Stopped p \<lparr> po_queue := [] \<rparr>"
  | (finishes) j where "i < length (po_workers p)" "po_workers p ! i = Running j"
      "worker_step i p =
         set_worker i Waiting (p \<lparr> po_sent := (jb_id j, job_result (jb_work j)) # po_sent p \<rparr>)"
proof (cases "i < length (po_workers p)")
  case True
  show ?thesis
  proof (cases "po_workers p ! i")
    case Waiting
    consider "po_poisoned p \<or> po_queue p = [] \<and> \<not> po_connected p" |
      "\<not> po_poisoned p" "po_queue p = []" "po_connected p" |
      j rest where "\<not> po_poisoned p" "po_queue p = j # rest"
      by (cases "po_queue p") auto
    then show ?thesis
    proof cases
      case 1
      then have "receive p = Closed" by (auto simp: receive_def)
      then show ?thesis using leaves [OF True Waiting 1] True Waiting
        by (simp add: worker_step_def Let_def split: if_splits)
    next
      case 2
      then have "receive p = Blocked" by (simp add: receive_def)
      then show ?thesis using idle True Waiting by (simp add: worker_step_def)
    next
      case 3
      then have "receive p = Received j (p \<lparr> po_queue := rest \<rparr>)" by (simp add: receive_def)
      then show ?thesis using takes [OF True Waiting 3(2)] True Waiting by (simp add: worker_step_def)
    qed
  next
    case (Running j)
    with True show ?thesis using finishes by (simp add: worker_step_def)
  next
    case Stopped
    with True show ?thesis using idle by (simp add: worker_step_def)
  qed
qed (use idle in \<open>simp add: worker_step_def\<close>)

lemma worker_step_shape [simp]:
  "po_capacity (worker_step i p) = po_capacity p"
  "length (po_workers (worker_step i p)) = length (po_workers p)"
  "po_admitted (worker_step i p) = po_admitted p"
  by (cases rule: worker_step_cases [of i p]; auto simp: set_worker_def)+

lemma in_set_updateD: "w \<in> set (ws[i := v]) \<Longrightarrow> w = v \<or> w \<in> set ws"
  using set_update_subset_insert by fastforce

lemma upt_tail: "x # xs = [a - Suc (length xs) ..< a] \<Longrightarrow> xs = [a - length xs ..< a]"
proof -
  assume h: "x # xs = [a - Suc (length xs) ..< a]"
  from arg_cong [OF h, of length] have "Suc (length xs) \<le> a" by simp
  with arg_cong [OF h, of tl] show ?thesis by (simp add: Suc_diff_Suc del: upt_Suc)
qed

lemma worker_step_inv: "pool_inv p \<Longrightarrow> pool_inv (worker_step i p)"
proof (cases rule: worker_step_cases [of i p])
  case (takes j rest)
  assume inv: "pool_inv p"
  then have "Stopped \<notin> set (po_workers p)" using takes(3) by (auto simp: pool_inv_def)
  moreover have "map jb_id rest = [po_admitted p - length rest ..< po_admitted p]"
    using inv takes(3) upt_tail [of "jb_id j" "map jb_id rest" "po_admitted p"] by (simp add: pool_inv_def)
  moreover have "job_places (worker_step i p) = job_places p"
    using takes mset_running_update [OF takes(1), of "Running j"]
    by (simp add: job_places_def jobs_inside_def set_worker_def)
  ultimately show ?thesis using inv takes
    by (auto simp: pool_inv_def set_worker_def dest: in_set_updateD)
next
  case leaves
  assume inv: "pool_inv p"
  then have "po_queue p = []" "\<not> po_connected p" using leaves(3) by (auto simp: pool_inv_def)
  moreover from this have "job_places (worker_step i p) = job_places p"
    using leaves mset_running_update [OF leaves(1), of Stopped]
    by (auto simp: job_places_def jobs_inside_def set_worker_def)
  ultimately show ?thesis using inv leaves by (auto simp: pool_inv_def set_worker_def)
next
  case (finishes j)
  assume inv: "pool_inv p"
  have "job_places (worker_step i p) = job_places p"
    using finishes mset_running_update [OF finishes(1), of Waiting, symmetric]
    by (simp add: job_places_def jobs_inside_def set_worker_def)
  with inv finishes show ?thesis by (auto simp: pool_inv_def set_worker_def dest: in_set_updateD)
qed simp

lemma submit_cases:
  obtains (refused) "submit work p = (Inl AuthServiceUnavailable, p)"
      "\<not> receiver_alive p \<or> po_capacity p \<le> length (po_queue p)"
  | (admitted) "receiver_alive p" "length (po_queue p) < po_capacity p"
      "submit work p = (Inr (po_admitted p),
         p \<lparr> po_queue := po_queue p @ [\<lparr> jb_id = po_admitted p, jb_work = work \<rparr>],
             po_admitted := Suc (po_admitted p) \<rparr>)"
  by (cases "receiver_alive p \<and> length (po_queue p) < po_capacity p")
    (auto simp: submit_def try_send_def)

lemma submit_inv: "pool_inv p \<Longrightarrow> po_connected p \<Longrightarrow> pool_inv (snd (submit work p))"
proof (cases rule: submit_cases [of work p])
  case admitted
  assume inv: "pool_inv p" and conn: "po_connected p"
  then have len: "length (po_queue p) \<le> po_admitted p"
    by (auto simp: pool_inv_def dest: arg_cong [where f = length])
  have "job_places p = mset [0 ..< po_admitted p]" using inv by (simp add: pool_inv_def)
  then have "job_places (snd (submit work p)) = mset [0 ..< Suc (po_admitted p)]"
    using admitted(3) by (simp add: job_places_def jobs_inside_def del: mset_upt)
  then show ?thesis using inv conn admitted len by (simp add: pool_inv_def Suc_diff_le del: mset_upt)
qed simp

lemma with_spawner_Inr:
  "with_spawner n cap spawn = Inr p \<longleftrightarrow> n \<noteq> 0 \<and> cap \<noteq> 0 \<and> spawn_workers spawn 0 n = Inr () \<and>
     p = \<lparr> po_capacity = cap, po_queue = [], po_workers = replicate n Waiting,
           po_poisoned = False, po_connected = True, po_admitted = 0, po_sent = [], po_dropped = [] \<rparr>"
  by (auto simp: with_spawner_def bind_res_unit_Inr)

lemma pool_reach_inv:
  "pool_reach n cap p \<Longrightarrow> pool_inv p \<and> po_capacity p = cap \<and> length (po_workers p) = n \<and> n \<noteq> 0"
proof (induction rule: pool_reach.induct)
  case (started spawn p)
  then show ?case
    by (auto simp: with_spawner_Inr pool_inv_def job_places_def jobs_inside_def running_def)
next
  case (stepped p e)
  then show ?case
  proof (cases e)
    case (Submit work)
    then show ?thesis using stepped.IH submit_inv [of p work]
      by (auto simp: submit_def try_send_def split: option.splits if_splits)
  next
    case (Work i)
    then show ?thesis using stepped.IH worker_step_inv by auto
  qed (use stepped.IH in \<open>auto simp: cancel_def disconnect_def pool_inv_def job_places_def jobs_inside_def\<close>)
qed

text \<open>C19: The pool is bounded and loses nothing. In every state the process can reach, at most the
  configured number of jobs is queued and at most that number plus the number of workers is inside
  the pool, cancelled calls included; every admitted job is at exactly one place: queued, running,
  or answered once. A call on a live pool is refused exactly when the queue is full.\<close>

theorem password_pool_bounded:
  assumes "pool_reach workers queued_jobs p"
  shows "length (po_queue p) \<le> queued_jobs \<and> length (jobs_inside p) \<le> workers + queued_jobs \<and>
    distinct (map jb_id (jobs_inside p) @ map fst (po_sent p)) \<and>
    set (map jb_id (jobs_inside p) @ map fst (po_sent p)) = {..< po_admitted p} \<and>
    (po_connected p \<longrightarrow> (fst (submit work p) = Inl AuthServiceUnavailable \<longleftrightarrow> length (po_queue p) = queued_jobs))"
proof -
  from assms have inv: "pool_inv p" and cap: "po_capacity p = queued_jobs"
    and len: "length (po_workers p) = workers" "workers \<noteq> 0"
    using pool_reach_inv by blast+
  have places: "mset (map jb_id (jobs_inside p) @ map fst (po_sent p)) = mset [0 ..< po_admitted p]"
    using inv by (simp add: pool_inv_def job_places_def)
  then have "distinct (map jb_id (jobs_inside p) @ map fst (po_sent p))"
    by (metis distinct_upt mset_eq_imp_distinct_iff)
  moreover have "set (map jb_id (jobs_inside p) @ map fst (po_sent p)) = {..< po_admitted p}"
    using mset_eq_setD [OF places] by (simp add: lessThan_atLeast0)
  moreover have "receiver_alive p" if "po_connected p"
  proof -
    from that inv have "Stopped \<notin> set (po_workers p)" by (auto simp: pool_inv_def)
    with len show ?thesis by (cases "po_workers p") (auto simp: receiver_alive_def)
  qed
  moreover have queue: "length (po_queue p) \<le> queued_jobs" using inv cap by (simp add: pool_inv_def)
  moreover have "length (jobs_inside p) \<le> workers + queued_jobs"
    using queue len running_bounded [of "po_workers p"] by (simp add: jobs_inside_def)
  moreover have "fst (submit work p) = Inl AuthServiceUnavailable \<longleftrightarrow> length (po_queue p) = queued_jobs"
    if "receiver_alive p"
    using that queue cap by (auto simp: submit_def try_send_def)
  ultimately show ?thesis by blast
qed

section \<open>Progress\<close>

primrec pool_run :: "(nat \<Rightarrow> 'a pool_event) \<Rightarrow> 'a PasswordWorkPool \<Rightarrow> nat \<Rightarrow> 'a PasswordWorkPool" where
  "pool_run \<sigma> p 0 = p"
| "pool_run \<sigma> p (Suc k) = pool_step (\<sigma> k) (pool_run \<sigma> p k)"

text \<open>Every worker thread is scheduled again and again, and a job that is run ends.\<close>

definition fair_workers :: "nat \<Rightarrow> (nat \<Rightarrow> 'a pool_event) \<Rightarrow> bool" where
  "fair_workers n \<sigma> \<longleftrightarrow> (\<forall>i<n. \<forall>k. \<exists>m\<ge>k. \<sigma> m = Work i)"

lemma fair_progress:
  fixes R :: "nat \<Rightarrow> nat \<Rightarrow> bool"
  assumes step: "\<And>t v. R t v \<Longrightarrow> G (Suc t) \<or> (\<exists>v'\<le>v. R (Suc t) v' \<and> (E t \<longrightarrow> v' < v))"
    and fair: "\<forall>k. \<exists>m\<ge>k. E m" and start: "R k v"
  shows "\<exists>m\<ge>k. G m"
  using start
proof (induction v arbitrary: k rule: less_induct)
  case (less v)
  obtain m where m: "m \<ge> k" "E m" using fair by blast
  have reach: "(\<exists>t\<ge>k. G t) \<or> (\<exists>v'\<le>v. R (k + d) v')" for d
  proof (induction d)
    case (Suc d)
    then show ?case using step [of "k + d"] by (metis add_Suc_right le_trans le_add1 le_Suc_eq)
  qed (use less.prems in auto)
  show ?case
  proof (cases "\<exists>t\<ge>k. G t")
    case False
    then obtain v' where v': "v' \<le> v" "R m v'" using reach [of "m - k"] m(1) by auto
    then consider "G (Suc m)" | v'' where "v'' < v'" "R (Suc m) v''" using step m(2) by blast
    then show ?thesis
    proof cases
      case 2
      then have "\<exists>t\<ge>Suc m. G t" using less.IH v'(1) by (meson less_le_trans)
      with m(1) show ?thesis by (meson Suc_leD le_trans)
    qed (use m(1) in \<open>auto intro: le_SucI\<close>)
  qed
qed

lemma pool_run_reach: "pool_reach n cap p \<Longrightarrow> pool_reach n cap (pool_run \<sigma> p k)"
  by (induction k) (auto intro: pool_reach.stepped)

lemma worker_kept: "e \<noteq> Work i \<Longrightarrow> po_workers (pool_step e p) ! i = po_workers p ! i"
proof (cases e)
  case (Work k)
  moreover assume "e \<noteq> Work i"
  ultimately show ?thesis
    by (cases rule: worker_step_cases [of k p]) (auto simp: set_worker_def)
qed (auto simp: submit_def try_send_def cancel_def disconnect_def split: option.splits if_splits)

lemma running_job_finishes:
  assumes fair: "fair_workers n \<sigma>" and reach: "pool_reach n cap p"
    and run: "i < n" "po_workers (pool_run \<sigma> p k) ! i = Running j"
  shows "\<exists>m\<ge>k. (jb_id j, job_result (jb_work j)) \<in> set (po_sent (pool_run \<sigma> p m))"
proof (rule fair_progress [where E = "\<lambda>t. \<sigma> t = Work i" and v = 0 and
      R = "\<lambda>t v. po_workers (pool_run \<sigma> p t) ! i = Running j"])
  fix t and v :: nat
  assume at: "po_workers (pool_run \<sigma> p t) ! i = Running j"
  have "length (po_workers (pool_run \<sigma> p t)) = n"
    using pool_reach_inv [OF pool_run_reach [OF reach]] by blast
  then show "(jb_id j, job_result (jb_work j)) \<in> set (po_sent (pool_run \<sigma> p (Suc t))) \<or>
     (\<exists>v'\<le>v. po_workers (pool_run \<sigma> p (Suc t)) ! i = Running j \<and> (\<sigma> t = Work i \<longrightarrow> v' < v))"
    using at run(1) worker_kept [of "\<sigma> t" i]
    by (cases "\<sigma> t = Work i") (use le_refl [of v] in \<open>auto simp: worker_step_def set_worker_def\<close>)
qed (use fair run in \<open>auto simp: fair_workers_def\<close>)

text \<open>How far a queued job is from being taken, counted in actions of the first worker.\<close>

definition ahead :: "'a Job list \<Rightarrow> 'a PasswordWorkPool \<Rightarrow> nat" where
  "ahead xs p = 2 * length xs + (case po_workers p ! 0 of Running _ \<Rightarrow> 1 | _ \<Rightarrow> 0)"

lemma worker_advances:
  assumes inv: "pool_inv p" and queue: "po_queue p = xs @ j # ys" and n: "po_workers p \<noteq> []"
  shows "(\<exists>i<length (po_workers p). po_workers (worker_step i0 p) ! i = Running j) \<or>
    (\<exists>xs' ys'. po_queue (worker_step i0 p) = xs' @ j # ys' \<and> ahead xs' (worker_step i0 p) \<le> ahead xs p \<and>
       (i0 = 0 \<longrightarrow> ahead xs' (worker_step i0 p) < ahead xs p))"
proof -
  have pois: "\<not> po_poisoned p" "Stopped \<notin> set (po_workers p)" using inv queue by (auto simp: pool_inv_def)
  show ?thesis
  proof (cases rule: worker_step_cases [of i0 p])
    case idle
    have "i0 \<noteq> 0"
    proof
      assume "i0 = 0"
      with idle n pois queue show False
        by (cases "po_workers p"; cases "hd (po_workers p)"; cases xs)
          (auto simp: worker_step_def receive_def set_worker_def dest: arg_cong [where f = po_workers])
    qed
    then show ?thesis using idle queue by auto
  next
    case (takes k rest)
    show ?thesis
    proof (cases xs)
      case Nil
      then show ?thesis using takes queue by (auto simp: set_worker_def)
    next
      case (Cons x xs')
      then have "po_queue (worker_step i0 p) = xs' @ j # ys"
        "ahead xs' (worker_step i0 p) < ahead xs p"
        using takes queue by (cases i0; auto simp: set_worker_def ahead_def split: worker.splits)+
      then show ?thesis by (meson less_imp_le)
    qed
  next
    case leaves
    then show ?thesis using pois queue by simp
  next
    case (finishes k)
    then have "po_queue (worker_step i0 p) = xs @ j # ys" "ahead xs (worker_step i0 p) \<le> ahead xs p"
      "i0 = 0 \<longrightarrow> ahead xs (worker_step i0 p) < ahead xs p"
      using queue by (cases i0; auto simp: set_worker_def ahead_def split: worker.splits)+
    then show ?thesis by blast
  qed
qed

lemma queued_job_advances:
  assumes inv: "pool_inv p" and queue: "po_queue p = xs @ j # ys" and n: "po_workers p \<noteq> []"
  shows "(\<exists>i<length (po_workers p). po_workers (pool_step e p) ! i = Running j) \<or>
    (\<exists>xs' ys'. po_queue (pool_step e p) = xs' @ j # ys' \<and> ahead xs' (pool_step e p) \<le> ahead xs p \<and>
       (e = Work 0 \<longrightarrow> ahead xs' (pool_step e p) < ahead xs p))"
proof (cases e)
  case (Work i0)
  then show ?thesis using worker_advances [OF assms, of i0] by auto
qed (use queue in \<open>auto simp: submit_def try_send_def cancel_def disconnect_def ahead_def split: option.splits if_splits\<close>)

lemma queued_job_taken:
  assumes fair: "fair_workers n \<sigma>" and reach: "pool_reach n cap p"
    and queued: "j \<in> set (po_queue (pool_run \<sigma> p k))"
  shows "\<exists>m\<ge>k. \<exists>i<n. po_workers (pool_run \<sigma> p m) ! i = Running j"
proof -
  let ?R = "\<lambda>t v. \<exists>xs ys. po_queue (pool_run \<sigma> p t) = xs @ j # ys \<and> v = ahead xs (pool_run \<sigma> p t)"
  have facts: "pool_inv (pool_run \<sigma> p t)" "length (po_workers (pool_run \<sigma> p t)) = n" "n \<noteq> 0" for t
    using pool_reach_inv [OF pool_run_reach [OF reach]] by blast+
  obtain xs ys where "po_queue (pool_run \<sigma> p k) = xs @ j # ys" using queued split_list by metis
  then have start: "?R k (ahead xs (pool_run \<sigma> p k))" by blast
  show ?thesis
  proof (rule fair_progress [where R = ?R and E = "\<lambda>t. \<sigma> t = Work 0", OF _ _ start])
    fix t v
    assume "?R t v"
    then obtain xs ys where q: "po_queue (pool_run \<sigma> p t) = xs @ j # ys" "v = ahead xs (pool_run \<sigma> p t)"
      by blast
    have "po_workers (pool_run \<sigma> p t) \<noteq> []" using facts(2) [of t] facts(3) by auto
    from queued_job_advances [OF facts(1) q(1) this, of "\<sigma> t"]
    show "(\<exists>i<n. po_workers (pool_run \<sigma> p (Suc t)) ! i = Running j) \<or>
        (\<exists>v'\<le>v. ?R (Suc t) v' \<and> (\<sigma> t = Work 0 \<longrightarrow> v' < v))"
      unfolding pool_run.simps q(2) facts(2) [of t] by blast
  qed (use fair facts(3) in \<open>auto simp: fair_workers_def\<close>)
qed

lemma sent_grows: "x \<in> set (po_sent p) \<Longrightarrow> x \<in> set (po_sent (pool_step e p))"
proof (cases e)
  case (Work i)
  moreover assume "x \<in> set (po_sent p)"
  ultimately show ?thesis by (cases rule: worker_step_cases [of i p]) (auto simp: set_worker_def)
qed (auto simp: submit_def try_send_def cancel_def disconnect_def split: option.splits if_splits)

lemma sent_kept: "x \<in> set (po_sent (pool_run \<sigma> p k)) \<Longrightarrow> k \<le> m \<Longrightarrow> x \<in> set (po_sent (pool_run \<sigma> p m))"
  by (induction m) (auto simp: le_Suc_eq simp del: pool_step.simps intro: sent_grows)

lemma sent_is_reply:
  assumes "pool_inv p" "(i, r) \<in> set (po_sent p)"
  shows "await_reply i p = Some r"
proof -
  have "mset (map jb_id (jobs_inside p) @ map fst (po_sent p)) = mset [0 ..< po_admitted p]"
    using assms(1) by (simp add: pool_inv_def job_places_def)
  then have "distinct (map fst (po_sent p))"
    by (metis distinct_append distinct_upt mset_eq_imp_distinct_iff)
  then show ?thesis using assms(2) by (simp add: await_reply_def)
qed

text \<open>C20: Every admitted job is answered. However calls, cancellations and the drop of the pool are
  interleaved with the worker threads, as long as each worker keeps being scheduled, the caller of a
  job the pool admitted finally and permanently observes the result of exactly that job; a panic in
  the job is reported as unavailability and does not take a worker out of the pool.\<close>

theorem admitted_password_job_answered:
  assumes "pool_reach workers queued_jobs p" "po_connected p" "submit work p = (Inr job, p')"
    and "fair_workers workers \<sigma>"
  shows "\<exists>k. \<forall>m\<ge>k. await_reply job (pool_run \<sigma> p' m) = Some (job_result work)"
proof -
  let ?j = "\<lparr> jb_id = job, jb_work = work \<rparr>"
  have p': "p' = pool_step (Submit work) p" using assms(2,3) by simp
  then have reach: "pool_reach workers queued_jobs p'" using assms(1) pool_reach.stepped by metis
  have "?j \<in> set (po_queue (pool_run \<sigma> p' 0))"
    using assms(3) by (cases rule: submit_cases [of work p]) auto
  from queued_job_taken [OF assms(4) reach this] obtain m i
    where "i < workers" "po_workers (pool_run \<sigma> p' m) ! i = Running ?j" by blast
  from running_job_finishes [OF assms(4) reach this] obtain k
    where "(job, job_result work) \<in> set (po_sent (pool_run \<sigma> p' k))" by auto
  then show ?thesis
    using sent_kept sent_is_reply pool_reach_inv [OF pool_run_reach [OF reach]] by blast
qed

section \<open>A concrete pool\<close>

definition demo_pool :: "nat PasswordWorkPool" where
  "demo_pool = \<lparr> po_capacity = QUEUED_JOBS, po_queue = [], po_workers = replicate WORKERS Waiting,
     po_poisoned = False, po_connected = True, po_admitted = 0, po_sent = [], po_dropped = [] \<rparr>"

lemma demo_pool_shared: "shared (\<lambda>_. True) None = (Inr demo_pool, Some (Inr demo_pool))"
  by (simp add: shared_def with_spawner_def demo_pool_def WORKERS_def QUEUED_JOBS_def numeral_2_eq_2 map_err_def)

lemma demo_pool_reach: "pool_reach WORKERS QUEUED_JOBS demo_pool"
  by (rule pool_reach.started [of _ _ "\<lambda>_. True"])
    (simp add: with_spawner_Inr demo_pool_def WORKERS_def QUEUED_JOBS_def numeral_2_eq_2)

text \<open>A start that failed is remembered: later callers fail without another attempt.\<close>

lemma shared_failure_sticks:
  "shared spawn None = (Inl e, cell) \<Longrightarrow> shared spawn' cell = (Inl AuthServiceUnavailable, cell)"
  by (auto simp: shared_def Let_def map_err_def split: sum.splits)

text \<open>Three calls, one worker busy, one call cancelled: nothing is refunded.\<close>

definition demo_busy_pool :: "nat PasswordWorkPool" where
  "demo_busy_pool = fold pool_step [Submit (Returns (Inr 7)), Work 0, Submit Panics, Cancel 0, Submit (Returns (Inr 9))] demo_pool"

lemma demo_busy_pool_reach: "pool_reach WORKERS QUEUED_JOBS demo_busy_pool"
  unfolding demo_busy_pool_def by (simp del: pool_step.simps) (intro pool_reach.stepped demo_pool_reach)

theorem password_pool_bounded_witness:
  "length (jobs_inside demo_busy_pool) = 3 \<and> length (po_queue demo_busy_pool) = 2 \<and>
   set (map jb_id (jobs_inside demo_busy_pool) @ map fst (po_sent demo_busy_pool)) = {..< 3} \<and>
   fst (submit Panics demo_busy_pool) \<noteq> Inl AuthServiceUnavailable"
proof -
  have "length (jobs_inside demo_busy_pool) = 3" "length (po_queue demo_busy_pool) = 2"
    "po_admitted demo_busy_pool = 3" "po_connected demo_busy_pool" "QUEUED_JOBS \<noteq> 2" by code_simp+
  with password_pool_bounded [OF demo_busy_pool_reach, of Panics] show ?thesis by simp
qed

definition alternate :: "nat \<Rightarrow> nat pool_event" where
  "alternate m = Work (m mod 2)"

lemma alternate_fair: "fair_workers WORKERS alternate"
proof -
  have "2 * k + i \<ge> k \<and> alternate (2 * k + i) = Work i" if "i < 2" for i k
    using that by (simp add: alternate_def)
  then show ?thesis unfolding fair_workers_def WORKERS_def by blast
qed

theorem admitted_password_job_answered_witness:
  "\<exists>k. \<forall>m\<ge>k. await_reply 3 (pool_run alternate (snd (submit Panics demo_busy_pool)) m) =
     Some (Inl AuthServiceUnavailable)"
proof -
  have "po_connected demo_busy_pool" "fst (submit Panics demo_busy_pool) = Inr 3" by code_simp+
  then have "submit Panics demo_busy_pool = (Inr 3, snd (submit Panics demo_busy_pool))"
    by (metis prod.collapse)
  from admitted_password_job_answered [OF demo_busy_pool_reach _ this alternate_fair]
    \<open>po_connected demo_busy_pool\<close> show ?thesis by (simp add: job_result_def)
qed

end
