(* ===== verification/Url.thy ===== *)
theory Url
  imports Errors
begin

text \<open>
  The query strings of authorization URLs (\<open>src/oidc.rs\<close>, also used by \<open>src/oauth2.rs\<close>). The
  percent encoder and decoder of the \<open>percent_encoding\<close> crate are arguments: an encoder takes
  the set of ASCII characters to escape and a string. Its documented behaviour, stated as
  \<open>percent_law\<close>, is to escape the bytes of that set and all bytes outside ASCII.
\<close>

section \<open>Encoding\<close>

definition in_str :: "string \<Rightarrow> char \<Rightarrow> bool" where
  "in_str s c \<longleftrightarrow> c \<in> set s"

text \<open>The characters added to \<open>CONTROLS\<close>; the double quote and the apostrophe are written by code.\<close>

definition QUERY_ENCODE_SET :: "char \<Rightarrow> bool" where
  "QUERY_ENCODE_SET c \<longleftrightarrow>
     is_ascii_control c \<or> in_str ('' !'' @ [char_of (34::nat)] @ ''#$%&'' @ [char_of (39::nat)] @ ''()*+,/:;<=>?@['' @
       [char_of (92::nat)] @ '']^'' @ [char_of (96::nat)] @ ''{|}'') c"

definition query_component :: "((char \<Rightarrow> bool) \<Rightarrow> string \<Rightarrow> string) \<Rightarrow> string \<times> string \<Rightarrow> string" where
  "query_component pe = (\<lambda>(key, v). pe QUERY_ENCODE_SET key @ ''='' @ pe QUERY_ENCODE_SET v)"

definition append_query :: "((char \<Rightarrow> bool) \<Rightarrow> string \<Rightarrow> string) \<Rightarrow> string \<Rightarrow> (string \<times> string) list \<Rightarrow> string" where
  "append_query pe base_url params =
     (let separator = (if in_str base_url (CHR ''?'') then ''&'' else ''?'');
          query = join_str ''&'' (map (query_component pe) params) in
      base_url @ separator @ query)"

section \<open>Reserved parameters\<close>

text \<open>\<open>str::split_once\<close> with a one-character pattern.\<close>

fun split_once :: "char \<Rightarrow> string \<Rightarrow> (string \<times> string) option" where
  "split_once c [] = None"
| "split_once c (d # s) =
     (if d = c then Some ([], s) else map_option (\<lambda>(a, b). (d # a, b)) (split_once c s))"

definition RESERVED :: "string list" where
  "RESERVED = [''client_id'', ''redirect_uri'', ''response_type'', ''response_mode'', ''scope'', ''state'',
     ''nonce'', ''code_challenge'', ''code_challenge_method'', ''prompt'', ''max_age'', ''acr_values'', ''claims'']"

definition encoded_key :: "string \<Rightarrow> string" where
  "encoded_key pair = (case split_once (CHR ''='') pair of Some (key, _) \<Rightarrow> key | None \<Rightarrow> pair)"

definition ensure_no_reserved_authorization_parameters :: "(string \<Rightarrow> string) \<Rightarrow> string \<Rightarrow> unit AuthResult" where
  "ensure_no_reserved_authorization_parameters pd endpoint =
     (case split_once (CHR ''?'') endpoint of
        Some (_, remainder) \<Rightarrow>
          if list_ex (\<lambda>pair. pd (encoded_key pair) \<in> set RESERVED)
               (split_str ''&'' (hd (split_str ''#'' remainder)))
          then Inl (InvalidOidcAuthorizationOptions ''authorization endpoint contains a reserved query parameter'')
          else Inr ()
      | None \<Rightarrow> Inr ())"

section \<open>Documented behaviour of the encoder, and a decoder\<close>

definition upper_hex :: "nat \<Rightarrow> char" where
  "upper_hex n = (if n < 10 then char_of (48 + n) else char_of (55 + n))"

definition percent_byte :: "(char \<Rightarrow> bool) \<Rightarrow> char \<Rightarrow> string" where
  "percent_byte escape c =
     (if ord c \<ge> 128 \<or> escape c then [CHR ''%'', upper_hex (ord c div 16), upper_hex (ord c mod 16)] else [c])"

definition percent_encode :: "(char \<Rightarrow> bool) \<Rightarrow> string \<Rightarrow> string" where
  "percent_encode escape s = concat (map (percent_byte escape) s)"

definition percent_law :: "((char \<Rightarrow> bool) \<Rightarrow> string \<Rightarrow> string) \<Rightarrow> bool" where
  "percent_law pe \<longleftrightarrow> (\<forall>escape s. pe escape s = percent_encode escape s)"

definition hex_val :: "char \<Rightarrow> nat option" where
  "hex_val c = (if 48 \<le> ord c \<and> ord c \<le> 57 then Some (ord c - 48)
     else if 65 \<le> ord c \<and> ord c \<le> 70 then Some (ord c - 55)
     else if 97 \<le> ord c \<and> ord c \<le> 102 then Some (ord c - 87) else None)"

fun percent_decode :: "string \<Rightarrow> string" where
  "percent_decode [] = []"
| "percent_decode [c] = [c]"
| "percent_decode [c, d] = [c, d]"
| "percent_decode (c # d # e # s) =
     (case (if c = CHR ''%'' then (hex_val d, hex_val e) else (None, None)) of
        (Some h, Some l) \<Rightarrow> char_of (16 * h + l) # percent_decode s
      | _ \<Rightarrow> c # percent_decode (d # e # s))"

text \<open>How a server reads the query of a URL: without its fragment, which is not sent.\<close>

definition query_pair :: "string \<Rightarrow> string \<times> string" where
  "query_pair pair = (case split_once (CHR ''='') pair of
     Some (key, v) \<Rightarrow> (percent_decode key, percent_decode v) | None \<Rightarrow> (percent_decode pair, []))"

definition query_pairs :: "string \<Rightarrow> (string \<times> string) list" where
  "query_pairs url = (case split_once (CHR ''?'') (takeWhile (\<lambda>c. c \<noteq> CHR ''#'') url) of
     Some (_, query) \<Rightarrow> map query_pair (split_str ''&'' query) | None \<Rightarrow> [])"

section \<open>Round trip\<close>

lemma ord_less_256 [simp]: "ord c < 256"
  by (simp add: ord_def)

lemma ord_char_of: "n < 256 \<Longrightarrow> ord (char_of n) = n"
  by (simp add: ord_def)

lemma hex_val_upper_hex: "n < 16 \<Longrightarrow> hex_val (upper_hex n) = Some n"
  by (auto simp: hex_val_def upper_hex_def ord_char_of)

lemma upper_hex_not_percent: "n < 16 \<Longrightarrow> ord (upper_hex n) \<in> {48..57} \<union> {65..70}"
  by (auto simp: upper_hex_def ord_char_of)

lemma percent_decode_literal: "c \<noteq> CHR ''%'' \<Longrightarrow> percent_decode (c # s) = c # percent_decode s"
  by (cases s rule: percent_decode.cases; simp)

lemma percent_decode_escaped:
  "h < 16 \<Longrightarrow> l < 16 \<Longrightarrow>
   percent_decode (CHR ''%'' # upper_hex h # upper_hex l # s) = char_of (16 * h + l) # percent_decode s"
  by (simp add: hex_val_upper_hex)

lemma percent_decode_byte:
  "escape (CHR ''%'') \<Longrightarrow> percent_decode (percent_byte escape c @ s) = c # percent_decode s"
proof (cases "ord c \<ge> 128 \<or> escape c")
  case True
  have "ord c div 16 < 16" using ord_less_256 [of c] by (simp add: less_mult_imp_div_less)
  then have "percent_decode (percent_byte escape c @ s) = char_of (16 * (ord c div 16) + ord c mod 16) # percent_decode s"
    using True percent_decode_escaped [of "ord c div 16" "ord c mod 16" s] by (simp add: percent_byte_def del: percent_decode.simps)
  moreover have "16 * (ord c div 16) + ord c mod 16 = ord c" by simp
  ultimately show ?thesis by (simp add: ord_def)
next
  case False
  moreover assume "escape (CHR ''%'')"
  ultimately show ?thesis by (auto simp: percent_byte_def intro!: percent_decode_literal)
qed

lemma percent_roundtrip: "escape (CHR ''%'') \<Longrightarrow> percent_decode (percent_encode escape s) = s"
  by (induction s) (simp_all add: percent_encode_def percent_decode_byte)

lemma percent_encode_clean:
  assumes "escape d" "ord d \<notin> {37} \<union> {48..57} \<union> {65..70}"
  shows "d \<notin> set (percent_encode escape s)"
proof -
  have "d \<notin> set (percent_byte escape c)" for c
    using assms upper_hex_not_percent [of "ord c div 16"] upper_hex_not_percent [of "ord c mod 16"]
      ord_less_256 [of c]
    by (auto simp: percent_byte_def less_mult_imp_div_less ord_def split: if_splits)
  then show ?thesis by (auto simp: percent_encode_def)
qed

lemma query_set_escapes: "QUERY_ENCODE_SET (CHR ''%'')" "QUERY_ENCODE_SET (CHR ''&'')" "QUERY_ENCODE_SET (CHR ''='')"
    "QUERY_ENCODE_SET (CHR ''#'')"
  by (simp_all add: QUERY_ENCODE_SET_def in_str_def)

lemma query_component_clean:
  "CHR ''&'' \<notin> set (percent_encode QUERY_ENCODE_SET s)" "CHR ''='' \<notin> set (percent_encode QUERY_ENCODE_SET s)"
  "CHR ''#'' \<notin> set (percent_encode QUERY_ENCODE_SET s)"
  by (rule percent_encode_clean; simp add: query_set_escapes ord_def)+

lemma split_once_append: "c \<notin> set a \<Longrightarrow> split_once c (a @ c # b) = Some (a, b)"
  by (induction a) auto

lemma split_once_None: "split_once c s = None \<longleftrightarrow> c \<notin> set s"
  by (induction s) auto

lemma split_once_Some: "split_once c s = Some (a, b) \<Longrightarrow> s = a @ c # b \<and> c \<notin> set a"
  by (induction s arbitrary: a) (auto split: if_splits)

lemma split_str_append:
  "split_str [c] (s @ c # t) = split_str [c] s @ split_str [c] t"
proof (induction s)
  case Nil
  show ?case by (subst split_str.simps) (simp add: split_str.simps [of _ "[]"])
next
  case (Cons d s)
  then show ?case
    by (subst split_str.simps, subst (2) split_str.simps) (auto split: list.splits)
qed

text \<open>A fragment in the base hides every appended parameter: the text is put behind it, and a server
  never sees a fragment.\<close>

lemma fragment_hides_appended:
  assumes "CHR ''#'' \<in> set base_url"
  shows "query_pairs (append_query pe base_url params) = query_pairs base_url"
  using assms by (simp add: query_pairs_def append_query_def Let_def takeWhile_append1)

lemma query_pairs_append:
  assumes "percent_law pe" "params \<noteq> []" "CHR ''#'' \<notin> set base_url"
  shows "query_pairs (append_query pe base_url params) = query_pairs base_url @ params"
proof -
  have comp: "query_component pe p = percent_encode QUERY_ENCODE_SET (fst p) @ CHR ''='' # percent_encode QUERY_ENCODE_SET (snd p)" for p
    using assms(1) by (cases p) (simp add: query_component_def percent_law_def)
  have pair: "query_pair (query_component pe p) = p" for p
    by (simp add: comp query_pair_def split_once_append query_component_clean percent_roundtrip query_set_escapes)
  have split: "map query_pair (split_str ''&'' (join_str ''&'' (map (query_component pe) params))) = params"
    using assms(2) pair
    by (subst split_join_str [where c = "CHR ''&''"]) (auto simp: comp query_component_clean comp_def)
  have "CHR ''#'' \<notin> set (query_component pe q)" for q
    by (simp add: comp query_component_clean)
  then have "CHR ''#'' \<notin> set (join_str ''&'' (map (query_component pe) params))"
  proof (induction params)
    case (Cons q qs)
    then show ?case by (cases qs) (auto simp: join_str_Cons)
  qed simp
  then have whole: "takeWhile (\<lambda>c. c \<noteq> CHR ''#'') (append_query pe base_url params) = append_query pe base_url params"
    "takeWhile (\<lambda>c. c \<noteq> CHR ''#'') base_url = base_url"
    using assms(3) by (auto simp: append_query_def Let_def takeWhile_eq_all_conv)
  show ?thesis
  proof (cases "CHR ''?'' \<in> set base_url")
    case False
    then have "split_once (CHR ''?'') base_url = None" by (simp add: split_once_None)
    with False split show ?thesis
      by (simp add: query_pairs_def whole) (simp add: append_query_def in_str_def split_once_append)
  next
    case True
    then obtain a b where ab: "split_once (CHR ''?'') base_url = Some (a, b)"
      by (metis split_once_None not_None_eq surj_pair)
    then have "base_url = a @ CHR ''?'' # b" "CHR ''?'' \<notin> set a" by (auto dest: split_once_Some)
    then have "split_once (CHR ''?'') (append_query pe base_url params) =
        Some (a, b @ CHR ''&'' # join_str ''&'' (map (query_component pe) params))"
      using split_once_append [of "CHR ''?''" a] by (simp add: append_query_def in_str_def)
    with ab split show ?thesis by (simp add: query_pairs_def whole split_str_append)
  qed
qed

text \<open>Building an authorization URL is injection-free. Whatever the parameter values contain, a
  server that splits the query of the resulting URL reads the parameters the endpoint (which, as
  RFC 6749 requires, has no fragment) already had, followed by exactly the given ones, in order and unchanged: no value can add, end or rename a
  parameter.\<close>

theorem append_query_roundtrip:
  assumes "percent_law pe" "params \<noteq> []" "CHR ''#'' \<notin> set base_url"
  shows "query_pairs (append_query pe base_url params) = query_pairs base_url @ params"
  using query_pairs_append [OF assms] .

lemma percent_encode_law: "percent_law percent_encode"
  by (simp add: percent_law_def)

theorem append_query_roundtrip_witness:
  "query_pairs (append_query percent_encode ''https://idp/a?tenant=x'' [(''scope'', ''a&state=b#''), (''state'', ''%26'')]) =
   [(''tenant'', ''x''), (''scope'', ''a&state=b#''), (''state'', ''%26'')]"
proof -
  have "query_pairs ''https://idp/a?tenant=x'' = [(''tenant'', ''x'')]" by code_simp
  with append_query_roundtrip [OF percent_encode_law, of "[(''scope'', ''a&state=b#''), (''state'', ''%26'')]" "''https://idp/a?tenant=x''"]
  show ?thesis by simp
qed

text \<open>An endpoint that passes the reserved-parameter check has none of them in its query.\<close>

definition decode_law :: "(string \<Rightarrow> string) \<Rightarrow> bool" where
  "decode_law pd \<longleftrightarrow> (\<forall>s. percent_decode s \<in> set RESERVED \<longrightarrow> pd s = percent_decode s)"

lemma no_reserved_parameters:
  assumes "decode_law pd" "ensure_no_reserved_authorization_parameters pd endpoint = Inr ()" "CHR ''#'' \<notin> set endpoint"
    and "(k, v) \<in> set (query_pairs endpoint)"
  shows "k \<notin> set RESERVED"
proof
  assume k: "k \<in> set RESERVED"
  have whole: "takeWhile (\<lambda>c. c \<noteq> CHR ''#'') endpoint = endpoint" using assms(3) by (auto simp: takeWhile_eq_all_conv)
  from assms(4) obtain a q pair where q: "split_once (CHR ''?'') endpoint = Some (a, q)"
    and pair: "pair \<in> set (split_str ''&'' q)" "(k, v) = query_pair pair"
    by (cases "split_once (CHR ''?'') endpoint") (auto simp: query_pairs_def whole)
  from split_once_Some [OF q] assms(3) have "split_str ''#'' q = [q]" by (intro split_str_single) auto
  with assms(2) q pair(1) have "pd (encoded_key pair) \<notin> set RESERVED"
    by (auto simp: ensure_no_reserved_authorization_parameters_def list_ex_iff split: if_splits)
  moreover have "percent_decode (encoded_key pair) = k"
    using pair(2) by (auto simp: query_pair_def encoded_key_def split: option.splits)
  ultimately show False using k assms(1) by (auto simp: decode_law_def)
qed

end
