(* ===== verification/Client_Auth.thy ===== *)
theory Client_Auth
  imports Jwt Async Url
begin

text \<open>
  Client authentication at the token endpoint (\<open>src/client_auth.rs\<close>), shared by the OIDC and the
  OAuth 2.0 provider. Key parsing, signing, base64 and percent encoding belong to third-party
  crates and are the fields of \<open>client_lib\<close>.
\<close>

definition MAX_CLIENT_JWT_LIFETIME_SECONDS :: int where "MAX_CLIENT_JWT_LIFETIME_SECONDS = 15777000"
definition DEFAULT_CLIENT_JWT_ISSUED_AT_SKEW_SECONDS :: int where "DEFAULT_CLIENT_JWT_ISSUED_AT_SKEW_SECONDS = 30"
definition MAX_CLIENT_JWT_ISSUED_AT_SKEW_SECONDS :: int where "MAX_CLIENT_JWT_ISSUED_AT_SKEW_SECONDS = 300"

definition default_issued_at_skew :: duration where
  "default_issued_at_skew = seconds DEFAULT_CLIENT_JWT_ISSUED_AT_SKEW_SECONDS"

definition CLIENT_ASSERTION_TYPE_JWT_BEARER :: string where
  "CLIENT_ASSERTION_TYPE_JWT_BEARER = ''urn:ietf:params:oauth:client-assertion-type:jwt-bearer''"

definition FORM_COMPONENT_ENCODE_SET :: "char \<Rightarrow> bool" where
  "FORM_COMPONENT_ENCODE_SET c \<longleftrightarrow> \<not> is_ascii_alphanumeric c \<and> \<not> in_str ''-._~'' c"

datatype TokenEndpointAuthMethod = ClientSecretPost | ClientSecretBasic | PrivateKeyJwt

datatype ClientJwtAlgorithm = ClientES256 | ClientES384 | ClientRS256 | ClientPS256

fun jwt_algorithm :: "ClientJwtAlgorithm \<Rightarrow> Algorithm" where
  "jwt_algorithm ClientES256 = ES256"
| "jwt_algorithm ClientES384 = ES384"
| "jwt_algorithm ClientRS256 = RS256"
| "jwt_algorithm ClientPS256 = PS256"

record ClientJwtClaims =
  cj_key_id :: "string option"
  cj_issuer :: string
  cj_subject :: string
  cj_audience :: "string option"
  cj_lifetime :: duration
  cj_issued_at_skew :: duration

definition ClientJwtClaims_new :: "string \<Rightarrow> string \<Rightarrow> ClientJwtClaims" where
  "ClientJwtClaims_new issuer subject =
     \<lparr> cj_key_id = None, cj_issuer = issuer, cj_subject = subject, cj_audience = None,
       cj_lifetime = seconds (5 * 60), cj_issued_at_skew = default_issued_at_skew \<rparr>"

definition client_with_key_id :: "string \<Rightarrow> ClientJwtClaims \<Rightarrow> ClientJwtClaims" where
  "client_with_key_id key_id c = c \<lparr> cj_key_id := Some key_id \<rparr>"

definition client_with_audience :: "string \<Rightarrow> ClientJwtClaims \<Rightarrow> ClientJwtClaims" where
  "client_with_audience audience c = c \<lparr> cj_audience := Some audience \<rparr>"

definition with_lifetime :: "duration \<Rightarrow> ClientJwtClaims \<Rightarrow> ClientJwtClaims" where
  "with_lifetime lifetime c = c \<lparr> cj_lifetime := lifetime \<rparr>"

definition with_issued_at_skew :: "duration \<Rightarrow> ClientJwtClaims \<Rightarrow> ClientJwtClaims" where
  "with_issued_at_skew skew c = c \<lparr> cj_issued_at_skew := skew \<rparr>"

definition client_claims_validate :: "ClientJwtClaims \<Rightarrow> unit AuthResult" where
  "client_claims_validate c =
     (if blank (cj_issuer c) \<or> blank (cj_subject c)
      then Inl (InvalidConfiguration ''client JWT issuer and subject must not be empty'')
      else if is_some_and blank (cj_key_id c)
      then Inl (InvalidConfiguration ''client JWT key_id must not be empty when set'')
      else if is_some_and blank (cj_audience c)
      then Inl (InvalidConfiguration ''client JWT audience must not be empty when set'')
      else let lifetime = whole_seconds (cj_lifetime c); skew = cj_issued_at_skew c in
      if \<not> (1 \<le> lifetime \<and> lifetime \<le> MAX_CLIENT_JWT_LIFETIME_SECONDS)
      then Inl (InvalidConfiguration
        ''client JWT lifetime must be at least one second and at most the supported maximum'')
      else if skew < 0 \<or> skew > seconds MAX_CLIENT_JWT_ISSUED_AT_SKEW_SECONDS
      then Inl (InvalidConfiguration ''client JWT issued_at_skew must be between zero and the supported maximum'')
      else if lifetime - whole_seconds skew < 1
      then Inl (InvalidConfiguration ''client JWT lifetime must exceed issued_at_skew by at least one second'')
      else Inr ())"

record ClientJwtPayload =
  cp_iss :: string
  cp_sub :: string
  cp_aud :: string
  cp_iat :: int
  cp_exp :: int
  cp_jti :: "string option"

record client_lib =
  cl_codec :: "ClientJwtPayload jwt_codec"
  cl_from_ec_pem :: "string \<Rightarrow> EncodingKey option"
  cl_from_rsa_pem :: "string \<Rightarrow> EncodingKey option"
  cl_base64 :: "string \<Rightarrow> string"
  cl_percent_encode :: "(char \<Rightarrow> bool) \<Rightarrow> string \<Rightarrow> string"

record ClientJwtSigner =
  sn_algorithm :: ClientJwtAlgorithm
  sn_key :: EncodingKey
  sn_claims :: ClientJwtClaims

text \<open>Minting a JWT; \<open>jti\<close> is the random identifier when one is requested.\<close>

definition client_times :: "ext \<Rightarrow> ClientJwtClaims \<Rightarrow> time \<Rightarrow> (int \<times> int) AuthResult" where
  "client_times E c now =
     bind_res (ok_or (TokenCreation ''client JWT iat overflowed'')
       (checked_i64 (unix_timestamp E now - whole_seconds (cj_issued_at_skew c)))) (\<lambda>iat.
     bind_res (ok_or (TokenCreation ''client JWT expiry overflowed'')
       (checked_i64 (iat + whole_seconds (cj_lifetime c)))) (\<lambda>exp.
       Inr (iat, exp)))"

definition client_payload :: "ext \<Rightarrow> ClientJwtClaims \<Rightarrow> time \<Rightarrow> string \<Rightarrow> string option \<Rightarrow> ClientJwtPayload AuthResult" where
  "client_payload E c now default_audience jti =
     bind_res (client_times E c now) (\<lambda>(iat, exp).
       Inr \<lparr> cp_iss = cj_issuer c, cp_sub = cj_subject c,
             cp_aud = (case cj_audience c of Some a \<Rightarrow> a | None \<Rightarrow> default_audience),
             cp_iat = iat, cp_exp = exp, cp_jti = jti \<rparr>)"

definition sign :: "ext \<Rightarrow> client_lib \<Rightarrow> ClientJwtSigner \<Rightarrow> time \<Rightarrow> string \<Rightarrow> string option \<Rightarrow> string AuthResult" where
  "sign E L s now default_audience jti =
     bind_res (client_payload E (sn_claims s) now default_audience jti) (\<lambda>payload.
       map_err (\<lambda>_. TokenCreation ''client JWT signing failed'')
         (jwt_encode (cl_codec L)
           ((Header_new (jwt_algorithm (sn_algorithm s))) \<lparr> hd_kid := cj_key_id (sn_claims s) \<rparr>)
           payload (sn_key s)))"

definition ClientJwtSigner_from_pem ::
  "ext \<Rightarrow> client_lib \<Rightarrow> ClientJwtAlgorithm \<Rightarrow> string \<Rightarrow> ClientJwtClaims \<Rightarrow> ClientJwtSigner AuthResult" where
  "ClientJwtSigner_from_pem E L algorithm private_key_pem claims =
     bind_res (client_claims_validate claims) (\<lambda>_.
     bind_res (ok_or (InvalidConfiguration ''client JWT private key is not a valid PEM key for the algorithm'')
       (if algorithm = ClientES256 \<or> algorithm = ClientES384
        then cl_from_ec_pem L private_key_pem else cl_from_rsa_pem L private_key_pem)) (\<lambda>key.
     let signer = \<lparr> sn_algorithm = algorithm, sn_key = key, sn_claims = claims \<rparr> in
     bind_res (map_err (\<lambda>_. InvalidConfiguration ''client JWT private key does not match the algorithm'')
       (sign E L signer 0 ''probe'' None)) (\<lambda>_.
       Inr signer)))"

definition validate_client_authentication ::
  "string \<Rightarrow> TokenEndpointAuthMethod \<Rightarrow> string option \<Rightarrow> ClientJwtSigner option \<Rightarrow> unit AuthResult" where
  "validate_client_authentication prefix_text auth_method client_secret client_jwt =
     (if client_secret \<noteq> None \<and> client_jwt \<noteq> None
      then Inl (InvalidConfiguration (prefix_text @ '' must not configure both client_secret and client_jwt''))
      else case auth_method of
        ClientSecretPost \<Rightarrow> Inr ()
      | ClientSecretBasic \<Rightarrow>
          if client_secret = None \<and> client_jwt = None
          then Inl (InvalidConfiguration (prefix_text @ '' client_secret_basic requires client_secret or client_jwt''))
          else Inr ()
      | PrivateKeyJwt \<Rightarrow>
          if client_jwt = None
          then Inl (InvalidConfiguration (prefix_text @ '' private_key_jwt requires client_jwt''))
          else Inr ())"

record ClientAuthentication =
  cn_headers :: "(string \<times> string) list"
  cn_form :: "(string \<times> string) list"

definition basic_credentials :: "client_lib \<Rightarrow> string \<Rightarrow> string \<Rightarrow> string" where
  "basic_credentials L client_id secret =
     cl_percent_encode L FORM_COMPONENT_ENCODE_SET client_id @ '':'' @
     cl_percent_encode L FORM_COMPONENT_ENCODE_SET secret"

text \<open>Random bytes are drawn only when an identifier is requested, after the timestamps.\<close>

definition sign_with_jti ::
  "ext \<Rightarrow> client_lib \<Rightarrow> 'st host \<Rightarrow> ClientJwtSigner \<Rightarrow> time \<Rightarrow> string \<Rightarrow> ('st, string) action" where
  "sign_with_jti E L H s now default_audience =
     bind (lift_res (client_times E (sn_claims s) now)) (\<lambda>_.
     bind (random_bytes H) (\<lambda>rnd.
       lift_res (sign E L s now default_audience (Some (base64url_encode E rnd)))))"

definition client_authentication ::
  "ext \<Rightarrow> client_lib \<Rightarrow> 'st host \<Rightarrow> TokenEndpointAuthMethod \<Rightarrow> string \<Rightarrow> string option \<Rightarrow> ClientJwtSigner option \<Rightarrow>
   string \<Rightarrow> time \<Rightarrow> ('st, ClientAuthentication) action" where
  "client_authentication E L H auth_method client_id client_secret client_jwt token_endpoint now =
     bind (case (auth_method, client_secret, client_jwt) of
             (PrivateKeyJwt, _, _) \<Rightarrow> ret None
           | (_, Some secret, _) \<Rightarrow> ret (Some secret)
           | (_, None, Some signer) \<Rightarrow>
               bind (lift_res (sign E L signer now token_endpoint None)) (\<lambda>s. ret (Some s))
           | (_, None, None) \<Rightarrow> ret None) (\<lambda>secret.
     case auth_method of
       ClientSecretPost \<Rightarrow>
         ret \<lparr> cn_headers = [],
               cn_form = (''client_id'', client_id) #
                 (case secret of Some s \<Rightarrow> [(''client_secret'', s)] | None \<Rightarrow> []) \<rparr>
     | ClientSecretBasic \<Rightarrow>
         bind (lift_res (ok_or (InvalidConfiguration ''client_secret_basic requires a client secret'') secret)) (\<lambda>s.
           ret \<lparr> cn_headers = [(''Authorization'', ''Basic '' @ cl_base64 L (basic_credentials L client_id s))],
                 cn_form = [] \<rparr>)
     | PrivateKeyJwt \<Rightarrow>
         bind (lift_res (ok_or (InvalidConfiguration ''private_key_jwt requires client_jwt'') client_jwt)) (\<lambda>signer.
         bind (sign_with_jti E L H signer now token_endpoint) (\<lambda>assertion.
           ret \<lparr> cn_headers = [],
                 cn_form = [(''client_id'', client_id),
                            (''client_assertion_type'', CLIENT_ASSERTION_TYPE_JWT_BEARER),
                            (''client_assertion'', assertion)] \<rparr>)))"

section \<open>Lifetimes\<close>

lemma client_claims_validate_iff:
  "client_claims_validate c = Inr () \<longleftrightarrow>
     \<not> blank (cj_issuer c) \<and> \<not> blank (cj_subject c) \<and> \<not> is_some_and blank (cj_key_id c) \<and>
     \<not> is_some_and blank (cj_audience c) \<and> 1 \<le> whole_seconds (cj_lifetime c) \<and>
     whole_seconds (cj_lifetime c) \<le> MAX_CLIENT_JWT_LIFETIME_SECONDS \<and>
     0 \<le> cj_issued_at_skew c \<and> cj_issued_at_skew c \<le> seconds MAX_CLIENT_JWT_ISSUED_AT_SKEW_SECONDS \<and>
     1 \<le> whole_seconds (cj_lifetime c) - whole_seconds (cj_issued_at_skew c)"
  by (auto simp: client_claims_validate_def Let_def)

lemma whole_seconds_bounds:
  "0 \<le> d \<Longrightarrow> d \<le> seconds n \<Longrightarrow> 0 \<le> whole_seconds d \<and> whole_seconds d \<le> n"
  using zdiv_mono1 [of d "n * 1000000000" 1000000000]
  by (simp add: whole_seconds_def seconds_def pos_imp_zdiv_nonneg_iff)

lemma in_time_range_timestamp:
  assumes "in_time_range t"
  shows "- 377705116800 \<le> t div seconds 1" "t div seconds 1 \<le> 253402300800"
  using assms by (simp_all add: in_time_range_def MIN_TIME_def MAX_TIME_def seconds_def) linarith+

lemma client_times_ok:
  assumes "client_claims_validate c = Inr ()" "time_laws E" "in_time_range now"
  shows "client_times E c now =
    Inr (unix_timestamp E now - whole_seconds (cj_issued_at_skew c),
         unix_timestamp E now - whole_seconds (cj_issued_at_skew c) + whole_seconds (cj_lifetime c))"
proof -
  have "unix_timestamp E now = now div seconds 1" using assms(2) by (simp add: time_laws_def)
  moreover have "0 \<le> whole_seconds (cj_issued_at_skew c)" "whole_seconds (cj_issued_at_skew c) \<le> 300"
    using assms(1) whole_seconds_bounds [of "cj_issued_at_skew c" 300]
    by (auto simp: client_claims_validate_iff MAX_CLIENT_JWT_ISSUED_AT_SKEW_SECONDS_def)
  moreover have "1 \<le> whole_seconds (cj_lifetime c)" "whole_seconds (cj_lifetime c) \<le> 15777000"
    using assms(1) by (auto simp: client_claims_validate_iff MAX_CLIENT_JWT_LIFETIME_SECONDS_def)
  ultimately show ?thesis using in_time_range_timestamp [OF assms(3)]
    by (simp add: client_times_def checked_i64_def is_i64_def I64_MIN_def I64_MAX_def ok_or_def)
qed

lemma from_pem_Inr:
  "ClientJwtSigner_from_pem E L algorithm pem claims = Inr s \<Longrightarrow>
     client_claims_validate claims = Inr () \<and> sn_claims s = claims \<and> sn_algorithm s = algorithm"
  by (auto simp: ClientJwtSigner_from_pem_def bind_res_Inr_iff Let_def)

text \<open>C39: A client JWT never outlives its template. A signer built from a key and a claim template
  mints, at any representable instant, a payload (no overflow is possible) that was issued at or
  before that instant, is still valid for at least one second, and whose lifetime is that of the
  template and at most the supported maximum; its issuer and subject are those of the template and
  its audience is the fixed one or the token endpoint.\<close>

theorem client_jwt_times:
  assumes "ClientJwtSigner_from_pem E L algorithm pem claims = Inr s" "time_laws E" "in_time_range now"
  shows "\<exists>p. client_payload E (sn_claims s) now token_endpoint jti = Inr p \<and>
    cp_iat p \<le> unix_timestamp E now \<and> unix_timestamp E now < cp_exp p \<and>
    cp_exp p - cp_iat p = whole_seconds (cj_lifetime claims) \<and>
    cp_exp p - cp_iat p \<le> MAX_CLIENT_JWT_LIFETIME_SECONDS \<and>
    cp_iss p = cj_issuer claims \<and> cp_sub p = cj_subject claims \<and>
    cp_aud p = (case cj_audience claims of Some a \<Rightarrow> a | None \<Rightarrow> token_endpoint)"
proof -
  from from_pem_Inr [OF assms(1)] have valid: "client_claims_validate claims = Inr ()" "sn_claims s = claims"
    by simp_all
  then have "0 \<le> whole_seconds (cj_issued_at_skew claims)"
    using whole_seconds_bounds [of "cj_issued_at_skew claims" MAX_CLIENT_JWT_ISSUED_AT_SKEW_SECONDS]
    by (simp add: client_claims_validate_iff)
  with valid client_times_ok [OF valid(1) assms(2,3)] show ?thesis
    by (auto simp: client_payload_def client_claims_validate_iff)
qed

text \<open>The credentials of a basic header determine client and secret.\<close>

lemma basic_credentials_unambiguous:
  assumes "percent_law (cl_percent_encode L)"
  shows "map_option (\<lambda>(a, b). (percent_decode a, percent_decode b))
           (split_once (CHR '':'') (basic_credentials L client_id secret)) = Some (client_id, secret)"
proof -
  have esc: "FORM_COMPONENT_ENCODE_SET (CHR ''%'')" "FORM_COMPONENT_ENCODE_SET (CHR '':'')"
    by (simp_all add: FORM_COMPONENT_ENCODE_SET_def is_ascii_alphanumeric_def is_ascii_digit_def
        is_ascii_upper_def is_ascii_lower_def ord_def in_str_def)
  then have "CHR '':'' \<notin> set (percent_encode FORM_COMPONENT_ENCODE_SET client_id)"
    by (intro percent_encode_clean) (auto simp: ord_def)
  with assms esc show ?thesis
    by (simp add: basic_credentials_def percent_law_def split_once_append percent_roundtrip)
qed

text \<open>With \<open>private_key_jwt\<close> neither header nor form carries the client secret, whatever is configured.\<close>

lemma assertion_hides_secret:
  "client_authentication E L H PrivateKeyJwt client_id secret signer endpoint now w = (Inr a, w') \<Longrightarrow>
     cn_headers a = [] \<and> map fst (cn_form a) = [''client_id'', ''client_assertion_type'', ''client_assertion'']"
  by (auto simp: client_authentication_def action_simps)

definition demo_client_lib :: client_lib where
  "demo_client_lib = \<lparr> cl_codec = table_codec (\<lambda>_ _. True) cp_iss (\<lambda>c. JString (cp_aud c)) cp_exp
       [(''jwt'', Header_new ES256,
         \<lparr> cp_iss = ''team'', cp_sub = ''client'', cp_aud = ''probe'', cp_iat = - 30, cp_exp = 270, cp_jti = None \<rparr>,
         EncodingEcPem ''k'')],
     cl_from_ec_pem = (\<lambda>pem. Some (EncodingEcPem pem)), cl_from_rsa_pem = (\<lambda>_. None),
     cl_base64 = id, cl_percent_encode = percent_encode \<rparr>"

definition demo_signer :: ClientJwtSigner where
  "demo_signer = \<lparr> sn_algorithm = ClientES256, sn_key = EncodingEcPem ''k'',
     sn_claims = ClientJwtClaims_new ''team'' ''client'' \<rparr>"

lemma demo_signer_built:
  "ClientJwtSigner_from_pem std_ext demo_client_lib ClientES256 ''k'' (ClientJwtClaims_new ''team'' ''client'') = Inr demo_signer"
  by code_simp

theorem client_jwt_times_witness:
  "\<exists>p. client_payload std_ext (sn_claims demo_signer) (seconds 1000) ''https://idp/token'' None = Inr p \<and>
     cp_iat p \<le> 1000 \<and> 1000 < cp_exp p \<and> cp_exp p - cp_iat p = 300"
proof -
  have "in_time_range (seconds 1000)" "unix_timestamp std_ext (seconds 1000) = 1000"
    "whole_seconds (cj_lifetime (ClientJwtClaims_new ''team'' ''client'')) = 300" by code_simp+
  with client_jwt_times [OF demo_signer_built std_ext_time_laws, of "seconds 1000" "''https://idp/token''" None]
  show ?thesis by auto
qed

end
