(* ===== verification/Oidc_Policy.thy ===== *)
theory Oidc_Policy
  imports Errors
begin

text \<open>
  Typed OIDC authorization options and the normalized policy bound to the OAuth state
  (\<open>src/oidc_authorization.rs\<close>). Serializing a JSON value is the argument \<open>ser\<close>
  (\<open>serde_json::to_string\<close>, \<open>None\<close> for its error).
\<close>

section \<open>Options and policies\<close>

definition MAX_OIDC_MAX_AGE_SECONDS :: u64 where "MAX_OIDC_MAX_AGE_SECONDS = 31536000"
definition MAX_OIDC_AUTHORIZATION_VALUES :: nat where "MAX_OIDC_AUTHORIZATION_VALUES = 16"
definition MAX_OIDC_AUTHORIZATION_VALUE_LENGTH :: nat where "MAX_OIDC_AUTHORIZATION_VALUE_LENGTH = 256"
definition MAX_OIDC_AUTHORIZATION_TOTAL_VALUE_LENGTH :: nat where
  "MAX_OIDC_AUTHORIZATION_TOTAL_VALUE_LENGTH = 2048"
definition MAX_OIDC_CLAIMS_REQUEST_LENGTH :: nat where "MAX_OIDC_CLAIMS_REQUEST_LENGTH = 4096"

datatype OidcPrompt = PromptNone | PromptLogin | PromptConsent | PromptSelectAccount

fun prompt_as_str :: "OidcPrompt \<Rightarrow> string" where
  "prompt_as_str PromptNone = ''none''"
| "prompt_as_str PromptLogin = ''login''"
| "prompt_as_str PromptConsent = ''consent''"
| "prompt_as_str PromptSelectAccount = ''select_account''"

datatype OidcIdTokenClaimRequest =
    EssentialAuthTime
  | EssentialAcr "string list"
  | EssentialAcrs string

record OidcAuthorizationOptions =
  ao_prompt :: "OidcPrompt list"
  ao_max_age :: "int option"
  ao_acr_values :: "string list"
  ao_id_token_claims :: "OidcIdTokenClaimRequest list"

record OidcAuthorizationPolicy =
  pl_version :: nat
  pl_prompt :: "OidcPrompt list"
  pl_max_age_seconds :: "u64 option"
  pl_acr_values :: "string list"
  pl_essential_auth_time :: bool
  pl_essential_acr_values :: "string list"
  pl_essential_acrs_value :: "string option"

definition invalid_options :: "string \<Rightarrow> 'a AuthResult" where
  "invalid_options detail = Inl (InvalidOidcAuthorizationOptions detail)"

section \<open>Validation\<close>

fun validate_values_loop :: "string \<Rightarrow> string set \<Rightarrow> nat \<Rightarrow> string list \<Rightarrow> unit AuthResult" where
  "validate_values_loop label seen acc [] = Inr ()"
| "validate_values_loop label seen acc (v # vs) =
     (if v = [] \<or> trim v \<noteq> v \<or> contains_control v \<or> contains_ws v
      then invalid_options (label @ '' contains a blank, control, or noncanonical value'')
      else if length v > MAX_OIDC_AUTHORIZATION_VALUE_LENGTH
      then invalid_options (label @ '' contains an oversized value'')
      else if acc + length v \<ge> 2 ^ 64
      then invalid_options (label @ '' aggregate size overflowed'')
      else if acc + length v > MAX_OIDC_AUTHORIZATION_TOTAL_VALUE_LENGTH
      then invalid_options (label @ '' exceeds the aggregate size limit'')
      else if v \<in> seen
      then invalid_options (label @ '' contains a duplicate value'')
      else validate_values_loop label (insert v seen) (acc + length v) vs)"

definition validate_values :: "string \<Rightarrow> string list \<Rightarrow> bool \<Rightarrow> unit AuthResult" where
  "validate_values label vs require_nonempty =
     (if require_nonempty \<and> vs = [] then invalid_options (label @ '' must contain a value'')
      else if length vs > MAX_OIDC_AUTHORIZATION_VALUES
      then invalid_options (label @ '' contains too many values'')
      else validate_values_loop label {} 0 vs)"

definition validate_acrs :: "string list \<Rightarrow> unit AuthResult" where
  "validate_acrs vs = map_err (\<lambda>e. OidcTokenValidation (to_string e)) (validate_values ''acrs'' vs True)"

definition prompt_parameter :: "OidcAuthorizationPolicy \<Rightarrow> string option" where
  "prompt_parameter p =
     (if pl_prompt p \<noteq> [] then Some (join_str '' '' (map prompt_as_str (pl_prompt p))) else None)"

definition acr_values_parameter :: "OidcAuthorizationPolicy \<Rightarrow> string option" where
  "acr_values_parameter p = (if pl_acr_values p \<noteq> [] then Some (join_str '' '' (pl_acr_values p)) else None)"

text \<open>The entries of the \<open>id_token\<close> member; \<open>serde_json\<close> maps are ordered by key.\<close>

definition id_token_request :: "OidcAuthorizationPolicy \<Rightarrow> (string \<times> JsonValue) list" where
  "id_token_request p =
     (let m1 = (if pl_essential_auth_time p
                then btm_insert ''auth_time'' (JObject [(''essential'', JBool True)]) [] else []);
          m2 = (if pl_essential_acr_values p \<noteq> []
                then btm_insert ''acr'' (JObject [(''essential'', JBool True),
                       (''values'', JArray (map JString (pl_essential_acr_values p)))]) m1 else m1) in
      case pl_essential_acrs_value p of
        Some v \<Rightarrow> btm_insert ''acrs'' (JObject [(''essential'', JBool True), (''value'', JString v)]) m2
      | None \<Rightarrow> m2)"

definition claims_parameter :: "(JsonValue \<Rightarrow> string option) \<Rightarrow> OidcAuthorizationPolicy \<Rightarrow> string option AuthResult" where
  "claims_parameter ser p =
     (if \<not> pl_essential_auth_time p \<and> pl_essential_acr_values p = [] \<and> pl_essential_acrs_value p = None
      then Inr None
      else case ser (JObject [(''id_token'', JObject (id_token_request p))]) of
        None \<Rightarrow> invalid_options ''claims request could not be serialized''
      | Some serialized \<Rightarrow>
          if length serialized > MAX_OIDC_CLAIMS_REQUEST_LENGTH
          then invalid_options ''claims request exceeds the size limit''
          else Inr (Some serialized))"

definition validate_stored :: "(JsonValue \<Rightarrow> string option) \<Rightarrow> OidcAuthorizationPolicy \<Rightarrow> unit AuthResult" where
  "validate_stored ser p =
     bind_res (if pl_version p = 1 then
                 (if pl_essential_acrs_value p \<noteq> None
                  then invalid_options ''stored version 1 policy contains an acrs requirement'' else Inr ())
               else if pl_version p = 2 then
                 (if pl_essential_acrs_value p = None
                  then invalid_options ''stored version 2 policy is missing its acrs requirement'' else Inr ())
               else invalid_options ''stored authorization policy version is unsupported'') (\<lambda>_.
     if is_some_and (\<lambda>v. v > MAX_OIDC_MAX_AGE_SECONDS) (pl_max_age_seconds p)
     then invalid_options ''stored max_age exceeds the finite limit''
     else if length (pl_prompt p) > MAX_OIDC_AUTHORIZATION_VALUES
     then invalid_options ''stored policy has too many prompt values''
     else if \<not> distinct (pl_prompt p)
     then invalid_options ''stored policy has duplicate prompt values''
     else if PromptNone \<in> set (pl_prompt p) \<and> length (pl_prompt p) \<noteq> 1
     then invalid_options ''stored prompt none has an invalid combination''
     else
     bind_res (validate_values ''stored acr_values'' (pl_acr_values p) False) (\<lambda>_.
     bind_res (validate_values ''stored essential acr'' (pl_essential_acr_values p)
                 (pl_essential_acr_values p \<noteq> [])) (\<lambda>_.
     bind_res (case pl_essential_acrs_value p of
                 Some v \<Rightarrow> validate_values ''stored essential acrs'' [v] True | None \<Rightarrow> Inr ()) (\<lambda>_.
     if pl_acr_values p \<noteq> [] \<and> pl_essential_acr_values p \<noteq> []
     then invalid_options ''stored policy combines voluntary and essential acr requests''
     else bind_res (claims_parameter ser p) (\<lambda>_. Inr ())))))"

section \<open>Normalization\<close>

definition normalize_max_age :: "int option \<Rightarrow> u64 option AuthResult" where
  "normalize_max_age max_age =
     (case max_age of
        None \<Rightarrow> Inr None
      | Some v \<Rightarrow>
          if v < 0 then invalid_options ''max_age must be non-negative''
          else if word_of_int v > MAX_OIDC_MAX_AGE_SECONDS
          then invalid_options ''max_age exceeds the finite limit''
          else Inr (Some (word_of_int v)))"

text \<open>The three variables the claim loop assigns.\<close>

type_synonym essential_claims = "bool \<times> string list \<times> string option"

fun collect_claims :: "essential_claims \<Rightarrow> OidcIdTokenClaimRequest list \<Rightarrow> essential_claims AuthResult" where
  "collect_claims acc [] = Inr acc"
| "collect_claims (auth_time, acr, acrs) (EssentialAuthTime # cs) =
     (if auth_time then invalid_options ''duplicate auth_time claim requirement''
      else collect_claims (True, acr, acrs) cs)"
| "collect_claims (auth_time, acr, acrs) (EssentialAcr vs # cs) =
     (if acr \<noteq> [] then invalid_options ''duplicate acr claim requirement''
      else bind_res (validate_values ''essential acr'' vs True) (\<lambda>_.
        collect_claims (auth_time, vs, acrs) cs))"
| "collect_claims (auth_time, acr, acrs) (EssentialAcrs v # cs) =
     (if acrs \<noteq> None then invalid_options ''duplicate acrs claim requirement''
      else bind_res (validate_values ''essential acrs'' [v] True) (\<lambda>_.
        collect_claims (auth_time, acr, Some v) cs))"

definition OidcAuthorizationPolicy_try_from ::
  "(JsonValue \<Rightarrow> string option) \<Rightarrow> OidcAuthorizationOptions \<Rightarrow> OidcAuthorizationPolicy AuthResult" where
  "OidcAuthorizationPolicy_try_from ser opts =
     (if length (ao_prompt opts) > MAX_OIDC_AUTHORIZATION_VALUES then invalid_options ''too many prompt values''
      else if \<not> distinct (ao_prompt opts) then invalid_options ''duplicate prompt value''
      else if PromptNone \<in> set (ao_prompt opts) \<and> length (ao_prompt opts) \<noteq> 1
      then invalid_options ''prompt none cannot be combined with another prompt''
      else
      bind_res (normalize_max_age (ao_max_age opts)) (\<lambda>max_age_seconds.
      bind_res (validate_values ''acr_values'' (ao_acr_values opts) False) (\<lambda>_.
      bind_res (collect_claims (False, [], None) (ao_id_token_claims opts)) (\<lambda>(auth_time, acr, acrs).
      if ao_acr_values opts \<noteq> [] \<and> acr \<noteq> []
      then invalid_options ''acr_values and an essential acr claim cannot be combined''
      else
        let policy = \<lparr> pl_version = (if acrs \<noteq> None then 2 else 1), pl_prompt = ao_prompt opts,
                       pl_max_age_seconds = max_age_seconds, pl_acr_values = ao_acr_values opts,
                       pl_essential_auth_time = auth_time, pl_essential_acr_values = acr,
                       pl_essential_acrs_value = acrs \<rparr> in
        bind_res (claims_parameter ser policy) (\<lambda>_. Inr policy)))))"

definition options_validate ::
  "(JsonValue \<Rightarrow> string option) \<Rightarrow> OidcAuthorizationOptions \<Rightarrow> OidcAuthorizationPolicy AuthResult" where
  "options_validate ser opts = OidcAuthorizationPolicy_try_from ser opts"

record OidcAuthorizationOutcome =
  oo_policy :: "OidcAuthorizationPolicy option"
  oo_enforced_auth_time :: "time option"
  oo_matched_acr :: "string option"
  oo_matched_acrs :: "string option"

definition is_bound_authorization :: "OidcAuthorizationOutcome \<Rightarrow> bool" where
  "is_bound_authorization oc \<longleftrightarrow> oo_policy oc \<noteq> None"

definition recent_authentication_was_enforced :: "OidcAuthorizationOutcome \<Rightarrow> bool" where
  "recent_authentication_was_enforced oc \<longleftrightarrow> oo_enforced_auth_time oc \<noteq> None"

definition require_bound_policy :: "OidcAuthorizationOutcome \<Rightarrow> OidcAuthorizationPolicy \<Rightarrow> unit AuthResult" where
  "require_bound_policy oc expected =
     (if oo_policy oc = Some expected then Inr ()
      else Inl (OidcTokenValidation ''callback was not bound to the expected authorization policy''))"

section \<open>What validation accepts\<close>

definition value_ok :: "string \<Rightarrow> bool" where
  "value_ok v \<longleftrightarrow> v \<noteq> [] \<and> trim v = v \<and> \<not> contains_control v \<and> \<not> contains_ws v \<and>
     length v \<le> MAX_OIDC_AUTHORIZATION_VALUE_LENGTH"

definition values_ok :: "string list \<Rightarrow> bool" where
  "values_ok vs \<longleftrightarrow> length vs \<le> MAX_OIDC_AUTHORIZATION_VALUES \<and> list_all value_ok vs \<and> distinct vs \<and>
     sum_list (map length vs) \<le> MAX_OIDC_AUTHORIZATION_TOTAL_VALUE_LENGTH"

lemma validate_values_loop_iff:
  "validate_values_loop label seen acc vs = Inr () \<longleftrightarrow>
     list_all value_ok vs \<and> distinct vs \<and> set vs \<inter> seen = {} \<and>
     (vs \<noteq> [] \<longrightarrow> acc + sum_list (map length vs) \<le> MAX_OIDC_AUTHORIZATION_TOTAL_VALUE_LENGTH)"
  by (induction vs arbitrary: seen acc)
    (auto simp: value_ok_def invalid_options_def MAX_OIDC_AUTHORIZATION_TOTAL_VALUE_LENGTH_def)

lemma validate_values_iff:
  "validate_values label vs req = Inr () \<longleftrightarrow> (req \<longrightarrow> vs \<noteq> []) \<and> values_ok vs"
  by (auto simp: validate_values_def values_ok_def validate_values_loop_iff invalid_options_def)

lemma values_ok_Nil [simp]: "values_ok []"
  by (simp add: values_ok_def)

lemma invalid_options_Inr [simp]: "invalid_options d \<noteq> Inr x"
  by (simp add: invalid_options_def)

definition prompts_ok :: "OidcPrompt list \<Rightarrow> bool" where
  "prompts_ok ps \<longleftrightarrow> length ps \<le> MAX_OIDC_AUTHORIZATION_VALUES \<and> distinct ps \<and>
     (PromptNone \<in> set ps \<longrightarrow> ps = [PromptNone])"

lemma prompts_ok_iff:
  "prompts_ok ps \<longleftrightarrow> \<not> length ps > MAX_OIDC_AUTHORIZATION_VALUES \<and> distinct ps \<and>
     \<not> (PromptNone \<in> set ps \<and> length ps \<noteq> 1)"
  by (auto simp: prompts_ok_def length_Suc_conv)

text \<open>Well-formed policies: the invariant of everything bound to an OAuth state.\<close>

definition policy_wf :: "OidcAuthorizationPolicy \<Rightarrow> bool" where
  "policy_wf p \<longleftrightarrow>
     (pl_version p = (if pl_essential_acrs_value p = None then 1 else 2)) \<and>
     (\<forall>v. pl_max_age_seconds p = Some v \<longrightarrow> v \<le> MAX_OIDC_MAX_AGE_SECONDS) \<and>
     prompts_ok (pl_prompt p) \<and> values_ok (pl_acr_values p) \<and> values_ok (pl_essential_acr_values p) \<and>
     (\<forall>v. pl_essential_acrs_value p = Some v \<longrightarrow> values_ok [v]) \<and>
     (pl_acr_values p = [] \<or> pl_essential_acr_values p = [])"

lemma validate_stored_iff:
  "validate_stored ser p = Inr () \<longleftrightarrow> policy_wf p \<and> is_ok (claims_parameter ser p)"
  by (auto simp: validate_stored_def policy_wf_def prompts_ok_iff validate_values_iff bind_res_unit_Inr
      bind_res_Inr_iff is_ok_def is_some_and_def not_less split: if_splits option.splits sum.splits)

text \<open>The claim loop records each kind of requirement at most once, exactly as requested.\<close>

definition claims_ok :: "essential_claims \<Rightarrow> bool" where
  "claims_ok e \<longleftrightarrow> (case e of (auth_time, acr, acrs) \<Rightarrow>
     values_ok acr \<and> (\<forall>v. acrs = Some v \<longrightarrow> values_ok [v]))"

lemma collect_claims_Inr:
  "collect_claims (t, a, s) cs = Inr (t', a', s') \<Longrightarrow> claims_ok (t, a, s) \<Longrightarrow>
     claims_ok (t', a', s') \<and>
     (t' \<longleftrightarrow> t \<or> EssentialAuthTime \<in> set cs) \<and>
     (\<forall>v. s = Some v \<longrightarrow> s' = Some v) \<and>
     (\<forall>v. EssentialAcrs v \<in> set cs \<longrightarrow> s' = Some v) \<and>
     (\<forall>v. s' = Some v \<longrightarrow> s = Some v \<or> EssentialAcrs v \<in> set cs) \<and>
     (a \<noteq> [] \<longrightarrow> a' = a) \<and> (\<forall>vs. EssentialAcr vs \<in> set cs \<longrightarrow> a' = vs) \<and>
     (a' \<noteq> a \<longrightarrow> EssentialAcr a' \<in> set cs)"
proof (induction "(t, a, s)" cs arbitrary: t a s rule: collect_claims.induct)
  case (2 t a s cs)
  then show ?case by (auto simp: claims_ok_def split: if_splits)
next
  case (3 t a s vs cs)
  then have a: "a = []" and ok: "values_ok vs" "vs \<noteq> []" and rest: "collect_claims (t, vs, s) cs = Inr (t', a', s')"
    by (auto simp: validate_values_iff bind_res_unit_Inr split: if_splits)
  from 3 ok have "claims_ok (t, vs, s)" by (simp add: claims_ok_def)
  from 3(1) [OF _ rest this] a ok show ?case by auto
next
  case (4 t a s v cs)
  then have s: "s = None" and ok: "values_ok [v]" and rest: "collect_claims (t, a, Some v) cs = Inr (t', a', s')"
    by (auto simp: validate_values_iff bind_res_unit_Inr split: if_splits)
  from 4 s ok have "claims_ok (t, a, Some v)" by (simp add: claims_ok_def)
  from 4(1) [OF _ rest this] s show ?case by auto
qed (auto split: option.splits)

lemma uint_u64_of_i64: "0 \<le> v \<Longrightarrow> v \<le> I64_MAX \<Longrightarrow> uint (word_of_int v :: u64) = v"
  by (simp add: uint_word_of_int I64_MAX_def take_bit_int_eq_self_iff)

lemma normalize_max_age_Inr:
  "normalize_max_age m = Inr r \<Longrightarrow> (\<forall>v. m = Some v \<longrightarrow> v \<le> I64_MAX) \<Longrightarrow>
     (\<forall>v. r = Some v \<longrightarrow> v \<le> MAX_OIDC_MAX_AGE_SECONDS) \<and> map_option uint r = m"
  by (auto simp: normalize_max_age_def uint_u64_of_i64 not_less split: option.splits if_splits)

lemma try_from_Inr:
  assumes "OidcAuthorizationPolicy_try_from ser opts = Inr p"
  obtains m t a s where "normalize_max_age (ao_max_age opts) = Inr m"
    "collect_claims (False, [], None) (ao_id_token_claims opts) = Inr (t, a, s)"
    "prompts_ok (ao_prompt opts)" "values_ok (ao_acr_values opts)" "ao_acr_values opts = [] \<or> a = []"
    "is_ok (claims_parameter ser p)"
    "p = \<lparr> pl_version = (if s \<noteq> None then 2 else 1), pl_prompt = ao_prompt opts, pl_max_age_seconds = m,
           pl_acr_values = ao_acr_values opts, pl_essential_auth_time = t, pl_essential_acr_values = a,
           pl_essential_acrs_value = s \<rparr>"
  using assms
  by (auto simp: OidcAuthorizationPolicy_try_from_def bind_res_Inr_iff validate_values_iff prompts_ok_iff is_ok_def
      Let_def not_less split: if_splits prod.splits)

text \<open>C38: Normalizing authorization options gives a well-formed policy that is exactly what was
  requested: prompts, age limit and preferences are those of the options, a requirement is recorded
  if and only if the options contain it, and the stored policy passes the checks the callback applies
  to it, so a request the provider sent is never refused for its own policy.\<close>

theorem authorization_policy_wf:
  assumes "options_validate ser opts = Inr p" "\<forall>v. ao_max_age opts = Some v \<longrightarrow> v \<le> I64_MAX"
  shows "policy_wf p \<and> validate_stored ser p = Inr () \<and>
    pl_prompt p = ao_prompt opts \<and> pl_acr_values p = ao_acr_values opts \<and>
    map_option uint (pl_max_age_seconds p) = ao_max_age opts \<and>
    (pl_essential_auth_time p \<longleftrightarrow> EssentialAuthTime \<in> set (ao_id_token_claims opts)) \<and>
    (\<forall>v. pl_essential_acrs_value p = Some v \<longleftrightarrow> EssentialAcrs v \<in> set (ao_id_token_claims opts)) \<and>
    (\<forall>vs. EssentialAcr vs \<in> set (ao_id_token_claims opts) \<longrightarrow> pl_essential_acr_values p = vs) \<and>
    (pl_essential_acr_values p \<noteq> [] \<longrightarrow> EssentialAcr (pl_essential_acr_values p) \<in> set (ao_id_token_claims opts))"
proof -
  from assms(1) have "OidcAuthorizationPolicy_try_from ser opts = Inr p" by (simp add: options_validate_def)
  then obtain m t a s where max: "normalize_max_age (ao_max_age opts) = Inr m"
    and claims: "collect_claims (False, [], None) (ao_id_token_claims opts) = Inr (t, a, s)"
    and ok: "prompts_ok (ao_prompt opts)" "values_ok (ao_acr_values opts)" "ao_acr_values opts = [] \<or> a = []"
      "is_ok (claims_parameter ser p)"
    and p: "p = \<lparr> pl_version = (if s \<noteq> None then 2 else 1), pl_prompt = ao_prompt opts,
        pl_max_age_seconds = m, pl_acr_values = ao_acr_values opts, pl_essential_auth_time = t,
        pl_essential_acr_values = a, pl_essential_acrs_value = s \<rparr>"
    by (rule try_from_Inr)
  note age = normalize_max_age_Inr [OF max assms(2)]
  have "claims_ok (False, [], None)" by (simp add: claims_ok_def)
  note coll = collect_claims_Inr [OF claims this]
  from coll have cok: "claims_ok (t, a, s)" by (rule conjunct1)
  from coll have req: "t \<longleftrightarrow> EssentialAuthTime \<in> set (ao_id_token_claims opts)"
    "\<forall>v. s = Some v \<longleftrightarrow> EssentialAcrs v \<in> set (ao_id_token_claims opts)"
    "\<forall>vs. EssentialAcr vs \<in> set (ao_id_token_claims opts) \<longrightarrow> a = vs"
    "a \<noteq> [] \<longrightarrow> EssentialAcr a \<in> set (ao_id_token_claims opts)" by blast+
  have wf: "policy_wf p" using ok(1-3) age cok unfolding p by (auto simp: policy_wf_def claims_ok_def)
  show ?thesis
    using age req wf ok(4) unfolding validate_stored_iff
    by (intro conjI) (simp_all only: p OidcAuthorizationPolicy.simps simp_thms)
qed

definition demo_step_up_options :: OidcAuthorizationOptions where
  "demo_step_up_options = \<lparr> ao_prompt = [PromptLogin], ao_max_age = Some 300, ao_acr_values = [],
     ao_id_token_claims = [EssentialAuthTime, EssentialAcrs ''c1''] \<rparr>"

definition demo_step_up_policy :: OidcAuthorizationPolicy where
  "demo_step_up_policy = \<lparr> pl_version = 2, pl_prompt = [PromptLogin], pl_max_age_seconds = Some 300,
     pl_acr_values = [], pl_essential_auth_time = True, pl_essential_acr_values = [],
     pl_essential_acrs_value = Some ''c1'' \<rparr>"

lemma demo_step_up_validates: "options_validate (\<lambda>_. Some ''{}'') demo_step_up_options = Inr demo_step_up_policy"
proof -
  have "value_ok ''c1''" by code_simp
  then have "\<And>label. validate_values label [''c1''] True = Inr ()" "\<And>label. validate_values label [] False = Inr ()"
    by (simp_all add: validate_values_iff values_ok_def MAX_OIDC_AUTHORIZATION_VALUES_def
        MAX_OIDC_AUTHORIZATION_TOTAL_VALUE_LENGTH_def)
  then show ?thesis
    by (simp add: options_validate_def OidcAuthorizationPolicy_try_from_def demo_step_up_options_def
        demo_step_up_policy_def normalize_max_age_def claims_parameter_def MAX_OIDC_AUTHORIZATION_VALUES_def
        MAX_OIDC_MAX_AGE_SECONDS_def MAX_OIDC_CLAIMS_REQUEST_LENGTH_def)
qed

theorem authorization_policy_wf_witness:
  "policy_wf demo_step_up_policy \<and> validate_stored (\<lambda>_. Some ''{}'') demo_step_up_policy = Inr () \<and>
   pl_essential_acrs_value demo_step_up_policy = Some ''c1''"
  using authorization_policy_wf [OF demo_step_up_validates]
  by (simp add: demo_step_up_options_def demo_step_up_policy_def I64_MAX_def)

end
