(* ===== verification/Oidc_Config.thy ===== *)
theory Oidc_Config
  imports Client_Auth Oidc_Policy Models
begin

text \<open>
  Provider configuration (\<open>src/config.rs\<close>: \<open>OidcProviderConfig\<close>, \<open>MicrosoftEntraConfig\<close>) and the
  OIDC data types of \<open>src/models.rs\<close>.
\<close>

section \<open>Configuration\<close>

datatype OidcProviderKind = Generic | MicrosoftEntra

datatype OAuthResponseMode = Query | FormPost

fun response_mode_as_str :: "OAuthResponseMode \<Rightarrow> string" where
  "response_mode_as_str Query = ''query''"
| "response_mode_as_str FormPost = ''form_post''"

definition is_query :: "OAuthResponseMode \<Rightarrow> bool" where
  "is_query m \<longleftrightarrow> m = Query"

record OidcProviderConfig =
  oc_provider_name :: string
  oc_provider_kind :: OidcProviderKind
  oc_discovery_url :: string
  oc_client_id :: string
  oc_client_secret :: "string option"
  oc_redirect_uri :: string
  oc_requested_scopes :: "string list"
  oc_request_offline_access :: bool
  oc_allowed_tenants :: "string list"
  oc_allowed_issuers :: "string list"
  oc_allow_consumer_accounts :: bool
  oc_jwks_cache_ttl :: duration
  oc_discovery_cache_ttl :: duration
  oc_jwks_forced_refresh_cooldown :: duration
  oc_allowed_additional_audiences :: "string list"
  oc_clock_skew :: duration
  oc_state_ttl :: duration
  oc_allowed_id_token_algs :: "string list"
  oc_response_mode :: OAuthResponseMode
  oc_token_endpoint_auth_method :: TokenEndpointAuthMethod
  oc_client_jwt :: "ClientJwtSigner option"

definition OidcProviderConfig_new :: "string \<Rightarrow> string \<Rightarrow> string \<Rightarrow> string \<Rightarrow> OidcProviderConfig" where
  "OidcProviderConfig_new provider_name discovery_url client_id redirect_uri =
     \<lparr> oc_provider_name = provider_name, oc_provider_kind = Generic, oc_discovery_url = discovery_url,
       oc_client_id = client_id, oc_client_secret = None, oc_redirect_uri = redirect_uri,
       oc_requested_scopes = [''openid'', ''profile'', ''email''], oc_request_offline_access = False,
       oc_allowed_tenants = [], oc_allowed_issuers = [], oc_allow_consumer_accounts = False,
       oc_jwks_cache_ttl = seconds 3600, oc_discovery_cache_ttl = seconds 3600,
       oc_jwks_forced_refresh_cooldown = seconds 60, oc_allowed_additional_audiences = [],
       oc_clock_skew = seconds 60, oc_state_ttl = seconds 600, oc_allowed_id_token_algs = [''RS256''],
       oc_response_mode = Query, oc_token_endpoint_auth_method = ClientSecretPost,
       oc_client_jwt = None \<rparr>"

definition oidc_config_validate :: "OidcProviderConfig \<Rightarrow> unit AuthResult" where
  "oidc_config_validate c =
     (if blank (oc_provider_name c) then Inl (InvalidConfiguration ''OIDC provider_name must not be empty'')
      else if blank (oc_discovery_url c) then Inl (InvalidConfiguration ''OIDC discovery_url must not be empty'')
      else if blank (oc_client_id c) then Inl (InvalidConfiguration ''OIDC client_id must not be empty'')
      else if blank (oc_redirect_uri c) then Inl (InvalidConfiguration ''OIDC redirect_uri must not be empty'')
      else if \<not> list_ex (\<lambda>scope. scope = ''openid'') (oc_requested_scopes c)
      then Inl (InvalidConfiguration ''OIDC requested_scopes must include openid'')
      else if oc_jwks_cache_ttl c \<le> 0
      then Inl (InvalidConfiguration ''OIDC jwks_cache_ttl must be greater than zero'')
      else if oc_discovery_cache_ttl c \<le> 0
      then Inl (InvalidConfiguration ''OIDC discovery_cache_ttl must be greater than zero'')
      else if oc_jwks_forced_refresh_cooldown c < 0
      then Inl (InvalidConfiguration ''OIDC jwks_forced_refresh_cooldown must not be negative'')
      else if list_ex blank (oc_allowed_additional_audiences c)
      then Inl (InvalidConfiguration ''OIDC allowed_additional_audiences must not contain empty values'')
      else if oc_clock_skew c < 0 then Inl (InvalidConfiguration ''OIDC clock_skew must not be negative'')
      else if oc_state_ttl c \<le> 0
      then Inl (InvalidConfiguration ''OIDC state_ttl must be greater than zero'')
      else if oc_allowed_id_token_algs c = []
      then Inl (InvalidConfiguration ''OIDC allowed_id_token_algs must not be empty'')
      else validate_client_authentication ''OIDC'' (oc_token_endpoint_auth_method c) (oc_client_secret c)
             (oc_client_jwt c))"

definition oidc_scopes :: "OidcProviderConfig \<Rightarrow> string list" where
  "oidc_scopes c =
     (if oc_request_offline_access c \<and> \<not> list_ex (\<lambda>scope. scope = ''offline_access'') (oc_requested_scopes c)
      then oc_requested_scopes c @ [''offline_access''] else oc_requested_scopes c)"

datatype MicrosoftEntraTenant = TenantId string | Organizations | Common | Consumers

fun as_path_segment :: "MicrosoftEntraTenant \<Rightarrow> string" where
  "as_path_segment (TenantId tenant_id) = tenant_id"
| "as_path_segment Organizations = ''organizations''"
| "as_path_segment Common = ''common''"
| "as_path_segment Consumers = ''consumers''"

record MicrosoftEntraConfig =
  me_provider_name :: string
  me_tenant :: MicrosoftEntraTenant
  me_client_id :: string
  me_client_secret :: "string option"
  me_redirect_uri :: string
  me_allowed_tenants :: "string list"
  me_allowed_issuers :: "string list"
  me_requested_scopes :: "string list"
  me_request_offline_access :: bool
  me_jwks_cache_ttl :: duration
  me_discovery_cache_ttl :: duration
  me_jwks_forced_refresh_cooldown :: duration
  me_allowed_additional_audiences :: "string list"
  me_clock_skew :: duration
  me_state_ttl :: duration
  me_allow_consumers :: bool

definition microsoft_v2_issuer :: "string \<Rightarrow> string" where
  "microsoft_v2_issuer tenant_id = ''https://login.microsoftonline.com/'' @ tenant_id @ ''/v2.0''"

definition single_tenant :: "string \<Rightarrow> string \<Rightarrow> string \<Rightarrow> MicrosoftEntraConfig" where
  "single_tenant tenant_id client_id redirect_uri =
     \<lparr> me_provider_name = ''microsoft'', me_tenant = TenantId tenant_id, me_client_id = client_id,
       me_client_secret = None, me_redirect_uri = redirect_uri, me_allowed_tenants = [tenant_id],
       me_allowed_issuers = [microsoft_v2_issuer tenant_id],
       me_requested_scopes = [''openid'', ''profile'', ''email''], me_request_offline_access = False,
       me_jwks_cache_ttl = seconds 3600, me_discovery_cache_ttl = seconds 3600,
       me_jwks_forced_refresh_cooldown = seconds 60, me_allowed_additional_audiences = [],
       me_clock_skew = seconds 60, me_state_ttl = seconds 600, me_allow_consumers = False \<rparr>"

definition multi_tenant :: "MicrosoftEntraTenant \<Rightarrow> string \<Rightarrow> string \<Rightarrow> MicrosoftEntraConfig" where
  "multi_tenant tenant client_id redirect_uri =
     \<lparr> me_provider_name = ''microsoft'', me_tenant = tenant, me_client_id = client_id,
       me_client_secret = None, me_redirect_uri = redirect_uri, me_allowed_tenants = [],
       me_allowed_issuers = [''https://login.microsoftonline.com/{tenantid}/v2.0''],
       me_requested_scopes = [''openid'', ''profile'', ''email''], me_request_offline_access = False,
       me_jwks_cache_ttl = seconds 3600, me_discovery_cache_ttl = seconds 3600,
       me_jwks_forced_refresh_cooldown = seconds 60, me_allowed_additional_audiences = [],
       me_clock_skew = seconds 60, me_state_ttl = seconds 600, me_allow_consumers = False \<rparr>"

definition entra_organizations :: "string \<Rightarrow> string \<Rightarrow> MicrosoftEntraConfig" where
  "entra_organizations client_id redirect_uri = multi_tenant Organizations client_id redirect_uri"

definition entra_common :: "string \<Rightarrow> string \<Rightarrow> MicrosoftEntraConfig" where
  "entra_common client_id redirect_uri = multi_tenant Common client_id redirect_uri"

definition entra_consumers :: "string \<Rightarrow> string \<Rightarrow> MicrosoftEntraConfig" where
  "entra_consumers client_id redirect_uri =
     multi_tenant Consumers client_id redirect_uri \<lparr> me_allow_consumers := True \<rparr>"

definition into_oidc_provider_config :: "MicrosoftEntraConfig \<Rightarrow> OidcProviderConfig AuthResult" where
  "into_oidc_provider_config m =
     (if me_tenant m = Consumers \<and> \<not> me_allow_consumers m
      then Inl (InvalidConfiguration ''Microsoft consumers tenant mode must be explicitly enabled'')
      else
        let config = (OidcProviderConfig_new (me_provider_name m)
              (''https://login.microsoftonline.com/'' @ as_path_segment (me_tenant m) @
               ''/v2.0/.well-known/openid-configuration'') (me_client_id m) (me_redirect_uri m))
            \<lparr> oc_provider_kind := MicrosoftEntra, oc_client_secret := me_client_secret m,
              oc_allowed_tenants := me_allowed_tenants m, oc_allowed_issuers := me_allowed_issuers m,
              oc_allow_consumer_accounts := me_allow_consumers m,
              oc_requested_scopes := me_requested_scopes m,
              oc_request_offline_access := me_request_offline_access m,
              oc_jwks_cache_ttl := me_jwks_cache_ttl m, oc_discovery_cache_ttl := me_discovery_cache_ttl m,
              oc_jwks_forced_refresh_cooldown := me_jwks_forced_refresh_cooldown m,
              oc_allowed_additional_audiences := me_allowed_additional_audiences m,
              oc_clock_skew := me_clock_skew m, oc_state_ttl := me_state_ttl m \<rparr> in
        bind_res (oidc_config_validate config) (\<lambda>_. Inr config))"

section \<open>Requests, callbacks and claims\<close>

record OidcAuthorizationRequest =
  aq_authorization_url :: string
  aq_provider_name :: string
  aq_state :: string
  aq_nonce :: string
  aq_code_verifier :: string
  aq_code_challenge :: string
  aq_authorization_policy :: "OidcAuthorizationPolicy option"
  aq_expires_at :: time

record OidcCallbackInput =
  ci_code :: "string option"
  ci_state :: "string option"
  ci_error :: "string option"
  ci_error_description :: "string option"

definition code_and_state :: "string \<Rightarrow> string \<Rightarrow> OidcCallbackInput" where
  "code_and_state code state =
     \<lparr> ci_code = Some code, ci_state = Some state, ci_error = None, ci_error_description = None \<rparr>"

record OidcTokenResponse =
  tr_access_token :: "string option"
  tr_refresh_token :: "string option"
  tr_id_token :: string
  tr_token_type :: "string option"
  tr_expires_in :: "int option"
  tr_scope :: "string option"
  tr_raw :: JsonValue

record ValidatedOidcClaims =
  vc_provider_name :: string
  vc_issuer :: string
  vc_audiences :: "string list"
  vc_subject :: string
  vc_external_subject :: string
  vc_expires_at :: time
  vc_not_before :: "time option"
  vc_issued_at :: time
  vc_auth_time :: "time option"
  vc_amr :: "string list option"
  vc_acr :: "string option"
  vc_acrs :: "string list option"
  vc_nonce :: string
  vc_tenant_id :: "string option"
  vc_object_id :: "string option"
  vc_email :: "string option"
  vc_email_verified :: "bool option"
  vc_name :: "string option"
  vc_preferred_username :: "string option"
  vc_roles :: "string list"
  vc_groups :: "string list"
  vc_raw :: JsonValue

record ExternalIdentity =
  ei_provider_name :: string
  ei_external_subject :: string
  ei_user_id :: string
  ei_issuer :: string
  ei_tenant_id :: "string option"
  ei_provider_user_id :: "string option"
  ei_claims_snapshot :: JsonValue
  ei_created_at :: time
  ei_updated_at :: time

record OAuthLoginState =
  ls_provider_name :: string
  ls_state_hash :: string
  ls_nonce :: string
  ls_code_verifier :: string
  ls_redirect_uri :: string
  ls_scopes :: "string list"
  ls_authorization_policy :: "OidcAuthorizationPolicy option"
  ls_response_mode :: OAuthResponseMode
  ls_created_at :: time
  ls_expires_at :: time
  ls_consumed_at :: "time option"

definition login_state_is_expired :: "OAuthLoginState \<Rightarrow> time \<Rightarrow> bool" where
  "login_state_is_expired s now \<longleftrightarrow> ls_expires_at s \<le> now"

definition login_state_is_consumed :: "OAuthLoginState \<Rightarrow> bool" where
  "login_state_is_consumed s \<longleftrightarrow> ls_consumed_at s \<noteq> None"

record MicrosoftEntraClaims =
  mc_issuer :: string
  mc_audience :: "string list"
  mc_subject :: string
  mc_tenant_id :: string
  mc_object_id :: "string option"
  mc_email :: "string option"
  mc_name :: "string option"
  mc_preferred_username :: "string option"
  mc_roles :: "string list"
  mc_groups :: "string list"

definition MicrosoftEntraClaims_try_from :: "ValidatedOidcClaims \<Rightarrow> MicrosoftEntraClaims AuthResult" where
  "MicrosoftEntraClaims_try_from c =
     bind_res (ok_or (OidcTokenValidation ''Microsoft Entra ID token is missing tid'') (vc_tenant_id c)) (\<lambda>tenant_id.
       Inr \<lparr> mc_issuer = vc_issuer c, mc_audience = vc_audiences c, mc_subject = vc_subject c,
             mc_tenant_id = tenant_id, mc_object_id = vc_object_id c, mc_email = vc_email c,
             mc_name = vc_name c, mc_preferred_username = vc_preferred_username c,
             mc_roles = vc_roles c, mc_groups = vc_groups c \<rparr>)"

end
