(* ===== verification/Oauth_State.thy ===== *)
theory Oauth_State
  imports One_Time Oidc_Config
begin

text \<open>
  The stores of the provider logins: one-time OAuth state and links to external identities
  (\<open>src/stores.rs\<close>), with the in-memory stores of \<open>src/tests/oidc.rs\<close>. The contract of the state
  store is a locale; both providers are its clients.
\<close>

section \<open>The stores\<close>

record 'st OAuthStateStore =
  insert_oauth_state :: "OAuthLoginState \<Rightarrow> 'st \<Rightarrow> unit AuthResult \<times> 'st"
  consume_oauth_state :: "string \<Rightarrow> string \<Rightarrow> time \<Rightarrow> 'st \<Rightarrow> OAuthLoginState option AuthResult \<times> 'st"
  expire_oauth_states :: "time \<Rightarrow> time \<Rightarrow> 'st \<Rightarrow> u64 AuthResult \<times> 'st"

record 'st ExternalIdentityStore =
  find_external_identity :: "string \<Rightarrow> string \<Rightarrow> 'st \<Rightarrow> ExternalIdentity option AuthResult \<times> 'st"
  link_external_identity :: "ExternalIdentity \<Rightarrow> 'st \<Rightarrow> unit AuthResult \<times> 'st"
  update_external_identity_claims_snapshot ::
    "string \<Rightarrow> string \<Rightarrow> JsonValue \<Rightarrow> time \<Rightarrow> 'st \<Rightarrow> unit AuthResult \<times> 'st"

record 'st OAuthTokenStore =
  store_oauth_tokens :: "string \<Rightarrow> string \<Rightarrow> string \<Rightarrow> OidcTokenResponse \<Rightarrow> time \<Rightarrow> 'st \<Rightarrow> unit AuthResult \<times> 'st"

type_synonym MemoryOAuthStateStore = "((string \<times> string) \<times> OAuthLoginState) list"
type_synonym MemoryExternalIdentityStore = "((string \<times> string) \<times> ExternalIdentity) list"

definition memory_insert_oauth_state ::
  "OAuthLoginState \<Rightarrow> MemoryOAuthStateStore \<Rightarrow> unit AuthResult \<times> MemoryOAuthStateStore" where
  "memory_insert_oauth_state state states =
     (Inr (), AList.update (ls_provider_name state, ls_state_hash state) state states)"

definition memory_consume_oauth_state ::
  "string \<Rightarrow> string \<Rightarrow> time \<Rightarrow> MemoryOAuthStateStore \<Rightarrow> OAuthLoginState option AuthResult \<times> MemoryOAuthStateStore" where
  "memory_consume_oauth_state provider_name state_hash consumed_at states =
     (case map_of states (provider_name, state_hash) of
        None \<Rightarrow> (Inr None, states)
      | Some state \<Rightarrow>
          if ls_consumed_at state \<noteq> None then (Inr None, states)
          else (Inr (Some state), AList.update (provider_name, state_hash)
                  (state \<lparr> ls_consumed_at := Some consumed_at \<rparr>) states))"

definition memory_expire_oauth_states ::
  "time \<Rightarrow> time \<Rightarrow> MemoryOAuthStateStore \<Rightarrow> u64 AuthResult \<times> MemoryOAuthStateStore" where
  "memory_expire_oauth_states older_than expired_at states =
     (let old = (\<lambda>state. ls_expires_at state \<le> older_than \<and> ls_consumed_at state = None) in
      (Inr (of_nat (length (filter (\<lambda>(k, state). old state) states))),
       map (\<lambda>(k, state). (k, if old state then state \<lparr> ls_consumed_at := Some expired_at \<rparr> else state)) states))"

definition MemoryOAuthStateStore_impl :: "MemoryOAuthStateStore OAuthStateStore" where
  "MemoryOAuthStateStore_impl =
     \<lparr> insert_oauth_state = memory_insert_oauth_state, consume_oauth_state = memory_consume_oauth_state,
       expire_oauth_states = memory_expire_oauth_states \<rparr>"

definition memory_find_external_identity ::
  "string \<Rightarrow> string \<Rightarrow> MemoryExternalIdentityStore \<Rightarrow> ExternalIdentity option AuthResult \<times> MemoryExternalIdentityStore" where
  "memory_find_external_identity provider_name external_subject identities =
     (Inr (map_of identities (provider_name, external_subject)), identities)"

definition memory_link_external_identity ::
  "ExternalIdentity \<Rightarrow> MemoryExternalIdentityStore \<Rightarrow> unit AuthResult \<times> MemoryExternalIdentityStore" where
  "memory_link_external_identity identity identities =
     (Inr (), AList.update (ei_provider_name identity, ei_external_subject identity) identity identities)"

definition memory_update_external_identity ::
  "string \<Rightarrow> string \<Rightarrow> JsonValue \<Rightarrow> time \<Rightarrow> MemoryExternalIdentityStore \<Rightarrow>
   unit AuthResult \<times> MemoryExternalIdentityStore" where
  "memory_update_external_identity provider_name external_subject claims_snapshot updated_at identities =
     (Inr (), AList.map_entry (provider_name, external_subject)
        (\<lambda>identity. identity \<lparr> ei_claims_snapshot := claims_snapshot, ei_updated_at := updated_at \<rparr>) identities)"

definition MemoryExternalIdentityStore_impl :: "MemoryExternalIdentityStore ExternalIdentityStore" where
  "MemoryExternalIdentityStore_impl =
     \<lparr> find_external_identity = memory_find_external_identity,
       link_external_identity = memory_link_external_identity,
       update_external_identity_claims_snapshot = memory_update_external_identity \<rparr>"

section \<open>The contract of the state store\<close>

text \<open>\<open>lookup\<close> is the stored state of a provider and state hash. Consumption returns the stored,
  unconsumed snapshot and marks it in the same step; nothing un-consumes a state.\<close>

definition state_consumed :: "('st \<Rightarrow> string \<times> string \<Rightarrow> OAuthLoginState option) \<Rightarrow> 'st \<Rightarrow> (string \<times> string) set" where
  "state_consumed lookup st = {k. \<exists>s. lookup st k = Some s \<and> login_state_is_consumed s}"

definition consume_flag ::
  "'st OAuthStateStore \<Rightarrow> string \<times> string \<Rightarrow> time \<Rightarrow> 'st \<Rightarrow> bool AuthResult \<times> 'st" where
  "consume_flag S k t st =
     (case consume_oauth_state S (fst k) (snd k) t st of
        (Inr r, st') \<Rightarrow> (Inr (r \<noteq> None), st') | (Inl e, st') \<Rightarrow> (Inl e, st'))"

locale oauth_state_store =
  fixes lookup :: "'st \<Rightarrow> string \<times> string \<Rightarrow> OAuthLoginState option" and S :: "'st OAuthStateStore"
  assumes consume_found: "consume_oauth_state S p h t st = (Inr (Some s), st') \<Longrightarrow>
      lookup st (p, h) = Some s \<and> \<not> login_state_is_consumed s \<and>
      lookup st' (p, h) = Some (s \<lparr> ls_consumed_at := Some t \<rparr>)"
    and consume_keeps: "consume_oauth_state S p h t st = (r, st') \<Longrightarrow>
      state_consumed lookup st \<subseteq> state_consumed lookup st'"
    and insert_stores: "insert_oauth_state S s st = (Inr (), st') \<Longrightarrow>
      lookup st' = (lookup st)((ls_provider_name s, ls_state_hash s) \<mapsto> s)"

sublocale oauth_state_store \<subseteq> one_time_store "state_consumed lookup" "consume_flag S"
proof
  fix k t st st'
  assume "consume_flag S k t st = (Inr True, st')"
  then obtain s where "consume_oauth_state S (fst k) (snd k) t st = (Inr (Some s), st')"
    by (auto simp: consume_flag_def split: prod.splits sum.splits)
  from consume_found [OF this]
  show "k \<notin> state_consumed lookup st \<and> k \<in> state_consumed lookup st'"
    by (auto simp: state_consumed_def login_state_is_consumed_def)
next
  fix k t st r st'
  assume "consume_flag S k t st = (r, st')"
  then show "state_consumed lookup st \<subseteq> state_consumed lookup st'"
    by (auto simp: consume_flag_def split: prod.splits sum.splits dest: consume_keeps)
qed

locale oauth_state_client = oauth_state_store lookup S
  for lookup :: "'st \<Rightarrow> string \<times> string \<Rightarrow> OAuthLoginState option" and S :: "'st OAuthStateStore" +
  fixes H :: "'st host"
  assumes others_keep: "state_consumed lookup st \<subseteq> state_consumed lookup (h_interfere H n st)"

sublocale oauth_state_client \<subseteq> one_time_client "state_consumed lookup" "consume_flag S" H
  using others_keep by unfold_locales

context oauth_state_client
begin

lemma consume_call_found:
  assumes "store_call H (\<lambda>_. consume_oauth_state S p h t) w = (Inr (Some s), w')"
  shows "lookup (h_interfere H (w_tick w) (w_store w)) (p, h) = Some s" "\<not> login_state_is_consumed s"
    "(p, h) \<notin> state_consumed lookup (w_store w)" "(p, h) \<in> state_consumed lookup (w_store w')"
proof -
  let ?st = "h_interfere H (w_tick w) (w_store w)"
  from assms have run: "consume_oauth_state S p h t ?st = (Inr (Some s), w_store w')"
    by (auto simp: store_call_eq)
  from consume_found [OF run] show "lookup ?st (p, h) = Some s" "\<not> login_state_is_consumed s" by blast+
  from consume_found [OF run] have "(p, h) \<notin> state_consumed lookup ?st" "(p, h) \<in> state_consumed lookup (w_store w')"
    by (auto simp: state_consumed_def login_state_is_consumed_def)
  with others_keep [of "w_store w" "w_tick w"]
  show "(p, h) \<notin> state_consumed lookup (w_store w)" "(p, h) \<in> state_consumed lookup (w_store w')" by auto
qed

end

lemma memory_consume_keeps:
  assumes "memory_consume_oauth_state p h t st = (r, st')"
  shows "state_consumed map_of st \<subseteq> state_consumed map_of st'"
  using assms
  by (auto simp: memory_consume_oauth_state_def state_consumed_def login_state_is_consumed_def update_conv'
      split: option.splits if_splits)

interpretation mos: oauth_state_store map_of MemoryOAuthStateStore_impl
  by unfold_locales
    (auto simp: MemoryOAuthStateStore_impl_def memory_consume_keeps memory_insert_oauth_state_def update_conv'
      memory_consume_oauth_state_def login_state_is_consumed_def fun_eq_iff split: option.splits if_splits)

interpretation mosc: oauth_state_client map_of MemoryOAuthStateStore_impl idle_host
  by unfold_locales (simp add: idle_host_def)

end
