(* ===== verification/Oidc_Provider.thy ===== *)
theory Oidc_Provider
  imports Oauth_State Graphql
begin

text \<open>
  The OIDC provider client (\<open>src/oidc.rs\<close>): the HTTP abstraction, discovery and JWKS caches with
  their mutexes, authorization requests, token exchange and ID-token validation. Parsing and
  printing of JSON documents, the JWT crate and the encoders are the fields of \<open>oidc_lib\<close>; the HTTP
  client is a host object whose calls may change the host's state. The caches live in the shared
  state, so that other tasks may use the same provider between any two accesses.
\<close>

section \<open>Libraries\<close>

datatype OneOrMany = One string | Many "string list"

fun into_vec :: "OneOrMany \<Rightarrow> string list" where
  "into_vec (One v) = [v]"
| "into_vec (Many vs) = vs"

record RawOidcIdTokenClaims =
  rc_iss :: string
  rc_aud :: OneOrMany
  rc_sub :: string
  rc_exp :: int
  rc_nbf :: "int option"
  rc_iat :: int
  rc_auth_time :: "int option"
  rc_amr :: "string list option"
  rc_acr :: "string option"
  rc_acrs :: "string list option"
  rc_nonce :: "string option"
  rc_azp :: "string option"
  rc_tid :: "string option"
  rc_oid :: "string option"
  rc_email :: "string option"
  rc_name :: "string option"
  rc_preferred_username :: "string option"
  rc_roles :: "string list"
  rc_groups :: "string list"
  rc_extra :: "(string \<times> JsonValue) list"

record OidcDiscoveryDocument =
  dd_issuer :: string
  dd_authorization_endpoint :: string
  dd_token_endpoint :: string
  dd_jwks_uri :: string
  dd_raw :: JsonValue

datatype PublicKeyUse = UseSignature | UseEncryption | UseOther string
datatype KeyOperations = OpVerify | OpOther string

text \<open>A published key: the attributes the code reads, the printed name of its algorithm, and the
  key material.\<close>

record OidcJwk =
  oj_key_id :: "string option"
  oj_public_key_use :: "PublicKeyUse option"
  oj_key_operations :: "KeyOperations list option"
  oj_key_algorithm :: "string option"
  oj_material :: string

record oidc_lib =
  ol_client :: client_lib
  ol_percent_decode :: "string \<Rightarrow> string"
  ol_serialize :: "JsonValue \<Rightarrow> string option"
  ol_parse_discovery :: "JsonValue \<Rightarrow> OidcDiscoveryDocument option"
  ol_parse_jwks :: "JsonValue \<Rightarrow> OidcJwk list option"
  ol_find_jwk :: "OidcJwk list \<Rightarrow> string \<Rightarrow> OidcJwk option"
  ol_parse_token_response :: "JsonValue \<Rightarrow> OidcTokenResponse option"
  ol_key_from_jwk :: "OidcJwk \<Rightarrow> DecodingKey option"
  ol_algorithm_from_str :: "string \<Rightarrow> Algorithm option"
  ol_id_token :: "RawOidcIdTokenClaims jwt_codec"
  ol_claims_to_value :: "RawOidcIdTokenClaims \<Rightarrow> JsonValue option"

fun algorithm_debug :: "Algorithm \<Rightarrow> string" where
  "algorithm_debug HS256 = ''HS256''" | "algorithm_debug HS384 = ''HS384''" | "algorithm_debug HS512 = ''HS512''"
| "algorithm_debug ES256 = ''ES256''" | "algorithm_debug ES384 = ''ES384''" | "algorithm_debug RS256 = ''RS256''"
| "algorithm_debug RS384 = ''RS384''" | "algorithm_debug RS512 = ''RS512''" | "algorithm_debug PS256 = ''PS256''"
| "algorithm_debug PS384 = ''PS384''" | "algorithm_debug PS512 = ''PS512''" | "algorithm_debug EdDSA = ''EdDSA''"

section \<open>The HTTP client\<close>

type_synonym headers = "(string \<times> string) list"

record 'st OidcHttpClient =
  get_json :: "string \<Rightarrow> nat \<Rightarrow> 'st \<Rightarrow> JsonValue AuthResult \<times> 'st"
  post_form_json :: "string \<Rightarrow> (string \<times> string) list \<Rightarrow> nat \<Rightarrow> 'st \<Rightarrow> JsonValue AuthResult \<times> 'st"
  supports_request_headers :: bool
  get_json_with_headers :: "string \<Rightarrow> headers \<Rightarrow> nat \<Rightarrow> 'st \<Rightarrow> JsonValue AuthResult \<times> 'st"
  post_form_json_with_headers ::
    "string \<Rightarrow> headers \<Rightarrow> (string \<times> string) list \<Rightarrow> nat \<Rightarrow> 'st \<Rightarrow> JsonValue AuthResult \<times> 'st"

definition ensure_only_accept_headers :: "headers \<Rightarrow> unit AuthResult" where
  "ensure_only_accept_headers hs =
     (if list_all (\<lambda>(name, _). eq_ignore_ascii_case name ''accept'') hs then Inr ()
      else Inl (InvalidConfiguration ''HTTP client does not support request headers''))"

text \<open>A client that implements only the two required methods.\<close>

definition plain_http_client ::
  "(string \<Rightarrow> nat \<Rightarrow> 'st \<Rightarrow> JsonValue AuthResult \<times> 'st) \<Rightarrow>
   (string \<Rightarrow> (string \<times> string) list \<Rightarrow> nat \<Rightarrow> 'st \<Rightarrow> JsonValue AuthResult \<times> 'st) \<Rightarrow> 'st OidcHttpClient" where
  "plain_http_client get post =
     \<lparr> get_json = get, post_form_json = post, supports_request_headers = False,
       get_json_with_headers = (\<lambda>url hs n st.
         case ensure_only_accept_headers hs of Inl e \<Rightarrow> (Inl e, st) | Inr _ \<Rightarrow> get url n st),
       post_form_json_with_headers = (\<lambda>url hs form n st.
         case ensure_only_accept_headers hs of Inl e \<Rightarrow> (Inl e, st) | Inr _ \<Rightarrow> post url form n st) \<rparr>"

definition ACCEPT_JSON :: "string \<times> string" where
  "ACCEPT_JSON = (''Accept'', ''application/json'')"

section \<open>The provider\<close>

record CachedDiscovery =
  cd_document :: OidcDiscoveryDocument
  cd_expires_at :: time

record CachedJwks =
  ck_jwks :: "OidcJwk list"
  ck_expires_at :: time

text \<open>The three mutexes of a provider.\<close>

record OidcCaches =
  cc_discovery :: "CachedDiscovery option"
  cc_discovery_poisoned :: bool
  cc_jwks :: "CachedJwks option"
  cc_jwks_poisoned :: bool
  cc_last_forced :: "time option"
  cc_last_forced_poisoned :: bool

record 'st OidcProvider =
  op_config :: OidcProviderConfig
  op_http_client :: "'st OidcHttpClient"
  op_caches :: "'st \<Rightarrow> OidcCaches"
  op_set_caches :: "OidcCaches \<Rightarrow> 'st \<Rightarrow> 'st"
  op_clock :: ClockId

definition empty_caches :: OidcCaches where
  "empty_caches = \<lparr> cc_discovery = None, cc_discovery_poisoned = False, cc_jwks = None,
     cc_jwks_poisoned = False, cc_last_forced = None, cc_last_forced_poisoned = False \<rparr>"

text \<open>The access functions say where in the shared state the new provider keeps its caches, which
  start empty.\<close>

definition OidcProvider_new_with_clock ::
  "OidcProviderConfig \<Rightarrow> 'st OidcHttpClient \<Rightarrow> ('st \<Rightarrow> OidcCaches) \<Rightarrow> (OidcCaches \<Rightarrow> 'st \<Rightarrow> 'st) \<Rightarrow> ClockId \<Rightarrow>
   'st \<Rightarrow> 'st OidcProvider AuthResult \<times> 'st" where
  "OidcProvider_new_with_clock config http_client caches set_caches clock st =
     (case oidc_config_validate config of
        Inl e \<Rightarrow> (Inl e, st)
      | Inr _ \<Rightarrow>
          if oc_token_endpoint_auth_method config = ClientSecretBasic \<and> \<not> supports_request_headers http_client
          then (Inl (InvalidConfiguration
                  ''OIDC client_secret_basic requires an HTTP client that supports request headers''), st)
          else (Inr \<lparr> op_config = config, op_http_client = http_client, op_caches = caches,
                      op_set_caches = set_caches, op_clock = clock \<rparr>, set_caches empty_caches st))"

definition OidcProvider_new ::
  "OidcProviderConfig \<Rightarrow> 'st OidcHttpClient \<Rightarrow> ('st \<Rightarrow> OidcCaches) \<Rightarrow> (OidcCaches \<Rightarrow> 'st \<Rightarrow> 'st) \<Rightarrow>
   'st \<Rightarrow> 'st OidcProvider AuthResult \<times> 'st" where
  "OidcProvider_new config http_client caches set_caches =
     OidcProvider_new_with_clock config http_client caches set_caches SystemClock"

text \<open>\<open>map_err\<close> on an awaited call.\<close>

definition map_err_m :: "(AuthError \<Rightarrow> AuthError) \<Rightarrow> ('st, 'a) action \<Rightarrow> ('st, 'a) action" where
  "map_err_m f m = try_catch m (\<lambda>r. lift_res (map_err f r))"

text \<open>A critical section of one of the mutexes.\<close>

definition with_caches ::
  "'st host \<Rightarrow> 'st OidcProvider \<Rightarrow> (OidcCaches \<Rightarrow> 'a AuthResult \<times> OidcCaches) \<Rightarrow> ('st, 'a) action" where
  "with_caches H P f = store_call H (\<lambda>_ st. case f (op_caches P st) of (r, c) \<Rightarrow> (r, op_set_caches P c st))"

definition read_discovery_cache :: "OidcCaches \<Rightarrow> CachedDiscovery option AuthResult \<times> OidcCaches" where
  "read_discovery_cache c =
     (if cc_discovery_poisoned c then Inl (OidcDiscovery ''discovery cache lock poisoned'')
      else Inr (cc_discovery c), c)"

definition write_discovery_cache :: "CachedDiscovery \<Rightarrow> OidcCaches \<Rightarrow> unit AuthResult \<times> OidcCaches" where
  "write_discovery_cache d c =
     (if cc_discovery_poisoned c then (Inl (OidcDiscovery ''discovery cache lock poisoned''), c)
      else (Inr (), c \<lparr> cc_discovery := Some d \<rparr>))"

definition discover ::
  "ext \<Rightarrow> oidc_lib \<Rightarrow> 'st host \<Rightarrow> 'st OidcProvider \<Rightarrow> ('st, OidcDiscoveryDocument) action" where
  "discover E L H P =
     bind (now_from H (op_clock P)) (\<lambda>now.
     bind (with_caches H P read_discovery_cache) (\<lambda>cached.
     case filter_option (\<lambda>c. cd_expires_at c > now) cached of
       Some c \<Rightarrow> ret (cd_document c)
     | None \<Rightarrow>
         bind (map_err_m (\<lambda>_. OidcDiscovery ''provider discovery request failed'')
           (store_call H (get_json (op_http_client P) (oc_discovery_url (op_config P))))) (\<lambda>raw.
         bind (lift_res (ok_or (OidcDiscovery ''provider discovery response was invalid'')
           (ol_parse_discovery L raw))) (\<lambda>parsed.
         let document = parsed \<lparr> dd_raw := raw \<rparr> in
         bind (lift_res (ok_or (OidcDiscovery ''discovery cache expiry overflowed'')
           (time_checked_add E now (oc_discovery_cache_ttl (op_config P))))) (\<lambda>expires_at.
         bind (with_caches H P (write_discovery_cache
           \<lparr> cd_document = document, cd_expires_at = expires_at \<rparr>)) (\<lambda>_.
           ret document))))))"

section \<open>Authorization requests\<close>

record PkcePair =
  pk_code_verifier :: string
  pk_code_challenge :: string

definition pkce_s256_challenge :: "ext \<Rightarrow> string \<Rightarrow> string" where
  "pkce_s256_challenge E code_verifier = base64url_encode E (sha256 E code_verifier)"

definition generate_pkce_pair :: "ext \<Rightarrow> bytes \<Rightarrow> PkcePair" where
  "generate_pkce_pair E rnd =
     (let code_verifier = base64url_encode E rnd in
      \<lparr> pk_code_verifier = code_verifier, pk_code_challenge = pkce_s256_challenge E code_verifier \<rparr>)"

definition generate_urlsafe_secret :: "ext \<Rightarrow> bytes \<Rightarrow> string" where
  "generate_urlsafe_secret E rnd = base64url_encode E rnd"

definition generate_oauth_state :: "ext \<Rightarrow> bytes \<Rightarrow> string" where
  "generate_oauth_state E rnd = generate_urlsafe_secret E rnd"

definition generate_oidc_nonce :: "ext \<Rightarrow> bytes \<Rightarrow> string" where
  "generate_oidc_nonce E rnd = generate_urlsafe_secret E rnd"

definition hash_oauth_state :: "ext \<Rightarrow> string \<Rightarrow> string" where
  "hash_oauth_state E state = encode_hex (sha256 E state)"

definition policy_params :: "oidc_lib \<Rightarrow> OidcAuthorizationPolicy \<Rightarrow> (string \<times> string) list AuthResult" where
  "policy_params L policy =
     bind_res (claims_parameter (ol_serialize L) policy) (\<lambda>claims.
       Inr ((case prompt_parameter policy of Some v \<Rightarrow> [(''prompt'', v)] | None \<Rightarrow> []) @
            (case pl_max_age_seconds policy of Some v \<Rightarrow> [(''max_age'', show_nat (unat v))] | None \<Rightarrow> []) @
            (case acr_values_parameter policy of Some v \<Rightarrow> [(''acr_values'', v)] | None \<Rightarrow> []) @
            (case claims of Some v \<Rightarrow> [(''claims'', v)] | None \<Rightarrow> [])))"

definition base_params ::
  "OidcProviderConfig \<Rightarrow> string \<Rightarrow> string \<Rightarrow> PkcePair \<Rightarrow> (string \<times> string) list" where
  "base_params config state nonce pkce =
     [(''client_id'', oc_client_id config), (''redirect_uri'', oc_redirect_uri config),
      (''response_type'', ''code''), (''response_mode'', response_mode_as_str (oc_response_mode config)),
      (''scope'', join_str '' '' (oidc_scopes config)), (''state'', state), (''nonce'', nonce),
      (''code_challenge'', pk_code_challenge pkce), (''code_challenge_method'', ''S256'')]"

definition create_authorization_request_inner ::
  "ext \<Rightarrow> oidc_lib \<Rightarrow> 'st host \<Rightarrow> 'st OidcProvider \<Rightarrow> 'st OAuthStateStore \<Rightarrow> OidcAuthorizationPolicy option \<Rightarrow>
   ('st, OidcAuthorizationRequest) action" where
  "create_authorization_request_inner E L H P S authorization_policy =
     bind (discover E L H P) (\<lambda>discovery.
     bind (lift_res (ensure_no_reserved_authorization_parameters (ol_percent_decode L)
       (dd_authorization_endpoint discovery))) (\<lambda>_.
     bind (random_bytes H) (\<lambda>r1.
     bind (random_bytes H) (\<lambda>r2.
     bind (random_bytes H) (\<lambda>r3.
     let config = op_config P; state = generate_oauth_state E r1; nonce = generate_oidc_nonce E r2;
         pkce = generate_pkce_pair E r3 in
     bind (now_from H (op_clock P)) (\<lambda>now.
     bind (lift_res (ok_or (InvalidConfiguration ''OIDC state expiry overflowed'')
       (time_checked_add E now (oc_state_ttl config)))) (\<lambda>expires_at.
     bind (store_call H (\<lambda>_. insert_oauth_state S
       \<lparr> ls_provider_name = oc_provider_name config, ls_state_hash = hash_oauth_state E state,
         ls_nonce = nonce, ls_code_verifier = pk_code_verifier pkce,
         ls_redirect_uri = oc_redirect_uri config, ls_scopes = oidc_scopes config,
         ls_authorization_policy = authorization_policy, ls_response_mode = oc_response_mode config,
         ls_created_at = now, ls_expires_at = expires_at, ls_consumed_at = None \<rparr>)) (\<lambda>_.
     bind (lift_res (case authorization_policy of
             Some policy \<Rightarrow> policy_params L policy | None \<Rightarrow> Inr [])) (\<lambda>extra.
       ret \<lparr> aq_authorization_url = append_query (cl_percent_encode (ol_client L))
               (dd_authorization_endpoint discovery) (base_params config state nonce pkce @ extra),
             aq_provider_name = oc_provider_name config, aq_state = state, aq_nonce = nonce,
             aq_code_verifier = pk_code_verifier pkce, aq_code_challenge = pk_code_challenge pkce,
             aq_authorization_policy = authorization_policy, aq_expires_at = expires_at \<rparr>)))))))))"

definition create_authorization_request ::
  "ext \<Rightarrow> oidc_lib \<Rightarrow> 'st host \<Rightarrow> 'st OidcProvider \<Rightarrow> 'st OAuthStateStore \<Rightarrow> ('st, OidcAuthorizationRequest) action" where
  "create_authorization_request E L H P S = create_authorization_request_inner E L H P S None"

definition create_authorization_request_with_options ::
  "ext \<Rightarrow> oidc_lib \<Rightarrow> 'st host \<Rightarrow> 'st OidcProvider \<Rightarrow> 'st OAuthStateStore \<Rightarrow> OidcAuthorizationOptions \<Rightarrow>
   ('st, OidcAuthorizationRequest) action" where
  "create_authorization_request_with_options E L H P S opts =
     bind (lift_res (options_validate (ol_serialize L) opts)) (\<lambda>policy.
       create_authorization_request_inner E L H P S (Some policy))"

section \<open>Token exchange\<close>

definition exchange_form :: "string \<Rightarrow> OAuthLoginState \<Rightarrow> (string \<times> string) list" where
  "exchange_form code state =
     [(''grant_type'', ''authorization_code''), (''code'', code), (''redirect_uri'', ls_redirect_uri state),
      (''code_verifier'', ls_code_verifier state)]"

definition exchange_code ::
  "ext \<Rightarrow> oidc_lib \<Rightarrow> 'st host \<Rightarrow> 'st OidcProvider \<Rightarrow> string \<Rightarrow> OAuthLoginState \<Rightarrow> ('st, OidcTokenResponse) action" where
  "exchange_code E L H P code state =
     (let config = op_config P in
     bind (discover E L H P) (\<lambda>discovery.
     bind (now_from H (op_clock P)) (\<lambda>now.
     bind (map_err_m (\<lambda>_. OidcTokenExchange ''client authentication could not be prepared'')
       (client_authentication E (ol_client L) H (oc_token_endpoint_auth_method config) (oc_client_id config)
         (oc_client_secret config) (oc_client_jwt config) (dd_token_endpoint discovery) now)) (\<lambda>authentication.
     let form = exchange_form code state @ cn_form authentication in
     bind (map_err_m (\<lambda>_. OidcTokenExchange ''provider token endpoint request failed'')
       (if cn_headers authentication = []
        then store_call H (post_form_json (op_http_client P) (dd_token_endpoint discovery) form)
        else store_call H (post_form_json_with_headers (op_http_client P) (dd_token_endpoint discovery)
               (cn_headers authentication @ [ACCEPT_JSON]) form))) (\<lambda>raw.
     bind (require (json_get ''error'' raw = None)
       (OidcTokenExchange ''provider token endpoint returned an error'')) (\<lambda>_.
     bind (lift_res (ok_or (OidcTokenExchange ''provider token response was invalid'')
       (ol_parse_token_response L raw))) (\<lambda>token_response.
       ret (token_response \<lparr> tr_raw := raw \<rparr>))))))))"

section \<open>Verification keys\<close>

definition read_jwks_cache :: "OidcCaches \<Rightarrow> CachedJwks option AuthResult \<times> OidcCaches" where
  "read_jwks_cache c =
     (if cc_jwks_poisoned c then Inl (OidcDiscovery ''JWKS cache lock poisoned'') else Inr (cc_jwks c), c)"

definition write_jwks_cache :: "CachedJwks \<Rightarrow> OidcCaches \<Rightarrow> unit AuthResult \<times> OidcCaches" where
  "write_jwks_cache k c =
     (if cc_jwks_poisoned c then (Inl (OidcDiscovery ''JWKS cache lock poisoned''), c)
      else (Inr (), c \<lparr> cc_jwks := Some k \<rparr>))"

definition provider_jwks ::
  "ext \<Rightarrow> oidc_lib \<Rightarrow> 'st host \<Rightarrow> 'st OidcProvider \<Rightarrow> bool \<Rightarrow> ('st, OidcJwk list) action" where
  "provider_jwks E L H P force_refresh =
     bind (now_from H (op_clock P)) (\<lambda>now.
     bind (if force_refresh then ret None else with_caches H P read_jwks_cache) (\<lambda>cached.
     case filter_option (\<lambda>c. ck_expires_at c > now) cached of
       Some c \<Rightarrow> ret (ck_jwks c)
     | None \<Rightarrow>
         bind (discover E L H P) (\<lambda>discovery.
         bind (map_err_m (\<lambda>_. OidcDiscovery ''provider JWKS request failed'')
           (store_call H (get_json (op_http_client P) (dd_jwks_uri discovery)))) (\<lambda>raw.
         bind (lift_res (ok_or (OidcDiscovery ''provider JWKS response was invalid'') (ol_parse_jwks L raw))) (\<lambda>jwks.
         bind (lift_res (ok_or (OidcDiscovery ''JWKS cache expiry overflowed'')
           (time_checked_add E now (oc_jwks_cache_ttl (op_config P))))) (\<lambda>expires_at.
         bind (with_caches H P (write_jwks_cache \<lparr> ck_jwks = jwks, ck_expires_at = expires_at \<rparr>)) (\<lambda>_.
           ret jwks)))))))"

definition jwk_for_kid ::
  "ext \<Rightarrow> oidc_lib \<Rightarrow> 'st host \<Rightarrow> 'st OidcProvider \<Rightarrow> string \<Rightarrow> bool \<Rightarrow> ('st, OidcJwk option) action" where
  "jwk_for_kid E L H P kid force_refresh =
     bind (provider_jwks E L H P force_refresh) (\<lambda>jwks. ret (ol_find_jwk L jwks kid))"

definition forced_refresh_step ::
  "ext \<Rightarrow> duration \<Rightarrow> time \<Rightarrow> OidcCaches \<Rightarrow> bool AuthResult \<times> OidcCaches" where
  "forced_refresh_step E cooldown now c =
     (if cc_last_forced_poisoned c then (Inl (OidcDiscovery ''forced JWKS refresh lock poisoned''), c)
      else case (case cc_last_forced c of
                   Some prev \<Rightarrow>
                     bind_res (ok_or (OidcDiscovery ''forced JWKS refresh time arithmetic overflowed'')
                       (time_checked_add E prev cooldown)) (\<lambda>nxt. Inr (now \<ge> nxt))
                 | None \<Rightarrow> Inr True) of
        Inl e \<Rightarrow> (Inl e, c)
      | Inr allowed \<Rightarrow> (Inr allowed, if allowed then c \<lparr> cc_last_forced := Some now \<rparr> else c))"

definition allow_forced_jwks_refresh ::
  "ext \<Rightarrow> 'st host \<Rightarrow> 'st OidcProvider \<Rightarrow> ('st, bool) action" where
  "allow_forced_jwks_refresh E H P =
     (let cooldown = oc_jwks_forced_refresh_cooldown (op_config P) in
      if cooldown = 0 then ret True
      else bind (now_from H (op_clock P)) (\<lambda>now. with_caches H P (forced_refresh_step E cooldown now)))"

definition validate_jwk_for_header :: "OidcJwk \<Rightarrow> Algorithm \<Rightarrow> unit AuthResult" where
  "validate_jwk_for_header jwk alg =
     (if is_some_and (\<lambda>u. u \<noteq> UseSignature) (oj_public_key_use jwk)
      then Inl (OidcTokenValidation ''JWK is not marked for signature verification'')
      else if is_some_and (\<lambda>ops. \<not> list_ex (\<lambda>k. k = OpVerify) ops) (oj_key_operations jwk)
      then Inl (OidcTokenValidation ''JWK is not marked for verify operations'')
      else if is_some_and (\<lambda>key_alg. key_alg \<noteq> algorithm_debug alg) (oj_key_algorithm jwk)
      then Inl (OidcTokenValidation ''JWK alg does not match ID token header alg'')
      else Inr ())"

section \<open>ID-token claims\<close>

definition MICROSOFT_CONSUMER_TENANT_ID :: string where
  "MICROSOFT_CONSUMER_TENANT_ID = ''9188040d-6c67-4c5b-b112-36a304b66dad''"

text \<open>\<open>str::replace\<close> with a non-empty pattern.\<close>

function replace_str :: "string \<Rightarrow> string \<Rightarrow> string \<Rightarrow> string" where
  "replace_str pat new s =
     (if pat = [] \<or> s = [] then s
      else if prefix pat s then new @ replace_str pat new (drop (length pat) s)
      else hd s # replace_str pat new (tl s))"
  by pat_completeness auto
termination
  by (relation "measure (\<lambda>(pat, new, s). length s)") auto

declare replace_str.simps [simp del]

definition issuer_pattern_matches :: "string \<Rightarrow> string \<Rightarrow> string option \<Rightarrow> bool" where
  "issuer_pattern_matches pattern issuer tenant_id =
     (if pattern = issuer then True
      else case tenant_id of
        None \<Rightarrow> False
      | Some tid \<Rightarrow> replace_str ''{tid}'' tid (replace_str ''{tenantid}'' tid pattern) = issuer)"

definition issuer_allowed :: "OidcProviderConfig \<Rightarrow> string \<Rightarrow> string option \<Rightarrow> OidcDiscoveryDocument \<Rightarrow> bool" where
  "issuer_allowed config issuer tenant_id discovery =
     (let allowed = oc_allowed_issuers config @
            (if dd_issuer discovery \<noteq> [] \<and> \<not> list_ex (\<lambda>i. i = dd_issuer discovery) (oc_allowed_issuers config)
             then [dd_issuer discovery] else []) in
      list_ex (\<lambda>pattern. issuer_pattern_matches pattern issuer tenant_id) allowed)"

definition validate_audiences :: "OidcProviderConfig \<Rightarrow> string list \<Rightarrow> string option \<Rightarrow> unit AuthResult" where
  "validate_audiences config audiences azp =
     (if is_some_and (\<lambda>party. party \<noteq> oc_client_id config) azp
      then Inl (OidcTokenValidation ''ID token azp does not match client_id'')
      else if length audiences \<le> 1 then Inr ()
      else if azp \<noteq> Some (oc_client_id config)
      then Inl (OidcTokenValidation ''multi-audience ID token is missing matching azp'')
      else if list_ex (\<lambda>a. a \<noteq> oc_client_id config \<and>
                 \<not> list_ex (\<lambda>allowed. allowed = a) (oc_allowed_additional_audiences config)) audiences
      then Inl (OidcTokenValidation ''ID token contains an untrusted audience'')
      else Inr ())"

fun provider_algorithms :: "(string \<Rightarrow> Algorithm option) \<Rightarrow> string list \<Rightarrow> Algorithm list AuthResult" where
  "provider_algorithms from_str [] = Inr []"
| "provider_algorithms from_str (alg # algs) =
     bind_res (ok_or (InvalidConfiguration (''unsupported OIDC ID token algorithm: '' @ alg)) (from_str alg)) (\<lambda>a.
     bind_res (provider_algorithms from_str algs) (\<lambda>as. Inr (a # as)))"

definition clock_skew_seconds :: "OidcProviderConfig \<Rightarrow> nat AuthResult" where
  "clock_skew_seconds config =
     (if whole_seconds (oc_clock_skew config) < 0
      then Inl (InvalidConfiguration ''OIDC clock_skew is too large'')
      else Inr (nat (whole_seconds (oc_clock_skew config))))"

definition stable_external_subject ::
  "OidcProviderKind \<Rightarrow> string \<Rightarrow> string \<Rightarrow> string option \<Rightarrow> string option \<Rightarrow> string" where
  "stable_external_subject provider_kind issuer subject tenant_id object_id =
     (case provider_kind of
        MicrosoftEntra \<Rightarrow> (case (tenant_id, object_id) of
            (Some t, Some i) \<Rightarrow> t @ '':'' @ i
          | _ \<Rightarrow> issuer @ '':'' @ subject)
      | Generic \<Rightarrow> issuer @ '':'' @ subject)"

definition unix_timestamp_to_datetime :: "ext \<Rightarrow> int \<Rightarrow> time AuthResult" where
  "unix_timestamp_to_datetime E timestamp =
     ok_or (OidcTokenValidation ''ID token timestamp is outside supported bounds'') (from_unix_timestamp E timestamp)"

definition timestamp_opt :: "ext \<Rightarrow> int option \<Rightarrow> time option AuthResult" where
  "timestamp_opt E t = (case t of None \<Rightarrow> Inr None
     | Some v \<Rightarrow> bind_res (unix_timestamp_to_datetime E v) (\<lambda>d. Inr (Some d)))"

fun parse_email_verified :: "JsonValue \<Rightarrow> bool option" where
  "parse_email_verified (JBool verified) = Some verified"
| "parse_email_verified (JString s) =
     (if s = ''true'' then Some True else if s = ''false'' then Some False else None)"
| "parse_email_verified _ = None"

definition check_tenant :: "OidcProviderConfig \<Rightarrow> string option \<Rightarrow> unit AuthResult" where
  "check_tenant config tenant_id =
     (if oc_provider_kind config = MicrosoftEntra then
        bind_res (ok_or (OidcTokenValidation ''Microsoft Entra ID token is missing tid'') tenant_id) (\<lambda>tid.
          if oc_allowed_tenants config \<noteq> [] \<and> \<not> list_ex (\<lambda>allowed. allowed = tid) (oc_allowed_tenants config)
          then Inl (OidcTokenValidation ''Microsoft Entra tenant is not allowed'')
          else if tid = MICROSOFT_CONSUMER_TENANT_ID \<and> \<not> oc_allow_consumer_accounts config
          then Inl (OidcTokenValidation ''Microsoft consumer accounts are not enabled'')
          else Inr ())
      else Inr ())"

definition check_times :: "ext \<Rightarrow> OidcProviderConfig \<Rightarrow> RawOidcIdTokenClaims \<Rightarrow> time \<Rightarrow> unit AuthResult" where
  "check_times E config claims now =
     bind_res (ok_or (OidcTokenValidation ''OIDC clock-skew arithmetic overflowed'')
       (time_checked_add E now (oc_clock_skew config))) (\<lambda>latest.
     if rc_iat claims > unix_timestamp E latest
     then Inl (OidcTokenValidation ''ID token iat is in the future'')
     else if is_some_and (\<lambda>t. t < 0) (rc_auth_time claims)
     then Inl (OidcTokenValidation ''ID token auth_time must be a non-negative timestamp'')
     else if is_some_and (\<lambda>t. t > unix_timestamp E latest) (rc_auth_time claims)
     then Inl (OidcTokenValidation ''ID token auth_time is in the future'')
     else Inr ())"

definition check_nonce :: "RawOidcIdTokenClaims \<Rightarrow> string \<Rightarrow> string AuthResult" where
  "check_nonce claims expected_nonce =
     bind_res (ok_or (OidcTokenValidation ''ID token is missing nonce'') (rc_nonce claims)) (\<lambda>nonce.
       if nonce \<noteq> expected_nonce
       then Inl (OidcTokenValidation ''ID token nonce does not match authorization state'')
       else Inr nonce)"

definition normalized_assurance :: "ext \<Rightarrow> RawOidcIdTokenClaims \<Rightarrow> SessionAssurance AuthResult" where
  "normalized_assurance E claims =
     bind_res (unix_timestamp_to_datetime E
       (case rc_auth_time claims of Some t \<Rightarrow> t | None \<Rightarrow> rc_iat claims)) (\<lambda>at.
       map_err (\<lambda>e. OidcTokenValidation (assurance_error_text e))
         (SessionAssurance_new at (case rc_amr claims of Some ms \<Rightarrow> ms | None \<Rightarrow> []) (rc_acr claims) None MfaUnsatisfied))"

text \<open>The result, once every check has passed: the code converts the timestamps in the order of the
  fields.\<close>

definition validated_claims ::
  "ext \<Rightarrow> oidc_lib \<Rightarrow> OidcProviderConfig \<Rightarrow> RawOidcIdTokenClaims \<Rightarrow> string \<Rightarrow> SessionAssurance \<Rightarrow> ValidatedOidcClaims AuthResult" where
  "validated_claims E L config claims nonce assurance =
     bind_res (ok_or (OidcTokenValidation ''validated ID token claims were invalid'') (ol_claims_to_value L claims)) (\<lambda>raw.
     bind_res (unix_timestamp_to_datetime E (rc_exp claims)) (\<lambda>expires_at.
     bind_res (timestamp_opt E (rc_nbf claims)) (\<lambda>not_before.
     bind_res (unix_timestamp_to_datetime E (rc_iat claims)) (\<lambda>issued_at.
     bind_res (timestamp_opt E (rc_auth_time claims)) (\<lambda>auth_time.
       Inr \<lparr> vc_provider_name = oc_provider_name config, vc_issuer = rc_iss claims,
             vc_audiences = into_vec (rc_aud claims), vc_subject = rc_sub claims,
             vc_external_subject = stable_external_subject (oc_provider_kind config) (rc_iss claims)
               (rc_sub claims) (rc_tid claims) (rc_oid claims),
             vc_expires_at = expires_at, vc_not_before = not_before, vc_issued_at = issued_at,
             vc_auth_time = auth_time,
             vc_amr = map_option (\<lambda>_. sa_methods assurance) (rc_amr claims),
             vc_acr = sa_acr assurance, vc_acrs = rc_acrs claims, vc_nonce = nonce,
             vc_tenant_id = rc_tid claims, vc_object_id = rc_oid claims, vc_email = rc_email claims,
             vc_email_verified = Option.bind (map_of (rc_extra claims) ''email_verified'') parse_email_verified,
             vc_name = rc_name claims, vc_preferred_username = rc_preferred_username claims,
             vc_roles = rc_roles claims, vc_groups = rc_groups claims, vc_raw = raw \<rparr>)))))"

definition validate_claims ::
  "ext \<Rightarrow> oidc_lib \<Rightarrow> 'st host \<Rightarrow> 'st OidcProvider \<Rightarrow> RawOidcIdTokenClaims \<Rightarrow> string \<Rightarrow> OidcDiscoveryDocument \<Rightarrow>
   ('st, ValidatedOidcClaims) action" where
  "validate_claims E L H P claims expected_nonce discovery =
     (let config = op_config P in
     bind (lift_res (check_nonce claims expected_nonce)) (\<lambda>nonce.
     bind (lift_res (validate_audiences config (into_vec (rc_aud claims)) (rc_azp claims))) (\<lambda>_.
     bind (require (issuer_allowed config (rc_iss claims) (rc_tid claims) discovery)
       (OidcTokenValidation ''ID token issuer is not allowed'')) (\<lambda>_.
     bind (lift_res (check_tenant config (rc_tid claims))) (\<lambda>_.
     bind (now_from H (op_clock P)) (\<lambda>now.
     bind (lift_res (check_times E config claims now)) (\<lambda>_.
     bind (lift_res (normalized_assurance E claims)) (\<lambda>assurance.
     bind (lift_res (case rc_acrs claims of Some acrs \<Rightarrow> validate_acrs acrs | None \<Rightarrow> Inr ())) (\<lambda>_.
       lift_res (validated_claims E L config claims nonce assurance))))))))))"

definition id_token_validation ::
  "OidcProviderConfig \<Rightarrow> Algorithm \<Rightarrow> Algorithm list \<Rightarrow> nat \<Rightarrow> Validation" where
  "id_token_validation config alg allowed leeway =
     (Validation_new alg) \<lparr> va_algorithms := allowed, va_aud := Some [oc_client_id config],
       va_required_spec_claims := [''exp'', ''iss'', ''aud'', ''sub'', ''iat''], va_validate_nbf := True,
       va_leeway := leeway \<rparr>"

definition resolve_jwk ::
  "ext \<Rightarrow> oidc_lib \<Rightarrow> 'st host \<Rightarrow> 'st OidcProvider \<Rightarrow> string \<Rightarrow> ('st, OidcJwk) action" where
  "resolve_jwk E L H P kid =
     bind (jwk_for_kid E L H P kid False) (\<lambda>found.
     case found of
       Some jwk \<Rightarrow> ret jwk
     | None \<Rightarrow>
         bind (allow_forced_jwks_refresh E H P) (\<lambda>allowed.
         if allowed then
           bind (jwk_for_kid E L H P kid True) (\<lambda>refound.
             lift_res (ok_or (OidcTokenValidation ''unknown key ID'') refound))
         else throw (OidcTokenValidation ''unknown key ID'')))"

definition validate_id_token ::
  "ext \<Rightarrow> oidc_lib \<Rightarrow> 'st host \<Rightarrow> 'st OidcProvider \<Rightarrow> string \<Rightarrow> string \<Rightarrow> ('st, ValidatedOidcClaims) action" where
  "validate_id_token E L H P id_token expected_nonce =
     (let config = op_config P in
     bind (discover E L H P) (\<lambda>discovery.
     bind (lift_res (map_err (\<lambda>_. OidcTokenValidation ''ID token header is invalid'')
       (jwt_decode_header (ol_id_token L) id_token))) (\<lambda>header.
     bind (lift_res (ok_or (OidcTokenValidation ''ID token header is missing kid'') (hd_kid header))) (\<lambda>kid.
     bind (lift_res (provider_algorithms (ol_algorithm_from_str L) (oc_allowed_id_token_algs config))) (\<lambda>allowed.
     bind (require (hd_alg header \<in> set allowed)
       (OidcTokenValidation (''ID token alg '' @ algorithm_debug (hd_alg header) @ '' is not allowed''))) (\<lambda>_.
     bind (resolve_jwk E L H P kid) (\<lambda>jwk.
     bind (lift_res (validate_jwk_for_header jwk (hd_alg header))) (\<lambda>_.
     bind (lift_res (ok_or (OidcTokenValidation ''ID token verification key is invalid'')
       (ol_key_from_jwk L jwk))) (\<lambda>decoding_key.
     bind (lift_res (clock_skew_seconds config)) (\<lambda>leeway.
     bind (now_from H SystemClock) (\<lambda>system_now.
     bind (lift_res (map_err (\<lambda>_. OidcTokenValidation ''ID token signature, time, or claim types are invalid'')
       (jwt_decode (ol_id_token L) system_now id_token decoding_key
         (id_token_validation config (hd_alg header) allowed leeway)))) (\<lambda>claims.
       validate_claims E L H P claims expected_nonce discovery))))))))))))"

section \<open>Bound authorization policies\<close>

definition enforce_auth_time ::
  "ext \<Rightarrow> OidcProviderConfig \<Rightarrow> OidcAuthorizationPolicy \<Rightarrow> ValidatedOidcClaims \<Rightarrow> time \<Rightarrow> time option AuthResult" where
  "enforce_auth_time E config policy claims now =
     (if pl_max_age_seconds policy \<noteq> None \<or> pl_essential_auth_time policy then
        bind_res (ok_or (OidcTokenValidation ''bound authorization requires ID token auth_time'')
          (vc_auth_time claims)) (\<lambda>auth_time.
        let skew = whole_seconds (oc_clock_skew config) in
        bind_res (ok_or (OidcTokenValidation ''bound authorization future-skew arithmetic overflowed'')
          (checked_i64 (unix_timestamp E now + skew))) (\<lambda>latest.
        if unix_timestamp E auth_time > latest
        then Inl (OidcTokenValidation ''bound authorization auth_time is in the future'')
        else
        bind_res (case pl_max_age_seconds policy of
            None \<Rightarrow> Inr ()
          | Some max_age \<Rightarrow>
              bind_res (ok_or (OidcTokenValidation ''bound authorization max_age is invalid'')
                (checked_i64 (uint max_age))) (\<lambda>age.
              bind_res (ok_or (OidcTokenValidation ''bound authorization max-age arithmetic overflowed'')
                (Option.bind (checked_i64 (unix_timestamp E now - age)) (\<lambda>v. checked_i64 (v - skew)))) (\<lambda>oldest.
              if unix_timestamp E auth_time < oldest
              then Inl (OidcTokenValidation ''bound authorization auth_time is too old'')
              else Inr ()))) (\<lambda>_.
          Inr (Some auth_time))))
      else Inr None)"

definition enforce_acr :: "OidcAuthorizationPolicy \<Rightarrow> ValidatedOidcClaims \<Rightarrow> string option AuthResult" where
  "enforce_acr policy claims =
     (if pl_essential_acr_values policy = [] then Inr None
      else bind_res (ok_or (OidcTokenValidation ''bound authorization requires the standard acr claim'')
          (vc_acr claims)) (\<lambda>acr.
        if \<not> list_ex (\<lambda>allowed. allowed = acr) (pl_essential_acr_values policy)
        then Inl (OidcTokenValidation ''bound authorization standard acr did not match'')
        else Inr (Some acr)))"

definition enforce_acrs :: "OidcAuthorizationPolicy \<Rightarrow> ValidatedOidcClaims \<Rightarrow> string option AuthResult" where
  "enforce_acrs policy claims =
     (case pl_essential_acrs_value policy of
        None \<Rightarrow> Inr None
      | Some required \<Rightarrow>
          bind_res (ok_or (OidcTokenValidation ''bound authorization requires the acrs claim'') (vc_acrs claims)) (\<lambda>acrs.
          if \<not> list_ex (\<lambda>returned. returned = required) acrs
          then Inl (OidcTokenValidation ''bound authorization acrs did not match'')
          else Inr (Some required)))"

definition enforce_authorization_policy ::
  "ext \<Rightarrow> OidcProviderConfig \<Rightarrow> OidcAuthorizationPolicy option \<Rightarrow> ValidatedOidcClaims \<Rightarrow> time \<Rightarrow>
   OidcAuthorizationOutcome AuthResult" where
  "enforce_authorization_policy E config policy claims now =
     (case policy of
        None \<Rightarrow> Inr \<lparr> oo_policy = None, oo_enforced_auth_time = None, oo_matched_acr = None, oo_matched_acrs = None \<rparr>
      | Some policy \<Rightarrow>
          bind_res (enforce_auth_time E config policy claims now) (\<lambda>enforced_auth_time.
          bind_res (enforce_acr policy claims) (\<lambda>matched_acr.
          bind_res (enforce_acrs policy claims) (\<lambda>matched_acrs.
            Inr \<lparr> oo_policy = Some policy, oo_enforced_auth_time = enforced_auth_time,
                  oo_matched_acr = matched_acr, oo_matched_acrs = matched_acrs \<rparr>))))"

section \<open>What a provider trusts\<close>

text \<open>Documents the provider's discovery URL serves, and key sets the \<open>jwks_uri\<close> of such a document
  serves.\<close>

definition served_discovery :: "oidc_lib \<Rightarrow> 'st OidcProvider \<Rightarrow> OidcDiscoveryDocument \<Rightarrow> bool" where
  "served_discovery L P d \<longleftrightarrow>
     (\<exists>n st raw st' parsed. get_json (op_http_client P) (oc_discovery_url (op_config P)) n st = (Inr raw, st') \<and>
        ol_parse_discovery L raw = Some parsed \<and> d = parsed \<lparr> dd_raw := raw \<rparr>)"

definition served_jwks :: "oidc_lib \<Rightarrow> 'st OidcProvider \<Rightarrow> OidcJwk list \<Rightarrow> bool" where
  "served_jwks L P jwks \<longleftrightarrow>
     (\<exists>d n st raw st'. served_discovery L P d \<and>
        get_json (op_http_client P) (dd_jwks_uri d) n st = (Inr raw, st') \<and> ol_parse_jwks L raw = Some jwks)"

lemma served_discoveryI:
  "get_json (op_http_client P) (oc_discovery_url (op_config P)) n st = (Inr raw, st') \<Longrightarrow>
   ol_parse_discovery L raw = Some parsed \<Longrightarrow> served_discovery L P (parsed \<lparr> dd_raw := raw \<rparr>)"
  unfolding served_discovery_def by blast

lemma served_jwksI:
  "served_discovery L P d \<Longrightarrow> get_json (op_http_client P) (dd_jwks_uri d) n st = (Inr raw, st') \<Longrightarrow>
   ol_parse_jwks L raw = Some jwks \<Longrightarrow> served_jwks L P jwks"
  unfolding served_jwks_def by blast

definition caches_ok :: "oidc_lib \<Rightarrow> 'st OidcProvider \<Rightarrow> 'st \<Rightarrow> bool" where
  "caches_ok L P st \<longleftrightarrow>
     (\<forall>c. cc_discovery (op_caches P st) = Some c \<longrightarrow> served_discovery L P (cd_document c)) \<and>
     (\<forall>c. cc_jwks (op_caches P st) = Some c \<longrightarrow> served_jwks L P (ck_jwks c))"

definition keeps :: "('st \<Rightarrow> bool) \<Rightarrow> 'st \<Rightarrow> 'st \<Rightarrow> bool" where
  "keeps ok st st' \<longleftrightarrow> (ok st \<longrightarrow> ok st')"

text \<open>What a provider needs of its host: the access functions reach one place of the shared state,
  and neither the other tasks nor the HTTP client put anything into the caches that the provider's
  endpoints did not serve.\<close>

locale provider_host =
  fixes L :: oidc_lib and P :: "'st OidcProvider" and H :: "'st host"
  assumes caches_get_set: "op_caches P (op_set_caches P c st) = c"
    and others_keep_caches: "caches_ok L P st \<Longrightarrow> caches_ok L P (h_interfere H n st)"
    and get_keeps_caches: "get_json (op_http_client P) url n st = (r, st') \<Longrightarrow> caches_ok L P st \<Longrightarrow> caches_ok L P st'"
    and post_keeps_caches: "post_form_json (op_http_client P) url form n st = (r, st') \<Longrightarrow>
      caches_ok L P st \<Longrightarrow> caches_ok L P st'"
    and post_headers_keeps_caches: "post_form_json_with_headers (op_http_client P) url hs form n st = (r, st') \<Longrightarrow>
      caches_ok L P st \<Longrightarrow> caches_ok L P st'"

sublocale provider_host \<subseteq> cache_frame: frame_relation "keeps (caches_ok L P)" H
  by unfold_locales (auto simp: keeps_def others_keep_caches)

context provider_host
begin

text \<open>An action that keeps the caches and whose results satisfy \<open>Q\<close> when it starts from good
  caches.\<close>

definition cached :: "('a \<Rightarrow> bool) \<Rightarrow> ('st, 'a) action \<Rightarrow> bool" where
  "cached Q m \<longleftrightarrow> (\<forall>w r w'. caches_ok L P (w_store w) \<and> m w = (r, w') \<longrightarrow>
     caches_ok L P (w_store w') \<and> (\<forall>x. r = Inr x \<longrightarrow> Q x))"

lemma cachedD:
  "cached Q m \<Longrightarrow> caches_ok L P (w_store w) \<Longrightarrow> m w = (r, w') \<Longrightarrow> caches_ok L P (w_store w')"
  "cached Q m \<Longrightarrow> caches_ok L P (w_store w) \<Longrightarrow> m w = (Inr x, w') \<Longrightarrow> Q x"
  unfolding cached_def by blast+

lemma cached_bind:
  assumes "cached Q m" "\<And>x. Q x \<Longrightarrow> cached Q' (f x)" shows "cached Q' (bind m f)"
  unfolding cached_def
proof (intro allI impI)
  fix w r w'
  assume run: "caches_ok L P (w_store w) \<and> bind m f w = (r, w')"
  show "caches_ok L P (w_store w') \<and> (\<forall>x. r = Inr x \<longrightarrow> Q' x)"
  proof (cases "m w")
    case (Pair r1 w1)
    note first = cachedD(1) [OF assms(1) conjunct1 [OF run] Pair]
    show ?thesis
    proof (cases r1)
      case (Inl e)
      with Pair run first show ?thesis by (auto simp: bind_def)
    next
      case (Inr x)
      with Pair run first cachedD(2) [OF assms(1) conjunct1 [OF run]] have "Q x" "f x w1 = (r, w')"
        by (auto simp: bind_def)
      with first assms(2) [of x] show ?thesis unfolding cached_def by blast
    qed
  qed
qed

lemma cached_ret: "Q x \<Longrightarrow> cached Q (ret x)"
  by (auto simp: cached_def action_simps)

lemma cached_pure:
  "cached (\<lambda>x. r = Inr x) (lift_res r)" "cached Q (throw e)" "cached (\<lambda>_. c) (require c e)"
  "cached (\<lambda>_. True) (now_from H' k)" "cached (\<lambda>_. True) (random_bytes H')"
  by (auto simp: cached_def action_simps)

lemma cached_map_err: "cached Q m \<Longrightarrow> cached Q (map_err_m f m)"
  unfolding cached_def map_err_m_def try_catch_def
  by (fastforce simp: lift_res_def split: prod.splits dest: map_err_Inr [THEN iffD1])

lemma cached_get:
  "cached (\<lambda>raw. \<exists>n st st'. get_json (op_http_client P) url n st = (Inr raw, st'))
     (store_call H (get_json (op_http_client P) url))"
  unfolding cached_def store_call_eq using others_keep_caches get_keeps_caches by fastforce

lemma cached_with_caches:
  assumes "\<And>st r c. f (op_caches P st) = (r, c) \<Longrightarrow> caches_ok L P st \<Longrightarrow>
      caches_ok L P (op_set_caches P c st) \<and> (\<forall>x. r = Inr x \<longrightarrow> Q x)"
  shows "cached Q (with_caches H P f)"
  unfolding cached_def with_caches_def store_call_eq
  using assms others_keep_caches by (fastforce split: prod.splits)

lemma cached_read_discovery:
  "cached (\<lambda>d. \<forall>c. d = Some c \<longrightarrow> served_discovery L P (cd_document c)) (with_caches H P read_discovery_cache)"
  by (rule cached_with_caches) (auto simp: read_discovery_cache_def caches_ok_def caches_get_set split: if_splits)

lemma cached_write_discovery:
  assumes "served_discovery L P (cd_document c)"
  shows "cached (\<lambda>_. True) (with_caches H P (write_discovery_cache c))"
  by (rule cached_with_caches)
    (use assms in \<open>auto simp: write_discovery_cache_def caches_ok_def caches_get_set split: if_splits\<close>)

lemma cached_discover: "cached (served_discovery L P) (discover E L H P)"
  unfolding discover_def Let_def
  apply (rule cached_bind [OF cached_pure(4)], rule cached_bind [OF cached_read_discovery])
  apply (split option.split, intro conjI allI impI)
   apply (rule cached_bind [OF cached_map_err [OF cached_get]], rule cached_bind [OF cached_pure(1)],
      rule cached_bind [OF cached_pure(1)], rule cached_bind [OF cached_write_discovery], rule_tac [2] cached_ret)
    apply (auto simp: filter_option_Some intro!: cached_ret intro: served_discoveryI)
  done

lemma cached_read_jwks:
  "cached (\<lambda>d. \<forall>c. d = Some c \<longrightarrow> served_jwks L P (ck_jwks c)) (with_caches H P read_jwks_cache)"
  by (rule cached_with_caches) (auto simp: read_jwks_cache_def caches_ok_def caches_get_set split: if_splits)

lemma cached_write_jwks:
  assumes "served_jwks L P (ck_jwks c)"
  shows "cached (\<lambda>_. True) (with_caches H P (write_jwks_cache c))"
  by (rule cached_with_caches)
    (use assms in \<open>auto simp: write_jwks_cache_def caches_ok_def caches_get_set split: if_splits\<close>)

lemma cached_jwks: "cached (served_jwks L P) (provider_jwks E L H P force_refresh)"
proof -
  have read: "cached (\<lambda>d. \<forall>c. d = Some c \<longrightarrow> served_jwks L P (ck_jwks c))
      (if force_refresh then ret None else with_caches H P read_jwks_cache)"
    by (auto intro: cached_ret cached_read_jwks)
  show ?thesis
    unfolding provider_jwks_def
    apply (rule cached_bind [OF cached_pure(4)], rule cached_bind [OF read])
    apply (split option.split, intro conjI allI impI)
     apply (rule cached_bind [OF cached_discover], rule cached_bind [OF cached_map_err [OF cached_get]],
        rule cached_bind [OF cached_pure(1)], rule cached_bind [OF cached_pure(1)],
        rule cached_bind [OF cached_write_jwks], rule_tac [2] cached_ret)
      apply (auto simp: filter_option_Some intro!: cached_ret intro: served_jwksI)
    done
qed

lemma cached_forced_refresh: "cached (\<lambda>_. True) (allow_forced_jwks_refresh E H P)"
proof -
  have "cached (\<lambda>_. True) (with_caches H P (forced_refresh_step E cooldown now))" for cooldown now
    by (rule cached_with_caches)
      (auto simp: forced_refresh_step_def caches_ok_def caches_get_set split: if_splits sum.splits option.splits)
  then show ?thesis
    unfolding allow_forced_jwks_refresh_def Let_def by (auto intro: cached_ret cached_bind [OF cached_pure(4)])
qed

text \<open>The key an ID token is verified with was served by the provider under the key id of the token.\<close>

lemma cached_resolve_jwk:
  "cached (\<lambda>jwk. \<exists>jwks. served_jwks L P jwks \<and> ol_find_jwk L jwks kid = Some jwk) (resolve_jwk E L H P kid)"
proof -
  have found: "cached (\<lambda>r. \<exists>jwks. served_jwks L P jwks \<and> ol_find_jwk L jwks kid = r) (jwk_for_kid E L H P kid b)" for b
    unfolding jwk_for_kid_def by (rule cached_bind [OF cached_jwks]) (auto intro: cached_ret)
  have forced: "cached (\<lambda>jwk. \<exists>jwks. served_jwks L P jwks \<and> ol_find_jwk L jwks kid = Some jwk)
      (bind (jwk_for_kid E L H P kid True) (\<lambda>refound. lift_res (ok_or e refound)))" for e
    by (rule cached_bind [OF found]) (auto simp: cached_def action_simps)
  show ?thesis
    unfolding resolve_jwk_def
    apply (rule cached_bind [OF found])
    apply (split option.split, intro conjI allI impI)
     apply (rule cached_bind [OF cached_forced_refresh])
     apply (auto intro!: forced cached_ret cached_pure(2))
    done
qed

end

section \<open>Accepted ID tokens\<close>

text \<open>The \<open>aud\<close> claim as the JWT library sees it, and the documented behaviour of its decoder.\<close>

fun aud_json :: "OneOrMany \<Rightarrow> JsonValue" where
  "aud_json (One v) = JString v"
| "aud_json (Many vs) = JArray (map JString vs)"

definition id_token_laws :: "oidc_lib \<Rightarrow> bool" where
  "id_token_laws L \<longleftrightarrow>
     (\<exists>pair. jwt_laws pair (\<lambda>_. True) rc_iss (\<lambda>c. aud_json (rc_aud c)) rc_exp (ol_id_token L))"

text \<open>What makes the claims of an ID token trustworthy for a provider and a nonce: they were decoded
  with a key the provider's endpoints served under the token's key id, for an allowed algorithm; the
  issuer is one of the configured ones or of the served discovery document; the audience is this
  client, with no untrusted other one; and the nonce is that of the authorization state.\<close>

definition trusted_id_token ::
  "oidc_lib \<Rightarrow> 'st OidcProvider \<Rightarrow> string \<Rightarrow> string \<Rightarrow> RawOidcIdTokenClaims \<Rightarrow> bool" where
  "trusted_id_token L P token nonce c \<longleftrightarrow>
     (\<exists>header kid allowed jwks jwk key leeway t d.
        jwt_decode_header (ol_id_token L) token = Inr header \<and> hd_kid header = Some kid \<and>
        provider_algorithms (ol_algorithm_from_str L) (oc_allowed_id_token_algs (op_config P)) = Inr allowed \<and>
        hd_alg header \<in> set allowed \<and>
        served_jwks L P jwks \<and> ol_find_jwk L jwks kid = Some jwk \<and>
        validate_jwk_for_header jwk (hd_alg header) = Inr () \<and> ol_key_from_jwk L jwk = Some key \<and>
        jwt_decode (ol_id_token L) t token key
          (id_token_validation (op_config P) (hd_alg header) allowed leeway) = Inr c \<and>
        served_discovery L P d \<and> issuer_allowed (op_config P) (rc_iss c) (rc_tid c) d) \<and>
     check_tenant (op_config P) (rc_tid c) = Inr () \<and>
     rc_nonce c = Some nonce \<and> oc_client_id (op_config P) \<in> set (into_vec (rc_aud c)) \<and>
     set (into_vec (rc_aud c)) \<subseteq>
       insert (oc_client_id (op_config P)) (set (oc_allowed_additional_audiences (op_config P)))"

text \<open>What the validated claims take over from the token.\<close>

definition claims_of ::
  "OidcProviderConfig \<Rightarrow> RawOidcIdTokenClaims \<Rightarrow> ValidatedOidcClaims \<Rightarrow> bool" where
  "claims_of config c v \<longleftrightarrow>
     vc_provider_name v = oc_provider_name config \<and> vc_issuer v = rc_iss c \<and> vc_subject v = rc_sub c \<and>
     vc_audiences v = into_vec (rc_aud c) \<and> rc_nonce c = Some (vc_nonce v) \<and> vc_tenant_id v = rc_tid c \<and>
     vc_object_id v = rc_oid c \<and>
     vc_external_subject v =
       stable_external_subject (oc_provider_kind config) (rc_iss c) (rc_sub c) (rc_tid c) (rc_oid c)"

lemma validated_claims_Inr:
  "validated_claims E L config c nonce a = Inr v \<Longrightarrow> rc_nonce c = Some nonce \<Longrightarrow> claims_of config c v"
  by (auto simp: validated_claims_def bind_res_Inr_iff claims_of_def)

lemma check_nonce_Inr: "check_nonce c expected = Inr n \<longleftrightarrow> rc_nonce c = Some expected \<and> n = expected"
  by (auto simp: check_nonce_def bind_res_Inr_iff ok_or_Inr)

lemma validate_claims_Inr:
  assumes "validate_claims E L H P c nonce d w = (Inr v, w')"
  shows "claims_of (op_config P) c v \<and> rc_nonce c = Some nonce \<and> issuer_allowed (op_config P) (rc_iss c) (rc_tid c) d \<and>
    check_tenant (op_config P) (rc_tid c) = Inr () \<and>
    validate_audiences (op_config P) (into_vec (rc_aud c)) (rc_azp c) = Inr ()"
  using assms unfolding validate_claims_def Let_def
  by (auto simp: action_simps check_nonce_Inr dest: validated_claims_Inr)

lemma validate_claims_store: "validate_claims E L H P c nonce d w = (r, w') \<Longrightarrow> w_store w' = w_store w"
  unfolding validate_claims_def Let_def
  by (cases r) (auto simp: action_simps)

lemma trusted_audience:
  assumes "id_token_laws L" "jwt_decode (ol_id_token L) t token key (id_token_validation config alg allowed leeway) = Inr c"
    and "validate_audiences config (into_vec (rc_aud c)) azp = Inr ()"
  shows "oc_client_id config \<in> set (into_vec (rc_aud c))"
    "set (into_vec (rc_aud c)) \<subseteq> insert (oc_client_id config) (set (oc_allowed_additional_audiences config))"
proof -
  from assms(1,2) have "audience_accepted (id_token_validation config alg allowed leeway) (aud_json (rc_aud c))"
    unfolding id_token_laws_def by (blast dest: jwt_laws_decoded(2))
  then show client: "oc_client_id config \<in> set (into_vec (rc_aud c))"
    by (cases "rc_aud c") (auto simp: audience_accepted_def id_token_validation_def Validation_new_def list_ex_iff)
  show "set (into_vec (rc_aud c)) \<subseteq> insert (oc_client_id config) (set (oc_allowed_additional_audiences config))"
  proof (cases "length (into_vec (rc_aud c)) \<le> 1")
    case True
    with client show ?thesis by (cases "into_vec (rc_aud c)") auto
  next
    case False
    with assms(3) show ?thesis by (auto simp: validate_audiences_def list_ex_iff split: if_splits)
  qed
qed

context provider_host
begin

lemma cached_validate_id_token:
  assumes laws: "id_token_laws L"
  shows "cached (\<lambda>v. \<exists>c. trusted_id_token L P token nonce c \<and> claims_of (op_config P) c v)
    (validate_id_token E L H P token nonce)"
proof -
  have last: "cached (\<lambda>v. \<exists>c. trusted_id_token L P token nonce c \<and> claims_of (op_config P) c v)
      (validate_claims E L H P c nonce d)"
    if "served_discovery L P d" "jwt_decode_header (ol_id_token L) token = Inr header" "hd_kid header = Some kid"
      "provider_algorithms (ol_algorithm_from_str L) (oc_allowed_id_token_algs (op_config P)) = Inr allowed"
      "hd_alg header \<in> set allowed" "\<exists>jwks. served_jwks L P jwks \<and> ol_find_jwk L jwks kid = Some jwk"
      "validate_jwk_for_header jwk (hd_alg header) = Inr ()" "ol_key_from_jwk L jwk = Some key"
      "jwt_decode (ol_id_token L) t token key (id_token_validation (op_config P) (hd_alg header) allowed leeway) = Inr c"
    for d header kid allowed jwk key t leeway c
  proof -
    have "trusted_id_token L P token nonce c \<and> claims_of (op_config P) c v"
      if run: "validate_claims E L H P c nonce d w = (Inr v, w')" for w v w'
    proof -
      from validate_claims_Inr [OF run] have v: "claims_of (op_config P) c v" "rc_nonce c = Some nonce"
        "issuer_allowed (op_config P) (rc_iss c) (rc_tid c) d" "check_tenant (op_config P) (rc_tid c) = Inr ()"
        and aud: "validate_audiences (op_config P) (into_vec (rc_aud c)) (rc_azp c) = Inr ()" by blast+
      from v trusted_audience [OF laws \<open>jwt_decode _ _ _ _ _ = Inr c\<close> aud] \<open>served_discovery L P d\<close> \<open>jwt_decode_header _ _ = _\<close>
        \<open>hd_kid header = Some kid\<close> \<open>provider_algorithms _ _ = _\<close> \<open>hd_alg header \<in> set allowed\<close> \<open>\<exists>jwks. _ jwks\<close>
        \<open>validate_jwk_for_header _ _ = _\<close> \<open>ol_key_from_jwk L jwk = Some key\<close> \<open>jwt_decode _ _ _ _ _ = Inr c\<close>
      show ?thesis unfolding trusted_id_token_def by blast
    qed
    then show ?thesis unfolding cached_def using validate_claims_store by metis
  qed
  show ?thesis
    unfolding validate_id_token_def Let_def
    by (rule cached_bind [OF cached_discover], rule cached_bind [OF cached_pure(1)], rule cached_bind [OF cached_pure(1)],
        rule cached_bind [OF cached_pure(1)], rule cached_bind [OF cached_pure(3)], rule cached_bind [OF cached_resolve_jwk],
        rule cached_bind [OF cached_pure(1)], rule cached_bind [OF cached_pure(1)], rule cached_bind [OF cached_pure(1)],
        rule cached_bind [OF cached_pure(4)], rule cached_bind [OF cached_pure(1)], rule last)
      (auto simp: ok_or_Inr map_err_Inr)
qed

end

section \<open>Token exchange and the caches\<close>

lemma client_authentication_store:
  "client_authentication E C H m i s j u now w = (r, w') \<Longrightarrow> w_store w' = w_store w"
  unfolding client_authentication_def sign_with_jti_def
  by (cases r; cases m; cases s; cases j) (auto simp: action_simps split: option.splits)

context provider_host
begin

lemma cached_client_authentication: "cached (\<lambda>_. True) (client_authentication E C H m i s j u now)"
  unfolding cached_def using client_authentication_store by metis

lemma cached_post:
  "cached (\<lambda>_. True) (store_call H (post_form_json (op_http_client P) url form))"
  "cached (\<lambda>_. True) (store_call H (post_form_json_with_headers (op_http_client P) url hs form))"
  unfolding cached_def store_call_eq
  using others_keep_caches post_keeps_caches post_headers_keeps_caches by fastforce+

lemma cached_exchange_code: "cached (\<lambda>_. True) (exchange_code E L H P code state)"
proof -
  have post: "cached (\<lambda>_. True)
      (if b then store_call H (post_form_json (op_http_client P) url form)
       else store_call H (post_form_json_with_headers (op_http_client P) url hs form))" for b url form hs
    using cached_post by simp
  show ?thesis
    unfolding exchange_code_def Let_def
    by (rule cached_bind [OF cached_discover], rule cached_bind [OF cached_pure(4)],
        rule cached_bind [OF cached_map_err [OF cached_client_authentication]],
        rule cached_bind [OF cached_map_err [OF post]], rule cached_bind [OF cached_pure(3)],
        rule cached_bind [OF cached_pure(1)], rule cached_ret) simp
qed

end

section \<open>Frames of the provider's actions\<close>

text \<open>Every relation on the shared state that the HTTP client, the other tasks and the accesses to the
  caches respect is respected by the provider's actions.\<close>

locale provider_frame = frame_relation R H
  for R :: "'st \<Rightarrow> 'st \<Rightarrow> bool" and H :: "'st host" +
  fixes P :: "'st OidcProvider"
  assumes set_caches_within: "R st (op_set_caches P c st)"
    and get_within: "get_json (op_http_client P) url n st = (r, st') \<Longrightarrow> R st st'"
    and post_within: "post_form_json (op_http_client P) url form n st = (r, st') \<Longrightarrow> R st st'"
    and post_headers_within: "post_form_json_with_headers (op_http_client P) url hs form n st = (r, st') \<Longrightarrow> R st st'"
begin

lemma within_with_caches: "within R (with_caches H P f)"
  unfolding with_caches_def
  by (rule within_store_call) (auto split: prod.splits intro: set_caches_within)

lemma within_http:
  "within R (store_call H (get_json (op_http_client P) url))"
  "within R (store_call H (post_form_json (op_http_client P) url form))"
  "within R (store_call H (post_form_json_with_headers (op_http_client P) url hs form))"
  by (rule within_store_call; auto intro: get_within post_within post_headers_within)+

lemma within_map_err: "within R m \<Longrightarrow> within R (map_err_m f m)"
  unfolding map_err_m_def by (intro within_try_catch within_pure)

lemma within_discover: "within R (discover E L H P)"
  unfolding discover_def Let_def
  by (intro within_bind within_pure within_with_caches within_map_err within_http)
    (auto intro!: within_bind within_pure within_with_caches within_map_err within_http split: option.split)

lemma within_client_authentication: "within R (client_authentication E C H m i s j u now)"
  unfolding within_def using client_authentication_store R_refl by metis

lemma within_exchange_code: "within R (exchange_code E L H P code state)"
  unfolding exchange_code_def Let_def
  by (auto intro!: within_bind within_pure within_discover within_map_err within_http within_client_authentication)

lemma within_jwks: "within R (provider_jwks E L H P force_refresh)"
  unfolding provider_jwks_def
  by (auto intro!: within_bind within_pure within_discover within_with_caches within_map_err within_http
      split: option.split)

lemma within_resolve_jwk: "within R (resolve_jwk E L H P kid)"
  unfolding resolve_jwk_def jwk_for_kid_def allow_forced_jwks_refresh_def Let_def
  by (auto intro!: within_bind within_pure within_jwks within_with_caches split: option.split)

lemma within_validate_claims: "within R (validate_claims E L H P c nonce d)"
  unfolding within_def using validate_claims_store R_refl by metis

lemma within_validate_id_token: "within R (validate_id_token E L H P token nonce)"
  unfolding validate_id_token_def Let_def
  by (auto intro!: within_bind within_pure within_discover within_resolve_jwk within_validate_claims)

end

end
