(* ===== verification/Oidc_Login.thy ===== *)
theory Oidc_Login
  imports Oidc_Provider
begin

text \<open>
  Provider callbacks and logins (\<open>src/oidc.rs\<close>): claims mappers, local user resolution, the callback
  flow and the login that issues a local session. A claims mapper and a provisioner are host objects:
  their calls are awaited and may change the host's state.
\<close>

section \<open>Claims mapping\<close>

record OidcCallbackOutcome =
  co_state :: OAuthLoginState
  co_token_response :: OidcTokenResponse
  co_claims :: ValidatedOidcClaims
  co_authorization :: OidcAuthorizationOutcome

record MappedClaims =
  mp_roles :: "string list"
  mp_scopes :: "string list"
  mp_assurance :: "SessionAssurance option"

definition MappedClaims_default :: MappedClaims where
  "MappedClaims_default = \<lparr> mp_roles = [], mp_scopes = [], mp_assurance = None \<rparr>"

record ProvisionedExternalUser =
  pu_user_id :: string
  pu_roles :: "string list"
  pu_scopes :: "string list"
  pu_link_external_identity :: bool

definition ProvisionedExternalUser_new :: "string \<Rightarrow> string list \<Rightarrow> string list \<Rightarrow> ProvisionedExternalUser" where
  "ProvisionedExternalUser_new user_id roles scopes =
     \<lparr> pu_user_id = user_id, pu_roles = roles, pu_scopes = scopes, pu_link_external_identity = True \<rparr>"

definition from_mapped_claims :: "string \<Rightarrow> MappedClaims \<Rightarrow> ProvisionedExternalUser" where
  "from_mapped_claims user_id m = ProvisionedExternalUser_new user_id (mp_roles m) (mp_scopes m)"

type_synonym 'st ClaimsMapper = "ValidatedOidcClaims \<Rightarrow> nat \<Rightarrow> 'st \<Rightarrow> MappedClaims AuthResult \<times> 'st"
type_synonym 'st ExternalUserProvisioner =
  "ValidatedOidcClaims \<Rightarrow> ExternalIdentity option \<Rightarrow> MappedClaims \<Rightarrow> nat \<Rightarrow> 'st \<Rightarrow>
   ProvisionedExternalUser AuthResult \<times> 'st"

definition NoopClaimsMapper :: "'st ClaimsMapper" where
  "NoopClaimsMapper claims n st = (Inr MappedClaims_default, st)"

type_synonym local_names = "(string \<times> string list) list"

record MicrosoftClaimsMapper =
  mm_role_to_roles :: local_names
  mm_role_to_scopes :: local_names
  mm_group_to_roles :: local_names
  mm_group_to_scopes :: local_names
  mm_tenant_to_roles :: local_names
  mm_tenant_to_scopes :: local_names
  mm_object_id_to_roles :: local_names
  mm_object_id_to_scopes :: local_names

definition MicrosoftClaimsMapper_new :: MicrosoftClaimsMapper where
  "MicrosoftClaimsMapper_new =
     \<lparr> mm_role_to_roles = [], mm_role_to_scopes = [], mm_group_to_roles = [], mm_group_to_scopes = [],
       mm_tenant_to_roles = [], mm_tenant_to_scopes = [], mm_object_id_to_roles = [], mm_object_id_to_scopes = [] \<rparr>"

text \<open>\<open>entry(key).or_default().push(value)\<close>.\<close>

definition entry_push :: "string \<Rightarrow> string \<Rightarrow> local_names \<Rightarrow> local_names" where
  "entry_push key v m = AList.update key ((case map_of m key of Some vs \<Rightarrow> vs | None \<Rightarrow> []) @ [v]) m"

definition map_role_to_role :: "string \<Rightarrow> string \<Rightarrow> MicrosoftClaimsMapper \<Rightarrow> MicrosoftClaimsMapper" where
  "map_role_to_role k v m = m \<lparr> mm_role_to_roles := entry_push k v (mm_role_to_roles m) \<rparr>"

definition map_role_to_scope :: "string \<Rightarrow> string \<Rightarrow> MicrosoftClaimsMapper \<Rightarrow> MicrosoftClaimsMapper" where
  "map_role_to_scope k v m = m \<lparr> mm_role_to_scopes := entry_push k v (mm_role_to_scopes m) \<rparr>"

definition map_group_to_role :: "string \<Rightarrow> string \<Rightarrow> MicrosoftClaimsMapper \<Rightarrow> MicrosoftClaimsMapper" where
  "map_group_to_role k v m = m \<lparr> mm_group_to_roles := entry_push k v (mm_group_to_roles m) \<rparr>"

definition map_group_to_scope :: "string \<Rightarrow> string \<Rightarrow> MicrosoftClaimsMapper \<Rightarrow> MicrosoftClaimsMapper" where
  "map_group_to_scope k v m = m \<lparr> mm_group_to_scopes := entry_push k v (mm_group_to_scopes m) \<rparr>"

definition map_tenant_to_role :: "string \<Rightarrow> string \<Rightarrow> MicrosoftClaimsMapper \<Rightarrow> MicrosoftClaimsMapper" where
  "map_tenant_to_role k v m = m \<lparr> mm_tenant_to_roles := entry_push k v (mm_tenant_to_roles m) \<rparr>"

definition map_tenant_to_scope :: "string \<Rightarrow> string \<Rightarrow> MicrosoftClaimsMapper \<Rightarrow> MicrosoftClaimsMapper" where
  "map_tenant_to_scope k v m = m \<lparr> mm_tenant_to_scopes := entry_push k v (mm_tenant_to_scopes m) \<rparr>"

definition map_object_id_to_role :: "string \<Rightarrow> string \<Rightarrow> MicrosoftClaimsMapper \<Rightarrow> MicrosoftClaimsMapper" where
  "map_object_id_to_role k v m = m \<lparr> mm_object_id_to_roles := entry_push k v (mm_object_id_to_roles m) \<rparr>"

definition map_object_id_to_scope :: "string \<Rightarrow> string \<Rightarrow> MicrosoftClaimsMapper \<Rightarrow> MicrosoftClaimsMapper" where
  "map_object_id_to_scope k v m = m \<lparr> mm_object_id_to_scopes := entry_push k v (mm_object_id_to_scopes m) \<rparr>"

text \<open>An output vector with its set of values already seen.\<close>

type_synonym seen_output = "string list \<times> string set"

fun push_values :: "string list \<Rightarrow> seen_output \<Rightarrow> seen_output" where
  "push_values [] out = out"
| "push_values (v # vs) (output, seen) =
     push_values vs (if v \<in> seen then (output, seen) else (output @ [v], insert v seen))"

definition push_mapped :: "string list option \<Rightarrow> seen_output \<Rightarrow> seen_output" where
  "push_mapped values out = (case values of Some vs \<Rightarrow> push_values vs out | None \<Rightarrow> out)"

text \<open>One remote value against a pair of tables.\<close>

definition push_both :: "local_names \<Rightarrow> local_names \<Rightarrow> string \<Rightarrow> seen_output \<times> seen_output \<Rightarrow> seen_output \<times> seen_output" where
  "push_both to_roles to_scopes remote out =
     (push_mapped (map_of to_roles remote) (fst out), push_mapped (map_of to_scopes remote) (snd out))"

definition map_claims :: "MicrosoftClaimsMapper \<Rightarrow> ValidatedOidcClaims \<Rightarrow> MappedClaims" where
  "map_claims m claims =
     (let out = fold (push_both (mm_role_to_roles m) (mm_role_to_scopes m)) (vc_roles claims) (([], {}), ([], {}));
          out = fold (push_both (mm_group_to_roles m) (mm_group_to_scopes m)) (vc_groups claims) out;
          out = (case vc_tenant_id claims of
              Some t \<Rightarrow> push_both (mm_tenant_to_roles m) (mm_tenant_to_scopes m) t out | None \<Rightarrow> out);
          out = (case vc_object_id claims of
              Some i \<Rightarrow> push_both (mm_object_id_to_roles m) (mm_object_id_to_scopes m) i out | None \<Rightarrow> out) in
      \<lparr> mp_roles = fst (fst out), mp_scopes = fst (snd out), mp_assurance = None \<rparr>)"

definition MicrosoftClaimsMapper_impl :: "MicrosoftClaimsMapper \<Rightarrow> 'st ClaimsMapper" where
  "MicrosoftClaimsMapper_impl m claims n st = (Inr (map_claims m claims), st)"

section \<open>Callbacks\<close>

text \<open>Up to the consumption of the state.\<close>

definition consumed_callback_state ::
  "ext \<Rightarrow> oidc_lib \<Rightarrow> 'st host \<Rightarrow> 'st OidcProvider \<Rightarrow> 'st OAuthStateStore \<Rightarrow> OAuthResponseMode \<Rightarrow> string \<Rightarrow>
   ('st, OAuthLoginState) action" where
  "consumed_callback_state E L H P S delivered_mode raw_state =
     bind (now_from H (op_clock P)) (\<lambda>now.
     bind (store_call H (\<lambda>_. consume_oauth_state S (oc_provider_name (op_config P))
       (hash_oauth_state E raw_state) now)) (\<lambda>found.
     bind (lift_res (ok_or InvalidOAuthState found)) (\<lambda>state.
     bind (require (\<not> login_state_is_consumed state) OAuthStateReplayed) (\<lambda>_.
     bind (require (\<not> login_state_is_expired state now) OAuthStateExpired) (\<lambda>_.
     bind (require (ls_nonce state \<noteq> []) InvalidOAuthState) (\<lambda>_.
     bind (require (ls_response_mode state = delivered_mode)
       (OidcCallback ''authorization response mode does not match state'')) (\<lambda>_.
     bind (lift_res (case ls_authorization_policy state of
         None \<Rightarrow> Inr ()
       | Some policy \<Rightarrow> map_err (\<lambda>_. OidcTokenValidation ''stored authorization policy is invalid'')
                          (validate_stored (ol_serialize L) policy))) (\<lambda>_.
       ret state))))))))"

definition handle_callback_in_mode ::
  "ext \<Rightarrow> oidc_lib \<Rightarrow> 'st host \<Rightarrow> 'st OidcProvider \<Rightarrow> 'st OAuthStateStore \<Rightarrow> OidcCallbackInput \<Rightarrow> OAuthResponseMode \<Rightarrow>
   ('st, OidcCallbackOutcome) action" where
  "handle_callback_in_mode E L H P S input delivered_mode =
     bind (require (delivered_mode = oc_response_mode (op_config P))
       (OidcCallback ''authorization response was delivered in an unexpected response mode'')) (\<lambda>_.
     bind (require (ci_error input = None) (OidcCallback ''provider returned an authorization error'')) (\<lambda>_.
     bind (lift_res (ok_or (OidcCallback ''authorization callback is missing code'') (ci_code input))) (\<lambda>code.
     bind (lift_res (ok_or InvalidOAuthState (ci_state input))) (\<lambda>raw_state.
     bind (consumed_callback_state E L H P S delivered_mode raw_state) (\<lambda>state.
     bind (exchange_code E L H P code state) (\<lambda>token_response.
     bind (validate_id_token E L H P (tr_id_token token_response) (ls_nonce state)) (\<lambda>claims.
     bind (now_from H (op_clock P)) (\<lambda>now.
     bind (lift_res (enforce_authorization_policy E (op_config P) (ls_authorization_policy state) claims now)) (\<lambda>authorization.
       ret \<lparr> co_state = state, co_token_response = token_response, co_claims = claims,
             co_authorization = authorization \<rparr>)))))))))"

definition handle_callback ::
  "ext \<Rightarrow> oidc_lib \<Rightarrow> 'st host \<Rightarrow> 'st OidcProvider \<Rightarrow> 'st OAuthStateStore \<Rightarrow> OidcCallbackInput \<Rightarrow>
   ('st, OidcCallbackOutcome) action" where
  "handle_callback E L H P S input = handle_callback_in_mode E L H P S input Query"

section \<open>Login\<close>

record OidcLoginResult =
  lr_auth :: AuthPayload
  lr_claims :: ValidatedOidcClaims
  lr_external_identity :: ExternalIdentity
  lr_token_response :: OidcTokenResponse
  lr_authorization :: OidcAuthorizationOutcome

definition new_external_identity :: "ValidatedOidcClaims \<Rightarrow> string \<Rightarrow> time \<Rightarrow> ExternalIdentity" where
  "new_external_identity claims user_id now =
     \<lparr> ei_provider_name = vc_provider_name claims, ei_external_subject = vc_external_subject claims,
       ei_user_id = user_id, ei_issuer = vc_issuer claims, ei_tenant_id = vc_tenant_id claims,
       ei_provider_user_id = (case vc_object_id claims of Some i \<Rightarrow> Some i | None \<Rightarrow> Some (vc_subject claims)),
       ei_claims_snapshot = vc_raw claims, ei_created_at = now, ei_updated_at = now \<rparr>"

definition link_or_update ::
  "'st host \<Rightarrow> 'st ExternalIdentityStore \<Rightarrow> ValidatedOidcClaims \<Rightarrow> time \<Rightarrow> ExternalIdentity option \<Rightarrow>
   ProvisionedExternalUser \<Rightarrow> ('st, ExternalIdentity) action" where
  "link_or_update H X claims now existing_identity provisioned_user =
     (case existing_identity of
        Some identity \<Rightarrow>
          (let identity = identity \<lparr> ei_claims_snapshot := vc_raw claims, ei_updated_at := now \<rparr> in
           bind (store_call H (\<lambda>_. update_external_identity_claims_snapshot X (ei_provider_name identity)
             (ei_external_subject identity) (vc_raw claims) now)) (\<lambda>_. ret identity))
      | None \<Rightarrow>
          (let identity = new_external_identity claims (pu_user_id provisioned_user) now in
           bind (if pu_link_external_identity provisioned_user
                 then store_call H (\<lambda>_. link_external_identity X identity) else ret ()) (\<lambda>_. ret identity)))"

definition login_session :: "OidcProviderConfig \<Rightarrow> MappedClaims \<Rightarrow> SessionContext" where
  "login_session config mapped_claims =
     (let auth_method = (case oc_provider_kind config of MicrosoftEntra \<Rightarrow> MicrosoftOidc | Generic \<Rightarrow> Oidc) in
      case mp_assurance mapped_claims of
        Some assurance \<Rightarrow> SessionContext_with_assurance (SessionContext_for_auth_method auth_method) assurance
      | None \<Rightarrow> SessionContext_for_auth_method auth_method)"

text \<open>From the identity found to the issued session.\<close>

definition complete_login ::
  "ext \<Rightarrow> 'st host \<Rightarrow> 'st OidcProvider \<Rightarrow> 'st AuthService \<Rightarrow> 'st ExternalIdentityStore \<Rightarrow>
   'st ExternalUserProvisioner \<Rightarrow> 'st ClaimsMapper \<Rightarrow> ClientMetadata \<Rightarrow> OidcCallbackOutcome \<Rightarrow> time \<Rightarrow>
   ExternalIdentity option \<Rightarrow> ('st, OidcLoginResult) action" where
  "complete_login E H P V X provisioner claims_mapper metadata outcome now existing_identity =
     (let claims = co_claims outcome in
     bind (store_call H (claims_mapper claims)) (\<lambda>mapped_claims.
     bind (store_call H (provisioner claims existing_identity mapped_claims)) (\<lambda>provisioned_user.
     bind (require (is_none_or (\<lambda>existing. ei_user_id existing = pu_user_id provisioned_user) existing_identity)
       (ExternalLoginRejected ''provisioner returned a different user for an existing external identity'')) (\<lambda>_.
     bind (link_or_update H X claims now existing_identity provisioned_user) (\<lambda>external_identity.
     bind (issue_session_for_user_with_metadata E H V (pu_user_id provisioned_user) (pu_roles provisioned_user)
       (pu_scopes provisioned_user) (login_session (op_config P) mapped_claims)
       RefreshableTokenMetadata_default metadata) (\<lambda>auth.
       ret \<lparr> lr_auth = auth, lr_claims = claims, lr_external_identity = external_identity,
             lr_token_response = co_token_response outcome, lr_authorization = co_authorization outcome \<rparr>))))))"

definition login_with_callback_in_mode ::
  "ext \<Rightarrow> oidc_lib \<Rightarrow> 'st host \<Rightarrow> 'st OidcProvider \<Rightarrow> 'st AuthService \<Rightarrow> 'st OAuthStateStore \<Rightarrow>
   'st ExternalIdentityStore \<Rightarrow> 'st ExternalUserProvisioner \<Rightarrow> 'st ClaimsMapper \<Rightarrow> OidcCallbackInput \<Rightarrow>
   OAuthResponseMode \<Rightarrow> ClientMetadata \<Rightarrow> ('st, OidcLoginResult) action" where
  "login_with_callback_in_mode E L H P V S X provisioner claims_mapper input delivered_mode metadata =
     bind (handle_callback_in_mode E L H P S input delivered_mode) (\<lambda>outcome.
     bind (now_from H (op_clock P)) (\<lambda>now.
     bind (store_call H (\<lambda>_. find_external_identity X (vc_provider_name (co_claims outcome))
       (vc_external_subject (co_claims outcome)))) (\<lambda>existing_identity.
       complete_login E H P V X provisioner claims_mapper metadata outcome now existing_identity)))"

definition login_with_callback ::
  "ext \<Rightarrow> oidc_lib \<Rightarrow> 'st host \<Rightarrow> 'st OidcProvider \<Rightarrow> 'st AuthService \<Rightarrow> 'st OAuthStateStore \<Rightarrow>
   'st ExternalIdentityStore \<Rightarrow> 'st ExternalUserProvisioner \<Rightarrow> 'st ClaimsMapper \<Rightarrow> OidcCallbackInput \<Rightarrow>
   ClientMetadata \<Rightarrow> ('st, OidcLoginResult) action" where
  "login_with_callback E L H P V S X provisioner claims_mapper input metadata =
     login_with_callback_in_mode E L H P V S X provisioner claims_mapper input Query metadata"

section \<open>Callbacks consume their state once\<close>

text \<open>A host that runs callbacks: a provider whose caches only hold what its endpoints served, a
  contract-abiding state store, and no component that undoes the work of another.\<close>

locale callback_host = provider_host L P H + oauth_state_client lookup S H
  for L :: oidc_lib and P :: "'st OidcProvider" and H :: "'st host"
    and lookup :: "'st \<Rightarrow> string \<times> string \<Rightarrow> OAuthLoginState option" and S :: "'st OAuthStateStore" +
  assumes consume_keeps_caches: "consume_oauth_state S p h t st = (r, st') \<Longrightarrow> caches_ok L P st \<Longrightarrow> caches_ok L P st'"
    and set_caches_keeps_states: "lookup (op_set_caches P c st) = lookup st"
    and get_keeps_states: "get_json (op_http_client P) url n st = (res, st') \<Longrightarrow>
      state_consumed lookup st \<subseteq> state_consumed lookup st'"
    and post_keeps_states: "post_form_json (op_http_client P) url form n st = (res, st') \<Longrightarrow>
      state_consumed lookup st \<subseteq> state_consumed lookup st'"
    and post_headers_keeps_states: "post_form_json_with_headers (op_http_client P) url hs form n st = (res, st') \<Longrightarrow>
      state_consumed lookup st \<subseteq> state_consumed lookup st'"

lemma consumed_callback_state_Inr:
  assumes "consumed_callback_state E L H P S mode raw w = (Inr s, w')"
  obtains w1 where
    "store_call H (\<lambda>_. consume_oauth_state S (oc_provider_name (op_config P)) (hash_oauth_state E raw)
       (h_clock H (op_clock P) (w_tick w))) w1 = (Inr (Some s), w')"
    "w1 = w \<lparr> w_tick := Suc (w_tick w) \<rparr>"
    "\<not> login_state_is_consumed s" "\<not> login_state_is_expired s (h_clock H (op_clock P) (w_tick w))"
    "ls_nonce s \<noteq> []" "ls_response_mode s = mode"
    "\<forall>policy. ls_authorization_policy s = Some policy \<longrightarrow> validate_stored (ol_serialize L) policy = Inr ()"
  using assms unfolding consumed_callback_state_def
  by (auto simp: bind_eq_Inr now_from_eq lift_res_eq require_eq ret_eq ok_or_Inr map_err_Inr split: option.splits)

lemma handle_callback_Inr:
  assumes "handle_callback_in_mode E L H P S input mode w = (Inr out, w')"
  obtains code raw w1 w2 w3 where
    "mode = oc_response_mode (op_config P)" "ci_error input = None" "ci_code input = Some code" "ci_state input = Some raw"
    "consumed_callback_state E L H P S mode raw w = (Inr (co_state out), w1)"
    "exchange_code E L H P code (co_state out) w1 = (Inr (co_token_response out), w2)"
    "validate_id_token E L H P (tr_id_token (co_token_response out)) (ls_nonce (co_state out)) w2 = (Inr (co_claims out), w3)"
    "enforce_authorization_policy E (op_config P) (ls_authorization_policy (co_state out)) (co_claims out)
       (h_clock H (op_clock P) (w_tick w3)) = Inr (co_authorization out)"
    "w' = w3 \<lparr> w_tick := Suc (w_tick w3) \<rparr>"
  using assms unfolding handle_callback_in_mode_def
  by (auto simp: bind_eq_Inr now_from_eq lift_res_eq require_eq ret_eq ok_or_Inr)

sublocale callback_host \<subseteq> flow: provider_frame grows H P
proof
  show "grows st (op_set_caches P c st)" for st c
    by (simp add: grows_def state_consumed_def set_caches_keeps_states)
qed (simp_all add: grows_def get_keeps_states post_keeps_states post_headers_keeps_states)

context callback_host
begin

lemma consumed_callback_state_fresh:
  assumes "consumed_callback_state E L H P S mode raw w = (Inr s, w')"
  defines "k \<equiv> (oc_provider_name (op_config P), hash_oauth_state E raw)"
  shows "k \<notin> state_consumed lookup (w_store w)" "k \<in> state_consumed lookup (w_store w')"
    "lookup (h_interfere H (Suc (w_tick w)) (w_store w)) k = Some s"
    "caches_ok L P (w_store w) \<Longrightarrow> caches_ok L P (w_store w')"
proof -
  from assms(1) obtain w1 t where call: "store_call H (\<lambda>_. consume_oauth_state S (oc_provider_name (op_config P))
      (hash_oauth_state E raw) t) w1 = (Inr (Some s), w')" and w1: "w1 = w \<lparr> w_tick := Suc (w_tick w) \<rparr>"
    by (rule consumed_callback_state_Inr) blast
  from consume_call_found [OF call] w1 show "k \<notin> state_consumed lookup (w_store w)"
    "k \<in> state_consumed lookup (w_store w')" "lookup (h_interfere H (Suc (w_tick w)) (w_store w)) k = Some s"
    by (simp_all add: k_def)
  from call w1 show "caches_ok L P (w_store w')" if "caches_ok L P (w_store w)"
    using that others_keep_caches consume_keeps_caches by (fastforce simp: store_call_eq)
qed

lemma callback_consumes:
  assumes "handle_callback_in_mode E L H P S input mode w = (Inr out, w')"
  obtains raw where "ci_state input = Some raw"
    "(oc_provider_name (op_config P), hash_oauth_state E raw) \<notin> state_consumed lookup (w_store w)"
    "(oc_provider_name (op_config P), hash_oauth_state E raw) \<in> state_consumed lookup (w_store w')"
proof -
  from assms obtain code raw w1 w2 w3 where raw: "ci_state input = Some raw"
    and c: "consumed_callback_state E L H P S mode raw w = (Inr (co_state out), w1)"
    and x: "exchange_code E L H P code (co_state out) w1 = (Inr (co_token_response out), w2)"
    and v: "validate_id_token E L H P (tr_id_token (co_token_response out)) (ls_nonce (co_state out)) w2 = (Inr (co_claims out), w3)"
    and w': "w' = w3 \<lparr> w_tick := Suc (w_tick w3) \<rparr>"
    by (rule handle_callback_Inr) blast
  from withinD [OF flow.within_exchange_code x] withinD [OF flow.within_validate_id_token v] w'
  have "state_consumed lookup (w_store w1) \<subseteq> state_consumed lookup (w_store w')" by (simp add: grows_def)
  with consumed_callback_state_fresh [OF c] raw show ?thesis by (intro that) auto
qed

lemma callback_trusted:
  assumes "id_token_laws L" "caches_ok L P (w_store w)"
    and "handle_callback_in_mode E L H P S input mode w = (Inr out, w')"
  shows "\<exists>c. trusted_id_token L P (tr_id_token (co_token_response out)) (ls_nonce (co_state out)) c \<and>
    claims_of (op_config P) c (co_claims out)"
proof -
  from assms(3) obtain code raw w1 w2 w3
    where c: "consumed_callback_state E L H P S mode raw w = (Inr (co_state out), w1)"
    and x: "exchange_code E L H P code (co_state out) w1 = (Inr (co_token_response out), w2)"
    and v: "validate_id_token E L H P (tr_id_token (co_token_response out)) (ls_nonce (co_state out)) w2 = (Inr (co_claims out), w3)"
    by (rule handle_callback_Inr) blast
  from consumed_callback_state_fresh(4) [OF c assms(2)] have "caches_ok L P (w_store w1)" .
  from cachedD(1) [OF cached_exchange_code this x] have "caches_ok L P (w_store w2)" .
  from cachedD(2) [OF cached_validate_id_token [OF assms(1)] this v] show ?thesis .
qed

end

text \<open>C5: A provider callback is accepted only with proof of the login it belongs to. When handling a
  callback succeeds, on any host whose other tasks and HTTP client respect the stores, the presented
  state named a stored authorization state of this provider that nobody had consumed before and that
  is consumed from then on; it had not expired, carried a nonce, and the response arrived in the mode
  it was requested for. The ID token of the token response was signed with a key that the provider's
  own endpoints served under the key id of the token, with an allowed algorithm, an allowed issuer,
  this client as audience and the nonce of that state; and the policy bound to the state was enforced
  on its claims.\<close>

theorem oidc_callback_sound:
  assumes "callback_host L P H lookup S" "id_token_laws L" "caches_ok L P (w_store w)"
    and "handle_callback_in_mode E L H P S input mode w = (Inr out, w')"
  shows "(\<exists>raw. ci_state input = Some raw \<and>
      (oc_provider_name (op_config P), hash_oauth_state E raw) \<notin> state_consumed lookup (w_store w) \<and>
      (oc_provider_name (op_config P), hash_oauth_state E raw) \<in> state_consumed lookup (w_store w') \<and>
      lookup (h_interfere H (Suc (w_tick w)) (w_store w)) (oc_provider_name (op_config P), hash_oauth_state E raw) =
        Some (co_state out)) \<and>
    (h_clock H (op_clock P) (w_tick w) < ls_expires_at (co_state out) \<and> ls_nonce (co_state out) \<noteq> [] \<and>
      ls_response_mode (co_state out) = mode \<and> mode = oc_response_mode (op_config P)) \<and>
    (\<exists>c. trusted_id_token L P (tr_id_token (co_token_response out)) (ls_nonce (co_state out)) c \<and>
      claims_of (op_config P) c (co_claims out)) \<and>
    (\<exists>now. enforce_authorization_policy E (op_config P) (ls_authorization_policy (co_state out)) (co_claims out) now =
      Inr (co_authorization out))"
    (is "?fresh \<and> ?state \<and> ?token \<and> ?policy")
proof (intro conjI)
  note rely = assms(1)
  from assms(4) obtain raw w1 w3 where mode: "mode = oc_response_mode (op_config P)" and raw: "ci_state input = Some raw"
    and c: "consumed_callback_state E L H P S mode raw w = (Inr (co_state out), w1)"
    and pol: "enforce_authorization_policy E (op_config P) (ls_authorization_policy (co_state out)) (co_claims out)
       (h_clock H (op_clock P) (w_tick w3)) = Inr (co_authorization out)"
    and w': "w' = w3 \<lparr> w_tick := Suc (w_tick w3) \<rparr>"
    by (rule handle_callback_Inr) blast
  from callback_host.callback_consumes [OF rely assms(4)] callback_host.consumed_callback_state_fresh(3) [OF rely c] raw
  show ?fresh by force
  from c show "h_clock H (op_clock P) (w_tick w) < ls_expires_at (co_state out)" "ls_nonce (co_state out) \<noteq> []"
      "ls_response_mode (co_state out) = mode"
    by (rule consumed_callback_state_Inr, auto simp: login_state_is_expired_def)+
  show "mode = oc_response_mode (op_config P)" by (rule mode)
  from callback_host.callback_trusted [OF rely assms(2-4)] show ?token .
  from pol show ?policy by blast
qed

text \<open>C12: A callback cannot be replayed. Once a callback succeeded for a state, no later callback of
  that provider with the same state succeeds, with whatever code, in whatever mode and under any
  interference of other tasks in between, as long as none of them un-consumes states.\<close>

theorem oidc_callback_single_use:
  assumes "callback_host L P H lookup S" "handle_callback_in_mode E L H P S input mode w = (Inr out, w1)"
    and "state_consumed lookup (w_store w1) \<subseteq> state_consumed lookup (w_store w2)" "ci_state later = ci_state input"
  shows "\<exists>e. fst (handle_callback_in_mode E L H P S later mode' w2) = Inl e"
proof (cases "handle_callback_in_mode E L H P S later mode' w2")
  case (Pair r w3)
  from callback_host.callback_consumes [OF assms(1,2)] obtain raw where raw: "ci_state input = Some raw"
    "(oc_provider_name (op_config P), hash_oauth_state E raw) \<in> state_consumed lookup (w_store w1)" by blast
  show ?thesis
  proof (cases r)
    case (Inr out')
    with Pair callback_host.callback_consumes [OF assms(1), of E later mode' w2 out' w3] raw assms(3,4)
    show ?thesis by auto
  qed (use Pair in auto)
qed

section \<open>Logins keep external identities\<close>

text \<open>Outside the keys \<open>A\<close>, an external identity that is linked stays linked to its user.\<close>

definition keeps_users ::
  "('st \<Rightarrow> string \<times> string \<Rightarrow> ExternalIdentity option) \<Rightarrow> (string \<times> string) set \<Rightarrow> 'st \<Rightarrow> 'st \<Rightarrow> bool" where
  "keeps_users links A st st' \<longleftrightarrow>
     (\<forall>k i. k \<notin> A \<and> links st k = Some i \<longrightarrow> (\<exists>i'. links st' k = Some i' \<and> ei_user_id i' = ei_user_id i))"

lemma keeps_users_refl: "keeps_users links A st st"
  by (simp add: keeps_users_def)

lemma keeps_users_trans: "keeps_users links A st1 st2 \<Longrightarrow> keeps_users links A st2 st3 \<Longrightarrow> keeps_users links A st1 st3"
  unfolding keeps_users_def by metis

lemma keeps_users_mono: "keeps_users links {} st st' \<Longrightarrow> keeps_users links A st st'"
  by (simp add: keeps_users_def)

text \<open>A relation that the host of a login respects up to the store of identities.\<close>

locale login_frame = provider_frame R H P
  for R :: "'st \<Rightarrow> 'st \<Rightarrow> bool" and H :: "'st host" and P :: "'st OidcProvider" +
  fixes V :: "'st AuthService" and S :: "'st OAuthStateStore" and provisioner :: "'st ExternalUserProvisioner"
    and claims_mapper :: "'st ClaimsMapper"
  assumes consume_within: "consume_oauth_state S p h t st = (found, st') \<Longrightarrow> R st st'"
    and mapper_within: "claims_mapper claims n st = (mapped, st') \<Longrightarrow> R st st'"
    and provisioner_within: "provisioner claims existing mapped_claims n st = (user, st') \<Longrightarrow> R st st'"
    and insert_within: "insert_refresh_token (sv_refresh_store V) rec st = (inserted, st') \<Longrightarrow> R st st'"
begin

lemma within_handle_callback: "within R (handle_callback_in_mode E L H P S input mode)"
proof -
  have "within R (store_call H (\<lambda>_. consume_oauth_state S p h t))" for p h t
    by (rule within_store_call) (rule consume_within)
  then have "within R (consumed_callback_state E L H P S mode raw)" for raw
    unfolding consumed_callback_state_def by (intro within_bind within_pure)
  then show ?thesis
    unfolding handle_callback_in_mode_def
    by (intro within_bind within_pure within_exchange_code within_validate_id_token)
qed

lemma within_mapper: "within R (store_call H (claims_mapper claims))"
  by (rule within_store_call) (rule mapper_within)

lemma within_provisioner: "within R (store_call H (provisioner claims existing mapped_claims))"
  by (rule within_store_call) (rule provisioner_within)

lemma within_issue_session:
  "within R (issue_session_for_user_with_metadata E H V user roles scopes session md cm)"
proof -
  have "within R (store_call H (\<lambda>_. insert_refresh_token (sv_refresh_store V) rec))" for rec
    by (rule within_store_call) (rule insert_within)
  then show ?thesis
    unfolding issue_session_for_user_with_metadata_def issue_auth_payload_def issue_tokens_only_def
      load_authorization_roles_def Let_def issue_access_token_with_user_def
      issue_access_token_with_user_for_audience_def
    by (auto intro!: within_bind within_pure within_host_call split: option.split prod.split)
qed

end

text \<open>The host of a login: everything but the identity store leaves linked identities with their
  users, a look-up is exact, the snapshot update keeps the user, and linking touches only its own key.\<close>

locale login_host = login_frame "keeps_users links {}" H P V S provisioner claims_mapper
  for links :: "'st \<Rightarrow> string \<times> string \<Rightarrow> ExternalIdentity option" and H :: "'st host" and P :: "'st OidcProvider"
    and V :: "'st AuthService" and S :: "'st OAuthStateStore" and provisioner :: "'st ExternalUserProvisioner"
    and claims_mapper :: "'st ClaimsMapper" +
  fixes X :: "'st ExternalIdentityStore"
  assumes find_reads: "find_external_identity X p s st = (res, st') \<Longrightarrow>
      links st' = links st \<and> (\<forall>found. res = Inr found \<longrightarrow> found = links st (p, s))"
    and update_keeps: "update_external_identity_claims_snapshot X p s c t st = (upd, st') \<Longrightarrow>
      keeps_users links {} st st'"
    and link_own_key: "link_external_identity X i st = (upd, st') \<Longrightarrow>
      k \<noteq> (ei_provider_name i, ei_external_subject i) \<Longrightarrow> links st' k = links st k"

sublocale login_host \<subseteq> but: login_frame "keeps_users links A" H P V S provisioner claims_mapper for A
  by unfold_locales
    (auto intro: keeps_users_refl keeps_users_trans keeps_users_mono interference set_caches_within get_within
      post_within post_headers_within consume_within mapper_within provisioner_within insert_within)

context login_host
begin

lemma within_link_or_update:
  "within (keeps_users links {}) (link_or_update H X claims now (Some i) user)"
  "within (keeps_users links {(vc_provider_name claims, vc_external_subject claims)}) (link_or_update H X claims now None user)"
proof -
  have "within (keeps_users links {}) (store_call H (\<lambda>_. update_external_identity_claims_snapshot X p s c t))" for p s c t
    by (rule within_store_call) (rule update_keeps)
  then show "within (keeps_users links {}) (link_or_update H X claims now (Some i) user)"
    unfolding link_or_update_def Let_def option.case by (intro within_bind within_pure)
  have "within (keeps_users links {(ei_provider_name i, ei_external_subject i)})
      (store_call H (\<lambda>_. link_external_identity X i))" for i
    using link_own_key [of i] by (intro but.within_store_call) (fastforce simp: keeps_users_def)
  from this [of "new_external_identity claims (pu_user_id user) now"]
  show "within (keeps_users links {(vc_provider_name claims, vc_external_subject claims)}) (link_or_update H X claims now None user)"
    unfolding link_or_update_def Let_def option.case
    by (auto intro!: but.within_bind but.within_pure simp: new_external_identity_def)
qed

lemma within_complete_login:
  "within (keeps_users links (if existing = None then {(vc_provider_name (co_claims out), vc_external_subject (co_claims out))} else {}))
     (complete_login E H P V X provisioner claims_mapper md out now existing)"
proof (cases existing)
  case None
  then show ?thesis
    unfolding complete_login_def Let_def
    by (auto intro!: but.within_bind but.within_pure but.within_mapper but.within_provisioner within_link_or_update(2)
        but.within_issue_session)
next
  case (Some i)
  then show ?thesis
    unfolding complete_login_def Let_def
    by (auto intro!: within_bind within_pure within_mapper within_provisioner within_link_or_update(1)
        within_issue_session)
qed

lemma keeps_users_find:
  assumes "store_call H (\<lambda>_. find_external_identity X p s) w = (Inr found, w')"
  shows "keeps_users links {} (w_store w) (w_store w')" "found = links (w_store w') (p, s)"
proof -
  from assms have "find_external_identity X p s (h_interfere H (w_tick w) (w_store w)) = (Inr found, w_store w')"
    by (auto simp: store_call_eq)
  from find_reads [OF this] interference [of "w_store w" "w_tick w"]
  show "keeps_users links {} (w_store w) (w_store w')" "found = links (w_store w') (p, s)"
    by (simp_all add: keeps_users_def)
qed

lemma login_split:
  assumes "login_with_callback_in_mode E L H P V S X provisioner claims_mapper input mode md w = (Inr res, w')"
  obtains out now found w1 where "keeps_users links {} (w_store w) (w_store w1)"
    "found = links (w_store w1) (vc_provider_name (co_claims out), vc_external_subject (co_claims out))"
    "complete_login E H P V X provisioner claims_mapper md out now found w1 = (Inr res, w')"
proof -
  from assms obtain out w2 w3 found w1 where
    h: "handle_callback_in_mode E L H P S input mode w = (Inr out, w2)" and w3: "w3 = w2 \<lparr> w_tick := Suc (w_tick w2) \<rparr>"
    and f: "store_call H (\<lambda>_. find_external_identity X (vc_provider_name (co_claims out)) (vc_external_subject (co_claims out))) w3 = (Inr found, w1)"
    and c: "complete_login E H P V X provisioner claims_mapper md out (h_clock H (op_clock P) (w_tick w2)) found w1 = (Inr res, w')"
    by (auto simp: login_with_callback_in_mode_def bind_eq_Inr now_from_eq)
  from withinD [OF within_handle_callback h] keeps_users_find(1) [OF f] w3
  have "keeps_users links {} (w_store w) (w_store w1)" by (auto intro: keeps_users_trans)
  from that [OF this keeps_users_find(2) [OF f] c] show ?thesis .
qed

end

lemma complete_login_Inr:
  assumes "time_laws E" "complete_login E H P V X provisioner claims_mapper md out now existing w = (Inr res, w')"
  shows "au_user_id (pl_user (lr_auth res)) = ei_user_id (lr_external_identity res) \<and> lr_claims res = co_claims out \<and>
    (\<forall>i. existing = Some i \<longrightarrow> au_user_id (pl_user (lr_auth res)) = ei_user_id i) \<and>
    (existing = None \<longrightarrow> ei_provider_name (lr_external_identity res) = vc_provider_name (co_claims out) \<and>
       ei_external_subject (lr_external_identity res) = vc_external_subject (co_claims out))"
proof -
  have user: "au_user_id (pl_user p) = user"
    if run: "issue_session_for_user_with_metadata E H V user roles scopes session rm cm w1 = (Inr p, w2)" for user roles scopes session rm cm w1 p w2
  proof -
    from run obtain u fam md source w3 where i: "issue_auth_payload E H V u fam md source w3 = (Inr p, w2)" "au_user_id u = user"
      by (auto simp: issue_session_for_user_with_metadata_def bind_eq_Inr)
    from i(1) have "au_user_id (pl_user p) = au_user_id u" by (rule issue_auth_payload_Inr [OF assms(1)])
    with i(2) show ?thesis by simp
  qed
  from assms(2) show ?thesis
    unfolding complete_login_def Let_def
    by (cases existing) (auto simp: bind_eq_Inr require_eq ret_eq link_or_update_def Let_def new_external_identity_def dest!: user)
qed

text \<open>C13: A login never moves an external identity to another user. On any host whose other tasks,
  HTTP client, mapper, provisioner and stores keep existing links, a successful provider login leaves
  every identity that was linked when it started with its user, and issues the session for the user of
  the identity it reports; when the validated external subject was linked before, that is the linked
  user, whatever user the provisioner proposed.\<close>

theorem oidc_login_keeps_links:
  assumes "login_host links H P V S provisioner claims_mapper X" "time_laws E"
    and "login_with_callback_in_mode E L H P V S X provisioner claims_mapper input mode md w = (Inr res, w')"
  shows "(\<forall>k i. links (w_store w) k = Some i \<longrightarrow> (\<exists>i'. links (w_store w') k = Some i' \<and> ei_user_id i' = ei_user_id i)) \<and>
    au_user_id (pl_user (lr_auth res)) = ei_user_id (lr_external_identity res) \<and>
    (\<forall>i. links (w_store w) (vc_provider_name (lr_claims res), vc_external_subject (lr_claims res)) = Some i \<longrightarrow>
       au_user_id (pl_user (lr_auth res)) = ei_user_id i)"
proof -
  from assms(1,3) obtain out now found w1 where before: "keeps_users links {} (w_store w) (w_store w1)"
    and found: "found = links (w_store w1) (vc_provider_name (co_claims out), vc_external_subject (co_claims out))"
    and c: "complete_login E H P V X provisioner claims_mapper md out now found w1 = (Inr res, w')"
    by (rule login_host.login_split)
  note res = complete_login_Inr [OF assms(2) c]
  note after = withinD [OF login_host.within_complete_login [OF assms(1)] c]
  have kept: "\<exists>i'. links (w_store w') k = Some i' \<and> ei_user_id i' = ei_user_id i"
    if "links (w_store w) k = Some i" for k i
  proof -
    from before that obtain i1 where i1: "links (w_store w1) k = Some i1" "ei_user_id i1 = ei_user_id i"
      unfolding keeps_users_def by blast
    with found have "k \<notin> (if found = None then {(vc_provider_name (co_claims out), vc_external_subject (co_claims out))} else {})"
      by auto
    with after i1 show ?thesis unfolding keeps_users_def by metis
  qed
  have "au_user_id (pl_user (lr_auth res)) = ei_user_id i"
    if i: "links (w_store w) (vc_provider_name (lr_claims res), vc_external_subject (lr_claims res)) = Some i" for i
  proof -
    from res i have "links (w_store w) (vc_provider_name (co_claims out), vc_external_subject (co_claims out)) = Some i" by simp
    with before found obtain i1 where "found = Some i1" "ei_user_id i1 = ei_user_id i"
      unfolding keeps_users_def by fastforce
    with res show ?thesis by auto
  qed
  with kept res show ?thesis by blast
qed

section \<open>Mapped authority\<close>

text \<open>The local names a table grants to remote values, in order and with repetitions.\<close>

definition granted :: "local_names \<Rightarrow> string list \<Rightarrow> string list" where
  "granted m remotes = concat (map (\<lambda>r. case map_of m r of Some vs \<Rightarrow> vs | None \<Rightarrow> []) remotes)"

text \<open>The output vector after all the values of \<open>xs\<close> were pushed.\<close>

definition pushed :: "string list \<Rightarrow> seen_output" where
  "pushed xs = (dedupe_from {} xs, set xs)"

lemma dedupe_from_append: "dedupe_from A (xs @ ys) = dedupe_from A xs @ dedupe_from (A \<union> set xs) ys"
  by (induction A xs rule: dedupe_from.induct) (auto simp: insert_absorb)

lemma push_values_pushed: "push_values vs (pushed xs) = pushed (xs @ vs)"
proof (induction vs arbitrary: xs)
  case (Cons v vs)
  from Cons [of "xs @ [v]"] show ?case
    by (auto simp: pushed_def dedupe_from_append insert_absorb)
qed simp

lemma fst_pushed: "fst (pushed xs) = dedupe_from {} xs"
  by (simp add: pushed_def)

lemma granted_Nil: "granted m [] = []"
  by (simp add: granted_def)

lemma push_both_pushed:
  "push_both m n r (pushed xs, pushed ys) = (pushed (xs @ granted m [r]), pushed (ys @ granted n [r]))"
  by (auto simp: push_both_def push_mapped_def granted_def push_values_pushed split: option.split)

lemma fold_push_both:
  "fold (push_both m n) rs (pushed xs, pushed ys) = (pushed (xs @ granted m rs), pushed (ys @ granted n rs))"
proof (induction rs arbitrary: xs ys)
  case (Cons r rs)
  then show ?case by (simp add: push_both_pushed) (simp add: granted_def)
qed (simp add: granted_def)

text \<open>C40: The Microsoft claims mapper grants exactly what its tables say. The local roles and scopes
  of validated claims are those the tables list for the app roles, groups, tenant and object id of the
  claims, in that order and each once; a value without an entry grants nothing, and provider claims
  never satisfy local multi-factor assurance by themselves.\<close>

theorem microsoft_mapping_exact:
  "map_claims m claims =
     \<lparr> mp_roles = dedupe_from {} (granted (mm_role_to_roles m) (vc_roles claims) @
         granted (mm_group_to_roles m) (vc_groups claims) @
         granted (mm_tenant_to_roles m) (case vc_tenant_id claims of Some t \<Rightarrow> [t] | None \<Rightarrow> []) @
         granted (mm_object_id_to_roles m) (case vc_object_id claims of Some i \<Rightarrow> [i] | None \<Rightarrow> [])),
       mp_scopes = dedupe_from {} (granted (mm_role_to_scopes m) (vc_roles claims) @
         granted (mm_group_to_scopes m) (vc_groups claims) @
         granted (mm_tenant_to_scopes m) (case vc_tenant_id claims of Some t \<Rightarrow> [t] | None \<Rightarrow> []) @
         granted (mm_object_id_to_scopes m) (case vc_object_id claims of Some i \<Rightarrow> [i] | None \<Rightarrow> [])),
       mp_assurance = None \<rparr>"
proof -
  have nil: "(([], {}), ([], {})) = (pushed [], pushed [])" by (simp add: pushed_def)
  show ?thesis
    unfolding map_claims_def Let_def nil fold_push_both
    by (cases "vc_tenant_id claims"; cases "vc_object_id claims")
      (simp_all add: push_both_pushed granted_Nil fst_pushed)
qed

text \<open>Configuring a mapping adds one local name to one remote value.\<close>

lemma granted_entry_push:
  "granted (entry_push k v m) [r] = granted m [r] @ (if r = k then [v] else [])"
  by (auto simp: granted_def entry_push_def update_conv' split: option.split)

section \<open>Bound authorization policies\<close>

definition auth_time_required :: "OidcAuthorizationPolicy \<Rightarrow> bool" where
  "auth_time_required p \<longleftrightarrow> pl_max_age_seconds p \<noteq> None \<or> pl_essential_auth_time p"

definition auth_time_recent :: "OidcAuthorizationPolicy \<Rightarrow> int \<Rightarrow> int \<Rightarrow> int \<Rightarrow> bool" where
  "auth_time_recent p skew now t \<longleftrightarrow>
     t \<le> now + skew \<and> (\<forall>m. pl_max_age_seconds p = Some m \<longrightarrow> now - uint m - skew \<le> t)"

text \<open>What the claims must show for a policy, in unbounded arithmetic.\<close>

definition policy_met :: "OidcAuthorizationPolicy \<Rightarrow> int \<Rightarrow> int \<Rightarrow> (time \<Rightarrow> int) \<Rightarrow> ValidatedOidcClaims \<Rightarrow> bool" where
  "policy_met p skew now ts claims \<longleftrightarrow>
     (auth_time_required p \<longrightarrow> (\<exists>t. vc_auth_time claims = Some t \<and> auth_time_recent p skew now (ts t))) \<and>
     (pl_essential_acr_values p \<noteq> [] \<longrightarrow> (\<exists>a \<in> set (pl_essential_acr_values p). vc_acr claims = Some a)) \<and>
     (\<forall>r. pl_essential_acrs_value p = Some r \<longrightarrow> (\<exists>as. vc_acrs claims = Some as \<and> r \<in> set as))"

lemma skew_in_range:
  assumes "in_time_range now" "in_time_range (now + d)" "0 \<le> d"
  shows "0 \<le> whole_seconds d" "whole_seconds d \<le> 631107417600"
proof -
  have "d \<le> seconds 631107417600"
    using assms by (simp add: in_time_range_def MIN_TIME_def MAX_TIME_def seconds_def)
  with whole_seconds_bounds [OF assms(3) this] show "0 \<le> whole_seconds d" "whole_seconds d \<le> 631107417600" by blast+
qed

lemma max_age_small:
  assumes "policy_wf p" "pl_max_age_seconds p = Some m" shows "0 \<le> uint m" "uint m \<le> 31536000"
proof -
  from assms have "m \<le> 31536000" by (simp add: policy_wf_def MAX_OIDC_MAX_AGE_SECONDS_def)
  then show "uint m \<le> 31536000" by (simp add: word_le_def)
qed simp

lemma enforce_auth_time_iff:
  assumes laws: "time_laws E" and wf: "policy_wf p" and now: "in_time_range now"
    and skew: "0 \<le> oc_clock_skew config" "in_time_range (now + oc_clock_skew config)"
  shows "enforce_auth_time E config p claims now = Inr r \<longleftrightarrow>
    (if auth_time_required p
     then \<exists>t. vc_auth_time claims = Some t \<and> r = Some t \<and>
       auth_time_recent p (whole_seconds (oc_clock_skew config)) (unix_timestamp E now) (unix_timestamp E t)
     else r = None)"
proof -
  have ts: "unix_timestamp E now = now div seconds 1" using laws by (simp add: time_laws_def)
  note bounds = skew_in_range [OF now skew(2,1)] in_time_range_timestamp [OF now]
  have later: "checked_i64 (unix_timestamp E now + whole_seconds (oc_clock_skew config)) =
      Some (unix_timestamp E now + whole_seconds (oc_clock_skew config))"
    using bounds by (simp add: ts checked_i64_def is_i64_def I64_MIN_def I64_MAX_def)
  have earlier: "checked_i64 (uint m) = Some (uint m)" "checked_i64 (unix_timestamp E now - uint m) = Some (unix_timestamp E now - uint m)"
      "checked_i64 (unix_timestamp E now - uint m - whole_seconds (oc_clock_skew config)) =
       Some (unix_timestamp E now - uint m - whole_seconds (oc_clock_skew config))"
    if max_age: "pl_max_age_seconds p = Some m" for m
  proof -
    obtain age where age: "uint m = age" "0 \<le> age" "age \<le> 31536000" using max_age_small [OF wf max_age] by blast
    with bounds show "checked_i64 (uint m) = Some (uint m)" "checked_i64 (unix_timestamp E now - uint m) = Some (unix_timestamp E now - uint m)"
      "checked_i64 (unix_timestamp E now - uint m - whole_seconds (oc_clock_skew config)) =
       Some (unix_timestamp E now - uint m - whole_seconds (oc_clock_skew config))"
      by (simp_all add: ts checked_i64_def is_i64_def I64_MIN_def I64_MAX_def)
  qed
  show ?thesis
    by (cases "pl_max_age_seconds p"; cases "vc_auth_time claims")
      (auto simp: enforce_auth_time_def auth_time_required_def auth_time_recent_def Let_def later earlier ok_or_def
        not_less split: if_splits)
qed

text \<open>C15: The policy bound to a login is enforced exactly. For a well-formed policy, a configuration
  with a non-negative clock skew, and an instant that is representable with that skew, the callback's
  enforcement succeeds if and only if the validated claims meet the policy in unbounded arithmetic
  (the checked 64-bit computations neither overflow nor reject), and the outcome then reports that
  policy and the authentication time, \<open>acr\<close> and \<open>acrs\<close> values that were enforced, and only those.\<close>

theorem policy_enforcement_exact:
  assumes "time_laws E" "policy_wf p" "in_time_range now" "0 \<le> oc_clock_skew config"
    "in_time_range (now + oc_clock_skew config)"
  shows "enforce_authorization_policy E config (Some p) claims now = Inr out \<longleftrightarrow>
    policy_met p (whole_seconds (oc_clock_skew config)) (unix_timestamp E now) (unix_timestamp E) claims \<and>
    out = \<lparr> oo_policy = Some p,
      oo_enforced_auth_time = (if auth_time_required p then vc_auth_time claims else None),
      oo_matched_acr = (if pl_essential_acr_values p \<noteq> [] then vc_acr claims else None),
      oo_matched_acrs = pl_essential_acrs_value p \<rparr>"
proof -
  have acr: "enforce_acr p claims = Inr r \<longleftrightarrow>
      (pl_essential_acr_values p \<noteq> [] \<longrightarrow> (\<exists>a \<in> set (pl_essential_acr_values p). vc_acr claims = Some a)) \<and>
      r = (if pl_essential_acr_values p \<noteq> [] then vc_acr claims else None)" for r
    by (cases "vc_acr claims") (auto simp: enforce_acr_def list_ex_iff)
  have acrs: "enforce_acrs p claims = Inr r \<longleftrightarrow>
      (\<forall>q. pl_essential_acrs_value p = Some q \<longrightarrow> (\<exists>as. vc_acrs claims = Some as \<and> q \<in> set as)) \<and>
      r = pl_essential_acrs_value p" for r
    by (cases "vc_acrs claims"; cases "pl_essential_acrs_value p") (auto simp: enforce_acrs_def list_ex_iff)
  show ?thesis
    unfolding enforce_authorization_policy_def option.case bind_res_Inr_iff enforce_auth_time_iff [OF assms(1-5)] acr acrs
    by (cases "auth_time_required p"; cases out) (auto simp: policy_met_def)
qed

section \<open>Authorization requests\<close>

text \<open>Parameter names appear once in the query of a request.\<close>

lemma policy_params_names:
  assumes "policy_params L p = Inr ps" shows "set (map fst ps) \<subseteq> {''prompt'', ''max_age'', ''acr_values'', ''claims''} \<and> distinct (map fst ps)"
proof -
  from assms obtain claims where "ps = (case prompt_parameter p of Some v \<Rightarrow> [(''prompt'', v)] | None \<Rightarrow> []) @
      (case pl_max_age_seconds p of Some v \<Rightarrow> [(''max_age'', show_nat (unat v))] | None \<Rightarrow> []) @
      (case acr_values_parameter p of Some v \<Rightarrow> [(''acr_values'', v)] | None \<Rightarrow> []) @
      (case claims of Some v \<Rightarrow> [(''claims'', v)] | None \<Rightarrow> [])"
    by (auto simp: policy_params_def bind_res_Inr_iff)
  then show ?thesis
    by (cases "prompt_parameter p"; cases "pl_max_age_seconds p"; cases "acr_values_parameter p"; cases claims; simp)
qed

lemma base_params_names:
  "map fst (base_params config state nonce pkce) =
     [''client_id'', ''redirect_uri'', ''response_type'', ''response_mode'', ''scope'', ''state'', ''nonce'',
      ''code_challenge'', ''code_challenge_method'']"
  by (simp add: base_params_def)

lemma request_names:
  assumes "policy = None \<and> ps = [] \<or> (\<exists>p. policy = Some p \<and> policy_params L p = Inr ps)"
  shows "distinct (map fst (base_params config state nonce pkce @ ps))"
    "set (map fst (base_params config state nonce pkce @ ps)) \<subseteq> set RESERVED"
  using assms policy_params_names [of L _ ps] unfolding map_append base_params_names
  by (fastforce simp: RESERVED_def)+

lemma map_of_filter_unique:
  assumes "distinct (map fst xs)" "(k, v) \<in> set xs" "\<forall>(k', v') \<in> set ys. k' \<noteq> k"
  shows "filter (\<lambda>p. fst p = k) (ys @ xs) = [(k, v)]"
proof -
  have "filter (\<lambda>p. fst p = k) ys = []" using assms(3) by (auto simp: filter_empty_conv)
  moreover have "filter (\<lambda>p. fst p = k) xs = [(k, v)]"
    using assms(1,2) by (induction xs) (auto simp: filter_empty_conv rev_image_eqI)
  ultimately show ?thesis by simp
qed

lemma authorization_request_Inr:
  assumes "create_authorization_request_inner E L H P S policy w = (Inr req, w')"
  obtains d w1 w2 extra rnd now s where
    "discover E L H P w = (Inr d, w1)"
    "ensure_no_reserved_authorization_parameters (ol_percent_decode L) (dd_authorization_endpoint d) = Inr ()"
    "s = \<lparr> ls_provider_name = oc_provider_name (op_config P), ls_state_hash = hash_oauth_state E (aq_state req),
         ls_nonce = aq_nonce req, ls_code_verifier = aq_code_verifier req,
         ls_redirect_uri = oc_redirect_uri (op_config P), ls_scopes = oidc_scopes (op_config P),
         ls_authorization_policy = policy, ls_response_mode = oc_response_mode (op_config P),
         ls_created_at = now, ls_expires_at = aq_expires_at req, ls_consumed_at = None \<rparr>"
    "store_call H (\<lambda>_. insert_oauth_state S s) w2 = (Inr (), w')"
    "aq_code_challenge req = pkce_s256_challenge E (aq_code_verifier req)"
    "time_checked_add E now (oc_state_ttl (op_config P)) = Some (aq_expires_at req)"
    "policy = None \<and> extra = [] \<or> (\<exists>p. policy = Some p \<and> policy_params L p = Inr extra)"
    "aq_authorization_url req = append_query (cl_percent_encode (ol_client L)) (dd_authorization_endpoint d)
       (base_params (op_config P) (aq_state req) (aq_nonce req)
          \<lparr> pk_code_verifier = aq_code_verifier req, pk_code_challenge = aq_code_challenge req \<rparr> @ extra)"
    "aq_authorization_policy req = policy"
  using assms unfolding create_authorization_request_inner_def Let_def generate_pkce_pair_def
  by (cases policy) (fastforce simp: bind_eq_Inr now_from_eq random_bytes_eq lift_res_eq ret_eq ok_or_Inr)+

text \<open>Parameters with distinct reserved names, appended to an endpoint without fragment that was checked
  for reserved names, are read back once each.\<close>

lemma appended_parameters_once:
  assumes "percent_law pe" "decode_law pd" "params \<noteq> []" "distinct (map fst params)"
    and "set (map fst params) \<subseteq> set RESERVED" "CHR ''#'' \<notin> set endpoint"
    and "ensure_no_reserved_authorization_parameters pd endpoint = Inr ()"
  shows "(k, v) \<in> set params \<Longrightarrow> filter (\<lambda>p. fst p = k) (query_pairs (append_query pe endpoint params)) = [(k, v)]"
    and "k \<in> set RESERVED \<Longrightarrow> length (filter (\<lambda>p. fst p = k) (query_pairs (append_query pe endpoint params))) \<le> 1"
proof -
  note query = query_pairs_append [OF assms(1,3,6)]
  have absent: "\<forall>(k', v') \<in> set (query_pairs endpoint). k' \<noteq> k" if "k \<in> set RESERVED" for k
    using no_reserved_parameters [OF assms(2,7,6)] that by fastforce
  show once: "filter (\<lambda>p. fst p = k) (query_pairs (append_query pe endpoint params)) = [(k, v)]"
    if "(k, v) \<in> set params" for k v
  proof -
    from that have k: "k \<in> fst ` set params" by (rule rev_image_eqI) simp
    have "k \<in> set RESERVED" by (rule subsetD [OF assms(5) [unfolded set_map] k])
    from map_of_filter_unique [OF assms(4) that absent [OF this]] show ?thesis by (simp add: query)
  qed
  show "length (filter (\<lambda>p. fst p = k) (query_pairs (append_query pe endpoint params))) \<le> 1" if "k \<in> set RESERVED" for k
  proof (cases "k \<in> fst ` set params")
    case True
    then obtain v where "(k, v) \<in> set params" by force
    from once [OF this] show ?thesis by simp
  next
    case False
    with absent [OF that] have "filter (\<lambda>p. fst p = k) (query_pairs (append_query pe endpoint params)) = []"
      unfolding query by (auto simp: filter_empty_conv rev_image_eqI)
    then show ?thesis by simp
  qed
qed

text \<open>C16: An authorization request is bound to its stored state. When a request is created, the store
  holds, under the provider and the hash of the state value sent, an unconsumed state with the nonce,
  policy, redirect and expiry of the request and with the verifier whose S256 hash is the challenge
  sent. If the discovered authorization endpoint has no fragment, every one of the thirteen protocol
  parameters occurs in the URL at most once, whatever the endpoint already had in its query, and the
  values the provider reads for client, redirect, state, nonce and challenge are exactly those of the
  request. If it has a fragment, which the code accepts, the provider sees none of the parameters: the
  query of the URL is that of the endpoint.\<close>

theorem authorization_request_bound:
  assumes "oauth_state_store lookup S" "percent_law (cl_percent_encode (ol_client L))" "decode_law (ol_percent_decode L)"
    and "create_authorization_request_inner E L H P S policy w = (Inr req, w')"
  shows "(\<exists>s. lookup (w_store w') (oc_provider_name (op_config P), hash_oauth_state E (aq_state req)) = Some s \<and>
      ls_nonce s = aq_nonce req \<and> ls_authorization_policy s = policy \<and> ls_expires_at s = aq_expires_at req \<and>
      ls_redirect_uri s = oc_redirect_uri (op_config P) \<and> \<not> login_state_is_consumed s \<and>
      pkce_s256_challenge E (ls_code_verifier s) = aq_code_challenge req) \<and>
    (\<exists>d w1. discover E L H P w = (Inr d, w1) \<and>
      (if CHR ''#'' \<in> set (dd_authorization_endpoint d)
       then query_pairs (aq_authorization_url req) = query_pairs (dd_authorization_endpoint d)
       else
        (\<forall>(k, v) \<in> {(''client_id'', oc_client_id (op_config P)), (''redirect_uri'', oc_redirect_uri (op_config P)),
            (''state'', aq_state req), (''nonce'', aq_nonce req), (''code_challenge'', aq_code_challenge req),
            (''code_challenge_method'', ''S256''), (''response_type'', ''code'')}.
           filter (\<lambda>p. fst p = k) (query_pairs (aq_authorization_url req)) = [(k, v)]) \<and>
        (\<forall>k \<in> set RESERVED. length (filter (\<lambda>p. fst p = k) (query_pairs (aq_authorization_url req))) \<le> 1)))"
proof -
  from assms(4) obtain d w1 w2 extra rnd now s where d: "discover E L H P w = (Inr d, w1)"
    and reserved: "ensure_no_reserved_authorization_parameters (ol_percent_decode L) (dd_authorization_endpoint d) = Inr ()"
    and s: "s = \<lparr> ls_provider_name = oc_provider_name (op_config P), ls_state_hash = hash_oauth_state E (aq_state req),
         ls_nonce = aq_nonce req, ls_code_verifier = aq_code_verifier req,
         ls_redirect_uri = oc_redirect_uri (op_config P), ls_scopes = oidc_scopes (op_config P),
         ls_authorization_policy = policy, ls_response_mode = oc_response_mode (op_config P),
         ls_created_at = now, ls_expires_at = aq_expires_at req, ls_consumed_at = None \<rparr>"
    and ins: "store_call H (\<lambda>_. insert_oauth_state S s) w2 = (Inr (), w')"
    and pkce: "aq_code_challenge req = pkce_s256_challenge E (aq_code_verifier req)"
    and extra: "policy = None \<and> extra = [] \<or> (\<exists>p. policy = Some p \<and> policy_params L p = Inr extra)"
    and url: "aq_authorization_url req = append_query (cl_percent_encode (ol_client L)) (dd_authorization_endpoint d)
       (base_params (op_config P) (aq_state req) (aq_nonce req)
          \<lparr> pk_code_verifier = aq_code_verifier req, pk_code_challenge = aq_code_challenge req \<rparr> @ extra)"
    by (rule authorization_request_Inr) blast
  let ?params = "base_params (op_config P) (aq_state req) (aq_nonce req)
      \<lparr> pk_code_verifier = aq_code_verifier req, pk_code_challenge = aq_code_challenge req \<rparr> @ extra"
  have ps: "?params \<noteq> []" by (simp add: base_params_def)
  from ins have "insert_oauth_state S s (h_interfere H (w_tick w2) (w_store w2)) = (Inr (), w_store w')"
    by (auto simp: store_call_eq)
  from oauth_state_store.insert_stores [OF assms(1) this]
  have stored: "lookup (w_store w') (oc_provider_name (op_config P), hash_oauth_state E (aq_state req)) = Some s"
    by (simp add: s)
  note once = appended_parameters_once [OF assms(2,3) ps request_names [OF extra] _ reserved, folded url]
  have read: "if CHR ''#'' \<in> set (dd_authorization_endpoint d)
     then query_pairs (aq_authorization_url req) = query_pairs (dd_authorization_endpoint d)
     else (\<forall>(k, v) \<in> set ?params. filter (\<lambda>p. fst p = k) (query_pairs (aq_authorization_url req)) = [(k, v)]) \<and>
       (\<forall>k \<in> set RESERVED. length (filter (\<lambda>p. fst p = k) (query_pairs (aq_authorization_url req))) \<le> 1)"
    using once fragment_hides_appended [of "dd_authorization_endpoint d"] by (auto simp: url)
  have state: "\<exists>s. lookup (w_store w') (oc_provider_name (op_config P), hash_oauth_state E (aq_state req)) = Some s \<and>
      ls_nonce s = aq_nonce req \<and> ls_authorization_policy s = policy \<and> ls_expires_at s = aq_expires_at req \<and>
      ls_redirect_uri s = oc_redirect_uri (op_config P) \<and> \<not> login_state_is_consumed s \<and>
      pkce_s256_challenge E (ls_code_verifier s) = aq_code_challenge req"
    using stored pkce by (auto simp: s login_state_is_consumed_def)
  show ?thesis
  proof (rule conjI [OF state], intro exI conjI, rule d)
    show "if CHR ''#'' \<in> set (dd_authorization_endpoint d)
       then query_pairs (aq_authorization_url req) = query_pairs (dd_authorization_endpoint d)
       else
        (\<forall>(k, v) \<in> {(''client_id'', oc_client_id (op_config P)), (''redirect_uri'', oc_redirect_uri (op_config P)),
            (''state'', aq_state req), (''nonce'', aq_nonce req), (''code_challenge'', aq_code_challenge req),
            (''code_challenge_method'', ''S256''), (''response_type'', ''code'')}.
           filter (\<lambda>p. fst p = k) (query_pairs (aq_authorization_url req)) = [(k, v)]) \<and>
        (\<forall>k \<in> set RESERVED. length (filter (\<lambda>p. fst p = k) (query_pairs (aq_authorization_url req))) \<le> 1)"
      using read by (auto simp: base_params_def split: if_splits)
  qed
qed

section \<open>A host with in-memory stores\<close>

text \<open>The stores of the test-suite and the caches of one provider side by side, and an HTTP client that
  serves fixed answers.\<close>

record memory_host =
  mh_caches :: OidcCaches
  mh_states :: MemoryOAuthStateStore
  mh_links :: MemoryExternalIdentityStore

definition on_states :: "(MemoryOAuthStateStore \<Rightarrow> 'a \<times> MemoryOAuthStateStore) \<Rightarrow> memory_host \<Rightarrow> 'a \<times> memory_host" where
  "on_states f st = (case f (mh_states st) of (r, x) \<Rightarrow> (r, st \<lparr> mh_states := x \<rparr>))"

definition on_links :: "(MemoryExternalIdentityStore \<Rightarrow> 'a \<times> MemoryExternalIdentityStore) \<Rightarrow> memory_host \<Rightarrow> 'a \<times> memory_host" where
  "on_links f st = (case f (mh_links st) of (r, x) \<Rightarrow> (r, st \<lparr> mh_links := x \<rparr>))"

definition host_states :: "memory_host OAuthStateStore" where
  "host_states =
     \<lparr> insert_oauth_state = (\<lambda>s. on_states (insert_oauth_state MemoryOAuthStateStore_impl s)),
       consume_oauth_state = (\<lambda>p h t. on_states (consume_oauth_state MemoryOAuthStateStore_impl p h t)),
       expire_oauth_states = (\<lambda>o' t. on_states (expire_oauth_states MemoryOAuthStateStore_impl o' t)) \<rparr>"

definition host_links :: "memory_host ExternalIdentityStore" where
  "host_links =
     \<lparr> find_external_identity = (\<lambda>p s. on_links (find_external_identity MemoryExternalIdentityStore_impl p s)),
       link_external_identity = (\<lambda>i. on_links (link_external_identity MemoryExternalIdentityStore_impl i)),
       update_external_identity_claims_snapshot =
         (\<lambda>p s c t. on_links (update_external_identity_claims_snapshot MemoryExternalIdentityStore_impl p s c t)) \<rparr>"

definition scripted_client :: "(string \<Rightarrow> JsonValue AuthResult) \<Rightarrow> 'st OidcHttpClient" where
  "scripted_client serve =
     \<lparr> get_json = (\<lambda>url n st. (serve url, st)), post_form_json = (\<lambda>url form n st. (serve url, st)),
       supports_request_headers = True, get_json_with_headers = (\<lambda>url hs n st. (serve url, st)),
       post_form_json_with_headers = (\<lambda>url hs form n st. (serve url, st)) \<rparr>"

definition scripted_provider ::
  "OidcProviderConfig \<Rightarrow> (string \<Rightarrow> JsonValue AuthResult) \<Rightarrow> memory_host OidcProvider" where
  "scripted_provider config serve =
     \<lparr> op_config = config, op_http_client = scripted_client serve, op_caches = mh_caches,
       op_set_caches = (\<lambda>c st. st \<lparr> mh_caches := c \<rparr>), op_clock = SystemClock \<rparr>"

abbreviation stored_states :: "memory_host \<Rightarrow> string \<times> string \<Rightarrow> OAuthLoginState option" where
  "stored_states st \<equiv> map_of (mh_states st)"

abbreviation stored_links :: "memory_host \<Rightarrow> string \<times> string \<Rightarrow> ExternalIdentity option" where
  "stored_links st \<equiv> map_of (mh_links st)"

lemma state_consumed_host: "state_consumed stored_states st = state_consumed map_of (mh_states st)"
  by (simp add: state_consumed_def)

lemma host_state_calls:
  "consume_oauth_state host_states p h t st = (r, st') \<Longrightarrow>
     \<exists>x. consume_oauth_state MemoryOAuthStateStore_impl p h t (mh_states st) = (r, x) \<and> st' = st \<lparr> mh_states := x \<rparr>"
  "insert_oauth_state host_states s st = (u, st') \<Longrightarrow>
     \<exists>x. insert_oauth_state MemoryOAuthStateStore_impl s (mh_states st) = (u, x) \<and> st' = st \<lparr> mh_states := x \<rparr>"
  by (auto simp: host_states_def on_states_def split: prod.splits)

interpretation hs: oauth_state_store stored_states host_states
proof
  fix p h t st s st'
  assume "consume_oauth_state host_states p h t st = (Inr (Some s), st')"
  then obtain x where "consume_oauth_state MemoryOAuthStateStore_impl p h t (mh_states st) = (Inr (Some s), x)"
    "st' = st \<lparr> mh_states := x \<rparr>" by (blast dest: host_state_calls)
  with mos.consume_found show "stored_states st (p, h) = Some s \<and> \<not> login_state_is_consumed s \<and>
      stored_states st' (p, h) = Some (s \<lparr> ls_consumed_at := Some t \<rparr>)" by force
next
  fix p h t st r st'
  assume "consume_oauth_state host_states p h t st = (r, st')"
  then obtain x where "consume_oauth_state MemoryOAuthStateStore_impl p h t (mh_states st) = (r, x)"
    "st' = st \<lparr> mh_states := x \<rparr>" by (blast dest: host_state_calls)
  with mos.consume_keeps show "state_consumed stored_states st \<subseteq> state_consumed stored_states st'"
    by (force simp: state_consumed_host)
next
  fix s st st'
  assume "insert_oauth_state host_states s st = (Inr (), st')"
  then obtain x where "insert_oauth_state MemoryOAuthStateStore_impl s (mh_states st) = (Inr (), x)"
    "st' = st \<lparr> mh_states := x \<rparr>" by (blast dest: host_state_calls)
  with mos.insert_stores show "stored_states st' = (stored_states st)((ls_provider_name s, ls_state_hash s) \<mapsto> s)" by force
qed

lemma scripted_simps [simp]:
  "get_json (scripted_client serve) url n st = (serve url, st)"
  "post_form_json (scripted_client serve) url form n st = (serve url, st)"
  "get_json_with_headers (scripted_client serve) url hs n st = (serve url, st)"
  "post_form_json_with_headers (scripted_client serve) url hs form n st = (serve url, st)"
  "op_config (scripted_provider config serve) = config"
  "op_http_client (scripted_provider config serve) = scripted_client serve"
  "op_caches (scripted_provider config serve) = mh_caches"
  "op_set_caches (scripted_provider config serve) c st = st \<lparr> mh_caches := c \<rparr>"
  "op_clock (scripted_provider config serve) = SystemClock"
  by (simp_all add: scripted_client_def scripted_provider_def)

lemma idle_host_interfere [simp]: "h_interfere idle_host n st = st"
  by (simp add: idle_host_def)

interpretation mh: callback_host L "scripted_provider config serve" idle_host stored_states host_states for L config serve
  by unfold_locales (auto simp: caches_ok_def dest!: host_state_calls)

text \<open>A provisioner that answers from the claims, and a service whose issuance leaves the identities
  alone.\<close>

definition static_provisioner ::
  "(ValidatedOidcClaims \<Rightarrow> ExternalIdentity option \<Rightarrow> ProvisionedExternalUser AuthResult) \<Rightarrow> memory_host ExternalUserProvisioner" where
  "static_provisioner answer claims existing mapped n st = (answer claims existing, st)"

lemma inert_insert [simp]: "insert_refresh_token (sv_refresh_store (inert_service J)) t st = (Inr (), st)"
  by (simp add: inert_service_def demo_service_def)

lemma host_link_calls:
  "find_external_identity host_links p s st = (found, st') \<Longrightarrow> found = Inr (stored_links st (p, s)) \<and> st' = st"
  "link_external_identity host_links i st = (u, st') \<Longrightarrow>
     stored_links st' = (stored_links st)((ei_provider_name i, ei_external_subject i) \<mapsto> i)"
  by (auto simp: host_links_def on_links_def MemoryExternalIdentityStore_impl_def memory_find_external_identity_def
      memory_link_external_identity_def update_conv' split: prod.splits)

lemma map_of_map_entry: "map_of (AList.map_entry k f m) = (map_of m)(k := map_option f (map_of m k))"
  by (induction m) auto

lemma host_update_keeps:
  "update_external_identity_claims_snapshot host_links p s c t st = (u, st') \<Longrightarrow> keeps_users stored_links {} st st'"
  by (auto simp: host_links_def on_links_def MemoryExternalIdentityStore_impl_def memory_update_external_identity_def
      keeps_users_def map_of_map_entry split: prod.splits)

interpretation lh: login_host stored_links idle_host "scripted_provider config serve" "inert_service J" host_states
    "static_provisioner answer" "MicrosoftClaimsMapper_impl m" host_links for config serve J answer m
proof
  fix p h t st r st'
  assume "consume_oauth_state host_states p h t st = (r, st')"
  then show "keeps_users stored_links {} st st'" by (auto simp: keeps_users_def dest!: host_state_calls)
next
  fix i st u st' k
  assume "link_external_identity host_links i st = (u, st')" "k \<noteq> (ei_provider_name i, ei_external_subject i)"
  with host_link_calls(2) [OF this(1)] show "stored_links st' k = stored_links st k" by simp
qed (auto simp: keeps_users_refl MicrosoftClaimsMapper_impl_def static_provisioner_def intro: keeps_users_trans
    host_update_keeps simp add: keeps_users_def [of _ _ _ "_ \<lparr> mh_caches := _ \<rparr>"] dest: host_link_calls(1))

section \<open>A concrete login\<close>

definition idp_config :: OidcProviderConfig where
  "idp_config = OidcProviderConfig_new ''idp'' ''https://idp/discovery'' ''client'' ''https://app/cb''"

definition idp_document :: OidcDiscoveryDocument where
  "idp_document = \<lparr> dd_issuer = ''https://idp'', dd_authorization_endpoint = ''https://idp/auth?tenant=t'',
     dd_token_endpoint = ''https://idp/token'', dd_jwks_uri = ''https://idp/keys'', dd_raw = JNull \<rparr>"

definition idp_serve :: "string \<Rightarrow> JsonValue AuthResult" where
  "idp_serve url =
     (if url = ''https://idp/discovery'' then Inr (JString ''document'')
      else if url = ''https://idp/keys'' then Inr (JString ''keys'')
      else if url = ''https://idp/token'' then Inr (JString ''tokens'')
      else Inl AuthServiceUnavailable)"

definition idp_key :: OidcJwk where
  "idp_key = \<lparr> oj_key_id = Some ''k1'', oj_public_key_use = Some UseSignature, oj_key_operations = None,
     oj_key_algorithm = Some ''RS256'', oj_material = ''n'' \<rparr>"

definition idp_claims :: RawOidcIdTokenClaims where
  "idp_claims = \<lparr> rc_iss = ''https://idp'', rc_aud = One ''client'', rc_sub = ''alice'', rc_exp = 600, rc_nbf = None,
     rc_iat = 0, rc_auth_time = Some 0, rc_amr = None, rc_acr = None, rc_acrs = None, rc_nonce = Some ''nonce'',
     rc_azp = None, rc_tid = None, rc_oid = None, rc_email = None, rc_name = None, rc_preferred_username = None,
     rc_roles = [], rc_groups = [], rc_extra = [] \<rparr>"

definition idp_tokens :: OidcTokenResponse where
  "idp_tokens = \<lparr> tr_access_token = None, tr_refresh_token = None, tr_id_token = ''id'', tr_token_type = None,
     tr_expires_in = None, tr_scope = None, tr_raw = JNull \<rparr>"

definition idp_lib :: oidc_lib where
  "idp_lib = \<lparr> ol_client = demo_client_lib, ol_percent_decode = percent_decode, ol_serialize = (\<lambda>_. Some []),
     ol_parse_discovery = (\<lambda>raw. if raw = JString ''document'' then Some idp_document else None),
     ol_parse_jwks = (\<lambda>raw. if raw = JString ''keys'' then Some [idp_key] else None),
     ol_find_jwk = (\<lambda>ks kid. find (\<lambda>k. oj_key_id k = Some kid) ks),
     ol_parse_token_response = (\<lambda>raw. if raw = JString ''tokens'' then Some idp_tokens else None),
     ol_key_from_jwk = (\<lambda>k. Some (DecodingRsaComponents (oj_material k) ''e'')),
     ol_algorithm_from_str = (\<lambda>s. if s = ''RS256'' then Some RS256 else None),
     ol_id_token = table_codec (\<lambda>_ _. True) rc_iss (\<lambda>c. aud_json (rc_aud c)) rc_exp
       [(''id'', \<lparr> hd_alg = RS256, hd_kid = Some ''k1'' \<rparr>, idp_claims, EncodingRsaPem ''n'')],
     ol_claims_to_value = (\<lambda>_. Some JNull) \<rparr>"

definition idp_policy :: OidcAuthorizationPolicy where
  "idp_policy = \<lparr> pl_version = 1, pl_prompt = [], pl_max_age_seconds = Some 300, pl_acr_values = [],
     pl_essential_auth_time = True, pl_essential_acr_values = [], pl_essential_acrs_value = None \<rparr>"

definition idp_state :: OAuthLoginState where
  "idp_state = \<lparr> ls_provider_name = ''idp'', ls_state_hash = hash_oauth_state std_ext ''s'', ls_nonce = ''nonce'',
     ls_code_verifier = ''v'', ls_redirect_uri = ''https://app/cb'', ls_scopes = [''openid''],
     ls_authorization_policy = Some idp_policy, ls_response_mode = Query, ls_created_at = 0,
     ls_expires_at = seconds 600, ls_consumed_at = None \<rparr>"

definition idp_identity :: ExternalIdentity where
  "idp_identity = \<lparr> ei_provider_name = ''idp'', ei_external_subject = ''https://idp:alice'', ei_user_id = ''u1'',
     ei_issuer = ''https://idp'', ei_tenant_id = None, ei_provider_user_id = Some ''alice'',
     ei_claims_snapshot = JNull, ei_created_at = 0, ei_updated_at = 0 \<rparr>"

definition idp_world :: "memory_host world" where
  "idp_world = \<lparr> w_store = \<lparr> mh_caches = empty_caches,
       mh_states = [((''idp'', hash_oauth_state std_ext ''s''), idp_state)],
       mh_links = [((''idp'', ''https://idp:alice''), idp_identity)] \<rparr>, w_tick = 0, w_fresh = 0 \<rparr>"

abbreviation idp_provider :: "memory_host OidcProvider" where
  "idp_provider \<equiv> scripted_provider idp_config idp_serve"

definition idp_callback :: "OidcCallbackOutcome AuthResult \<times> memory_host world" where
  "idp_callback = handle_callback_in_mode std_ext idp_lib idle_host idp_provider host_states
     (code_and_state ''c'' ''s'') Query idp_world"

lemma idp_callback_succeeds: "\<exists>out w'. idp_callback = (Inr out, w')"
proof -
  have "is_ok (fst idp_callback)" by code_simp
  then show ?thesis unfolding is_ok_iff by (metis prod.collapse)
qed

lemma idp_laws:
  "id_token_laws idp_lib" "caches_ok L idp_provider (w_store idp_world)"
  by (auto simp: id_token_laws_def idp_lib_def idp_world_def caches_ok_def empty_caches_def intro!: exI table_codec_laws)

theorem oidc_callback_sound_witness:
  "\<exists>out w'. idp_callback = (Inr out, w') \<and>
     (''idp'', hash_oauth_state std_ext ''s'') \<notin> state_consumed stored_states (w_store idp_world) \<and>
     (''idp'', hash_oauth_state std_ext ''s'') \<in> state_consumed stored_states (w_store w') \<and>
     (\<exists>c. trusted_id_token idp_lib idp_provider (tr_id_token (co_token_response out)) (ls_nonce (co_state out)) c)"
proof -
  obtain out w' where run: "idp_callback = (Inr out, w')" using idp_callback_succeeds by blast
  note sound = oidc_callback_sound [OF mh.callback_host_axioms idp_laws(1) idp_laws(2) run [unfolded idp_callback_def]]
  have name: "oc_provider_name (op_config idp_provider) = ''idp''" by (simp add: idp_config_def OidcProviderConfig_new_def)
  have raw: "ci_state (code_and_state ''c'' ''s'') = Some ''s''" by (simp add: code_and_state_def)
  from sound run show ?thesis unfolding name raw by blast
qed

theorem oidc_callback_single_use_witness:
  "\<exists>out w1 e. idp_callback = (Inr out, w1) \<and>
     fst (handle_callback_in_mode std_ext idp_lib idle_host idp_provider host_states (code_and_state ''c2'' ''s'') Query w1) = Inl e"
proof -
  obtain out w1 where run: "idp_callback = (Inr out, w1)" using idp_callback_succeeds by blast
  have "ci_state (code_and_state ''c2'' ''s'') = ci_state (code_and_state ''c'' ''s'')" by (simp add: code_and_state_def)
  with oidc_callback_single_use [OF mh.callback_host_axioms run [unfolded idp_callback_def] subset_refl this] run
  show ?thesis by blast
qed

text \<open>A service whose token library signs any claims.\<close>

definition signing_jwt :: jwt_lib where
  "signing_jwt = (demo_jwt [] []) \<lparr> jl_access := (jl_access (demo_jwt [] [])) \<lparr> jwt_encode := (\<lambda>_ _ _. Inr ''token'') \<rparr> \<rparr>"

definition idp_login :: "OidcLoginResult AuthResult \<times> memory_host world" where
  "idp_login = login_with_callback_in_mode std_ext idp_lib idle_host idp_provider (inert_service signing_jwt) host_states
     host_links (static_provisioner (\<lambda>claims existing. Inr (ProvisionedExternalUser_new ''u1'' [''member''] [])))
     (MicrosoftClaimsMapper_impl MicrosoftClaimsMapper_new) (code_and_state ''c'' ''s'') Query
     \<lparr> cm_ip_address = None, cm_user_agent = None \<rparr> idp_world"

lemma idp_callback_result:
  "\<exists>out w1. idp_callback = (Inr out, w1) \<and> vc_external_subject (co_claims out) = ''https://idp:alice'' \<and>
     vc_provider_name (co_claims out) = ''idp'' \<and>
     stored_links (w_store w1) (''idp'', ''https://idp:alice'') = Some idp_identity"
proof -
  have "(case fst idp_callback of Inr out \<Rightarrow> vc_external_subject (co_claims out) = ''https://idp:alice'' \<and>
      vc_provider_name (co_claims out) = ''idp'' | Inl _ \<Rightarrow> False)" by code_simp
  moreover have "stored_links (w_store (snd idp_callback)) (''idp'', ''https://idp:alice'') = Some idp_identity" by code_simp
  ultimately show ?thesis by (cases "fst idp_callback") (auto simp: prod_eq_iff)
qed

lemma signing_service_simps:
  "sv_config (inert_service signing_jwt) = demo_config \<lparr> cf_rate_limits :=
     \<lparr> rc_credential = AuthRateLimitPolicy_disabled, rc_request = AuthRateLimitPolicy_disabled \<rparr> \<rparr>"
  "sv_additional_token_roles_provider (inert_service signing_jwt) = None"
  "encode_local_jwt (inert_service signing_jwt) (jl_access signing_jwt) claims = Inr ''token''"
  by (simp_all add: inert_service_def demo_service_def encode_local_jwt_def signing_jwt_def Let_def)

lemma signing_service_issues:
  "\<exists>p w'. issue_session_for_user_with_metadata std_ext idle_host (inert_service signing_jwt) user roles []
     (SessionContext_for_auth_method m) RefreshableTokenMetadata_default md w = (Inr p, w')"
proof -
  have times: "checked_jwt_expiry std_ext 0 (seconds 900) ''access-token ttl'' = Inr (seconds 900)"
    "checked_expiry std_ext 0 (seconds 2592000) ''refresh-token ttl'' = Inr (seconds 2592000)"
    "issued_scope_claims [] Standard = Inr (None, None)" "valid_authorization_role_set []"
    by code_simp+
  have clock: "h_clock idle_host c n = 0" for c n by (simp add: idle_host_def)
  show ?thesis
    by (simp add: issue_session_for_user_with_metadata_def issue_auth_payload_def issue_tokens_only_def
        load_authorization_roles_def issue_access_token_with_user_def issue_access_token_with_user_for_audience_def
        SessionContext_for_auth_method_def session_claims_def AccessTokenMetadata_default_def service_dedupe_stable_def
        signing_service_simps demo_config_simps times clock bind_def ret_def lift_res_def require_def new_uuid_def
        random_bytes_def now_from_def store_call_def Let_def)
qed

lemma idp_login_succeeds: "\<exists>res w'. idp_login = (Inr res, w') \<and> vc_external_subject (lr_claims res) = ''https://idp:alice'' \<and>
    vc_provider_name (lr_claims res) = ''idp''"
proof -
  obtain out w1 where out: "idp_callback = (Inr out, w1)" "vc_external_subject (co_claims out) = ''https://idp:alice''"
    "vc_provider_name (co_claims out) = ''idp''" "stored_links (w_store w1) (''idp'', ''https://idp:alice'') = Some idp_identity"
    using idp_callback_result by blast
  have "fst (find_external_identity host_links ''idp'' ''https://idp:alice'' st) =
      Inr (stored_links st (''idp'', ''https://idp:alice''))" "snd (find_external_identity host_links ''idp'' ''https://idp:alice'' st) = st" for st
    using host_link_calls(1) [OF surjective_pairing] by auto
  then have found: "find_external_identity host_links ''idp'' ''https://idp:alice'' (w_store w1) = (Inr (Some idp_identity), w_store w1)"
    using out(4) by (simp add: prod_eq_iff)
  have upd: "\<exists>st'. update_external_identity_claims_snapshot host_links p s c t st = (Inr (), st')" for p s c t st
    by (simp add: host_links_def on_links_def MemoryExternalIdentityStore_impl_def memory_update_external_identity_def)
  have user: "ei_user_id idp_identity = ''u1''" by (simp add: idp_identity_def)
  have session: "login_session idp_config (map_claims MicrosoftClaimsMapper_new claims) = SessionContext_for_auth_method Oidc" for claims
    by (simp add: login_session_def map_claims_def Let_def idp_config_def OidcProviderConfig_new_def)
  obtain st' where st': "update_external_identity_claims_snapshot host_links (ei_provider_name idp_identity)
      (ei_external_subject idp_identity) (vc_raw (co_claims out)) 0 (w_store w1) = (Inr (), st')"
    using upd by blast
  define w2 where "w2 = w1 \<lparr> w_store := st', w_tick := Suc (Suc (Suc (Suc (Suc (w_tick w1))))) \<rparr>"
  obtain p w' where p: "issue_session_for_user_with_metadata std_ext idle_host (inert_service signing_jwt) ''u1'' [''member''] []
     (SessionContext_for_auth_method Oidc) RefreshableTokenMetadata_default \<lparr> cm_ip_address = None, cm_user_agent = None \<rparr> w2 = (Inr p, w')"
    using signing_service_issues by blast
  have clock: "h_clock idle_host c n = 0" for c n by (simp add: idle_host_def)
  show ?thesis
    unfolding idp_login_def login_with_callback_in_mode_def
    using out(1) [unfolded idp_callback_def] p [unfolded w2_def]
    by (simp add: bind_def now_from_def store_call_def found out(2,3) complete_login_def MicrosoftClaimsMapper_impl_def
        static_provisioner_def ProvisionedExternalUser_new_def require_def ret_def user link_or_update_def st' clock
        session Let_def)
qed

theorem oidc_login_keeps_links_witness:
  "\<exists>res w' i. idp_login = (Inr res, w') \<and> au_user_id (pl_user (lr_auth res)) = ''u1'' \<and>
     stored_links (w_store w') (''idp'', ''https://idp:alice'') = Some i \<and> ei_user_id i = ''u1''"
proof -
  obtain res w' where run: "idp_login = (Inr res, w')" and key: "vc_external_subject (lr_claims res) = ''https://idp:alice''"
    "vc_provider_name (lr_claims res) = ''idp''" using idp_login_succeeds by blast
  have link: "stored_links (w_store idp_world) (''idp'', ''https://idp:alice'') = Some idp_identity" "ei_user_id idp_identity = ''u1''"
    by (simp_all add: idp_world_def idp_identity_def)
  from oidc_login_keeps_links [OF lh.login_host_axioms std_ext_time_laws run [unfolded idp_login_def]] link key run
  show ?thesis by metis
qed

lemma idp_policy_wf: "policy_wf idp_policy"
  by (simp add: policy_wf_def idp_policy_def MAX_OIDC_MAX_AGE_SECONDS_def prompts_ok_def values_ok_Nil)

definition idp_validated :: "time option \<Rightarrow> ValidatedOidcClaims" where
  "idp_validated t = \<lparr> vc_provider_name = ''idp'', vc_issuer = ''https://idp'', vc_audiences = [''client''],
     vc_subject = ''alice'', vc_external_subject = ''https://idp:alice'', vc_expires_at = seconds 600, vc_not_before = None,
     vc_issued_at = 0, vc_auth_time = t, vc_amr = None, vc_acr = None, vc_acrs = None, vc_nonce = ''nonce'',
     vc_tenant_id = None, vc_object_id = None, vc_email = None, vc_email_verified = None, vc_name = None,
     vc_preferred_username = None, vc_roles = [], vc_groups = [], vc_raw = JNull \<rparr>"

text \<open>With an age limit of 300 seconds and a skew of 60, an authentication 360 seconds ago is accepted
  and one of 361 seconds ago is not.\<close>

theorem policy_enforcement_exact_witness:
  "(\<exists>out. enforce_authorization_policy std_ext idp_config (Some idp_policy) (idp_validated (Some (seconds 140))) (seconds 500) = Inr out) \<and>
   \<not> (\<exists>out. enforce_authorization_policy std_ext idp_config (Some idp_policy) (idp_validated (Some (seconds 139))) (seconds 500) = Inr out)"
proof -
  have range: "in_time_range (seconds 500)" "0 \<le> oc_clock_skew idp_config" "in_time_range (seconds 500 + oc_clock_skew idp_config)"
    by (simp_all add: in_time_range_def MIN_TIME_def MAX_TIME_def seconds_def idp_config_def OidcProviderConfig_new_def)
  have skew: "whole_seconds (oc_clock_skew idp_config) = 60" "unix_timestamp std_ext (seconds n) = n" for n
    by (simp_all add: idp_config_def OidcProviderConfig_new_def whole_seconds_def seconds_def std_ext_simps)
  have "policy_met idp_policy 60 500 (unix_timestamp std_ext) (idp_validated (Some (seconds 140)))"
    "\<not> policy_met idp_policy 60 500 (unix_timestamp std_ext) (idp_validated (Some (seconds 139)))"
    by (simp_all add: policy_met_def idp_policy_def auth_time_required_def auth_time_recent_def idp_validated_def skew)
  then show ?thesis
    unfolding policy_enforcement_exact [OF std_ext_time_laws idp_policy_wf range] skew by blast
qed

definition idp_request :: "OidcAuthorizationRequest AuthResult \<times> memory_host world" where
  "idp_request = create_authorization_request_inner std_ext idp_lib idle_host idp_provider host_states (Some idp_policy) idp_world"

lemma idp_discover:
  "\<exists>w1. discover std_ext idp_lib idle_host idp_provider idp_world = (Inr (idp_document \<lparr> dd_raw := JString ''document'' \<rparr>), w1)"
proof -
  have "fst (discover std_ext idp_lib idle_host idp_provider idp_world) = Inr (idp_document \<lparr> dd_raw := JString ''document'' \<rparr>)"
    by code_simp
  then show ?thesis by (metis prod.collapse)
qed

lemma idp_request_succeeds: "\<exists>req w'. idp_request = (Inr req, w')"
proof -
  obtain w1 where d: "discover std_ext idp_lib idle_host idp_provider idp_world =
      (Inr (idp_document \<lparr> dd_raw := JString ''document'' \<rparr>), w1)" using idp_discover by blast
  have checks: "ensure_no_reserved_authorization_parameters (ol_percent_decode idp_lib) ''https://idp/auth?tenant=t'' = Inr ()"
    "time_checked_add std_ext 0 (oc_state_ttl idp_config) = Some (seconds 600)" by code_simp+
  have "is_ok (policy_params idp_lib idp_policy)"
    by (simp add: policy_params_def claims_parameter_def idp_policy_def idp_lib_def MAX_OIDC_CLAIMS_REQUEST_LENGTH_def)
  then obtain extra where extra: "policy_params idp_lib idp_policy = Inr extra" by (auto simp: is_ok_iff)
  have clock: "h_clock idle_host c n = 0" for c n by (simp add: idle_host_def)
  show ?thesis
    unfolding idp_request_def create_authorization_request_inner_def
    by (simp add: bind_def d lift_res_def random_bytes_def now_from_def store_call_def ret_def Let_def checks extra clock
        idp_document_def host_states_def on_states_def MemoryOAuthStateStore_impl_def memory_insert_oauth_state_def)
qed

theorem authorization_request_bound_witness:
  "\<exists>req w' s. idp_request = (Inr req, w') \<and>
     stored_states (w_store w') (''idp'', hash_oauth_state std_ext (aq_state req)) = Some s \<and>
     pkce_s256_challenge std_ext (ls_code_verifier s) = aq_code_challenge req \<and>
     filter (\<lambda>p. fst p = ''state'') (query_pairs (aq_authorization_url req)) = [(''state'', aq_state req)]"
proof -
  obtain req w' where run: "idp_request = (Inr req, w')" using idp_request_succeeds by blast
  have laws: "percent_law (cl_percent_encode (ol_client idp_lib))" "decode_law (ol_percent_decode idp_lib)"
    by (simp_all add: idp_lib_def demo_client_lib_def percent_encode_law decode_law_def)
  have name: "oc_provider_name (op_config idp_provider) = ''idp''" by (simp add: idp_config_def OidcProviderConfig_new_def)
  obtain w1 where d: "discover std_ext idp_lib idle_host idp_provider idp_world =
      (Inr (idp_document \<lparr> dd_raw := JString ''document'' \<rparr>), w1)" using idp_discover by blast
  have "CHR ''#'' \<notin> set (dd_authorization_endpoint (idp_document \<lparr> dd_raw := JString ''document'' \<rparr>))"
    by (simp add: idp_document_def)
  with authorization_request_bound [OF hs.oauth_state_store_axioms laws run [unfolded idp_request_def]] run d
  show ?thesis unfolding name by auto
qed

end
