(* ===== verification/Oauth2.thy ===== *)
theory Oauth2
  imports Oidc_Login
begin

text \<open>
  OAuth 2.0 providers without OpenID Connect (\<open>src/oauth2.rs\<close>): configuration and its validation,
  authorization requests, the callback with token exchange, and the user profile with its verified
  e-mail address. JSON pointers and number accessors belong to \<open>serde_json\<close> and are parameters.
\<close>

section \<open>Data\<close>

definition MAX_OAUTH2_SUBJECT_LENGTH :: nat where "MAX_OAUTH2_SUBJECT_LENGTH = 255"
definition MAX_OAUTH2_VERIFIED_EMAIL_ENTRIES :: nat where "MAX_OAUTH2_VERIFIED_EMAIL_ENTRIES = 100"

datatype OAuth2EmailVerification = UnknownVerification | VerifiedPointer string | ProviderVerifiesAll

record OAuth2ProfileMapping =
  pm_subject_pointer :: string
  pm_email_pointer :: "string option"
  pm_email_verification :: OAuth2EmailVerification
  pm_name_pointer :: "string option"
  pm_picture_pointer :: "string option"

definition OAuth2ProfileMapping_default :: OAuth2ProfileMapping where
  "OAuth2ProfileMapping_default =
     \<lparr> pm_subject_pointer = ''/sub'', pm_email_pointer = Some ''/email'',
       pm_email_verification = VerifiedPointer ''/email_verified'', pm_name_pointer = Some ''/name'',
       pm_picture_pointer = Some ''/picture'' \<rparr>"

datatype OAuth2VerifiedEmailSelection = PrimaryVerified | FirstVerified

record OAuth2VerifiedEmailList =
  el_endpoint :: string
  el_entries_pointer :: "string option"
  el_email_pointer :: string
  el_verified_pointer :: string
  el_primary_pointer :: "string option"
  el_selection :: OAuth2VerifiedEmailSelection

definition primary_verified :: "string \<Rightarrow> OAuth2VerifiedEmailList" where
  "primary_verified endpoint =
     \<lparr> el_endpoint = endpoint, el_entries_pointer = None, el_email_pointer = ''/email'',
       el_verified_pointer = ''/verified'', el_primary_pointer = Some ''/primary'',
       el_selection = PrimaryVerified \<rparr>"

record OAuth2ProviderConfig =
  ac_provider_name :: string
  ac_authorization_endpoint :: string
  ac_token_endpoint :: string
  ac_userinfo_endpoint :: string
  ac_client_id :: string
  ac_client_secret :: "string option"
  ac_client_jwt :: "ClientJwtSigner option"
  ac_token_endpoint_auth_method :: TokenEndpointAuthMethod
  ac_redirect_uri :: string
  ac_scopes :: "string list"
  ac_state_ttl :: duration
  ac_profile :: OAuth2ProfileMapping
  ac_verified_email_list :: "OAuth2VerifiedEmailList option"

definition OAuth2ProviderConfig_new ::
  "string \<Rightarrow> string \<Rightarrow> string \<Rightarrow> string \<Rightarrow> string \<Rightarrow> string \<Rightarrow> OAuth2ProviderConfig" where
  "OAuth2ProviderConfig_new provider_name authorization_endpoint token_endpoint userinfo_endpoint client_id redirect_uri =
     \<lparr> ac_provider_name = provider_name, ac_authorization_endpoint = authorization_endpoint,
       ac_token_endpoint = token_endpoint, ac_userinfo_endpoint = userinfo_endpoint,
       ac_client_id = client_id, ac_client_secret = None, ac_client_jwt = None,
       ac_token_endpoint_auth_method = ClientSecretPost, ac_redirect_uri = redirect_uri,
       ac_scopes = [], ac_state_ttl = seconds (10 * 60), ac_profile = OAuth2ProfileMapping_default,
       ac_verified_email_list = None \<rparr>"

definition github :: "string \<Rightarrow> string \<Rightarrow> string \<Rightarrow> OAuth2ProviderConfig" where
  "github client_id client_secret redirect_uri =
     (OAuth2ProviderConfig_new ''github'' ''https://github.com/login/oauth/authorize''
        ''https://github.com/login/oauth/access_token'' ''https://api.github.com/user'' client_id redirect_uri)
     \<lparr> ac_client_secret := Some client_secret,
       ac_scopes := [''read:user'', ''user:email''],
       ac_profile := \<lparr> pm_subject_pointer = ''/id'', pm_email_pointer = Some ''/email'',
         pm_email_verification = UnknownVerification, pm_name_pointer = Some ''/name'',
         pm_picture_pointer = Some ''/avatar_url'' \<rparr>,
       ac_verified_email_list := Some (primary_verified ''https://api.github.com/user/emails'') \<rparr>"

section \<open>Validation of the configuration\<close>

text \<open>A whitespace character somewhere in a string.\<close>

fun contains_whitespace :: "string \<Rightarrow> bool" where
  "contains_whitespace [] = False"
| "contains_whitespace (c # s) = (lead_ws (c # s) \<noteq> None \<or> contains_whitespace s)"

text \<open>\<open>str::split_once\<close> with a string pattern.\<close>

fun split_once_str :: "string \<Rightarrow> string \<Rightarrow> (string \<times> string) option" where
  "split_once_str pat [] = (if pat = [] then Some ([], []) else None)"
| "split_once_str pat (c # s) =
     (if prefix pat (c # s) then Some ([], drop (length pat) (c # s))
      else map_option (\<lambda>(a, b). (c # a, b)) (split_once_str pat s))"

definition endpoint_error :: "string \<Rightarrow> AuthError" where
  "endpoint_error name =
     InvalidConfiguration (''OAuth 2.0 '' @ name @ '' must be an https URL (http only for loopback hosts)'')"

definition endpoint_authority :: "string \<Rightarrow> string" where
  "endpoint_authority remainder = takeWhile (\<lambda>c. \<not> in_str ''/?#'' c) remainder"

definition endpoint_host :: "string \<Rightarrow> string" where
  "endpoint_host authority =
     (case strip_prefix ''['' authority of
        Some bracketed \<Rightarrow> takeWhile (\<lambda>c. c \<noteq> CHR '']'') bracketed
      | None \<Rightarrow> takeWhile (\<lambda>c. c \<noteq> CHR '':'') authority)"

definition validate_endpoint :: "string \<Rightarrow> string \<Rightarrow> unit AuthResult" where
  "validate_endpoint name v =
     (if contains_whitespace v \<or> contains_control v then Inl (endpoint_error name)
      else case split_once_str ''://'' v of
        None \<Rightarrow> Inl (endpoint_error name)
      | Some (scheme, remainder) \<Rightarrow>
          let authority = endpoint_authority remainder; host = endpoint_host authority in
          if authority = [] \<or> in_str authority (CHR ''@'') then Inl (endpoint_error name)
          else if host = [] then Inl (endpoint_error name)
          else if eq_ignore_ascii_case scheme ''https'' then Inr ()
          else if eq_ignore_ascii_case scheme ''http'' \<and>
               (eq_ignore_ascii_case host ''localhost'' \<or> host = ''127.0.0.1'' \<or> host = ''::1'')
          then Inr ()
          else Inl (endpoint_error name))"

definition validate_pointer :: "string \<Rightarrow> string \<Rightarrow> unit AuthResult" where
  "validate_pointer name pointer =
     (if length pointer < 2 \<or> \<not> prefix ''/'' pointer
      then Inl (InvalidConfiguration (''OAuth 2.0 '' @ name @ '' must be a non-root JSON pointer''))
      else Inr ())"

definition validate_pointer_opt :: "string \<Rightarrow> string option \<Rightarrow> unit AuthResult" where
  "validate_pointer_opt name p = (case p of Some pointer \<Rightarrow> validate_pointer name pointer | None \<Rightarrow> Inr ())"

definition validate_email_list :: "OAuth2VerifiedEmailList \<Rightarrow> unit AuthResult" where
  "validate_email_list list =
     bind_res (validate_endpoint ''verified_email_list.endpoint'' (el_endpoint list)) (\<lambda>_.
     bind_res (validate_pointer_opt ''verified_email_list.entries_pointer'' (el_entries_pointer list)) (\<lambda>_.
     bind_res (validate_pointer ''verified_email_list.email_pointer'' (el_email_pointer list)) (\<lambda>_.
     bind_res (validate_pointer ''verified_email_list.verified_pointer'' (el_verified_pointer list)) (\<lambda>_.
     case (el_primary_pointer list, el_selection list) of
       (Some pointer, _) \<Rightarrow> validate_pointer ''verified_email_list.primary_pointer'' pointer
     | (None, PrimaryVerified) \<Rightarrow>
         Inl (InvalidConfiguration ''OAuth 2.0 primary-verified email selection requires primary_pointer'')
     | (None, FirstVerified) \<Rightarrow> Inr ()))))"

definition oauth2_config_validate :: "(string \<Rightarrow> string) \<Rightarrow> OAuth2ProviderConfig \<Rightarrow> unit AuthResult" where
  "oauth2_config_validate pd c =
     (let empty = (\<lambda>name. Inl (InvalidConfiguration (''OAuth 2.0 '' @ name @ '' must not be empty''))) in
      if blank (ac_provider_name c) then empty ''provider_name''
      else if blank (ac_client_id c) then empty ''client_id''
      else if blank (ac_redirect_uri c) then empty ''redirect_uri''
      else
      bind_res (validate_endpoint ''authorization_endpoint'' (ac_authorization_endpoint c)) (\<lambda>_.
      bind_res (validate_endpoint ''token_endpoint'' (ac_token_endpoint c)) (\<lambda>_.
      bind_res (validate_endpoint ''userinfo_endpoint'' (ac_userinfo_endpoint c)) (\<lambda>_.
      bind_res (map_err (\<lambda>_. InvalidConfiguration
            ''OAuth 2.0 authorization_endpoint contains a reserved query parameter'')
          (ensure_no_reserved_authorization_parameters pd (ac_authorization_endpoint c))) (\<lambda>_.
      if ac_client_secret c = Some []
      then Inl (InvalidConfiguration ''OAuth 2.0 client_secret must not be empty when set'')
      else
      bind_res (validate_client_authentication ''OAuth 2.0'' (ac_token_endpoint_auth_method c)
          (ac_client_secret c) (ac_client_jwt c)) (\<lambda>_.
      if list_ex (\<lambda>scope. scope = [] \<or> contains_whitespace scope \<or> contains_control scope) (ac_scopes c)
      then Inl (InvalidConfiguration ''OAuth 2.0 scopes must be non-empty tokens without whitespace'')
      else if ac_state_ttl c \<le> 0
      then Inl (InvalidConfiguration ''OAuth 2.0 state_ttl must be greater than zero'')
      else
      bind_res (validate_pointer ''subject_pointer'' (pm_subject_pointer (ac_profile c))) (\<lambda>_.
      bind_res (validate_pointer_opt ''email_pointer'' (pm_email_pointer (ac_profile c))) (\<lambda>_.
      bind_res (validate_pointer_opt ''name_pointer'' (pm_name_pointer (ac_profile c))) (\<lambda>_.
      bind_res (validate_pointer_opt ''picture_pointer'' (pm_picture_pointer (ac_profile c))) (\<lambda>_.
      bind_res (case pm_email_verification (ac_profile c) of
          VerifiedPointer pointer \<Rightarrow> validate_pointer ''email_verification'' pointer
        | _ \<Rightarrow> Inr ()) (\<lambda>_.
      case ac_verified_email_list c of
        Some list \<Rightarrow> validate_email_list list
      | None \<Rightarrow> Inr ())))))))))))"

section \<open>The provider\<close>

record OAuth2AuthorizationRequest =
  ar_authorization_url :: string
  ar_provider_name :: string
  ar_state :: string
  ar_code_verifier :: string
  ar_code_challenge :: string
  ar_expires_at :: time

record OAuth2TokenResponse =
  at_access_token :: string
  at_token_type :: string
  at_refresh_token :: "string option"
  at_expires_in :: "int option"
  at_scope :: "string option"
  at_raw :: JsonValue

record OAuth2UserProfile =
  up_provider_name :: string
  up_subject :: string
  up_email :: "string option"
  up_email_verified :: "bool option"
  up_name :: "string option"
  up_picture :: "string option"
  up_raw :: JsonValue

record OAuth2CallbackOutcome =
  ao_state :: OAuthLoginState
  ao_token_response :: OAuth2TokenResponse
  ao_profile :: OAuth2UserProfile

record 'st OAuth2Provider =
  ap_config :: OAuth2ProviderConfig
  ap_http_client :: "'st OidcHttpClient"
  ap_clock :: ClockId

text \<open>The JSON accessors of \<open>serde_json\<close>: \<open>pointer\<close>, \<open>as_i64\<close>, \<open>is_i64 || is_u64\<close> and the printed
  form of a number.\<close>

record json_lib =
  jn_pointer :: "JsonValue \<Rightarrow> string \<Rightarrow> JsonValue option"
  jn_as_i64 :: "string \<Rightarrow> int option"
  jn_is_integer :: "string \<Rightarrow> bool"
  jn_number_to_string :: "string \<Rightarrow> string"

definition OAuth2Provider_new_with_clock ::
  "(string \<Rightarrow> string) \<Rightarrow> OAuth2ProviderConfig \<Rightarrow> 'st OidcHttpClient \<Rightarrow> ClockId \<Rightarrow> 'st OAuth2Provider AuthResult" where
  "OAuth2Provider_new_with_clock pd config http_client clock =
     bind_res (oauth2_config_validate pd config) (\<lambda>_.
       if \<not> supports_request_headers http_client
       then Inl (InvalidConfiguration ''OAuth 2.0 provider requires an HTTP client that supports request headers'')
       else Inr \<lparr> ap_config = config, ap_http_client = http_client, ap_clock = clock \<rparr>)"

definition OAuth2Provider_new ::
  "(string \<Rightarrow> string) \<Rightarrow> OAuth2ProviderConfig \<Rightarrow> 'st OidcHttpClient \<Rightarrow> 'st OAuth2Provider AuthResult" where
  "OAuth2Provider_new pd config http_client = OAuth2Provider_new_with_clock pd config http_client SystemClock"

definition oauth2_params :: "OAuth2ProviderConfig \<Rightarrow> string \<Rightarrow> PkcePair \<Rightarrow> (string \<times> string) list" where
  "oauth2_params config state pkce =
     [(''client_id'', ac_client_id config), (''redirect_uri'', ac_redirect_uri config),
      (''response_type'', ''code'')] @
     (if ac_scopes config \<noteq> [] then [(''scope'', join_str '' '' (ac_scopes config))] else []) @
     [(''state'', state), (''code_challenge'', pk_code_challenge pkce), (''code_challenge_method'', ''S256'')]"

definition oauth2_create_authorization_request ::
  "ext \<Rightarrow> client_lib \<Rightarrow> 'st host \<Rightarrow> 'st OAuth2Provider \<Rightarrow> 'st OAuthStateStore \<Rightarrow> ('st, OAuth2AuthorizationRequest) action" where
  "oauth2_create_authorization_request E C H P S =
     bind (random_bytes H) (\<lambda>r1.
     bind (random_bytes H) (\<lambda>r2.
     let config = ap_config P; state = generate_oauth_state E r1; pkce = generate_pkce_pair E r2 in
     bind (now_from H (ap_clock P)) (\<lambda>now.
     bind (lift_res (ok_or (InvalidConfiguration ''OAuth 2.0 state expiry overflowed'')
       (time_checked_add E now (ac_state_ttl config)))) (\<lambda>expires_at.
     bind (store_call H (\<lambda>_. insert_oauth_state S
       \<lparr> ls_provider_name = ac_provider_name config, ls_state_hash = hash_oauth_state E state,
         ls_nonce = [], ls_code_verifier = pk_code_verifier pkce,
         ls_redirect_uri = ac_redirect_uri config, ls_scopes = ac_scopes config,
         ls_authorization_policy = None, ls_response_mode = Query,
         ls_created_at = now, ls_expires_at = expires_at, ls_consumed_at = None \<rparr>)) (\<lambda>_.
       ret \<lparr> ar_authorization_url = append_query (cl_percent_encode C) (ac_authorization_endpoint config)
               (oauth2_params config state pkce),
             ar_provider_name = ac_provider_name config, ar_state = state,
             ar_code_verifier = pk_code_verifier pkce, ar_code_challenge = pk_code_challenge pkce,
             ar_expires_at = expires_at \<rparr>)))))"

section \<open>Token exchange\<close>

definition optional_string :: "JsonValue \<Rightarrow> string \<Rightarrow> string option AuthResult" where
  "optional_string object name =
     (case json_get name object of
        None \<Rightarrow> Inr None
      | Some JNull \<Rightarrow> Inr None
      | Some (JString v) \<Rightarrow> Inr (Some v)
      | Some _ \<Rightarrow> Inl (OAuthTokenExchange (''provider token response '' @ name @ '' has an invalid type'')))"

fun as_i64 :: "json_lib \<Rightarrow> JsonValue \<Rightarrow> int option" where
  "as_i64 N (JNumber n) = jn_as_i64 N n"
| "as_i64 N _ = None"

fun is_object :: "JsonValue \<Rightarrow> bool" where
  "is_object (JObject _) = True"
| "is_object _ = False"

definition token_response_of :: "json_lib \<Rightarrow> JsonValue \<Rightarrow> OAuth2TokenResponse AuthResult" where
  "token_response_of N raw =
     (if \<not> is_object raw then Inl (OAuthTokenExchange ''provider token response was not an object'')
      else if json_get ''error'' raw \<noteq> None
      then Inl (OAuthTokenExchange ''provider token endpoint returned an error'')
      else
      bind_res (ok_or (OAuthTokenExchange ''provider token response is missing access_token'')
          (filter_option (\<lambda>t. t \<noteq> []) (Option.bind (json_get ''access_token'' raw) as_str))) (\<lambda>access_token.
      bind_res (ok_or (OAuthTokenExchange ''provider token response is not a bearer token'')
          (filter_option (\<lambda>t. eq_ignore_ascii_case t ''bearer'')
            (Option.bind (json_get ''token_type'' raw) as_str))) (\<lambda>token_type.
      bind_res (optional_string raw ''refresh_token'') (\<lambda>refresh_token.
      bind_res (optional_string raw ''scope'') (\<lambda>scope.
      bind_res (case json_get ''expires_in'' raw of
          None \<Rightarrow> Inr None
        | Some JNull \<Rightarrow> Inr None
        | Some v \<Rightarrow>
            bind_res (ok_or (OAuthTokenExchange ''provider token response expires_in has an invalid type'')
              (as_i64 N v)) (\<lambda>i. Inr (Some i))) (\<lambda>expires_in.
        Inr \<lparr> at_access_token = access_token, at_token_type = token_type, at_refresh_token = refresh_token,
              at_expires_in = expires_in, at_scope = scope, at_raw = raw \<rparr>))))))"

definition oauth2_exchange_code ::
  "ext \<Rightarrow> client_lib \<Rightarrow> json_lib \<Rightarrow> 'st host \<Rightarrow> 'st OAuth2Provider \<Rightarrow> string \<Rightarrow> OAuthLoginState \<Rightarrow>
   ('st, OAuth2TokenResponse) action" where
  "oauth2_exchange_code E C N H P code state =
     (let config = ap_config P in
     bind (now_from H (ap_clock P)) (\<lambda>now.
     bind (map_err_m (\<lambda>_. OAuthTokenExchange ''client authentication could not be prepared'')
       (client_authentication E C H (ac_token_endpoint_auth_method config) (ac_client_id config)
         (ac_client_secret config) (ac_client_jwt config) (ac_token_endpoint config) now)) (\<lambda>authentication.
     bind (map_err_m (\<lambda>_. OAuthTokenExchange ''provider token endpoint request failed'')
       (store_call H (post_form_json_with_headers (ap_http_client P) (ac_token_endpoint config)
         (cn_headers authentication @ [ACCEPT_JSON]) (exchange_form code state @ cn_form authentication)))) (\<lambda>raw.
       lift_res (token_response_of N raw)))))"

section \<open>Profiles\<close>

definition bearer_get :: "'st host \<Rightarrow> 'st OAuth2Provider \<Rightarrow> string \<Rightarrow> string \<Rightarrow> ('st, JsonValue) action" where
  "bearer_get H P url access_token =
     map_err_m (\<lambda>_. OAuthUserInfo ''provider profile request failed'')
       (store_call H (get_json_with_headers (ap_http_client P) url
         [(''Authorization'', ''Bearer '' @ access_token), ACCEPT_JSON]))"

definition profile_subject :: "json_lib \<Rightarrow> JsonValue \<Rightarrow> string \<Rightarrow> string AuthResult" where
  "profile_subject N raw pointer =
     bind_res (case jn_pointer N raw pointer of
         Some (JString v) \<Rightarrow> Inr v
       | Some (JNumber n) \<Rightarrow> if jn_is_integer N n then Inr (jn_number_to_string N n) else Inl OAuthMissingSubject
       | _ \<Rightarrow> Inl OAuthMissingSubject) (\<lambda>subject.
     if subject = [] \<or> length subject > MAX_OAUTH2_SUBJECT_LENGTH \<or> contains_control subject
     then Inl OAuthMissingSubject else Inr subject)"

definition pointer_string :: "json_lib \<Rightarrow> JsonValue \<Rightarrow> string \<Rightarrow> string option" where
  "pointer_string N raw pointer =
     filter_option (\<lambda>v. v \<noteq> []) (Option.bind (jn_pointer N raw pointer) as_str)"

definition is_true :: "json_lib \<Rightarrow> JsonValue \<Rightarrow> string \<Rightarrow> bool" where
  "is_true N entry pointer \<longleftrightarrow> Option.bind (jn_pointer N entry pointer) parse_email_verified = Some True"

fun as_array :: "JsonValue \<Rightarrow> JsonValue list option" where
  "as_array (JArray xs) = Some xs"
| "as_array _ = None"

fun find_map :: "('a \<Rightarrow> 'b option) \<Rightarrow> 'a list \<Rightarrow> 'b option" where
  "find_map f [] = None"
| "find_map f (x # xs) = (case f x of Some y \<Rightarrow> Some y | None \<Rightarrow> find_map f xs)"

definition entry_selected :: "json_lib \<Rightarrow> OAuth2VerifiedEmailList \<Rightarrow> JsonValue \<Rightarrow> bool" where
  "entry_selected N list entry \<longleftrightarrow>
     (case el_selection list of
        PrimaryVerified \<Rightarrow> is_some_and (\<lambda>pointer. is_true N entry pointer) (el_primary_pointer list)
      | FirstVerified \<Rightarrow> True)"

definition select_verified_email ::
  "json_lib \<Rightarrow> 'st host \<Rightarrow> 'st OAuth2Provider \<Rightarrow> OAuth2VerifiedEmailList \<Rightarrow> string \<Rightarrow> ('st, string option) action" where
  "select_verified_email N H P list access_token =
     bind (bearer_get H P (el_endpoint list) access_token) (\<lambda>raw.
     bind (lift_res (ok_or (OAuthUserInfo ''provider email list response was not an array'')
       (Option.bind (case el_entries_pointer list of
           Some pointer \<Rightarrow> jn_pointer N raw pointer | None \<Rightarrow> Some raw) as_array))) (\<lambda>entries.
     bind (require (length entries \<le> MAX_OAUTH2_VERIFIED_EMAIL_ENTRIES)
       (OAuthUserInfo ''provider email list response has too many entries'')) (\<lambda>_.
       ret (find_map (\<lambda>entry. pointer_string N entry (el_email_pointer list))
         (filter (entry_selected N list)
           (filter (\<lambda>entry. is_true N entry (el_verified_pointer list)) entries))))))"

definition profile_email_verified ::
  "json_lib \<Rightarrow> OAuth2ProfileMapping \<Rightarrow> JsonValue \<Rightarrow> string option \<Rightarrow> bool option" where
  "profile_email_verified N mapping raw email =
     (if email = None then None
      else case pm_email_verification mapping of
        UnknownVerification \<Rightarrow> None
      | VerifiedPointer pointer \<Rightarrow> Option.bind (jn_pointer N raw pointer) parse_email_verified
      | ProviderVerifiesAll \<Rightarrow> map_option (\<lambda>_. True) email)"

text \<open>The address of a profile and its verification, with the address list as a fallback.\<close>

definition profile_email ::
  "json_lib \<Rightarrow> 'st host \<Rightarrow> 'st OAuth2Provider \<Rightarrow> string \<Rightarrow> JsonValue \<Rightarrow> ('st, string option \<times> bool option) action" where
  "profile_email N H P access_token raw =
     (let mapping = ac_profile (ap_config P);
          email = Option.bind (pm_email_pointer mapping) (pointer_string N raw);
          email_verified = profile_email_verified N mapping raw email in
      case ac_verified_email_list (ap_config P) of
        Some list \<Rightarrow>
          if email_verified \<noteq> Some True then
            bind (select_verified_email N H P list access_token) (\<lambda>selected.
              ret (case selected of Some s \<Rightarrow> (Some s, Some True) | None \<Rightarrow> (email, email_verified)))
          else ret (email, email_verified)
      | None \<Rightarrow> ret (email, email_verified))"

definition fetch_profile ::
  "json_lib \<Rightarrow> 'st host \<Rightarrow> 'st OAuth2Provider \<Rightarrow> string \<Rightarrow> ('st, OAuth2UserProfile) action" where
  "fetch_profile N H P access_token =
     (let mapping = ac_profile (ap_config P) in
     bind (bearer_get H P (ac_userinfo_endpoint (ap_config P)) access_token) (\<lambda>raw.
     bind (require (is_object raw) (OAuthUserInfo ''provider userinfo response was not an object'')) (\<lambda>_.
     bind (lift_res (profile_subject N raw (pm_subject_pointer mapping))) (\<lambda>subject.
     bind (profile_email N H P access_token raw) (\<lambda>(email, email_verified).
       ret \<lparr> up_provider_name = ac_provider_name (ap_config P), up_subject = subject, up_email = email,
             up_email_verified = email_verified,
             up_name = Option.bind (pm_name_pointer mapping) (pointer_string N raw),
             up_picture = Option.bind (pm_picture_pointer mapping) (pointer_string N raw), up_raw = raw \<rparr>)))))"

section \<open>Callbacks\<close>

definition oauth2_consumed_state ::
  "ext \<Rightarrow> 'st host \<Rightarrow> 'st OAuth2Provider \<Rightarrow> 'st OAuthStateStore \<Rightarrow> string \<Rightarrow> ('st, OAuthLoginState) action" where
  "oauth2_consumed_state E H P S raw_state =
     bind (now_from H (ap_clock P)) (\<lambda>now.
     bind (store_call H (\<lambda>_. consume_oauth_state S (ac_provider_name (ap_config P))
       (hash_oauth_state E raw_state) now)) (\<lambda>found.
     bind (lift_res (ok_or InvalidOAuthState found)) (\<lambda>state.
     bind (require (\<not> login_state_is_consumed state) OAuthStateReplayed) (\<lambda>_.
     bind (require (\<not> login_state_is_expired state now) OAuthStateExpired) (\<lambda>_.
     bind (require (ls_nonce state = [] \<and> ls_authorization_policy state = None \<and>
       ls_response_mode state = Query) InvalidOAuthState) (\<lambda>_.
       ret state))))))"

definition oauth2_handle_callback ::
  "ext \<Rightarrow> client_lib \<Rightarrow> json_lib \<Rightarrow> 'st host \<Rightarrow> 'st OAuth2Provider \<Rightarrow> 'st OAuthStateStore \<Rightarrow> OidcCallbackInput \<Rightarrow>
   ('st, OAuth2CallbackOutcome) action" where
  "oauth2_handle_callback E C N H P S input =
     bind (require (ci_error input = None) OAuthProviderError) (\<lambda>_.
     bind (lift_res (ok_or (OAuthCallback ''authorization callback is missing code'')
       (filter_option (\<lambda>code. code \<noteq> []) (ci_code input)))) (\<lambda>code.
     bind (lift_res (ok_or InvalidOAuthState (filter_option (\<lambda>state. state \<noteq> []) (ci_state input)))) (\<lambda>raw_state.
     bind (oauth2_consumed_state E H P S raw_state) (\<lambda>state.
     bind (oauth2_exchange_code E C N H P code state) (\<lambda>token_response.
     bind (fetch_profile N H P (at_access_token token_response)) (\<lambda>profile.
       ret \<lparr> ao_state = state, ao_token_response = token_response, ao_profile = profile \<rparr>))))))"

section \<open>Endpoints\<close>

definition loopback_host :: "string \<Rightarrow> bool" where
  "loopback_host host \<longleftrightarrow> eq_ignore_ascii_case host ''localhost'' \<or> host = ''127.0.0.1'' \<or> host = ''::1''"

text \<open>A URL with a host and without user information whose scheme is \<open>https\<close>, or \<open>http\<close> for a loopback
  host. The authority ends at the first slash, question mark or hash sign.\<close>

definition secure_url :: "string \<Rightarrow> bool" where
  "secure_url url \<longleftrightarrow>
     (\<exists>scheme authority rest. url = scheme @ ''://'' @ authority @ rest \<and>
        set authority \<inter> set ''/?#@'' = {} \<and> (rest = [] \<or> hd rest \<in> set ''/?#'') \<and> endpoint_host authority \<noteq> [] \<and>
        (eq_ignore_ascii_case scheme ''https'' \<or>
         eq_ignore_ascii_case scheme ''http'' \<and> loopback_host (endpoint_host authority)))"

lemma split_once_str_append:
  "CHR '':'' \<notin> set a \<Longrightarrow> split_once_str ''://'' (a @ ''://'' @ b) = Some (a, b)"
  by (induction a) auto

lemma split_once_str_Some:
  "split_once_str pat s = Some (a, b) \<Longrightarrow> s = a @ pat @ b"
proof (induction s arbitrary: a b)
  case (Cons c s)
  then show ?case by (auto simp: prefix_def split: if_splits)
qed (auto split: if_splits)

lemma no_colon_in_scheme:
  assumes "eq_ignore_ascii_case scheme ''https'' \<or> eq_ignore_ascii_case scheme ''http''"
  shows "CHR '':'' \<notin> set scheme"
proof
  assume "CHR '':'' \<in> set scheme"
  then have "to_lower (CHR '':'') \<in> set (to_ascii_lowercase scheme)" by (simp add: to_ascii_lowercase_def)
  moreover have "to_lower (CHR '':'') \<notin> set (to_ascii_lowercase ''https'')" "to_lower (CHR '':'') \<notin> set (to_ascii_lowercase ''http'')"
    by code_simp+
  ultimately show False using assms by (auto simp: eq_ignore_ascii_case_def)
qed

lemma endpoint_authority_append:
  assumes "set authority \<inter> set ''/?#@'' = {}" "rest = [] \<or> hd rest \<in> set ''/?#''"
  shows "endpoint_authority (authority @ rest) = authority"
proof -
  have "\<forall>c \<in> set authority. \<not> in_str ''/?#'' c" using assms(1) by (auto simp: in_str_def)
  moreover have "takeWhile (\<lambda>c. \<not> in_str ''/?#'' c) rest = []"
    using assms(2) by (cases rest) (auto simp: in_str_def)
  ultimately show ?thesis by (simp add: endpoint_authority_def takeWhile_append2)
qed

lemma endpoint_accepted:
  "validate_endpoint name url = Inr () \<longleftrightarrow>
     \<not> contains_whitespace url \<and> \<not> contains_control url \<and> secure_url url"
proof
  assume ok: "validate_endpoint name url = Inr ()"
  then obtain scheme remainder where split: "split_once_str ''://'' url = Some (scheme, remainder)"
    and clean: "\<not> contains_whitespace url" "\<not> contains_control url"
    by (auto simp: validate_endpoint_def split: if_splits option.splits)
  let ?a = "endpoint_authority remainder" and ?r = "dropWhile (\<lambda>c. \<not> in_str ''/?#'' c) remainder"
  have url: "url = scheme @ ''://'' @ ?a @ ?r"
    using split_once_str_Some [OF split] by (simp add: endpoint_authority_def)
  from ok split clean have host: "endpoint_host ?a \<noteq> []" "CHR ''@'' \<notin> set ?a"
    "eq_ignore_ascii_case scheme ''https'' \<or> eq_ignore_ascii_case scheme ''http'' \<and> loopback_host (endpoint_host ?a)"
    by (auto simp: validate_endpoint_def Let_def in_str_def loopback_host_def split: if_splits)
  have "\<forall>c \<in> set ?a. \<not> in_str ''/?#'' c" by (auto simp: endpoint_authority_def dest: set_takeWhileD)
  with host(2) have delim: "set ?a \<inter> set ''/?#@'' = {}" by (auto simp: in_str_def)
  have rest: "?r = [] \<or> hd ?r \<in> set ''/?#''"
    using hd_dropWhile [of "\<lambda>c. \<not> in_str ''/?#'' c" remainder] by (auto simp: in_str_def)
  have "secure_url url" unfolding secure_url_def by (intro exI conjI) (rule url delim rest host(1,3))+
  with clean show "\<not> contains_whitespace url \<and> \<not> contains_control url \<and> secure_url url" by blast
next
  assume "\<not> contains_whitespace url \<and> \<not> contains_control url \<and> secure_url url"
  then obtain scheme authority rest where url: "url = scheme @ ''://'' @ authority @ rest"
    and clean: "\<not> contains_whitespace url" "\<not> contains_control url"
    and delim: "set authority \<inter> set ''/?#@'' = {}" "rest = [] \<or> hd rest \<in> set ''/?#''"
    and host: "endpoint_host authority \<noteq> []"
    and scheme: "eq_ignore_ascii_case scheme ''https'' \<or>
      eq_ignore_ascii_case scheme ''http'' \<and> loopback_host (endpoint_host authority)"
    unfolding secure_url_def by blast
  from scheme have "split_once_str ''://'' url = Some (scheme, authority @ rest)"
    unfolding url by (intro split_once_str_append no_colon_in_scheme) blast
  moreover have "authority \<noteq> []" using host by (auto simp: endpoint_host_def strip_prefix_def)
  ultimately show "validate_endpoint name url = Inr ()"
    using clean host scheme delim(1)
    by (auto simp: validate_endpoint_def endpoint_authority_append [OF delim] Let_def in_str_def loopback_host_def)
qed

text \<open>An endpoint is accepted exactly when it is secure. The check of an OAuth 2.0 endpoint accepts
  a string if and only if it contains neither whitespace nor control characters and is a URL with a
  host and without user information, with the scheme \<open>https\<close>, or with \<open>http\<close> and a loopback host.\<close>

theorem validate_endpoint_exact:
  "validate_endpoint name url = Inr () \<longleftrightarrow>
     \<not> contains_whitespace url \<and> \<not> contains_control url \<and> secure_url url"
  by (rule endpoint_accepted)

section \<open>Where credentials go\<close>

lemma validated_endpoints:
  assumes "oauth2_config_validate pd c = Inr ()"
  shows "secure_url (ac_authorization_endpoint c)" "secure_url (ac_token_endpoint c)" "secure_url (ac_userinfo_endpoint c)"
    "ac_verified_email_list c = Some list \<Longrightarrow> secure_url (el_endpoint list)"
  using assms
  by (auto simp: oauth2_config_validate_def Let_def bind_res_Inr_iff validate_email_list_def endpoint_accepted
      split: if_splits option.splits)

text \<open>Two HTTP clients that behave the same on secure URLs.\<close>

definition agree_on_secure :: "'st OidcHttpClient \<Rightarrow> 'st OidcHttpClient \<Rightarrow> bool" where
  "agree_on_secure C D \<longleftrightarrow>
     (\<forall>url. secure_url url \<longrightarrow> get_json_with_headers C url = get_json_with_headers D url \<and>
        post_form_json_with_headers C url = post_form_json_with_headers D url)"

text \<open>C18: Codes, client credentials and access tokens only travel to secure URLs. For a provider with a
  validated configuration, handling a callback has the same result and the same effects with any two
  HTTP clients that agree on URLs with \<open>https\<close> or a loopback host: the flow sends nothing to, and
  learns nothing from, any other URL.\<close>

theorem credentials_only_to_secure_urls:
  assumes "oauth2_config_validate pd (ap_config P) = Inr ()" "agree_on_secure (ap_http_client P) D"
  shows "oauth2_handle_callback E C N H (P \<lparr> ap_http_client := D \<rparr>) S input w =
    oauth2_handle_callback E C N H P S input w"
proof -
  note secure = validated_endpoints [OF assms(1)]
  have get: "bearer_get H (P \<lparr> ap_http_client := D \<rparr>) url t = bearer_get H P url t" if "secure_url url" for url t
    using assms(2) that by (simp add: bearer_get_def agree_on_secure_def)
  have exchange: "oauth2_exchange_code E C N H (P \<lparr> ap_http_client := D \<rparr>) code s = oauth2_exchange_code E C N H P code s" for code s
    using assms(2) secure(2) by (simp add: oauth2_exchange_code_def agree_on_secure_def)
  have email: "select_verified_email N H (P \<lparr> ap_http_client := D \<rparr>) list t = select_verified_email N H P list t"
    if "ac_verified_email_list (ap_config P) = Some list" for list t
    by (simp add: select_verified_email_def get [OF secure(4) [OF that]])
  have profile: "fetch_profile N H (P \<lparr> ap_http_client := D \<rparr>) t = fetch_profile N H P t" for t
  proof -
    have "profile_email N H (P \<lparr> ap_http_client := D \<rparr>) t raw = profile_email N H P t raw" for raw
      by (cases "ac_verified_email_list (ap_config P)") (simp_all add: profile_email_def Let_def email)
    then show ?thesis by (simp add: fetch_profile_def get [OF secure(3)])
  qed
  show ?thesis
    by (simp add: oauth2_handle_callback_def oauth2_consumed_state_def exchange profile)
qed

section \<open>Verified addresses\<close>

text \<open>Evidence for a verified address: the profile itself, by the configured rule, or an entry of the
  verified-address list that is marked verified, and primary where the rule asks for it.\<close>

definition profile_vouches :: "json_lib \<Rightarrow> OAuth2ProfileMapping \<Rightarrow> JsonValue \<Rightarrow> string \<Rightarrow> bool" where
  "profile_vouches N mapping raw address \<longleftrightarrow>
     (\<exists>p. pm_email_pointer mapping = Some p \<and> pointer_string N raw p = Some address) \<and>
     (pm_email_verification mapping = ProviderVerifiesAll \<or>
      (\<exists>p. pm_email_verification mapping = VerifiedPointer p \<and> is_true N raw p))"

definition list_vouches :: "json_lib \<Rightarrow> OAuth2VerifiedEmailList \<Rightarrow> JsonValue \<Rightarrow> string \<Rightarrow> bool" where
  "list_vouches N list raw address \<longleftrightarrow>
     (\<exists>entries entry. length entries \<le> MAX_OAUTH2_VERIFIED_EMAIL_ENTRIES \<and> entry \<in> set entries \<and>
        (case el_entries_pointer list of Some p \<Rightarrow> jn_pointer N raw p | None \<Rightarrow> Some raw) = Some (JArray entries) \<and>
        is_true N entry (el_verified_pointer list) \<and>
        (el_selection list = PrimaryVerified \<longrightarrow> (\<exists>p. el_primary_pointer list = Some p \<and> is_true N entry p)) \<and>
        pointer_string N entry (el_email_pointer list) = Some address)"

lemma find_map_Some: "find_map f xs = Some y \<Longrightarrow> \<exists>x \<in> set xs. f x = Some y"
  by (induction xs) (auto split: option.splits)

lemma as_array_Some: "as_array v = Some xs \<longleftrightarrow> v = JArray xs"
  by (cases v) auto

lemma select_verified_email_Inr:
  assumes "select_verified_email N H P list t w = (Inr (Some address), w')"
  shows "\<exists>raw w1. bearer_get H P (el_endpoint list) t w = (Inr raw, w1) \<and> list_vouches N list raw address"
proof -
  from assms obtain raw w1 entries where get: "bearer_get H P (el_endpoint list) t w = (Inr raw, w1)"
    and arr: "Option.bind (case el_entries_pointer list of Some pointer \<Rightarrow> jn_pointer N raw pointer | None \<Rightarrow> Some raw) as_array = Some entries"
    and len: "length entries \<le> MAX_OAUTH2_VERIFIED_EMAIL_ENTRIES"
    and found: "find_map (\<lambda>entry. pointer_string N entry (el_email_pointer list))
         (filter (entry_selected N list) (filter (\<lambda>entry. is_true N entry (el_verified_pointer list)) entries)) = Some address"
    by (auto simp: select_verified_email_def bind_eq_Inr lift_res_eq require_eq ret_eq ok_or_Inr)
  from find_map_Some [OF found] obtain entry where "entry \<in> set entries" "entry_selected N list entry"
    "is_true N entry (el_verified_pointer list)" "pointer_string N entry (el_email_pointer list) = Some address" by auto
  moreover from arr have "(case el_entries_pointer list of Some p \<Rightarrow> jn_pointer N raw p | None \<Rightarrow> Some raw) = Some (JArray entries)"
    by (auto simp: bind_eq_Some_conv as_array_Some)
  ultimately have "list_vouches N list raw address"
    using len unfolding list_vouches_def
    by (intro exI [of _ entries] exI [of _ entry])
      (auto simp: entry_selected_def is_some_and_iff split: OAuth2VerifiedEmailSelection.splits)
  with get show ?thesis by blast
qed

lemma profile_email_verified_True:
  assumes "profile_email_verified N mapping raw (Option.bind (pm_email_pointer mapping) (pointer_string N raw)) = Some True"
  shows "\<exists>address. Option.bind (pm_email_pointer mapping) (pointer_string N raw) = Some address \<and> profile_vouches N mapping raw address"
  using assms
  by (auto simp: profile_email_verified_def profile_vouches_def is_true_def bind_eq_Some_conv
      split: if_splits OAuth2EmailVerification.splits)

lemma profile_email_Inr:
  assumes "profile_email N H P t raw w = (Inr (email, Some True), w')"
  shows "\<exists>address. email = Some address \<and> (profile_vouches N (ac_profile (ap_config P)) raw address \<or>
     (\<exists>list raw w1 w2. ac_verified_email_list (ap_config P) = Some list \<and>
        bearer_get H P (el_endpoint list) t w1 = (Inr raw, w2) \<and> list_vouches N list raw address))"
proof (cases "profile_email_verified N (ac_profile (ap_config P)) raw
    (Option.bind (pm_email_pointer (ac_profile (ap_config P))) (pointer_string N raw)) = Some True")
  case True
  with assms have "email = Option.bind (pm_email_pointer (ac_profile (ap_config P))) (pointer_string N raw)"
    by (auto simp: profile_email_def Let_def ret_eq split: option.splits)
  with profile_email_verified_True [OF True] show ?thesis by auto
next
  case False
  with assms obtain list address w2 where sel: "ac_verified_email_list (ap_config P) = Some list"
    "select_verified_email N H P list t w = (Inr (Some address), w2)" "email = Some address"
    by (auto simp: profile_email_def Let_def ret_eq bind_eq_Inr split: option.splits)
  from select_verified_email_Inr [OF sel(2)] sel(1,3) show ?thesis by blast
qed

text \<open>C17: An address is reported as verified only on evidence. When a profile is fetched, its subject is
  a non-empty string of at most 255 bytes without control characters; and a profile that asserts a
  verified address has one, for which the userinfo response vouches by the configured rule, or which an
  entry of the configured address list vouches for, in an answer that the provider gave to a request
  with the access token as bearer.\<close>

theorem verified_email_justified:
  assumes "fetch_profile N H P t w = (Inr profile, w')"
  shows "up_provider_name profile = ac_provider_name (ap_config P) \<and>
    up_subject profile \<noteq> [] \<and> length (up_subject profile) \<le> MAX_OAUTH2_SUBJECT_LENGTH \<and> \<not> contains_control (up_subject profile) \<and>
    (up_email_verified profile = Some True \<longrightarrow>
      (\<exists>address. up_email profile = Some address \<and>
        (profile_vouches N (ac_profile (ap_config P)) (up_raw profile) address \<or>
         (\<exists>list raw w1 w2. ac_verified_email_list (ap_config P) = Some list \<and>
            bearer_get H P (el_endpoint list) t w1 = (Inr raw, w2) \<and> list_vouches N list raw address))))"
proof -
  from assms obtain raw w1 subject email verified where email: "profile_email N H P t raw w1 = (Inr (email, verified), w')"
    and subject: "profile_subject N raw (pm_subject_pointer (ac_profile (ap_config P))) = Inr subject"
    and profile: "up_provider_name profile = ac_provider_name (ap_config P)" "up_subject profile = subject"
      "up_email profile = email" "up_email_verified profile = verified" "up_raw profile = raw"
    by (auto simp: fetch_profile_def Let_def bind_eq_Inr lift_res_eq require_eq ret_eq)
  from subject have "subject \<noteq> []" "length subject \<le> MAX_OAUTH2_SUBJECT_LENGTH" "\<not> contains_control subject"
    by (auto simp: profile_subject_def bind_res_Inr_iff split: if_splits)
  with profile profile_email_Inr [of N H P t raw w1 email w'] email show ?thesis by auto
qed

section \<open>Callbacks\<close>

text \<open>The host of an OAuth 2.0 callback: a contract-abiding state store, and an HTTP client that never
  un-consumes a state.\<close>

locale oauth2_host = oauth_state_client lookup S H
  for lookup :: "'st \<Rightarrow> string \<times> string \<Rightarrow> OAuthLoginState option" and S :: "'st OAuthStateStore" and H :: "'st host" +
  fixes P :: "'st OAuth2Provider"
  assumes get_keeps_states: "get_json_with_headers (ap_http_client P) url hs n st = (r, st') \<Longrightarrow>
      state_consumed lookup st \<subseteq> state_consumed lookup st'"
    and post_keeps_states: "post_form_json_with_headers (ap_http_client P) url hs form n st = (r, st') \<Longrightarrow>
      state_consumed lookup st \<subseteq> state_consumed lookup st'"

lemma oauth2_consumed_state_Inr:
  assumes "oauth2_consumed_state E H P S raw w = (Inr s, w')"
  obtains w1 where
    "store_call H (\<lambda>_. consume_oauth_state S (ac_provider_name (ap_config P)) (hash_oauth_state E raw)
       (h_clock H (ap_clock P) (w_tick w))) w1 = (Inr (Some s), w')"
    "w1 = w \<lparr> w_tick := Suc (w_tick w) \<rparr>" "\<not> login_state_is_expired s (h_clock H (ap_clock P) (w_tick w))"
    "ls_nonce s = []" "ls_authorization_policy s = None" "ls_response_mode s = Query"
  using assms unfolding oauth2_consumed_state_def
  by (auto simp: bind_eq_Inr now_from_eq lift_res_eq require_eq ret_eq ok_or_Inr)

lemma oauth2_handle_callback_Inr:
  assumes "oauth2_handle_callback E C N H P S input w = (Inr out, w')"
  obtains code raw w1 w2 where "ci_error input = None" "ci_state input = Some raw"
    "oauth2_consumed_state E H P S raw w = (Inr (ao_state out), w1)"
    "oauth2_exchange_code E C N H P code (ao_state out) w1 = (Inr (ao_token_response out), w2)"
    "fetch_profile N H P (at_access_token (ao_token_response out)) w2 = (Inr (ao_profile out), w')"
  using assms unfolding oauth2_handle_callback_def
  by (auto simp: bind_eq_Inr lift_res_eq require_eq ret_eq ok_or_Inr filter_option_Some)

lemma token_response_of_Inr:
  "token_response_of N raw = Inr t \<Longrightarrow> at_access_token t \<noteq> [] \<and> eq_ignore_ascii_case (at_token_type t) ''bearer''"
  by (auto simp: token_response_of_def bind_res_Inr_iff ok_or_Inr filter_option_Some split: if_splits)

lemma exchanged_bearer:
  "oauth2_exchange_code E C N H P code s w = (Inr t, w') \<Longrightarrow>
   at_access_token t \<noteq> [] \<and> eq_ignore_ascii_case (at_token_type t) ''bearer''"
  by (auto simp: oauth2_exchange_code_def Let_def bind_eq_Inr lift_res_eq dest: token_response_of_Inr)

context oauth2_host
begin

lemma within_oauth2_http:
  "within grows (store_call H (get_json_with_headers (ap_http_client P) url hs))"
  "within grows (store_call H (post_form_json_with_headers (ap_http_client P) url hs form))"
  by (rule frame.within_store_call; simp add: grows_def get_keeps_states post_keeps_states)+

lemma within_map_err: "within grows m \<Longrightarrow> within grows (map_err_m f m)"
  unfolding map_err_m_def by (intro frame.within_try_catch frame.within_pure)

lemma within_oauth2_exchange: "within grows (oauth2_exchange_code E C N H P code s)"
proof -
  have "within grows (client_authentication E C H m i sec j u now)" for m i sec j u now
    unfolding within_def grows_def using client_authentication_store by (metis order_refl)
  then show ?thesis
    unfolding oauth2_exchange_code_def Let_def
    by (intro frame.within_bind frame.within_pure within_map_err within_oauth2_http)
qed

lemma within_fetch_profile: "within grows (fetch_profile N H P t)"
proof -
  have get: "within grows (bearer_get H P url t)" for url
    unfolding bearer_get_def by (intro within_map_err within_oauth2_http)
  then show ?thesis
    unfolding fetch_profile_def profile_email_def select_verified_email_def Let_def
    by (auto intro!: frame.within_bind frame.within_pure split: option.split)
qed

lemma oauth2_callback_consumes:
  assumes "oauth2_handle_callback E C N H P S input w = (Inr out, w')"
  obtains raw where "ci_state input = Some raw"
    "(ac_provider_name (ap_config P), hash_oauth_state E raw) \<notin> state_consumed lookup (w_store w)"
    "(ac_provider_name (ap_config P), hash_oauth_state E raw) \<in> state_consumed lookup (w_store w')"
    "lookup (h_interfere H (Suc (w_tick w)) (w_store w)) (ac_provider_name (ap_config P), hash_oauth_state E raw) = Some (ao_state out)"
    "h_clock H (ap_clock P) (w_tick w) < ls_expires_at (ao_state out)" "ls_nonce (ao_state out) = []"
    "ls_authorization_policy (ao_state out) = None"
proof -
  from assms obtain code raw w1 w2 where raw: "ci_state input = Some raw"
    and c: "oauth2_consumed_state E H P S raw w = (Inr (ao_state out), w1)"
    and x: "oauth2_exchange_code E C N H P code (ao_state out) w1 = (Inr (ao_token_response out), w2)"
    and f: "fetch_profile N H P (at_access_token (ao_token_response out)) w2 = (Inr (ao_profile out), w')"
    by (rule oauth2_handle_callback_Inr) blast
  from c obtain w0 where call: "store_call H (\<lambda>_. consume_oauth_state S (ac_provider_name (ap_config P)) (hash_oauth_state E raw)
       (h_clock H (ap_clock P) (w_tick w))) w0 = (Inr (Some (ao_state out)), w1)" and w0: "w0 = w \<lparr> w_tick := Suc (w_tick w) \<rparr>"
    and state: "\<not> login_state_is_expired (ao_state out) (h_clock H (ap_clock P) (w_tick w))" "ls_nonce (ao_state out) = []"
      "ls_authorization_policy (ao_state out) = None"
    by (rule oauth2_consumed_state_Inr) blast
  from withinD [OF within_oauth2_exchange x] withinD [OF within_fetch_profile f]
  have "state_consumed lookup (w_store w1) \<subseteq> state_consumed lookup (w_store w')" by (simp add: grows_def)
  with consume_call_found [OF call] w0 state raw show ?thesis
    by (intro that) (auto simp: login_state_is_expired_def)
qed

end

text \<open>C14: An OAuth 2.0 callback is accepted only for its own fresh state. When a callback succeeds, the
  presented state named a stored, unexpired state of this provider that was unconsumed before and is
  consumed from then on, and that no OIDC provider would accept (it has no nonce and no policy); the
  token response carried a non-empty bearer token; and no later callback with that state succeeds as
  long as no one un-consumes states.\<close>

theorem oauth2_callback_sound:
  assumes "oauth2_host lookup S H P" "oauth2_handle_callback E C N H P S input w = (Inr out, w')"
  shows "(\<exists>raw. ci_state input = Some raw \<and>
      (ac_provider_name (ap_config P), hash_oauth_state E raw) \<notin> state_consumed lookup (w_store w) \<and>
      (ac_provider_name (ap_config P), hash_oauth_state E raw) \<in> state_consumed lookup (w_store w') \<and>
      lookup (h_interfere H (Suc (w_tick w)) (w_store w)) (ac_provider_name (ap_config P), hash_oauth_state E raw) =
        Some (ao_state out)) \<and>
    h_clock H (ap_clock P) (w_tick w) < ls_expires_at (ao_state out) \<and> ls_nonce (ao_state out) = [] \<and>
    ls_authorization_policy (ao_state out) = None \<and>
    at_access_token (ao_token_response out) \<noteq> [] \<and> eq_ignore_ascii_case (at_token_type (ao_token_response out)) ''bearer'' \<and>
    (\<forall>later w2. ci_state later = ci_state input \<and> state_consumed lookup (w_store w') \<subseteq> state_consumed lookup (w_store w2) \<longrightarrow>
       (\<exists>e. fst (oauth2_handle_callback E C N H P S later w2) = Inl e))"
proof -
  note consumes = oauth2_host.oauth2_callback_consumes [OF assms(1)]
  from assms(2) obtain code w1 w2 where x: "oauth2_exchange_code E C N H P code (ao_state out) w1 = (Inr (ao_token_response out), w2)"
    by (rule oauth2_handle_callback_Inr) blast
  from consumes [OF assms(2)] obtain raw where raw: "ci_state input = Some raw"
    "(ac_provider_name (ap_config P), hash_oauth_state E raw) \<notin> state_consumed lookup (w_store w)"
    "(ac_provider_name (ap_config P), hash_oauth_state E raw) \<in> state_consumed lookup (w_store w')"
    "lookup (h_interfere H (Suc (w_tick w)) (w_store w)) (ac_provider_name (ap_config P), hash_oauth_state E raw) = Some (ao_state out)"
    "h_clock H (ap_clock P) (w_tick w) < ls_expires_at (ao_state out)" "ls_nonce (ao_state out) = []"
    "ls_authorization_policy (ao_state out) = None" by blast
  have "\<exists>e. fst (oauth2_handle_callback E C N H P S later w2) = Inl e"
    if later: "ci_state later = ci_state input" "state_consumed lookup (w_store w') \<subseteq> state_consumed lookup (w_store w2)" for later w2
  proof (cases "oauth2_handle_callback E C N H P S later w2")
    case (Pair r w3)
    show ?thesis
    proof (cases r)
      case (Inr out')
      with Pair consumes [of E C N later w2 out' w3] raw(1,3) later show ?thesis by auto
    qed (use Pair in auto)
  qed
  with raw exchanged_bearer [OF x] show ?thesis by blast
qed

section \<open>A concrete login\<close>

text \<open>JSON pointers with a single segment.\<close>

definition flat_json :: json_lib where
  "flat_json = \<lparr> jn_pointer = (\<lambda>v p. json_get (tl p) v), jn_as_i64 = (\<lambda>_. None), jn_is_integer = (\<lambda>_. True),
     jn_number_to_string = id \<rparr>"

definition hub_config :: OAuth2ProviderConfig where
  "hub_config = github ''client'' ''secret'' ''https://app/cb''"

definition hub_serve :: "string \<Rightarrow> JsonValue AuthResult" where
  "hub_serve url =
     (if url = ''https://github.com/login/oauth/access_token''
      then Inr (JObject [(''access_token'', JString ''tok''), (''token_type'', JString ''Bearer'')])
      else if url = ''https://api.github.com/user'' then Inr (JObject [(''id'', JNumber ''42'')])
      else if url = ''https://api.github.com/user/emails''
      then Inr (JArray [JObject [(''email'', JString ''old''), (''verified'', JBool True), (''primary'', JBool False)],
                        JObject [(''email'', JString ''new''), (''verified'', JBool True), (''primary'', JBool True)]])
      else Inl AuthServiceUnavailable)"

definition hub_provider :: "(string \<Rightarrow> JsonValue AuthResult) \<Rightarrow> memory_host OAuth2Provider" where
  "hub_provider serve = \<lparr> ap_config = hub_config, ap_http_client = scripted_client serve, ap_clock = SystemClock \<rparr>"

definition hub_state :: OAuthLoginState where
  "hub_state = idp_state \<lparr> ls_provider_name := ''github'', ls_nonce := [], ls_authorization_policy := None \<rparr>"

definition hub_world :: "memory_host world" where
  "hub_world = \<lparr> w_store = \<lparr> mh_caches = empty_caches,
       mh_states = [((''github'', hash_oauth_state std_ext ''s''), hub_state)], mh_links = [] \<rparr>, w_tick = 0, w_fresh = 0 \<rparr>"

definition hub_callback :: "OAuth2CallbackOutcome AuthResult \<times> memory_host world" where
  "hub_callback = oauth2_handle_callback std_ext demo_client_lib flat_json idle_host (hub_provider hub_serve) host_states
     (code_and_state ''c'' ''s'') hub_world"

interpretation hc: oauth_state_client stored_states host_states idle_host
  by unfold_locales simp

interpretation oh: oauth2_host stored_states host_states idle_host "hub_provider serve" for serve
  by unfold_locales (simp_all add: hub_provider_def)

lemma hub_callback_succeeds: "\<exists>out w'. hub_callback = (Inr out, w')"
proof -
  have "is_ok (fst hub_callback)" by code_simp
  then show ?thesis unfolding is_ok_iff by (metis prod.collapse)
qed

theorem oauth2_callback_sound_witness:
  "\<exists>out w'. hub_callback = (Inr out, w') \<and>
     (''github'', hash_oauth_state std_ext ''s'') \<in> state_consumed stored_states (w_store w') \<and>
     (\<exists>e. fst (oauth2_handle_callback std_ext demo_client_lib flat_json idle_host (hub_provider hub_serve) host_states
        (code_and_state ''c'' ''s'') w') = Inl e)"
proof -
  obtain out w' where run: "hub_callback = (Inr out, w')" using hub_callback_succeeds by blast
  have name: "ac_provider_name (ap_config (hub_provider hub_serve)) = ''github''"
    by (simp add: hub_provider_def hub_config_def github_def OAuth2ProviderConfig_new_def)
  have raw: "ci_state (code_and_state ''c'' ''s'') = Some ''s''" by (simp add: code_and_state_def)
  note sound = oauth2_callback_sound [OF oh.oauth2_host_axioms run [unfolded hub_callback_def]]
  from sound have replay: "\<And>later w2. ci_state later = ci_state (code_and_state ''c'' ''s'') \<and>
      state_consumed stored_states (w_store w') \<subseteq> state_consumed stored_states (w_store w2) \<Longrightarrow>
      \<exists>e. fst (oauth2_handle_callback std_ext demo_client_lib flat_json idle_host (hub_provider hub_serve) host_states later w2) = Inl e"
    by blast
  from sound have "(''github'', hash_oauth_state std_ext ''s'') \<in> state_consumed stored_states (w_store w')"
    unfolding name raw by blast
  with run replay [of "code_and_state ''c'' ''s''" w'] show ?thesis by blast
qed

lemma validate_endpoint_examples:
  "validate_endpoint ''e'' ''https://idp/x'' = Inr () \<and> validate_endpoint ''e'' ''http://LOCALHOST:8080/x'' = Inr () \<and>
   validate_endpoint ''e'' ''http://idp/x'' \<noteq> Inr () \<and> validate_endpoint ''e'' ''https://user@idp/x'' \<noteq> Inr ()"
  by code_simp

lemma hub_config_valid: "oauth2_config_validate percent_decode hub_config = Inr ()"
  by code_simp

text \<open>A client that answers everything else with forged tokens.\<close>

definition forged_serve :: "string \<Rightarrow> JsonValue AuthResult" where
  "forged_serve url = (if secure_url url then hub_serve url else Inr (JObject [(''access_token'', JString ''evil'')]))"

theorem credentials_only_to_secure_urls_witness:
  "fst (oauth2_handle_callback std_ext demo_client_lib flat_json idle_host (hub_provider hub_serve \<lparr> ap_http_client := scripted_client forged_serve \<rparr>)
     host_states (code_and_state ''c'' ''s'') hub_world) = fst hub_callback"
proof -
  have "oauth2_config_validate percent_decode (ap_config (hub_provider hub_serve)) = Inr ()"
    by (simp add: hub_provider_def hub_config_valid)
  moreover have "agree_on_secure (ap_http_client (hub_provider hub_serve)) (scripted_client forged_serve)"
    by (simp add: agree_on_secure_def hub_provider_def fun_eq_iff forged_serve_def)
  ultimately show ?thesis
    unfolding hub_callback_def by (simp only: credentials_only_to_secure_urls)
qed

definition hub_profile :: "OAuth2UserProfile AuthResult \<times> memory_host world" where
  "hub_profile = fetch_profile flat_json idle_host (hub_provider hub_serve) ''tok'' hub_world"

theorem verified_email_justified_witness:
  "\<exists>profile w'. hub_profile = (Inr profile, w') \<and> up_subject profile = ''42'' \<and> up_email profile = Some ''new'' \<and>
     (\<exists>list raw. ac_verified_email_list hub_config = Some list \<and> list_vouches flat_json list raw ''new'')"
proof -
  have "(case fst hub_profile of Inr p \<Rightarrow> up_subject p = ''42'' \<and> up_email p = Some ''new'' \<and> up_email_verified p = Some True
      | Inl _ \<Rightarrow> False)" by code_simp
  then obtain profile w' where p: "hub_profile = (Inr profile, w')" "up_subject profile = ''42''" "up_email profile = Some ''new''"
    "up_email_verified profile = Some True" by (cases "fst hub_profile") (auto simp: prod_eq_iff)
  have config: "ap_config (hub_provider hub_serve) = hub_config" by (simp add: hub_provider_def)
  have "\<not> profile_vouches flat_json (ac_profile hub_config) raw a" for raw a
    by (simp add: profile_vouches_def hub_config_def github_def)
  with verified_email_justified [OF p(1) [unfolded hub_profile_def]] p show ?thesis unfolding config by auto
qed

end
