(* ===== verification/Token_Status.thy ===== *)
theory Token_Status
  imports Principal_Reference
begin

text \<open>
  Periodic re-authorization (\<open>ReauthorizationPolicy\<close> of \<open>src/token_status.rs\<close>) and the settable
  clock of \<open>src/clock.rs\<close>. The re-authorization deadline multiplies a number of seconds by an
  \<open>f64\<close> fraction; the floating-point type and that product are parameters, and nothing is assumed of
  them: the bounds hold for every rounding.
\<close>

section \<open>Re-authorization deadlines\<close>

record 'f float_ops =
  fl_is_finite :: "'f \<Rightarrow> bool"
  fl_scaled_ceil :: "int \<Rightarrow> 'f \<Rightarrow> int"

record 'f ReauthorizationPolicy =
  ra_min_interval :: duration
  ra_lifetime_fraction :: 'f
  ra_max_connection_ttl :: "duration option"
  ra_failure_mode :: StatusCheckFailureMode

definition ReauthorizationPolicy_default :: "'f \<Rightarrow> 'f ReauthorizationPolicy" where
  "ReauthorizationPolicy_default half =
     \<lparr> ra_min_interval = seconds 60, ra_lifetime_fraction = half, ra_max_connection_ttl = None,
       ra_failure_mode = FailClosed \<rparr>"

text \<open>\<open>fl_scaled_ceil n f\<close> is \<open>(n as f64 * f.clamp(0.01, 1.0)).ceil() as i64\<close>. The block for a token
  with an expiry; no value stands for the early return with an immediate check.\<close>

definition expiry_deadline ::
  "ext \<Rightarrow> 'f float_ops \<Rightarrow> 'f \<Rightarrow> time \<Rightarrow> time \<Rightarrow> time \<Rightarrow> time option" where
  "expiry_deadline E F fraction now expires_at deadline =
     (let remaining = expires_at - now in
      if remaining > 0 then
        Option.bind (time_checked_add E now (seconds (max (fl_scaled_ceil F (whole_seconds remaining) fraction) 1)))
          (\<lambda>candidate.
            let deadline = (if candidate < deadline then candidate else deadline) in
            Some (if expires_at < deadline then expires_at else deadline))
      else Some now)"

definition connection_deadline :: "ext \<Rightarrow> duration \<Rightarrow> time \<Rightarrow> time \<Rightarrow> time option" where
  "connection_deadline E max_ttl connection_started_at deadline =
     Option.bind (time_checked_add E connection_started_at max_ttl) (\<lambda>max_deadline.
       Some (if max_deadline < deadline then max_deadline else deadline))"

definition scheduled_deadline ::
  "ext \<Rightarrow> 'f float_ops \<Rightarrow> 'f ReauthorizationPolicy \<Rightarrow> time \<Rightarrow> AccessTokenMetadata \<Rightarrow> time \<Rightarrow> time option" where
  "scheduled_deadline E F policy now metadata connection_started_at =
     Option.bind (time_checked_add E now (ra_min_interval policy)) (\<lambda>deadline.
     Option.bind (case md_expires_at metadata of
         None \<Rightarrow> Some deadline
       | Some expires_at \<Rightarrow> expiry_deadline E F (ra_lifetime_fraction policy) now expires_at deadline)
     (\<lambda>deadline. case ra_max_connection_ttl policy of
         None \<Rightarrow> Some deadline
       | Some max_ttl \<Rightarrow> connection_deadline E max_ttl connection_started_at deadline))"

definition next_deadline ::
  "ext \<Rightarrow> 'f float_ops \<Rightarrow> 'f ReauthorizationPolicy \<Rightarrow> time \<Rightarrow> AccessTokenMetadata \<Rightarrow> time \<Rightarrow> time" where
  "next_deadline E F policy now metadata connection_started_at =
     (if ra_min_interval policy \<le> 0 \<or> \<not> fl_is_finite F (ra_lifetime_fraction policy) \<or>
         is_some_and (\<lambda>ttl. ttl \<le> 0) (ra_max_connection_ttl policy)
      then now
      else case scheduled_deadline E F policy now metadata connection_started_at of
          None \<Rightarrow> now
        | Some deadline \<Rightarrow> deadline)"

lemma next_deadline_cases:
  "next_deadline E F policy now md started = now \<or>
   scheduled_deadline E F policy now md started = Some (next_deadline E F policy now md started)"
  by (simp add: next_deadline_def split: option.split)

lemma added_second_later:
  assumes "time_laws E" "time_checked_add E t (seconds (max k 1)) = Some r"
  shows "t < r"
  using time_lawsD(1) [OF assms] by (simp add: seconds_def)

lemma expiry_deadline_Some:
  assumes "time_laws E" "expiry_deadline E F f now e d = Some r" "now < d"
  shows "r \<le> d \<and> now \<le> r \<and> r \<le> max now e"
proof (cases "now < e")
  case True
  with assms(2) obtain c where "time_checked_add E now (seconds (max (fl_scaled_ceil F (whole_seconds (e - now)) f) 1)) = Some c"
    and r: "r = min e (min c d)"
    by (auto simp: expiry_deadline_def Let_def bind_eq_Some_conv min_def)
  from added_second_later [OF assms(1) this(1)] have "now < c" .
  with True r assms(3) show ?thesis by auto
next
  case False
  with assms show ?thesis by (simp add: expiry_deadline_def)
qed

lemma connection_deadline_Some:
  assumes "time_laws E" "connection_deadline E ttl started d = Some r"
  shows "r = min d (started + ttl)"
  using assms(2) time_lawsD(1) [OF assms(1)]
  by (fastforce simp: connection_deadline_def bind_eq_Some_conv min_def)

text \<open>A re-authorization check is never postponed past what the policy allows: the deadline is at most
  the minimum interval away, never after the expiry of a live token or the end of the connection's
  maximal lifetime, immediate for an expired token and for any unusable setting; and, as long as the
  connection is within its maximal lifetime, a deadline is never in the past.\<close>

theorem next_deadline_bounds:
  assumes "time_laws E" "0 < ra_min_interval policy"
  shows "next_deadline E F policy now md started \<le> now + ra_min_interval policy \<and>
    (\<forall>e. md_expires_at md = Some e \<longrightarrow> next_deadline E F policy now md started \<le> max now e) \<and>
    (\<forall>ttl. ra_max_connection_ttl policy = Some ttl \<longrightarrow>
       next_deadline E F policy now md started \<le> max now (started + ttl) \<and>
       (now \<le> started + ttl \<longrightarrow> now \<le> next_deadline E F policy now md started)) \<and>
    (ra_max_connection_ttl policy = None \<longrightarrow> now \<le> next_deadline E F policy now md started)"
proof (cases "next_deadline E F policy now md started = now")
  case True
  with assms(2) show ?thesis by simp
next
  case False
  with next_deadline_cases obtain d0 d1 where d0: "time_checked_add E now (ra_min_interval policy) = Some d0"
    and d1: "(case md_expires_at md of None \<Rightarrow> Some d0
        | Some e \<Rightarrow> expiry_deadline E F (ra_lifetime_fraction policy) now e d0) = Some d1"
    and d: "(case ra_max_connection_ttl policy of None \<Rightarrow> Some d1 | Some ttl \<Rightarrow> connection_deadline E ttl started d1) =
        Some (next_deadline E F policy now md started)"
    unfolding scheduled_deadline_def bind_eq_Some_conv by metis
  from time_lawsD(1) [OF assms(1) d0] assms(2) have d0': "d0 = now + ra_min_interval policy" "now < d0" by simp_all
  have d1': "d1 \<le> d0 \<and> now \<le> d1 \<and> (\<forall>e. md_expires_at md = Some e \<longrightarrow> d1 \<le> max now e)"
    using d1 d0'(2) expiry_deadline_Some [OF assms(1) _ d0'(2), of F] by (cases "md_expires_at md") auto
  show ?thesis
  proof (cases "ra_max_connection_ttl policy")
    case None
    with d have "next_deadline E F policy now md started = d1" by simp
    with None d0' d1' show ?thesis by auto
  next
    case (Some ttl)
    with d have "next_deadline E F policy now md started = min d1 (started + ttl)"
      using connection_deadline_Some [OF assms(1)] by simp
    with Some d0' d1' show ?thesis by (auto simp: min_le_iff_disj)
  qed
qed

section \<open>The settable clock\<close>

text \<open>The mutex of a \<open>FixedClock\<close>; a panic while it is held poisons it. No value stands for a panic.\<close>

record FixedClock =
  fc_now :: time
  fc_poisoned :: bool

definition FixedClock_new :: "time \<Rightarrow> FixedClock" where
  "FixedClock_new now = \<lparr> fc_now = now, fc_poisoned = False \<rparr>"

definition fixed_set :: "time \<Rightarrow> FixedClock \<Rightarrow> unit option \<times> FixedClock" where
  "fixed_set now c = (if fc_poisoned c then (None, c) else (Some (), c \<lparr> fc_now := now \<rparr>))"

definition fixed_advance_seconds :: "ext \<Rightarrow> int \<Rightarrow> FixedClock \<Rightarrow> unit option \<times> FixedClock" where
  "fixed_advance_seconds E delta c =
     (if fc_poisoned c then (None, c)
      else case time_checked_add E (fc_now c) (seconds delta) of
        Some t \<Rightarrow> (Some (), c \<lparr> fc_now := t \<rparr>)
      | None \<Rightarrow> (None, c \<lparr> fc_poisoned := True \<rparr>))"

definition fixed_now :: "FixedClock \<Rightarrow> time option" where
  "fixed_now c = (if fc_poisoned c then None else Some (fc_now c))"

text \<open>A run of advances that does not panic adds up.\<close>

fun advance_all :: "ext \<Rightarrow> int list \<Rightarrow> FixedClock \<Rightarrow> FixedClock" where
  "advance_all E [] c = c"
| "advance_all E (d # ds) c = advance_all E ds (snd (fixed_advance_seconds E d c))"

lemma poisoned_stays: "fc_poisoned c \<Longrightarrow> advance_all E ds c = c"
  by (induction ds) (auto simp: fixed_advance_seconds_def)

lemma advances_add_up:
  assumes "time_laws E" "fixed_now (advance_all E ds c) = Some t"
  shows "t = fc_now c + seconds (sum_list ds)"
  using assms(2)
proof (induction ds arbitrary: c)
  case Nil
  then show ?case by (simp add: fixed_now_def seconds_def split: if_splits)
next
  case (Cons d ds)
  show ?case
  proof (cases "time_checked_add E (fc_now c) (seconds d)")
    case None
    with Cons.prems show ?thesis
      by (auto simp: fixed_advance_seconds_def fixed_now_def poisoned_stays split: if_splits)
  next
    case (Some u)
    with Cons.prems have "\<not> fc_poisoned c"
      by (auto simp: fixed_advance_seconds_def fixed_now_def poisoned_stays split: if_splits)
    with Some Cons.prems Cons.IH [of "c \<lparr> fc_now := u \<rparr>"] time_lawsD(1) [OF assms(1) Some] show ?thesis
      by (simp add: fixed_advance_seconds_def seconds_def algebra_simps)
  qed
qed

end
