(* ===== verification/Redaction.thy ===== *)
theory Redaction
  imports Oauth2 Delegation Keys Totp Role_Scope
begin

text \<open>
  The hand-written \<open>Debug\<close> implementations, which the source uses to keep credentials out of logs. The
  calls of the standard formatter are a tree: a struct with its named fields, a list, an option, a
  text. A leaf of a type whose \<open>Debug\<close> is derived carries the value itself, since such an
  implementation prints every field. The rendering of the tree as text is the standard library's; two
  values with equal trees are printed alike. The theorems say which part of a value its tree
  determines, and so what a log line can disclose.
\<close>

section \<open>Formatter trees\<close>

datatype shown =
    ShAssuranceDenialCode AssuranceDenialCode
  | ShClientJwtAlgorithm ClientJwtAlgorithm
  | ShClientJwtClaims ClientJwtClaims
  | ShScopeClaimFormat AccessTokenScopeClaimFormat
  | ShLegacyScopeClaims LegacyScopeClaims
  | ShRateLimitConfig AuthRateLimitConfig
  | ShProviderKind OidcProviderKind
  | ShResponseMode OAuthResponseMode
  | ShAuthMethod TokenEndpointAuthMethod
  | ShTenant MicrosoftEntraTenant
  | ShReference PrincipalReference
  | ShDelegationBinding SessionBoundDelegationBinding
  | ShConfirmation ConfirmationClaims
  | ShKeyRefreshPolicy KeyRefreshPolicy
  | ShRateLimitFlow AuthRateLimitFlow
  | ShRateLimitBucket AuthRateLimitBucket
  | ShPrincipalKind ApiTokenPrincipalKind
  | ShJsonMap "(string \<times> JsonValue) list"
  | ShPrompt OidcPrompt
  | ShProfileMapping OAuth2ProfileMapping
  | ShEmailList OAuth2VerifiedEmailList
  | ShUser AuthUser
  | ShUuid uuid
  | ShTime time
  | ShDuration duration

datatype debug =
    DStr string
  | DInt int
  | DBool bool
  | DShown shown
  | DOption "debug option"
  | DList "debug list"
  | DUnit string
  | DStruct string "(string \<times> debug) list"
  | DStruct_non_exhaustive string "(string \<times> debug) list"

definition redacted :: debug where
  "redacted = DStr ''[redacted]''"

abbreviation DOpt :: "('a \<Rightarrow> debug) \<Rightarrow> 'a option \<Rightarrow> debug" where
  "DOpt f x \<equiv> DOption (map_option f x)"

abbreviation DStrs :: "string list \<Rightarrow> debug" where
  "DStrs xs \<equiv> DList (map DStr xs)"

abbreviation DRedactedOpt :: "'a option \<Rightarrow> debug" where
  "DRedactedOpt x \<equiv> DOpt (\<lambda>_. redacted) x"

abbreviation DLen :: "'a list \<Rightarrow> debug" where
  "DLen xs \<equiv> DInt (int (length xs))"

section \<open>Sessions, tokens and one-time secrets\<close>

definition debug_AuthRateLimitKey :: "AuthRateLimitKey \<Rightarrow> debug" where
  "debug_AuthRateLimitKey x = DStruct ''AuthRateLimitKey''
     [(''flow'', DShown (ShRateLimitFlow (rk_flow x))),
      (''bucket'', DShown (ShRateLimitBucket (rk_bucket x))),
      (''value_hash'', redacted)]"

definition debug_IssuedApiToken :: "IssuedApiToken \<Rightarrow> debug" where
  "debug_IssuedApiToken x = DStruct ''IssuedApiToken''
     [(''token_id'', DShown (ShUuid (ia_token_id x))),
      (''token'', redacted),
      (''display_name'', DStr (ia_display_name x)),
      (''subject'', DStr (ia_subject x)),
      (''principal_kind'', DShown (ShPrincipalKind (ia_principal_kind x))),
      (''scopes'', DStrs (ia_scopes x)),
      (''audience'', DOpt DStr (ia_audience x)),
      (''resource_type'', DOpt DStr (ia_resource_type x)),
      (''resource_id'', DOpt DStr (ia_resource_id x)),
      (''created_at'', DShown (ShTime (ia_created_at x))),
      (''expires_at'', DShown (ShTime (ia_expires_at x)))]"

definition debug_AuthPayload :: "AuthPayload \<Rightarrow> debug" where
  "debug_AuthPayload x = DStruct ''AuthPayload''
     [(''user'', DShown (ShUser (pl_user x))),
      (''access_token'', redacted),
      (''access_token_expires_at'', DShown (ShTime (pl_access_token_expires_at x))),
      (''refresh_token'', redacted),
      (''refresh_token_expires_at'', DShown (ShTime (pl_refresh_token_expires_at x)))]"

definition debug_IssuedPurposeToken :: "IssuedPurposeToken \<Rightarrow> debug" where
  "debug_IssuedPurposeToken x = DStruct ''IssuedPurposeToken''
     [(''token'', redacted),
      (''subject'', DStr (ip_subject x)),
      (''purpose'', DStr (ip_purpose x)),
      (''audience'', DStr (ip_audience x)),
      (''session_id'', DOpt (DShown \<circ> ShUuid) (ip_session_id x)),
      (''scopes'', DStrs (ip_scopes x)),
      (''claims'', DShown (ShJsonMap (ip_claims x))),
      (''expires_at'', DShown (ShTime (ip_expires_at x)))]"

definition debug_PasswordResetToken :: "PasswordResetToken \<Rightarrow> debug" where
  "debug_PasswordResetToken x = DStruct ''PasswordResetToken''
     [(''user_id'', DStr (prt_user_id x)),
      (''token_id'', DShown (ShUuid (prt_token_id x))),
      (''token'', redacted),
      (''expires_at'', DShown (ShTime (prt_expires_at x)))]"

definition debug_TotpSecret :: "TotpSecret \<Rightarrow> debug" where
  "debug_TotpSecret x = DStruct ''TotpSecret''
     [(''raw_secret'', redacted),
      (''base32_secret'', redacted)]"

definition debug_TotpProvisioning :: "TotpProvisioning \<Rightarrow> debug" where
  "debug_TotpProvisioning x = DStruct ''TotpProvisioning''
     [(''issuer'', DStr (tp_issuer x)),
      (''account_name'', DStr (tp_account_name x)),
      (''secret'', redacted),
      (''uri'', redacted)]"

definition debug_AccessTokenOnlyGrant :: "AccessTokenOnlyGrant \<Rightarrow> debug" where
  "debug_AccessTokenOnlyGrant x = DStruct ''AccessTokenOnlyGrant''
     [(''access_token'', redacted),
      (''access_token_expires_at'', DShown (ShTime (gr_access_token_expires_at x))),
      (''user'', DShown (ShUser (gr_user x)))]"

definition debug_SessionBoundAccessTokenOnlyRequest :: "SessionBoundAccessTokenOnlyRequest \<Rightarrow> debug" where
  "debug_SessionBoundAccessTokenOnlyRequest x = DStruct ''SessionBoundAccessTokenOnlyRequest''
     [(''reference'', DShown (ShReference (sb_reference x))),
      (''roles'', DStrs (sb_roles x)),
      (''scopes'', DStrs (sb_scopes x)),
      (''binding'', DShown (ShDelegationBinding (sb_binding x))),
      (''ttl'', DOpt (DShown \<circ> ShDuration) (sb_ttl x)),
      (''cnf'', DOpt (DShown \<circ> ShConfirmation) (sb_cnf x)),
      (''additional_claim_names'', DStrs (map fst (sb_additional_claims x))),
      (''fixed_audience'', DOpt DStr (sb_fixed_audience x))]"

definition debug_FixedAudienceDelegation :: "'st FixedAudienceDelegation \<Rightarrow> debug" where
  "debug_FixedAudienceDelegation x = DStruct ''FixedAudienceDelegation''
     [(''audience'', DStr (fd_audience x)),
      (''owner_live'', DBool (fd_owner x \<noteq> None))]"

definition debug_VerifiedActiveUserSession :: "VerifiedActiveUserSession \<Rightarrow> debug" where
  "debug_VerifiedActiveUserSession x = DStruct ''VerifiedActiveUserSession''
     [(''reference'', DShown (ShReference (vs_reference x))),
      (''user'', DShown (ShUser (vs_user x))),
      (''session_version'', DStr (vs_session_version x)),
      (''absolute_expires_at'', DShown (ShTime (vs_absolute_expires_at x))),
      (''idle_expires_at'', DOpt (DShown \<circ> ShTime) (vs_idle_expires_at x)),
      (''verified_at'', DShown (ShTime (vs_verified_at x)))]"

definition debug_AssuranceDenial :: "AssuranceDenial \<Rightarrow> debug" where
  "debug_AssuranceDenial x = DStruct ''AssuranceDenial''
     [(''code'', DShown (ShAssuranceDenialCode (dn_code x))),
      (''message'', DStr (denial_public_message x))]"

section \<open>Keys and configuration\<close>

text \<open>The source iterates over a hash map: the order of the key ids is that of the list of the model.\<close>

definition debug_StaticRs256Key :: "StaticRs256Key \<Rightarrow> debug" where
  "debug_StaticRs256Key x = DStruct ''StaticRs256Key''
     [(''kid'', DOpt DStr (sr_kid x)),
      (''decoding_key'', redacted)]"

definition debug_StaticHs256Key :: "StaticHs256Key \<Rightarrow> debug" where
  "debug_StaticHs256Key x = DStruct ''StaticHs256Key''
     [(''kid'', DOpt DStr (sh_kid x)),
      (''decoding_key'', redacted)]"

definition debug_StaticJwksKeySet :: "StaticJwksKeySet \<Rightarrow> debug" where
  "debug_StaticJwksKeySet x = DStruct ''StaticJwksKeySet''
     [(''kids'', DStrs (map fst (js_keys_by_kid x))),
      (''single_key'', DOpt (DOpt DStr \<circ> fst) (js_single_key x))]"

definition debug_RotatingJwksKeySet :: "KeyRefreshPolicy \<Rightarrow> RotatingMutex \<Rightarrow> debug" where
  "debug_RotatingJwksKeySet policy inner =
     DStruct_non_exhaustive ''RotatingJwksKeySet'' [(''policy'', DShown (ShKeyRefreshPolicy policy))]"

fun debug_JwtSigningConfig :: "JwtSigningConfig \<Rightarrow> debug" where
  "debug_JwtSigningConfig (Hs256 secret) = DStruct ''Hs256'' [(''secret'', redacted)]"
| "debug_JwtSigningConfig (Rs256 private_key_pem public_key_pem key_id) = DStruct ''Rs256''
     [(''private_key_pem'', redacted),
      (''public_key_pem'', redacted),
      (''key_id'', DStr key_id)]"

definition debug_AuthConfig :: "AuthConfig \<Rightarrow> debug" where
  "debug_AuthConfig x = DStruct ''AuthConfig''
     [(''issuer'', DStr (cf_issuer x)),
      (''audience'', DStr (cf_audience x)),
      (''jwt_secret'', redacted),
      (''jwt_signing'', debug_JwtSigningConfig (cf_jwt_signing x)),
      (''access_token_ttl'', DShown (ShDuration (cf_access_token_ttl x))),
      (''max_access_token_ttl'', DShown (ShDuration (cf_max_access_token_ttl x))),
      (''max_session_bound_delegation_ttl'', DShown (ShDuration (cf_max_session_bound_delegation_ttl x))),
      (''refresh_token_ttl'', DShown (ShDuration (cf_refresh_token_ttl x))),
      (''access_token_scope_claim_format'', DShown (ShScopeClaimFormat (cf_access_token_scope_claim_format x))),
      (''legacy_scope_claims'', DShown (ShLegacyScopeClaims (cf_legacy_scope_claims x))),
      (''rate_limits'', DShown (ShRateLimitConfig (cf_rate_limits x)))]"

definition debug_ClientJwtSigner :: "ClientJwtSigner \<Rightarrow> debug" where
  "debug_ClientJwtSigner x = DStruct ''ClientJwtSigner''
     [(''algorithm'', DShown (ShClientJwtAlgorithm (sn_algorithm x))),
      (''key'', redacted),
      (''claims'', DShown (ShClientJwtClaims (sn_claims x)))]"

definition debug_OidcProviderConfig :: "OidcProviderConfig \<Rightarrow> debug" where
  "debug_OidcProviderConfig x = DStruct ''OidcProviderConfig''
     [(''provider_name'', DStr (oc_provider_name x)),
      (''provider_kind'', DShown (ShProviderKind (oc_provider_kind x))),
      (''discovery_url'', DStr (oc_discovery_url x)),
      (''client_id'', DStr (oc_client_id x)),
      (''client_secret'', DRedactedOpt (oc_client_secret x)),
      (''redirect_uri'', DStr (oc_redirect_uri x)),
      (''requested_scopes'', DStrs (oc_requested_scopes x)),
      (''request_offline_access'', DBool (oc_request_offline_access x)),
      (''allowed_tenants'', DStrs (oc_allowed_tenants x)),
      (''allowed_issuers'', DStrs (oc_allowed_issuers x)),
      (''allow_consumer_accounts'', DBool (oc_allow_consumer_accounts x)),
      (''jwks_cache_ttl'', DShown (ShDuration (oc_jwks_cache_ttl x))),
      (''discovery_cache_ttl'', DShown (ShDuration (oc_discovery_cache_ttl x))),
      (''jwks_forced_refresh_cooldown'', DShown (ShDuration (oc_jwks_forced_refresh_cooldown x))),
      (''allowed_additional_audiences'', DStrs (oc_allowed_additional_audiences x)),
      (''clock_skew'', DShown (ShDuration (oc_clock_skew x))),
      (''state_ttl'', DShown (ShDuration (oc_state_ttl x))),
      (''allowed_id_token_algs'', DStrs (oc_allowed_id_token_algs x)),
      (''response_mode'', DShown (ShResponseMode (oc_response_mode x))),
      (''token_endpoint_auth_method'', DShown (ShAuthMethod (oc_token_endpoint_auth_method x))),
      (''client_jwt'', DOpt debug_ClientJwtSigner (oc_client_jwt x))]"

definition debug_MicrosoftEntraConfig :: "MicrosoftEntraConfig \<Rightarrow> debug" where
  "debug_MicrosoftEntraConfig x = DStruct ''MicrosoftEntraConfig''
     [(''provider_name'', DStr (me_provider_name x)),
      (''tenant'', DShown (ShTenant (me_tenant x))),
      (''client_id'', DStr (me_client_id x)),
      (''client_secret'', DRedactedOpt (me_client_secret x)),
      (''redirect_uri'', DStr (me_redirect_uri x)),
      (''allowed_tenants'', DStrs (me_allowed_tenants x)),
      (''allowed_issuers'', DStrs (me_allowed_issuers x)),
      (''requested_scopes'', DStrs (me_requested_scopes x)),
      (''request_offline_access'', DBool (me_request_offline_access x)),
      (''jwks_cache_ttl'', DShown (ShDuration (me_jwks_cache_ttl x))),
      (''discovery_cache_ttl'', DShown (ShDuration (me_discovery_cache_ttl x))),
      (''jwks_forced_refresh_cooldown'', DShown (ShDuration (me_jwks_forced_refresh_cooldown x))),
      (''allowed_additional_audiences'', DStrs (me_allowed_additional_audiences x)),
      (''clock_skew'', DShown (ShDuration (me_clock_skew x))),
      (''state_ttl'', DShown (ShDuration (me_state_ttl x))),
      (''allow_consumers'', DBool (me_allow_consumers x))]"

definition debug_OAuth2ProviderConfig :: "OAuth2ProviderConfig \<Rightarrow> debug" where
  "debug_OAuth2ProviderConfig x = DStruct ''OAuth2ProviderConfig''
     [(''provider_name'', DStr (ac_provider_name x)),
      (''authorization_endpoint'', DStr (ac_authorization_endpoint x)),
      (''token_endpoint'', DStr (ac_token_endpoint x)),
      (''userinfo_endpoint'', DStr (ac_userinfo_endpoint x)),
      (''client_id'', DStr (ac_client_id x)),
      (''client_secret'', DRedactedOpt (ac_client_secret x)),
      (''client_jwt'', DOpt debug_ClientJwtSigner (ac_client_jwt x)),
      (''token_endpoint_auth_method'', DShown (ShAuthMethod (ac_token_endpoint_auth_method x))),
      (''redirect_uri'', DStr (ac_redirect_uri x)),
      (''scopes'', DStrs (ac_scopes x)),
      (''state_ttl'', DShown (ShDuration (ac_state_ttl x))),
      (''profile'', DShown (ShProfileMapping (ac_profile x))),
      (''verified_email_list'', DOpt (DShown \<circ> ShEmailList) (ac_verified_email_list x))]"

definition debug_OAuth2Provider :: "'st OAuth2Provider \<Rightarrow> debug" where
  "debug_OAuth2Provider x = DStruct_non_exhaustive ''OAuth2Provider''
     [(''config'', debug_OAuth2ProviderConfig (ap_config x))]"

definition debug_StaticRoleScopeExpansion :: "StaticRoleScopeExpansion \<Rightarrow> debug" where
  "debug_StaticRoleScopeExpansion x = DStruct ''StaticRoleScopeExpansion''
     [(''version'', DStr (se_version x)),
      (''role_count'', DLen (se_role_scopes x))]"

section \<open>External login\<close>

definition debug_PkcePair :: "PkcePair \<Rightarrow> debug" where
  "debug_PkcePair x = DStruct ''PkcePair''
     [(''code_verifier'', redacted),
      (''code_challenge'', redacted)]"

fun debug_OidcIdTokenClaimRequest :: "OidcIdTokenClaimRequest \<Rightarrow> debug" where
  "debug_OidcIdTokenClaimRequest EssentialAuthTime = DUnit ''EssentialAuthTime''"
| "debug_OidcIdTokenClaimRequest (EssentialAcr values) = DStruct ''EssentialAcr'' [(''value_count'', DLen values)]"
| "debug_OidcIdTokenClaimRequest (EssentialAcrs value) = DStruct ''EssentialAcrs'' [(''value'', redacted)]"

definition debug_OidcAuthorizationOptions :: "OidcAuthorizationOptions \<Rightarrow> debug" where
  "debug_OidcAuthorizationOptions x = DStruct ''OidcAuthorizationOptions''
     [(''prompt'', DList (map (DShown \<circ> ShPrompt) (ao_prompt x))),
      (''max_age'', DOpt (DShown \<circ> ShDuration) (ao_max_age x)),
      (''acr_value_count'', DLen (ao_acr_values x)),
      (''id_token_claim_count'', DLen (ao_id_token_claims x))]"

definition debug_OidcAuthorizationPolicy :: "OidcAuthorizationPolicy \<Rightarrow> debug" where
  "debug_OidcAuthorizationPolicy x = DStruct ''OidcAuthorizationPolicy''
     [(''version'', DInt (int (pl_version x))),
      (''prompt'', DList (map (DShown \<circ> ShPrompt) (pl_prompt x))),
      (''max_age_seconds'', DOpt (DInt \<circ> uint) (pl_max_age_seconds x)),
      (''acr_value_count'', DLen (pl_acr_values x)),
      (''essential_auth_time'', DBool (pl_essential_auth_time x)),
      (''essential_acr_value_count'', DLen (pl_essential_acr_values x)),
      (''essential_acrs'', DBool (pl_essential_acrs_value x \<noteq> None))]"

definition debug_OidcAuthorizationOutcome :: "OidcAuthorizationOutcome \<Rightarrow> debug" where
  "debug_OidcAuthorizationOutcome x = DStruct ''OidcAuthorizationOutcome''
     [(''policy'', DOpt debug_OidcAuthorizationPolicy (oo_policy x)),
      (''enforced_auth_time'', DOpt (DShown \<circ> ShTime) (oo_enforced_auth_time x)),
      (''matched_acr'', DRedactedOpt (oo_matched_acr x)),
      (''matched_acrs'', DRedactedOpt (oo_matched_acrs x))]"

definition debug_OidcAuthorizationRequest :: "OidcAuthorizationRequest \<Rightarrow> debug" where
  "debug_OidcAuthorizationRequest x = DStruct ''OidcAuthorizationRequest''
     [(''authorization_url'', redacted),
      (''provider_name'', DStr (aq_provider_name x)),
      (''state'', redacted),
      (''nonce'', redacted),
      (''code_verifier'', redacted),
      (''code_challenge'', redacted),
      (''authorization_policy'', DOpt debug_OidcAuthorizationPolicy (aq_authorization_policy x)),
      (''expires_at'', DShown (ShTime (aq_expires_at x)))]"

definition debug_OidcCallbackInput :: "OidcCallbackInput \<Rightarrow> debug" where
  "debug_OidcCallbackInput x = DStruct ''OidcCallbackInput''
     [(''code'', DRedactedOpt (ci_code x)),
      (''state'', DRedactedOpt (ci_state x)),
      (''error'', DRedactedOpt (ci_error x)),
      (''error_description'', DRedactedOpt (ci_error_description x))]"

definition debug_OidcTokenResponse :: "OidcTokenResponse \<Rightarrow> debug" where
  "debug_OidcTokenResponse x = DStruct ''OidcTokenResponse''
     [(''access_token'', DRedactedOpt (tr_access_token x)),
      (''refresh_token'', DRedactedOpt (tr_refresh_token x)),
      (''id_token'', redacted),
      (''token_type'', DOpt DStr (tr_token_type x)),
      (''expires_in'', DOpt DInt (tr_expires_in x)),
      (''scope'', DOpt DStr (tr_scope x)),
      (''raw'', redacted)]"

definition debug_ValidatedOidcClaims :: "ValidatedOidcClaims \<Rightarrow> debug" where
  "debug_ValidatedOidcClaims x = DStruct ''ValidatedOidcClaims''
     [(''provider_name'', DStr (vc_provider_name x)),
      (''issuer'', DStr (vc_issuer x)),
      (''audiences'', DStrs (vc_audiences x)),
      (''subject'', DStr (vc_subject x)),
      (''external_subject'', DStr (vc_external_subject x)),
      (''expires_at'', DShown (ShTime (vc_expires_at x))),
      (''not_before'', DOpt (DShown \<circ> ShTime) (vc_not_before x)),
      (''issued_at'', DShown (ShTime (vc_issued_at x))),
      (''auth_time'', DOpt (DShown \<circ> ShTime) (vc_auth_time x)),
      (''amr_count'', DOpt DLen (vc_amr x)),
      (''acr'', DRedactedOpt (vc_acr x)),
      (''acrs_count'', DOpt DLen (vc_acrs x)),
      (''nonce'', redacted),
      (''tenant_id'', DOpt DStr (vc_tenant_id x)),
      (''object_id'', DOpt DStr (vc_object_id x)),
      (''email'', DOpt DStr (vc_email x)),
      (''email_verified'', DOpt DBool (vc_email_verified x)),
      (''name'', DOpt DStr (vc_name x)),
      (''preferred_username'', DOpt DStr (vc_preferred_username x)),
      (''role_count'', DLen (vc_roles x)),
      (''group_count'', DLen (vc_groups x)),
      (''raw'', redacted)]"

definition debug_ExternalIdentity :: "ExternalIdentity \<Rightarrow> debug" where
  "debug_ExternalIdentity x = DStruct ''ExternalIdentity''
     [(''provider_name'', DStr (ei_provider_name x)),
      (''external_subject'', DStr (ei_external_subject x)),
      (''user_id'', DStr (ei_user_id x)),
      (''issuer'', DStr (ei_issuer x)),
      (''tenant_id'', DOpt DStr (ei_tenant_id x)),
      (''provider_user_id'', DOpt DStr (ei_provider_user_id x)),
      (''claims_snapshot'', redacted),
      (''created_at'', DShown (ShTime (ei_created_at x))),
      (''updated_at'', DShown (ShTime (ei_updated_at x)))]"

definition debug_OAuthLoginState :: "OAuthLoginState \<Rightarrow> debug" where
  "debug_OAuthLoginState x = DStruct ''OAuthLoginState''
     [(''provider_name'', DStr (ls_provider_name x)),
      (''state_hash'', redacted),
      (''nonce'', redacted),
      (''code_verifier'', redacted),
      (''redirect_uri'', DStr (ls_redirect_uri x)),
      (''scope_count'', DLen (ls_scopes x)),
      (''authorization_policy'', DOpt debug_OidcAuthorizationPolicy (ls_authorization_policy x)),
      (''response_mode'', DShown (ShResponseMode (ls_response_mode x))),
      (''created_at'', DShown (ShTime (ls_created_at x))),
      (''expires_at'', DShown (ShTime (ls_expires_at x))),
      (''consumed_at'', DOpt (DShown \<circ> ShTime) (ls_consumed_at x))]"

definition debug_OidcLoginResult :: "OidcLoginResult \<Rightarrow> debug" where
  "debug_OidcLoginResult x = DStruct ''OidcLoginResult''
     [(''auth'', debug_AuthPayload (lr_auth x)),
      (''claims'', debug_ValidatedOidcClaims (lr_claims x)),
      (''external_identity'', debug_ExternalIdentity (lr_external_identity x)),
      (''token_response'', debug_OidcTokenResponse (lr_token_response x)),
      (''authorization'', debug_OidcAuthorizationOutcome (lr_authorization x))]"

definition debug_OAuth2AuthorizationRequest :: "OAuth2AuthorizationRequest \<Rightarrow> debug" where
  "debug_OAuth2AuthorizationRequest x = DStruct ''OAuth2AuthorizationRequest''
     [(''authorization_url'', redacted),
      (''provider_name'', DStr (ar_provider_name x)),
      (''state'', redacted),
      (''code_verifier'', redacted),
      (''code_challenge'', redacted),
      (''expires_at'', DShown (ShTime (ar_expires_at x)))]"

definition debug_OAuth2TokenResponse :: "OAuth2TokenResponse \<Rightarrow> debug" where
  "debug_OAuth2TokenResponse x = DStruct ''OAuth2TokenResponse''
     [(''access_token'', redacted),
      (''token_type'', DStr (at_token_type x)),
      (''refresh_token'', DRedactedOpt (at_refresh_token x)),
      (''expires_in'', DOpt DInt (at_expires_in x)),
      (''scope'', DOpt DStr (at_scope x)),
      (''raw'', redacted)]"

definition debug_OAuth2UserProfile :: "OAuth2UserProfile \<Rightarrow> debug" where
  "debug_OAuth2UserProfile x = DStruct ''OAuth2UserProfile''
     [(''provider_name'', DStr (up_provider_name x)),
      (''subject'', DStr (up_subject x)),
      (''email'', DOpt DStr (up_email x)),
      (''email_verified'', DOpt DBool (up_email_verified x)),
      (''name'', DOpt DStr (up_name x)),
      (''picture'', DOpt (\<lambda>_. DStr ''[present]'') (up_picture x)),
      (''raw'', redacted)]"

section \<open>What a log line discloses\<close>

lemmas debug_defs =
  debug_AuthPayload_def debug_IssuedApiToken_def debug_IssuedPurposeToken_def debug_PasswordResetToken_def
  debug_TotpSecret_def debug_TotpProvisioning_def debug_AccessTokenOnlyGrant_def debug_AuthRateLimitKey_def
  debug_StaticRs256Key_def debug_StaticHs256Key_def debug_AuthConfig_def debug_ClientJwtSigner_def
  debug_OidcProviderConfig_def debug_MicrosoftEntraConfig_def debug_OAuth2ProviderConfig_def
  debug_OAuth2Provider_def debug_PkcePair_def debug_OidcAuthorizationRequest_def debug_OidcCallbackInput_def
  debug_OidcTokenResponse_def debug_ValidatedOidcClaims_def debug_ExternalIdentity_def
  debug_OAuthLoginState_def debug_OAuth2AuthorizationRequest_def debug_OAuth2TokenResponse_def
  debug_OAuth2UserProfile_def debug_OidcAuthorizationOutcome_def

lemma map_option_redacted: "map_option (\<lambda>_. c) x = map_option (\<lambda>_. c) y \<longleftrightarrow> (x = None \<longleftrightarrow> y = None)"
  by (cases x; cases y) auto

lemma signer_key_hidden:
  "map_option debug_ClientJwtSigner (map_option (sn_key_update f) x) = map_option debug_ClientJwtSigner x"
  by (cases x) (simp_all add: debug_ClientJwtSigner_def)

text \<open>Two sessions are printed alike exactly when they agree on the user and the expiries: a log line
  fixes these and nothing of the tokens.\<close>

theorem payload_debug_exact:
  "debug_AuthPayload p = debug_AuthPayload q \<longleftrightarrow>
     pl_user p = pl_user q \<and> pl_access_token_expires_at p = pl_access_token_expires_at q \<and>
     pl_refresh_token_expires_at p = pl_refresh_token_expires_at q"
  by (auto simp: debug_AuthPayload_def)

text \<open>A stored login state is printed alike exactly when the public fields agree: of the state digest, the
  nonce and the PKCE verifier nothing is printed, of the scopes only their number.\<close>

theorem login_state_debug_exact:
  "debug_OAuthLoginState s = debug_OAuthLoginState t \<longleftrightarrow>
     ls_provider_name s = ls_provider_name t \<and> ls_redirect_uri s = ls_redirect_uri t \<and>
     length (ls_scopes s) = length (ls_scopes t) \<and>
     map_option debug_OidcAuthorizationPolicy (ls_authorization_policy s) =
       map_option debug_OidcAuthorizationPolicy (ls_authorization_policy t) \<and>
     ls_response_mode s = ls_response_mode t \<and> ls_created_at s = ls_created_at t \<and>
     ls_expires_at s = ls_expires_at t \<and> ls_consumed_at s = ls_consumed_at t"
proof -
  have "map_option (DShown \<circ> ShTime) x = map_option (DShown \<circ> ShTime) y \<longleftrightarrow> x = y" for x y
    by (cases x; cases y) auto
  then show ?thesis by (simp add: debug_OAuthLoginState_def)
qed

text \<open>The result of a provider login prints nothing of the credentials inside it: local and provider
  tokens, the nonce, the authentication context, the raw claims and the stored snapshot may be replaced
  by anything (of an option, by anything present) without a visible difference.\<close>

theorem login_result_debug_hides:
  assumes "tr_access_token (lr_token_response r) = Some x1" "tr_refresh_token (lr_token_response r) = Some x2"
    and "vc_acr (lr_claims r) = Some x3"
  shows "debug_OidcLoginResult (r
      \<lparr> lr_auth := (lr_auth r) \<lparr> pl_access_token := a, pl_refresh_token := b \<rparr>,
        lr_claims := (lr_claims r) \<lparr> vc_nonce := n, vc_acr := Some c, vc_raw := j \<rparr>,
        lr_external_identity := (lr_external_identity r) \<lparr> ei_claims_snapshot := k \<rparr>,
        lr_token_response := (lr_token_response r)
          \<lparr> tr_access_token := Some p, tr_refresh_token := Some q, tr_id_token := i, tr_raw := l \<rparr> \<rparr>) =
    debug_OidcLoginResult r"
  using assms by (simp add: debug_OidcLoginResult_def debug_defs)

text \<open>Issued tokens, one-time secrets, verification and signing keys and the secrets of the configurations
  are never printed.\<close>

theorem secrets_debug_hidden:
  "debug_IssuedApiToken (api \<lparr> ia_token := t \<rparr>) = debug_IssuedApiToken api \<and>
   debug_IssuedPurposeToken (purpose \<lparr> ip_token := t \<rparr>) = debug_IssuedPurposeToken purpose \<and>
   debug_PasswordResetToken (reset \<lparr> prt_token := t \<rparr>) = debug_PasswordResetToken reset \<and>
   debug_AccessTokenOnlyGrant (grant \<lparr> gr_access_token := t \<rparr>) = debug_AccessTokenOnlyGrant grant \<and>
   debug_TotpSecret totp = debug_TotpSecret totp' \<and>
   debug_TotpProvisioning (prov \<lparr> tp_secret := t, tp_uri := t' \<rparr>) = debug_TotpProvisioning prov \<and>
   debug_PkcePair pkce = debug_PkcePair pkce' \<and>
   debug_AuthRateLimitKey (key \<lparr> rk_value_hash := t \<rparr>) = debug_AuthRateLimitKey key \<and>
   debug_StaticRs256Key (rsa \<lparr> sr_decoding_key := dk \<rparr>) = debug_StaticRs256Key rsa \<and>
   debug_StaticHs256Key (hmac \<lparr> sh_decoding_key := dk \<rparr>) = debug_StaticHs256Key hmac \<and>
   debug_RotatingJwksKeySet policy inner = debug_RotatingJwksKeySet policy inner' \<and>
   debug_AuthConfig (config \<lparr> cf_jwt_secret := t, cf_jwt_signing := Hs256 t \<rparr>) =
     debug_AuthConfig (config \<lparr> cf_jwt_signing := Hs256 t' \<rparr>) \<and>
   debug_AuthConfig (config \<lparr> cf_jwt_secret := t, cf_jwt_signing := Rs256 t pub kid \<rparr>) =
     debug_AuthConfig (config \<lparr> cf_jwt_signing := Rs256 t' pub' kid \<rparr>) \<and>
   debug_OidcProviderConfig (oidc \<lparr> oc_client_secret := Some t, oc_client_jwt := map_option (sn_key_update f) (oc_client_jwt oidc) \<rparr>) =
     debug_OidcProviderConfig (oidc \<lparr> oc_client_secret := Some t' \<rparr>) \<and>
   debug_MicrosoftEntraConfig (entra \<lparr> me_client_secret := Some t \<rparr>) =
     debug_MicrosoftEntraConfig (entra \<lparr> me_client_secret := Some t' \<rparr>) \<and>
   debug_OAuth2ProviderConfig (oauth \<lparr> ac_client_secret := Some t, ac_client_jwt := map_option (sn_key_update f) (ac_client_jwt oauth) \<rparr>) =
     debug_OAuth2ProviderConfig (oauth \<lparr> ac_client_secret := Some t' \<rparr>) \<and>
   debug_AssuranceDenial (denial \<lparr> dn_internal_detail := t \<rparr>) = debug_AssuranceDenial denial"
  by (intro conjI; simp add: debug_defs signer_key_hidden debug_RotatingJwksKeySet_def debug_AssuranceDenial_def
      denial_public_message_def)

end
