(* ===== verification/Spec2Isabelle.thy ===== *)
theory Spec2Isabelle
  imports Delegation Login_Challenge Password_Reset Totp Combined Role_Scope Password_Work Oauth2
    Token_Status Redaction
begin

text \<open>
  Verification of \<open>agql-auth\<close>, a Rust crate that authenticates the users, services and devices of
  GraphQL applications. The host application supplies the storage, the HTTP client and the clock; the
  crate supplies the authentication flows. Every theory models the source files named below, under
  \<open>src/\<close> of the crate.

  \<^bold>\<open>How the program is put together.\<close> \<open>AuthService\<close> (\<open>service.rs\<close>, \<open>service/*.rs\<close>) is built from an
  \<open>AuthConfig\<close> and owns key material, stores and the password pool. A password login passes the
  rate limiter, verifies the hash on the bounded pool, re-reads the user and stores a refresh token;
  refresh and step-up rotate that token inside its session family; logout revokes it. Access tokens
  are JWTs decoded by \<open>token_decode.rs\<close>, in the issuing service or in a resource server
  (\<open>validator.rs\<close> with the keys of \<open>keys.rs\<close>). API tokens (\<open>api_tokens.rs\<close>) are opaque;
  \<open>combined.rs\<close> accepts both kinds. A decoded principal enters the request data of the GraphQL
  server (\<open>graphql.rs\<close>), where guards (\<open>guards.rs\<close>) decide through scope matchers (\<open>scopes.rs\<close>,
  \<open>scope_match.rs\<close>) and assurance policies (\<open>assurance.rs\<close>). Delegated tokens (\<open>grant.rs\<close>,
  \<open>service/fixed_audience.rs\<close>), login challenges, password resets and one-time passwords build on
  the service. External login (\<open>oidc.rs\<close>, \<open>oauth2.rs\<close>, \<open>oidc_authorization.rs\<close>, \<open>client_auth.rs\<close>)
  sends the browser to a provider, consumes the stored state of the callback, validates what the
  provider returns, links the external identity to a local user and issues a session through the
  service.

  \<^bold>\<open>Modelling conventions.\<close> Structs are records whose field prefix abbreviates the struct, enums are
  datatypes with the source's constructors, an \<open>AuthResult\<close> is a value of \<open>AuthError + 'a\<close>, instants
  and durations are integers of nanoseconds, and machine integers keep their width where it can
  matter (attempt counters, revisions, 64-bit seconds with the checked operations of the source).
  Code outside the crate is a parameter: the record \<^typ>\<open>ext\<close> holds the calendar, digests, encoders
  and the random source, \<open>jwt_lib\<close> the JWT library, further parameters the HTTP client, PEM and
  JWK parsing, JSON (de)serialisation and floating-point products. What a theorem needs of them is a
  named hypothesis (\<open>time_laws\<close>, \<open>jwt_laws\<close>, \<open>id_token_laws\<close>, \<open>decode_law\<close>, ...) that states
  documented behaviour, and every property with such a hypothesis has a witness on concrete functions.

  \<^bold>\<open>Concurrency.\<close> Asynchronous operations are state transformers over the state of the host
  (\<open>Async\<close>). Before every call of a store the host \<open>H\<close> may run: an arbitrary function that stands for
  every other task, request and process. Contracts such as ``un-consumes nothing'' restrict it where
  a theorem needs that, so a theorem about one operation is a theorem about all its interleavings.
  The rate-limit record loop and the password pool are step relations of their own.

  \<^bold>\<open>Theories, in dependency order.\<close>
    \<^item> \<open>Prelude\<close>: the parameter record, strings, Rust's option, list and map operations, ordered
      de-duplication, checked and saturating arithmetic, generic lemmas; \<open>Async\<close>: effectful calls,
      result binding and the relations that interference keeps.
    \<^item> \<open>Errors\<close> (\<open>errors.rs\<close>), \<open>Util\<close> (\<open>util.rs\<close>), \<open>Claims\<close> (\<open>session.rs\<close>, \<open>claims.rs\<close>),
      \<open>Scope_Match\<close> (\<open>scopes.rs\<close>, \<open>scope_match.rs\<close>), \<open>Models\<close> (\<open>models.rs\<close>), \<open>Auth_Config\<close>
      (\<open>config.rs\<close>), \<open>Stores\<close> (\<open>stores.rs\<close> and the in-memory stores of \<open>tests.rs\<close>).
    \<^item> \<open>Memory_Rate_Limit\<close> (\<open>memory_rate_limit.rs\<close>) and \<open>Rate_Limit\<close> (abuse protection of
      \<open>service.rs\<close>): the store with its expiry index refines a bounded time-to-live map, no
      concurrent failure is lost, and repeated failures lock out.
    \<^item> \<open>Jwt\<close>, \<open>Token_Decode\<close> (\<open>token_decode.rs\<close>): what an accepted token satisfies, and the round
      trips of scope claims. \<open>Principal_Reference\<close> (\<open>principal_reference.rs\<close>, \<open>token_status.rs\<close>),
      \<open>Token_Status\<close> (re-authorization deadlines, \<open>clock.rs\<close>).
    \<^item> \<open>Service\<close> and \<open>Session\<close> (\<open>service.rs\<close>, \<open>refresh_reuse_grace.rs\<close>, \<open>refresh_authority.rs\<close>):
      construction, key agreement, token round trip; login, rotation, replay, reuse grace, logout and
      the invariant that a session family has at most one live token; a logout is final. \<open>Assurance\<close>
      (\<open>assurance.rs\<close>), \<open>Delegation\<close> (\<open>grant.rs\<close>, \<open>purpose_grant.rs\<close>, \<open>service/fixed_audience.rs\<close>).
    \<^item> \<open>One_Time\<close>: the contract of every store whose records are consumed at most once, with its
      clients \<open>Login_Challenge\<close>, \<open>Password_Reset\<close>, \<open>Totp\<close> (\<open>service/*.rs\<close>) and \<open>Oauth_State\<close>.
    \<^item> \<open>Graphql\<close> (\<open>graphql.rs\<close>, \<open>guards.rs\<close>, \<open>decision.rs\<close>, \<open>channel.rs\<close>), \<open>Keys\<close> (\<open>keys.rs\<close>),
      \<open>Validator\<close> (\<open>validator.rs\<close>), \<open>Api_Tokens\<close> (\<open>api_tokens.rs\<close>), \<open>Combined\<close> (\<open>combined.rs\<close>),
      \<open>Role_Scope\<close> (\<open>role_scope.rs\<close>), \<open>Password_Work\<close> (\<open>password_work.rs\<close>).
    \<^item> \<open>Url\<close>, \<open>Oidc_Policy\<close> (\<open>oidc_authorization.rs\<close>), \<open>Client_Auth\<close> (\<open>client_auth.rs\<close>), \<open>Oidc_Config\<close>
      (\<open>config.rs\<close>), \<open>Oidc_Provider\<close> and \<open>Oidc_Login\<close> (\<open>oidc.rs\<close>), \<open>Oauth2\<close> (\<open>oauth2.rs\<close>).
      An accepted callback consumed a fresh stored state exactly once and carries an ID token signed by
      a key the provider served, for this client and nonce, under the bound policy; logins keep the
      links of external identities; credentials go to secure URLs only.
    \<^item> \<open>Redaction\<close>: the hand-written \<open>Debug\<close> implementations of all files, and what a log line can
      disclose.
    \<^item> this theory: the composition of the issuing service, the validator of a resource server and its
      guards.

  \<^bold>\<open>Interfaces.\<close> The storage traits and the contracts between components are locales:
  \<open>refresh_token_store\<close>, \<open>rate_limit_store\<close>, \<open>api_token_store\<close>, \<open>one_time_store\<close> and its clients,
  \<open>oauth_state_store\<close>, \<open>scope_matcher\<close>, \<open>access_token_auth\<close>, \<open>provider_host\<close>, \<open>callback_host\<close>,
  \<open>login_host\<close> and \<open>oauth2_host\<close>. Each is interpreted on the crate's own in-memory implementation, or
  on the matcher, validator, service or provider of the model; the witnesses run on those instances.

  \<^bold>\<open>Bounds.\<close> Loops are structural recursions, or recurse on the retry bound the source has:
  \<open>MAX_RATE_LIMIT_CAS_RETRIES\<close> attempts of a compare-and-swap and \<open>MAX_REFRESH_REUSE_GRACE_RETRIES\<close>
  retries of a reissue, so running out of them is the source's own error path. The rejection-sampling
  loop of \<open>generate_numeric_code\<close>, which the source does not bound, consumes a finite stream of
  random bytes, and it is proved to return once enough acceptable bytes have been delivered. The
  unchecked \<open>i64\<close> sum of the one-time-password window wraps as in a release build, and its theorem is
  about the windows in which no sum overflows, where a checked build behaves alike. The
  liveness theorem of the password pool is stated over infinite schedules.

  \<^bold>\<open>Not modelled.\<close> Serialisation attributes (field names in JSON), \<open>Clone\<close>, \<open>From\<close> and setter or
  getter boilerplate without behaviour, the feature gates and re-exports of \<open>lib.rs\<close> and
  \<open>prelude.rs\<close>, the HTTP transport, and the third-party crates (JWT, Argon2, RSA, SHA-2, HMAC,
  base64, serde, the \<open>time\<close> calendar), which are parameters. The test cases, examples and release
  scripts only call the crate.
\<close>

section \<open>Tokens of the service at a resource server\<close>

text \<open>A resource server trusts a service when its validator names the issuer, an audience and the algorithm
  of the service, pins no other key id, reads the scope format the service writes, and resolves the key
  id of the service to a key that verifies its signatures.\<close>

definition validator_trusts ::
  "(EncodingKey \<Rightarrow> DecodingKey \<Rightarrow> bool) \<Rightarrow> 'st AuthService \<Rightarrow> 'rs AccessTokenValidator \<Rightarrow> ResolvedKey \<Rightarrow> bool" where
  "validator_trusts pair V W key \<longleftrightarrow>
     pair (sv_encoding_key V) (rk_decoding_key key) \<and> rk_algorithm key \<in> set (av_allowed_algorithms W) \<and>
     sv_signing_algorithm V \<in> set (av_allowed_algorithms W) \<and>
     one_family (sv_signing_algorithm V) (av_allowed_algorithms W) \<and>
     av_issuer W = cf_issuer (sv_config V) \<and> cf_audience (sv_config V) \<in> set (av_audiences W) \<and>
     is_none_or (\<lambda>kid. sv_signing_key_id V = Some kid) (av_expected_kid W) \<and>
     (cf_access_token_scope_claim_format (sv_config V) = LegacyArray \<longrightarrow> av_legacy_scope_claims W = Accept)"

lemma issued_header:
  assumes "jwt_laws pair wfc tc_iss tc_aud tc_exp (jl_access (sv_jwt V))"
    and "issue_access_token_with_user E H V u issued_at expires_at w = (Inr (token, u'), w')"
  shows "jwt_decode_header (jl_access (sv_jwt V)) token =
    Inr ((Header_new (sv_signing_algorithm V)) \<lparr> hd_kid := sv_signing_key_id V \<rparr>)"
  using assms(2) [unfolded issue_access_token_with_user_def]
  by (rule issue_access_token_Inr) (auto simp: encode_local_jwt_def Let_def intro: jwt_laws_header [OF assms(1)])

lemma trusted_decode_config:
  assumes "validator_trusts pair V W key"
    and "jwt_decode_header (jl_access J) token =
      Inr ((Header_new (sv_signing_algorithm V)) \<lparr> hd_kid := sv_signing_key_id V \<rparr>)"
    and "av_key_resolver W (sv_signing_key_id V) w = (Inr key, w1)"
  obtains cfg where "decode_config_for_token J W token w = (Inr cfg, w1)" "config_fits pair V cfg"
    "dc_claim_requirements cfg = av_claim_requirements W" "dc_leeway_seconds cfg = av_leeway_seconds W"
    "dc_clock cfg = av_clock W"
  using assms
  by (auto simp: decode_config_for_token_def validator_trusts_def config_fits_def Header_new_def bind_def lift_res_def
      require_def ret_def validator_validation_def Validation_new_def issuer_accepted_def audience_accepted_def
      audience_claim_def)

lemma injected_guards:
  "auth_user_from_ctx (inject_user request runtime user) = Inr user"
  "check_guard (RequireScope scope) (inject_user request runtime user) = Inr () \<longleftrightarrow>
     AuthUser_has_scope_with user runtime scope"
  "check_guard (RequireAnyRole roles) (inject_user request runtime user) = Inr () \<longleftrightarrow>
     set roles \<inter> set (au_roles user) \<noteq> {}"
  "check_guard (RequireAllRoles roles) (inject_user request runtime user) = Inr () \<longleftrightarrow>
     set roles \<subseteq> set (au_roles user)"
  by (auto simp: inject_user_def auth_user_from_ctx_def forbid_unless_def matcher_from_ctx_def Let_def
      list_ex_iff list_all_iff)

text \<open>C10: A token issued by the service gives its user exactly the issued rights at every resource server
  that trusts the service: until the expiry (plus the leeway of the validator) the bearer credential is
  accepted, the request carries the user with the issued identity, session and claims, and the guards
  admit exactly the scopes and roles the token was issued with. Service and resource server are
  separate processes with stores and clocks of their own.\<close>

theorem issued_rights_at_resource_server:
  assumes "uuid_laws E" "jwt_laws pair access_claims_repr tc_iss tc_aud tc_exp (jl_access (sv_jwt V))"
    and trusts: "validator_trusts pair V W key"
    and resolves: "av_key_resolver W (sv_signing_key_id V) w = (Inr key, w1)"
    and user: "btm_wf (md_additional (au_token_claims u))"
      "set (map fst (md_additional (au_token_claims u))) \<inter> set ACCESS_TOKEN_CLAIM_NAMES = {}"
      "distinct (au_scopes u)" "distinct (md_authorization_roles (au_token_claims u))"
    and times: "from_unix_timestamp E (unix_timestamp E issued_at) \<noteq> None"
      "from_unix_timestamp E (unix_timestamp E expires_at) \<noteq> None"
      "unix_timestamp E (h_clock H' (av_clock W) (Suc (w_tick w1))) <
         unix_timestamp E expires_at + int (unat (av_leeway_seconds W))"
    and issue: "issue_access_token_with_user E H V u issued_at expires_at w0 = (Inr (token, u'), w0')"
    and claims: "ClaimRequirements_validate (av_claim_requirements W) (au_token_claims u') = Inr ()"
    and raw: "strip_bearer_prefix_with_mode raw (av_bearer_parse_mode W) = Inr token"
  shows "\<exists>request' w2. validator_inject_http_auth E (sv_jwt V) H' W request (Some raw) w = (Inr request', w2) \<and>
    auth_user_from_ctx request' = Inr u' \<and>
    (au_user_id u', au_session_id u', au_roles u', au_scopes u') = (au_user_id u, au_session_id u, au_roles u, au_scopes u) \<and>
    (\<forall>scope. check_guard (RequireScope scope) request' = Inr () \<longleftrightarrow> AuthUser_has_scope_with u (av_scope_matcher W) scope) \<and>
    (\<forall>roles. check_guard (RequireAnyRole roles) request' = Inr () \<longleftrightarrow> set roles \<inter> set (au_roles u) \<noteq> {}) \<and>
    (\<forall>roles. check_guard (RequireAllRoles roles) request' = Inr () \<longleftrightarrow> set roles \<subseteq> set (au_roles u))"
proof -
  obtain cfg where cfg: "decode_config_for_token (sv_jwt V) W token w = (Inr cfg, w1)" "config_fits pair V cfg"
      "dc_claim_requirements cfg = av_claim_requirements W" "dc_leeway_seconds cfg = av_leeway_seconds W"
      "dc_clock cfg = av_clock W"
    using trusted_decode_config [OF trusts issued_header [OF assms(2) issue] resolves] .
  have now: "unix_timestamp E (h_clock H' (av_clock W) (Suc (w_tick w1))) <
      unix_timestamp E expires_at + int (unat (dc_leeway_seconds cfg))" using times(3) cfg(4) by simp
  have req: "ClaimRequirements_validate (dc_claim_requirements cfg) (au_token_claims u') = Inr ()"
    using claims cfg(3) by simp
  from access_token_decodes_config [OF assms(1,2) cfg(2) user times(1,2) now issue req]
  obtain d where "decode_access_token_claims E (jl_access (sv_jwt V)) (h_clock H' SystemClock (w_tick w1))
      (h_clock H' (av_clock W) (Suc (w_tick w1))) token cfg = Inr d" "access_token_claims_to_user E d = Inr u'" by blast
  then have "fst (validator_authenticate_access_token E (sv_jwt V) H' W token w) = Inr u'"
    by (simp add: validator_authenticate_access_token_def cfg(1,5) bind_def now_from_def lift_res_def)
  then obtain w2 where "validator_authenticate_access_token E (sv_jwt V) H' W token w = (Inr u', w2)"
    by (metis prod.collapse)
  then have injected: "validator_inject_http_auth E (sv_jwt V) H' W request (Some raw) w =
      (Inr (inject_user request (av_scope_matcher W) u'), w2)"
    by (simp add: validator_inject_http_auth_def validator_authenticate_bearer_def raw bind_def lift_res_def ret_def)
  have same: "au_user_id u' = au_user_id u \<and> au_session_id u' = au_session_id u \<and> au_roles u' = au_roles u \<and>
      au_scopes u' = au_scopes u"
    using issue [unfolded issue_access_token_with_user_def] by (rule issue_access_token_Inr) simp
  have "AuthUser_has_scope_with u' m scope \<longleftrightarrow> AuthUser_has_scope_with u m scope" for m scope
    by (simp add: AuthUser_has_scope_with_def same)
  with injected same show ?thesis
    by (intro exI [of _ "inject_user request (av_scope_matcher W) u'"] exI [of _ w2] conjI)
      (simp_all only: injected_guards simp_thms)
qed

lemma issued_rights_at_resource_server_witness:
  "\<exists>request' w2. validator_inject_http_auth std_ext (sv_jwt demo_access_service) idle_host demo_validator empty_data
      (Some ''token'') \<lparr> w_store = (), w_tick = 0, w_fresh = 0 \<rparr> = (Inr request', w2) \<and>
    check_guard (RequireScope ''read'') request' = Inr () \<and> check_guard (RequireAllRoles [''root'']) request' \<noteq> Inr ()"
proof -
  let ?key = "\<lparr> rk_decoding_key = DecodingSecret demo_secret, rk_algorithm = HS256, rk_kid = None \<rparr>"
  let ?w = "\<lparr> w_store = (), w_tick = 0, w_fresh = 0 \<rparr>"
  have laws: "jwt_laws demo_pair access_claims_repr tc_iss tc_aud tc_exp (jl_access (sv_jwt demo_access_service))"
    unfolding demo_access_service_def by (rule demo_access_laws) simp
  have trusts: "validator_trusts demo_pair demo_access_service demo_validator ?key"
    by (simp add: validator_trusts_def demo_access_service_def demo_service_def demo_config_simps demo_validator_def demo_pair_def)
  have resolves: "av_key_resolver demo_validator (sv_signing_key_id demo_access_service) ?w = (Inr ?key, ?w)"
    by (simp add: demo_validator_def static_resolver_def static_hs256_resolve_def lift_res_def)
  have bearer: "strip_bearer_prefix_with_mode ''token'' (av_bearer_parse_mode demo_validator) = Inr ''token''"
    unfolding demo_validator_def by simp code_simp
  have unrestricted: "ClaimRequirements_validate (av_claim_requirements demo_validator) m = Inr ()" for m
    by (simp add: demo_validator_def no_claim_requirements)
  have now: "unix_timestamp std_ext (h_clock idle_host (av_clock demo_validator) (Suc (w_tick ?w))) <
      unix_timestamp std_ext (seconds 900) + int (unat (av_leeway_seconds demo_validator))"
    by (simp add: demo_validator_def idle_host_def) code_simp
  have times: "from_unix_timestamp std_ext (unix_timestamp std_ext 0) \<noteq> None"
    "from_unix_timestamp std_ext (unix_timestamp std_ext (seconds 900)) \<noteq> None" by code_simp+
  have user: "btm_wf (md_additional (au_token_claims demo_user))"
    "set (map fst (md_additional (au_token_claims demo_user))) \<inter> set ACCESS_TOKEN_CLAIM_NAMES = {}"
    "distinct (au_scopes demo_user)" "distinct (md_authorization_roles (au_token_claims demo_user))"
    by (simp_all add: demo_user_def AccessTokenMetadata_default_def)
  have scope: "AuthUser_has_scope_with demo_user (av_scope_matcher demo_validator) ''read''"
    and role: "\<not> set [''root''] \<subseteq> set (au_roles demo_user)"
    by (simp_all add: demo_user_def demo_validator_def) code_simp
  show ?thesis
    using issued_rights_at_resource_server [OF std_ext_uuid_laws laws trusts resolves user times now demo_access_issue
        unrestricted bearer, of empty_data] scope role by blast
qed

end
